(* ===== verification/Kuber_Prelude.thy ===== *)
theory Kuber_Prelude
  imports Main "HOL-Library.AList" "HOL-Library.List_Lexorder" "HOL-Library.Char_ord"
    "HOL-Library.Product_Lexorder" "HOL-Library.Sublist" "HOL-Library.Multiset"
begin

text \<open>
  Shared vocabulary of the development: the exceptions the Python code raises and the result
  type that carries them, insertion-ordered dictionaries, the string helpers the code uses
  (\<open>join\<close>, \<open>or ""\<close>, decimal rendering, \<open>strip\<close>), and the generic lemmas and theorem
  collections every component proof draws on.

  Strings are character lists; \<open>char\<close> stands for the first 256 code points, and the order on
  strings is the lexicographic order on code points that Python uses.
\<close>

section \<open>Exceptions and fallible results\<close>

text \<open>
  One constructor per exception class the modelled code raises or lets through. The class
  hierarchy matters only to \<open>except\<close> clauses, see \<open>is_value_error\<close> and \<open>is_runtime_error\<close>.
  \<open>CalledProcessError\<close> carries its text, and the output and the error output of the command.
\<close>

datatype py_error =
    ValueError string
  | RbacParseError string
  | UnsupportedResourceError string
  | KeyError string
  | TypeError string
  | AssertionError
  | RuntimeError string
  | SafetyError string
  | DryRunOnlyError string
  | GraphRecursionError string
  | TimeoutError string
  | FileNotFoundError string
  | CalledProcessError string string string
  | TimeoutExpired string
  | JsonDecodeError string
  | OtherError string

text \<open>\<open>RbacParseError(ValueError)\<close>, \<open>UnsupportedResourceError(RbacParseError)\<close>, and
  \<open>json.JSONDecodeError(ValueError)\<close>.\<close>

fun is_value_error :: "py_error \<Rightarrow> bool" where
  "is_value_error (ValueError _) = True"
| "is_value_error (RbacParseError _) = True"
| "is_value_error (UnsupportedResourceError _) = True"
| "is_value_error (JsonDecodeError _) = True"
| "is_value_error _ = False"

text \<open>\<open>SafetyError(RuntimeError)\<close>, \<open>DryRunOnlyError(SafetyError)\<close>, and LangGraph's
  \<open>GraphRecursionError\<close>, a \<open>RecursionError\<close>, which Python makes a \<open>RuntimeError\<close>.\<close>

fun is_runtime_error :: "py_error \<Rightarrow> bool" where
  "is_runtime_error (RuntimeError _) = True"
| "is_runtime_error (SafetyError _) = True"
| "is_runtime_error (DryRunOnlyError _) = True"
| "is_runtime_error (GraphRecursionError _) = True"
| "is_runtime_error _ = False"

text \<open>\<open>subprocess.SubprocessError\<close> has the subclasses \<open>CalledProcessError\<close> and
  \<open>TimeoutExpired\<close>.\<close>

fun is_subprocess_error :: "py_error \<Rightarrow> bool" where
  "is_subprocess_error (CalledProcessError _ _ _) = True"
| "is_subprocess_error (TimeoutExpired _) = True"
| "is_subprocess_error _ = False"

fun is_key_error :: "py_error \<Rightarrow> bool" where
  "is_key_error (KeyError _) = True"
| "is_key_error _ = False"

fun is_type_error :: "py_error \<Rightarrow> bool" where
  "is_type_error (TypeError _) = True"
| "is_type_error _ = False"

fun is_file_not_found :: "py_error \<Rightarrow> bool" where
  "is_file_not_found (FileNotFoundError _) = True"
| "is_file_not_found _ = False"

type_synonym 'a result = "py_error + 'a"

named_theorems result_simps "rewriting and inversion of fallible computations"

fun rbind :: "'a result \<Rightarrow> ('a \<Rightarrow> 'b result) \<Rightarrow> 'b result" where
  "rbind (Inl err) f = Inl err"
| "rbind (Inr x) f = f x"

fun rmap :: "('a \<Rightarrow> 'b result) \<Rightarrow> 'a list \<Rightarrow> 'b list result" where
  "rmap f [] = Inr []"
| "rmap f (x # xs) =
     (case f x of
        Inl err \<Rightarrow> Inl err
      | Inr y \<Rightarrow> (case rmap f xs of Inl err \<Rightarrow> Inl err | Inr ys \<Rightarrow> Inr (y # ys)))"

lemma rbind_Inr_iff [result_simps]:
  "rbind m f = Inr y \<longleftrightarrow> (\<exists>x. m = Inr x \<and> f x = Inr y)"
  by (cases m) auto

lemma rbind_Inl_iff [result_simps]:
  "rbind m f = Inl err \<longleftrightarrow> m = Inl err \<or> (\<exists>x. m = Inr x \<and> f x = Inl err)"
  by (cases m) auto

lemma rmap_Cons_Inr_iff [result_simps]:
  "rmap f (x # xs) = Inr ys \<longleftrightarrow> (\<exists>y zs. ys = y # zs \<and> f x = Inr y \<and> rmap f xs = Inr zs)"
  by (auto split: sum.splits)

lemma rmap_Inr_iff: "rmap f xs = Inr ys \<longleftrightarrow> list_all2 (\<lambda>x y. f x = Inr y) xs ys"
proof (induction xs arbitrary: ys)
  case Nil
  then show ?case by auto
next
  case (Cons x xs)
  then show ?case by (simp add: rmap_Cons_Inr_iff list_all2_Cons1 del: rmap.simps)
qed

lemma rmap_Inr_set:
  assumes "rmap f xs = Inr ys"
  shows "y \<in> set ys \<longleftrightarrow> (\<exists>x \<in> set xs. f x = Inr y)"
  using assms
proof (induction xs arbitrary: ys)
  case Nil
  then show ?case by simp
next
  case (Cons x xs)
  then show ?case by (auto split: sum.splits)
qed

lemma rmap_Inr_mem:
  assumes "rmap f xs = Inr ys" and "x \<in> set xs"
  shows "\<exists>y \<in> set ys. f x = Inr y"
  using assms
proof (induction xs arbitrary: ys)
  case Nil
  then show ?case by simp
next
  case (Cons z xs)
  then show ?case by (fastforce split: sum.splits)
qed

lemma rmap_Inr_length: "rmap f xs = Inr ys \<Longrightarrow> length ys = length xs"
  by (simp add: rmap_Inr_iff list_all2_lengthD)

lemma rmap_total_iff: "(\<exists>ys. rmap f xs = Inr ys) \<longleftrightarrow> (\<forall>x \<in> set xs. \<exists>y. f x = Inr y)"
proof (induction xs)
  case Nil
  then show ?case by simp
next
  case (Cons x xs)
  then show ?case by (cases "f x"; cases "rmap f xs") auto
qed

text \<open>A traversal fails with the error of the first element that fails.\<close>

lemma rmap_first_error:
  assumes "\<forall>u \<in> set us. \<exists>y. f u = Inr y" and "f x = Inl err"
  shows "rmap f (us @ x # vs) = Inl err"
  using assms by (induction us) (auto split: sum.splits)

lemma rmap_Inl_mem: "rmap f xs = Inl err \<Longrightarrow> \<exists>x \<in> set xs. f x = Inl err"
  by (induction xs) (auto split: sum.splits)

lemma rbind_Inr_right [simp]: "rbind m Inr = m"
  by (cases m) simp_all

lemma rmap_append_Inr:
  "rmap f us = Inr vs \<Longrightarrow> rmap f (us @ xs) = rbind (rmap f xs) (\<lambda>ys. Inr (vs @ ys))"
proof (induction us arbitrary: vs)
  case Nil
  then show ?case by simp
next
  case (Cons u us)
  then obtain v ws where "vs = v # ws" "f u = Inr v" "rmap f us = Inr ws"
    by (auto simp: rmap_Cons_Inr_iff simp del: rmap.simps)
  with Cons.IH show ?case by (cases "rmap f xs") simp_all
qed

section \<open>Insertion-ordered dictionaries\<close>

text \<open>
  A Python dictionary is an association list with distinct keys: assignment to a key that is
  present overwrites its value in place, assignment to a new key appends. That is
  \<open>AList.update\<close>. A comprehension \<open>{k: v for ...}\<close> is a sequence of assignments.
\<close>

definition dict_of :: "('k \<times> 'v) list \<Rightarrow> ('k \<times> 'v) list" where
  "dict_of kvs = fold (\<lambda>(k, v). AList.update k v) kvs []"

definition dict_values :: "('k \<times> 'v) list \<Rightarrow> 'v list" where
  "dict_values d = map snd d"

text \<open>\<open>{x: None for x in xs}\<close>, read back by iteration: the first occurrences, in order.\<close>

definition uniq :: "'a list \<Rightarrow> 'a list" where
  "uniq xs = map fst (dict_of (map (\<lambda>x. (x, ())) xs))"

named_theorems dict_simps "rewriting of insertion-ordered dictionaries"

lemma map_of_dict_fold:
  "map_of (fold (\<lambda>(k, v). AList.update k v) kvs d) = map_of d ++ map_of (rev kvs)"
  by (induction kvs arbitrary: d) (auto simp: AList.update_conv' map_add_def fun_eq_iff split: option.splits)

lemma map_of_dict_of [dict_simps]: "map_of (dict_of kvs) = map_of (rev kvs)"
  by (simp add: dict_of_def map_of_dict_fold)

lemma keys_dict_fold:
  "fst ` set (fold (\<lambda>(k, v). AList.update k v) kvs d) = fst ` set d \<union> fst ` set kvs"
proof (induction kvs arbitrary: d)
  case Nil
  then show ?case by simp
next
  case (Cons kv kvs)
  have "fst ` set (AList.update (fst kv) (snd kv) d) = insert (fst kv) (fst ` set d)"
    by (auto simp: dom_update)
  with Cons show ?case by (simp add: case_prod_beta)
qed

lemma keys_dict_of [dict_simps]: "fst ` set (dict_of kvs) = fst ` set kvs"
  using keys_dict_fold [of kvs "[]"] by (simp add: dict_of_def)

lemma distinct_dict_fold:
  "distinct (map fst d) \<Longrightarrow> distinct (map fst (fold (\<lambda>(k, v). AList.update k v) kvs d))"
  by (induction kvs arbitrary: d) (auto simp: distinct_update)

lemma distinct_dict_of [simp]: "distinct (map fst (dict_of kvs))"
  by (simp add: dict_of_def distinct_dict_fold)

lemma dict_of_mem_iff [dict_simps]:
  "(k, v) \<in> set (dict_of kvs) \<longleftrightarrow> map_of (rev kvs) k = Some v"
  by (metis distinct_dict_of map_of_dict_of map_of_eq_Some_iff)

lemma dict_of_mem: "(k, v) \<in> set (dict_of kvs) \<Longrightarrow> (k, v) \<in> set kvs"
  by (metis dict_of_mem_iff map_of_SomeD set_rev)

lemma set_uniq [simp]: "set (uniq xs) = set xs"
  by (simp add: uniq_def dict_simps image_image)

lemma distinct_uniq [simp]: "distinct (uniq xs)"
  by (simp add: uniq_def)

lemma uniq_Nil_iff [simp]: "uniq xs = [] \<longleftrightarrow> xs = []"
  by (metis set_empty set_uniq)

text \<open>A dictionary of values that carry their own key: what a key-indexed comprehension keeps.\<close>

lemma dict_of_keyed_values:
  "set (dict_values (dict_of (map (\<lambda>x. (f x, x)) xs))) \<subseteq> set xs"
  by (auto simp: dict_values_def dest!: dict_of_mem)

lemma dict_of_keyed_keys:
  "f ` set (dict_values (dict_of (map (\<lambda>x. (f x, x)) xs))) = f ` set xs"
proof -
  have "(f y, y) \<in> set (dict_of (map (\<lambda>x. (f x, x)) xs))" if "(k, y) \<in> set (dict_of (map (\<lambda>x. (f x, x)) xs))" for k y
    using that dict_of_mem [OF that] by auto
  then have "f ` set (dict_values (dict_of (map (\<lambda>x. (f x, x)) xs)))
      = fst ` set (dict_of (map (\<lambda>x. (f x, x)) xs))"
    by (force simp: dict_values_def dest: dict_of_mem)
  also have "\<dots> = f ` set xs" by (simp add: dict_simps image_image)
  finally show ?thesis .
qed

lemma map_key_dict_values:
  "map f (dict_values (dict_of (map (\<lambda>x. (f x, x)) xs))) = map fst (dict_of (map (\<lambda>x. (f x, x)) xs))"
  unfolding dict_values_def map_map by (rule map_cong) (auto dest!: dict_of_mem)

lemma distinct_keys_dict_values [simp]:
  "distinct (map f (dict_values (dict_of (map (\<lambda>x. (f x, x)) xs))))"
  by (simp add: map_key_dict_values)

lemma dict_fold_distinct_keys:
  "distinct (map fst (d @ kvs)) \<Longrightarrow> fold (\<lambda>(k, v). AList.update k v) kvs d = d @ kvs"
proof (induction kvs arbitrary: d)
  case Nil
  then show ?case by simp
next
  case (Cons kv kvs)
  obtain k v where kv: "kv = (k, v)" by (cases kv)
  with Cons.prems have "k \<notin> fst ` set d" by force
  then have "AList.update k v d = d @ [(k, v)]" by (induction d) auto
  with Cons kv show ?case by simp
qed

text \<open>Rebuilding a dictionary whose keys are already distinct changes nothing.\<close>

lemma dict_of_distinct_keys [simp]: "distinct (map fst kvs) \<Longrightarrow> dict_of kvs = kvs"
  by (simp add: dict_of_def dict_fold_distinct_keys)

section \<open>Grouping\<close>

text \<open>\<open>d[k].append(v)\<close> on a \<open>defaultdict(list)\<close>, and the loop that groups a sequence by key.\<close>

definition dict_append :: "'k \<Rightarrow> 'v \<Rightarrow> ('k \<times> 'v list) list \<Rightarrow> ('k \<times> 'v list) list" where
  "dict_append k v d = AList.update k ((case map_of d k of None \<Rightarrow> [] | Some vs \<Rightarrow> vs) @ [v]) d"

definition group_by :: "('a \<Rightarrow> 'k) \<Rightarrow> ('a \<Rightarrow> 'v) \<Rightarrow> 'a list \<Rightarrow> ('k \<times> 'v list) list" where
  "group_by f g xs = fold (\<lambda>x. dict_append (f x) (g x)) xs []"

lemma distinct_group_by [simp]: "distinct (map fst (group_by f g xs))"
proof -
  have "distinct (map fst d) \<Longrightarrow> distinct (map fst (fold (\<lambda>x. dict_append (f x) (g x)) xs d))" for d
    by (induction xs arbitrary: d) (simp_all add: dict_append_def distinct_update)
  then show ?thesis by (simp add: group_by_def)
qed

lemma map_of_group_fold:
  "map_of (fold (\<lambda>x. dict_append (f x) (g x)) xs d) k =
     (let vs = map g (filter (\<lambda>x. f x = k) xs) in
      case map_of d k of None \<Rightarrow> if vs = [] then None else Some vs | Some us \<Rightarrow> Some (us @ vs))"
  by (induction xs arbitrary: d)
    (auto simp: dict_append_def AList.update_conv' Let_def split: option.splits)

lemma group_by_mem_iff [dict_simps]:
  "(k, vs) \<in> set (group_by f g xs) \<longleftrightarrow> k \<in> f ` set xs \<and> vs = map g (filter (\<lambda>x. f x = k) xs)"
proof -
  have "(k, vs) \<in> set (group_by f g xs) \<longleftrightarrow> map_of (group_by f g xs) k = Some vs"
    by simp
  also have "\<dots> \<longleftrightarrow> vs \<noteq> [] \<and> vs = map g (filter (\<lambda>x. f x = k) xs)"
    by (auto simp: group_by_def map_of_group_fold Let_def)
  also have "\<dots> \<longleftrightarrow> k \<in> f ` set xs \<and> vs = map g (filter (\<lambda>x. f x = k) xs)"
    by (auto simp: filter_empty_conv image_iff)
  finally show ?thesis .
qed

section \<open>Sorting\<close>

lemma sorted_key_list_unique:
  assumes "sorted (map f xs)" "distinct xs" "sorted (map f ys)" "distinct ys"
    and "set xs = set ys" "inj_on f (set xs)"
  shows "xs = ys"
  using assms by (intro map_sorted_distinct_set_unique [of f]) (auto simp: distinct_map)

text \<open>Sums do not depend on the order of a list.\<close>

lemma sum_list_sort_key: "sum_list (map g (sort_key f xs)) = (sum_list (map g xs) :: int)"
  by (metis mset_map mset_sort sum_mset_sum_list)

lemma sum_list_subset:
  fixes f :: "'a \<Rightarrow> int"
  assumes "distinct xs" "set xs \<subseteq> set ys" "\<And>y. y \<in> set ys \<Longrightarrow> 0 \<le> f y"
  shows "sum_list (map f xs) \<le> sum_list (map f ys)"
proof -
  have "sum_list (map f xs) = sum f (set xs)"
    using assms(1) by (simp add: sum_list_distinct_conv_sum_set)
  also have "\<dots> \<le> sum f (set ys)"
    using assms(2,3) by (intro sum_mono2) auto
  also have "\<dots> \<le> sum_list (map f ys)"
    using assms(3)
  proof (induction ys)
    case (Cons y ys)
    then show ?case by (cases "y \<in> set ys") (auto simp: insert_absorb intro: add_increasing)
  qed simp
  finally show ?thesis .
qed

section \<open>Strings\<close>

text \<open>\<open>x or ""\<close> on an optional string.\<close>

definition or_empty :: "string option \<Rightarrow> string" where
  "or_empty x = (case x of None \<Rightarrow> '''' | Some s \<Rightarrow> s)"

text \<open>\<open>s or d\<close> on a string, and on an optional one.\<close>

definition or_default :: "string \<Rightarrow> string \<Rightarrow> string" where
  "or_default s d = (if s = '''' then d else s)"

definition truthy_opt :: "string option \<Rightarrow> bool" where
  "truthy_opt x \<longleftrightarrow> x \<noteq> None \<and> x \<noteq> Some ''''"

definition newline :: string where
  "newline = [char_of (10 :: nat)]"

fun py_join :: "string \<Rightarrow> string list \<Rightarrow> string" where
  "py_join sep [] = ''''"
| "py_join sep [x] = x"
| "py_join sep (x # y # zs) = x @ sep @ py_join sep (y # zs)"

definition digit_char :: "nat \<Rightarrow> char" where
  "digit_char n = char_of (48 + n)"

fun nat_str :: "nat \<Rightarrow> string" where
  "nat_str n = (if n < 10 then [digit_char n] else nat_str (n div 10) @ [digit_char (n mod 10)])"

declare nat_str.simps [simp del]

definition int_str :: "int \<Rightarrow> string" where
  "int_str i = (if i < 0 then ''-'' @ nat_str (nat (- i)) else nat_str (nat i))"

text \<open>\<open>str.strip\<close>: the white space among the first 256 code points.\<close>

definition py_space :: "char \<Rightarrow> bool" where
  "py_space c \<longleftrightarrow> (let n = (of_char c :: nat) in
     (9 \<le> n \<and> n \<le> 13) \<or> (28 \<le> n \<and> n \<le> 32) \<or> n = 133 \<or> n = 160)"

definition py_strip :: "string \<Rightarrow> string" where
  "py_strip s = rev (dropWhile py_space (rev (dropWhile py_space s)))"

lemma or_empty_simps [simp]: "or_empty None = ''''" "or_empty (Some s) = s"
  by (simp_all add: or_empty_def)

lemma truthy_opt_simps [simp]: "\<not> truthy_opt None" "truthy_opt (Some s) \<longleftrightarrow> s \<noteq> ''''"
  by (simp_all add: truthy_opt_def)

end
