(* ===== verification/Rbac_Models.thy ===== *)
theory Rbac_Models
  imports Kuber_Prelude
begin

text \<open>
  The data model of \<open>rules_engine/models\<close>: Kubernetes API events, normalised permissions,
  policies, and the parsed RBAC objects. A policy normalises its permissions on construction
  (\<open>Policy.__post_init__\<close>): duplicates by key are dropped, the rest is sorted. The lemmas show
  that the normal form has distinct keys, is sorted, keeps exactly the given keys, is stable
  under rebuilding, and does not depend on the order the permissions are given in.
\<close>

section \<open>Events and permissions\<close>

record kube_event =
  ev_api_group :: string
  ev_resource :: string
  ev_verb :: string
  ev_namespace :: "string option"
  ev_resource_name :: "string option"
  ev_workload_id :: "string option"

record permission =
  pm_api_group :: string
  pm_resource :: string
  pm_verb :: string
  pm_namespace :: "string option"
  pm_resource_name :: "string option"
  pm_source :: "string option"

type_synonym perm_key_parts = "string \<times> string \<times> string \<times> string option \<times> string option"

text \<open>\<open>Permission.key()\<close> with \<open>include_source=False\<close>, the only way the code calls it.\<close>

definition perm_key :: "permission \<Rightarrow> perm_key_parts" where
  "perm_key p = (pm_api_group p, pm_resource p, pm_verb p, pm_namespace p, pm_resource_name p)"

definition event_display :: "kube_event \<Rightarrow> string" where
  "event_display e =
     (let grp = or_default (ev_api_group e) ''core'';
          name = (if truthy_opt (ev_resource_name e) then ''/'' @ or_empty (ev_resource_name e)
                  else '''')
      in ev_verb e @ '' '' @ grp @ ''/'' @ ev_resource e @ name)"

definition perm_display :: "permission \<Rightarrow> string" where
  "perm_display p =
     (let grp = or_default (pm_api_group p) ''core'';
          scope = (if truthy_opt (pm_namespace p) then or_empty (pm_namespace p)
                   else ''cluster-wide'');
          name = (if truthy_opt (pm_resource_name p) then ''/'' @ or_empty (pm_resource_name p)
                  else '''')
      in pm_verb p @ '' '' @ grp @ ''/'' @ pm_resource p @ name @ '' ('' @ scope @ '')'')"

section \<open>Policies\<close>

record policy_rule =
  ru_api_groups :: "string list"
  ru_resources :: "string list"
  ru_verbs :: "string list"
  ru_resource_names :: "string list"

record policy =
  pl_permissions :: "permission list"
  pl_name :: string
  pl_service_account :: string
  pl_service_account_namespace :: string

text \<open>The sort key \<open>tuple(part or "" for part in item.key())\<close>.\<close>

definition perm_sort_key :: "permission \<Rightarrow> string list" where
  "perm_sort_key p =
     [pm_api_group p, pm_resource p, pm_verb p, or_empty (pm_namespace p),
      or_empty (pm_resource_name p)]"

text \<open>\<open>Policy.__post_init__\<close>.\<close>

definition normalize_permissions :: "permission list \<Rightarrow> permission list" where
  "normalize_permissions ps =
     sort_key perm_sort_key (dict_values (dict_of (map (\<lambda>p. (perm_key p, p)) ps)))"

definition mk_policy :: "permission list \<Rightarrow> string \<Rightarrow> string \<Rightarrow> string \<Rightarrow> policy" where
  "mk_policy ps name sa sa_ns =
     \<lparr>pl_permissions = normalize_permissions ps, pl_name = name,
      pl_service_account = sa, pl_service_account_namespace = sa_ns\<rparr>"

definition with_permissions :: "policy \<Rightarrow> permission list \<Rightarrow> policy" where
  "with_permissions P ps =
     mk_policy ps (pl_name P) (pl_service_account P) (pl_service_account_namespace P)"

abbreviation policy_keys :: "policy \<Rightarrow> perm_key_parts set" where
  "policy_keys P \<equiv> perm_key ` set (pl_permissions P)"

text \<open>What \<open>__post_init__\<close> establishes for every policy the program can hold.\<close>

definition canonical_policy :: "policy \<Rightarrow> bool" where
  "canonical_policy P \<longleftrightarrow>
     distinct (map perm_key (pl_permissions P)) \<and>
     sorted (map perm_sort_key (pl_permissions P))"

section \<open>Parsed RBAC objects and workloads\<close>

record service_account_ref =
  sr_name :: string
  sr_namespace :: string

record workload_ref =
  wr_name :: string
  wr_namespace :: string
  wr_service_account :: service_account_ref

record service_account_object =
  so_name :: string
  so_namespace :: string

record role_object =
  ro_name :: string
  ro_namespace :: "string option"
  ro_rules :: "policy_rule list"
  ro_cluster_role :: bool

record binding_object =
  bo_name :: string
  bo_namespace :: "string option"
  bo_role_name :: string
  bo_role_kind :: string
  bo_subjects :: "service_account_ref list"
  bo_cluster_binding :: bool

record parsed_rbac =
  pr_service_accounts :: "service_account_object list"
  pr_roles :: "role_object list"
  pr_bindings :: "binding_object list"

section \<open>The normal form of a policy\<close>

named_theorems policy_simps "rewriting of normalised policies"

lemma normalize_subset: "set (normalize_permissions ps) \<subseteq> set ps"
  using dict_of_keyed_values [of perm_key ps] by (simp add: normalize_permissions_def)

lemma normalize_keys [policy_simps]:
  "perm_key ` set (normalize_permissions ps) = perm_key ` set ps"
  by (simp add: normalize_permissions_def dict_of_keyed_keys)

lemma distinct_map_sort_key [simp]: "distinct (map g (sort_key f xs)) = distinct (map g xs)"
  by (simp add: distinct_map)

lemma normalize_distinct [simp]: "distinct (map perm_key (normalize_permissions ps))"
  by (simp add: normalize_permissions_def)

lemma normalize_sorted [simp]: "sorted (map perm_sort_key (normalize_permissions ps))"
  by (simp add: normalize_permissions_def)

lemma canonical_mk_policy [simp]: "canonical_policy (mk_policy ps n sa ns)"
  by (simp add: canonical_policy_def mk_policy_def)

lemma canonical_with_permissions [simp]: "canonical_policy (with_permissions P ps)"
  by (simp add: with_permissions_def)

lemma mk_policy_sel [policy_simps, simp]:
  "pl_permissions (mk_policy ps n sa ns) = normalize_permissions ps"
  "pl_name (mk_policy ps n sa ns) = n"
  "pl_service_account (mk_policy ps n sa ns) = sa"
  "pl_service_account_namespace (mk_policy ps n sa ns) = ns"
  by (simp_all add: mk_policy_def)

lemma with_permissions_sel [policy_simps, simp]:
  "pl_permissions (with_permissions P ps) = normalize_permissions ps"
  "pl_name (with_permissions P ps) = pl_name P"
  "pl_service_account (with_permissions P ps) = pl_service_account P"
  "pl_service_account_namespace (with_permissions P ps) = pl_service_account_namespace P"
  by (simp_all add: with_permissions_def)

lemma normalize_canonical:
  assumes "distinct (map perm_key ps)" and "sorted (map perm_sort_key ps)"
  shows "normalize_permissions ps = ps"
  using assms
  by (simp add: normalize_permissions_def dict_values_def o_def sort_key_id_if_sorted)

lemma normalize_idem [simp]: "normalize_permissions (normalize_permissions ps) = normalize_permissions ps"
  by (simp add: normalize_canonical)

lemma with_permissions_canonical:
  "canonical_policy P \<Longrightarrow> with_permissions P (pl_permissions P) = P"
  by (cases P) (simp add: with_permissions_def mk_policy_def canonical_policy_def normalize_canonical)

text \<open>
  The sort key identifies a permission's key as long as no optional part is the empty string,
  which \<open>or ""\<close> cannot tell from an absent one.
\<close>

definition unambiguous_key :: "permission \<Rightarrow> bool" where
  "unambiguous_key p \<longleftrightarrow> pm_namespace p \<noteq> Some '''' \<and> pm_resource_name p \<noteq> Some ''''"

lemma or_empty_inj: "x \<noteq> Some '''' \<Longrightarrow> y \<noteq> Some '''' \<Longrightarrow> or_empty x = or_empty y \<longleftrightarrow> x = y"
  by (cases x; cases y) auto

lemma perm_sort_key_determines:
  "unambiguous_key p \<Longrightarrow> unambiguous_key q \<Longrightarrow> perm_sort_key p = perm_sort_key q \<Longrightarrow>
   perm_key p = perm_key q"
  by (auto simp: perm_sort_key_def perm_key_def unambiguous_key_def or_empty_inj)

definition sort_parts :: "perm_key_parts \<Rightarrow> string list" where
  "sort_parts k = (case k of (g, r, v, ns, name) \<Rightarrow> [g, r, v, or_empty ns, or_empty name])"

lemma perm_sort_key_parts: "perm_sort_key p = sort_parts (perm_key p)"
  by (simp add: perm_sort_key_def sort_parts_def perm_key_def)

lemma unambiguous_parts_inj:
  assumes "\<forall>p \<in> S. unambiguous_key p"
  shows "inj_on sort_parts (perm_key ` S)"
proof (rule inj_onI, elim imageE)
  fix k l p q
  assume "sort_parts k = sort_parts l" "k = perm_key p" "p \<in> S" "l = perm_key q" "q \<in> S"
  with assms show "k = l"
    by (metis perm_sort_key_determines perm_sort_key_parts)
qed

text \<open>Two permission lists with the same keys normalise to the same list of keys.\<close>

lemma normalize_keys_unique:
  assumes keys: "perm_key ` set ps = perm_key ` set qs"
    and unamb: "\<forall>p \<in> set ps \<union> set qs. unambiguous_key p"
  shows "map perm_key (normalize_permissions ps) = map perm_key (normalize_permissions qs)"
    (is "?xs = ?ys")
proof (rule sorted_key_list_unique [of sort_parts])
  show "sorted (map sort_parts ?xs)" "sorted (map sort_parts ?ys)"
    using normalize_sorted [of ps] normalize_sorted [of qs]
    by (simp_all add: o_def flip: perm_sort_key_parts)
  show "set ?xs = set ?ys"
    using keys by (simp add: policy_simps)
  show "inj_on sort_parts (set ?xs)"
    using unambiguous_parts_inj [of "set ps"] unamb by (simp add: policy_simps)
qed simp_all

end
