(* ===== verification/Authorization.thy ===== *)
theory Authorization
  imports Rbac_Models
begin

text \<open>
  \<open>rules_engine/rbac/authorization.py\<close>: the deterministic decision procedure for one event
  against one policy. The lemmas give its decision as an existential over the permissions,
  show that it depends on permission keys only (so normalising a policy never changes a
  decision), and that it is monotone in the set of permissions.
\<close>

definition resource_name_verbs :: "string list" where
  "resource_name_verbs = [''get'', ''update'', ''patch'', ''delete'']"

record authorization_decision =
  ad_allowed :: bool
  ad_matching_permission :: "permission option"
  ad_reason :: string

text \<open>\<open>_matches\<close>, with its early returns in the order of the source.\<close>

definition matches :: "permission \<Rightarrow> kube_event \<Rightarrow> bool" where
  "matches p e =
     (if pm_api_group p \<notin> {''*'', ev_api_group e} then False
      else if pm_resource p \<notin> {''*'', ev_resource e} then False
      else if pm_verb p \<notin> {''*'', ev_verb e} then False
      else if pm_namespace p \<noteq> None \<and> pm_namespace p \<noteq> ev_namespace e then False
      else if pm_resource_name p \<noteq> None \<and> ev_verb e \<notin> set resource_name_verbs then False
      else if pm_resource_name p \<noteq> None \<and> ev_resource_name e \<noteq> pm_resource_name p then False
      else True)"

definition authorize :: "policy \<Rightarrow> kube_event \<Rightarrow> authorization_decision" where
  "authorize P e =
     (case find (\<lambda>p. matches p e) (pl_permissions P) of
        Some p \<Rightarrow> \<lparr>ad_allowed = True, ad_matching_permission = Some p,
                   ad_reason = ''matched deterministic RBAC rule''\<rparr>
      | None \<Rightarrow> \<lparr>ad_allowed = False, ad_matching_permission = None,
                  ad_reason = ''no matching permission''\<rparr>)"

definition is_authorized :: "policy \<Rightarrow> kube_event \<Rightarrow> bool" where
  "is_authorized P e = ad_allowed (authorize P e)"

section \<open>What a decision means\<close>

lemma matches_iff:
  "matches p e \<longleftrightarrow>
     (pm_api_group p = ''*'' \<or> pm_api_group p = ev_api_group e) \<and>
     (pm_resource p = ''*'' \<or> pm_resource p = ev_resource e) \<and>
     (pm_verb p = ''*'' \<or> pm_verb p = ev_verb e) \<and>
     (pm_namespace p = None \<or> pm_namespace p = ev_namespace e) \<and>
     (pm_resource_name p = None \<or>
        ev_verb e \<in> set resource_name_verbs \<and> ev_resource_name e = pm_resource_name p)"
  by (auto simp: matches_def)

lemma star_not_name_verb [simp]: "''*'' \<notin> set resource_name_verbs"
  by (simp add: resource_name_verbs_def)

lemma matches_key_cong: "perm_key p = perm_key q \<Longrightarrow> matches p e = matches q e"
  by (simp add: matches_def perm_key_def)

text \<open>Lists of permissions that have the same keys allow the same events.\<close>

lemma matches_keys_cong:
  assumes "perm_key ` set ps \<subseteq> perm_key ` set qs"
  shows "(\<exists>p \<in> set ps. matches p e) \<Longrightarrow> (\<exists>q \<in> set qs. matches q e)"
  using assms matches_key_cong by (metis (no_types, opaque_lifting) imageE imageI subsetD)

lemma is_authorized_iff:
  "is_authorized P e \<longleftrightarrow> (\<exists>p \<in> set (pl_permissions P). matches p e)"
  by (auto simp: is_authorized_def authorize_def find_Some_iff find_None_iff split: option.splits
      dest: nth_mem)

lemma authorize_reports_match:
  "ad_matching_permission (authorize P e) = Some p \<Longrightarrow>
   p \<in> set (pl_permissions P) \<and> matches p e \<and> is_authorized P e"
  by (auto simp: is_authorized_def authorize_def find_Some_iff split: option.splits)

lemma normalize_matches [policy_simps]:
  "(\<exists>p \<in> set (normalize_permissions ps). matches p e) \<longleftrightarrow> (\<exists>p \<in> set ps. matches p e)"
  by (rule iffI; erule matches_keys_cong [rotated]) (simp_all add: normalize_keys)

lemma is_authorized_with_permissions [policy_simps]:
  "is_authorized (with_permissions P ps) e \<longleftrightarrow> (\<exists>p \<in> set ps. matches p e)"
  by (simp add: policy_simps is_authorized_iff)

lemma is_authorized_mk_policy [policy_simps]:
  "is_authorized (mk_policy ps n sa ns) e \<longleftrightarrow> (\<exists>p \<in> set ps. matches p e)"
  by (simp add: policy_simps is_authorized_iff)

lemma is_authorized_extend [policy_simps]:
  "is_authorized (with_permissions P (pl_permissions P @ ps)) e \<longleftrightarrow>
     is_authorized P e \<or> (\<exists>p \<in> set ps. matches p e)"
  by (auto simp: is_authorized_with_permissions is_authorized_iff [of P])

lemma is_authorized_mono:
  "policy_keys P \<subseteq> policy_keys Q \<Longrightarrow> is_authorized P e \<Longrightarrow> is_authorized Q e"
  by (simp add: is_authorized_iff matches_keys_cong)

section \<open>Comparing policies\<close>

text \<open>\<open>P\<close> grants nothing that \<open>Q\<close> does not.\<close>

definition no_more_than :: "policy \<Rightarrow> policy \<Rightarrow> bool" where
  "no_more_than P Q \<longleftrightarrow> (\<forall>e. is_authorized P e \<longrightarrow> is_authorized Q e)"

lemma no_more_thanI: "(\<And>e. is_authorized P e \<Longrightarrow> is_authorized Q e) \<Longrightarrow> no_more_than P Q"
  by (simp add: no_more_than_def)

lemma no_more_thanD: "no_more_than P Q \<Longrightarrow> is_authorized P e \<Longrightarrow> is_authorized Q e"
  by (simp add: no_more_than_def)

lemma no_more_than_refl [simp]: "no_more_than P P"
  by (simp add: no_more_than_def)

lemma no_more_than_trans: "no_more_than P Q \<Longrightarrow> no_more_than Q R \<Longrightarrow> no_more_than P R"
  by (simp add: no_more_than_def)

text \<open>
  The event a permission is checked by: the workload graph turns each candidate permission
  into the event with the same components (\<open>agent_layer/graphs/workload.py\<close>, node
  \<open>validate_candidate\<close>). Authorising that one event is enough: whatever the permission
  matches, wildcards and missing scopes included, was allowed already.
\<close>

definition permission_event :: "permission \<Rightarrow> kube_event" where
  "permission_event p =
     \<lparr>ev_api_group = pm_api_group p, ev_resource = pm_resource p, ev_verb = pm_verb p,
      ev_namespace = pm_namespace p, ev_resource_name = pm_resource_name p,
      ev_workload_id = None\<rparr>"

lemma matches_permission_event_covers:
  assumes "matches q (permission_event p)" and "matches p e"
  shows "matches q e"
proof -
  note q = assms(1) [unfolded matches_iff permission_event_def, simplified]
    and p = assms(2) [unfolded matches_iff]
  show ?thesis
    unfolding matches_iff
  proof (intro conjI)
    show "pm_api_group q = ''*'' \<or> pm_api_group q = ev_api_group e" using q p by metis
    show "pm_resource q = ''*'' \<or> pm_resource q = ev_resource e" using q p by metis
    show "pm_verb q = ''*'' \<or> pm_verb q = ev_verb e" using q p by metis
    show "pm_namespace q = None \<or> pm_namespace q = ev_namespace e" using q p by metis
    show "pm_resource_name q = None \<or>
        ev_verb e \<in> set resource_name_verbs \<and> ev_resource_name e = pm_resource_name q"
      using q p star_not_name_verb by metis
  qed
qed

lemma permission_event_covers:
  "is_authorized Q (permission_event p) \<Longrightarrow> matches p e \<Longrightarrow> is_authorized Q e"
  by (auto simp: is_authorized_iff intro: matches_permission_event_covers)

end
