(* ===== verification/Canonicalizer.thy ===== *)
theory Canonicalizer
  imports Authorization
begin

text \<open>
  \<open>rules_engine/rbac/canonicalizer.py\<close>: the catalogue of supported resources and verbs and
  the expansion of wildcard permissions over it. The lemmas show that expansion preserves every
  decision on the catalogue, invents no grant outside it, and leaves no wildcard behind.
\<close>

definition supported_resources :: "(string \<times> string list) list" where
  "supported_resources =
     [('''', [''pods'', ''configmaps'', ''secrets'', ''services'']),
      (''apps'', [''deployments'']),
      (''batch'', [''jobs'']),
      (''coordination.k8s.io'', [''leases''])]"

definition supported_verbs :: "string list" where
  "supported_verbs =
     [''get'', ''list'', ''watch'', ''create'', ''update'', ''patch'', ''delete'']"

definition is_supported_resource :: "string \<Rightarrow> string \<Rightarrow> bool" where
  "is_supported_resource api_group resource =
     (if api_group = ''*'' then
        (if resource = ''*'' then True
         else list_ex (\<lambda>resources. resource \<in> set resources) (map snd supported_resources))
      else
        (case map_of supported_resources api_group of
           None \<Rightarrow> False
         | Some resources \<Rightarrow> resource = ''*'' \<or> resource \<in> set resources))"

definition expand_groups :: "permission \<Rightarrow> string list" where
  "expand_groups p =
     (if pm_api_group p = ''*'' \<and> pm_resource p \<noteq> ''*'' then
        map fst (filter (\<lambda>(grp, resources). pm_resource p \<in> set resources) supported_resources)
      else if pm_api_group p = ''*'' then map fst supported_resources
      else [pm_api_group p])"

definition expand_resources :: "permission \<Rightarrow> string \<Rightarrow> string list" where
  "expand_resources p grp =
     (if pm_resource p = ''*'' then
        (case map_of supported_resources grp of None \<Rightarrow> [] | Some rs \<Rightarrow> rs)
      else [pm_resource p])"

definition expand_verbs :: "permission \<Rightarrow> string list" where
  "expand_verbs p = (if pm_verb p = ''*'' then supported_verbs else [pm_verb p])"

definition expand_permission :: "permission \<Rightarrow> permission list" where
  "expand_permission p =
     concat (map (\<lambda>grp.
       concat (map (\<lambda>resource.
         map (\<lambda>verb.
           \<lparr>pm_api_group = grp, pm_resource = resource, pm_verb = verb,
            pm_namespace = pm_namespace p, pm_resource_name = pm_resource_name p,
            pm_source = pm_source p\<rparr>) (expand_verbs p))
         (expand_resources p grp)))
       (expand_groups p))"

definition expand_policy :: "policy \<Rightarrow> policy" where
  "expand_policy P = with_permissions P (concat (map expand_permission (pl_permissions P)))"

definition effective_permission_count :: "policy \<Rightarrow> nat" where
  "effective_permission_count P = length (pl_permissions (expand_policy P))"

section \<open>The catalogue\<close>

text \<open>An event on a concrete catalogued resource with a supported verb.\<close>

definition catalogued :: "kube_event \<Rightarrow> bool" where
  "catalogued e \<longleftrightarrow>
     ev_verb e \<in> set supported_verbs \<and>
     (\<exists>resources. map_of supported_resources (ev_api_group e) = Some resources \<and>
        ev_resource e \<in> set resources)"

lemma supported_group_not_star: "map_of supported_resources g = Some rs \<Longrightarrow> g \<noteq> ''*''"
  by (auto simp: supported_resources_def split: if_splits)

lemma supported_resource_not_star: "map_of supported_resources g = Some rs \<Longrightarrow> ''*'' \<notin> set rs"
  by (auto simp: supported_resources_def split: if_splits)

lemma supported_verb_not_star [simp]: "''*'' \<notin> set supported_verbs"
  by (simp add: supported_verbs_def)

lemma supported_resources_distinct: "distinct (map fst supported_resources)"
  by (simp add: supported_resources_def)

lemma supported_resources_mem_iff:
  "(g, rs) \<in> set supported_resources \<longleftrightarrow> map_of supported_resources g = Some rs"
  by (simp add: supported_resources_distinct)

lemma name_verbs_supported: "set resource_name_verbs \<subseteq> set supported_verbs"
  by (simp add: resource_name_verbs_def supported_verbs_def)

section \<open>Expansion\<close>

lemma expand_permission_mem_iff:
  "x \<in> set (expand_permission p) \<longleftrightarrow>
     pm_api_group x \<in> set (expand_groups p) \<and>
     pm_resource x \<in> set (expand_resources p (pm_api_group x)) \<and>
     pm_verb x \<in> set (expand_verbs p) \<and>
     pm_namespace x = pm_namespace p \<and> pm_resource_name x = pm_resource_name p \<and>
     pm_source x = pm_source p"
  by (cases x) (auto simp: expand_permission_def)

lemma expand_groups_sound:
  "g \<in> set (expand_groups p) \<Longrightarrow> pm_api_group p = ''*'' \<or> g = pm_api_group p"
  by (auto simp: expand_groups_def split: if_splits)

lemma expand_groups_catalogued:
  "g \<in> set (expand_groups p) \<Longrightarrow> pm_api_group p = ''*'' \<Longrightarrow>
   \<exists>rs. map_of supported_resources g = Some rs \<and> (pm_resource p = ''*'' \<or> pm_resource p \<in> set rs)"
  by (auto simp: expand_groups_def supported_resources_mem_iff split: if_splits)

lemma expand_resources_sound:
  "r \<in> set (expand_resources p g) \<Longrightarrow> pm_resource p = ''*'' \<or> r = pm_resource p"
  by (auto simp: expand_resources_def split: if_splits)

lemma expand_resources_not_star:
  "r \<in> set (expand_resources p g) \<Longrightarrow> r \<noteq> ''*''"
  by (auto simp: expand_resources_def split: if_splits option.splits)
    (metis supported_resource_not_star)

lemma expand_verbs_sound: "v \<in> set (expand_verbs p) \<Longrightarrow> pm_verb p = ''*'' \<or> v = pm_verb p"
  by (auto simp: expand_verbs_def split: if_splits)

lemma expand_verbs_not_star: "v \<in> set (expand_verbs p) \<Longrightarrow> v \<noteq> ''*''"
  by (auto simp: expand_verbs_def split: if_splits)

lemma expand_groups_not_star: "g \<in> set (expand_groups p) \<Longrightarrow> g \<noteq> ''*''"
  using expand_groups_catalogued [of g p] supported_group_not_star [of g]
  by (cases "pm_api_group p = ''*''") (auto simp: expand_groups_def)

lemmas expand_sound = expand_groups_sound expand_resources_sound expand_verbs_sound
lemmas expand_not_star = expand_groups_not_star expand_resources_not_star expand_verbs_not_star

text \<open>Expanding grants nothing new, on any event.\<close>

lemma expand_permission_sound:
  assumes "x \<in> set (expand_permission p)" and "matches x e"
  shows "matches p e"
  using assms by (auto simp: expand_permission_mem_iff matches_iff dest!: expand_sound)

text \<open>On the catalogue it grants as much.\<close>

lemma expand_permission_complete:
  assumes "matches p e" and "catalogued e"
  shows "\<exists>x \<in> set (expand_permission p). matches x e"
proof -
  let ?x = "\<lparr>pm_api_group = ev_api_group e, pm_resource = ev_resource e, pm_verb = ev_verb e,
    pm_namespace = pm_namespace p, pm_resource_name = pm_resource_name p, pm_source = pm_source p\<rparr>"
  from \<open>catalogued e\<close> obtain rs where rs: "map_of supported_resources (ev_api_group e) = Some rs"
    "ev_resource e \<in> set rs" and v: "ev_verb e \<in> set supported_verbs"
    by (auto simp: catalogued_def)
  have mem: "(ev_api_group e, rs) \<in> set supported_resources"
    using rs by (simp add: supported_resources_mem_iff)
  have "ev_api_group e \<in> set (expand_groups p)"
    using mem rs \<open>matches p e\<close> by (force simp: expand_groups_def matches_iff)
  moreover have "ev_resource e \<in> set (expand_resources p (ev_api_group e))"
    using rs \<open>matches p e\<close> by (auto simp: expand_resources_def matches_iff)
  moreover have "ev_verb e \<in> set (expand_verbs p)"
    using v \<open>matches p e\<close> by (auto simp: expand_verbs_def matches_iff)
  ultimately have "?x \<in> set (expand_permission p)" by (simp add: expand_permission_mem_iff)
  moreover have "matches ?x e" using \<open>matches p e\<close> by (auto simp: matches_iff)
  ultimately show ?thesis by blast
qed

lemma expand_policy_perms [policy_simps]:
  "is_authorized (expand_policy P) e \<longleftrightarrow>
     (\<exists>p \<in> set (pl_permissions P). \<exists>x \<in> set (expand_permission p). matches x e)"
  by (auto simp: expand_policy_def policy_simps)

lemma expand_policy_sound: "no_more_than (expand_policy P) P"
  by (rule no_more_thanI)
    (auto simp: expand_policy_perms is_authorized_iff [of P] dest: expand_permission_sound)

lemma expand_policy_catalogued:
  "catalogued e \<Longrightarrow> is_authorized (expand_policy P) e \<longleftrightarrow> is_authorized P e"
  by (simp add: expand_policy_perms is_authorized_iff [of P])
    (blast dest: expand_permission_sound expand_permission_complete)

text \<open>A permission without wildcards expands to itself.\<close>

lemma expand_permission_concrete:
  assumes "pm_api_group p \<noteq> ''*''" "pm_resource p \<noteq> ''*''" "pm_verb p \<noteq> ''*''"
  shows "expand_permission p = [p]"
  using assms
  by (simp add: expand_permission_def expand_groups_def expand_resources_def expand_verbs_def)

lemma expand_permission_members_concrete:
  "x \<in> set (expand_permission p) \<Longrightarrow> expand_permission x = [x]"
  by (rule expand_permission_concrete) (auto simp: expand_permission_mem_iff dest!: expand_not_star)

lemma expand_policy_members:
  "x \<in> set (pl_permissions (expand_policy P)) \<Longrightarrow>
   \<exists>p \<in> set (pl_permissions P). x \<in> set (expand_permission p)"
  using normalize_subset by (fastforce simp: expand_policy_def)

lemma concat_map_singleton: "\<forall>x \<in> set xs. f x = [x] \<Longrightarrow> concat (map f xs) = xs"
  by (induction xs) auto

lemma expand_policy_idem: "expand_policy (expand_policy P) = expand_policy P"
proof -
  have "concat (map expand_permission (pl_permissions (expand_policy P)))
      = pl_permissions (expand_policy P)"
    using expand_policy_members expand_permission_members_concrete
    by (intro concat_map_singleton) blast
  then show ?thesis
    by (subst (1) expand_policy_def)
      (simp add: with_permissions_canonical expand_policy_def)
qed

lemma expand_permission_length: "length (expand_permission p) \<le> 49"
proof -
  have g: "expand_groups p \<in> {[pm_api_group p], ['''', ''apps'', ''batch'', ''coordination.k8s.io'']}
      \<or> pm_resource p \<noteq> ''*'' \<and> length (expand_groups p) \<le> 4"
    by (auto simp: expand_groups_def supported_resources_def)
  have r: "length (expand_resources p h) \<le> 4" for h
    by (simp add: expand_resources_def supported_resources_def split: option.splits)
  have v: "length (expand_verbs p) \<le> 7"
    by (simp add: expand_verbs_def supported_verbs_def)
  have "length (expand_permission p) =
      sum_list (map (\<lambda>h. length (expand_resources p h) * length (expand_verbs p)) (expand_groups p))"
    by (simp add: expand_permission_def length_concat o_def sum_list_triv)
  also have "\<dots> = sum_list (map (\<lambda>h. length (expand_resources p h)) (expand_groups p)) * length (expand_verbs p)"
    by (simp add: sum_list_mult_const)
  also have "sum_list (map (\<lambda>h. length (expand_resources p h)) (expand_groups p)) \<le> 7"
    using g r [of "pm_api_group p"]
    by (elim disjE insertE conjE)
      (auto simp: expand_resources_def supported_resources_def sum_list_triv split: option.splits)
  then have "sum_list (map (\<lambda>h. length (expand_resources p h)) (expand_groups p)) * length (expand_verbs p) \<le> 7 * 7"
    using v by (rule mult_le_mono)
  finally show ?thesis by simp
qed

end
