(* ===== verification/Minimizer.thy ===== *)
theory Minimizer
  imports Canonicalizer
begin

text \<open>
  \<open>rules_engine/minimizer/reducer.py\<close>: the narrowest permission for an observed event, the
  observed-only policy, and the repair of a candidate by denied events. The contract between
  granting and matching is the locale \<open>grant_semantics\<close>; the two policy builders are correct
  because the model's \<open>event_permission\<close> and \<open>matches\<close> meet it.
\<close>

definition resource_name_safe_verbs :: "string list" where
  "resource_name_safe_verbs = [''get'', ''update'', ''patch'', ''delete'']"

definition event_permission :: "kube_event \<Rightarrow> permission result" where
  "event_permission e =
     (if ev_verb e \<notin> set supported_verbs then
        Inl (ValueError (''unsupported observed verb: '' @ ev_verb e))
      else if \<not> is_supported_resource (ev_api_group e) (ev_resource e) then
        Inl (ValueError (''unsupported observed resource: '' @
               or_default (ev_api_group e) ''core'' @ ''/'' @ ev_resource e))
      else
        (let name = (if ev_verb e \<in> set resource_name_safe_verbs then ev_resource_name e else None)
         in Inr \<lparr>pm_api_group = ev_api_group e, pm_resource = ev_resource e, pm_verb = ev_verb e,
                 pm_namespace = ev_namespace e, pm_resource_name = name,
                 pm_source = Some ''Kuber/verified''\<rparr>))"

definition observed_only_policy :: "policy \<Rightarrow> kube_event list \<Rightarrow> policy result" where
  "observed_only_policy current observed =
     (let unauthorized = filter (\<lambda>e. \<not> is_authorized current e) observed in
      if unauthorized \<noteq> [] then
        Inl (ValueError (''observed usage is not authorized by the current policy: '' @
               py_join '', '' (map event_display unauthorized)))
      else
        rbind (rmap event_permission observed) (\<lambda>ps.
          Inr (mk_policy ps (pl_service_account current @ ''-kuber'')
                 (pl_service_account current) (pl_service_account_namespace current))))"

text \<open>The loop of \<open>repair_policy\<close>: authorisation by the original policy is checked first,
  then the permission is built; either may raise.\<close>

definition repair_addition :: "policy \<Rightarrow> kube_event \<Rightarrow> permission result" where
  "repair_addition original e =
     (if \<not> is_authorized original e then
        Inl (ValueError (''refusing to invent permission absent from original policy: '' @
               event_display e))
      else event_permission e)"

definition repair_policy :: "policy \<Rightarrow> kube_event list \<Rightarrow> policy \<Rightarrow> policy result" where
  "repair_policy candidate missing_events original =
     rbind (rmap (repair_addition original) missing_events) (\<lambda>additions.
       Inr (with_permissions candidate (pl_permissions candidate @ additions)))"

section \<open>The contract between granting and matching\<close>

text \<open>
  \<open>grant e\<close> is the permission given for an event: it must cover the event, and it must be the
  least one that does, so that whoever allows the event allows everything the grant allows.
\<close>

locale grant_semantics =
  fixes covers :: "'p \<Rightarrow> 'e \<Rightarrow> bool"
    and grant :: "'e \<Rightarrow> 'p result"
  assumes grant_covers: "grant e = Inr p \<Longrightarrow> covers p e"
    and grant_least: "grant e = Inr p \<Longrightarrow> covers q e \<Longrightarrow> covers p f \<Longrightarrow> covers q f"
begin

lemma granted_events_covered:
  "rmap grant es = Inr ps \<Longrightarrow> e \<in> set es \<Longrightarrow> \<exists>p \<in> set ps. covers p e"
  using grant_covers by (blast dest: rmap_Inr_mem)

lemma grants_bounded:
  assumes "rmap grant es = Inr ps" and "\<forall>e \<in> set es. \<exists>q \<in> Q. covers q e"
    and "p \<in> set ps" and "covers p f"
  shows "\<exists>q \<in> Q. covers q f"
  using assms grant_least by (metis rmap_Inr_set)

end

lemma name_verbs_agree [simp]: "set resource_name_safe_verbs = set resource_name_verbs"
  by (simp add: resource_name_safe_verbs_def resource_name_verbs_def)

lemma event_permission_Inr_iff:
  "event_permission e = Inr p \<longleftrightarrow>
     ev_verb e \<in> set supported_verbs \<and> is_supported_resource (ev_api_group e) (ev_resource e) \<and>
     p = \<lparr>pm_api_group = ev_api_group e, pm_resource = ev_resource e, pm_verb = ev_verb e,
          pm_namespace = ev_namespace e,
          pm_resource_name =
            (if ev_verb e \<in> set resource_name_verbs then ev_resource_name e else None),
          pm_source = Some ''Kuber/verified''\<rparr>"
  by (auto simp: event_permission_def)

text \<open>Events the minimiser can grant at all.\<close>

definition grantable :: "kube_event \<Rightarrow> bool" where
  "grantable e \<longleftrightarrow>
     ev_verb e \<in> set supported_verbs \<and> is_supported_resource (ev_api_group e) (ev_resource e)"

lemma event_permission_grantable: "(\<exists>p. event_permission e = Inr p) \<longleftrightarrow> grantable e"
  by (simp add: event_permission_Inr_iff grantable_def)

lemma event_permission_error:
  "\<not> grantable e \<Longrightarrow> \<exists>msg. event_permission e = Inl (ValueError msg)"
  by (auto simp: event_permission_def grantable_def)

lemma event_permission_matches: "event_permission e = Inr p \<Longrightarrow> matches p e"
  by (auto simp: event_permission_Inr_iff matches_iff)

lemma event_permission_least:
  assumes "event_permission e = Inr p" and "matches q e" and "matches p f"
  shows "matches q f"
proof (rule matches_permission_event_covers [OF _ assms(3)])
  show "matches q (permission_event p)"
    using assms(1,2) by (auto simp: event_permission_Inr_iff matches_iff permission_event_def)
qed

interpretation grants: grant_semantics matches event_permission
  by unfold_locales (fact event_permission_matches, fact event_permission_least)

text \<open>The event that the graph checks for a granted permission is allowed when the event was.\<close>

lemma event_permission_checked:
  "event_permission e = Inr p \<Longrightarrow> is_authorized Q e \<Longrightarrow> is_authorized Q (permission_event p)"
  by (auto simp: event_permission_Inr_iff matches_iff permission_event_def is_authorized_iff)

section \<open>The observed-only policy\<close>

lemma observed_only_Inr_iff:
  "observed_only_policy current observed = Inr P \<longleftrightarrow>
     (\<forall>e \<in> set observed. is_authorized current e) \<and>
     (\<exists>ps. rmap event_permission observed = Inr ps \<and>
        P = mk_policy ps (pl_service_account current @ ''-kuber'')
              (pl_service_account current) (pl_service_account_namespace current))"
  by (auto simp: observed_only_policy_def Let_def filter_empty_conv result_simps)

lemma observed_only_succeeds_iff:
  "(\<exists>P. observed_only_policy current observed = Inr P) \<longleftrightarrow>
     (\<forall>e \<in> set observed. is_authorized current e \<and> grantable e)"
  using rmap_total_iff [of event_permission observed]
  by (auto simp: observed_only_Inr_iff event_permission_grantable)

lemma observed_only_canonical: "observed_only_policy current observed = Inr P \<Longrightarrow> canonical_policy P"
  by (auto simp: observed_only_Inr_iff)

lemma observed_only_authorizes:
  "observed_only_policy current observed = Inr P \<Longrightarrow> e \<in> set observed \<Longrightarrow> is_authorized P e"
  by (auto simp: observed_only_Inr_iff is_authorized_mk_policy
      intro: grants.granted_events_covered)

lemma observed_only_no_more:
  assumes "observed_only_policy current observed = Inr P"
  shows "no_more_than P current"
proof (rule no_more_thanI)
  fix e assume "is_authorized P e"
  with assms show "is_authorized current e"
    by (auto simp: observed_only_Inr_iff is_authorized_mk_policy is_authorized_iff [of current]
        intro: grants.grants_bounded)
qed

text \<open>Every permission of the candidate is the grant of an observed event.\<close>

lemma observed_only_origin:
  "observed_only_policy current observed = Inr P \<Longrightarrow> p \<in> set (pl_permissions P) \<Longrightarrow>
   \<exists>e \<in> set observed. is_authorized current e \<and> event_permission e = Inr p"
  using normalize_subset by (fastforce simp: observed_only_Inr_iff rmap_Inr_set)

section \<open>Repair\<close>

lemma repair_addition_Inr_iff:
  "repair_addition original e = Inr p \<longleftrightarrow> is_authorized original e \<and> event_permission e = Inr p"
  by (simp add: repair_addition_def)

lemma repair_Inr_iff:
  "repair_policy candidate missing original = Inr R \<longleftrightarrow>
     (\<forall>e \<in> set missing. is_authorized original e) \<and>
     (\<exists>ps. rmap event_permission missing = Inr ps \<and>
        R = with_permissions candidate (pl_permissions candidate @ ps))"
proof -
  have "rmap (repair_addition original) missing = Inr ps \<longleftrightarrow>
      (\<forall>e \<in> set missing. is_authorized original e) \<and> rmap event_permission missing = Inr ps" for ps
    by (induction missing arbitrary: ps)
      (auto simp: rmap_Cons_Inr_iff repair_addition_Inr_iff simp del: rmap.simps(2))
  then show ?thesis by (auto simp: repair_policy_def result_simps)
qed

lemma repair_succeeds_iff:
  "(\<exists>R. repair_policy candidate missing original = Inr R) \<longleftrightarrow>
     (\<forall>e \<in> set missing. is_authorized original e \<and> grantable e)"
  using rmap_total_iff [of event_permission missing]
  by (auto simp: repair_Inr_iff event_permission_grantable)

lemma repair_error_is_value_error:
  assumes "repair_policy candidate missing original = Inl err"
  shows "is_value_error err"
proof -
  obtain e where "repair_addition original e = Inl err"
    using assms by (auto simp: repair_policy_def result_simps dest!: rmap_Inl_mem)
  then show ?thesis
    by (auto simp: repair_addition_def event_permission_def Let_def split: if_splits)
qed

lemma repair_authorizes_iff:
  assumes "repair_policy candidate missing original = Inr R"
    and "rmap event_permission missing = Inr ps"
  shows "is_authorized R e \<longleftrightarrow> is_authorized candidate e \<or> (\<exists>p \<in> set ps. matches p e)"
  using assms by (auto simp: repair_Inr_iff is_authorized_extend)

lemma repair_keeps_candidate:
  "repair_policy candidate missing original = Inr R \<Longrightarrow> no_more_than candidate R"
  by (auto simp: no_more_than_def repair_Inr_iff is_authorized_extend)

lemma repair_authorizes_missing:
  "repair_policy candidate missing original = Inr R \<Longrightarrow> e \<in> set missing \<Longrightarrow> is_authorized R e"
  by (auto simp: repair_Inr_iff is_authorized_extend dest: grants.granted_events_covered)

lemma repair_no_more:
  assumes "repair_policy candidate missing original = Inr R" and "no_more_than candidate original"
  shows "no_more_than R original"
proof (rule no_more_thanI)
  fix e assume R: "is_authorized R e"
  from assms(1) obtain ps where ps: "rmap event_permission missing = Inr ps"
    and auth: "\<forall>e \<in> set missing. is_authorized original e"
    by (auto simp: repair_Inr_iff)
  from R repair_authorizes_iff [OF assms(1) ps]
  consider "is_authorized candidate e" | p where "p \<in> set ps" "matches p e" by blast
  then show "is_authorized original e"
  proof cases
    case 1
    with assms(2) show ?thesis by (rule no_more_thanD)
  next
    case 2
    with ps auth show ?thesis
      by (auto simp: is_authorized_iff [of original] intro: grants.grants_bounded)
  qed
qed

lemma repair_keys:
  "repair_policy candidate missing original = Inr R \<Longrightarrow>
   rmap event_permission missing = Inr ps \<Longrightarrow>
   policy_keys R = policy_keys candidate \<union> perm_key ` set ps"
  by (auto simp: repair_Inr_iff policy_simps image_Un)

lemma canonical_length: "canonical_policy P \<Longrightarrow> length (pl_permissions P) = card (policy_keys P)"
  unfolding canonical_policy_def by (metis distinct_card length_map set_map)

text \<open>
  \<open>len(repaired.permissions) - len(candidate.permissions)\<close>, the number the graph counts as
  incorrect removals, is the number of restored keys that the candidate lacked.
\<close>

lemma repair_additions:
  assumes "repair_policy candidate missing original = Inr R" and "canonical_policy candidate"
    and "rmap event_permission missing = Inr ps"
  shows "length (pl_permissions R) =
    length (pl_permissions candidate) + card (perm_key ` set ps - policy_keys candidate)"
proof -
  have "canonical_policy R" using assms(1) by (auto simp: repair_Inr_iff)
  then have "length (pl_permissions R) = card (policy_keys candidate \<union> perm_key ` set ps)"
    using repair_keys [OF assms(1,3)] by (simp add: canonical_length)
  also have "\<dots> = card (policy_keys candidate) + card (perm_key ` set ps - policy_keys candidate)"
    using card_Un_disjoint [of "policy_keys candidate" "perm_key ` set ps - policy_keys candidate"]
    by simp
  finally show ?thesis using assms(2) by (simp add: canonical_length)
qed

lemma repair_adds_when_denied:
  assumes "repair_policy candidate missing original = Inr R" and "canonical_policy candidate"
    and "e \<in> set missing" and "\<not> is_authorized candidate e"
  shows "length (pl_permissions candidate) < length (pl_permissions R)"
proof -
  obtain ps where ps: "rmap event_permission missing = Inr ps"
    using assms(1) by (auto simp: repair_Inr_iff)
  obtain p where p: "p \<in> set ps" "matches p e"
    using grants.granted_events_covered [OF ps assms(3)] by blast
  have "perm_key p \<notin> policy_keys candidate"
  proof
    assume "perm_key p \<in> policy_keys candidate"
    then obtain q where "q \<in> set (pl_permissions candidate)" "perm_key p = perm_key q" by blast
    with p(2) assms(4) show False using matches_key_cong [of p q e] by (auto simp: is_authorized_iff)
  qed
  then have "perm_key p \<in> perm_key ` set ps - policy_keys candidate" using p(1) by blast
  then have "0 < card (perm_key ` set ps - policy_keys candidate)"
    by (auto simp: card_gt_0_iff)
  then show ?thesis using repair_additions [OF assms(1,2) ps] by simp
qed

end
