(* ===== verification/Py_Value.thy ===== *)
theory Py_Value
  imports Kuber_Prelude
begin

text \<open>
  Dynamically typed data: what \<open>yaml.safe_load\<close>, \<open>json.loads\<close> and \<open>asdict\<close> hand to the code.
  A float is kept by its \<open>repr\<close>, since the code never computes with a dynamic float;
  dictionaries keep insertion order and have string keys.
\<close>

datatype pyval =
    PNone
  | PBool bool
  | PInt int
  | PFloat string
  | PStr string
  | PList "pyval list"
  | PDict "(string \<times> pyval) list"

type_synonym pydict = "(string \<times> pyval) list"

text \<open>\<open>bool(v)\<close>.\<close>

fun truthy :: "pyval \<Rightarrow> bool" where
  "truthy PNone = False"
| "truthy (PBool b) = b"
| "truthy (PInt i) = (i \<noteq> 0)"
| "truthy (PFloat r) = (r \<notin> {''0.0'', ''-0.0''})"
| "truthy (PStr s) = (s \<noteq> '''')"
| "truthy (PList xs) = (xs \<noteq> [])"
| "truthy (PDict d) = (d \<noteq> [])"

text \<open>\<open>d.get(k)\<close>, \<open>d.get(k, v)\<close> and \<open>d[k]\<close>.\<close>

definition dget :: "pydict \<Rightarrow> string \<Rightarrow> pyval" where
  "dget d k = (case map_of d k of None \<Rightarrow> PNone | Some v \<Rightarrow> v)"

definition dget_or :: "pydict \<Rightarrow> string \<Rightarrow> pyval \<Rightarrow> pyval" where
  "dget_or d k default_value = (case map_of d k of None \<Rightarrow> default_value | Some v \<Rightarrow> v)"

definition dget_req :: "pydict \<Rightarrow> string \<Rightarrow> pyval result" where
  "dget_req d k = (case map_of d k of None \<Rightarrow> Inl (KeyError k) | Some v \<Rightarrow> Inr v)"

definition opt_str :: "string option \<Rightarrow> pyval" where
  "opt_str x = (case x of None \<Rightarrow> PNone | Some s \<Rightarrow> PStr s)"

fun is_str :: "pyval \<Rightarrow> bool" where
  "is_str (PStr s) = True"
| "is_str _ = False"

text \<open>The texts of a list whose items are all strings.\<close>

fun str_items :: "pyval list \<Rightarrow> string list option" where
  "str_items [] = Some []"
| "str_items (PStr s # vs) = map_option (\<lambda>ss. s # ss) (str_items vs)"
| "str_items (v # vs) = None"

lemma str_items_map_PStr [simp]: "str_items (map PStr ss) = Some ss"
  by (induction ss) auto

lemma str_items_Some_iff: "str_items vs = Some ss \<longleftrightarrow> vs = map PStr ss"
proof (induction vs arbitrary: ss rule: str_items.induct)
  case (2 s vs)
  then show ?case by (cases ss) auto
qed auto

text \<open>Values that may be looked up in a set: \<open>x in {...}\<close> raises on a list or a dictionary.\<close>

definition unhashable :: "pyval \<Rightarrow> py_error option" where
  "unhashable v =
     (case v of
        PList _ \<Rightarrow> Some (TypeError ''unhashable type: list'')
      | PDict _ \<Rightarrow> Some (TypeError ''unhashable type: dict'')
      | _ \<Rightarrow> None)"

section \<open>Rendering: \<open>str\<close> and \<open>repr\<close>\<close>

definition hex_digit :: "nat \<Rightarrow> char" where
  "hex_digit n = (if n < 10 then char_of (48 + n) else char_of (87 + n))"

definition printable :: "char \<Rightarrow> bool" where
  "printable c \<longleftrightarrow> (let n = (of_char c :: nat) in
     (32 \<le> n \<and> n < 127) \<or> (161 \<le> n \<and> n \<noteq> 173))"

definition repr_char :: "char \<Rightarrow> char \<Rightarrow> string" where
  "repr_char quote_char c =
     (let n = (of_char c :: nat) in
      if c = quote_char \<or> n = 92 then [char_of (92 :: nat), c]
      else if n = 9 then [char_of (92 :: nat), CHR ''t'']
      else if n = 10 then [char_of (92 :: nat), CHR ''n'']
      else if n = 13 then [char_of (92 :: nat), CHR ''r'']
      else if printable c then [c]
      else [char_of (92 :: nat), CHR ''x'', hex_digit (n div 16), hex_digit (n mod 16)])"

definition repr_str :: "string \<Rightarrow> string" where
  "repr_str s =
     (let single = char_of (39 :: nat); double = char_of (34 :: nat);
          q = (if single \<in> set s \<and> double \<notin> set s then double else single)
      in [q] @ concat (map (repr_char q) s) @ [q])"

fun py_repr :: "pyval \<Rightarrow> string"
  and repr_list :: "pyval list \<Rightarrow> string list"
  and repr_items :: "pydict \<Rightarrow> string list" where
  "py_repr PNone = ''None''"
| "py_repr (PBool b) = (if b then ''True'' else ''False'')"
| "py_repr (PInt i) = int_str i"
| "py_repr (PFloat r) = r"
| "py_repr (PStr s) = repr_str s"
| "py_repr (PList xs) = ''['' @ py_join '', '' (repr_list xs) @ '']''"
| "py_repr (PDict d) = ''{'' @ py_join '', '' (repr_items d) @ ''}''"
| "repr_list [] = []"
| "repr_list (x # xs) = py_repr x # repr_list xs"
| "repr_items [] = []"
| "repr_items ((k, v) # kvs) = (repr_str k @ '': '' @ py_repr v) # repr_items kvs"

fun py_str :: "pyval \<Rightarrow> string" where
  "py_str (PStr s) = s"
| "py_str v = py_repr v"

lemma dget_Cons [simp]: "dget ((k, v) # d) k' = (if k' = k then v else dget d k')"
  by (simp add: dget_def)

lemma dget_Nil [simp]: "dget [] k = PNone"
  by (simp add: dget_def)

lemma dget_or_Cons [simp]: "dget_or ((k, v) # d) k' w = (if k' = k then v else dget_or d k' w)"
  by (simp add: dget_or_def)

lemma dget_or_Nil [simp]: "dget_or [] k w = w"
  by (simp add: dget_or_def)

lemma dget_req_Cons [simp]: "dget_req ((k, v) # d) k' = (if k' = k then Inr v else dget_req d k')"
  by (simp add: dget_req_def)

lemma dget_append_single: "map_of d k = None \<Longrightarrow> dget (d @ [(k, v)]) k = v"
  by (simp add: dget_def map_add_def)

lemma opt_str_simps [simp]: "opt_str None = PNone" "opt_str (Some s) = PStr s"
  by (simp_all add: opt_str_def)

lemma truthy_opt_str [simp]: "truthy (opt_str x) = truthy_opt x"
  by (cases x) simp_all

section \<open>\<open>json.dumps\<close>\<close>

definition json_char :: "char \<Rightarrow> string" where
  "json_char c =
     (let n = (of_char c :: nat); backslash = char_of (92 :: nat) in
      if n = 34 \<or> n = 92 then [backslash, c]
      else if n = 10 then [backslash, CHR ''n'']
      else if n = 13 then [backslash, CHR ''r'']
      else if n = 9 then [backslash, CHR ''t'']
      else if n = 12 then [backslash, CHR ''f'']
      else if n = 8 then [backslash, CHR ''b'']
      else if 32 \<le> n \<and> n \<le> 126 then [c]
      else [backslash] @ ''u00'' @ [hex_digit (n div 16), hex_digit (n mod 16)])"

definition json_string :: "string \<Rightarrow> string" where
  "json_string s = [char_of (34 :: nat)] @ concat (map json_char s) @ [char_of (34 :: nat)]"

definition json_float :: "string \<Rightarrow> string" where
  "json_float r =
     (if r = ''nan'' then ''NaN'' else if r = ''inf'' then ''Infinity''
      else if r = ''-inf'' then ''-Infinity'' else r)"

text \<open>\<open>json.dumps(v, separators=(item, key), sort_keys=True)\<close>: items are rendered first and then
  sorted by key. \<open>json_dumps\<close> has the default separators, \<open>json_compact\<close> the compact ones.\<close>

fun json_render :: "string \<Rightarrow> string \<Rightarrow> pyval \<Rightarrow> string"
  and json_list :: "string \<Rightarrow> string \<Rightarrow> pyval list \<Rightarrow> string list"
  and json_items :: "string \<Rightarrow> string \<Rightarrow> pydict \<Rightarrow> (string \<times> string) list" where
  "json_render item key PNone = ''null''"
| "json_render item key (PBool b) = (if b then ''true'' else ''false'')"
| "json_render item key (PInt i) = int_str i"
| "json_render item key (PFloat r) = json_float r"
| "json_render item key (PStr s) = json_string s"
| "json_render item key (PList xs) = ''['' @ py_join item (json_list item key xs) @ '']''"
| "json_render item key (PDict d) =
     ''{'' @ py_join item (map (\<lambda>(k, r). json_string k @ key @ r)
       (sort_key fst (json_items item key d))) @ ''}''"
| "json_list item key [] = []"
| "json_list item key (x # xs) = json_render item key x # json_list item key xs"
| "json_items item key [] = []"
| "json_items item key ((k, v) # kvs) = (k, json_render item key v) # json_items item key kvs"

definition json_dumps :: "pyval \<Rightarrow> string" where
  "json_dumps = json_render '', '' '': ''"

definition json_compact :: "pyval \<Rightarrow> string" where
  "json_compact = json_render '','' '':''"

section \<open>\<open>int\<close>\<close>

text \<open>The digits of an integer literal, with single underscores between digits allowed.\<close>

definition is_digit :: "char \<Rightarrow> bool" where
  "is_digit c \<longleftrightarrow> (let n = (of_char c :: nat) in 48 \<le> n \<and> n \<le> 57)"

fun read_digits :: "int \<Rightarrow> string \<Rightarrow> int option" where
  "read_digits acc [] = Some acc"
| "read_digits acc (c # cs) =
     (if is_digit c then read_digits (10 * acc + (int (of_char c) - 48)) cs
      else if c = CHR ''_'' then
        (case cs of
           [] \<Rightarrow> None
         | d # ds \<Rightarrow> if is_digit d then read_digits (10 * acc + (int (of_char d) - 48)) ds else None)
      else None)"

definition read_nat :: "string \<Rightarrow> int option" where
  "read_nat s = (case s of [] \<Rightarrow> None | c # cs \<Rightarrow> if is_digit c then read_digits 0 s else None)"

definition int_of_string :: "string \<Rightarrow> int result" where
  "int_of_string s =
     (let invalid = Inl (ValueError (''invalid literal for int() with base 10: '' @ repr_str s));
          body = py_strip s
      in case (case body of
                 [] \<Rightarrow> None
               | c # cs \<Rightarrow>
                   if c = CHR ''-'' then map_option uminus (read_nat cs)
                   else if c = CHR ''+'' then read_nat cs
                   else read_nat body) of
           None \<Rightarrow> invalid
         | Some i \<Rightarrow> Inr i)"

text \<open>\<open>int(v)\<close>; \<open>float_int\<close> truncates a float given by its \<open>repr\<close>.\<close>

definition py_int :: "(string \<Rightarrow> int result) \<Rightarrow> pyval \<Rightarrow> int result" where
  "py_int float_int v =
     (case v of
        PInt i \<Rightarrow> Inr i
      | PBool b \<Rightarrow> Inr (if b then 1 else 0)
      | PStr s \<Rightarrow> int_of_string s
      | PFloat r \<Rightarrow> float_int r
      | PNone \<Rightarrow> Inl (TypeError ''int() argument must be a string, a bytes-like object or a real number, not NoneType'')
      | PList _ \<Rightarrow> Inl (TypeError ''int() argument must be a string, a bytes-like object or a real number, not list'')
      | PDict _ \<Rightarrow> Inl (TypeError ''int() argument must be a string, a bytes-like object or a real number, not dict''))"

end
