(* ===== verification/Environment.thy ===== *)
theory Environment
  imports Minimizer Py_Value
begin

text \<open>
  \<open>agent_layer/interfaces/environment.py\<close>: the adapter through which the agent layer touches a
  cluster or a simulator. An adapter operation acts on a world of type \<open>'w\<close> (the environment
  and everything else the run can affect) and either returns or raises; a raising operation may
  have changed the world. The locale \<open>environment\<close> is the contract the agent layer relies on.
\<close>

section \<open>Operations that may raise\<close>

text \<open>\<open>'e\<close> is the type of the exceptions: \<open>py_error\<close> in Kuber itself, \<open>api_error\<close> in the reference
  workload, which runs in a process of its own.\<close>

type_synonym ('e, 'w, 'a) raising = "'w \<Rightarrow> ('e + 'a) \<times> 'w"

type_synonym ('w, 'a) op = "(py_error, 'w, 'a) raising"

definition ret :: "'a \<Rightarrow> ('e, 'w, 'a) raising" where
  "ret x w = (Inr x, w)"

definition throw :: "'e \<Rightarrow> ('e, 'w, 'a) raising" where
  "throw err w = (Inl err, w)"

definition seq ::
  "('e, 'w, 'a) raising \<Rightarrow> ('a \<Rightarrow> ('e, 'w, 'b) raising) \<Rightarrow> ('e, 'w, 'b) raising" where
  "seq m f w = (case m w of (Inl err, w') \<Rightarrow> (Inl err, w') | (Inr x, w') \<Rightarrow> f x w')"

text \<open>A pure computation that may raise, used as an operation.\<close>

definition lift_result :: "'e + 'a \<Rightarrow> ('e, 'w, 'a) raising" where
  "lift_result r w = (r, w)"

text \<open>\<open>try: m except Exception as error: handler\<close>; \<open>m\<close> followed by a clean-up that always runs and
  whose own exception wins; \<open>with suppress(Exception): m\<close>.\<close>

definition catching ::
  "('e, 'w, 'a) raising \<Rightarrow> ('e \<Rightarrow> ('e, 'w, 'a) raising) \<Rightarrow> ('e, 'w, 'a) raising" where
  "catching m handler s = (case m s of (Inl err, s') \<Rightarrow> handler err s' | (Inr x, s') \<Rightarrow> (Inr x, s'))"

definition ensuring ::
  "('e, 'w, 'a) raising \<Rightarrow> ('e, 'w, unit) raising \<Rightarrow> ('e, 'w, 'a) raising" where
  "ensuring m cleanup s =
     (case m s of (r, s') \<Rightarrow>
        (case cleanup s' of (Inl err, s'') \<Rightarrow> (Inl err, s'') | (Inr _, s'') \<Rightarrow> (r, s'')))"

definition suppressing :: "('e, 'w, 'a) raising \<Rightarrow> ('e, 'w, unit) raising" where
  "suppressing m s = (Inr (), snd (m s))"

named_theorems op_simps "evaluation of operations"

lemma ret_eq_iff [op_simps]: "ret x w = (r, w') \<longleftrightarrow> r = Inr x \<and> w' = w"
  by (auto simp: ret_def)

lemma throw_eq_iff [op_simps]: "throw err w = (r, w') \<longleftrightarrow> r = Inl err \<and> w' = w"
  by (auto simp: throw_def)

lemma lift_result_eq_iff [op_simps]: "lift_result x w = (r, w') \<longleftrightarrow> x = r \<and> w' = w"
  by (auto simp: lift_result_def)

lemma seq_Inr_iff [op_simps]:
  "seq m f w = (Inr y, w') \<longleftrightarrow> (\<exists>x u. m w = (Inr x, u) \<and> f x u = (Inr y, w'))"
  by (auto simp: seq_def split: prod.splits sum.splits)

lemma seq_Inl_iff [op_simps]:
  "seq m f w = (Inl err, w') \<longleftrightarrow>
     m w = (Inl err, w') \<or> (\<exists>x u. m w = (Inr x, u) \<and> f x u = (Inl err, w'))"
  by (auto simp: seq_def split: prod.splits sum.splits)

text \<open>What an operation keeps of the world, whether it returns or raises.\<close>

definition keeps :: "('w \<Rightarrow> 'v) \<Rightarrow> ('e, 'w, 'a) raising \<Rightarrow> bool" where
  "keeps view m \<longleftrightarrow> (\<forall>w. view (snd (m w)) = view w)"

lemma keepsD: "keeps view m \<Longrightarrow> m w = (r, w') \<Longrightarrow> view w' = view w"
  by (metis keeps_def snd_conv)

lemma keeps_ret [intro, simp]: "keeps view (ret x)"
  by (simp add: keeps_def ret_def)

lemma keeps_throw [intro, simp]: "keeps view (throw err)"
  by (simp add: keeps_def throw_def)

lemma keeps_lift [intro, simp]: "keeps view (lift_result r)"
  by (simp add: keeps_def lift_result_def)

lemma keeps_seq [intro]: "keeps view m \<Longrightarrow> (\<And>x. keeps view (f x)) \<Longrightarrow> keeps view (seq m f)"
  unfolding keeps_def by (auto simp: seq_def split: prod.splits sum.splits) (metis snd_conv)+

text \<open>Operations that always return.\<close>

definition returns :: "('e, 'w, 'a) raising \<Rightarrow> bool" where
  "returns m \<longleftrightarrow> (\<forall>w. \<exists>x w'. m w = (Inr x, w'))"

lemma returnsE: "returns m \<Longrightarrow> (\<And>x w'. m w = (Inr x, w') \<Longrightarrow> R) \<Longrightarrow> R"
  unfolding returns_def by blast

section \<open>The adapter\<close>

record verification_result =
  vr_passed :: bool
  vr_tests_passed :: nat
  vr_tests_total :: nat
  vr_denied_events :: "kube_event list"
  vr_stdout :: string
  vr_stderr :: string
  vr_duration_seconds :: string

record failure_description =
  fd_summary :: string
  fd_missing_events :: "kube_event list"
  fd_authorization_denial :: bool

record 'w environment_adapter =
  env_name :: string
  env_get_current_policy :: "('w, policy) op"
  env_get_observed_usage :: "('w, kube_event list) op"
  env_apply_policy :: "policy \<Rightarrow> ('w, unit) op"
  env_verify_workload :: "('w, verification_result) op"
  env_restore_policy :: "('w, unit) op"
  env_describe_failure :: "verification_result \<Rightarrow> ('w, failure_description) op"

text \<open>
  The contract: \<open>current w\<close> is the policy in force and \<open>baseline w\<close> the one \<open>restore_policy\<close>
  goes back to. Reading, verifying and describing change neither; applying sets the policy in
  force; restoring puts the baseline back.
\<close>

locale environment =
  fixes env :: "'w environment_adapter"
    and current :: "'w \<Rightarrow> policy"
    and baseline :: "'w \<Rightarrow> policy"
  assumes get_keeps: "keeps (\<lambda>w. (current w, baseline w)) (env_get_current_policy env)"
    and get_current: "env_get_current_policy env w = (Inr P, w') \<Longrightarrow> P = current w"
    and observe_keeps: "keeps (\<lambda>w. (current w, baseline w)) (env_get_observed_usage env)"
    and verify_keeps: "keeps (\<lambda>w. (current w, baseline w)) (env_verify_workload env)"
    and describe_keeps: "keeps (\<lambda>w. (current w, baseline w)) (env_describe_failure env r)"
    and apply_sets: "env_apply_policy env P w = (Inr (), w') \<Longrightarrow> current w' = P"
    and apply_keeps: "keeps baseline (env_apply_policy env P)"
    and restore_sets: "env_restore_policy env w = (Inr (), w') \<Longrightarrow> current w' = baseline w"
    and restore_keeps: "keeps baseline (env_restore_policy env)"
begin

lemma apply_then_restore:
  assumes "env_apply_policy env P w = (Inr (), u)" and "env_restore_policy env u = (Inr (), w')"
  shows "current w' = baseline w"
  using restore_sets [OF assms(2)] keepsD [OF apply_keeps assms(1)] by simp

end

section \<open>Rendering events for logs and prompts\<close>

definition event_to_dict :: "kube_event \<Rightarrow> pyval" where
  "event_to_dict e =
     PDict [(''api_group'', PStr (ev_api_group e)), (''resource'', PStr (ev_resource e)),
            (''verb'', PStr (ev_verb e)), (''namespace'', opt_str (ev_namespace e)),
            (''resource_name'', opt_str (ev_resource_name e)),
            (''workload_id'', opt_str (ev_workload_id e))]"

end
