(* ===== verification/Agents.thy ===== *)
theory Agents
  imports Environment
begin

text \<open>
  \<open>agent_layer/reducer.py\<close>, \<open>agent_layer/verifier.py\<close> and
  \<open>agent_layer/llm/failure_reasoner.py\<close>. An LLM provider is a parameter: an operation that
  answers a prompt or raises. The lemmas show that explaining a failure never raises, whatever
  the provider does, and that without a usable answer the text is the deterministic one.
\<close>

section \<open>Reducer and verifier\<close>

definition reducer_propose :: "policy \<Rightarrow> kube_event list \<Rightarrow> policy result" where
  "reducer_propose current observed = observed_only_policy current observed"

record verification_attempt =
  va_result :: verification_result
  va_failure :: "failure_description option"

definition verifier_verify ::
  "'w environment_adapter \<Rightarrow> policy \<Rightarrow> ('w, verification_attempt) op" where
  "verifier_verify env P =
     seq (env_apply_policy env P) (\<lambda>_.
     seq (env_verify_workload env) (\<lambda>result.
     seq (if vr_passed result then ret None
          else seq (env_describe_failure env result) (\<lambda>failure. ret (Some failure)))
       (\<lambda>failure. ret \<lparr>va_result = result, va_failure = failure\<rparr>)))"

definition verifier_repair ::
  "policy \<Rightarrow> failure_description \<Rightarrow> policy \<Rightarrow> policy result" where
  "verifier_repair candidate failure original =
     (if \<not> fd_authorization_denial failure \<or> fd_missing_events failure = [] then
        Inl (ValueError ''failure cannot be repaired deterministically'')
      else repair_policy candidate (fd_missing_events failure) original)"

lemma verifier_repair_Inr_iff:
  "verifier_repair candidate failure original = Inr R \<longleftrightarrow>
     fd_authorization_denial failure \<and> fd_missing_events failure \<noteq> [] \<and>
     repair_policy candidate (fd_missing_events failure) original = Inr R"
  by (simp add: verifier_repair_def)

lemma verifier_repair_error:
  "verifier_repair candidate failure original = Inl err \<Longrightarrow> is_value_error err"
  by (auto simp: verifier_repair_def repair_error_is_value_error split: if_splits)

section \<open>The failure reasoner\<close>

record reasoning_explanation =
  re_text :: string
  re_source :: string
  re_error :: "string option"

text \<open>What a provider may raise: \<open>HTTPError\<close>, \<open>URLError\<close>, or another exception given by
  its class name and message.\<close>

datatype provider_error =
    HttpError int string
  | UrlError string
  | ProviderError string string

record 'w llm_provider =
  lp_type_name :: string
  lp_complete :: "string \<Rightarrow> 'w \<Rightarrow> (provider_error + string) \<times> 'w"

definition failure_fallback :: "failure_description \<Rightarrow> string" where
  "failure_fallback failure =
     (if fd_authorization_denial failure \<and> fd_missing_events failure \<noteq> [] then
        ''Verification exercised required capabilities missing from the candidate: '' @
        py_join '', '' (map event_display (fd_missing_events failure)) @ ''.''
      else
        ''Verification failed without a deterministically mapped RBAC denial: '' @
        fd_summary failure)"

definition failure_prompt :: "failure_description \<Rightarrow> string" where
  "failure_prompt failure =
     ''Explain this Kubernetes workload verification failure in at most three sentences. '' @
     ''Do not generate YAML and do not claim a policy is safe. Structured context:'' @
     [char_of (10 :: nat)] @
     json_dumps (PDict
       [(''summary'', PStr (fd_summary failure)),
        (''authorization_denial'', PBool (fd_authorization_denial failure)),
        (''missing_events'', PList (map event_to_dict (fd_missing_events failure)))])"

definition provider_error_text :: "provider_error \<Rightarrow> string" where
  "provider_error_text exc =
     (case exc of
        HttpError code reason \<Rightarrow> ''Gemini HTTP '' @ int_str code @ '': '' @ reason
      | UrlError reason \<Rightarrow> ''Gemini connection error: '' @ reason
      | ProviderError name msg \<Rightarrow>
          (let message = take 240 (map (\<lambda>c. if c = char_of (10 :: nat) then CHR '' '' else c) msg)
           in if message \<noteq> '''' then name @ '': '' @ message else name))"

definition explain_with_source ::
  "'w llm_provider option \<Rightarrow> failure_description \<Rightarrow> 'w \<Rightarrow> reasoning_explanation \<times> 'w" where
  "explain_with_source provider failure w =
     (let fallback = failure_fallback failure in
      case provider of
        None \<Rightarrow> (\<lparr>re_text = fallback, re_source = ''deterministic'', re_error = None\<rparr>, w)
      | Some p \<Rightarrow>
          (case lp_complete p (failure_prompt failure) w of
             (Inl exc, w') \<Rightarrow>
               (\<lparr>re_text = fallback, re_source = ''deterministic-fallback'',
                 re_error = Some (provider_error_text exc)\<rparr>, w')
           | (Inr enhanced, w') \<Rightarrow>
               (let normalized = py_strip enhanced in
                if normalized \<noteq> ''''
                then (\<lparr>re_text = normalized, re_source = lp_type_name p, re_error = None\<rparr>, w')
                else (\<lparr>re_text = fallback, re_source = ''deterministic-fallback'',
                       re_error = None\<rparr>, w'))))"

definition explain :: "'w llm_provider option \<Rightarrow> failure_description \<Rightarrow> 'w \<Rightarrow> string \<times> 'w" where
  "explain provider failure w =
     (case explain_with_source provider failure w of (e, w') \<Rightarrow> (re_text e, w'))"

lemma explain_text_cases:
  "explain_with_source provider failure w = (e, w') \<Longrightarrow>
   re_text e = failure_fallback failure \<or>
   (\<exists>p answer. provider = Some p \<and> lp_complete p (failure_prompt failure) w = (Inr answer, w') \<and>
      re_text e = py_strip answer \<and> re_source e = lp_type_name p)"
  by (auto simp: explain_with_source_def Let_def split: option.splits prod.splits sum.splits
      if_splits)

lemma explain_nonempty: "explain_with_source provider failure w = (e, w') \<Longrightarrow> re_text e \<noteq> ''''"
  by (auto simp: explain_with_source_def Let_def failure_fallback_def
      split: option.splits prod.splits sum.splits if_splits)

definition provider_keeps :: "('w \<Rightarrow> 'v) \<Rightarrow> 'w llm_provider option \<Rightarrow> bool" where
  "provider_keeps view provider \<longleftrightarrow>
     (\<forall>p. provider = Some p \<longrightarrow> (\<forall>prompt w. view (snd (lp_complete p prompt w)) = view w))"

lemma explain_keeps:
  assumes "provider_keeps view provider" and "explain_with_source provider failure w = (e, w')"
  shows "view w' = view w"
proof (cases provider)
  case None
  with assms(2) show ?thesis by (simp add: explain_with_source_def)
next
  case (Some p)
  obtain r u where call: "lp_complete p (failure_prompt failure) w = (r, u)" by fastforce
  have "w' = u"
    using assms(2) Some call
    by (cases r) (auto simp: explain_with_source_def Let_def split: if_splits)
  moreover have "view (snd (lp_complete p (failure_prompt failure) w)) = view w"
    using assms(1) Some unfolding provider_keeps_def by blast
  ultimately show ?thesis using call by simp
qed

end
