(* ===== verification/Trajectory.thy ===== *)
theory Trajectory
  imports Py_Value
begin

text \<open>
  \<open>agent_layer/trajectory\<close>: the events a run records and the recorder that keeps them in
  memory and, when it has a directory, in a JSON-lines file. The file system is a map from paths
  to contents (bytes); the first write of a recorder truncates, later ones append.
\<close>

record trajectory_event =
  te_run_id :: string
  te_environment :: string
  te_agent :: string
  te_action :: string
  te_reason :: string
  te_decision :: "string option"
  te_retry_count :: nat
  te_details :: pydict
  te_timestamp :: string

definition trajectory_to_dict :: "trajectory_event \<Rightarrow> pyval" where
  "trajectory_to_dict ev =
     PDict [(''run_id'', PStr (te_run_id ev)), (''environment'', PStr (te_environment ev)),
            (''agent'', PStr (te_agent ev)), (''action'', PStr (te_action ev)),
            (''reason'', PStr (te_reason ev)), (''decision'', opt_str (te_decision ev)),
            (''retry_count'', PInt (int (te_retry_count ev))), (''details'', PDict (te_details ev)),
            (''timestamp'', PStr (te_timestamp ev))]"

type_synonym file_system = "string \<rightharpoonup> string"

record trajectory_recorder =
  rc_run_id :: string
  rc_directory :: "string option"
  rc_file_stem :: string
  rc_events :: "trajectory_event list"
  rc_started :: bool

definition new_recorder :: "string \<Rightarrow> string option \<Rightarrow> string option \<Rightarrow> trajectory_recorder" where
  "new_recorder run_id directory file_stem =
     \<lparr>rc_run_id = run_id, rc_directory = directory,
      rc_file_stem = (if truthy_opt file_stem then or_empty file_stem else run_id),
      rc_events = [], rc_started = False\<rparr>"

definition event_line :: "trajectory_event \<Rightarrow> string" where
  "event_line ev = json_dumps (trajectory_to_dict ev) @ newline"

definition recorder_path :: "string \<Rightarrow> string \<Rightarrow> string \<Rightarrow> string" where
  "recorder_path directory stem ext = directory @ ''/'' @ stem @ ext"

definition recorder_record ::
  "trajectory_event \<Rightarrow> trajectory_recorder \<times> file_system \<Rightarrow> trajectory_recorder \<times> file_system" where
  "recorder_record ev rf =
     (case rf of (r, fs) \<Rightarrow>
        let r' = r\<lparr>rc_events := rc_events r @ [ev]\<rparr> in
        case rc_directory r of
          None \<Rightarrow> (r', fs)
        | Some directory \<Rightarrow>
            let path = recorder_path directory (rc_file_stem r) ''.jsonl'';
                before = (if rc_started r then or_empty (fs path) else '''')
            in (r'\<lparr>rc_started := True\<rparr>, fs(path \<mapsto> before @ event_line ev)))"

text \<open>UTF-8 encoding of the first 256 code points; the summary also has an em dash.\<close>

definition utf8_char :: "char \<Rightarrow> string" where
  "utf8_char c =
     (let n = (of_char c :: nat) in
      if n < 128 then [c] else [char_of (192 + n div 64), char_of (128 + n mod 64)])"

definition utf8 :: "string \<Rightarrow> string" where
  "utf8 s = concat (map utf8_char s)"

definition em_dash :: string where
  "em_dash = [char_of (226 :: nat), char_of (128 :: nat), char_of (148 :: nat)]"

definition summary_line :: "nat \<Rightarrow> trajectory_event \<Rightarrow> string" where
  "summary_line index ev =
     nat_str index @ ''. **'' @ utf8 (te_agent ev) @ '' / '' @ utf8 (te_action ev) @ ''** '' @
     em_dash @ '' '' @ utf8 (te_reason ev) @
     (if truthy_opt (te_decision ev)
      then '' Decision: `'' @ utf8 (or_empty (te_decision ev)) @ ''`.'' else '''')"

definition write_summary ::
  "trajectory_recorder \<Rightarrow> file_system \<Rightarrow> string option \<times> file_system" where
  "write_summary r fs =
     (case rc_directory r of
        None \<Rightarrow> (None, fs)
      | Some directory \<Rightarrow>
          let path = recorder_path directory (rc_file_stem r) ''.md'';
              lines = [''# Kuber trajectory: '' @ utf8 (rc_run_id r), ''''] @
                map (\<lambda>(index, ev). summary_line index ev)
                  (zip [1..<Suc (length (rc_events r))] (rc_events r))
          in (Some path, fs(path \<mapsto> py_join newline lines @ newline)))"

section \<open>The log file\<close>

lemma recorder_record_simps [simp]:
  "rc_events (fst (recorder_record ev (r, fs))) = rc_events r @ [ev]"
  "rc_directory (fst (recorder_record ev (r, fs))) = rc_directory r"
  "rc_file_stem (fst (recorder_record ev (r, fs))) = rc_file_stem r"
  by (simp_all add: recorder_record_def Let_def split: option.splits)

lemma recorder_fold_started:
  assumes "rc_directory r = Some d" and "rc_started r"
    and "recorder_path d (rc_file_stem r) ''.jsonl'' = path" and "fs path = Some before"
  shows "snd (fold recorder_record evs (r, fs)) = fs(path \<mapsto> before @ concat (map event_line evs))"
  using assms
proof (induction evs arbitrary: r fs before)
  case Nil
  then show ?case by (simp add: fun_upd_idem)
next
  case (Cons ev evs)
  let ?r = "r\<lparr>rc_events := rc_events r @ [ev], rc_started := True\<rparr>"
  have step: "recorder_record ev (r, fs) = (?r, fs(path \<mapsto> before @ event_line ev))"
    using Cons.prems by (simp add: recorder_record_def Let_def)
  have "snd (fold recorder_record evs (?r, fs(path \<mapsto> before @ event_line ev))) =
      (fs(path \<mapsto> before @ event_line ev))(path \<mapsto>
        (before @ event_line ev) @ concat (map event_line evs))"
    by (rule Cons.IH) (use Cons.prems in simp_all)
  then show ?case
    by (simp only: fold.simps o_apply step fun_upd_upd list.map concat.simps append_assoc)
qed

lemma recorder_fold_events: "rc_events (fst (fold recorder_record evs (r, fs))) = rc_events r @ evs"
proof (induction evs arbitrary: r fs)
  case (Cons ev evs)
  obtain r' fs' where "recorder_record ev (r, fs) = (r', fs')" by (cases "recorder_record ev (r, fs)")
  then show ?case using Cons.IH [of r' fs'] recorder_record_simps(1) [of ev r fs] by simp
qed simp

lemma recorder_log:
  assumes "evs \<noteq> []"
  shows "snd (fold recorder_record evs (new_recorder run_id (Some d) stem, fs)) =
    fs(recorder_path d (rc_file_stem (new_recorder run_id (Some d) stem)) ''.jsonl''
       \<mapsto> concat (map event_line evs))"
proof -
  obtain ev rest where evs: "evs = ev # rest" using assms by (cases evs) auto
  let ?r = "new_recorder run_id (Some d) stem"
  let ?path = "recorder_path d (rc_file_stem ?r) ''.jsonl''"
  let ?r' = "?r\<lparr>rc_events := [ev], rc_started := True\<rparr>"
  have step: "recorder_record ev (?r, fs) = (?r', fs(?path \<mapsto> event_line ev))"
    by (simp add: recorder_record_def new_recorder_def Let_def)
  have "snd (fold recorder_record rest (?r', fs(?path \<mapsto> event_line ev))) =
      (fs(?path \<mapsto> event_line ev))(?path \<mapsto> event_line ev @ concat (map event_line rest))"
    by (rule recorder_fold_started [where d = d]) (simp_all add: new_recorder_def)
  then show ?thesis
    by (simp only: evs fold.simps o_apply step fun_upd_upd list.map concat.simps)
qed

lemma recorder_memory_only:
  "snd (fold recorder_record evs (new_recorder run_id None stem, fs)) = fs"
proof -
  have "rc_directory r = None \<Longrightarrow> snd (fold recorder_record evs (r, fs)) = fs" for r
    by (induction evs arbitrary: r) (simp_all add: recorder_record_def)
  then show ?thesis by (simp add: new_recorder_def)
qed

end
