(* ===== verification/Risk.thy ===== *)
theory Risk
  imports Minimizer
begin

text \<open>
  \<open>rules_engine/risk\<close> (signals of a permission, score of a policy) and
  \<open>rules_engine/minimizer/candidates.py\<close> (which permissions the observations do not need, most
  risky first). The lemmas show that the per-reason bookkeeping loses no points, that the score
  is bounded and monotone, and that the listed reductions are exactly the unused permissions.
\<close>

definition mutating_verbs :: "string list" where
  "mutating_verbs = [''create'', ''update'', ''patch'', ''delete'', ''*'']"

definition permission_risk_signals :: "permission \<Rightarrow> (string \<times> int) list" where
  "permission_risk_signals p =
     (if pm_verb p = ''*'' then [(''wildcard verbs'', 20)] else []) @
     (if pm_resource p = ''*'' \<or> pm_api_group p = ''*''
      then [(''wildcard resources/API groups'', 25)] else []) @
     (if pm_namespace p = None then [(''cluster-wide scope'', 8)] else []) @
     (if truthy_opt (pm_source p) \<and> prefix ''ClusterRoleBinding/'' (or_empty (pm_source p))
      then [(''ClusterRoleBinding grant'', 5)] else []) @
     (if pm_resource p = ''secrets''
      then [(pm_verb p @ '' secrets'',
             if pm_verb p \<in> {''get'', ''list'', ''watch'', ''*''} then 8 else 12)] else []) @
     (if pm_verb p \<in> set mutating_verbs then [(''mutating verb: '' @ pm_verb p, 4)] else []) @
     (if pm_verb p \<in> {''delete'', ''*''} then [(''delete capability'', 5)] else []) @
     (if pm_resource p \<in> {''roles'', ''clusterroles'', ''rolebindings'', ''clusterrolebindings''}
      then [(''RBAC modification capability'', 20)] else [])"

record risk_finding =
  rf_reason :: string
  rf_points :: int
  rf_occurrences :: int

record risk_assessment =
  ra_score :: int
  ra_uncapped_score :: int
  ra_findings :: "risk_finding list"
  ra_heuristic :: string

type_synonym totals = "(string \<times> int \<times> int) list"

text \<open>\<open>totals[reason][0] += points; totals[reason][1] += 1\<close> on a \<open>defaultdict\<close> of \<open>[0, 0]\<close>.\<close>

definition add_signal :: "string \<times> int \<Rightarrow> totals \<Rightarrow> totals" where
  "add_signal sig totals =
     (case sig of (reason, points) \<Rightarrow>
       (case map_of totals reason of
          None \<Rightarrow> AList.update reason (points, 1) totals
        | Some (a, b) \<Rightarrow> AList.update reason (a + points, b + 1) totals))"

definition policy_totals :: "policy \<Rightarrow> totals" where
  "policy_totals P =
     fold (\<lambda>p totals. fold add_signal (permission_risk_signals p) totals) (pl_permissions P) []"

definition score_policy :: "policy \<Rightarrow> risk_assessment" where
  "score_policy P =
     (let findings =
            map (\<lambda>(reason, points, occurrences).
                   \<lparr>rf_reason = reason, rf_points = points, rf_occurrences = occurrences\<rparr>)
              (sort_key (\<lambda>(reason, points, occurrences). (- points, reason)) (policy_totals P));
          uncapped = sum_list (map rf_points findings)
      in \<lparr>ra_score = min 100 uncapped, ra_uncapped_score = uncapped, ra_findings = findings,
          ra_heuristic = ''Kuber benchmark heuristic v1 (not an industry standard)''\<rparr>)"

record candidate_reduction =
  cr_permission :: permission
  cr_reason :: string
  cr_risk_value :: int

definition permission_risk :: "permission \<Rightarrow> int" where
  "permission_risk p = sum_list (map snd (permission_risk_signals p))"

definition candidate_reductions :: "policy \<Rightarrow> kube_event list \<Rightarrow> candidate_reduction list" where
  "candidate_reductions P observed =
     sort_key (\<lambda>r. (- cr_risk_value r, perm_sort_key (cr_permission r)))
       (map (\<lambda>p. \<lparr>cr_permission = p, cr_reason = ''not required by observed usage'',
                   cr_risk_value = permission_risk p\<rparr>)
         (filter (\<lambda>p. \<not> list_ex (is_authorized (with_permissions P [p])) observed)
           (pl_permissions P)))"

section \<open>The totals\<close>

definition total_points :: "totals \<Rightarrow> int" where
  "total_points t = sum_list (map (\<lambda>(reason, points, occurrences). points) t)"

lemma signals_nonneg: "(reason, points) \<in> set (permission_risk_signals p) \<Longrightarrow> 0 \<le> points"
  by (auto simp: permission_risk_signals_def split: if_splits)

lemma permission_risk_nonneg: "0 \<le> permission_risk p"
  unfolding permission_risk_def
  by (rule sum_list_nonneg) (auto dest: signals_nonneg)

lemma update_new: "map_of t k = None \<Longrightarrow> AList.update k v t = t @ [(k, v)]"
  by (induction t) (auto split: if_splits)

lemma total_points_update:
  "distinct (map fst t) \<Longrightarrow> map_of t k = Some (a, b) \<Longrightarrow>
   total_points (AList.update k (a', b') t) = total_points t - a + a'"
  by (induction t) (auto simp: total_points_def split: if_splits)

lemma add_signal_distinct: "distinct (map fst t) \<Longrightarrow> distinct (map fst (add_signal sig t))"
  by (auto simp: add_signal_def distinct_update split: prod.splits option.splits)

lemma total_points_add_signal:
  "distinct (map fst t) \<Longrightarrow> total_points (add_signal sig t) = total_points t + snd sig"
  by (auto simp: add_signal_def update_new total_points_update split: prod.splits option.splits)
    (simp add: total_points_def)

lemma fold_add_signal:
  "distinct (map fst t) \<Longrightarrow>
   distinct (map fst (fold add_signal sigs t)) \<and>
   total_points (fold add_signal sigs t) = total_points t + sum_list (map snd sigs)"
  by (induction sigs arbitrary: t) (auto simp: add_signal_distinct total_points_add_signal)

lemma fold_signals:
  "distinct (map fst t) \<Longrightarrow>
   distinct (map fst (fold (\<lambda>p t. fold add_signal (permission_risk_signals p) t) ps t)) \<and>
   total_points (fold (\<lambda>p t. fold add_signal (permission_risk_signals p) t) ps t)
     = total_points t + sum_list (map permission_risk ps)"
  by (induction ps arbitrary: t) (auto simp: fold_add_signal permission_risk_def)

lemma policy_totals_distinct: "distinct (map fst (policy_totals P))"
  by (simp add: policy_totals_def fold_signals)

lemma policy_totals_points:
  "total_points (policy_totals P) = sum_list (map permission_risk (pl_permissions P))"
  using fold_signals [of "[]" "pl_permissions P"]
  by (simp add: policy_totals_def total_points_def)

section \<open>The score\<close>

lemma score_uncapped:
  "ra_uncapped_score (score_policy P) = sum_list (map permission_risk (pl_permissions P))"
proof -
  have "ra_uncapped_score (score_policy P) = total_points (policy_totals P)"
    unfolding score_policy_def Let_def total_points_def
    by (simp add: o_def case_prod_unfold sum_list_sort_key)
  then show ?thesis by (simp add: policy_totals_points)
qed

lemma score_capped: "ra_score (score_policy P) = min 100 (ra_uncapped_score (score_policy P))"
  by (simp add: score_policy_def Let_def)

lemma score_uncapped_nonneg: "0 \<le> ra_uncapped_score (score_policy P)"
  unfolding score_uncapped by (rule sum_list_nonneg) (auto simp: permission_risk_nonneg)

lemma score_bounds: "0 \<le> ra_score (score_policy P) \<and> ra_score (score_policy P) \<le> 100"
  using score_uncapped_nonneg [of P] by (simp add: score_capped)

lemma findings_sorted:
  "sorted (map (\<lambda>f. (- rf_points f, rf_reason f)) (ra_findings (score_policy P)))"
  using sorted_sort_key [of "\<lambda>(reason, points, occurrences). (- points, reason)" "policy_totals P"]
  by (simp add: score_policy_def Let_def o_def case_prod_unfold)

lemma findings_distinct: "distinct (map rf_reason (ra_findings (score_policy P)))"
  using policy_totals_distinct [of P]
  by (simp add: score_policy_def Let_def o_def case_prod_unfold distinct_map)

text \<open>A policy whose permissions are among another's scores no higher.\<close>

lemma canonical_distinct: "canonical_policy P \<Longrightarrow> distinct (pl_permissions P)"
  by (auto simp: canonical_policy_def distinct_map)

lemma score_mono:
  assumes "canonical_policy P" and "set (pl_permissions P) \<subseteq> set (pl_permissions Q)"
  shows "ra_score (score_policy P) \<le> ra_score (score_policy Q)"
proof -
  have "ra_uncapped_score (score_policy P) \<le> ra_uncapped_score (score_policy Q)"
    unfolding score_uncapped
    using assms by (intro sum_list_subset) (auto simp: canonical_distinct permission_risk_nonneg)
  then show ?thesis by (simp add: score_capped min.coboundedI2)
qed

section \<open>Candidate reductions\<close>

lemma single_permission_authorizes [simp]:
  "is_authorized (with_permissions P [p]) e \<longleftrightarrow> matches p e"
  by (simp add: is_authorized_with_permissions)

lemma candidate_reductions_set:
  "cr_permission ` set (candidate_reductions P observed) =
     {p \<in> set (pl_permissions P). \<forall>e \<in> set observed. \<not> matches p e}"
  by (auto simp: candidate_reductions_def list_ex_iff image_image)

lemma candidate_reductions_sorted:
  "sorted (map (\<lambda>r. - cr_risk_value r) (candidate_reductions P observed))"
proof -
  let ?k = "\<lambda>r. (- cr_risk_value r, perm_sort_key (cr_permission r))"
  have "sorted (map ?k (candidate_reductions P observed))"
    unfolding candidate_reductions_def by (rule sorted_sort_key)
  then show ?thesis
    by (auto simp: sorted_map less_eq_prod_def elim!: sorted_wrt_mono_rel [rotated])
qed

lemma dropping_reductions_keeps_observed:
  assumes "e \<in> set observed" and "is_authorized P e"
    and "\<forall>p \<in> set (pl_permissions P). p \<in> set kept \<or> p \<in> cr_permission ` set (candidate_reductions P observed)"
  shows "is_authorized (with_permissions P kept) e"
  using assms by (auto simp: is_authorized_with_permissions is_authorized_iff [of P]
      candidate_reductions_set)

end
