(* ===== verification/Workload_Graph.thy ===== *)
theory Workload_Graph
  imports Agents Trajectory Risk
begin

text \<open>
  \<open>agent_layer/graphs/state.py\<close> and \<open>agent_layer/graphs/workload.py\<close>: the workload
  optimisation graph. One definition per node function, in the order of the source; the edges;
  the executor, whose fuel is LangGraph's recursion limit; and \<open>run\<close>. A node reads and updates
  the checkpointed state and may act on the world through the environment adapter, the failure
  reasoner and the trajectory recorder. Keys of the state that a node may find missing are
  optional fields, and reading one that is missing raises \<open>KeyError\<close>.
\<close>

section \<open>State\<close>

datatype failure_type = Rbac_Failure | Unrelated_Failure | Unrecoverable_Failure

record workload_state =
  ws_run_id :: string
  ws_task_id :: string
  ws_workload_id :: string
  ws_service_name :: string
  ws_repository_ref :: string
  ws_context_ref :: string
  ws_namespace :: "string option"
  ws_service_account :: "string option"
  ws_original_policy :: "policy option"
  ws_current_policy :: "policy option"
  ws_candidate_policy :: "policy option"
  ws_last_known_good_policy :: "policy option"
  ws_effective_permissions :: "nat option"
  ws_observed_events :: "kube_event list option"
  ws_original_risk :: "risk_assessment option"
  ws_current_risk :: "risk_assessment option"
  ws_candidate_risk :: "risk_assessment option"
  ws_verification_result :: "verification_result option"
  ws_failure_type :: "failure_type option"
  ws_failure_details :: "failure_description option option"
  ws_missing_permissions :: "kube_event list option"
  ws_reductions_attempted :: nat
  ws_reductions_accepted :: nat
  ws_reductions_rejected :: nat
  ws_retry_count :: nat
  ws_incorrect_removals :: nat
  ws_accepted :: bool
  ws_graph_node :: string

text \<open>The collaborators of a graph. \<open>gc_sink\<close> is what recording an event does outside the
  recorder's memory (the log file and the event callback), \<open>gc_summary\<close> is \<open>write_summary\<close>,
  \<open>gc_now\<close> reads the clock, \<open>gc_limit\<close> is the recursion limit of the executor.\<close>

record 'w graph_config =
  gc_env :: "'w environment_adapter"
  gc_max_repair_iterations :: nat
  gc_provider :: "'w llm_provider option"
  gc_sink :: "trajectory_event \<Rightarrow> ('w, unit) op"
  gc_summary :: "trajectory_event list \<Rightarrow> ('w, string option) op"
  gc_now :: "'w \<Rightarrow> string"
  gc_limit :: nat

type_synonym 'w run = "'w \<times> trajectory_event list"

definition check_max_repair :: "int \<Rightarrow> nat result" where
  "check_max_repair n =
     (if n < 0 then Inl (ValueError ''max_repair_iterations must be non-negative'')
      else Inr (nat n))"

section \<open>Access to the state, the environment and the recorder\<close>

definition need :: "string \<Rightarrow> 'a option \<Rightarrow> ('s, 'a) op" where
  "need key x = (case x of None \<Rightarrow> throw (KeyError key) | Some v \<Rightarrow> ret v)"

definition on_env :: "('w, 'a) op \<Rightarrow> ('w run, 'a) op" where
  "on_env m r = (case r of (w, evs) \<Rightarrow> (case m w of (x, w') \<Rightarrow> (x, (w', evs))))"

definition record_event :: "'w graph_config \<Rightarrow> trajectory_event \<Rightarrow> ('w run, unit) op" where
  "record_event cfg ev r =
     (case r of (w, evs) \<Rightarrow> (case gc_sink cfg ev w of (x, w') \<Rightarrow> (x, (w', evs @ [ev]))))"

definition emit ::
  "'w graph_config \<Rightarrow> workload_state \<Rightarrow> string \<Rightarrow> string \<Rightarrow> string \<Rightarrow> string option \<Rightarrow> pydict \<Rightarrow>
   ('w run, unit) op" where
  "emit cfg st agent action reason decision details r =
     record_event cfg
       \<lparr>te_run_id = ws_run_id st, te_environment = env_name (gc_env cfg), te_agent = agent,
        te_action = action, te_reason = reason, te_decision = decision,
        te_retry_count = ws_retry_count st, te_details = details,
        te_timestamp = gc_now cfg (fst r)\<rparr> r"

abbreviation pnat :: "nat \<Rightarrow> pyval" where
  "pnat n \<equiv> PInt (int n)"

abbreviation pevents :: "kube_event list \<Rightarrow> pyval" where
  "pevents es \<equiv> PList (map event_to_dict es)"

section \<open>Nodes\<close>

type_synonym 'w node_fun = "'w graph_config \<Rightarrow> workload_state \<Rightarrow> ('w run, workload_state) op"

definition load_context :: "'w node_fun" where
  "load_context cfg st =
     seq (emit cfg st ''orchestrator'' ''load_service_context''
            ''loaded compact service-scoped context reference'' None
            [(''context_ref'', PStr (ws_context_ref st)),
             (''repository_ref'', PStr (ws_repository_ref st))]) (\<lambda>_.
     ret (st\<lparr>ws_graph_node := ''LOAD_SERVICE_CONTEXT''\<rparr>))"

definition inspect :: "'w node_fun" where
  "inspect cfg st =
     seq (on_env (env_get_current_policy (gc_env cfg))) (\<lambda>P.
     let risk = score_policy P in
     seq (emit cfg st ''inspector'' ''inspect'' ''resolved policy and deterministic risk'' None
            [(''permissions'', pnat (effective_permission_count P)),
             (''risk'', PInt (ra_score risk)),
             (''risk_uncapped'', PInt (ra_uncapped_score risk)),
             (''risk_findings'', PList (map (\<lambda>f. PDict
                [(''reason'', PStr (rf_reason f)), (''points'', PInt (rf_points f))])
                (ra_findings risk)))]) (\<lambda>_.
     ret (st\<lparr>ws_original_policy := Some P, ws_current_policy := Some P,
             ws_last_known_good_policy := Some P, ws_original_risk := Some risk,
             ws_current_risk := Some risk,
             ws_effective_permissions := Some (effective_permission_count P),
             ws_namespace := Some (pl_service_account_namespace P),
             ws_service_account := Some (pl_service_account P),
             ws_graph_node := ''INSPECT_RBAC''\<rparr>)))"

definition gather :: "'w node_fun" where
  "gather cfg st =
     seq (on_env (env_get_observed_usage (gc_env cfg))) (\<lambda>observed.
     seq (emit cfg st ''inspector'' ''gather_evidence''
            (''gathered '' @ nat_str (length observed) @ '' normalized Kubernetes calls'') None
            [(''observed_events'', pevents observed)]) (\<lambda>_.
     ret (st\<lparr>ws_observed_events := Some observed, ws_graph_node := ''GATHER_EVIDENCE''\<rparr>)))"

definition generate :: "'w node_fun" where
  "generate cfg st =
     seq (need ''original_policy'' (ws_original_policy st)) (\<lambda>original.
     seq (need ''observed_events'' (ws_observed_events st)) (\<lambda>observed.
     seq (lift_result (reducer_propose original observed)) (\<lambda>candidate.
     let risk = score_policy candidate in
     seq (emit cfg st ''reducer'' ''propose_policy''
            ''narrowest supported policy for observed calls; verification still required'' None
            [(''permissions'', pnat (effective_permission_count candidate)),
             (''removed_permissions'',
                PInt (int (effective_permission_count original)
                      - int (effective_permission_count candidate))),
             (''risk'', PInt (ra_score risk)),
             (''candidate_permissions'',
                PList (map (\<lambda>p. PStr (perm_display p)) (pl_permissions candidate)))]) (\<lambda>_.
     ret (st\<lparr>ws_candidate_policy := Some candidate, ws_candidate_risk := Some risk,
             ws_reductions_attempted := ws_reductions_attempted st + 1,
             ws_graph_node := ''GENERATE_CANDIDATE''\<rparr>)))))"

text \<open>The generator expression reads \<open>candidate_policy\<close> at once and \<open>original_policy\<close> for each
  permission, so an empty candidate never needs the latter.\<close>

definition validate :: "'w node_fun" where
  "validate cfg st =
     seq (need ''candidate_policy'' (ws_candidate_policy st)) (\<lambda>candidate.
     seq (if pl_permissions candidate = [] then ret True
          else seq (need ''original_policy'' (ws_original_policy st)) (\<lambda>original.
            ret (list_all (\<lambda>p. is_authorized original (permission_event p))
                   (pl_permissions candidate)))) (\<lambda>valid.
     if \<not> valid then
       throw (ValueError ''candidate contains a capability absent from the original policy'')
     else
       seq (emit cfg st ''rules_engine'' ''validate_candidate''
              ''candidate is normalized and constrained to original capabilities'' None []) (\<lambda>_.
       ret (st\<lparr>ws_graph_node := ''VALIDATE_CANDIDATE''\<rparr>))))"

definition apply_candidate :: "'w node_fun" where
  "apply_candidate cfg st =
     seq (need ''candidate_policy'' (ws_candidate_policy st)) (\<lambda>candidate.
     seq (on_env (env_apply_policy (gc_env cfg) candidate)) (\<lambda>_.
     seq (emit cfg st ''verifier'' ''apply_policy''
            ''applied deterministic candidate in the controlled environment'' None
            [(''attempt'', pnat (ws_retry_count st + 1)),
             (''permissions'', pnat (effective_permission_count candidate)),
             (''risk'', PInt (ra_score (score_policy candidate)))]) (\<lambda>_.
     ret (st\<lparr>ws_current_policy := Some candidate, ws_graph_node := ''APPLY_CANDIDATE''\<rparr>))))"

definition verify :: "'w node_fun" where
  "verify cfg st =
     seq (on_env (env_verify_workload (gc_env cfg))) (\<lambda>result.
     seq (if vr_passed result then ret None
          else seq (on_env (env_describe_failure (gc_env cfg) result)) (\<lambda>f. ret (Some f)))
       (\<lambda>failure.
     let kind = map_option (\<lambda>f. if fd_authorization_denial f then Rbac_Failure
                                 else Unrelated_Failure) failure in
     seq (emit cfg st ''verifier'' ''verify''
            (nat_str (vr_tests_passed result) @ ''/'' @ nat_str (vr_tests_total result) @
             '' verification tests passed'')
            (Some (if vr_passed result then ''accept'' else ''diagnose''))
            [(''denied_events'', pevents (vr_denied_events result)),
             (''tests_passed'', pnat (vr_tests_passed result)),
             (''tests_total'', pnat (vr_tests_total result)),
             (''duration_seconds'', PFloat (vr_duration_seconds result)),
             (''test_output'', PStr (py_strip (vr_stdout result)))]) (\<lambda>_.
     ret (st\<lparr>ws_verification_result := Some result, ws_failure_details := Some failure,
             ws_failure_type := kind,
             ws_missing_permissions :=
               Some (case failure of None \<Rightarrow> [] | Some f \<Rightarrow> fd_missing_events f),
             ws_graph_node := ''VERIFY''\<rparr>))))"

definition check_more :: "'w node_fun" where
  "check_more cfg st =
     seq (emit cfg st ''orchestrator'' ''check_more_reductions''
            ''observed-only candidate is already the narrowest supported candidate''
            (Some ''final_verify'') []) (\<lambda>_.
     ret (st\<lparr>ws_graph_node := ''CHECK_MORE_REDUCTIONS''\<rparr>))"

definition final_verify :: "'w node_fun" where
  "final_verify cfg st =
     seq (emit cfg st ''verifier'' ''final_verify''
            ''declared verification passed for the retained candidate'' (Some ''accept'') []) (\<lambda>_.
     ret (st\<lparr>ws_accepted := True, ws_failure_type := None, ws_graph_node := ''FINAL_VERIFY''\<rparr>))"

text \<open>\<open>failure = state["failure_details"]; assert failure is not None\<close>.\<close>

definition failure_of :: "workload_state \<Rightarrow> ('s, failure_description) op" where
  "failure_of st =
     seq (need ''failure_details'' (ws_failure_details st)) (\<lambda>details.
     case details of None \<Rightarrow> throw AssertionError | Some f \<Rightarrow> ret f)"

definition explain_op ::
  "'w llm_provider option \<Rightarrow> failure_description \<Rightarrow> ('w, reasoning_explanation) op" where
  "explain_op provider failure w =
     (case explain_with_source provider failure w of (e, w') \<Rightarrow> (Inr e, w'))"

definition diagnose :: "'w node_fun" where
  "diagnose cfg st =
     seq (failure_of st) (\<lambda>failure.
     seq (on_env (explain_op (gc_provider cfg) failure)) (\<lambda>explanation.
     seq (emit cfg st ''reasoner'' ''diagnose_failure'' (re_text explanation) (Some ''repair'')
            [(''reasoner'', PStr (re_source explanation)),
             (''reasoner_error'', opt_str (re_error explanation))]) (\<lambda>_.
     ret (st\<lparr>ws_graph_node := ''DIAGNOSE_FAILURE''\<rparr>))))"

definition unrecoverable :: "workload_state \<Rightarrow> workload_state" where
  "unrecoverable st =
     st\<lparr>ws_failure_type := Some Unrecoverable_Failure, ws_graph_node := ''REPAIR_POLICY''\<rparr>"

definition repair_accepted ::
  "workload_state \<Rightarrow> policy \<Rightarrow> policy \<Rightarrow> workload_state" where
  "repair_accepted st candidate repaired =
     st\<lparr>ws_candidate_policy := Some repaired,
        ws_candidate_risk := Some (score_policy repaired),
        ws_retry_count := ws_retry_count st + 1,
        ws_incorrect_removals := ws_incorrect_removals st +
          (length (pl_permissions repaired) - length (pl_permissions candidate)),
        ws_graph_node := ''REPAIR_POLICY''\<rparr>"

definition repair :: "'w node_fun" where
  "repair cfg st =
     seq (failure_of st) (\<lambda>failure.
     seq (need ''candidate_policy'' (ws_candidate_policy st)) (\<lambda>candidate.
     seq (need ''original_policy'' (ws_original_policy st)) (\<lambda>original.
     case verifier_repair candidate failure original of
       Inl err \<Rightarrow> if is_value_error err then ret (unrecoverable st) else throw err
     | Inr repaired \<Rightarrow>
         if length (pl_permissions repaired) \<le> length (pl_permissions candidate)
         then ret (unrecoverable st)
         else
           seq (emit cfg st ''verifier'' ''repair_policy''
                  ''restored only denied capabilities allowed by the original policy''
                  (Some ''retry'')
                  [(''restored'', pevents (fd_missing_events failure)),
                   (''permissions_after_repair'', pnat (effective_permission_count repaired)),
                   (''risk_after_repair'', PInt (ra_score (score_policy repaired)))]) (\<lambda>_.
           ret (repair_accepted st candidate repaired)))))"

definition restore :: "'w node_fun" where
  "restore cfg st =
     seq (on_env (env_restore_policy (gc_env cfg))) (\<lambda>_.
     seq (emit cfg st ''orchestrator'' ''restore_policy''
            ''candidate did not pass declared verification'' (Some ''reject'') []) (\<lambda>_.
     seq (need ''last_known_good_policy'' (ws_last_known_good_policy st)) (\<lambda>good.
     ret (st\<lparr>ws_current_policy := Some good, ws_accepted := False,
             ws_reductions_rejected := ws_reductions_rejected st + 1,
             ws_graph_node := ''RESTORE_LAST_KNOWN_GOOD''\<rparr>))))"

definition human_review :: "'w node_fun" where
  "human_review cfg st =
     seq (emit cfg st ''orchestrator'' ''human_review''
            ''automatic repair was unsafe or exhausted; original policy restored''
            (Some ''review'') []) (\<lambda>_.
     ret (st\<lparr>ws_graph_node := ''HUMAN_REVIEW''\<rparr>))"

definition finalize :: "'w node_fun" where
  "finalize cfg st =
     seq (need ''current_policy'' (ws_current_policy st)) (\<lambda>P.
     seq (emit cfg st ''orchestrator'' ''finalize''
            (if ws_accepted st then ''verified candidate retained''
             else ''last-known-good policy retained'')
            (Some (if ws_accepted st then ''accept'' else ''reject''))
            [(''permissions'', pnat (effective_permission_count P)),
             (''risk'', PInt (ra_score (score_policy P))),
             (''final_permissions'',
                PList (map (\<lambda>p. PStr (perm_display p)) (pl_permissions P)))]) (\<lambda>_.
     ret (st\<lparr>ws_current_risk := Some (score_policy P),
             ws_reductions_accepted := (if ws_accepted st then 1 else 0),
             ws_graph_node := ''FINALIZE_WORKLOAD''\<rparr>)))"

definition publish_result :: "'w node_fun" where
  "publish_result cfg st =
     seq (emit cfg st ''orchestrator'' ''publish_result_event''
            ''durable worker may now publish the result and acknowledge its task'' None []) (\<lambda>_.
     ret (st\<lparr>ws_graph_node := ''PUBLISH_RESULT_EVENT''\<rparr>))"

section \<open>Edges and execution\<close>

datatype node =
    Load_Service_Context | Inspect_Rbac | Gather_Evidence | Generate_Candidate
  | Validate_Candidate | Apply_Candidate | Verify | Check_More_Reductions | Final_Verify
  | Diagnose_Failure | Repair_Policy | Restore_Last_Known_Good | Human_Review
  | Finalize_Workload | Publish_Result_Event

fun exec_node :: "'w graph_config \<Rightarrow> node \<Rightarrow> workload_state \<Rightarrow> ('w run, workload_state) op" where
  "exec_node cfg Load_Service_Context = load_context cfg"
| "exec_node cfg Inspect_Rbac = inspect cfg"
| "exec_node cfg Gather_Evidence = gather cfg"
| "exec_node cfg Generate_Candidate = generate cfg"
| "exec_node cfg Validate_Candidate = validate cfg"
| "exec_node cfg Apply_Candidate = apply_candidate cfg"
| "exec_node cfg Verify = verify cfg"
| "exec_node cfg Check_More_Reductions = check_more cfg"
| "exec_node cfg Final_Verify = final_verify cfg"
| "exec_node cfg Diagnose_Failure = diagnose cfg"
| "exec_node cfg Repair_Policy = repair cfg"
| "exec_node cfg Restore_Last_Known_Good = restore cfg"
| "exec_node cfg Human_Review = human_review cfg"
| "exec_node cfg Finalize_Workload = finalize cfg"
| "exec_node cfg Publish_Result_Event = publish_result cfg"

definition route_verification :: "'w graph_config \<Rightarrow> workload_state \<Rightarrow> node result" where
  "route_verification cfg st =
     (case ws_verification_result st of
        None \<Rightarrow> Inl (KeyError ''verification_result'')
      | Some result \<Rightarrow>
          Inr (if vr_passed result then Check_More_Reductions
               else if ws_failure_type st = Some Rbac_Failure \<and>
                       ws_retry_count st < gc_max_repair_iterations cfg
               then Diagnose_Failure
               else Restore_Last_Known_Good))"

definition route_repair :: "workload_state \<Rightarrow> node" where
  "route_repair st =
     (if ws_failure_type st \<noteq> Some Unrecoverable_Failure then Validate_Candidate
      else Restore_Last_Known_Good)"

text \<open>\<open>None\<close> is \<open>END\<close>.\<close>

fun next_node :: "'w graph_config \<Rightarrow> node \<Rightarrow> workload_state \<Rightarrow> node option result" where
  "next_node cfg Load_Service_Context st = Inr (Some Inspect_Rbac)"
| "next_node cfg Inspect_Rbac st = Inr (Some Gather_Evidence)"
| "next_node cfg Gather_Evidence st = Inr (Some Generate_Candidate)"
| "next_node cfg Generate_Candidate st = Inr (Some Validate_Candidate)"
| "next_node cfg Validate_Candidate st = Inr (Some Apply_Candidate)"
| "next_node cfg Apply_Candidate st = Inr (Some Verify)"
| "next_node cfg Verify st = rbind (route_verification cfg st) (\<lambda>n. Inr (Some n))"
| "next_node cfg Check_More_Reductions st = Inr (Some Final_Verify)"
| "next_node cfg Final_Verify st = Inr (Some Finalize_Workload)"
| "next_node cfg Diagnose_Failure st = Inr (Some Repair_Policy)"
| "next_node cfg Repair_Policy st = Inr (Some (route_repair st))"
| "next_node cfg Restore_Last_Known_Good st = Inr (Some Human_Review)"
| "next_node cfg Human_Review st = Inr (Some Finalize_Workload)"
| "next_node cfg Finalize_Workload st = Inr (Some Publish_Result_Event)"
| "next_node cfg Publish_Result_Event st = Inr None"

fun run_nodes ::
  "'w graph_config \<Rightarrow> nat \<Rightarrow> node \<Rightarrow> workload_state \<Rightarrow> ('w run, workload_state) op" where
  "run_nodes cfg 0 n st = throw (GraphRecursionError ''recursion limit reached'')"
| "run_nodes cfg (Suc k) n st =
     seq (exec_node cfg n st) (\<lambda>st'.
     seq (lift_result (next_node cfg n st')) (\<lambda>succ.
     case succ of None \<Rightarrow> ret st' | Some m \<Rightarrow> run_nodes cfg k m st'))"

record workload_execution =
  we_run_id :: string
  we_accepted :: bool
  we_original_policy :: policy
  we_final_policy :: policy
  we_original_risk :: risk_assessment
  we_final_risk :: risk_assessment
  we_verification :: verification_result
  we_repair_iterations :: nat
  we_incorrect_removals :: nat
  we_trajectory_path :: "string option"

text \<open>The state a run starts from: the initial keys over what the checkpointer already holds for
  the thread (\<open>prior\<close>; every optional field is absent on a fresh thread).\<close>

record run_request =
  rq_run_id :: string
  rq_task_id :: "string option"
  rq_workload_id :: "string option"
  rq_context_ref :: string
  rq_repository_ref :: string

definition initial_state :: "string \<Rightarrow> run_request \<Rightarrow> workload_state \<Rightarrow> workload_state" where
  "initial_state name rq prior =
     (let identifier = (if truthy_opt (rq_workload_id rq) then or_empty (rq_workload_id rq) else name)
      in prior\<lparr>ws_run_id := rq_run_id rq,
               ws_task_id := (if truthy_opt (rq_task_id rq) then or_empty (rq_task_id rq)
                              else rq_run_id rq),
               ws_workload_id := identifier, ws_service_name := identifier,
               ws_context_ref := rq_context_ref rq, ws_repository_ref := rq_repository_ref rq,
               ws_retry_count := 0, ws_incorrect_removals := 0, ws_reductions_attempted := 0,
               ws_reductions_accepted := 0, ws_reductions_rejected := 0, ws_accepted := False,
               ws_graph_node := ''START''\<rparr>)"

definition write_trajectory :: "'w graph_config \<Rightarrow> ('w run, string option) op" where
  "write_trajectory cfg r =
     (case r of (w, evs) \<Rightarrow> (case gc_summary cfg evs w of (x, w') \<Rightarrow> (x, (w', evs))))"

definition run_result :: "run_request \<Rightarrow> string option \<Rightarrow> workload_state \<Rightarrow> ('s, workload_execution) op" where
  "run_result rq path st =
     seq (need ''original_policy'' (ws_original_policy st)) (\<lambda>original.
     seq (if ws_accepted st then need ''current_policy'' (ws_current_policy st) else ret original)
       (\<lambda>P.
     seq (need ''original_risk'' (ws_original_risk st)) (\<lambda>original_risk.
     seq (need ''verification_result'' (ws_verification_result st)) (\<lambda>verification.
     ret \<lparr>we_run_id = rq_run_id rq, we_accepted = ws_accepted st, we_original_policy = original,
          we_final_policy = P, we_original_risk = original_risk,
          we_final_risk = score_policy P, we_verification = verification,
          we_repair_iterations = ws_retry_count st,
          we_incorrect_removals = ws_incorrect_removals st, we_trajectory_path = path\<rparr>))))"

definition run_workload ::
  "'w graph_config \<Rightarrow> run_request \<Rightarrow> workload_state \<Rightarrow> ('w, workload_execution) op" where
  "run_workload cfg rq prior w =
     (case seq (run_nodes cfg (gc_limit cfg) Load_Service_Context
                  (initial_state (env_name (gc_env cfg)) rq prior)) (\<lambda>final.
           seq (write_trajectory cfg) (\<lambda>path. run_result rq path final)) (w, []) of
        (r, (w', _)) \<Rightarrow> (r, w'))"

end
