(* ===== verification/Workload_Steps.thy ===== *)
theory Workload_Steps
  imports Workload_Graph
begin

text \<open>
  The graph as a step relation over (node, state, world), its adequacy for the executor, and its
  termination: a rank that every step decreases bounds the number of node executions by
  \<open>11 + 5 * max_repair_iterations\<close>, whatever the environment does.
\<close>

section \<open>What a returning node does\<close>

lemma on_env_eq_iff [op_simps]:
  "on_env m r = (x, r') \<longleftrightarrow> m (fst r) = (x, fst r') \<and> snd r' = snd r"
  by (cases r; cases r') (auto simp: on_env_def split: prod.splits)

lemma need_Inr_iff [op_simps]: "need key x s = (Inr v, s') \<longleftrightarrow> x = Some v \<and> s' = s"
  by (auto simp: need_def op_simps split: option.splits)

lemma need_Inl_iff [op_simps]: "need key x s = (Inl err, s') \<longleftrightarrow> x = None \<and> err = KeyError key \<and> s' = s"
  by (auto simp: need_def op_simps split: option.splits)

lemma failure_of_Inr_iff [op_simps]:
  "failure_of st s = (Inr f, s') \<longleftrightarrow> ws_failure_details st = Some (Some f) \<and> s' = s"
  by (auto simp: failure_of_def op_simps split: option.splits)

lemma explain_op_eq_iff [op_simps]:
  "explain_op provider f w = (x, w') \<longleftrightarrow>
     (\<exists>e. x = Inr e \<and> explain_with_source provider f w = (e, w'))"
  by (auto simp: explain_op_def split: prod.splits)

definition logged :: "'w run \<Rightarrow> string list" where
  "logged r = map te_action (snd r)"

lemma emit_logged:
  "emit cfg st agent action reason decision details r = (x, r') \<Longrightarrow> logged r' = logged r @ [action]"
  by (cases r; cases r')
    (auto simp: emit_def record_event_def logged_def split: prod.splits)

lemma on_env_logged: "on_env m r = (x, r') \<Longrightarrow> logged r' = logged r"
  by (simp add: op_simps logged_def)

lemma load_context_Inr:
  "load_context cfg st r = (Inr st', r') \<Longrightarrow> st' = st\<lparr>ws_graph_node := ''LOAD_SERVICE_CONTEXT''\<rparr>"
  by (auto simp: load_context_def op_simps)

lemma inspect_Inr:
  "inspect cfg st r = (Inr st', r') \<Longrightarrow>
   \<exists>P w. env_get_current_policy (gc_env cfg) (fst r) = (Inr P, w) \<and>
     ws_original_policy st' = Some P \<and> ws_current_policy st' = Some P \<and>
     ws_last_known_good_policy st' = Some P \<and> ws_original_risk st' = Some (score_policy P) \<and>
     ws_retry_count st' = ws_retry_count st \<and> ws_accepted st' = ws_accepted st \<and>
     ws_incorrect_removals st' = ws_incorrect_removals st"
  by (auto simp: inspect_def op_simps Let_def)

lemma gather_Inr:
  "gather cfg st r = (Inr st', r') \<Longrightarrow>
   \<exists>observed w. env_get_observed_usage (gc_env cfg) (fst r) = (Inr observed, w) \<and>
     st' = st\<lparr>ws_observed_events := Some observed, ws_graph_node := ''GATHER_EVIDENCE''\<rparr>"
  by (auto simp: gather_def op_simps)

lemma generate_Inr:
  "generate cfg st r = (Inr st', r') \<Longrightarrow>
   \<exists>original observed candidate. ws_original_policy st = Some original \<and>
     ws_observed_events st = Some observed \<and>
     observed_only_policy original observed = Inr candidate \<and>
     st' = st\<lparr>ws_candidate_policy := Some candidate,
       ws_candidate_risk := Some (score_policy candidate),
       ws_reductions_attempted := ws_reductions_attempted st + 1,
       ws_graph_node := ''GENERATE_CANDIDATE''\<rparr>"
  by (auto simp: generate_def op_simps Let_def reducer_propose_def)

lemma validate_Inr:
  assumes "validate cfg st r = (Inr st', r')"
  shows "st' = st\<lparr>ws_graph_node := ''VALIDATE_CANDIDATE''\<rparr> \<and>
    (\<exists>candidate. ws_candidate_policy st = Some candidate \<and>
       (\<forall>original. ws_original_policy st = Some original \<longrightarrow>
          (\<forall>p \<in> set (pl_permissions candidate). is_authorized original (permission_event p))))"
  using assms
  by (auto simp: validate_def op_simps list_all_iff split: if_splits)

lemma apply_Inr:
  "apply_candidate cfg st r = (Inr st', r') \<Longrightarrow>
   \<exists>candidate w. ws_candidate_policy st = Some candidate \<and>
     env_apply_policy (gc_env cfg) candidate (fst r) = (Inr (), w) \<and>
     st' = st\<lparr>ws_current_policy := Some candidate, ws_graph_node := ''APPLY_CANDIDATE''\<rparr>"
  by (auto simp: apply_candidate_def op_simps)

lemma verify_Inr:
  assumes "verify cfg st r = (Inr st', r')"
  obtains result failure w where
    "env_verify_workload (gc_env cfg) (fst r) = (Inr result, w)"
    "failure = None \<longleftrightarrow> vr_passed result"
    "\<forall>f. failure = Some f \<longrightarrow>
       (\<exists>w'. env_describe_failure (gc_env cfg) result w = (Inr f, w'))"
    "st' = st\<lparr>ws_verification_result := Some result, ws_failure_details := Some failure,
       ws_failure_type := map_option (\<lambda>f. if fd_authorization_denial f then Rbac_Failure
                                           else Unrelated_Failure) failure,
       ws_missing_permissions := Some (case failure of None \<Rightarrow> [] | Some f \<Rightarrow> fd_missing_events f),
       ws_graph_node := ''VERIFY''\<rparr>"
proof -
  from assms obtain result w where v: "env_verify_workload (gc_env cfg) (fst r) = (Inr result, w)"
    unfolding verify_def by (auto simp: op_simps)
  show ?thesis
  proof (cases "vr_passed result")
    case True
    show ?thesis
      by (rule that [of result w None])
        (use assms v True in \<open>auto simp: verify_def op_simps Let_def\<close>)
  next
    case False
    with assms v obtain f w' where f: "env_describe_failure (gc_env cfg) result w = (Inr f, w')"
      and st': "st' = st\<lparr>ws_verification_result := Some result, ws_failure_details := Some (Some f),
        ws_failure_type := Some (if fd_authorization_denial f then Rbac_Failure
                                 else Unrelated_Failure),
        ws_missing_permissions := Some (fd_missing_events f), ws_graph_node := ''VERIFY''\<rparr>"
      by (auto simp: verify_def op_simps Let_def)
    show ?thesis
      by (rule that [of result w "Some f"]) (use v f False st' in auto)
  qed
qed

lemma check_more_Inr:
  "check_more cfg st r = (Inr st', r') \<Longrightarrow> st' = st\<lparr>ws_graph_node := ''CHECK_MORE_REDUCTIONS''\<rparr>"
  by (auto simp: check_more_def op_simps)

lemma final_verify_Inr:
  "final_verify cfg st r = (Inr st', r') \<Longrightarrow>
   st' = st\<lparr>ws_accepted := True, ws_failure_type := None, ws_graph_node := ''FINAL_VERIFY''\<rparr>"
  by (auto simp: final_verify_def op_simps)

lemma diagnose_Inr:
  "diagnose cfg st r = (Inr st', r') \<Longrightarrow>
   st' = st\<lparr>ws_graph_node := ''DIAGNOSE_FAILURE''\<rparr> \<and>
   (\<exists>f. ws_failure_details st = Some (Some f))"
  by (auto simp: diagnose_def op_simps)

lemma repair_Inr:
  assumes "repair cfg st r = (Inr st', r')"
  obtains (stuck) "st' = unrecoverable st" "r' = r"
  | (repaired) f candidate original R where
    "ws_failure_details st = Some (Some f)" "ws_candidate_policy st = Some candidate"
    "ws_original_policy st = Some original" "fd_missing_events f \<noteq> []"
    "repair_policy candidate (fd_missing_events f) original = Inr R"
    "length (pl_permissions candidate) < length (pl_permissions R)"
    "st' = repair_accepted st candidate R"
    "logged r' = logged r @ [''repair_policy'']"
proof -
  from assms obtain f candidate original where
    f: "ws_failure_details st = Some (Some f)" and c: "ws_candidate_policy st = Some candidate"
    and orig: "ws_original_policy st = Some original"
    unfolding repair_def by (auto simp: op_simps)
  show ?thesis
  proof (cases "verifier_repair candidate f original")
    case (Inl err)
    with assms f c orig have "st' = unrecoverable st" "r' = r"
      by (auto simp: repair_def op_simps split: if_splits)
    then show ?thesis by (rule stuck)
  next
    case (Inr R)
    show ?thesis
    proof (cases "length (pl_permissions R) \<le> length (pl_permissions candidate)")
      case True
      with assms f c orig Inr have "st' = unrecoverable st" "r' = r"
        by (auto simp: repair_def op_simps)
      then show ?thesis by (rule stuck)
    next
      case False
      with assms f c orig Inr have "st' = repair_accepted st candidate R"
        and "logged r' = logged r @ [''repair_policy'']"
        by (auto simp: repair_def op_simps dest: emit_logged)
      then show ?thesis
        using f c orig Inr False by (intro repaired) (auto simp: verifier_repair_Inr_iff)
    qed
  qed
qed

lemma restore_Inr:
  "restore cfg st r = (Inr st', r') \<Longrightarrow>
   \<exists>good w. ws_last_known_good_policy st = Some good \<and>
     env_restore_policy (gc_env cfg) (fst r) = (Inr (), w) \<and>
     st' = st\<lparr>ws_current_policy := Some good, ws_accepted := False,
       ws_reductions_rejected := ws_reductions_rejected st + 1,
       ws_graph_node := ''RESTORE_LAST_KNOWN_GOOD''\<rparr>"
  by (auto simp: restore_def op_simps)

lemma human_review_Inr:
  "human_review cfg st r = (Inr st', r') \<Longrightarrow> st' = st\<lparr>ws_graph_node := ''HUMAN_REVIEW''\<rparr>"
  by (auto simp: human_review_def op_simps)

lemma finalize_Inr:
  "finalize cfg st r = (Inr st', r') \<Longrightarrow>
   \<exists>P. ws_current_policy st = Some P \<and>
     st' = st\<lparr>ws_current_risk := Some (score_policy P),
       ws_reductions_accepted := (if ws_accepted st then 1 else 0),
       ws_graph_node := ''FINALIZE_WORKLOAD''\<rparr>"
  by (auto simp: finalize_def op_simps)

lemma publish_result_Inr:
  "publish_result cfg st r = (Inr st', r') \<Longrightarrow> st' = st\<lparr>ws_graph_node := ''PUBLISH_RESULT_EVENT''\<rparr>"
  by (auto simp: publish_result_def op_simps)

lemmas node_Inr = load_context_Inr gather_Inr generate_Inr apply_Inr check_more_Inr
  final_verify_Inr restore_Inr human_review_Inr finalize_Inr publish_result_Inr

section \<open>The step relation\<close>

type_synonym 'w graph_conf = "node option \<times> workload_state \<times> 'w run"

inductive graph_step :: "'w graph_config \<Rightarrow> 'w graph_conf \<Rightarrow> 'w graph_conf \<Rightarrow> bool"
  for cfg :: "'w graph_config" where
  node_step: "exec_node cfg n st r = (Inr st', r') \<Longrightarrow> next_node cfg n st' = Inr succ \<Longrightarrow>
     graph_step cfg (Some n, st, r) (succ, st', r')"

inductive_cases graph_stepE: "graph_step cfg (Some n, st, r) (succ, st', r')"
inductive_simps graph_step_from_end [simp]: "graph_step cfg (None, st, r) c"

text \<open>The executor runs steps, and with enough fuel it runs any terminating sequence of them.\<close>

lemma run_nodes_steps:
  "run_nodes cfg k n st r = (Inr st', r') \<Longrightarrow>
   (graph_step cfg)\<^sup>*\<^sup>* (Some n, st, r) (None, st', r')"
proof (induction k arbitrary: n st r)
  case 0
  then show ?case by (simp add: op_simps)
next
  case (Suc k)
  then obtain st1 r1 succ where step: "exec_node cfg n st r = (Inr st1, r1)"
    "next_node cfg n st1 = Inr succ"
    and rest: "(case succ of None \<Rightarrow> ret st1 | Some m \<Rightarrow> run_nodes cfg k m st1) r1 = (Inr st', r')"
    by (auto simp: op_simps)
  then have "graph_step cfg (Some n, st, r) (succ, st1, r1)" by (intro node_step)
  moreover have "(graph_step cfg)\<^sup>*\<^sup>* (succ, st1, r1) (None, st', r')"
    using rest Suc.IH by (cases succ) (auto simp: op_simps)
  ultimately show ?case by (rule converse_rtranclp_into_rtranclp)
qed

lemma steps_from_end: "(graph_step cfg ^^ k) (None, st, r) c \<Longrightarrow> k = 0 \<and> c = (None, st, r)"
  by (cases k) (auto simp del: relpowp.simps(2) dest!: relpowp_Suc_D2)

lemma run_nodes_of_steps:
  "(graph_step cfg ^^ k) (Some n, st, r) (None, st', r') \<Longrightarrow> run_nodes cfg k n st r = (Inr st', r')"
proof (induction k arbitrary: n st r)
  case 0
  then show ?case by simp
next
  case (Suc k)
  then obtain succ st1 r1 where step: "graph_step cfg (Some n, st, r) (succ, st1, r1)"
    and rest: "(graph_step cfg ^^ k) (succ, st1, r1) (None, st', r')"
    by (metis prod_cases3 relpowp_Suc_E2)
  show ?case
  proof (cases succ)
    case None
    with rest have "k = 0" "(st', r') = (st1, r1)" by (auto dest: steps_from_end)
    with step None show ?thesis
      by (auto elim!: graph_stepE simp: seq_def lift_result_def ret_def)
  next
    case (Some m)
    with rest Suc.IH have "run_nodes cfg k m st1 r1 = (Inr st', r')" by blast
    with step Some show ?thesis
      by (auto elim!: graph_stepE simp: seq_def lift_result_def)
  qed
qed

section \<open>Termination\<close>

definition repairs_left :: "'w graph_config \<Rightarrow> workload_state \<Rightarrow> nat" where
  "repairs_left cfg st = gc_max_repair_iterations cfg - ws_retry_count st"

fun rank :: "'w graph_config \<Rightarrow> node \<Rightarrow> workload_state \<Rightarrow> nat" where
  "rank cfg Load_Service_Context st = 11 + 5 * repairs_left cfg st"
| "rank cfg Inspect_Rbac st = 10 + 5 * repairs_left cfg st"
| "rank cfg Gather_Evidence st = 9 + 5 * repairs_left cfg st"
| "rank cfg Generate_Candidate st = 8 + 5 * repairs_left cfg st"
| "rank cfg Validate_Candidate st = 7 + 5 * repairs_left cfg st"
| "rank cfg Apply_Candidate st = 6 + 5 * repairs_left cfg st"
| "rank cfg Verify st = 5 + 5 * repairs_left cfg st"
| "rank cfg Diagnose_Failure st = 4 + 5 * repairs_left cfg st"
| "rank cfg Repair_Policy st = 3 + 5 * repairs_left cfg st"
| "rank cfg Check_More_Reductions st = 4"
| "rank cfg Final_Verify st = 3"
| "rank cfg Restore_Last_Known_Good st = 4"
| "rank cfg Human_Review st = 3"
| "rank cfg Finalize_Workload st = 2"
| "rank cfg Publish_Result_Event st = 1"

text \<open>Diagnosis and repair are reached only while repairs are left.\<close>

definition budgeted :: "'w graph_config \<Rightarrow> node \<Rightarrow> workload_state \<Rightarrow> bool" where
  "budgeted cfg n st \<longleftrightarrow>
     ws_retry_count st \<le> gc_max_repair_iterations cfg \<and>
     (n \<in> {Diagnose_Failure, Repair_Policy} \<longrightarrow>
        ws_retry_count st < gc_max_repair_iterations cfg)"

lemma repair_retry:
  "repair cfg st r = (Inr st', r') \<Longrightarrow>
   (ws_retry_count st' = ws_retry_count st \<and> ws_failure_type st' = Some Unrecoverable_Failure) \<or>
   (ws_retry_count st' = ws_retry_count st + 1 \<and> ws_failure_type st' = ws_failure_type st)"
  by (erule repair_Inr) (auto simp: unrecoverable_def repair_accepted_def)

lemma node_retry:
  assumes "exec_node cfg n st r = (Inr st', r')" and "n \<noteq> Repair_Policy"
  shows "ws_retry_count st' = ws_retry_count st"
  using assms
  by (cases n) (auto dest!: node_Inr inspect_Inr validate_Inr diagnose_Inr elim!: verify_Inr)

lemma step_rank:
  assumes "graph_step cfg (Some n, st, r) (Some m, st', r')" and "budgeted cfg n st"
  shows "rank cfg m st' < rank cfg n st \<and> budgeted cfg m st'"
proof -
  from assms(1) have exec: "exec_node cfg n st r = (Inr st', r')"
    and succ: "next_node cfg n st' = Inr (Some m)"
    by (auto elim: graph_stepE)
  show ?thesis
  proof (cases "n = Repair_Policy")
    case True
    with exec have "repair cfg st r = (Inr st', r')" by simp
    from repair_retry [OF this] show ?thesis
      using True succ assms(2)
      by (auto simp: budgeted_def route_repair_def repairs_left_def split: if_splits)
  next
    case False
    with exec have same: "ws_retry_count st' = ws_retry_count st" by (rule node_retry)
    show ?thesis
      using False succ assms(2) same
      by (cases n)
        (auto simp: budgeted_def repairs_left_def route_verification_def rbind_Inr_iff
          split: option.splits if_splits)
  qed
qed

lemma run_nodes_enough_fuel:
  assumes "budgeted cfg n st" and "rank cfg n st \<le> k"
  shows "run_nodes cfg k n st r = run_nodes cfg (rank cfg n st) n st r"
proof -
  have "run_nodes cfg k n st r = run_nodes cfg j n st r"
    if "budgeted cfg n st" "rank cfg n st \<le> k" "rank cfg n st \<le> j" for j k n st r
    using that
  proof (induction k arbitrary: j n st r)
    case 0
    then show ?case by (cases n) auto
  next
    case (Suc k)
    obtain j' where j: "j = Suc j'" using Suc.prems(3) by (cases j; cases n) auto
    obtain x r1 where exec: "exec_node cfg n st r = (x, r1)"
      by (cases "exec_node cfg n st r")
    show ?case
    proof (cases x)
      case (Inl err)
      with exec show ?thesis by (simp add: j seq_def)
    next
      case (Inr st1)
      show ?thesis
      proof (cases "next_node cfg n st1")
        case (Inl err)
        with exec \<open>x = Inr st1\<close> show ?thesis by (simp add: j seq_def lift_result_def)
      next
        case succ: (Inr succ)
        show ?thesis
        proof (cases succ)
          case None
          with exec \<open>x = Inr st1\<close> succ show ?thesis by (simp add: j seq_def lift_result_def)
        next
          case (Some m)
          have "graph_step cfg (Some n, st, r) (Some m, st1, r1)"
            using exec \<open>x = Inr st1\<close> succ Some by (auto intro: node_step)
          from step_rank [OF this Suc.prems(1)] Suc.prems(2,3)
          have "run_nodes cfg k m st1 r1 = run_nodes cfg j' m st1 r1"
            by (intro Suc.IH) (auto simp: j)
          with exec \<open>x = Inr st1\<close> succ Some show ?thesis
            by (simp add: j seq_def lift_result_def)
        qed
      qed
    qed
  qed
  from this [OF assms(1,2) order_refl] show ?thesis by simp
qed

text \<open>No sequence of steps from the start of a run is longer than the bound.\<close>

lemma steps_bounded:
  assumes "(graph_step cfg ^^ k) (Some n, st, r) c" and "budgeted cfg n st"
  shows "k \<le> rank cfg n st"
  using assms
proof (induction k arbitrary: n st r)
  case 0
  then show ?case by simp
next
  case (Suc k)
  then obtain succ st1 r1 where step: "graph_step cfg (Some n, st, r) (succ, st1, r1)"
    and rest: "(graph_step cfg ^^ k) (succ, st1, r1) c"
    by (metis prod_cases3 relpowp_Suc_E2)
  show ?case
  proof (cases succ)
    case None
    with rest have "k = 0" by (auto dest: steps_from_end)
    then show ?thesis by (cases n) simp_all
  next
    case (Some m)
    with step_rank step Suc.prems(2) have "rank cfg m st1 < rank cfg n st" "budgeted cfg m st1"
      by blast+
    with Suc.IH rest Some have "k \<le> rank cfg m st1" by blast
    with \<open>rank cfg m st1 < rank cfg n st\<close> show ?thesis by simp
  qed
qed

lemma budgeted_initial: "budgeted cfg Load_Service_Context (initial_state name rq prior)"
  by (simp add: budgeted_def initial_state_def Let_def)

lemma rank_initial:
  "rank cfg Load_Service_Context (initial_state name rq prior) = 11 + 5 * gc_max_repair_iterations cfg"
  by (simp add: repairs_left_def initial_state_def Let_def)

end
