(* ===== verification/Workload_Safety.thy ===== *)
theory Workload_Safety
  imports Workload_Steps
begin

text \<open>
  What a run guarantees over any environment that meets the contract \<open>environment\<close>: an
  invariant per node, preserved by every step, from which the outcomes follow. An accepted run
  has verified its final policy, leaves it in force, and that policy grants nothing the original
  did not; a rejected run leaves the original in force.
\<close>

locale workload_graph = environment "gc_env cfg" current baseline
  for cfg :: "'w graph_config" and current :: "'w \<Rightarrow> policy" and baseline :: "'w \<Rightarrow> policy" +
  fixes needed :: "kube_event \<Rightarrow> bool"
  assumes observed_needed:
      "env_get_observed_usage (gc_env cfg) w = (Inr observed, w') \<Longrightarrow> e \<in> set observed \<Longrightarrow> needed e"
    and missing_needed:
      "env_verify_workload (gc_env cfg) u = (Inr result, w) \<Longrightarrow>
       env_describe_failure (gc_env cfg) result w = (Inr f, w') \<Longrightarrow>
       e \<in> set (fd_missing_events f) \<Longrightarrow> needed e"
    and sink_keeps: "keeps (\<lambda>w. (current w, baseline w)) (gc_sink cfg ev)"
    and summary_keeps: "keeps (\<lambda>w. (current w, baseline w)) (gc_summary cfg evs)"
    and reasoner_keeps: "provider_keeps (\<lambda>w. (current w, baseline w)) (gc_provider cfg)"

text \<open>The candidate of a run on original policy \<open>B\<close>: it came from the observed-only policy by
  counted additions, grants nothing beyond \<open>B\<close>, and each of its permissions is the grant of an
  event in \<open>N\<close> that \<open>B\<close> allows.\<close>

definition grants_only :: "(kube_event \<Rightarrow> bool) \<Rightarrow> policy \<Rightarrow> policy \<Rightarrow> bool" where
  "grants_only N B C \<longleftrightarrow>
     (\<forall>p \<in> set (pl_permissions C). \<exists>e. N e \<and> is_authorized B e \<and> event_permission e = Inr p)"

definition candidate_ok :: "(kube_event \<Rightarrow> bool) \<Rightarrow> policy \<Rightarrow> workload_state \<Rightarrow> bool" where
  "candidate_ok N B st \<longleftrightarrow>
     (\<exists>C C0 observed. ws_candidate_policy st = Some C \<and> canonical_policy C \<and> no_more_than C B \<and>
        grants_only N B C \<and>
        ws_observed_events st = Some observed \<and> observed_only_policy B observed = Inr C0 \<and>
        no_more_than C0 C \<and>
        length (pl_permissions C) = length (pl_permissions C0) + ws_incorrect_removals st)"

text \<open>The evidence the state holds: observed events, and the failure under repair.\<close>

definition observed_in :: "(kube_event \<Rightarrow> bool) \<Rightarrow> workload_state \<Rightarrow> bool" where
  "observed_in N st \<longleftrightarrow> (\<exists>observed. ws_observed_events st = Some observed \<and> (\<forall>e \<in> set observed. N e))"

definition failure_in :: "(kube_event \<Rightarrow> bool) \<Rightarrow> workload_state \<Rightarrow> bool" where
  "failure_in N st \<longleftrightarrow>
     (\<exists>f. ws_failure_details st = Some (Some f) \<and> (\<forall>e \<in> set (fd_missing_events f). N e))"

definition inspected :: "policy \<Rightarrow> workload_state \<Rightarrow> bool" where
  "inspected B st \<longleftrightarrow>
     ws_original_policy st = Some B \<and> ws_last_known_good_policy st = Some B \<and>
     ws_original_risk st = Some (score_policy B)"

definition verified :: "bool \<Rightarrow> workload_state \<Rightarrow> bool" where
  "verified outcome st \<longleftrightarrow>
     (\<exists>v. ws_verification_result st = Some v \<and> vr_passed v = outcome)"

definition outcome_ok :: "(kube_event \<Rightarrow> bool) \<Rightarrow> policy \<Rightarrow> policy \<Rightarrow> workload_state \<Rightarrow> bool" where
  "outcome_ok N B now st \<longleftrightarrow>
     inspected B st \<and> verified (ws_accepted st) st \<and> candidate_ok N B st \<and>
     ws_current_policy st = Some now \<and>
     now = (if ws_accepted st then the (ws_candidate_policy st) else B)"

text \<open>The invariant at node \<open>n\<close>, before it runs; \<open>now\<close> is the policy in force.\<close>

fun good_at :: "(kube_event \<Rightarrow> bool) \<Rightarrow> policy \<Rightarrow> node option \<Rightarrow> workload_state \<Rightarrow> policy \<Rightarrow> bool" where
  "good_at N B None st now = outcome_ok N B now st"
| "good_at N B (Some n) st now =
    (case n of
       Load_Service_Context \<Rightarrow> \<not> ws_accepted st \<and> ws_incorrect_removals st = 0 \<and> now = B
     | Inspect_Rbac \<Rightarrow> \<not> ws_accepted st \<and> ws_incorrect_removals st = 0 \<and> now = B
     | Gather_Evidence \<Rightarrow>
         \<not> ws_accepted st \<and> ws_incorrect_removals st = 0 \<and> inspected B st \<and> now = B
     | Generate_Candidate \<Rightarrow>
         \<not> ws_accepted st \<and> ws_incorrect_removals st = 0 \<and> inspected B st \<and> observed_in N st
     | Validate_Candidate \<Rightarrow> \<not> ws_accepted st \<and> inspected B st \<and> candidate_ok N B st
     | Apply_Candidate \<Rightarrow> \<not> ws_accepted st \<and> inspected B st \<and> candidate_ok N B st
     | Verify \<Rightarrow> \<not> ws_accepted st \<and> inspected B st \<and> candidate_ok N B st \<and>
         ws_current_policy st = Some now \<and> ws_candidate_policy st = Some now
     | Check_More_Reductions \<Rightarrow> \<not> ws_accepted st \<and> inspected B st \<and> candidate_ok N B st \<and>
         ws_current_policy st = Some now \<and> ws_candidate_policy st = Some now \<and> verified True st
     | Final_Verify \<Rightarrow> inspected B st \<and> candidate_ok N B st \<and>
         ws_current_policy st = Some now \<and> ws_candidate_policy st = Some now \<and> verified True st
     | Diagnose_Failure \<Rightarrow> \<not> ws_accepted st \<and> inspected B st \<and> candidate_ok N B st \<and>
         verified False st \<and> failure_in N st
     | Repair_Policy \<Rightarrow> \<not> ws_accepted st \<and> inspected B st \<and> candidate_ok N B st \<and>
         verified False st \<and> failure_in N st
     | Restore_Last_Known_Good \<Rightarrow>
         inspected B st \<and> candidate_ok N B st \<and> verified False st
     | Human_Review \<Rightarrow> outcome_ok N B now st \<and> \<not> ws_accepted st
     | Finalize_Workload \<Rightarrow> outcome_ok N B now st
     | Publish_Result_Event \<Rightarrow> outcome_ok N B now st)"

lemma candidate_ok_cong:
  "ws_candidate_policy st' = ws_candidate_policy st \<Longrightarrow> ws_observed_events st' = ws_observed_events st \<Longrightarrow>
   ws_incorrect_removals st' = ws_incorrect_removals st \<Longrightarrow> candidate_ok N B st' = candidate_ok N B st"
  by (simp add: candidate_ok_def)

lemma state_predicates_update [simp]:
  "candidate_ok N B (st\<lparr>ws_graph_node := x\<rparr>) = candidate_ok N B st"
  "candidate_ok N B (st\<lparr>ws_current_policy := P\<rparr>) = candidate_ok N B st"
  "candidate_ok N B (st\<lparr>ws_accepted := a\<rparr>) = candidate_ok N B st"
  "candidate_ok N B (st\<lparr>ws_failure_type := t\<rparr>) = candidate_ok N B st"
  "candidate_ok N B (st\<lparr>ws_failure_details := d\<rparr>) = candidate_ok N B st"
  "candidate_ok N B (st\<lparr>ws_missing_permissions := m\<rparr>) = candidate_ok N B st"
  "candidate_ok N B (st\<lparr>ws_verification_result := v\<rparr>) = candidate_ok N B st"
  "candidate_ok N B (st\<lparr>ws_reductions_rejected := i\<rparr>) = candidate_ok N B st"
  "candidate_ok N B (st\<lparr>ws_reductions_accepted := i\<rparr>) = candidate_ok N B st"
  "candidate_ok N B (st\<lparr>ws_current_risk := c\<rparr>) = candidate_ok N B st"
  "inspected B (st\<lparr>ws_graph_node := x\<rparr>) = inspected B st"
  "verified b (st\<lparr>ws_graph_node := x\<rparr>) = verified b st"
  "failure_in N (st\<lparr>ws_graph_node := x\<rparr>) = failure_in N st"
  by (simp_all add: candidate_ok_def inspected_def verified_def failure_in_def)

lemma candidate_ok_generated:
  assumes "observed_only_policy B observed = Inr C" and "ws_candidate_policy st = Some C"
    and "ws_observed_events st = Some observed" and "ws_incorrect_removals st = 0"
    and "\<forall>e \<in> set observed. N e"
  shows "candidate_ok N B st"
proof -
  have "grants_only N B C"
    using observed_only_origin [OF assms(1)] assms(5) unfolding grants_only_def by blast
  then show ?thesis
    unfolding candidate_ok_def
    using assms observed_only_canonical [OF assms(1)] observed_only_no_more [OF assms(1)] by auto
qed

lemma grants_only_repaired:
  assumes "grants_only N B C" and rep: "repair_policy C missing B = Inr R"
    and missing: "\<forall>e \<in> set missing. N e"
  shows "grants_only N B R"
  unfolding grants_only_def
proof
  fix p assume p: "p \<in> set (pl_permissions R)"
  from rep obtain ps where auth: "\<forall>e \<in> set missing. is_authorized B e"
    and ps: "rmap event_permission missing = Inr ps"
    and R: "R = with_permissions C (pl_permissions C @ ps)"
    by (auto simp: repair_Inr_iff)
  from p R have "p \<in> set (pl_permissions C) \<or> p \<in> set ps"
    using normalize_subset [of "pl_permissions C @ ps"] by auto
  then show "\<exists>e. N e \<and> is_authorized B e \<and> event_permission e = Inr p"
    using assms(1) missing auth rmap_Inr_set [OF ps] unfolding grants_only_def by blast
qed

lemma candidate_ok_repaired:
  assumes "candidate_ok N B st" and "ws_candidate_policy st = Some C"
    and "repair_policy C missing B = Inr R"
    and "length (pl_permissions C) < length (pl_permissions R)"
    and missing: "\<forall>e \<in> set missing. N e"
  shows "candidate_ok N B (repair_accepted st C R)"
proof -
  from assms(1,2) obtain C0 observed where
    "no_more_than C B" "grants_only N B C" "ws_observed_events st = Some observed"
    "observed_only_policy B observed = Inr C0" "no_more_than C0 C"
    "length (pl_permissions C) = length (pl_permissions C0) + ws_incorrect_removals st"
    by (auto simp: candidate_ok_def)
  moreover have "no_more_than C0 R"
    using \<open>no_more_than C0 C\<close> repair_keeps_candidate [OF assms(3)] by (rule no_more_than_trans)
  moreover have "canonical_policy R"
    using assms(3) by (auto simp: repair_Inr_iff)
  moreover have "grants_only N B R"
    using \<open>grants_only N B C\<close> assms(3) missing by (rule grants_only_repaired)
  ultimately show ?thesis
    using assms(4) repair_no_more [OF assms(3)]
    by (auto simp: candidate_ok_def repair_accepted_def)
qed

context workload_graph
begin

abbreviation view :: "'w run \<Rightarrow> policy \<times> policy" where
  "view r \<equiv> (current (fst r), baseline (fst r))"

lemma keeps_emit: "keeps view (emit cfg st agent action reason decision details)"
proof -
  have "view (snd (emit cfg st agent action reason decision details (w, evs))) = view (w, evs)" for w evs
    using sink_keeps unfolding keeps_def
    by (auto simp: emit_def record_event_def split: prod.splits) (metis Pair_inject snd_conv)+
  then show ?thesis by (simp add: keeps_def)
qed

lemma keeps_on_env:
  assumes "keeps (\<lambda>w. (current w, baseline w)) m"
  shows "keeps view (on_env m)"
proof -
  have "view (snd (on_env m (w, evs))) = view (w, evs)" for w evs
    using keepsD [OF assms] by (auto simp: on_env_def split: prod.splits)
  then show ?thesis by (simp add: keeps_def)
qed

lemma keeps_need: "keeps view (need key x)"
  by (auto simp: need_def split: option.splits)

lemma keeps_failure_of: "keeps view (failure_of st)"
  unfolding failure_of_def by (intro keeps_seq keeps_need) (auto split: option.splits)

lemma keeps_explain: "keeps (\<lambda>w. (current w, baseline w)) (explain_op (gc_provider cfg) f)"
  unfolding keeps_def
  by (auto simp: explain_op_def split: prod.splits dest!: explain_keeps [OF reasoner_keeps])

lemmas keeps_intros = keeps_seq keeps_emit keeps_on_env keeps_need keeps_failure_of keeps_explain
  get_keeps observe_keeps verify_keeps describe_keeps keeps_ret keeps_throw keeps_lift

lemma node_keeps:
  assumes "n \<notin> {Apply_Candidate, Restore_Last_Known_Good}"
  shows "keeps view (exec_node cfg n st)"
  using assms
  by (cases n)
    (simp_all add: load_context_def inspect_def gather_def generate_def validate_def verify_def
      check_more_def final_verify_def diagnose_def repair_def human_review_def finalize_def
      publish_result_def Let_def keeps_intros split: sum.split if_split)

lemma apply_view:
  assumes "apply_candidate cfg st r = (Inr st', r')"
  shows "view r' = (the (ws_candidate_policy st), baseline (fst r))"
proof -
  from assms obtain C u where C: "ws_candidate_policy st = Some C"
    and app: "on_env (env_apply_policy (gc_env cfg) C) r = (Inr (), u)"
    and rest: "seq (emit cfg st ''verifier'' ''apply_policy''
            ''applied deterministic candidate in the controlled environment'' None
            [(''attempt'', pnat (ws_retry_count st + 1)),
             (''permissions'', pnat (effective_permission_count C)),
             (''risk'', PInt (ra_score (score_policy C)))]) (\<lambda>_.
         ret (st\<lparr>ws_current_policy := Some C, ws_graph_node := ''APPLY_CANDIDATE''\<rparr>)) u = (Inr st', r')"
    unfolding apply_candidate_def by (subst (asm) seq_Inr_iff) (auto simp: seq_Inr_iff need_Inr_iff)
  have "current (fst u) = C" "baseline (fst u) = baseline (fst r)"
    using app apply_sets keepsD [OF apply_keeps] by (auto simp: on_env_eq_iff)
  moreover have "view r' = view u"
    using rest by (rule keepsD [rotated]) (intro keeps_intros)
  ultimately show ?thesis using C by simp
qed

lemma restore_view:
  assumes "restore cfg st r = (Inr st', r')"
  shows "view r' = (baseline (fst r), baseline (fst r))"
proof -
  from assms obtain u where res: "on_env (env_restore_policy (gc_env cfg)) r = (Inr (), u)"
    and rest: "seq (emit cfg st ''orchestrator'' ''restore_policy''
            ''candidate did not pass declared verification'' (Some ''reject'') []) (\<lambda>_.
         seq (need ''last_known_good_policy'' (ws_last_known_good_policy st)) (\<lambda>good.
         ret (st\<lparr>ws_current_policy := Some good, ws_accepted := False,
             ws_reductions_rejected := ws_reductions_rejected st + 1,
             ws_graph_node := ''RESTORE_LAST_KNOWN_GOOD''\<rparr>))) u = (Inr st', r')"
    unfolding restore_def by (subst (asm) seq_Inr_iff) auto
  have "current (fst u) = baseline (fst r)" "baseline (fst u) = baseline (fst r)"
    using res restore_sets keepsD [OF restore_keeps] by (auto simp: on_env_eq_iff)
  moreover have "view r' = view u"
    using rest by (rule keepsD [rotated]) (intro keeps_intros)
  ultimately show ?thesis by simp
qed

lemma inspect_current:
  assumes "inspect cfg st r = (Inr st', r')"
  shows "inspected (current (fst r)) st' \<and> ws_accepted st' = ws_accepted st \<and>
    ws_incorrect_removals st' = ws_incorrect_removals st"
  using inspect_Inr [OF assms] get_current by (fastforce simp: inspected_def)

lemma good_step:
  assumes "graph_step cfg (Some n, st, r) (succ, st', r')"
    and "good_at needed B (Some n) st (current (fst r))" and "baseline (fst r) = B"
  shows "good_at needed B succ st' (current (fst r')) \<and> baseline (fst r') = B"
proof -
  from assms(1) have exec: "exec_node cfg n st r = (Inr st', r')"
    and next': "next_node cfg n st' = Inr succ"
    by (auto elim: graph_stepE)
  have same: "view r' = view r" if "n \<notin> {Apply_Candidate, Restore_Last_Known_Good}"
    using keepsD [OF node_keeps [OF that] exec] .
  show ?thesis
  proof (cases n)
    case Inspect_Rbac
    with exec assms(2,3) next' same show ?thesis
      by (auto dest!: inspect_current)
  next
    case Generate_Candidate
    with exec obtain original observed C where g: "ws_original_policy st = Some original"
      "ws_observed_events st = Some observed" "observed_only_policy original observed = Inr C"
      and st': "st' = st\<lparr>ws_candidate_policy := Some C, ws_candidate_risk := Some (score_policy C),
       ws_reductions_attempted := ws_reductions_attempted st + 1,
       ws_graph_node := ''GENERATE_CANDIDATE''\<rparr>"
      by (auto dest!: generate_Inr)
    moreover have "original = B" using g(1) assms(2) Generate_Candidate by (simp add: inspected_def)
    ultimately have "candidate_ok needed B st'"
      using assms(2) Generate_Candidate
      by (intro candidate_ok_generated [of B observed C]) (auto simp: observed_in_def)
    with Generate_Candidate assms(2,3) next' same st' show ?thesis by (auto simp: inspected_def)
  next
    case Validate_Candidate
    with exec assms(2,3) next' same show ?thesis by (auto dest!: validate_Inr)
  next
    case Apply_Candidate
    with exec have app: "apply_candidate cfg st r = (Inr st', r')" by simp
    from apply_view [OF app] apply_Inr [OF app] Apply_Candidate assms(2,3) next'
    show ?thesis by (auto simp: inspected_def)
  next
    case Verify
    with exec have ver: "verify cfg st r = (Inr st', r')" by simp
    then obtain result where "ws_verification_result st' = Some result"
      and fail: "\<not> vr_passed result \<longrightarrow> failure_in needed st'"
      and "ws_accepted st' = ws_accepted st" "inspected B st' = inspected B st"
      "candidate_ok needed B st' = candidate_ok needed B st" "ws_current_policy st' = ws_current_policy st"
      "ws_candidate_policy st' = ws_candidate_policy st"
      by (elim verify_Inr) (force simp: inspected_def failure_in_def missing_needed)
    with Verify assms(2,3) next' same show ?thesis
      by (auto simp: route_verification_def verified_def rbind_Inr_iff)
  next
    case Repair_Policy
    with exec have rep: "repair cfg st r = (Inr st', r')" by simp
    then show ?thesis
    proof (cases rule: repair_Inr)
      case stuck
      with Repair_Policy assms(2,3) next' same show ?thesis
        by (auto simp: route_repair_def unrecoverable_def inspected_def verified_def)
    next
      case (repaired f C original R)
      moreover have "original = B" using repaired assms(2) Repair_Policy by (simp add: inspected_def)
      ultimately have "candidate_ok needed B st'"
        using assms(2) Repair_Policy by (auto simp: failure_in_def intro!: candidate_ok_repaired)
      with Repair_Policy repaired assms(2,3) next' same show ?thesis
        by (auto simp: route_repair_def repair_accepted_def inspected_def verified_def)
    qed
  next
    case Restore_Last_Known_Good
    with exec have res: "restore cfg st r = (Inr st', r')" by simp
    from restore_view [OF res] restore_Inr [OF res] Restore_Last_Known_Good assms(2,3) next'
    show ?thesis by (auto simp: outcome_ok_def inspected_def verified_def)
  next
    case Gather_Evidence
    with exec assms(2,3) next' same show ?thesis
      by (auto simp: inspected_def observed_in_def dest!: gather_Inr dest: observed_needed)
  qed (use exec assms(2,3) next' same in
    \<open>auto simp: outcome_ok_def inspected_def verified_def dest!: node_Inr diagnose_Inr\<close>)
qed

lemma good_steps:
  assumes "(graph_step cfg)\<^sup>*\<^sup>* (Some n, st, r) (m, st', r')"
    and "good_at needed B (Some n) st (current (fst r))" and "baseline (fst r) = B"
  shows "good_at needed B m st' (current (fst r')) \<and> baseline (fst r') = B"
  using assms
proof (induction "(m, st', r')" arbitrary: m st' r' rule: rtranclp_induct)
  case (step y)
  obtain k st1 r1 where y: "y = (k, st1, r1)" by (cases y)
  with step have IH: "good_at needed B k st1 (current (fst r1))" "baseline (fst r1) = B" by auto
  from step(2) y obtain j where "k = Some j" by (cases k) auto
  with step(2) y good_step [of j st1 r1 m st' r' B] IH show ?case by simp
qed simp

end

end
