(* ===== verification/Workload_Log.thy ===== *)
theory Workload_Log
  imports Workload_Steps
begin

text \<open>
  The trajectory of a completed run: which actions the recorder has, in which order. The log is
  an introduction, one validate/apply/verify round per attempt with a diagnose/repair pair
  between rounds, and an accepting or a rejecting tail.
\<close>

definition log_intro :: "string list" where
  "log_intro = [''load_service_context'', ''inspect'', ''gather_evidence'', ''propose_policy'']"

definition log_attempt :: "string list" where
  "log_attempt = [''validate_candidate'', ''apply_policy'', ''verify'']"

definition log_rounds :: "nat \<Rightarrow> string list" where
  "log_rounds k =
     log_intro @ concat (replicate k (log_attempt @ [''diagnose_failure'', ''repair_policy'']))"

definition log_accept :: "string list" where
  "log_accept = [''check_more_reductions'', ''final_verify'']"

definition log_reject :: "string list \<Rightarrow> bool" where
  "log_reject tail \<longleftrightarrow>
     tail \<in> {[''restore_policy'', ''human_review''],
             [''diagnose_failure'', ''restore_policy'', ''human_review'']}"

definition log_settled :: "workload_state \<Rightarrow> string list \<Rightarrow> bool" where
  "log_settled st log \<longleftrightarrow>
     (\<exists>tail. log = log_rounds (ws_retry_count st) @ log_attempt @ tail \<and>
        (if ws_accepted st then tail = log_accept else log_reject tail))"

fun log_at :: "node option \<Rightarrow> workload_state \<Rightarrow> string list \<Rightarrow> bool" where
  "log_at None st log \<longleftrightarrow>
     (\<exists>before. log = before @ [''finalize'', ''publish_result_event''] \<and> log_settled st before)"
| "log_at (Some n) st log =
    (let rounds = log_rounds (ws_retry_count st) in
     case n of
       Load_Service_Context \<Rightarrow> ws_retry_count st = 0 \<and> \<not> ws_accepted st \<and> log = []
     | Inspect_Rbac \<Rightarrow> ws_retry_count st = 0 \<and> \<not> ws_accepted st \<and> log = take 1 log_intro
     | Gather_Evidence \<Rightarrow> ws_retry_count st = 0 \<and> \<not> ws_accepted st \<and> log = take 2 log_intro
     | Generate_Candidate \<Rightarrow> ws_retry_count st = 0 \<and> \<not> ws_accepted st \<and> log = take 3 log_intro
     | Validate_Candidate \<Rightarrow> \<not> ws_accepted st \<and> log = rounds
     | Apply_Candidate \<Rightarrow> \<not> ws_accepted st \<and> log = rounds @ take 1 log_attempt
     | Verify \<Rightarrow> \<not> ws_accepted st \<and> log = rounds @ take 2 log_attempt
     | Check_More_Reductions \<Rightarrow> log = rounds @ log_attempt
     | Final_Verify \<Rightarrow> log = rounds @ log_attempt @ take 1 log_accept
     | Diagnose_Failure \<Rightarrow> ws_failure_type st = Some Rbac_Failure \<and> \<not> ws_accepted st \<and>
         log = rounds @ log_attempt
     | Repair_Policy \<Rightarrow> ws_failure_type st = Some Rbac_Failure \<and> \<not> ws_accepted st \<and>
         log = rounds @ log_attempt @ [''diagnose_failure'']
     | Restore_Last_Known_Good \<Rightarrow>
         \<exists>d \<in> {[], [''diagnose_failure'']}. log = rounds @ log_attempt @ d
     | Human_Review \<Rightarrow> \<not> ws_accepted st \<and>
         (\<exists>d \<in> {[], [''diagnose_failure'']}. log = rounds @ log_attempt @ d @ [''restore_policy''])
     | Finalize_Workload \<Rightarrow> log_settled st log
     | Publish_Result_Event \<Rightarrow>
         (\<exists>before. log = before @ [''finalize''] \<and> log_settled st before))"

fun action_of :: "node \<Rightarrow> string" where
  "action_of Load_Service_Context = ''load_service_context''"
| "action_of Inspect_Rbac = ''inspect''"
| "action_of Gather_Evidence = ''gather_evidence''"
| "action_of Generate_Candidate = ''propose_policy''"
| "action_of Validate_Candidate = ''validate_candidate''"
| "action_of Apply_Candidate = ''apply_policy''"
| "action_of Verify = ''verify''"
| "action_of Check_More_Reductions = ''check_more_reductions''"
| "action_of Final_Verify = ''final_verify''"
| "action_of Diagnose_Failure = ''diagnose_failure''"
| "action_of Repair_Policy = ''repair_policy''"
| "action_of Restore_Last_Known_Good = ''restore_policy''"
| "action_of Human_Review = ''human_review''"
| "action_of Finalize_Workload = ''finalize''"
| "action_of Publish_Result_Event = ''publish_result_event''"

lemma node_logged:
  assumes "exec_node cfg n st r = (Inr st', r')" and "n \<noteq> Repair_Policy"
  shows "logged r' = logged r @ [action_of n]"
  using assms
  by (cases n)
    (auto simp: load_context_def inspect_def gather_def generate_def validate_def
      apply_candidate_def verify_def check_more_def final_verify_def diagnose_def restore_def
      human_review_def finalize_def publish_result_def Let_def seq_Inr_iff need_Inr_iff
      failure_of_Inr_iff lift_result_eq_iff ret_eq_iff throw_eq_iff
      dest!: emit_logged on_env_logged split: if_splits)

lemma node_accepted:
  assumes "exec_node cfg n st r = (Inr st', r')"
  shows "ws_accepted st' =
    (if n = Final_Verify then True else if n = Restore_Last_Known_Good then False
     else ws_accepted st)"
  using assms
  by (cases n)
    (auto simp: unrecoverable_def repair_accepted_def
      dest!: node_Inr inspect_Inr validate_Inr diagnose_Inr elim!: verify_Inr repair_Inr)

lemma log_rounds_Suc:
  "log_rounds (Suc k) = log_rounds k @ log_attempt @ [''diagnose_failure'', ''repair_policy'']"
proof -
  have "concat (replicate (Suc k) xs) = concat (replicate k xs) @ xs" for xs :: "string list"
    by (induction k) simp_all
  then show ?thesis by (simp only: log_rounds_def append_assoc)
qed

lemma log_step:
  assumes "graph_step cfg (Some n, st, r) (succ, st', r')" and "log_at (Some n) st (logged r)"
  shows "log_at succ st' (logged r')"
proof -
  from assms(1) have exec: "exec_node cfg n st r = (Inr st', r')"
    and next': "next_node cfg n st' = Inr succ"
    by (auto elim: graph_stepE)
  note acc = node_accepted [OF exec]
  show ?thesis
  proof (cases "n = Repair_Policy")
    case True
    with exec have "repair cfg st r = (Inr st', r')" by simp
    then show ?thesis
    proof (cases rule: repair_Inr)
      case stuck
      with True next' assms(2) show ?thesis
        by (auto simp: route_repair_def unrecoverable_def Let_def)
    next
      case (repaired f C original R)
      with True next' assms(2) show ?thesis
        by (auto simp: route_repair_def repair_accepted_def Let_def log_rounds_Suc
            intro!: bexI [of _ "[]"])
    qed
  next
    case False
    have kind: "n = Diagnose_Failure \<Longrightarrow> ws_failure_type st' = ws_failure_type st"
      using exec by (auto dest: diagnose_Inr)
    note log = node_logged [OF exec False] and retry = node_retry [OF exec False]
    show ?thesis
      using False next' assms(2) log retry acc kind
      by (cases n)
        (auto simp: route_verification_def rbind_Inr_iff Let_def log_settled_def log_reject_def
          log_accept_def log_attempt_def log_intro_def log_rounds_def
          split: option.splits if_splits)
  qed
qed

lemma log_steps:
  assumes "(graph_step cfg)\<^sup>*\<^sup>* (Some n, st, r) (m, st', r')" and "log_at (Some n) st (logged r)"
  shows "log_at m st' (logged r')"
  using assms
proof (induction "(m, st', r')" arbitrary: m st' r' rule: rtranclp_induct)
  case (step y)
  obtain k st1 r1 where y: "y = (k, st1, r1)" by (cases y)
  with step obtain j where "k = Some j" by (cases k) auto
  with step y log_step [of cfg j st1 r1 m st' r'] show ?case by auto
qed simp

end
