(* ===== verification/Workload_Run.thy ===== *)
theory Workload_Run
  imports Workload_Safety Workload_Log
begin

text \<open>
  Whole runs: from the invariants at the nodes to the result of \<open>run\<close> and of the orchestrator
  facade (\<open>agent_layer/orchestrator.py\<close>), and the conditions under which a run returns.
\<close>

section \<open>Results of a run\<close>

text \<open>The final state of the graph and the result the caller gets.\<close>

lemma run_workload_cases:
  assumes "run_workload cfg rq prior w = (Inr ex, w')"
  obtains st r r' path where
    "run_nodes cfg (gc_limit cfg) Load_Service_Context
       (initial_state (env_name (gc_env cfg)) rq prior) (w, []) = (Inr st, r)"
    "write_trajectory cfg r = (Inr path, r')" "fst r' = w'" "snd r' = snd r"
    "run_result rq path st r' = (Inr ex, r')"
proof -
  let ?body = "\<lambda>final. seq (write_trajectory cfg) (\<lambda>path. run_result rq path final)"
  obtain r' where main: "seq (run_nodes cfg (gc_limit cfg) Load_Service_Context
       (initial_state (env_name (gc_env cfg)) rq prior)) ?body (w, []) = (Inr ex, r')" "fst r' = w'"
    using assms by (auto simp: run_workload_def split: prod.splits)
  then obtain st r where nodes: "run_nodes cfg (gc_limit cfg) Load_Service_Context
       (initial_state (env_name (gc_env cfg)) rq prior) (w, []) = (Inr st, r)"
    and body: "?body st r = (Inr ex, r')"
    unfolding seq_Inr_iff by blast
  then obtain path u where path: "write_trajectory cfg r = (Inr path, u)"
    and res: "run_result rq path st u = (Inr ex, r')"
    unfolding seq_Inr_iff by blast
  have "r' = u" using res by (auto simp: run_result_def op_simps split: if_splits)
  moreover have "snd u = snd r" using path by (auto simp: write_trajectory_def split: prod.splits)
  ultimately show thesis using that [OF nodes path] res main(2) by simp
qed

lemma run_result_Inr:
  "run_result rq path st s = (Inr ex, s') \<Longrightarrow>
   ws_original_policy st = Some (we_original_policy ex) \<and>
   we_accepted ex = ws_accepted st \<and>
   (if ws_accepted st then ws_current_policy st = Some (we_final_policy ex)
    else we_final_policy ex = we_original_policy ex) \<and>
   ws_original_risk st = Some (we_original_risk ex) \<and>
   we_final_risk ex = score_policy (we_final_policy ex) \<and>
   ws_verification_result st = Some (we_verification ex) \<and>
   we_repair_iterations ex = ws_retry_count st \<and>
   we_incorrect_removals ex = ws_incorrect_removals st"
  by (auto simp: run_result_def op_simps split: if_splits)

lemma steps_retry:
  assumes "(graph_step cfg)\<^sup>*\<^sup>* (Some n, st, r) (m, st', r')" and "budgeted cfg n st"
  shows "ws_retry_count st' \<le> gc_max_repair_iterations cfg \<and>
    (\<forall>j. m = Some j \<longrightarrow> budgeted cfg j st')"
  using assms
proof (induction "(m, st', r')" arbitrary: m st' r' rule: rtranclp_induct)
  case base
  then show ?case by (simp add: budgeted_def)
next
  case (step y)
  obtain k st1 r1 where y: "y = (k, st1, r1)" by (cases y)
  with step obtain j where j: "k = Some j" by (cases k) auto
  with step y have bud: "budgeted cfg j st1" by auto
  show ?case
  proof (cases m)
    case None
    with step(2) y j have "exec_node cfg j st1 r1 = (Inr st', r')" "next_node cfg j st' = Inr None"
      by (auto elim: graph_stepE)
    then have "ws_retry_count st' = ws_retry_count st1"
      by (cases j) (auto dest!: publish_result_Inr simp: rbind_Inr_iff)
    with bud None show ?thesis by (simp add: budgeted_def)
  next
    case (Some i)
    with step(2) y j step_rank [of cfg j st1 r1 i st' r'] bud show ?thesis
      by (auto simp: budgeted_def)
  qed
qed

definition run_states :: "'w graph_config \<Rightarrow> run_request \<Rightarrow> workload_state \<Rightarrow> 'w \<Rightarrow> 'w graph_conf" where
  "run_states cfg rq prior w =
     (Some Load_Service_Context, initial_state (env_name (gc_env cfg)) rq prior, (w, []))"

lemma run_workload_reaches:
  assumes "run_workload cfg rq prior w = (Inr ex, w')"
  obtains st r path r' where "(graph_step cfg)\<^sup>*\<^sup>* (run_states cfg rq prior w) (None, st, r)"
    "write_trajectory cfg r = (Inr path, r')" "fst r' = w'" "snd r' = snd r"
    "run_result rq path st r' = (Inr ex, r')"
  using assms by (elim run_workload_cases) (auto simp: run_states_def dest: run_nodes_steps)

lemma initial_state_sel [simp]:
  "ws_retry_count (initial_state name rq prior) = 0"
  "ws_incorrect_removals (initial_state name rq prior) = 0"
  "\<not> ws_accepted (initial_state name rq prior)"
  by (simp_all add: initial_state_def Let_def)

lemma run_repairs_bounded:
  assumes "run_workload cfg rq prior w = (Inr ex, w')"
  shows "we_repair_iterations ex \<le> gc_max_repair_iterations cfg"
proof -
  from assms obtain st r path r' where
    steps: "(graph_step cfg)\<^sup>*\<^sup>* (run_states cfg rq prior w) (None, st, r)"
    and "write_trajectory cfg r = (Inr path, r')" "fst r' = w'" "snd r' = snd r"
    and res: "run_result rq path st r' = (Inr ex, r')"
    by (rule run_workload_reaches)
  show ?thesis
    using steps_retry [OF steps [unfolded run_states_def] budgeted_initial] run_result_Inr [OF res]
    by simp
qed

text \<open>What the environment reported when the run gathered its evidence, in the world it had reached.\<close>

definition gathered ::
  "'w graph_config \<Rightarrow> run_request \<Rightarrow> workload_state \<Rightarrow> 'w \<Rightarrow> kube_event list \<Rightarrow> bool" where
  "gathered cfg rq prior w observed \<longleftrightarrow>
     (\<exists>st u evs u'. (graph_step cfg)\<^sup>*\<^sup>* (run_states cfg rq prior w) (Some Gather_Evidence, st, (u, evs)) \<and>
        env_get_observed_usage (gc_env cfg) u = (Inr observed, u'))"

lemma exec_keeps_observed:
  assumes "exec_node cfg n st r = (Inr st', r')" and "n \<notin> {Inspect_Rbac, Gather_Evidence}"
  shows "ws_observed_events st' = ws_observed_events st"
proof (cases n)
  case Verify
  with assms have "verify cfg st r = (Inr st', r')" by simp
  then show ?thesis by (rule verify_Inr) simp
next
  case Repair_Policy
  with assms have "repair cfg st r = (Inr st', r')" by simp
  then show ?thesis
    by (rule repair_Inr) (simp_all add: unrecoverable_def repair_accepted_def)
qed (use assms in \<open>auto dest!: node_Inr diagnose_Inr validate_Inr apply_Inr generate_Inr restore_Inr\<close>)

lemma observed_is_gathered:
  assumes "(graph_step cfg)\<^sup>*\<^sup>* (run_states cfg rq prior w) (m, st', r')"
    and "m \<notin> Some ` {Load_Service_Context, Inspect_Rbac, Gather_Evidence}"
  shows "\<exists>observed. ws_observed_events st' = Some observed \<and> gathered cfg rq prior w observed"
  using assms
proof (induction "(m, st', r')" arbitrary: m st' r' rule: rtranclp_induct)
  case base
  then show ?case by (simp add: run_states_def)
next
  case (step y)
  obtain k st1 r1 where y: "y = (k, st1, r1)" by (cases y)
  with step(2) obtain n where n: "k = Some n" by (cases k) auto
  from step(2) y n have exec: "exec_node cfg n st1 r1 = (Inr st', r')" and succ: "next_node cfg n st' = Inr m"
    by (auto elim: graph_stepE)
  show ?case
  proof (cases "n = Gather_Evidence")
    case True
    with exec obtain observed u where "env_get_observed_usage (gc_env cfg) (fst r1) = (Inr observed, u)"
      and "ws_observed_events st' = Some observed" by (auto dest!: gather_Inr)
    moreover have "(graph_step cfg)\<^sup>*\<^sup>* (run_states cfg rq prior w) (Some Gather_Evidence, st1, (fst r1, snd r1))"
      using step(1) y n True by simp
    ultimately show ?thesis unfolding gathered_def by blast
  next
    case False
    with succ step.prems have late: "n \<notin> {Load_Service_Context, Inspect_Rbac, Gather_Evidence}" by auto
    with step(3) [OF y] n obtain observed where "ws_observed_events st1 = Some observed"
      and "gathered cfg rq prior w observed" by auto
    with exec_keeps_observed [OF exec] late show ?thesis by simp
  qed
qed

context workload_graph
begin

lemma run_outcome:
  assumes run: "run_workload cfg rq prior w = (Inr ex, w')" and start: "current w = baseline w"
  shows "we_original_policy ex = baseline w" and "current w' = we_final_policy ex"
    and "no_more_than (we_final_policy ex) (baseline w)"
    and "vr_passed (we_verification ex) = we_accepted ex"
    and "\<not> we_accepted ex \<Longrightarrow> we_final_policy ex = baseline w"
    and "we_accepted ex \<Longrightarrow> grants_only needed (baseline w) (we_final_policy ex)"
    and "we_accepted ex \<Longrightarrow>
      \<exists>C0 observed. gathered cfg rq prior w observed \<and> observed_only_policy (baseline w) observed = Inr C0 \<and>
        no_more_than C0 (we_final_policy ex) \<and>
        length (pl_permissions (we_final_policy ex)) =
          length (pl_permissions C0) + we_incorrect_removals ex"
    and "we_original_risk ex = score_policy (baseline w)"
proof -
  from run obtain st r path r' where
    steps: "(graph_step cfg)\<^sup>*\<^sup>* (run_states cfg rq prior w) (None, st, r)"
    and wrote: "write_trajectory cfg r = (Inr path, r')" "fst r' = w'"
    and res: "run_result rq path st r' = (Inr ex, r')"
    by (blast elim: run_workload_reaches)
  have "good_at needed (baseline w) None st (current (fst r)) \<and> baseline (fst r) = baseline w"
    using good_steps [OF steps [unfolded run_states_def], of "baseline w"] start by simp
  then have good: "outcome_ok needed (baseline w) (current (fst r)) st" by simp
  have obs: "\<exists>observed. ws_observed_events st = Some observed \<and> gathered cfg rq prior w observed"
    by (rule observed_is_gathered [OF steps]) simp
  have "current w' = current (fst r)"
  proof -
    obtain u evs where r: "r = (u, evs)" by (cases r)
    then have "gc_summary cfg evs u = (Inr path, w')"
      using wrote by (auto simp: write_trajectory_def split: prod.splits)
    with r show ?thesis using keepsD [OF summary_keeps] by simp
  qed
  note facts = good [unfolded outcome_ok_def inspected_def verified_def candidate_ok_def]
    run_result_Inr [OF res] this
  show "we_original_policy ex = baseline w" using facts by simp
  show "current w' = we_final_policy ex" using facts by (auto split: if_splits)
  show "no_more_than (we_final_policy ex) (baseline w)" using facts by (auto split: if_splits)
  show "vr_passed (we_verification ex) = we_accepted ex" using facts by auto
  show "\<not> we_accepted ex \<Longrightarrow> we_final_policy ex = baseline w" using facts by simp
  show "we_accepted ex \<Longrightarrow> grants_only needed (baseline w) (we_final_policy ex)"
    using facts by auto
  show "we_accepted ex \<Longrightarrow>
      \<exists>C0 observed. gathered cfg rq prior w observed \<and> observed_only_policy (baseline w) observed = Inr C0 \<and>
        no_more_than C0 (we_final_policy ex) \<and>
        length (pl_permissions (we_final_policy ex)) =
          length (pl_permissions C0) + we_incorrect_removals ex"
    using facts obs by auto blast
  show "we_original_risk ex = score_policy (baseline w)" using facts by simp
qed

end

section \<open>When a run returns\<close>

lemma seq_ret: "seq (ret x) f = f x"
  by (rule ext) (simp add: seq_def ret_def)

lemma seq_lift: "seq (lift_result (Inr x)) f = f x"
  by (rule ext) (simp add: seq_def lift_result_def)

lemma need_Some: "need key (Some x) = ret x"
  by (simp add: need_def)

lemmas op_eval = seq_ret seq_lift need_Some

text \<open>
  The operations return and the recursion limit covers the longest run. A run over such an
  environment returns if every event the environment reports is one the original policy allows
  and the minimiser can grant.
\<close>

definition all_allowed :: "(kube_event \<Rightarrow> bool) \<Rightarrow> policy \<Rightarrow> bool" where
  "all_allowed N B \<longleftrightarrow> (\<forall>e. N e \<longrightarrow> is_authorized B e \<and> grantable e)"

locale cooperative_graph = workload_graph cfg current baseline needed
  for cfg :: "'w graph_config" and current :: "'w \<Rightarrow> policy" and baseline :: "'w \<Rightarrow> policy"
    and needed :: "kube_event \<Rightarrow> bool" +
  assumes env_returns: "returns (env_get_current_policy (gc_env cfg))"
      "returns (env_get_observed_usage (gc_env cfg))" "returns (env_apply_policy (gc_env cfg) P)"
      "returns (env_verify_workload (gc_env cfg))" "returns (env_restore_policy (gc_env cfg))"
      "returns (env_describe_failure (gc_env cfg) result)"
    and sink_returns: "returns (gc_sink cfg ev)" and summary_returns: "returns (gc_summary cfg evs)"
    and limit_covers: "11 + 5 * gc_max_repair_iterations cfg \<le> gc_limit cfg"
begin

lemma returns_seq: "returns m \<Longrightarrow> (\<And>x. returns (f x)) \<Longrightarrow> returns (seq m f)"
  unfolding returns_def seq_def by (metis (no_types, lifting) case_prod_conv sum.case(2))

lemma returns_ret: "returns (ret x)"
  by (simp add: returns_def ret_def)

lemma returns_on_env:
  fixes m :: "('w, 'a) op"
  assumes "returns m"
  shows "returns (on_env m)"
  unfolding returns_def
proof
  fix r :: "'w run"
  from assms obtain x w' where "m (fst r) = (Inr x, w')" unfolding returns_def by blast
  then have "on_env m r = (Inr x, (w', snd r))" by (simp add: op_simps)
  then show "\<exists>x r'. on_env m r = (Inr x, r')" by blast
qed

lemma returns_emit: "returns (emit cfg st agent action reason decision details)"
  unfolding returns_def
proof
  fix r :: "'w run"
  obtain w evs where r: "r = (w, evs)" by (cases r)
  have "\<exists>x w'. gc_sink cfg ev w = (Inr x, w')" for ev
    using sink_returns unfolding returns_def by blast
  then show "\<exists>x r'. emit cfg st agent action reason decision details r = (Inr x, r')"
    unfolding r emit_def record_event_def by (simp split: prod.split) (metis Pair_inject)
qed

lemma returns_explain: "returns (explain_op provider f)"
  by (simp add: returns_def explain_op_def split: prod.split)

lemma returns_need: "x = Some v \<Longrightarrow> returns (need key x)"
  by (simp add: need_def returns_ret)

lemmas returns_intros = returns_seq returns_ret returns_on_env returns_emit returns_explain env_returns

text \<open>Each node returns where its invariant holds.\<close>

lemma validate_returns:
  assumes "candidate_ok needed B st" and "inspected B st"
  shows "\<exists>st' r'. validate cfg st r = (Inr st', r')"
proof -
  from assms obtain C where C: "ws_candidate_policy st = Some C" and "grants_only needed B C"
    and O: "ws_original_policy st = Some B"
    by (auto simp: candidate_ok_def inspected_def)
  then have ok: "list_all (\<lambda>p. is_authorized B (permission_event p)) (pl_permissions C)"
    unfolding grants_only_def list_all_iff using event_permission_checked by blast
  obtain x r' where "emit cfg st ''rules_engine'' ''validate_candidate''
              ''candidate is normalized and constrained to original capabilities'' None [] r = (Inr x, r')"
    using returns_emit unfolding returns_def by blast
  with C O ok show ?thesis
    by (simp add: validate_def op_eval) (simp add: seq_def ret_def)
qed

lemma generate_returns:
  assumes "inspected B st" and "observed_in needed st" and "all_allowed needed B"
  shows "\<exists>st' r'. generate cfg st r = (Inr st', r')"
proof -
  from assms obtain observed where O: "ws_original_policy st = Some B"
    and obs: "ws_observed_events st = Some observed" "\<forall>e \<in> set observed. needed e"
    by (auto simp: inspected_def observed_in_def)
  with assms(3) obtain C where C: "observed_only_policy B observed = Inr C"
    using observed_only_succeeds_iff [of B observed] unfolding all_allowed_def by blast
  have "returns (generate cfg st)"
    by (simp add: generate_def O obs(1) op_eval reducer_propose_def C Let_def returns_intros)
  then show ?thesis unfolding returns_def by blast
qed

lemma repair_returns:
  assumes "failure_in needed st" and "candidate_ok needed B st" and "inspected B st"
  shows "\<exists>st' r'. repair cfg st r = (Inr st', r')"
proof -
  from assms obtain f C where f: "ws_failure_details st = Some (Some f)"
    and C: "ws_candidate_policy st = Some C" and O: "ws_original_policy st = Some B"
    by (auto simp: failure_in_def candidate_ok_def inspected_def)
  have "returns (repair cfg st)"
    using verifier_repair_error [of C f B]
    by (simp add: repair_def f C O failure_of_def op_eval returns_intros split: sum.split)
  then show ?thesis unfolding returns_def by blast
qed

lemma returnsD: "returns m \<Longrightarrow> \<exists>x r'. m r = (Inr x, r')"
  unfolding returns_def by blast

lemma node_progress:
  assumes "good_at needed B (Some n) st now" and "all_allowed needed B"
  shows "\<exists>st' r'. exec_node cfg n st r = (Inr st', r')"
proof (cases n)
  case Generate_Candidate
  with assms generate_returns [where B = B and st = st] show ?thesis by (simp del: split_paired_Ex)
next
  case Validate_Candidate
  with assms(1) validate_returns [where B = B and st = st] show ?thesis by (simp del: split_paired_Ex)
next
  case Apply_Candidate
  with assms(1) obtain C where "ws_candidate_policy st = Some C" by (auto simp: candidate_ok_def)
  with Apply_Candidate show ?thesis
    by (intro returnsD) (simp add: apply_candidate_def op_eval returns_intros)
next
  case Diagnose_Failure
  with assms(1) obtain f where "ws_failure_details st = Some (Some f)" by (auto simp: failure_in_def)
  with Diagnose_Failure show ?thesis
    by (intro returnsD) (simp add: diagnose_def failure_of_def op_eval returns_intros)
next
  case Repair_Policy
  with assms(1) repair_returns [where B = B and st = st] show ?thesis by (simp del: split_paired_Ex)
next
  case Restore_Last_Known_Good
  with assms(1) have "ws_last_known_good_policy st = Some B" by (simp add: inspected_def)
  with Restore_Last_Known_Good show ?thesis
    by (intro returnsD) (simp add: restore_def op_eval returns_intros)
next
  case Finalize_Workload
  with assms(1) have "ws_current_policy st = Some now" by (simp add: outcome_ok_def)
  with Finalize_Workload show ?thesis
    by (intro returnsD) (simp add: finalize_def op_eval returns_intros)
next
  case Verify
  then show ?thesis
    by (intro returnsD)
      (simp add: verify_def Let_def returns_intros split: if_split)
qed (intro returnsD, simp add: load_context_def inspect_def gather_def check_more_def
  final_verify_def human_review_def publish_result_def Let_def returns_intros)+

lemma next_progress:
  assumes "exec_node cfg n st r = (Inr st', r')"
  shows "\<exists>succ. next_node cfg n st' = Inr succ"
proof (cases "n = Verify")
  case True
  with assms have "verify cfg st r = (Inr st', r')" by simp
  then obtain result where "ws_verification_result st' = Some result" by (auto elim: verify_Inr)
  with True show ?thesis by (simp add: route_verification_def)
next
  case False
  then show ?thesis by (cases n) auto
qed

lemma run_nodes_returns:
  assumes "good_at needed B (Some n) st (current (fst r))" and "baseline (fst r) = B"
    and "budgeted cfg n st" and "rank cfg n st \<le> k" and "all_allowed needed B"
  shows "\<exists>st' r'. run_nodes cfg k n st r = (Inr st', r') \<and> outcome_ok needed B (current (fst r')) st'"
  using assms(1-4)
proof (induction k arbitrary: n st r)
  case 0
  then show ?case by (cases n) auto
next
  case (Suc k)
  obtain st1 r1 where exec: "exec_node cfg n st r = (Inr st1, r1)"
    using node_progress [OF Suc.prems(1) assms(5)] by blast
  obtain succ where succ: "next_node cfg n st1 = Inr succ"
    using next_progress [OF exec] by blast
  have step: "graph_step cfg (Some n, st, r) (succ, st1, r1)" using exec succ by (rule node_step)
  from good_step [OF step Suc.prems(1,2)]
  have good: "good_at needed B succ st1 (current (fst r1))" "baseline (fst r1) = B" by simp_all
  show ?case
  proof (cases succ)
    case None
    with exec succ good show ?thesis by (simp add: seq_def lift_result_def ret_def)
  next
    case (Some m)
    with step_rank step Suc.prems(3) have "rank cfg m st1 < rank cfg n st" "budgeted cfg m st1"
      by blast+
    with good Some Suc.prems(4) Suc.IH [of m st1 r1]
    show ?thesis using exec succ by (simp add: seq_def lift_result_def)
  qed
qed

theorem run_returns:
  assumes "current w = baseline w" and "all_allowed needed (baseline w)"
  shows "\<exists>ex w'. run_workload cfg rq prior w = (Inr ex, w')"
proof -
  let ?B = "baseline w" and ?st = "initial_state (env_name (gc_env cfg)) rq prior"
  have "good_at needed ?B (Some Load_Service_Context) ?st (current (fst (w, [])))"
    using assms(1) by simp
  then obtain st r where nodes: "run_nodes cfg (gc_limit cfg) Load_Service_Context ?st (w, []) = (Inr st, r)"
    and good: "outcome_ok needed ?B (current (fst r)) st"
    using run_nodes_returns [of ?B Load_Service_Context ?st "(w, [])" "gc_limit cfg"] limit_covers
      budgeted_initial [of cfg] rank_initial [of cfg] assms(2) by auto
  obtain path r' where path: "write_trajectory cfg r = (Inr path, r')"
    using returnsD [OF summary_returns, of "snd r" "fst r"]
    by (cases r) (auto simp: write_trajectory_def)
  have "\<exists>ex. run_result rq path st r' = (Inr ex, r')"
    using good
    by (auto simp: outcome_ok_def inspected_def verified_def run_result_def op_eval ret_def
        split: if_splits)
  then show ?thesis
    using nodes path by (cases r') (auto simp: run_workload_def seq_def)
qed

end

end
