(* ===== verification/Workload_Tested.thy ===== *)
theory Workload_Tested
  imports Workload_Run
begin

text \<open>
  Runs over an environment whose verification decides a fixed set of events (\<open>checked\<close>) and
  whose failure description lists exactly the denied ones, as the simulator does. An accepted
  policy allows every checked event; and if the original policy allows the reported events and
  one repair is permitted, the run is accepted after at most one repair.
\<close>

locale tested_graph = workload_graph cfg current baseline needed
  for cfg :: "'w graph_config" and current :: "'w \<Rightarrow> policy" and baseline :: "'w \<Rightarrow> policy"
    and needed :: "kube_event \<Rightarrow> bool" +
  fixes checked :: "kube_event \<Rightarrow> bool"
  assumes verify_decides: "env_verify_workload (gc_env cfg) w = (Inr v, w') \<Longrightarrow>
      vr_passed v \<longleftrightarrow> (\<forall>e. checked e \<longrightarrow> is_authorized (current w) e)"
    and describe_exact: "env_verify_workload (gc_env cfg) w = (Inr v, w1) \<Longrightarrow> \<not> vr_passed v \<Longrightarrow>
      env_describe_failure (gc_env cfg) v w1 = (Inr f, w2) \<Longrightarrow>
      fd_authorization_denial f \<and>
      set (fd_missing_events f) = {e. checked e \<and> \<not> is_authorized (current w) e}"

definition covers_all :: "(kube_event \<Rightarrow> bool) \<Rightarrow> policy \<Rightarrow> bool" where
  "covers_all N P \<longleftrightarrow> (\<forall>e. N e \<longrightarrow> is_authorized P e)"

definition accepting_node :: "node option \<Rightarrow> bool" where
  "accepting_node n \<longleftrightarrow> n \<in> {Some Check_More_Reductions, Some Final_Verify}"

definition closing_node :: "node option \<Rightarrow> bool" where
  "closing_node n \<longleftrightarrow> n \<in> {Some Finalize_Workload, Some Publish_Result_Event, None}"

text \<open>Whatever is on its way to acceptance allows every checked event.\<close>

definition sound_at :: "(kube_event \<Rightarrow> bool) \<Rightarrow> node option \<Rightarrow> workload_state \<Rightarrow> policy \<Rightarrow> bool" where
  "sound_at N n st now \<longleftrightarrow>
     (accepting_node n \<or> (closing_node n \<and> ws_accepted st) \<longrightarrow> covers_all N now)"

text \<open>At most one repair, and none left to do after it.\<close>

definition failure_exact :: "(kube_event \<Rightarrow> bool) \<Rightarrow> workload_state \<Rightarrow> bool" where
  "failure_exact N st \<longleftrightarrow>
     (\<exists>f C. ws_failure_details st = Some (Some f) \<and> ws_candidate_policy st = Some C \<and>
        fd_authorization_denial f \<and> fd_missing_events f \<noteq> [] \<and>
        set (fd_missing_events f) = {e. N e \<and> \<not> is_authorized C e})"

definition settled_at :: "(kube_event \<Rightarrow> bool) \<Rightarrow> node option \<Rightarrow> workload_state \<Rightarrow> bool" where
  "settled_at N n st \<longleftrightarrow>
     (case n of
        Some Diagnose_Failure \<Rightarrow> ws_retry_count st = 0 \<and> failure_exact N st \<and>
          ws_failure_type st = Some Rbac_Failure
      | Some Repair_Policy \<Rightarrow> ws_retry_count st = 0 \<and> failure_exact N st \<and>
          ws_failure_type st = Some Rbac_Failure
      | Some Restore_Last_Known_Good \<Rightarrow> False
      | Some Human_Review \<Rightarrow> False
      | Some Load_Service_Context \<Rightarrow> ws_retry_count st = 0
      | Some Inspect_Rbac \<Rightarrow> ws_retry_count st = 0
      | Some Gather_Evidence \<Rightarrow> ws_retry_count st = 0
      | Some Generate_Candidate \<Rightarrow> ws_retry_count st = 0
      | Some Check_More_Reductions \<Rightarrow> ws_retry_count st \<le> 1
      | Some Final_Verify \<Rightarrow> ws_retry_count st \<le> 1
      | Some Finalize_Workload \<Rightarrow> ws_accepted st \<and> ws_retry_count st \<le> 1
      | Some Publish_Result_Event \<Rightarrow> ws_accepted st \<and> ws_retry_count st \<le> 1
      | None \<Rightarrow> ws_accepted st \<and> ws_retry_count st \<le> 1
      | _ \<Rightarrow> ws_retry_count st = 0 \<or>
          (ws_retry_count st = 1 \<and> covers_all N (the (ws_candidate_policy st))))"

lemma repair_covers:
  assumes "repair_policy C missing B = Inr R" and "{e. N e \<and> \<not> is_authorized C e} \<subseteq> set missing"
  shows "covers_all N R"
  unfolding covers_all_def
proof (intro allI impI)
  fix e assume "N e"
  show "is_authorized R e"
  proof (cases "is_authorized C e")
    case True
    then show ?thesis by (rule no_more_thanD [OF repair_keeps_candidate [OF assms(1)]])
  next
    case False
    with \<open>N e\<close> assms(2) have "e \<in> set missing" by blast
    then show ?thesis by (rule repair_authorizes_missing [OF assms(1)])
  qed
qed

lemma repair_exact_repairs:
  assumes "failure_exact N st" and "candidate_ok N' B st" and "inspected B st"
    and "all_allowed N B" and "repair cfg st r = (Inr st', r')"
  shows "ws_retry_count st' = ws_retry_count st + 1 \<and> ws_failure_type st' = ws_failure_type st \<and>
    covers_all N (the (ws_candidate_policy st'))"
proof -
  from assms(1) obtain f C where f: "ws_failure_details st = Some (Some f)"
    and C: "ws_candidate_policy st = Some C" and denial: "fd_authorization_denial f"
    and missing: "fd_missing_events f \<noteq> []"
      "set (fd_missing_events f) = {e. N e \<and> \<not> is_authorized C e}"
    by (auto simp: failure_exact_def)
  have O: "ws_original_policy st = Some B" using assms(3) by (simp add: inspected_def)
  have can: "canonical_policy C" using assms(2) C by (auto simp: candidate_ok_def)
  obtain e where e: "e \<in> set (fd_missing_events f)" using missing(1) by (cases "fd_missing_events f") auto
  with missing(2) have denied: "\<not> is_authorized C e" by blast
  from missing(2) assms(4) have "\<forall>e \<in> set (fd_missing_events f). is_authorized B e \<and> grantable e"
    by (auto simp: all_allowed_def)
  then obtain R where R: "repair_policy C (fd_missing_events f) B = Inr R"
    using repair_succeeds_iff by blast
  have "length (pl_permissions C) < length (pl_permissions R)"
    using repair_adds_when_denied [OF R can e denied] .
  with assms(5) f C O denial missing(1) R have "st' = repair_accepted st C R"
    by (auto simp: repair_def op_simps verifier_repair_def)
  moreover have "covers_all N R" using R missing(2) by (intro repair_covers) auto
  ultimately show ?thesis by (simp add: repair_accepted_def)
qed

context tested_graph
begin

lemma verify_sound:
  assumes "verify cfg st r = (Inr st', r')"
  shows "verified True st' \<Longrightarrow> covers_all checked (current (fst r))"
    and "verified False st' \<Longrightarrow> ws_candidate_policy st = Some (current (fst r)) \<Longrightarrow>
      failure_exact checked st' \<and> ws_failure_type st' = Some Rbac_Failure"
    and "covers_all checked (current (fst r)) \<Longrightarrow> verified True st'"
proof -
  from assms obtain v failure w where
    v: "env_verify_workload (gc_env cfg) (fst r) = (Inr v, w)"
    and fail: "failure = None \<longleftrightarrow> vr_passed v"
      "\<forall>f. failure = Some f \<longrightarrow> (\<exists>w'. env_describe_failure (gc_env cfg) v w = (Inr f, w'))"
    and st': "ws_verification_result st' = Some v" "ws_failure_details st' = Some failure"
      "ws_failure_type st' = map_option (\<lambda>f. if fd_authorization_denial f then Rbac_Failure
                                           else Unrelated_Failure) failure"
      "ws_candidate_policy st' = ws_candidate_policy st"
    by (elim verify_Inr) simp
  note decides = verify_decides [OF v]
  show "verified True st' \<Longrightarrow> covers_all checked (current (fst r))"
    using decides st' by (simp add: verified_def covers_all_def)
  show "covers_all checked (current (fst r)) \<Longrightarrow> verified True st'"
    using decides st' by (simp add: verified_def covers_all_def)
  assume "verified False st'" and C: "ws_candidate_policy st = Some (current (fst r))"
  then have np: "\<not> vr_passed v" using st' by (simp add: verified_def)
  then obtain f w' where f: "failure = Some f" "env_describe_failure (gc_env cfg) v w = (Inr f, w')"
    using fail by auto
  have exact: "fd_authorization_denial f"
    "set (fd_missing_events f) = {e. checked e \<and> \<not> is_authorized (current (fst r)) e}"
    using describe_exact [OF v np f(2)] by simp_all
  moreover have "fd_missing_events f \<noteq> []"
    using np decides exact(2) by auto
  ultimately show "failure_exact checked st' \<and> ws_failure_type st' = Some Rbac_Failure"
    using st' f(1) C by (auto simp: failure_exact_def)
qed

lemma sound_step:
  assumes "graph_step cfg (Some n, st, r) (succ, st', r')"
    and "good_at needed B (Some n) st (current (fst r))" and "baseline (fst r) = B"
    and "sound_at checked (Some n) st (current (fst r))"
  shows "sound_at checked succ st' (current (fst r'))"
proof -
  from assms(1) have exec: "exec_node cfg n st r = (Inr st', r')"
    and next': "next_node cfg n st' = Inr succ"
    by (auto elim: graph_stepE)
  have same: "current (fst r') = current (fst r)" if "n \<notin> {Apply_Candidate, Restore_Last_Known_Good}"
    using keepsD [OF node_keeps [OF that] exec] by simp
  note acc = node_accepted [OF exec]
  show ?thesis
  proof (cases "n = Verify")
    case True
    with exec have ver: "verify cfg st r = (Inr st', r')" by simp
    from True next' have "accepting_node succ \<longrightarrow> verified True st'" "\<not> closing_node succ"
      by (auto simp: route_verification_def rbind_Inr_iff accepting_node_def closing_node_def
          verified_def split: option.splits if_splits)
    with True verify_sound(1) [OF ver] same show ?thesis by (simp add: sound_at_def)
  next
    case False
    with next' assms(2,4) same acc show ?thesis
      by (cases n)
        (auto simp: sound_at_def accepting_node_def closing_node_def route_repair_def
          outcome_ok_def split: if_splits)
  qed
qed

lemma settled_step:
  assumes "graph_step cfg (Some n, st, r) (succ, st', r')"
    and "good_at needed B (Some n) st (current (fst r))" and "baseline (fst r) = B"
    and "settled_at checked (Some n) st"
    and "all_allowed checked B" and "1 \<le> gc_max_repair_iterations cfg"
  shows "settled_at checked succ st'"
proof -
  from assms(1) have exec: "exec_node cfg n st r = (Inr st', r')"
    and next': "next_node cfg n st' = Inr succ"
    by (auto elim: graph_stepE)
  note acc = node_accepted [OF exec]
  show ?thesis
  proof (cases "n = Verify")
    case True
    with exec have ver: "verify cfg st r = (Inr st', r')" by simp
    have retry: "ws_retry_count st' = ws_retry_count st"
      using node_retry [OF exec] True by simp
    from True assms(2) have C: "ws_candidate_policy st = Some (current (fst r))" by simp
    from True assms(4) C have pass: "ws_retry_count st = 0 \<or>
        (ws_retry_count st = 1 \<and> covers_all checked (current (fst r)))"
      by (simp add: settled_at_def)
    obtain b where b: "verified b st'"
      using ver by (auto elim!: verify_Inr simp: verified_def)
    show ?thesis
    proof (cases b)
      case t: True
      with True b next' pass retry show ?thesis
        by (auto simp: route_verification_def verified_def settled_at_def)
    next
      case f: False
      then have exact: "failure_exact checked st'" "ws_failure_type st' = Some Rbac_Failure"
        using verify_sound(2) [OF ver _ C] b by simp_all
      have "ws_retry_count st = 0"
        using pass verify_sound(3) [OF ver] b f by (auto simp: verified_def)
      with True b f next' exact retry assms(6) show ?thesis
        by (auto simp: route_verification_def verified_def settled_at_def)
    qed
  next
    case False
    show ?thesis
    proof (cases "n = Repair_Policy")
      case True
      with exec have rep: "repair cfg st r = (Inr st', r')" by simp
      from True assms(2,4) have "failure_exact checked st" "candidate_ok needed B st" "inspected B st"
        "ws_retry_count st = 0" "ws_failure_type st = Some Rbac_Failure"
        by (simp_all add: settled_at_def)
      with repair_exact_repairs [OF this(1-3) assms(5) rep] True next' show ?thesis
        by (auto simp: route_repair_def settled_at_def)
    next
      case rep: False
      have retry: "ws_retry_count st' = ws_retry_count st" using node_retry [OF exec rep] .
      have same: "n \<in> {Validate_Candidate, Apply_Candidate, Diagnose_Failure} \<Longrightarrow>
          ws_candidate_policy st' = ws_candidate_policy st \<and>
          ws_failure_details st' = ws_failure_details st \<and> ws_failure_type st' = ws_failure_type st"
        using exec by (auto dest!: validate_Inr apply_Inr diagnose_Inr)
      then show ?thesis
        using False rep next' assms(4) retry acc
        by (cases n) (auto simp: settled_at_def failure_exact_def)
    qed
  qed
qed

lemma tested_steps:
  assumes "(graph_step cfg)\<^sup>*\<^sup>* (Some n, st, r) (m, st', r')"
    and "good_at needed B (Some n) st (current (fst r))" and "baseline (fst r) = B"
  shows "sound_at checked (Some n) st (current (fst r)) \<Longrightarrow> sound_at checked m st' (current (fst r'))"
    and "settled_at checked (Some n) st \<Longrightarrow> all_allowed checked B \<Longrightarrow>
      1 \<le> gc_max_repair_iterations cfg \<Longrightarrow> settled_at checked m st'"
proof -
  have "(sound_at checked (Some n) st (current (fst r)) \<longrightarrow> sound_at checked m st' (current (fst r'))) \<and>
    (settled_at checked (Some n) st \<and> all_allowed checked B \<and> 1 \<le> gc_max_repair_iterations cfg \<longrightarrow>
     settled_at checked m st')"
    using assms(1)
  proof (induction "(m, st', r')" arbitrary: m st' r' rule: rtranclp_induct)
    case (step y)
    obtain k st1 r1 where y: "y = (k, st1, r1)" by (cases y)
    with step(2) obtain j where j: "k = Some j" by (cases k) auto
    have "good_at needed B k st1 (current (fst r1)) \<and> baseline (fst r1) = B"
      using step(1) assms(2,3) unfolding y by (rule good_steps)
    with j have good: "good_at needed B (Some j) st1 (current (fst r1))" "baseline (fst r1) = B"
      by simp_all
    show ?case
      using step(3) [OF y] sound_step [OF step(2) [unfolded y j] good]
        settled_step [OF step(2) [unfolded y j] good] by (simp add: j)
  qed simp
  then show "sound_at checked (Some n) st (current (fst r)) \<Longrightarrow> sound_at checked m st' (current (fst r'))"
    and "settled_at checked (Some n) st \<Longrightarrow> all_allowed checked B \<Longrightarrow>
      1 \<le> gc_max_repair_iterations cfg \<Longrightarrow> settled_at checked m st'" by blast+
qed

lemma run_tested:
  assumes run: "run_workload cfg rq prior w = (Inr ex, w')" and start: "current w = baseline w"
  shows "we_accepted ex \<Longrightarrow> covers_all checked (we_final_policy ex)"
    and "all_allowed checked (baseline w) \<Longrightarrow> 1 \<le> gc_max_repair_iterations cfg \<Longrightarrow>
      we_accepted ex \<and> we_repair_iterations ex \<le> 1"
proof -
  from run obtain st r path r' where
    steps: "(graph_step cfg)\<^sup>*\<^sup>* (run_states cfg rq prior w) (None, st, r)"
    and wrote: "write_trajectory cfg r = (Inr path, r')" "fst r' = w'"
    and res: "run_result rq path st r' = (Inr ex, r')"
    by (blast elim: run_workload_reaches)
  let ?st = "initial_state (env_name (gc_env cfg)) rq prior"
  note reach = steps [unfolded run_states_def]
  have good: "good_at needed (baseline w) (Some Load_Service_Context) ?st (current (fst (w, [])))"
    using start by simp
  have fin: "good_at needed (baseline w) None st (current (fst r))"
    using good_steps [OF reach good] by simp
  have sound: "sound_at checked None st (current (fst r))"
    using tested_steps(1) [OF reach good] by (simp add: sound_at_def accepting_node_def closing_node_def)
  note result = run_result_Inr [OF res]
  show "we_accepted ex \<Longrightarrow> covers_all checked (we_final_policy ex)"
    using sound fin result
    by (simp add: sound_at_def closing_node_def outcome_ok_def)
  assume "all_allowed checked (baseline w)" "1 \<le> gc_max_repair_iterations cfg"
  then have "settled_at checked None st"
    using tested_steps(2) [OF reach good] by (simp add: settled_at_def)
  then show "we_accepted ex \<and> we_repair_iterations ex \<le> 1"
    using result by (simp add: settled_at_def)
qed

end

end
