(* ===== verification/Workload_First_Try.thy ===== *)
theory Workload_First_Try
  imports Workload_Tested
begin

text \<open>
  Runs whose first candidate passes: when the observed-only policy allows every checked event,
  the graph keeps it unchanged and repairs nothing.
\<close>

definition first_try_at :: "policy \<Rightarrow> policy \<Rightarrow> node option \<Rightarrow> workload_state \<Rightarrow> bool" where
  "first_try_at B C0 n st \<longleftrightarrow>
     ws_retry_count st = 0 \<and> ws_incorrect_removals st = 0 \<and>
     (case n of
        Some Load_Service_Context \<Rightarrow> True
      | Some Inspect_Rbac \<Rightarrow> True
      | Some Gather_Evidence \<Rightarrow> True
      | Some Generate_Candidate \<Rightarrow>
          (\<exists>observed. ws_observed_events st = Some observed \<and> observed_only_policy B observed = Inr C0)
      | Some Diagnose_Failure \<Rightarrow> False
      | Some Repair_Policy \<Rightarrow> False
      | Some Restore_Last_Known_Good \<Rightarrow> False
      | Some Human_Review \<Rightarrow> False
      | Some Finalize_Workload \<Rightarrow> ws_accepted st \<and> ws_candidate_policy st = Some C0
      | Some Publish_Result_Event \<Rightarrow> ws_accepted st \<and> ws_candidate_policy st = Some C0
      | None \<Rightarrow> ws_accepted st \<and> ws_candidate_policy st = Some C0
      | _ \<Rightarrow> ws_candidate_policy st = Some C0)"

lemma node_incorrect:
  assumes "exec_node cfg n st r = (Inr st', r')" and "n \<noteq> Repair_Policy"
  shows "ws_incorrect_removals st' = ws_incorrect_removals st"
  using assms
  by (cases n) (auto dest!: node_Inr inspect_Inr validate_Inr diagnose_Inr elim!: verify_Inr)

context tested_graph
begin

lemma first_try_step:
  assumes "graph_step cfg (Some n, st, r) (succ, st', r')"
    and "good_at needed B (Some n) st (current (fst r))" and "baseline (fst r) = B"
    and "first_try_at B C0 (Some n) st"
    and observe: "\<And>w observed w'. env_get_observed_usage (gc_env cfg) w = (Inr observed, w') \<Longrightarrow>
      observed_only_policy B observed = Inr C0"
    and covered: "covers_all checked C0"
  shows "first_try_at B C0 succ st'"
proof -
  from assms(1) have exec: "exec_node cfg n st r = (Inr st', r')"
    and next': "next_node cfg n st' = Inr succ"
    by (auto elim: graph_stepE)
  note acc = node_accepted [OF exec]
  have "n \<noteq> Repair_Policy" using assms(4) by (auto simp: first_try_at_def)
  then have retry: "ws_retry_count st' = ws_retry_count st"
    "ws_incorrect_removals st' = ws_incorrect_removals st"
    using node_retry [OF exec] node_incorrect [OF exec] by blast+
  show ?thesis
  proof (cases n)
    case Gather_Evidence
    with exec obtain observed w where "env_get_observed_usage (gc_env cfg) (fst r) = (Inr observed, w)"
      "ws_observed_events st' = Some observed"
      by (auto dest!: gather_Inr)
    with Gather_Evidence next' assms(4) retry observe show ?thesis
      by (auto simp: first_try_at_def)
  next
    case Generate_Candidate
    with exec assms(2,4) have "ws_candidate_policy st' = Some C0"
      by (auto simp: first_try_at_def inspected_def dest!: generate_Inr)
    with Generate_Candidate next' assms(4) retry show ?thesis by (auto simp: first_try_at_def)
  next
    case Verify
    with exec have ver: "verify cfg st r = (Inr st', r')" by simp
    from Verify assms(2,4) have now: "current (fst r) = C0" by (simp add: first_try_at_def)
    have "verified True st'" using verify_sound(3) [OF ver] covered now by simp
    moreover have "ws_candidate_policy st' = ws_candidate_policy st"
      using ver by (auto elim: verify_Inr)
    ultimately show ?thesis
      using Verify next' assms(4) retry
      by (auto simp: first_try_at_def route_verification_def verified_def)
  qed (use exec next' assms(4) retry acc in
    \<open>auto simp: first_try_at_def dest!: node_Inr inspect_Inr validate_Inr\<close>)
qed

lemma first_try_steps:
  assumes "(graph_step cfg)\<^sup>*\<^sup>* (Some n, st, r) (m, st', r')"
    and "good_at needed B (Some n) st (current (fst r))" and "baseline (fst r) = B"
    and "first_try_at B C0 (Some n) st"
    and observe: "\<And>w observed w'. env_get_observed_usage (gc_env cfg) w = (Inr observed, w') \<Longrightarrow>
      observed_only_policy B observed = Inr C0"
    and covered: "covers_all checked C0"
  shows "first_try_at B C0 m st'"
  using assms(1)
proof (induction "(m, st', r')" arbitrary: m st' r' rule: rtranclp_induct)
  case base
  show ?case by (rule assms(4))
next
  case (step y)
  obtain k st1 r1 where y: "y = (k, st1, r1)" by (cases y)
  with step(2) obtain j where j: "k = Some j" by (cases k) auto
  have "good_at needed B k st1 (current (fst r1)) \<and> baseline (fst r1) = B"
    using step(1) assms(2,3) unfolding y by (rule good_steps)
  with j have good: "good_at needed B (Some j) st1 (current (fst r1))" "baseline (fst r1) = B"
    by simp_all
  show ?case
    using first_try_step [OF step(2) [unfolded y j] good _ observe covered] step(3) [OF y]
    by (simp add: j)
qed

lemma run_first_try:
  assumes run: "run_workload cfg rq prior w = (Inr ex, w')" and start: "current w = baseline w"
    and observe: "\<And>w' observed w''. env_get_observed_usage (gc_env cfg) w' = (Inr observed, w'') \<Longrightarrow>
      observed_only_policy (baseline w) observed = Inr C0"
    and covered: "covers_all checked C0"
  shows "we_accepted ex \<and> we_final_policy ex = C0 \<and> we_repair_iterations ex = 0 \<and>
    we_incorrect_removals ex = 0"
proof -
  from run obtain st r path r' where
    steps: "(graph_step cfg)\<^sup>*\<^sup>* (run_states cfg rq prior w) (None, st, r)"
    and wrote: "write_trajectory cfg r = (Inr path, r')" "fst r' = w'"
    and res: "run_result rq path st r' = (Inr ex, r')"
    by (blast elim: run_workload_reaches)
  let ?st = "initial_state (env_name (gc_env cfg)) rq prior"
  note reach = steps [unfolded run_states_def]
  have good: "good_at needed (baseline w) (Some Load_Service_Context) ?st (current (fst (w, [])))"
    using start by simp
  have fin: "outcome_ok needed (baseline w) (current (fst r)) st"
    using good_steps [OF reach good] by simp
  have "first_try_at (baseline w) C0 (Some Load_Service_Context) ?st"
    by (simp add: first_try_at_def)
  then have "first_try_at (baseline w) C0 None st"
    using first_try_steps [OF reach good _ _ observe covered] by simp
  then have "ws_retry_count st = 0" "ws_accepted st" "ws_candidate_policy st = Some C0"
    "ws_incorrect_removals st = 0"
    by (simp_all add: first_try_at_def)
  with fin run_result_Inr [OF res] show ?thesis
    by (simp add: outcome_ok_def)
qed

end

end
