(* ===== verification/Simulator.thy ===== *)
theory Simulator
  imports Workload_First_Try
begin

text \<open>
  \<open>judge_layer/simulator\<close>: the deterministic RBAC simulator and the benchmark case it runs. It
  meets the contracts of \<open>environment\<close>, \<open>workload_graph\<close>, \<open>cooperative_graph\<close> and
  \<open>tested_graph\<close>, which the interpretations below establish for the model's own adapter.
\<close>

record verification_test =
  vt_name :: string
  vt_events :: "kube_event list"

record benchmark_case =
  bc_identifier :: string
  bc_name :: string
  bc_description :: string
  bc_initial_policy :: policy
  bc_observed_events :: "kube_event list"
  bc_verification_tests :: "verification_test list"
  bc_expected_policy :: "policy option"

record simulator =
  sm_original_policy :: policy
  sm_current_policy :: policy

definition new_simulator :: "benchmark_case \<Rightarrow> simulator" where
  "new_simulator c =
     \<lparr>sm_original_policy = bc_initial_policy c, sm_current_policy = bc_initial_policy c\<rparr>"

definition test_denials :: "policy \<Rightarrow> verification_test \<Rightarrow> kube_event list" where
  "test_denials P t = filter (\<lambda>e. \<not> is_authorized P e) (vt_events t)"

text \<open>The loop over the tests: (events denied so far, tests passed).\<close>

definition run_tests :: "policy \<Rightarrow> verification_test list \<Rightarrow> kube_event list \<times> nat" where
  "run_tests P tests =
     fold (\<lambda>t (denied, passed).
       if test_denials P t \<noteq> [] then (denied @ test_denials P t, passed) else (denied, passed + 1))
     tests ([], 0)"

text \<open>\<open>elapsed\<close> is the difference of two \<open>perf_counter()\<close> readings.\<close>

definition simulator_verify ::
  "string \<Rightarrow> benchmark_case \<Rightarrow> 'a simulator_scheme \<Rightarrow>
   verification_result result \<times> 'a simulator_scheme" where
  "simulator_verify elapsed c w =
     (case run_tests (sm_current_policy w) (bc_verification_tests c) of
        (denied, passed) \<Rightarrow>
          let unique = uniq denied in
          (Inr \<lparr>vr_passed = (denied = []), vr_tests_passed = passed,
                vr_tests_total = length (bc_verification_tests c), vr_denied_events = unique,
                vr_stdout = '''',
                vr_stderr = py_join [char_of (10 :: nat)]
                  (map (\<lambda>e. ''403 Forbidden: '' @ event_display e) unique),
                vr_duration_seconds = elapsed\<rparr>, w))"

definition simulator_describe ::
  "verification_result \<Rightarrow> ('w, failure_description) op" where
  "simulator_describe result w =
     (Inr (if vr_denied_events result \<noteq> [] then
             \<lparr>fd_summary = nat_str (length (vr_denied_events result)) @
                '' required API capability/capabilities denied'',
              fd_missing_events = vr_denied_events result, fd_authorization_denial = True\<rparr>
           else
             \<lparr>fd_summary = (if vr_stderr result \<noteq> '''' then vr_stderr result
                             else ''verification failed without an RBAC denial''),
              fd_missing_events = [], fd_authorization_denial = False\<rparr>), w)"

definition simulator_apply :: "policy \<Rightarrow> ('a simulator_scheme, unit) op" where
  "simulator_apply P w = (Inr (), w\<lparr>sm_current_policy := P\<rparr>)"

definition simulator_restore :: "('a simulator_scheme, unit) op" where
  "simulator_restore w = (Inr (), w\<lparr>sm_current_policy := sm_original_policy w\<rparr>)"

definition simulator_adapter ::
  "string \<Rightarrow> benchmark_case \<Rightarrow> 'a simulator_scheme environment_adapter" where
  "simulator_adapter elapsed c =
     \<lparr>env_name = ''simulator:'' @ bc_identifier c,
      env_get_current_policy = (\<lambda>w. (Inr (sm_current_policy w), w)),
      env_get_observed_usage = (\<lambda>w. (Inr (bc_observed_events c), w)),
      env_apply_policy = simulator_apply,
      env_verify_workload = simulator_verify elapsed c,
      env_restore_policy = simulator_restore,
      env_describe_failure = simulator_describe\<rparr>"

text \<open>A workload graph over the simulator that keeps its trajectory in memory, as the benchmark
  evaluation and the tests run it.\<close>

definition simulator_graph ::
  "string \<Rightarrow> benchmark_case \<Rightarrow> nat \<Rightarrow> nat \<Rightarrow> 'a simulator_scheme graph_config" where
  "simulator_graph elapsed c max_repair limit =
     \<lparr>gc_env = simulator_adapter elapsed c, gc_max_repair_iterations = max_repair,
      gc_provider = None, gc_sink = (\<lambda>_. ret ()), gc_summary = (\<lambda>_. ret None),
      gc_now = (\<lambda>_. ''1970-01-01T00:00:00+00:00''), gc_limit = limit\<rparr>"

definition tested_event :: "benchmark_case \<Rightarrow> kube_event \<Rightarrow> bool" where
  "tested_event c e \<longleftrightarrow> (\<exists>t \<in> set (bc_verification_tests c). e \<in> set (vt_events t))"

definition case_event :: "benchmark_case \<Rightarrow> kube_event \<Rightarrow> bool" where
  "case_event c e \<longleftrightarrow> e \<in> set (bc_observed_events c) \<or> tested_event c e"

section \<open>What a verification decides\<close>

lemma run_tests_append:
  "fold (\<lambda>t (denied, passed).
       if test_denials P t \<noteq> [] then (denied @ test_denials P t, passed) else (denied, passed + 1))
     tests (d, k) =
   (d @ concat (map (test_denials P) tests), k + length (filter (\<lambda>t. test_denials P t = []) tests))"
  by (induction tests arbitrary: d k) auto

lemma run_tests_eq:
  "run_tests P tests =
     (concat (map (test_denials P) tests), length (filter (\<lambda>t. test_denials P t = []) tests))"
  by (simp add: run_tests_def run_tests_append)

lemma set_denied:
  "set (concat (map (test_denials P) tests)) =
     {e. (\<exists>t \<in> set tests. e \<in> set (vt_events t)) \<and> \<not> is_authorized P e}"
  by (auto simp: test_denials_def)

lemma simulator_verify_Inr:
  "simulator_verify elapsed c w = (Inr v, w') \<longleftrightarrow>
     w' = w \<and>
     v = \<lparr>vr_passed = (concat (map (test_denials (sm_current_policy w)) (bc_verification_tests c)) = []),
          vr_tests_passed = length (filter (\<lambda>t. test_denials (sm_current_policy w) t = [])
            (bc_verification_tests c)),
          vr_tests_total = length (bc_verification_tests c),
          vr_denied_events = uniq (concat (map (test_denials (sm_current_policy w))
            (bc_verification_tests c))),
          vr_stdout = '''',
          vr_stderr = py_join [char_of (10 :: nat)] (map (\<lambda>e. ''403 Forbidden: '' @ event_display e)
            (uniq (concat (map (test_denials (sm_current_policy w)) (bc_verification_tests c))))),
          vr_duration_seconds = elapsed\<rparr>"
  by (auto simp: simulator_verify_def run_tests_eq Let_def)

lemma simulator_passed_iff:
  assumes "simulator_verify elapsed c w = (Inr v, w')"
  shows "vr_passed v \<longleftrightarrow> (\<forall>e. tested_event c e \<longrightarrow> is_authorized (sm_current_policy w) e)"
proof -
  have "vr_passed v \<longleftrightarrow>
      set (concat (map (test_denials (sm_current_policy w)) (bc_verification_tests c))) = {}"
    using assms by (simp add: simulator_verify_Inr del: set_concat)
  then show ?thesis unfolding set_denied tested_event_def by blast
qed

lemma simulator_denied_events:
  assumes "simulator_verify elapsed c w = (Inr v, w')"
  shows "set (vr_denied_events v) = {e. tested_event c e \<and> \<not> is_authorized (sm_current_policy w) e}"
    and "distinct (vr_denied_events v)"
  using assms by (simp_all add: simulator_verify_Inr set_denied tested_event_def del: set_concat)

lemma length_filter_all_iff: "length (filter P xs) = length xs \<longleftrightarrow> (\<forall>x \<in> set xs. P x)"
proof (induction xs)
  case (Cons x xs)
  have "length (filter P xs) \<le> length xs" by simp
  with Cons show ?case by (auto simp del: length_filter_le)
qed simp

text \<open>All tests passed exactly when the result is a pass.\<close>

lemma simulator_counts:
  assumes "simulator_verify elapsed c w = (Inr v, w')"
  shows "vr_tests_passed v \<le> vr_tests_total v \<and>
    (vr_passed v \<longleftrightarrow> vr_tests_passed v = vr_tests_total v)"
proof -
  have v: "vr_passed v \<longleftrightarrow>
      concat (map (test_denials (sm_current_policy w)) (bc_verification_tests c)) = []"
    "vr_tests_passed v = length (filter (\<lambda>t. test_denials (sm_current_policy w) t = [])
      (bc_verification_tests c))"
    "vr_tests_total v = length (bc_verification_tests c)"
    using assms unfolding simulator_verify_Inr by simp_all
  show ?thesis
    unfolding v length_filter_all_iff by (simp add: concat_eq_Nil_conv)
qed

lemma simulator_describe_eq [simp]:
  "simulator_describe result w = (Inr f, w') \<longleftrightarrow>
     w' = w \<and> f = (if vr_denied_events result \<noteq> [] then
       \<lparr>fd_summary = nat_str (length (vr_denied_events result)) @
          '' required API capability/capabilities denied'',
        fd_missing_events = vr_denied_events result, fd_authorization_denial = True\<rparr>
     else
       \<lparr>fd_summary = (if vr_stderr result \<noteq> '''' then vr_stderr result
                       else ''verification failed without an RBAC denial''),
        fd_missing_events = [], fd_authorization_denial = False\<rparr>)"
  by (auto simp: simulator_describe_def)

section \<open>The contracts\<close>

interpretation simulator: environment "simulator_adapter elapsed c" sm_current_policy
  sm_original_policy
  by unfold_locales
    (auto simp: keeps_def simulator_adapter_def simulator_verify_def simulator_describe_def
      simulator_apply_def simulator_restore_def Let_def split: prod.splits)

lemma simulator_missing:
  assumes "simulator_describe v w = (Inr f, w')" and "e \<in> set (fd_missing_events f)"
  shows "e \<in> set (vr_denied_events v)"
  using assms by (auto split: if_splits)

lemma simulator_graph_sel [simp]:
  "gc_env (simulator_graph elapsed c m l) = simulator_adapter elapsed c"
  "gc_max_repair_iterations (simulator_graph elapsed c m l) = m"
  "gc_limit (simulator_graph elapsed c m l) = l"
  "gc_sink (simulator_graph elapsed c m l) = (\<lambda>_. ret ())"
  "gc_summary (simulator_graph elapsed c m l) = (\<lambda>_. ret None)"
  "gc_provider (simulator_graph elapsed c m l) = None"
  by (simp_all add: simulator_graph_def)

lemma simulator_adapter_sel [simp]:
  "env_name (simulator_adapter elapsed c) = ''simulator:'' @ bc_identifier c"
  "env_get_observed_usage (simulator_adapter elapsed c) = (\<lambda>w. (Inr (bc_observed_events c), w))"
  "env_verify_workload (simulator_adapter elapsed c) = simulator_verify elapsed c"
  "env_describe_failure (simulator_adapter elapsed c) = simulator_describe"
  "env_get_current_policy (simulator_adapter elapsed c) = (\<lambda>w. (Inr (sm_current_policy w), w))"
  "env_apply_policy (simulator_adapter elapsed c) = simulator_apply"
  "env_restore_policy (simulator_adapter elapsed c) = simulator_restore"
  by (simp_all add: simulator_adapter_def)

text \<open>Any graph over the simulator whose log, summary and reasoner leave its policies alone.\<close>

lemma simulator_meets_tested_graph:
  assumes env: "gc_env cfg = simulator_adapter elapsed c"
    and sink: "\<And>ev. keeps (\<lambda>w. (sm_current_policy w, sm_original_policy w)) (gc_sink cfg ev)"
    and summary: "\<And>evs. keeps (\<lambda>w. (sm_current_policy w, sm_original_policy w)) (gc_summary cfg evs)"
    and provider:
      "provider_keeps (\<lambda>w. (sm_current_policy w, sm_original_policy w)) (gc_provider cfg)"
  shows "tested_graph cfg sm_current_policy sm_original_policy (case_event c) (tested_event c)"
proof -
  have mem: "e \<in> set (fd_missing_events f) \<longleftrightarrow>
      tested_event c e \<and> \<not> is_authorized (sm_current_policy u) e"
    if "simulator_verify elapsed c u = (Inr v, w)" "simulator_describe v w = (Inr f, w')"
    for u v w f w' e
    using simulator_denied_events(1) [OF that(1)] that(2) by auto
  have denial: "fd_authorization_denial f"
    if "simulator_verify elapsed c u = (Inr v, w)" "\<not> vr_passed v" "simulator_describe v w = (Inr f, w')"
    for u v w f w'
    using simulator_denied_events(1) [OF that(1)] simulator_passed_iff [OF that(1)] that(2,3)
    by (auto split: if_splits)
  have base: "workload_graph cfg sm_current_policy sm_original_policy (case_event c)"
  proof (rule workload_graph.intro)
    show "environment (gc_env cfg) sm_current_policy sm_original_policy"
      unfolding env by (rule simulator.environment_axioms)
    show "workload_graph_axioms cfg sm_current_policy sm_original_policy (case_event c)"
      by (rule workload_graph_axioms.intro; (rule sink summary provider)?)
        (auto simp: env case_event_def mem simp del: simulator_describe_eq)
  qed
  show ?thesis
    by (intro tested_graph.intro base tested_graph_axioms.intro; unfold env simulator_adapter_sel)
      (fact simulator_passed_iff, use denial mem in blast)
qed

interpretation simulated: tested_graph "simulator_graph elapsed c m l" sm_current_policy
  sm_original_policy "case_event c" "tested_event c"
  by (rule simulator_meets_tested_graph [where elapsed = elapsed])
    (simp_all add: provider_keeps_def)

lemma returns_read: "returns (\<lambda>w. (Inr (f w), w))"
  by (simp add: returns_def)

lemma ret_returns: "returns (ret x)"
  by (simp add: returns_def ret_def)

lemma simulator_returns_ops:
  "returns (simulator_verify elapsed c)" "returns (simulator_describe v)"
  "returns (simulator_apply P)" "returns simulator_restore"
  by (auto simp: returns_def simulator_verify_def simulator_describe_def simulator_apply_def
      simulator_restore_def Let_def split: prod.splits)

lemma simulator_meets_cooperative_graph:
  assumes "11 + 5 * m \<le> l"
  shows "cooperative_graph (simulator_graph elapsed c m l) sm_current_policy sm_original_policy
    (case_event c)"
  by (intro cooperative_graph.intro simulated.workload_graph_axioms cooperative_graph_axioms.intro;
      unfold simulator_graph_sel simulator_adapter_sel)
    (use assms in \<open>simp_all add: simulator_returns_ops returns_read ret_returns\<close>)

interpretation simulated_runs: cooperative_graph "simulator_graph elapsed c m (11 + 5 * m + k)"
  sm_current_policy sm_original_policy "case_event c"
  by (rule simulator_meets_cooperative_graph) simp

end
