(* ===== verification/Generator.thy ===== *)
theory Generator
  imports Authorization Py_Value
begin

text \<open>
  \<open>rules_engine/rbac/generator.py\<close>: the Role/RoleBinding and ClusterRole/ClusterRoleBinding
  documents of a policy, one pair per scope. \<open>yaml.safe_dump_all\<close> is the parameter \<open>dump\<close>.
\<close>

type_synonym rule_key_parts = "string \<times> string \<times> string option"

definition rule_key :: "permission \<Rightarrow> rule_key_parts" where
  "rule_key p = (pm_api_group p, pm_resource p, pm_resource_name p)"

definition rule_document :: "rule_key_parts \<times> string list \<Rightarrow> pyval" where
  "rule_document item =
     (case item of ((api_group, resource, resource_name), verbs) \<Rightarrow>
        PDict ([(''apiGroups'', PList [PStr api_group]),
                (''resources'', PList [PStr resource]),
                (''verbs'', PList (map PStr (sort (remdups verbs))))] @
               (if truthy_opt resource_name
                then [(''resourceNames'', PList [opt_str resource_name])] else [])))"

definition rule_sort_key :: "rule_key_parts \<times> string list \<Rightarrow> string list" where
  "rule_sort_key item = (case item of ((g, r, name), verbs) \<Rightarrow> [g, r, or_empty name])"

text \<open>\<open>_rules\<close>: the \<open>set\<close> of verbs of a key is the list of verbs seen, with duplicates.\<close>

definition rules_documents :: "permission list \<Rightarrow> pyval" where
  "rules_documents permissions =
     PList (map rule_document (sort_key rule_sort_key (group_by rule_key pm_verb permissions)))"

definition scoped_metadata :: "string \<Rightarrow> string option \<Rightarrow> pyval" where
  "scoped_metadata name namespace =
     PDict ([(''name'', PStr name)] @
            (if truthy_opt namespace then [(''namespace'', opt_str namespace)] else []))"

definition role_name_for :: "policy \<Rightarrow> string option \<Rightarrow> string" where
  "role_name_for P namespace =
     pl_name P @ ''-'' @ (case namespace of None \<Rightarrow> ''cluster'' | Some ns \<Rightarrow> ns)"

definition role_document :: "policy \<Rightarrow> string option \<Rightarrow> permission list \<Rightarrow> pydict" where
  "role_document P namespace permissions =
     [(''apiVersion'', PStr ''rbac.authorization.k8s.io/v1''),
      (''kind'', PStr (if namespace = None then ''ClusterRole'' else ''Role'')),
      (''metadata'', scoped_metadata (role_name_for P namespace) namespace),
      (''rules'', rules_documents permissions)]"

definition binding_document :: "policy \<Rightarrow> string option \<Rightarrow> pydict" where
  "binding_document P namespace =
     [(''apiVersion'', PStr ''rbac.authorization.k8s.io/v1''),
      (''kind'', PStr (if namespace = None then ''ClusterRoleBinding'' else ''RoleBinding'')),
      (''metadata'', scoped_metadata (role_name_for P namespace @ ''-binding'') namespace),
      (''roleRef'', PDict
         [(''apiGroup'', PStr ''rbac.authorization.k8s.io''),
          (''kind'', PStr (if namespace = None then ''ClusterRole'' else ''Role'')),
          (''name'', PStr (role_name_for P namespace))]),
      (''subjects'', PList
         [PDict [(''kind'', PStr ''ServiceAccount''),
                 (''name'', PStr (pl_service_account P)),
                 (''namespace'', PStr (pl_service_account_namespace P))]])]"

definition policy_scopes :: "policy \<Rightarrow> (string option \<times> permission list) list" where
  "policy_scopes P =
     sort_key (\<lambda>item. or_empty (fst item)) (group_by pm_namespace (\<lambda>p. p) (pl_permissions P))"

definition scope_documents :: "policy \<Rightarrow> string option \<times> permission list \<Rightarrow> pyval list" where
  "scope_documents P scope =
     [PDict (role_document P (fst scope) (snd scope)), PDict (binding_document P (fst scope))]"

definition policy_to_documents :: "policy \<Rightarrow> pyval list" where
  "policy_to_documents P = concat (map (scope_documents P) (policy_scopes P))"

definition policy_to_yaml :: "(pyval list \<Rightarrow> string) \<Rightarrow> policy \<Rightarrow> string" where
  "policy_to_yaml dump P =
     (if policy_to_documents P \<noteq> [] then dump (policy_to_documents P)
      else ''# Empty policy: no RBAC grants'' @ [char_of (10 :: nat)])"

lemma policy_scopes_mem_iff:
  "(ns, ps) \<in> set (policy_scopes P) \<longleftrightarrow>
     ns \<in> pm_namespace ` set (pl_permissions P) \<and>
     ps = filter (\<lambda>p. pm_namespace p = ns) (pl_permissions P)"
  by (simp add: policy_scopes_def dict_simps)

lemma distinct_policy_scopes: "distinct (map fst (policy_scopes P))"
  by (simp add: policy_scopes_def distinct_map_sort_key)

lemma policy_to_documents_empty_iff: "policy_to_documents P = [] \<longleftrightarrow> pl_permissions P = []"
proof
  assume "policy_to_documents P = []"
  then have "policy_scopes P = []"
    by (cases "policy_scopes P") (simp_all add: policy_to_documents_def scope_documents_def)
  then have "ns \<notin> pm_namespace ` set (pl_permissions P)" for ns
    using policy_scopes_mem_iff
      [of ns "filter (\<lambda>p. pm_namespace p = ns) (pl_permissions P)" P] by simp
  then show "pl_permissions P = []" by (cases "pl_permissions P") auto
next
  assume "pl_permissions P = []"
  then show "policy_to_documents P = []"
    by (simp add: policy_to_documents_def policy_scopes_def group_by_def)
qed

end
