(* ===== verification/Resolver.thy ===== *)
theory Resolver
  imports Authorization
begin

text \<open>
  \<open>rules_engine/rbac/resolver.py\<close>: the effective policy of one service account. The reference
  is the semantics Kubernetes gives to roles and bindings (\<open>rbac_allows\<close>: some binding names
  the account, the role with the identity it refers to has a rule for the request, and the binding's
  scope includes the request's namespace), spelled out without the resolver's own tests; resolving
  and then authorising decides exactly that when every RoleBinding has a namespace.
\<close>

definition role_matches :: "binding_object \<Rightarrow> role_object \<Rightarrow> bool" where
  "role_matches b candidate \<longleftrightarrow>
     ro_name candidate = bo_role_name b \<and>
     ((bo_role_kind b = ''ClusterRole'' \<and> ro_cluster_role candidate) \<or>
      (bo_role_kind b = ''Role'' \<and> \<not> ro_cluster_role candidate \<and>
       ro_namespace candidate = bo_namespace b))"

definition rule_permissions ::
  "policy_rule \<Rightarrow> string option \<Rightarrow> string option \<Rightarrow> permission list" where
  "rule_permissions rule namespace source =
     (let names = (if ru_resource_names rule = [] then [None] else map Some (ru_resource_names rule))
      in concat (map (\<lambda>grp.
           concat (map (\<lambda>resource.
             concat (map (\<lambda>verb.
               map (\<lambda>resource_name.
                 \<lparr>pm_api_group = grp, pm_resource = resource, pm_verb = verb,
                  pm_namespace = namespace, pm_resource_name = resource_name,
                  pm_source = source\<rparr>) names)
               (ru_verbs rule)))
             (ru_resources rule)))
           (ru_api_groups rule)))"

definition binding_source :: "binding_object \<Rightarrow> string" where
  "binding_source b =
     (if bo_cluster_binding b then ''ClusterRoleBinding'' else ''RoleBinding'') @ ''/'' @ bo_name b"

definition binding_permissions ::
  "parsed_rbac \<Rightarrow> service_account_ref \<Rightarrow> binding_object \<Rightarrow> permission list" where
  "binding_permissions parsed sa b =
     (if sa \<notin> set (bo_subjects b) then []
      else (case find (role_matches b) (pr_roles parsed) of
              None \<Rightarrow> []
            | Some role \<Rightarrow>
                (let namespace = (if bo_cluster_binding b then None else bo_namespace b)
                 in concat (map (\<lambda>rule. rule_permissions rule namespace (Some (binding_source b)))
                      (ro_rules role)))))"

definition resolve_effective_policy :: "parsed_rbac \<Rightarrow> service_account_ref \<Rightarrow> policy" where
  "resolve_effective_policy parsed sa =
     mk_policy (concat (map (binding_permissions parsed sa) (pr_bindings parsed)))
       (sr_name sa @ ''-effective'') (sr_name sa) (sr_namespace sa)"

section \<open>The reference semantics\<close>

text \<open>A rule restricted to object names covers the requests for one named object of those names.\<close>

definition rule_allows :: "policy_rule \<Rightarrow> kube_event \<Rightarrow> bool" where
  "rule_allows rule e \<longleftrightarrow>
     (''*'' \<in> set (ru_api_groups rule) \<or> ev_api_group e \<in> set (ru_api_groups rule)) \<and>
     (''*'' \<in> set (ru_resources rule) \<or> ev_resource e \<in> set (ru_resources rule)) \<and>
     (''*'' \<in> set (ru_verbs rule) \<or> ev_verb e \<in> set (ru_verbs rule)) \<and>
     (ru_resource_names rule = [] \<or>
        ev_verb e \<in> {''get'', ''update'', ''patch'', ''delete''} \<and>
        (\<exists>name \<in> set (ru_resource_names rule). ev_resource_name e = Some name))"

definition in_scope :: "binding_object \<Rightarrow> kube_event \<Rightarrow> bool" where
  "in_scope b e \<longleftrightarrow>
     bo_cluster_binding b \<or> (\<exists>ns. bo_namespace b = Some ns \<and> ev_namespace e = Some ns)"

text \<open>The identity of a role among the objects of a cluster, the identity a binding refers to, and the
  role a manifest has under an identity: its first.\<close>

type_synonym role_identity = "string \<times> string option \<times> string"

definition identity_of :: "role_object \<Rightarrow> role_identity" where
  "identity_of r =
     (if ro_cluster_role r then (''ClusterRole'', None, ro_name r) else (''Role'', ro_namespace r, ro_name r))"

definition referred_identity :: "binding_object \<Rightarrow> role_identity" where
  "referred_identity b =
     (bo_role_kind b, if bo_role_kind b = ''Role'' then bo_namespace b else None, bo_role_name b)"

definition role_table :: "role_object list \<Rightarrow> role_identity \<Rightarrow> role_object option" where
  "role_table roles = map_of (map (\<lambda>r. (identity_of r, r)) roles)"

definition rbac_allows :: "parsed_rbac \<Rightarrow> service_account_ref \<Rightarrow> kube_event \<Rightarrow> bool" where
  "rbac_allows parsed sa e \<longleftrightarrow>
     (\<exists>b \<in> set (pr_bindings parsed). sa \<in> set (bo_subjects b) \<and> in_scope b e \<and>
        (case role_table (pr_roles parsed) (referred_identity b) of
           None \<Rightarrow> False
         | Some role \<Rightarrow> \<exists>rule \<in> set (ro_rules role). rule_allows rule e))"

text \<open>The resolver's test finds the role by its identity.\<close>

lemma role_matches_identity: "role_matches b r \<longleftrightarrow> identity_of r = referred_identity b"
  by (auto simp: role_matches_def identity_of_def referred_identity_def)

lemma find_role: "find (role_matches b) roles = role_table roles (referred_identity b)"
  by (induction roles) (auto simp: role_table_def role_matches_identity)

definition scoped :: "binding_object \<Rightarrow> bool" where
  "scoped b \<longleftrightarrow> bo_cluster_binding b \<or> bo_namespace b \<noteq> None"

lemma rule_permissions_mem_iff:
  "p \<in> set (rule_permissions rule ns src) \<longleftrightarrow>
     pm_api_group p \<in> set (ru_api_groups rule) \<and> pm_resource p \<in> set (ru_resources rule) \<and>
     pm_verb p \<in> set (ru_verbs rule) \<and> pm_namespace p = ns \<and> pm_source p = src \<and>
     (if ru_resource_names rule = [] then pm_resource_name p = None
      else pm_resource_name p \<in> Some ` set (ru_resource_names rule))"
  by (cases p) (auto simp: rule_permissions_def Let_def image_image)

lemma rule_permissions_allow:
  "(\<exists>p \<in> set (rule_permissions rule ns src). matches p e) \<longleftrightarrow>
     rule_allows rule e \<and> (ns = None \<or> ns = ev_namespace e)"
  (is "?lhs \<longleftrightarrow> ?rhs")
proof
  assume ?lhs
  then obtain p where p: "p \<in> set (rule_permissions rule ns src)" "matches p e" by blast
  show ?rhs
  proof (cases "ru_resource_names rule = []")
    case True
    with p show ?thesis by (auto simp: rule_permissions_mem_iff matches_iff rule_allows_def resource_name_verbs_def)
  next
    case False
    with p show ?thesis
      by (simp add: rule_permissions_mem_iff matches_iff rule_allows_def resource_name_verbs_def)
        (elim conjE imageE, force)
  qed
next
  assume r: ?rhs
  define pick where "pick xs x = (if ''*'' \<in> set xs then ''*'' else x)" for xs and x :: string
  define p where "p = \<lparr>pm_api_group = pick (ru_api_groups rule) (ev_api_group e),
    pm_resource = pick (ru_resources rule) (ev_resource e),
    pm_verb = pick (ru_verbs rule) (ev_verb e), pm_namespace = ns,
    pm_resource_name = (if ru_resource_names rule = [] then None else ev_resource_name e),
    pm_source = src\<rparr>"
  have "p \<in> set (rule_permissions rule ns src)"
    using r by (auto simp: p_def pick_def rule_permissions_mem_iff rule_allows_def)
  moreover have "matches p e"
    using r by (auto simp: p_def pick_def matches_iff rule_allows_def resource_name_verbs_def)
  ultimately show ?lhs by blast
qed

lemma bex_set_concat_map:
  "(\<exists>y \<in> set (concat (map f xs)). P y) \<longleftrightarrow> (\<exists>x \<in> set xs. \<exists>y \<in> set (f x). P y)"
  by auto

lemma binding_permissions_allow:
  assumes "scoped b"
  shows "(\<exists>p \<in> set (binding_permissions parsed sa b). matches p e) \<longleftrightarrow>
     sa \<in> set (bo_subjects b) \<and> in_scope b e \<and>
     (case role_table (pr_roles parsed) (referred_identity b) of
        None \<Rightarrow> False
      | Some role \<Rightarrow> \<exists>rule \<in> set (ro_rules role). rule_allows rule e)"
proof (cases "role_table (pr_roles parsed) (referred_identity b)")
  case None
  then show ?thesis by (simp add: binding_permissions_def find_role)
next
  case (Some role)
  show ?thesis
  proof (cases "sa \<in> set (bo_subjects b)")
    case True
    with Some assms show ?thesis
      by (simp only: binding_permissions_def find_role Let_def if_True option.case not_True_eq_False
          simp_thms if_False bex_set_concat_map rule_permissions_allow) (auto simp: in_scope_def scoped_def)
  next
    case False
    then show ?thesis by (simp add: binding_permissions_def)
  qed
qed

lemma resolve_authorizes_iff:
  assumes "\<forall>b \<in> set (pr_bindings parsed). scoped b"
  shows "is_authorized (resolve_effective_policy parsed sa) e \<longleftrightarrow> rbac_allows parsed sa e"
  using assms by (simp add: resolve_effective_policy_def is_authorized_mk_policy rbac_allows_def
      binding_permissions_allow)

lemma resolve_unbound:
  assumes "\<forall>b \<in> set (pr_bindings parsed). sa \<notin> set (bo_subjects b)"
  shows "pl_permissions (resolve_effective_policy parsed sa) = []"
proof -
  have none: "concat (map (binding_permissions parsed sa) (pr_bindings parsed)) = []"
    using assms by (simp add: concat_eq_Nil_conv binding_permissions_def)
  show ?thesis
    unfolding resolve_effective_policy_def none by (simp add: mk_policy_def normalize_permissions_def
        dict_of_def dict_values_def)
qed

end
