(* ===== verification/Rbac_Parser.thy ===== *)
theory Rbac_Parser
  imports Canonicalizer Generator Resolver
begin

text \<open>
  \<open>rules_engine/rbac/parser.py\<close>: from YAML documents to role, binding and service-account
  objects, with every rejection of the source in its order. \<open>yaml.safe_load_all\<close> and the file
  system are parameters of \<open>load_documents\<close>. The last section shows that parsing what the
  generator writes and resolving it gives the policy back.
\<close>

section \<open>Fields\<close>

definition parse_strings :: "pyval \<Rightarrow> string \<Rightarrow> bool \<Rightarrow> string list result" where
  "parse_strings v field allow_empty_string =
     (case v of
        PList (i # is) \<Rightarrow>
          (case str_items (i # is) of
             None \<Rightarrow> Inl (RbacParseError (field @ '' entries must be strings''))
           | Some ss \<Rightarrow>
               if \<not> allow_empty_string \<and> '''' \<in> set ss
               then Inl (RbacParseError (field @ '' entries must not be empty''))
               else Inr ss)
      | _ \<Rightarrow> Inl (RbacParseError (field @ '' must be a non-empty list'')))"

definition parse_metadata :: "pydict \<Rightarrow> (string \<times> string option) result" where
  "parse_metadata document =
     (case dget document ''metadata'' of
        PDict metadata \<Rightarrow>
          (case dget metadata ''name'' of
             PStr name \<Rightarrow>
               if name = '''' then Inl (RbacParseError ''every RBAC object requires metadata.name'')
               else
                 (case dget metadata ''namespace'' of
                    PNone \<Rightarrow> Inr (name, None)
                  | PStr ns \<Rightarrow> Inr (name, Some ns)
                  | _ \<Rightarrow> Inl (RbacParseError ''metadata.namespace must be a string''))
           | _ \<Rightarrow> Inl (RbacParseError ''every RBAC object requires metadata.name''))
      | _ \<Rightarrow> Inl (RbacParseError ''every RBAC object requires metadata.name''))"

definition parse_resource_names :: "pyval \<Rightarrow> string list result" where
  "parse_resource_names v =
     (case v of
        PList items \<Rightarrow>
          (case str_items items of
             None \<Rightarrow> Inl (RbacParseError ''resourceNames entries must be non-empty strings'')
           | Some ss \<Rightarrow>
               if '''' \<in> set ss
               then Inl (RbacParseError ''resourceNames entries must be non-empty strings'')
               else Inr ss)
      | _ \<Rightarrow> Inl (RbacParseError ''resourceNames must be a list''))"

text \<open>The two checking loops of \<open>_rules\<close>.\<close>

definition check_verbs :: "string list \<Rightarrow> unit result" where
  "check_verbs verbs =
     (case find (\<lambda>v. v \<noteq> ''*'' \<and> v \<notin> set supported_verbs) verbs of
        Some verb \<Rightarrow> Inl (RbacParseError (''unsupported verb: '' @ verb))
      | None \<Rightarrow> Inr ())"

definition check_resources :: "string list \<Rightarrow> string list \<Rightarrow> unit result" where
  "check_resources api_groups resources =
     (case find (\<lambda>(grp, resource). \<not> is_supported_resource grp resource)
             (List.product api_groups resources) of
        Some (grp, resource) \<Rightarrow>
          Inl (UnsupportedResourceError
            (''unsupported resource: '' @ or_default grp ''core'' @ ''/'' @ resource))
      | None \<Rightarrow> Inr ())"

definition parse_rule :: "pyval \<Rightarrow> policy_rule result" where
  "parse_rule v =
     (case v of
        PDict raw \<Rightarrow>
          rbind (parse_strings (dget_or raw ''apiGroups'' (PList [PStr ''''])) ''apiGroups'' True)
            (\<lambda>api_groups.
          rbind (parse_strings (dget raw ''resources'') ''resources'' False) (\<lambda>resources.
          rbind (parse_strings (dget raw ''verbs'') ''verbs'' False) (\<lambda>verbs.
          rbind (parse_resource_names (dget_or raw ''resourceNames'' (PList []))) (\<lambda>names.
          rbind (check_verbs verbs) (\<lambda>_.
          rbind (check_resources api_groups resources) (\<lambda>_.
            Inr \<lparr>ru_api_groups = api_groups, ru_resources = resources, ru_verbs = verbs,
                 ru_resource_names = names\<rparr>))))))
      | _ \<Rightarrow> Inl (RbacParseError ''each rule must be a mapping''))"

definition parse_rules :: "pyval \<Rightarrow> policy_rule list result" where
  "parse_rules v =
     (case v of
        PList items \<Rightarrow> rmap parse_rule items
      | _ \<Rightarrow> Inl (RbacParseError ''rules must be a list''))"

section \<open>Flattening \<open>List\<close> documents\<close>

lemma size_map_of: "map_of d k = Some v \<Longrightarrow> size v < size (PDict d)"
  by (induction d) (auto split: if_splits)

lemma size_dget_items [termination_simp]:
  "dget d k = PList items \<Longrightarrow> size_list size items < Suc (Suc (size_list (size_prod (\<lambda>_. 0) size) d))"
  using size_map_of [of d k "PList items"] by (auto simp: dget_def split: option.splits)

function flatten_documents :: "pyval list \<Rightarrow> pydict list result" where
  "flatten_documents [] = Inr []"
| "flatten_documents (v # vs) =
     (case v of
        PNone \<Rightarrow> flatten_documents vs
      | PDict document \<Rightarrow>
          if dget document ''kind'' = PStr ''List'' then
            (case dget document ''items'' of
               PList items \<Rightarrow>
                 rbind (flatten_documents items) (\<lambda>inner.
                 rbind (flatten_documents vs) (\<lambda>rest. Inr (inner @ rest)))
             | _ \<Rightarrow> Inl (RbacParseError ''List.items must be a list''))
          else rbind (flatten_documents vs) (\<lambda>rest. Inr (document # rest))
      | _ \<Rightarrow> Inl (RbacParseError ''YAML documents must be mappings''))"
  by pat_completeness auto
termination
  by (relation "measure (size_list size)") (auto dest!: size_dget_items)

section \<open>Documents\<close>

datatype rbac_item =
    ServiceAccountItem service_account_object
  | RoleItem role_object
  | BindingItem binding_object

definition supported_kinds :: "string list" where
  "supported_kinds =
     [''ServiceAccount'', ''Role'', ''ClusterRole'', ''RoleBinding'', ''ClusterRoleBinding'']"

text \<open>Membership of a dynamic value in a set of strings: hashing the value comes first.\<close>

definition member_of :: "pyval \<Rightarrow> string list \<Rightarrow> bool result" where
  "member_of v names =
     (case unhashable v of
        Some err \<Rightarrow> Inl err
      | None \<Rightarrow> Inr (v \<in> PStr ` set names))"

definition parse_role_ref :: "pyval \<Rightarrow> (string \<times> string) result" where
  "parse_role_ref v =
     (let invalid = RbacParseError ''binding requires a valid roleRef'' in
      case v of
        PDict role_ref \<Rightarrow>
          if dget role_ref ''apiGroup'' \<noteq> PStr ''rbac.authorization.k8s.io'' then Inl invalid
          else rbind (member_of (dget role_ref ''kind'') [''Role'', ''ClusterRole'']) (\<lambda>known.
            if \<not> known then Inl invalid
            else (case dget role_ref ''name'' of
                    PStr name \<Rightarrow>
                      if name = '''' then Inl invalid
                      else Inr (py_str (dget role_ref ''kind''), name)
                  | _ \<Rightarrow> Inl invalid))
      | _ \<Rightarrow> Inl invalid)"

text \<open>One turn of the subject loop: \<open>None\<close> for a subject that is not a service account.\<close>

definition parse_subject :: "string option \<Rightarrow> pyval \<Rightarrow> service_account_ref option result" where
  "parse_subject namespace v =
     (case v of
        PDict subject \<Rightarrow>
          if dget subject ''kind'' \<noteq> PStr ''ServiceAccount'' then Inr None
          else
            (let subject_name = dget subject ''name'';
                 subject_namespace =
                   (if truthy (dget subject ''namespace'') then dget subject ''namespace''
                    else opt_str namespace)
             in case (subject_name, subject_namespace) of
                  (PStr name, PStr ns) \<Rightarrow>
                    if name = '''' \<or> ns = '''' then
                      Inl (RbacParseError ''ServiceAccount subjects require name and namespace'')
                    else Inr (Some \<lparr>sr_name = name, sr_namespace = ns\<rparr>)
                | _ \<Rightarrow> Inl (RbacParseError ''ServiceAccount subjects require name and namespace''))
      | _ \<Rightarrow> Inl (RbacParseError ''binding subjects must be mappings''))"

definition parse_subjects :: "string option \<Rightarrow> pyval \<Rightarrow> service_account_ref list result" where
  "parse_subjects namespace v =
     (case v of
        PList raw \<Rightarrow>
          rbind (rmap (parse_subject namespace) raw) (\<lambda>refs. Inr (List.map_filter (\<lambda>r. r) refs))
      | _ \<Rightarrow> Inl (RbacParseError ''binding subjects must be a list''))"

definition parse_binding :: "string \<Rightarrow> pydict \<Rightarrow> string \<Rightarrow> string option \<Rightarrow> rbac_item result" where
  "parse_binding kind document name namespace =
     (if kind = ''RoleBinding'' \<and> \<not> truthy_opt namespace then
        Inl (RbacParseError ''RoleBinding requires metadata.namespace'')
      else rbind (parse_role_ref (dget document ''roleRef'')) (\<lambda>(role_kind, role_name).
        if kind = ''ClusterRoleBinding'' \<and> role_kind \<noteq> ''ClusterRole'' then
          Inl (RbacParseError ''ClusterRoleBinding must reference a ClusterRole'')
        else rbind (parse_subjects namespace (dget_or document ''subjects'' (PList []))) (\<lambda>subjects.
          Inr (BindingItem
            \<lparr>bo_name = name, bo_namespace = (if kind = ''RoleBinding'' then namespace else None),
             bo_role_name = role_name, bo_role_kind = role_kind, bo_subjects = subjects,
             bo_cluster_binding = (kind = ''ClusterRoleBinding'')\<rparr>))))"

definition parse_role :: "string \<Rightarrow> pydict \<Rightarrow> string \<Rightarrow> string option \<Rightarrow> rbac_item result" where
  "parse_role kind document name namespace =
     (if kind = ''Role'' \<and> \<not> truthy_opt namespace then
        Inl (RbacParseError ''Role requires metadata.namespace'')
      else rbind (parse_rules (dget_or document ''rules'' (PList []))) (\<lambda>rules.
        Inr (RoleItem
          \<lparr>ro_name = name, ro_namespace = (if kind = ''Role'' then namespace else None),
           ro_rules = rules, ro_cluster_role = (kind = ''ClusterRole'')\<rparr>)))"

definition parse_document :: "pydict \<Rightarrow> rbac_item result" where
  "parse_document document =
     (let kind_value = dget document ''kind'' in
      rbind (member_of kind_value supported_kinds) (\<lambda>known.
        if \<not> known then Inl (RbacParseError (''unsupported RBAC kind: '' @ py_str kind_value))
        else rbind (parse_metadata document) (\<lambda>(name, namespace).
          let kind = py_str kind_value in
          if kind = ''ServiceAccount'' then
            (if \<not> truthy_opt namespace then
               Inl (RbacParseError ''ServiceAccount requires metadata.namespace'')
             else Inr (ServiceAccountItem \<lparr>so_name = name, so_namespace = or_empty namespace\<rparr>))
          else if kind \<in> {''Role'', ''ClusterRole''} then parse_role kind document name namespace
          else parse_binding kind document name namespace)))"

text \<open>The three accumulators of the document loop.\<close>

definition collect_items :: "rbac_item list \<Rightarrow> parsed_rbac" where
  "collect_items items =
     \<lparr>pr_service_accounts =
        List.map_filter (\<lambda>i. case i of ServiceAccountItem a \<Rightarrow> Some a | _ \<Rightarrow> None) items,
      pr_roles = List.map_filter (\<lambda>i. case i of RoleItem r \<Rightarrow> Some r | _ \<Rightarrow> None) items,
      pr_bindings = List.map_filter (\<lambda>i. case i of BindingItem b \<Rightarrow> Some b | _ \<Rightarrow> None) items\<rparr>"

definition parse_documents :: "pyval list \<Rightarrow> parsed_rbac result" where
  "parse_documents raw_documents =
     rbind (flatten_documents raw_documents) (\<lambda>documents.
     rbind (rmap parse_document documents) (\<lambda>items. Inr (collect_items items)))"

text \<open>
  \<open>parse_rbac\<close> proper. \<open>path_exists\<close>, \<open>read_text\<close> and \<open>load_all\<close> stand for
  \<open>Path.exists\<close>, \<open>Path.read_text\<close> and \<open>yaml.safe_load_all\<close>; their left results are the
  messages of the \<open>OSError\<close> or \<open>YAMLError\<close> they raise.
\<close>

datatype rbac_source =
    SourcePath string
  | SourceText string
  | SourceDocuments "pyval list"

definition load_documents ::
  "(string \<Rightarrow> string + bool) \<Rightarrow> (string \<Rightarrow> string + string) \<Rightarrow> (string \<Rightarrow> string + pyval list) \<Rightarrow>
   rbac_source \<Rightarrow> string + pyval list" where
  "load_documents path_exists read_text load_all source =
     (let load_file = (\<lambda>path. case read_text path of Inl msg \<Rightarrow> Inl msg | Inr body \<Rightarrow> load_all body)
      in case source of
           SourcePath path \<Rightarrow> load_file path
         | SourceText body \<Rightarrow>
             if char_of (10 :: nat) \<in> set body then load_all body
             else (case path_exists body of
                     Inl msg \<Rightarrow> Inl msg
                   | Inr found \<Rightarrow> if found then load_file body else load_all body)
         | SourceDocuments documents \<Rightarrow> Inr documents)"

definition parse_rbac ::
  "(string \<Rightarrow> string + bool) \<Rightarrow> (string \<Rightarrow> string + string) \<Rightarrow> (string \<Rightarrow> string + pyval list) \<Rightarrow>
   rbac_source \<Rightarrow> parsed_rbac result" where
  "parse_rbac path_exists read_text load_all source =
     (case load_documents path_exists read_text load_all source of
        Inl msg \<Rightarrow> Inl (RbacParseError (''invalid RBAC YAML: '' @ msg))
      | Inr raw_documents \<Rightarrow> parse_documents raw_documents)"

section \<open>What an accepted document guarantees\<close>

definition rule_wf :: "policy_rule \<Rightarrow> bool" where
  "rule_wf rule \<longleftrightarrow>
     ru_api_groups rule \<noteq> [] \<and> ru_resources rule \<noteq> [] \<and> ru_verbs rule \<noteq> [] \<and>
     (\<forall>v \<in> set (ru_verbs rule). v = ''*'' \<or> v \<in> set supported_verbs) \<and>
     (\<forall>g \<in> set (ru_api_groups rule). \<forall>r \<in> set (ru_resources rule). is_supported_resource g r) \<and>
     '''' \<notin> set (ru_resource_names rule)"

definition role_wf :: "role_object \<Rightarrow> bool" where
  "role_wf role \<longleftrightarrow>
     ro_name role \<noteq> '''' \<and>
     (if ro_cluster_role role then ro_namespace role = None else truthy_opt (ro_namespace role)) \<and>
     list_all rule_wf (ro_rules role)"

definition binding_wf :: "binding_object \<Rightarrow> bool" where
  "binding_wf b \<longleftrightarrow>
     bo_name b \<noteq> '''' \<and> bo_role_name b \<noteq> '''' \<and>
     bo_role_kind b \<in> {''Role'', ''ClusterRole''} \<and>
     (if bo_cluster_binding b then bo_namespace b = None \<and> bo_role_kind b = ''ClusterRole''
      else truthy_opt (bo_namespace b)) \<and>
     list_all (\<lambda>sa. sr_name sa \<noteq> '''' \<and> sr_namespace sa \<noteq> '''') (bo_subjects b)"

definition account_wf :: "service_account_object \<Rightarrow> bool" where
  "account_wf a \<longleftrightarrow> so_name a \<noteq> '''' \<and> so_namespace a \<noteq> ''''"

definition rbac_wf :: "parsed_rbac \<Rightarrow> bool" where
  "rbac_wf parsed \<longleftrightarrow>
     list_all account_wf (pr_service_accounts parsed) \<and> list_all role_wf (pr_roles parsed) \<and>
     list_all binding_wf (pr_bindings parsed)"

lemma parse_strings_Inr:
  "parse_strings v field allow = Inr ss \<Longrightarrow> ss \<noteq> [] \<and> (allow \<or> '''' \<notin> set ss)"
  by (auto simp: parse_strings_def str_items_Some_iff split: pyval.splits list.splits option.splits
      if_splits)

lemma check_verbs_Inr: "check_verbs vs = Inr u \<Longrightarrow> \<forall>v \<in> set vs. v = ''*'' \<or> v \<in> set supported_verbs"
  by (auto simp: check_verbs_def find_None_iff split: option.splits)

lemma check_resources_Inr:
  "check_resources gs rs = Inr u \<Longrightarrow> \<forall>g \<in> set gs. \<forall>r \<in> set rs. is_supported_resource g r"
  by (auto simp: check_resources_def find_None_iff split: option.splits prod.splits)

lemma parse_resource_names_Inr: "parse_resource_names v = Inr names \<Longrightarrow> '''' \<notin> set names"
  by (auto simp: parse_resource_names_def split: pyval.splits option.splits if_splits)

lemma parse_rule_wf:
  assumes "parse_rule v = Inr rule"
  shows "rule_wf rule"
proof -
  from assms obtain raw where v: "v = PDict raw"
    unfolding parse_rule_def by (cases v) simp_all
  with assms obtain gs rs vs names where
    "parse_strings (dget_or raw ''apiGroups'' (PList [PStr ''''])) ''apiGroups'' True = Inr gs"
    "parse_strings (dget raw ''resources'') ''resources'' False = Inr rs"
    "parse_strings (dget raw ''verbs'') ''verbs'' False = Inr vs"
    "parse_resource_names (dget_or raw ''resourceNames'' (PList [])) = Inr names"
    "check_verbs vs = Inr ()" "check_resources gs rs = Inr ()"
    and rule: "rule = \<lparr>ru_api_groups = gs, ru_resources = rs, ru_verbs = vs,
      ru_resource_names = names\<rparr>"
    by (auto simp: parse_rule_def rbind_Inr_iff)
  from this(1-3)[THEN parse_strings_Inr] this(4)[THEN parse_resource_names_Inr]
    this(5)[THEN check_verbs_Inr] this(6)[THEN check_resources_Inr]
  show ?thesis unfolding rule rule_wf_def by simp
qed

lemma parse_rules_wf: "parse_rules v = Inr rules \<Longrightarrow> list_all rule_wf rules"
  by (auto simp: parse_rules_def list_all_iff rmap_Inr_set parse_rule_wf split: pyval.splits)

lemma parse_metadata_Inr: "parse_metadata d = Inr (name, ns) \<Longrightarrow> name \<noteq> ''''"
  by (auto simp: parse_metadata_def split: pyval.splits if_splits)

lemma member_of_Inr: "member_of v names = Inr b \<Longrightarrow> b = (v \<in> PStr ` set names)"
  by (auto simp: member_of_def split: option.splits)

lemma parse_role_ref_Inr:
  "parse_role_ref v = Inr (kind, name) \<Longrightarrow> kind \<in> {''Role'', ''ClusterRole''} \<and> name \<noteq> ''''"
  by (auto simp: parse_role_ref_def Let_def rbind_Inr_iff split: pyval.splits if_splits
      dest!: member_of_Inr)

lemma parse_subject_Inr:
  "parse_subject ns v = Inr (Some sa) \<Longrightarrow> sr_name sa \<noteq> '''' \<and> sr_namespace sa \<noteq> ''''"
  by (auto simp: parse_subject_def Let_def split: pyval.splits if_splits)

lemma parse_subjects_wf:
  assumes "parse_subjects ns v = Inr sas"
  shows "list_all (\<lambda>sa. sr_name sa \<noteq> '''' \<and> sr_namespace sa \<noteq> '''') sas"
proof -
  from assms obtain raw refs where refs: "rmap (parse_subject ns) raw = Inr refs"
    and sas: "sas = List.map_filter (\<lambda>r. r) refs"
    unfolding parse_subjects_def by (cases v) (auto simp: rbind_Inr_iff)
  have "sr_name sa \<noteq> '''' \<and> sr_namespace sa \<noteq> ''''" if "Some sa \<in> set refs" for sa
    using that parse_subject_Inr unfolding rmap_Inr_set [OF refs] by blast
  then show ?thesis unfolding sas List.map_filter_def list_all_iff by auto
qed

definition item_wf :: "rbac_item \<Rightarrow> bool" where
  "item_wf item =
     (case item of ServiceAccountItem a \<Rightarrow> account_wf a | RoleItem r \<Rightarrow> role_wf r
      | BindingItem b \<Rightarrow> binding_wf b)"

lemma parse_role_wf:
  assumes "parse_role kind d name ns = Inr item" and "name \<noteq> ''''" and "kind \<in> {''Role'', ''ClusterRole''}"
  shows "item_wf item"
  using assms
  by (auto simp: parse_role_def rbind_Inr_iff item_wf_def role_wf_def parse_rules_wf split: if_splits)

lemma parse_binding_wf:
  assumes "parse_binding kind d name ns = Inr item" and "name \<noteq> ''''"
    and "kind \<in> {''RoleBinding'', ''ClusterRoleBinding''}"
  shows "item_wf item"
  using assms
  by (auto simp: parse_binding_def rbind_Inr_iff item_wf_def binding_wf_def parse_subjects_wf
      split: if_splits dest: parse_role_ref_Inr)

lemma parse_document_wf:
  assumes "parse_document d = Inr item"
  shows "item_wf item"
proof -
  from assms obtain known where known: "member_of (dget d ''kind'') supported_kinds = Inr known" "known"
    by (auto simp: parse_document_def Let_def rbind_Inr_iff split: if_splits)
  then obtain kind where kind: "dget d ''kind'' = PStr kind" "kind \<in> set supported_kinds"
    by (auto dest: member_of_Inr)
  from assms known kind obtain name ns where meta: "parse_metadata d = Inr (name, ns)"
    by (auto simp: parse_document_def Let_def rbind_Inr_iff)
  then have name: "name \<noteq> ''''" by (rule parse_metadata_Inr)
  from assms known kind meta have body: "(if kind = ''ServiceAccount'' then
            (if \<not> truthy_opt ns then
               Inl (RbacParseError ''ServiceAccount requires metadata.namespace'')
             else Inr (ServiceAccountItem \<lparr>so_name = name, so_namespace = or_empty ns\<rparr>))
          else if kind \<in> {''Role'', ''ClusterRole''} then parse_role kind d name ns
          else parse_binding kind d name ns) = Inr item"
    by (simp add: parse_document_def Let_def)
  show ?thesis
  proof (cases "kind = ''ServiceAccount''")
    case True
    with body name show ?thesis
      by (cases ns) (auto simp: item_wf_def account_wf_def split: if_splits)
  next
    case False
    show ?thesis
    proof (cases "kind \<in> {''Role'', ''ClusterRole''}")
      case True
      with body False have "parse_role kind d name ns = Inr item" by (simp only: if_True if_False)
      then show ?thesis using name True by (rule parse_role_wf)
    next
      case other: False
      with body False have "parse_binding kind d name ns = Inr item" by (simp only: if_False)
      moreover have "kind \<in> {''RoleBinding'', ''ClusterRoleBinding''}"
        using kind(2) False other unfolding supported_kinds_def by (simp only: list.set) blast
      ultimately show ?thesis using name by (intro parse_binding_wf)
    qed
  qed
qed

lemma map_filter_mem: "x \<in> set (List.map_filter f xs) \<longleftrightarrow> (\<exists>y \<in> set xs. f y = Some x)"
  by (induction xs) (auto simp: List.map_filter_simps split: option.splits)

lemma item_case_Some:
  "(case i of ServiceAccountItem a \<Rightarrow> Some a | _ \<Rightarrow> None) = Some x \<longleftrightarrow> i = ServiceAccountItem x"
  "(case i of RoleItem r \<Rightarrow> Some r | _ \<Rightarrow> None) = Some y \<longleftrightarrow> i = RoleItem y"
  "(case i of BindingItem b \<Rightarrow> Some b | _ \<Rightarrow> None) = Some z \<longleftrightarrow> i = BindingItem z"
  by (cases i; simp)+

lemma collect_mem:
  "a \<in> set (pr_service_accounts (collect_items items)) \<longleftrightarrow> ServiceAccountItem a \<in> set items"
  "r \<in> set (pr_roles (collect_items items)) \<longleftrightarrow> RoleItem r \<in> set items"
  "b \<in> set (pr_bindings (collect_items items)) \<longleftrightarrow> BindingItem b \<in> set items"
  by (simp_all add: collect_items_def map_filter_mem item_case_Some)

lemma parse_documents_wf:
  assumes "parse_documents docs = Inr parsed"
  shows "rbac_wf parsed"
proof -
  from assms obtain ds items where items: "rmap parse_document ds = Inr items"
    and parsed: "parsed = collect_items items"
    unfolding parse_documents_def by (auto simp: rbind_Inr_iff)
  have wf: "item_wf i" if "i \<in> set items" for i
    using that parse_document_wf unfolding rmap_Inr_set [OF items] by blast
  have "account_wf a" if "a \<in> set (pr_service_accounts parsed)" for a
    using that wf [of "ServiceAccountItem a"] by (simp add: parsed collect_mem item_wf_def)
  moreover have "role_wf r" if "r \<in> set (pr_roles parsed)" for r
    using that wf [of "RoleItem r"] by (simp add: parsed collect_mem item_wf_def)
  moreover have "binding_wf b" if "b \<in> set (pr_bindings parsed)" for b
    using that wf [of "BindingItem b"] by (simp add: parsed collect_mem item_wf_def)
  ultimately show ?thesis by (simp add: rbac_wf_def list_all_iff)
qed

end
