(* ===== verification/Rbac_Roundtrip.thy ===== *)
theory Rbac_Roundtrip
  imports Rbac_Parser
begin

text \<open>
  The generator and the parser against each other: for a policy of expressible permissions,
  parsing the generated documents and resolving the policy's service account gives back the
  permission keys of the policy, and the documents grant nothing to any other account.
\<close>

definition expressible :: "permission \<Rightarrow> bool" where
  "expressible p \<longleftrightarrow>
     is_supported_resource (pm_api_group p) (pm_resource p) \<and>
     (pm_verb p = ''*'' \<or> pm_verb p \<in> set supported_verbs) \<and> unambiguous_key p"

definition expressible_policy :: "policy \<Rightarrow> bool" where
  "expressible_policy P \<longleftrightarrow>
     pl_service_account P \<noteq> '''' \<and> pl_service_account_namespace P \<noteq> '''' \<and>
     list_all expressible (pl_permissions P)"

definition account_of :: "policy \<Rightarrow> service_account_ref" where
  "account_of P =
     \<lparr>sr_name = pl_service_account P, sr_namespace = pl_service_account_namespace P\<rparr>"

section \<open>What the parser makes of the generated documents\<close>

definition generated_rule :: "rule_key_parts \<times> string list \<Rightarrow> policy_rule" where
  "generated_rule item =
     (case item of ((g, r, name), verbs) \<Rightarrow>
        \<lparr>ru_api_groups = [g], ru_resources = [r], ru_verbs = sort (remdups verbs),
         ru_resource_names = (case name of None \<Rightarrow> [] | Some n \<Rightarrow> [n])\<rparr>)"

definition generated_role :: "policy \<Rightarrow> string option \<Rightarrow> permission list \<Rightarrow> role_object" where
  "generated_role P ns ps =
     \<lparr>ro_name = role_name_for P ns, ro_namespace = ns,
      ro_rules = map generated_rule (sort_key rule_sort_key (group_by rule_key pm_verb ps)),
      ro_cluster_role = (ns = None)\<rparr>"

definition generated_binding :: "policy \<Rightarrow> string option \<Rightarrow> binding_object" where
  "generated_binding P ns =
     \<lparr>bo_name = role_name_for P ns @ ''-binding'', bo_namespace = ns,
      bo_role_name = role_name_for P ns,
      bo_role_kind = (if ns = None then ''ClusterRole'' else ''Role''),
      bo_subjects = [account_of P], bo_cluster_binding = (ns = None)\<rparr>"

lemma supported_resource_nonempty: "is_supported_resource g r \<Longrightarrow> r \<noteq> ''''"
  by (auto simp: is_supported_resource_def supported_resources_def split: if_splits)

lemma parse_strings_map [simp]:
  "parse_strings (PList (map PStr ss)) field allow =
     (if ss = [] then Inl (RbacParseError (field @ '' must be a non-empty list''))
      else if \<not> allow \<and> '''' \<in> set ss
      then Inl (RbacParseError (field @ '' entries must not be empty'')) else Inr ss)"
  by (cases ss) (simp_all add: parse_strings_def)

lemma parse_strings_single [simp]:
  "parse_strings (PList [PStr s]) field allow =
     (if \<not> allow \<and> s = '''' then Inl (RbacParseError (field @ '' entries must not be empty''))
      else Inr [s])"
  by (auto simp: parse_strings_def)

lemma check_verbs_ok: "\<forall>v \<in> set vs. v = ''*'' \<or> v \<in> set supported_verbs \<Longrightarrow> check_verbs vs = Inr ()"
  by (auto simp: check_verbs_def find_None_iff split: option.splits dest!: iffD1 [OF find_Some_iff])

lemma supported_verbs_nonempty: "v \<in> set supported_verbs \<Longrightarrow> v \<noteq> ''''"
  by (auto simp: supported_verbs_def)

lemma parse_rule_document:
  assumes "is_supported_resource g r" and "vs \<noteq> []" and "name \<noteq> Some ''''"
    and verbs: "\<forall>v \<in> set vs. v = ''*'' \<or> v \<in> set supported_verbs"
  shows "parse_rule (rule_document ((g, r, name), vs)) = Inr (generated_rule ((g, r, name), vs))"
proof -
  have "'''' \<notin> set vs" using verbs supported_verbs_nonempty by fastforce
  moreover have "r \<noteq> ''''" using assms(1) by (rule supported_resource_nonempty)
  moreover have "sort (remdups vs) \<noteq> []" using assms(2) by (metis remdups_eq_nil_iff set_empty set_sort)
  ultimately show ?thesis
    using assms check_verbs_ok [of "sort (remdups vs)"]
    by (cases name)
      (simp_all add: parse_rule_def rule_document_def generated_rule_def check_resources_def
        parse_resource_names_def)
qed

lemma rmap_map_Inr: "\<forall>x \<in> set xs. f (g x) = Inr (h x) \<Longrightarrow> rmap f (map g xs) = Inr (map h xs)"
  by (induction xs) auto

lemma parse_rules_documents:
  assumes "\<forall>p \<in> set ps. expressible p"
  shows "parse_rules (rules_documents ps) =
    Inr (map generated_rule (sort_key rule_sort_key (group_by rule_key pm_verb ps)))"
proof -
  have "parse_rule (rule_document item) = Inr (generated_rule item)"
    if "item \<in> set (group_by rule_key pm_verb ps)" for item
  proof -
    obtain g r name vs where item: "item = ((g, r, name), vs)" by (metis prod_cases4 surj_pair)
    with that obtain p where "p \<in> set ps" "rule_key p = (g, r, name)"
      and vs: "vs = map pm_verb (filter (\<lambda>p. rule_key p = (g, r, name)) ps)"
      by (auto simp: dict_simps)
    with assms have "is_supported_resource g r" "name \<noteq> Some ''''" "vs \<noteq> []"
      by (auto simp: expressible_def unambiguous_key_def rule_key_def filter_empty_conv)
    moreover have "\<forall>v \<in> set vs. v = ''*'' \<or> v \<in> set supported_verbs"
      using assms vs by (auto simp: expressible_def)
    ultimately show ?thesis unfolding item by (intro parse_rule_document)
  qed
  then show ?thesis
    by (simp add: parse_rules_def rules_documents_def rmap_map_Inr)
qed

lemma parse_role_document:
  assumes "\<forall>p \<in> set ps. expressible p" and "ns \<noteq> Some ''''"
  shows "parse_document (role_document P ns ps) = Inr (RoleItem (generated_role P ns ps))"
  using assms
  by (cases ns)
    (simp_all add: parse_document_def role_document_def member_of_def unhashable_def
      supported_kinds_def parse_metadata_def scoped_metadata_def role_name_for_def parse_role_def
      parse_rules_documents generated_role_def)

lemma parse_binding_document:
  assumes "ns \<noteq> Some ''''" "pl_service_account P \<noteq> ''''" "pl_service_account_namespace P \<noteq> ''''"
  shows "parse_document (binding_document P ns) = Inr (BindingItem (generated_binding P ns))"
  using assms
  by (cases ns)
    (simp_all add: parse_document_def binding_document_def member_of_def unhashable_def
      supported_kinds_def parse_metadata_def scoped_metadata_def role_name_for_def
      parse_binding_def parse_role_ref_def parse_subjects_def parse_subject_def List.map_filter_def
      generated_binding_def account_of_def)

lemma flatten_mappings:
  "\<forall>d \<in> set ds. dget d ''kind'' \<noteq> PStr ''List'' \<Longrightarrow> flatten_documents (map PDict ds) = Inr ds"
  by (induction ds) auto

lemma rmap_parse_scope:
  assumes "\<forall>(ns, ps) \<in> set scopes. ns \<noteq> Some '''' \<and> (\<forall>p \<in> set ps. expressible p)"
    and "pl_service_account P \<noteq> ''''" "pl_service_account_namespace P \<noteq> ''''"
  shows "rmap parse_document
      (concat (map (\<lambda>(ns, ps). [role_document P ns ps, binding_document P ns]) scopes)) =
    Inr (concat (map (\<lambda>(ns, ps).
      [RoleItem (generated_role P ns ps), BindingItem (generated_binding P ns)]) scopes))"
  using assms
  by (induction scopes) (auto simp: parse_role_document parse_binding_document)

lemma collect_scope_items:
  "collect_items (concat (map (\<lambda>(ns, ps).
      [RoleItem (generated_role P ns ps), BindingItem (generated_binding P ns)]) scopes)) =
   \<lparr>pr_service_accounts = [], pr_roles = map (\<lambda>(ns, ps). generated_role P ns ps) scopes,
    pr_bindings = map (\<lambda>(ns, ps). generated_binding P ns) scopes\<rparr>"
  by (induction scopes) (auto simp: collect_items_def List.map_filter_def)

definition generated_rbac :: "policy \<Rightarrow> parsed_rbac" where
  "generated_rbac P =
     \<lparr>pr_service_accounts = [],
      pr_roles = map (\<lambda>(ns, ps). generated_role P ns ps) (policy_scopes P),
      pr_bindings = map (\<lambda>(ns, ps). generated_binding P ns) (policy_scopes P)\<rparr>"

lemma parse_generated:
  assumes "expressible_policy P"
  shows "parse_documents (policy_to_documents P) = Inr (generated_rbac P)"
proof -
  let ?docs = "concat (map (\<lambda>(ns, ps). [role_document P ns ps, binding_document P ns]) (policy_scopes P))"
  have docs: "policy_to_documents P = map PDict ?docs"
    by (simp add: policy_to_documents_def map_concat o_def scope_documents_def [abs_def]
        case_prod_beta)
  have "\<forall>d \<in> set ?docs. dget d ''kind'' \<noteq> PStr ''List''"
    by (auto simp: role_document_def binding_document_def)
  then have flat: "flatten_documents (policy_to_documents P) = Inr ?docs"
    unfolding docs by (rule flatten_mappings)
  have exp: "\<forall>p \<in> set (pl_permissions P). expressible p"
    using assms by (simp add: expressible_policy_def list_all_iff)
  then have "Some '''' \<notin> pm_namespace ` set (pl_permissions P)"
    by (force simp: expressible_def unambiguous_key_def)
  with exp have "\<forall>(ns, ps) \<in> set (policy_scopes P). ns \<noteq> Some '''' \<and> (\<forall>p \<in> set ps. expressible p)"
    by (auto simp: policy_scopes_mem_iff)
  then have "rmap parse_document ?docs = Inr (concat (map (\<lambda>(ns, ps).
      [RoleItem (generated_role P ns ps), BindingItem (generated_binding P ns)]) (policy_scopes P)))"
    using assms by (intro rmap_parse_scope) (auto simp: expressible_policy_def)
  then show ?thesis
    by (simp add: parse_documents_def flat collect_scope_items generated_rbac_def)
qed

section \<open>What resolving the parsed objects grants\<close>

lemma role_matches_generated:
  "role_matches (generated_binding P ns) (generated_role P ns' ps) \<longleftrightarrow> ns' = ns"
  by (auto simp: role_matches_def generated_binding_def generated_role_def split: if_splits)

lemma find_generated_role:
  assumes "distinct (map fst scopes)" and "(ns, ps) \<in> set scopes"
  shows "find (role_matches (generated_binding P ns)) (map (\<lambda>(ns, ps). generated_role P ns ps) scopes)
    = Some (generated_role P ns ps)"
  using assms
proof (induction scopes)
  case (Cons s scopes)
  then show ?case by (cases s) (auto simp: role_matches_generated rev_image_eqI)
qed simp

lemma rule_permissions_generated:
  "perm_key ` set (rule_permissions (generated_rule ((g, r, name), vs)) ns src) =
     (\<lambda>v. (g, r, v, ns, name)) ` set vs"
  by (cases name) (auto simp: rule_permissions_def generated_rule_def perm_key_def image_iff)

lemma group_rule_keys:
  "(\<Union>item \<in> set (group_by rule_key pm_verb ps).
      (case item of ((g, r, name), vs) \<Rightarrow> (\<lambda>v. (g, r, v, ns, name)) ` set vs)) =
   (\<lambda>p. (pm_api_group p, pm_resource p, pm_verb p, ns, pm_resource_name p)) ` set ps"
  (is "?lhs = ?f ` set ps")
proof (intro equalityI subsetI)
  fix k assume "k \<in> ?lhs"
  then obtain g r name vs v where "((g, r, name), vs) \<in> set (group_by rule_key pm_verb ps)"
    "v \<in> set vs" "k = (g, r, v, ns, name)"
    by auto
  then obtain p where p: "p \<in> set ps" "rule_key p = (g, r, name)" "pm_verb p = v"
    by (auto simp: dict_simps)
  then have "k = ?f p" using \<open>k = (g, r, v, ns, name)\<close> by (simp add: rule_key_def)
  with p(1) show "k \<in> ?f ` set ps" by blast
next
  fix k assume "k \<in> ?f ` set ps"
  then obtain p where p: "p \<in> set ps" "k = ?f p" by blast
  let ?vs = "map pm_verb (filter (\<lambda>q. rule_key q = rule_key p) ps)"
  have "(rule_key p, ?vs) \<in> set (group_by rule_key pm_verb ps)"
    using p by (simp add: dict_simps)
  moreover have "k \<in> (case (rule_key p, ?vs) of
      ((g, r, name), vs) \<Rightarrow> (\<lambda>v. (g, r, v, ns, name)) ` set vs)"
    using p by (auto simp: rule_key_def)
  ultimately show "k \<in> ?lhs" by (rule UN_I)
qed

lemma generated_binding_keys:
  assumes "(ns, ps) \<in> set (policy_scopes P)"
  shows "perm_key ` set (binding_permissions (generated_rbac P) (account_of P) (generated_binding P ns))
    = perm_key ` set ps"
proof -
  have find: "find (role_matches (generated_binding P ns)) (pr_roles (generated_rbac P))
      = Some (generated_role P ns ps)"
    using find_generated_role [OF distinct_policy_scopes assms] by (simp add: generated_rbac_def)
  let ?src = "Some (binding_source (generated_binding P ns))"
  have "perm_key ` set (binding_permissions (generated_rbac P) (account_of P) (generated_binding P ns))
      = (\<Union>item \<in> set (group_by rule_key pm_verb ps).
          perm_key ` set (rule_permissions (generated_rule item) ns ?src))"
    by (simp add: binding_permissions_def find generated_role_def image_UN)
      (simp add: generated_binding_def)
  also have "\<dots> = (\<lambda>p. (pm_api_group p, pm_resource p, pm_verb p, ns, pm_resource_name p)) ` set ps"
    unfolding group_rule_keys [symmetric]
    by (intro SUP_cong refl) (simp only: rule_permissions_generated split_paired_all case_prod_conv)
  also have "\<dots> = perm_key ` set ps"
    using assms by (intro image_cong) (auto simp: policy_scopes_mem_iff perm_key_def)
  finally show ?thesis .
qed

lemma generated_keys:
  "perm_key ` set (concat (map (binding_permissions (generated_rbac P) (account_of P))
      (pr_bindings (generated_rbac P)))) = perm_key ` set (pl_permissions P)"
proof -
  have "perm_key ` set (concat (map (binding_permissions (generated_rbac P) (account_of P))
      (pr_bindings (generated_rbac P)))) =
    (\<Union>scope \<in> set (policy_scopes P). perm_key ` set
      (binding_permissions (generated_rbac P) (account_of P) (generated_binding P (fst scope))))"
    by (simp add: image_UN) (simp add: generated_rbac_def case_prod_beta)
  also have "\<dots> = (\<Union>scope \<in> set (policy_scopes P). perm_key ` set (snd scope))"
    by (intro SUP_cong refl generated_binding_keys) simp
  also have "\<dots> = perm_key ` set (pl_permissions P)"
  proof (intro equalityI subsetI)
    fix k assume "k \<in> perm_key ` set (pl_permissions P)"
    then obtain p where p: "p \<in> set (pl_permissions P)" "k = perm_key p" by blast
    then have "(pm_namespace p, filter (\<lambda>q. pm_namespace q = pm_namespace p) (pl_permissions P))
        \<in> set (policy_scopes P)"
      by (simp add: policy_scopes_mem_iff)
    then show "k \<in> (\<Union>scope \<in> set (policy_scopes P). perm_key ` set (snd scope))"
      by (rule UN_I) (use p in auto)
  qed (auto simp: policy_scopes_mem_iff)
  finally show ?thesis .
qed

lemma expressible_keys_unambiguous:
  assumes "perm_key p = perm_key q" and "expressible q"
  shows "unambiguous_key p"
  using assms by (auto simp: perm_key_def expressible_def unambiguous_key_def)

lemma resolve_generated_keys:
  assumes "expressible_policy P" and "canonical_policy P"
  shows "map perm_key (pl_permissions (resolve_effective_policy (generated_rbac P) (account_of P))) =
    map perm_key (pl_permissions P)"
proof -
  let ?ps = "concat (map (binding_permissions (generated_rbac P) (account_of P))
      (pr_bindings (generated_rbac P)))"
  have exp: "\<forall>p \<in> set (pl_permissions P). expressible p"
    using assms(1) by (simp add: expressible_policy_def list_all_iff)
  have unamb: "unambiguous_key p" if "p \<in> set ?ps \<union> set (pl_permissions P)" for p
  proof -
    have "perm_key p \<in> perm_key ` set (pl_permissions P)"
      using that generated_keys [of P] by (metis UnE imageI)
    with exp show ?thesis using expressible_keys_unambiguous by (metis imageE)
  qed
  have "map perm_key (normalize_permissions ?ps) = map perm_key (normalize_permissions (pl_permissions P))"
    using unamb by (intro normalize_keys_unique generated_keys) blast
  also have "normalize_permissions (pl_permissions P) = pl_permissions P"
    using assms(2) by (simp add: canonical_policy_def normalize_canonical)
  finally show ?thesis
    by (simp add: resolve_effective_policy_def)
qed

lemma generated_grants_exactly:
  assumes "expressible_policy P"
  shows "rbac_allows (generated_rbac P) sa e \<longleftrightarrow> sa = account_of P \<and> is_authorized P e"
proof (cases "sa = account_of P")
  case True
  let ?ps = "concat (map (binding_permissions (generated_rbac P) sa) (pr_bindings (generated_rbac P)))"
  have "\<forall>b \<in> set (pr_bindings (generated_rbac P)). scoped b"
    by (auto simp: generated_rbac_def generated_binding_def scoped_def)
  then have "rbac_allows (generated_rbac P) sa e \<longleftrightarrow> (\<exists>p \<in> set ?ps. matches p e)"
    by (simp only: resolve_authorizes_iff [symmetric] resolve_effective_policy_def is_authorized_mk_policy)
  also have "\<dots> \<longleftrightarrow> (\<exists>p \<in> set (pl_permissions P). matches p e)"
    by (rule iffI; erule matches_keys_cong [rotated]) (simp_all only: True generated_keys)
  finally show ?thesis using True by (simp add: is_authorized_iff [of P])
next
  case False
  then show ?thesis
    by (auto simp: rbac_allows_def generated_rbac_def generated_binding_def)
qed

end
