(* ===== verification/Samples.thy ===== *)
theory Samples
  imports Simulator Rbac_Roundtrip
begin

text \<open>
  Concrete policies, events and benchmark cases on which the properties are instantiated.
\<close>

definition sample_permission :: "string \<Rightarrow> string \<Rightarrow> string \<Rightarrow> string option \<Rightarrow> permission" where
  "sample_permission g r v ns =
     \<lparr>pm_api_group = g, pm_resource = r, pm_verb = v, pm_namespace = ns,
      pm_resource_name = None, pm_source = None\<rparr>"

definition sample_call :: "string \<Rightarrow> string \<Rightarrow> string \<Rightarrow> kube_event" where
  "sample_call g r v =
     \<lparr>ev_api_group = g, ev_resource = r, ev_verb = v, ev_namespace = Some ''prod'',
      ev_resource_name = None, ev_workload_id = None\<rparr>"

text \<open>A broad policy: every core resource with every verb, and deployments in one namespace.\<close>

definition sample_policy :: policy where
  "sample_policy =
     mk_policy [sample_permission '''' ''*'' ''*'' None,
                sample_permission ''apps'' ''deployments'' ''get'' (Some ''prod'')]
       ''api-effective'' ''api'' ''prod''"

definition list_pods :: kube_event where
  "list_pods = sample_call '''' ''pods'' ''list''"

definition get_configmaps :: kube_event where
  "get_configmaps = sample_call '''' ''configmaps'' ''get''"

definition get_secrets :: kube_event where
  "get_secrets = sample_call '''' ''secrets'' ''get''"

definition narrow_policy :: policy where
  "narrow_policy =
     mk_policy [sample_permission '''' ''pods'' ''list'' (Some ''prod'')] ''api-kuber'' ''api'' ''prod''"

text \<open>The workload lists pods when it is observed and reads config maps when it is tested.\<close>

definition sample_case :: benchmark_case where
  "sample_case =
     \<lparr>bc_identifier = ''demo'', bc_name = ''demo'', bc_description = '''',
      bc_initial_policy = sample_policy, bc_observed_events = [list_pods],
      bc_verification_tests =
        [\<lparr>vt_name = ''smoke'', vt_events = [list_pods, get_configmaps]\<rparr>],
      bc_expected_policy = None\<rparr>"

definition sample_request :: run_request where
  "sample_request =
     \<lparr>rq_run_id = ''run-1'', rq_task_id = None, rq_workload_id = None,
      rq_context_ref = '''', rq_repository_ref = ''''\<rparr>"

definition fresh_thread :: workload_state where
  "fresh_thread =
     \<lparr>ws_run_id = '''', ws_task_id = '''', ws_workload_id = '''', ws_service_name = '''',
      ws_repository_ref = '''', ws_context_ref = '''', ws_namespace = None,
      ws_service_account = None, ws_original_policy = None, ws_current_policy = None,
      ws_candidate_policy = None, ws_last_known_good_policy = None,
      ws_effective_permissions = None, ws_observed_events = None, ws_original_risk = None,
      ws_current_risk = None, ws_candidate_risk = None, ws_verification_result = None,
      ws_failure_type = None, ws_failure_details = None, ws_missing_permissions = None,
      ws_reductions_attempted = 0, ws_reductions_accepted = 0, ws_reductions_rejected = 0,
      ws_retry_count = 0, ws_incorrect_removals = 0, ws_accepted = False,
      ws_graph_node = ''''\<rparr>"

abbreviation sample_graph :: "simulator graph_config" where
  "sample_graph \<equiv> simulator_graph ''0.01'' sample_case 5 36"

lemma simulator_run_returns:
  assumes "all_allowed (case_event c) (bc_initial_policy c)" and "1 \<le> m" and "11 + 5 * m \<le> l"
  obtains ex w' where "run_workload (simulator_graph elapsed c m l) rq prior (new_simulator c) = (Inr ex, w')"
    "we_accepted ex"
proof -
  have start: "sm_current_policy (new_simulator c) = sm_original_policy (new_simulator c)"
    "sm_original_policy (new_simulator c) = bc_initial_policy c"
    by (simp_all add: new_simulator_def)
  obtain ex w' where run: "run_workload (simulator_graph elapsed c m l) rq prior (new_simulator c) = (Inr ex, w')"
    using cooperative_graph.run_returns [OF simulator_meets_cooperative_graph [OF assms(3)] start(1),
        of c elapsed rq prior] assms(1) start(2) by auto
  have "all_allowed (tested_event c) (bc_initial_policy c)"
    using assms(1) by (simp add: all_allowed_def case_event_def)
  with simulated.run_tested(2) [OF run start(1)] start(2) assms(2) have "we_accepted ex" by simp
  with run that show thesis by blast
qed

lemma sample_case_allowed: "all_allowed (case_event sample_case) (bc_initial_policy sample_case)"
proof -
  have "\<forall>e \<in> set [list_pods, get_configmaps]. is_authorized sample_policy e"
    by code_simp
  moreover have "\<forall>e \<in> set [list_pods, get_configmaps]. grantable e"
    by (simp add: grantable_def list_pods_def get_configmaps_def sample_call_def
        supported_verbs_def is_supported_resource_def supported_resources_def)
  ultimately show ?thesis
    unfolding all_allowed_def case_event_def tested_event_def
    by (auto simp: sample_case_def)
qed

lemma sample_run_returns:
  obtains ex w' where
    "run_workload sample_graph sample_request fresh_thread (new_simulator sample_case) = (Inr ex, w')"
    "we_accepted ex"
  by (rule simulator_run_returns [OF sample_case_allowed, of 5 36]) auto

end
