(* ===== verification/Rbac_Properties.thy ===== *)
theory Rbac_Properties
  imports Samples
begin

text \<open>
  The properties of the deterministic RBAC engine: policies and their normal form, authorisation,
  expansion, resolution, generation and parsing, minimisation, repair and risk.
\<close>

lemma checked_no_more:
  assumes "\<forall>p \<in> set (pl_permissions candidate). is_authorized original (permission_event p)"
  shows "no_more_than candidate original"
proof (rule no_more_thanI)
  fix e assume "is_authorized candidate e"
  then obtain p where "p \<in> set (pl_permissions candidate)" "matches p e"
    unfolding is_authorized_iff [of candidate] by blast
  with assms show "is_authorized original e" using permission_event_covers by blast
qed

lemma narrow_checked:
  "\<forall>p \<in> set (pl_permissions narrow_policy). is_authorized sample_policy (permission_event p)"
  by code_simp

text \<open>
  Normal form. A policy's permission list has distinct keys, is sorted by the code's sort
  key, and is determined by the set of keys it is built from (as long as no optional part is the
  empty string): the order and multiplicity in which permissions are given do not matter.
\<close>

theorem policy_normal_form:
  assumes "perm_key ` set ps = perm_key ` set qs"
    and "\<forall>p \<in> set ps \<union> set qs. unambiguous_key p"
  shows "distinct (map perm_key (pl_permissions (mk_policy ps name sa ns))) \<and>
    sorted (map perm_sort_key (pl_permissions (mk_policy ps name sa ns))) \<and>
    perm_key ` set (pl_permissions (mk_policy ps name sa ns)) = perm_key ` set ps \<and>
    map perm_key (pl_permissions (mk_policy ps name sa ns)) =
      map perm_key (pl_permissions (mk_policy qs name' sa' ns'))"
  using normalize_keys_unique [OF assms] by (simp add: normalize_sorted normalize_keys)

theorem policy_normal_form_witness:
  "map perm_key (pl_permissions (mk_policy
       [sample_permission '''' ''pods'' ''list'' None, sample_permission '''' ''pods'' ''get'' None]
       ''a'' ''b'' ''c'')) =
   map perm_key (pl_permissions (mk_policy
       [sample_permission '''' ''pods'' ''get'' None, sample_permission '''' ''pods'' ''list'' None,
        sample_permission '''' ''pods'' ''get'' None] ''x'' ''y'' ''z''))"
  using policy_normal_form
    [of "[sample_permission '''' ''pods'' ''list'' None, sample_permission '''' ''pods'' ''get'' None]"
        "[sample_permission '''' ''pods'' ''get'' None, sample_permission '''' ''pods'' ''list'' None,
          sample_permission '''' ''pods'' ''get'' None]" "''a''" "''b''" "''c''" "''x''" "''y''" "''z''"]
  by (simp add: sample_permission_def perm_key_def unambiguous_key_def insert_commute)

text \<open>
  Expanding wildcards over the catalogue of supported resources and verbs changes no
  decision on the catalogue, grants nothing new outside it, is idempotent, and no permission
  expands to more than 49.
\<close>

theorem expand_policy_equivalent:
  "(catalogued e \<longrightarrow> (is_authorized (expand_policy P) e \<longleftrightarrow> is_authorized P e)) \<and>
   no_more_than (expand_policy P) P \<and>
   expand_policy (expand_policy P) = expand_policy P \<and>
   length (expand_permission p) \<le> 49"
  using expand_policy_catalogued expand_policy_sound expand_policy_idem expand_permission_length
  by blast

theorem expand_policy_equivalent_witness:
  "is_authorized (expand_policy sample_policy) get_secrets"
proof -
  have "catalogued get_secrets" by (simp add: catalogued_def get_secrets_def sample_call_def
        supported_verbs_def supported_resources_def)
  moreover have "is_authorized sample_policy get_secrets" by code_simp
  ultimately show ?thesis
    using expand_policy_equivalent [of get_secrets sample_policy "sample_permission '''' ''*'' ''*'' None"]
    by simp
qed

text \<open>
  C21: Resolving the effective policy of a service account decides exactly what Kubernetes RBAC
  semantics allows it, when every RoleBinding has a namespace, as the parser guarantees: some binding
  names the account, the role of the kind, namespace and name it refers to has a rule for the request,
  and the scope of the binding includes the namespace of the request.
\<close>

theorem resolver_decides_rbac:
  assumes "list_all binding_wf (pr_bindings parsed)"
  shows "is_authorized (resolve_effective_policy parsed sa) e \<longleftrightarrow> rbac_allows parsed sa e"
proof (rule resolve_authorizes_iff)
  show "\<forall>b \<in> set (pr_bindings parsed). scoped b"
    using assms by (auto simp: list_all_iff binding_wf_def scoped_def split: if_splits)
qed

text \<open>Two roles of the same name in different namespaces; the account may list pods in one and read
  secrets in the other.\<close>

definition twin_roles :: parsed_rbac where
  "twin_roles =
     (let role = (\<lambda>ns resource verb. \<lparr>ro_name = ''reader'', ro_namespace = Some ns,
            ro_rules = [\<lparr>ru_api_groups = [''''], ru_resources = [resource], ru_verbs = [verb], ru_resource_names = []\<rparr>],
            ro_cluster_role = False\<rparr>);
          binding = (\<lambda>ns. \<lparr>bo_name = ''reads'', bo_namespace = Some ns, bo_role_name = ''reader'',
            bo_role_kind = ''Role'', bo_subjects = [\<lparr>sr_name = ''api'', sr_namespace = ''prod''\<rparr>],
            bo_cluster_binding = False\<rparr>)
      in \<lparr>pr_service_accounts = [], pr_roles = [role ''dev'' ''secrets'' ''get'', role ''prod'' ''pods'' ''list''],
          pr_bindings = [binding ''prod'', binding ''dev'']\<rparr>)"

theorem resolver_decides_rbac_witness:
  "is_authorized (resolve_effective_policy twin_roles \<lparr>sr_name = ''api'', sr_namespace = ''prod''\<rparr>) list_pods \<and>
   \<not> is_authorized (resolve_effective_policy twin_roles \<lparr>sr_name = ''api'', sr_namespace = ''prod''\<rparr>) get_secrets"
proof -
  have "list_all binding_wf (pr_bindings twin_roles)"
    by (simp add: twin_roles_def binding_wf_def Let_def)
  note decides = resolver_decides_rbac [OF this, of "\<lparr>sr_name = ''api'', sr_namespace = ''prod''\<rparr>"]
  show ?thesis
    unfolding decides
    by (simp add: rbac_allows_def twin_roles_def Let_def in_scope_def role_table_def identity_of_def
        referred_identity_def rule_allows_def list_pods_def get_secrets_def sample_call_def)
qed

text \<open>
  C20: Round trip. Parsing the documents generated for an expressible policy succeeds, and
  resolving the policy's service account in the result gives back the keys of the policy.
\<close>

theorem generated_documents_roundtrip:
  assumes "expressible_policy P" and "canonical_policy P"
  shows "\<exists>parsed. parse_documents (policy_to_documents P) = Inr parsed \<and>
    map perm_key (pl_permissions (resolve_effective_policy parsed (account_of P))) =
    map perm_key (pl_permissions P)"
  using parse_generated [OF assms(1)] resolve_generated_keys [OF assms] by blast

theorem generated_documents_roundtrip_witness:
  "\<exists>parsed. parse_documents (policy_to_documents sample_policy) = Inr parsed \<and>
    map perm_key (pl_permissions (resolve_effective_policy parsed (account_of sample_policy))) =
    map perm_key (pl_permissions sample_policy)"
proof (rule generated_documents_roundtrip)
  show "expressible_policy sample_policy" by code_simp
  show "canonical_policy sample_policy" by (simp add: sample_policy_def)
qed

text \<open>
  C19: The documents generated for an expressible policy grant, under the reference RBAC
  semantics, exactly what the policy authorises to its own service account, and nothing to any
  other account.
\<close>

theorem generated_documents_grant_exactly:
  assumes "expressible_policy P" and "parse_documents (policy_to_documents P) = Inr parsed"
  shows "rbac_allows parsed sa e \<longleftrightarrow> sa = account_of P \<and> is_authorized P e"
  using parse_generated [OF assms(1)] assms(2) generated_grants_exactly [OF assms(1)] by simp

theorem generated_documents_grant_exactly_witness:
  "rbac_allows (generated_rbac sample_policy) (account_of sample_policy) get_secrets"
proof -
  have exp: "expressible_policy sample_policy" by code_simp
  have auth: "is_authorized sample_policy get_secrets" by code_simp
  show ?thesis
    using generated_documents_grant_exactly [OF exp parse_generated [OF exp],
        of "account_of sample_policy" get_secrets] auth by simp
qed




text \<open>
  Whatever the parser accepts is inside the supported subset: rules have non-empty groups,
  resources and verbs, only supported verbs and resources and no empty resource name; Roles and
  RoleBindings have a namespace; a ClusterRoleBinding refers to a ClusterRole; every subject has
  a name and a namespace.
\<close>

theorem parsed_documents_supported:
  assumes "parse_documents documents = Inr parsed"
  shows "rbac_wf parsed"
  using assms by (rule parse_documents_wf)

theorem parsed_documents_supported_witness: "rbac_wf (generated_rbac sample_policy)"
proof (rule parsed_documents_supported)
  show "parse_documents (policy_to_documents sample_policy) = Inr (generated_rbac sample_policy)"
    by (rule parse_generated) code_simp
qed

text \<open>
  C33: The observed-only candidate exists exactly when every observed event is authorised and
  grantable; then it is in normal form, authorises every observed event, and grants nothing the
  current policy does not.
\<close>

theorem observed_only_correct:
  "(\<exists>C. observed_only_policy current observed = Inr C) =
     (\<forall>e \<in> set observed. is_authorized current e \<and> grantable e) \<and>
   (\<forall>C. observed_only_policy current observed = Inr C \<longrightarrow>
      canonical_policy C \<and> (\<forall>e \<in> set observed. is_authorized C e) \<and> no_more_than C current)"
  using observed_only_succeeds_iff observed_only_canonical observed_only_authorizes
    observed_only_no_more by blast

theorem observed_only_correct_witness:
  "\<exists>C. observed_only_policy sample_policy [list_pods] = Inr C \<and> is_authorized C list_pods \<and>
     no_more_than C sample_policy"
proof -
  have "is_authorized sample_policy list_pods" by code_simp
  moreover have "grantable list_pods"
    by (simp add: grantable_def list_pods_def sample_call_def supported_verbs_def
        is_supported_resource_def supported_resources_def)
  ultimately show ?thesis
    using observed_only_correct [of sample_policy "[list_pods]"] by auto
qed

text \<open>
  C22: Repair. Adding denied events succeeds exactly when the original policy authorises all of
  them and they are grantable. The repaired policy keeps what the candidate granted, authorises
  every denied event, stays within the original, and is longer than the candidate by exactly the
  number of restored keys the candidate lacked.
\<close>

theorem repair_correct:
  assumes "canonical_policy candidate" and "no_more_than candidate original"
  shows "(\<exists>R. repair_policy candidate missing original = Inr R) =
      (\<forall>e \<in> set missing. is_authorized original e \<and> grantable e) \<and>
    (\<forall>R. repair_policy candidate missing original = Inr R \<longrightarrow>
       no_more_than candidate R \<and> no_more_than R original \<and>
       (\<forall>e \<in> set missing. is_authorized R e) \<and>
       length (pl_permissions R) = length (pl_permissions candidate) +
         card (policy_keys R - policy_keys candidate))"
proof (intro conjI allI impI)
  fix R assume R: "repair_policy candidate missing original = Inr R"
  then obtain ps where ps: "rmap event_permission missing = Inr ps" by (auto simp: repair_Inr_iff)
  show "length (pl_permissions R) = length (pl_permissions candidate) +
      card (policy_keys R - policy_keys candidate)"
    using repair_additions [OF R assms(1) ps] repair_keys [OF R ps] by (simp add: Un_Diff)
  show "no_more_than R original" using R assms(2) by (rule repair_no_more)
qed (use repair_succeeds_iff repair_keeps_candidate repair_authorizes_missing in blast)+

theorem repair_correct_witness:
  "\<exists>R. repair_policy narrow_policy [get_configmaps] sample_policy = Inr R \<and>
     is_authorized R get_configmaps \<and> no_more_than R sample_policy"
proof -
  have "canonical_policy narrow_policy" by (simp add: narrow_policy_def)
  moreover have "no_more_than narrow_policy sample_policy"
    using narrow_checked by (rule checked_no_more)
  moreover have "is_authorized sample_policy get_configmaps" by code_simp
  moreover have "grantable get_configmaps"
    by (simp add: grantable_def get_configmaps_def sample_call_def supported_verbs_def
        is_supported_resource_def supported_resources_def)
  ultimately have res: "(\<exists>R. repair_policy narrow_policy [get_configmaps] sample_policy = Inr R) =
        (\<forall>e \<in> set [get_configmaps]. is_authorized sample_policy e \<and> grantable e)"
    "\<forall>R. repair_policy narrow_policy [get_configmaps] sample_policy = Inr R \<longrightarrow>
       no_more_than narrow_policy R \<and> no_more_than R sample_policy \<and>
       (\<forall>e \<in> set [get_configmaps]. is_authorized R e) \<and>
       length (pl_permissions R) = length (pl_permissions narrow_policy) +
         card (policy_keys R - policy_keys narrow_policy)"
    and ok: "is_authorized sample_policy get_configmaps" "grantable get_configmaps"
    using repair_correct [of narrow_policy sample_policy "[get_configmaps]"] by blast+
  then obtain R where R: "repair_policy narrow_policy [get_configmaps] sample_policy = Inr R"
    by (metis empty_iff empty_set set_ConsD)
  then show ?thesis using res(2) by (metis list.set_intros(1))
qed

text \<open>
  C34: The candidate check of the graph is sound for every candidate, however it was made: if the
  original policy authorises the event made of each permission's own parts, wildcards and missing
  scopes included, then the candidate grants nothing the original does not.
\<close>

theorem candidate_check_sound:
  assumes "\<forall>p \<in> set (pl_permissions candidate). is_authorized original (permission_event p)"
  shows "no_more_than candidate original"
  using assms by (rule checked_no_more)

theorem candidate_check_sound_witness: "no_more_than narrow_policy sample_policy"
  by (rule candidate_check_sound [OF narrow_checked])

text \<open>
  C38: Risk bookkeeping. The uncapped score is the sum of the points of every signal of every
  permission (grouping by reason loses none), the score caps it at 100 and is never negative, and
  findings are listed once per reason, most points first.
\<close>

theorem risk_score_correct:
  "ra_uncapped_score (score_policy P) =
     sum_list (map (\<lambda>p. sum_list (map snd (permission_risk_signals p))) (pl_permissions P)) \<and>
   ra_score (score_policy P) = min 100 (ra_uncapped_score (score_policy P)) \<and>
   0 \<le> ra_score (score_policy P) \<and> ra_score (score_policy P) \<le> 100 \<and>
   sorted (map (\<lambda>f. (- rf_points f, rf_reason f)) (ra_findings (score_policy P))) \<and>
   distinct (map rf_reason (ra_findings (score_policy P)))"
  using score_uncapped [of P] score_capped [of P] score_bounds [of P] findings_sorted [of P]
    findings_distinct [of P] by (simp add: permission_risk_def [abs_def])

text \<open>
  Removing permissions never raises the risk score.
\<close>

theorem risk_score_monotone:
  assumes "canonical_policy P" and "set (pl_permissions P) \<subseteq> set (pl_permissions Q)"
  shows "ra_score (score_policy P) \<le> ra_score (score_policy Q)"
  using assms by (rule score_mono)

theorem risk_score_monotone_witness:
  "ra_score (score_policy (with_permissions sample_policy [])) \<le> ra_score (score_policy sample_policy)"
  by (rule risk_score_monotone) (simp_all add: normalize_permissions_def dict_of_def dict_values_def)

text \<open>
  The listed candidate reductions are exactly the permissions that match no observed event,
  in descending order of risk, and dropping any of them keeps every observed event authorised.
\<close>

theorem candidate_reductions_correct:
  "cr_permission ` set (candidate_reductions P observed) =
     {p \<in> set (pl_permissions P). \<forall>e \<in> set observed. \<not> matches p e} \<and>
   sorted (map (\<lambda>r. - cr_risk_value r) (candidate_reductions P observed)) \<and>
   (\<forall>kept. (\<forall>p \<in> set (pl_permissions P). p \<in> set kept \<or>
        p \<in> cr_permission ` set (candidate_reductions P observed)) \<longrightarrow>
      (\<forall>e \<in> set observed. is_authorized P e \<longrightarrow> is_authorized (with_permissions P kept) e))"
  using candidate_reductions_set candidate_reductions_sorted dropping_reductions_keeps_observed
  by blast

theorem candidate_reductions_correct_witness:
  "is_authorized (with_permissions sample_policy [sample_permission '''' ''*'' ''*'' None]) list_pods"
proof -
  have auth: "is_authorized sample_policy list_pods" by code_simp
  have kept: "\<forall>p \<in> set (pl_permissions sample_policy).
      p \<in> set [sample_permission '''' ''*'' ''*'' None] \<or>
      p \<in> cr_permission ` set (candidate_reductions sample_policy [list_pods])"
    by code_simp
  show ?thesis
  proof (rule candidate_reductions_correct [THEN conjunct2, THEN conjunct2, rule_format])
    show "p \<in> set [sample_permission '''' ''*'' ''*'' None] \<or>
        p \<in> cr_permission ` set (candidate_reductions sample_policy [list_pods])"
      if "p \<in> set (pl_permissions sample_policy)" for p
      using kept that by blast
  qed (use auth in simp_all)
qed

end
