(* ===== verification/Workload_Reasoner.thy ===== *)
theory Workload_Reasoner
  imports Workload_Run
begin

text \<open>
  The language model has no influence on a run. The world has a part \<open>v\<close> the adapter works on; the log
  and the providers leave it alone. The log may record everything, the answers of the model included,
  as long as writing it does not raise: two graphs that differ in their provider run to the same
  result and the same \<open>v\<close>, whatever the providers answer or raise.
\<close>

text \<open>An operation on the world that works on \<open>v\<close>: from worlds with the same \<open>v\<close> it has the same result
  and leaves the same \<open>v\<close>.\<close>

definition reads_only :: "('w \<Rightarrow> 'v) \<Rightarrow> ('w, 'a) op \<Rightarrow> bool" where
  "reads_only v m \<longleftrightarrow> (\<forall>w u. v w = v u \<longrightarrow> fst (m w) = fst (m u) \<and> v (snd (m w)) = v (snd (m u)))"

text \<open>The adapter works on \<open>v\<close>; what is done to record an event, or to write the summary, neither raises
  nor changes \<open>v\<close>.\<close>

definition log_apart :: "('w \<Rightarrow> 'v) \<Rightarrow> 'w graph_config \<Rightarrow> bool" where
  "log_apart v cfg \<longleftrightarrow>
     reads_only v (env_get_current_policy (gc_env cfg)) \<and> reads_only v (env_get_observed_usage (gc_env cfg)) \<and>
     (\<forall>P. reads_only v (env_apply_policy (gc_env cfg) P)) \<and> reads_only v (env_verify_workload (gc_env cfg)) \<and>
     reads_only v (env_restore_policy (gc_env cfg)) \<and> (\<forall>r. reads_only v (env_describe_failure (gc_env cfg) r)) \<and>
     (\<forall>ev w. fst (gc_sink cfg ev w) = Inr () \<and> v (snd (gc_sink cfg ev w)) = v w) \<and>
     (\<exists>path. \<forall>evs w. fst (gc_summary cfg evs w) = Inr path \<and> v (snd (gc_summary cfg evs w)) = v w)"

text \<open>Two operations on runs that agree in their result and in \<open>v\<close>, whatever has been logged.\<close>

definition agree :: "('w \<Rightarrow> 'v) \<Rightarrow> ('w run, 'a) op \<Rightarrow> ('w run, 'a) op \<Rightarrow> bool" where
  "agree v m m' \<longleftrightarrow>
     (\<forall>w u evs evs'. v w = v u \<longrightarrow> fst (m (w, evs)) = fst (m' (u, evs')) \<and>
        v (fst (snd (m (w, evs)))) = v (fst (snd (m' (u, evs')))))"

lemma agreeD:
  assumes "agree v m m'" and "v w = v u" and "m (w, evs) = (x, (w', log))" and "m' (u, evs') = (x', (u', log'))"
  shows "x' = x \<and> v w' = v u'"
  using assms unfolding agree_def by (metis fst_conv snd_conv)

lemma agree_seq:
  assumes m: "agree v m m'" and f: "\<And>x. agree v (f x) (f' x)"
  shows "agree v (seq m f) (seq m' f')"
  unfolding agree_def
proof (intro allI impI)
  fix w u evs evs' assume same: "v w = v u"
  obtain x w1 log where 1: "m (w, evs) = (x, (w1, log))" by (metis prod.collapse)
  obtain x' u1 log' where 2: "m' (u, evs') = (x', (u1, log'))" by (metis prod.collapse)
  from agreeD [OF m same 1 2] have "x' = x" "v w1 = v u1" by simp_all
  then show "fst (seq m f (w, evs)) = fst (seq m' f' (u, evs')) \<and>
      v (fst (snd (seq m f (w, evs)))) = v (fst (snd (seq m' f' (u, evs'))))"
    using f unfolding seq_def 1 2 agree_def by (cases x) simp_all
qed

lemma agree_ret: "agree v (ret x) (ret x)"
  by (simp add: agree_def ret_def)

lemma agree_throw: "agree v (throw err) (throw err)"
  by (simp add: agree_def throw_def)

lemma agree_lift: "agree v (lift_result r) (lift_result r)"
  by (simp add: agree_def lift_result_def)

lemma agree_need: "agree v (need key x) (need key x)"
  by (simp add: need_def agree_ret agree_throw split: option.split)

lemma agree_failure_of: "agree v (failure_of st) (failure_of st)"
  unfolding failure_of_def
  by (intro agree_seq agree_need) (simp add: agree_ret agree_throw split: option.split)

lemma agree_on_env: "reads_only v m \<Longrightarrow> agree v (on_env m) (on_env m)"
  by (simp add: agree_def reads_only_def on_env_def split: prod.split) (metis fst_conv snd_conv)

definition with_provider :: "'w llm_provider option \<Rightarrow> 'w graph_config \<Rightarrow> 'w graph_config" where
  "with_provider p cfg = cfg\<lparr>gc_provider := p\<rparr>"

lemma with_provider_sel [simp]:
  "gc_env (with_provider p cfg) = gc_env cfg"
  "gc_max_repair_iterations (with_provider p cfg) = gc_max_repair_iterations cfg"
  "gc_provider (with_provider p cfg) = p"
  "gc_sink (with_provider p cfg) = gc_sink cfg"
  "gc_summary (with_provider p cfg) = gc_summary cfg"
  "gc_now (with_provider p cfg) = gc_now cfg"
  "gc_limit (with_provider p cfg) = gc_limit cfg"
  by (simp_all add: with_provider_def)

lemma agree_emit:
  assumes "log_apart v cfg"
  shows "agree v (emit (with_provider p cfg) st agent action reason decision details)
    (emit (with_provider q cfg) st agent action reason' decision' details')"
proof -
  have "fst (gc_sink cfg ev w) = Inr ()" "v (snd (gc_sink cfg ev w)) = v w" for ev w
    using assms by (simp_all add: log_apart_def)
  then show ?thesis
    unfolding agree_def emit_def record_event_def by (simp add: case_prod_beta)
qed

lemma explain_agree:
  assumes "provider_keeps v p"
  shows "\<exists>e u. on_env (explain_op p f) (w, evs) = (Inr e, (u, evs)) \<and> v u = v w"
proof -
  obtain e u where e: "explain_with_source p f w = (e, u)" by (metis prod.collapse)
  with explain_keeps [OF assms e] show ?thesis by (simp add: on_env_def explain_op_def)
qed

lemma agree_diagnose:
  assumes "provider_keeps v p" "provider_keeps v q" "log_apart v cfg"
  shows "agree v (diagnose (with_provider p cfg) st) (diagnose (with_provider q cfg) st)"
  unfolding diagnose_def
proof (rule agree_seq [OF agree_failure_of])
  fix f
  let ?rest = "\<lambda>r e. seq (emit (with_provider r cfg) st ''reasoner'' ''diagnose_failure'' (re_text e)
      (Some ''repair'') [(''reasoner'', PStr (re_source e)), (''reasoner_error'', opt_str (re_error e))])
      (\<lambda>_. ret (st\<lparr>ws_graph_node := ''DIAGNOSE_FAILURE''\<rparr>))"
  have rest: "agree v (?rest p e) (?rest q e')" for e e'
    by (intro agree_seq agree_emit agree_ret assms(3))
  show "agree v (seq (on_env (explain_op (gc_provider (with_provider p cfg)) f)) (?rest p))
      (seq (on_env (explain_op (gc_provider (with_provider q cfg)) f)) (?rest q))"
    unfolding agree_def
  proof (intro allI impI)
    fix w u evs evs' assume same: "v w = v u"
    obtain e w1 where e: "on_env (explain_op p f) (w, evs) = (Inr e, (w1, evs))" "v w1 = v w"
      using explain_agree [OF assms(1)] by blast
    obtain e' u1 where e': "on_env (explain_op q f) (u, evs') = (Inr e', (u1, evs'))" "v u1 = v u"
      using explain_agree [OF assms(2)] by blast
    show "fst (seq (on_env (explain_op (gc_provider (with_provider p cfg)) f)) (?rest p) (w, evs)) =
        fst (seq (on_env (explain_op (gc_provider (with_provider q cfg)) f)) (?rest q) (u, evs')) \<and>
      v (fst (snd (seq (on_env (explain_op (gc_provider (with_provider p cfg)) f)) (?rest p) (w, evs)))) =
        v (fst (snd (seq (on_env (explain_op (gc_provider (with_provider q cfg)) f)) (?rest q) (u, evs'))))"
      using rest [of e e'] same e(2) e'(2) by (simp add: seq_def e(1) e'(1) agree_def)
  qed
qed

lemma agree_node:
  assumes "provider_keeps v p" "provider_keeps v q" "log_apart v cfg"
  shows "agree v (exec_node (with_provider p cfg) n st) (exec_node (with_provider q cfg) n st)"
proof (cases n)
  case Diagnose_Failure
  with agree_diagnose [OF assms] show ?thesis by simp
next
  case Verify
  have "reads_only v (env_verify_workload (gc_env cfg))" "\<And>r. reads_only v (env_describe_failure (gc_env cfg) r)"
    using assms(3) by (simp_all add: log_apart_def)
  with Verify show ?thesis
    by (simp add: verify_def Let_def agree_seq agree_ret agree_on_env agree_emit [OF assms(3)])
qed (use assms(3) in \<open>simp_all add: load_context_def inspect_def gather_def generate_def validate_def
  apply_candidate_def check_more_def final_verify_def repair_def restore_def
  human_review_def finalize_def publish_result_def Let_def agree_seq agree_ret agree_throw
  agree_lift agree_need agree_failure_of agree_on_env log_apart_def agree_emit [OF assms(3)]
  split: sum.split\<close>)

lemma next_node_provider: "next_node (with_provider p cfg) n st = next_node (with_provider q cfg) n st"
  by (cases n) (simp_all add: route_verification_def split: option.split)

lemma agree_run_nodes:
  assumes "provider_keeps v p" "provider_keeps v q" "log_apart v cfg"
  shows "agree v (run_nodes (with_provider p cfg) k n st) (run_nodes (with_provider q cfg) k n st)"
proof (induction k arbitrary: n st)
  case 0
  show ?case by (simp add: agree_throw)
next
  case (Suc k)
  have "agree v (case succ of None \<Rightarrow> ret st' | Some m \<Rightarrow> run_nodes (with_provider p cfg) k m st')
      (case succ of None \<Rightarrow> ret st' | Some m \<Rightarrow> run_nodes (with_provider q cfg) k m st')" for succ st'
    using Suc by (simp add: agree_ret split: option.split)
  then show ?case
    by (simp add: agree_seq agree_node [OF assms] agree_lift next_node_provider [of p cfg _ _ q])
qed

lemma agree_write_trajectory:
  assumes "log_apart v cfg"
  shows "agree v (write_trajectory (with_provider p cfg)) (write_trajectory (with_provider q cfg))"
proof -
  obtain path where "\<And>evs w. fst (gc_summary cfg evs w) = Inr path" "\<And>evs w. v (snd (gc_summary cfg evs w)) = v w"
    using assms by (auto simp: log_apart_def)
  then show ?thesis
    unfolding agree_def write_trajectory_def by (simp add: case_prod_beta)
qed

lemma agree_run_result: "agree v (run_result rq path st) (run_result rq path st)"
  by (simp add: run_result_def agree_seq agree_need agree_ret)

lemma run_provider_irrelevant:
  assumes "log_apart v cfg" "provider_keeps v p" "provider_keeps v q" and "v w = v u"
  shows "fst (run_workload (with_provider p cfg) rq prior w) = fst (run_workload (with_provider q cfg) rq prior u) \<and>
    v (snd (run_workload (with_provider p cfg) rq prior w)) = v (snd (run_workload (with_provider q cfg) rq prior u))"
proof -
  let ?run = "\<lambda>r. seq (run_nodes (with_provider r cfg) (gc_limit cfg) Load_Service_Context
      (initial_state (env_name (gc_env cfg)) rq prior))
      (\<lambda>final. seq (write_trajectory (with_provider r cfg)) (\<lambda>path. run_result rq path final))"
  have "agree v (?run p) (?run q)"
    by (intro agree_seq agree_run_nodes agree_write_trajectory agree_run_result assms)
  with assms(4) have "fst (?run p (w, [])) = fst (?run q (u, [])) \<and>
      v (fst (snd (?run p (w, [])))) = v (fst (snd (?run q (u, []))))"
    unfolding agree_def by blast
  then show ?thesis
    by (simp add: run_workload_def case_prod_beta)
qed

end
