(* ===== verification/Workload_Properties.thy ===== *)
theory Workload_Properties
  imports Samples Workload_Reasoner
begin

text \<open>
  The properties of workload runs: safety, minimality, termination and progress, the trajectory,
  the simulator, and the role of the failure reasoner.
\<close>

text \<open>
  C1: Safety of a run over any environment that meets the adapter contract. The run reports the
  policy it started from; the policy it reports as final is the one in force when it ends, and it
  grants nothing the original did not; the run is accepted exactly when its last verification
  passed; a rejected run has put the original policy back; and the number of repairs is bounded.
\<close>

theorem run_is_safe:
  assumes "workload_graph cfg current baseline needed" and "current w = baseline w"
    and "run_workload cfg rq prior w = (Inr ex, w')"
  shows "we_original_policy ex = baseline w \<and> current w' = we_final_policy ex \<and>
    no_more_than (we_final_policy ex) (we_original_policy ex) \<and>
    (we_accepted ex \<longleftrightarrow> vr_passed (we_verification ex)) \<and>
    (\<not> we_accepted ex \<longrightarrow> we_final_policy ex = we_original_policy ex) \<and>
    we_repair_iterations ex \<le> gc_max_repair_iterations cfg"
  using workload_graph.run_outcome(1-5) [OF assms(1,3,2)] run_repairs_bounded [OF assms(3)]
  by simp

theorem run_is_safe_witness:
  "\<exists>ex w'. run_workload sample_graph sample_request fresh_thread (new_simulator sample_case) = (Inr ex, w') \<and>
     we_accepted ex \<and> sm_current_policy w' = we_final_policy ex \<and>
     no_more_than (we_final_policy ex) sample_policy"
proof -
  obtain ex w' where run: "run_workload sample_graph sample_request fresh_thread
      (new_simulator sample_case) = (Inr ex, w')" and acc: "we_accepted ex"
    by (rule sample_run_returns)
  have start: "sm_current_policy (new_simulator sample_case) = sm_original_policy (new_simulator sample_case)"
    "sm_original_policy (new_simulator sample_case) = sample_policy"
    by (simp_all add: new_simulator_def sample_case_def)
  show ?thesis
    using run_is_safe [OF simulated.workload_graph_axioms start(1) run] run acc start(2) by auto
qed

text \<open>
  C4: What an accepted run keeps. Every permission of the final policy is the grant of an event
  the environment reported (observed or denied) and the original policy allows; and the final
  policy extends the observed-only policy of the events the environment reported when the run
  gathered its evidence, by exactly as many permissions as the run counts as incorrect removals.
\<close>

theorem accepted_run_is_minimal:
  assumes "workload_graph cfg current baseline needed" and "current w = baseline w"
    and "run_workload cfg rq prior w = (Inr ex, w')" and "we_accepted ex"
  shows "(\<forall>p \<in> set (pl_permissions (we_final_policy ex)).
      \<exists>e. needed e \<and> is_authorized (baseline w) e \<and> event_permission e = Inr p) \<and>
    (\<exists>C0 observed. gathered cfg rq prior w observed \<and> observed_only_policy (baseline w) observed = Inr C0 \<and>
       no_more_than C0 (we_final_policy ex) \<and>
       length (pl_permissions (we_final_policy ex)) =
         length (pl_permissions C0) + we_incorrect_removals ex)"
  using workload_graph.run_outcome(6,7) [OF assms(1,3,2,4)] by (simp add: grants_only_def)

theorem accepted_run_is_minimal_witness:
  "\<exists>ex w' C0. run_workload sample_graph sample_request fresh_thread (new_simulator sample_case) = (Inr ex, w') \<and>
     (\<forall>p \<in> set (pl_permissions (we_final_policy ex)).
        \<exists>e. case_event sample_case e \<and> event_permission e = Inr p) \<and>
     observed_only_policy sample_policy [list_pods] = Inr C0 \<and>
     length (pl_permissions (we_final_policy ex)) = length (pl_permissions C0) + we_incorrect_removals ex"
proof -
  obtain ex w' where run: "run_workload sample_graph sample_request fresh_thread
      (new_simulator sample_case) = (Inr ex, w')" and acc: "we_accepted ex"
    by (rule sample_run_returns)
  have start: "sm_current_policy (new_simulator sample_case) = sm_original_policy (new_simulator sample_case)"
    "sm_original_policy (new_simulator sample_case) = sample_policy"
    by (simp_all add: new_simulator_def sample_case_def)
  have "observed = [list_pods]" if "gathered sample_graph sample_request fresh_thread (new_simulator sample_case) observed"
    for observed
    using that by (auto simp: gathered_def simulator_adapter_def ret_def sample_case_def)
  with accepted_run_is_minimal [OF simulated.workload_graph_axioms start(1) run acc] run start(2)
  show ?thesis by fastforce
qed

text \<open>
  C6: Termination. From the start of a run no sequence of node executions is longer than
  11 + 5 * max_repair_iterations, whatever the environment, the reasoner and the log do.
\<close>

theorem run_terminates:
  assumes "(graph_step cfg ^^ k) (run_states cfg rq prior w) c"
  shows "k \<le> 11 + 5 * gc_max_repair_iterations cfg"
  using steps_bounded [OF assms [unfolded run_states_def] budgeted_initial]
  unfolding rank_initial .

lemma sample_run_steps:
  "\<exists>k st r. (graph_step sample_graph ^^ k)
     (run_states sample_graph sample_request fresh_thread (new_simulator sample_case)) (None, st, r)"
proof -
  obtain ex w' where "run_workload sample_graph sample_request fresh_thread
      (new_simulator sample_case) = (Inr ex, w')"
    by (rule sample_run_returns)
  then show ?thesis by (blast elim: run_workload_reaches dest: rtranclp_imp_relpowp)
qed

theorem run_terminates_witness:
  "\<exists>k st r. k \<le> 36 \<and> (graph_step sample_graph ^^ k)
     (run_states sample_graph sample_request fresh_thread (new_simulator sample_case)) (None, st, r)"
proof -
  obtain k st r where steps: "(graph_step sample_graph ^^ k)
     (run_states sample_graph sample_request fresh_thread (new_simulator sample_case)) (None, st, r)"
    using sample_run_steps by blast
  have "k \<le> 36" using run_terminates [OF steps] by simp
  with steps show ?thesis by blast
qed

text \<open>
  Enough fuel. Every recursion limit of at least 11 + 5 * max_repair_iterations gives the
  same execution: such a run never fails for lack of steps.
\<close>

theorem recursion_limit_irrelevant:
  assumes "11 + 5 * gc_max_repair_iterations cfg \<le> k"
  shows "run_nodes cfg k Load_Service_Context (initial_state name rq prior) r =
    run_nodes cfg (11 + 5 * gc_max_repair_iterations cfg) Load_Service_Context
      (initial_state name rq prior) r"
  using run_nodes_enough_fuel [OF budgeted_initial [of cfg name rq prior], of k r] assms
  unfolding rank_initial by blast

theorem recursion_limit_irrelevant_witness:
  "run_nodes sample_graph 10000 Load_Service_Context (initial_state ''s'' sample_request fresh_thread)
     (new_simulator sample_case, []) =
   run_nodes sample_graph 36 Load_Service_Context (initial_state ''s'' sample_request fresh_thread)
     (new_simulator sample_case, [])"
  using recursion_limit_irrelevant [of sample_graph 10000 "''s''" sample_request fresh_thread
      "(new_simulator sample_case, [])"]
  by simp

text \<open>
  C2: Progress on the simulator. If the initial policy allows every observed and tested event,
  all of them are grantable, at least one repair is permitted and the recursion limit covers the
  longest run, then the run returns, is accepted, and needs at most one repair.
\<close>

theorem simulator_run_accepts:
  assumes "all_allowed (case_event c) (bc_initial_policy c)" and "1 \<le> m" and "11 + 5 * m \<le> l"
  shows "\<exists>ex w'. run_workload (simulator_graph elapsed c m l) rq prior (new_simulator c) = (Inr ex, w') \<and>
    we_accepted ex \<and> we_repair_iterations ex \<le> 1"
proof -
  have start: "sm_current_policy (new_simulator c) = sm_original_policy (new_simulator c)"
    "sm_original_policy (new_simulator c) = bc_initial_policy c"
    by (simp_all add: new_simulator_def)
  obtain ex w' where run: "run_workload (simulator_graph elapsed c m l) rq prior (new_simulator c) = (Inr ex, w')"
    using cooperative_graph.run_returns [OF simulator_meets_cooperative_graph [OF assms(3)] start(1),
        of c elapsed rq prior] assms(1) start(2) by auto
  have "all_allowed (tested_event c) (bc_initial_policy c)"
    using assms(1) by (simp add: all_allowed_def case_event_def)
  with simulated.run_tested(2) [OF run start(1)] start(2) assms(2) run show ?thesis by simp
qed

theorem simulator_run_accepts_witness:
  "\<exists>ex w'. run_workload sample_graph sample_request fresh_thread (new_simulator sample_case) = (Inr ex, w') \<and>
     we_accepted ex \<and> we_repair_iterations ex \<le> 1"
  using simulator_run_accepts [OF sample_case_allowed] by simp

text \<open>
  What acceptance means on the simulator: the final policy authorises every event of every
  verification test, and each of its permissions is the grant of an observed or tested event.
\<close>

theorem simulator_accepted_policy:
  assumes "run_workload (simulator_graph elapsed c m l) rq prior (new_simulator c) = (Inr ex, w')"
    and "we_accepted ex"
  shows "(\<forall>t \<in> set (bc_verification_tests c). \<forall>e \<in> set (vt_events t).
      is_authorized (we_final_policy ex) e) \<and>
    (\<forall>p \<in> set (pl_permissions (we_final_policy ex)). \<exists>e. event_permission e = Inr p \<and>
      (e \<in> set (bc_observed_events c) \<or>
       (\<exists>t \<in> set (bc_verification_tests c). e \<in> set (vt_events t))))"
proof -
  have start: "sm_current_policy (new_simulator c) = sm_original_policy (new_simulator c)"
    by (simp add: new_simulator_def)
  have "covers_all (tested_event c) (we_final_policy ex)"
    using simulated.run_tested(1) [OF assms(1) start assms(2)] .
  moreover have "grants_only (case_event c) (sm_original_policy (new_simulator c)) (we_final_policy ex)"
    using simulated.run_outcome(6) [OF assms(1) start assms(2)] .
  ultimately show ?thesis
    unfolding covers_all_def grants_only_def tested_event_def case_event_def by blast
qed

theorem simulator_accepted_policy_witness:
  "\<exists>ex w'. run_workload sample_graph sample_request fresh_thread (new_simulator sample_case) = (Inr ex, w') \<and>
     is_authorized (we_final_policy ex) get_configmaps"
proof -
  obtain ex w' where run: "run_workload sample_graph sample_request fresh_thread
      (new_simulator sample_case) = (Inr ex, w')" and acc: "we_accepted ex"
    by (rule sample_run_returns)
  show ?thesis
    using simulator_accepted_policy [OF run acc] run by (auto simp: sample_case_def)
qed

text \<open>
  C35: The shape of the trajectory. The log of a completed run is the introduction, one
  validate/apply/verify round per attempt with a diagnosis and a repair between rounds (as many
  as repairs are counted), then the accepting tail or a rejecting one that restores the policy
  and asks for review, and finally the finalisation and publication.
\<close>

theorem run_log_shape:
  assumes "(graph_step cfg)\<^sup>*\<^sup>* (run_states cfg rq prior w) (None, st, r)"
  shows "\<exists>tail. logged r = log_rounds (ws_retry_count st) @ log_attempt @ tail @
      [''finalize'', ''publish_result_event''] \<and>
    (if ws_accepted st then tail = log_accept else log_reject tail)"
proof -
  have "log_at None st (logged r)"
    using assms unfolding run_states_def by (rule log_steps) (simp add: logged_def)
  then show ?thesis by (auto simp: log_settled_def)
qed

theorem run_log_shape_witness:
  "\<exists>st r. (graph_step sample_graph)\<^sup>*\<^sup>*
      (run_states sample_graph sample_request fresh_thread (new_simulator sample_case)) (None, st, r) \<and>
    (\<exists>before. logged r = before @ [''finalize'', ''publish_result_event''])"
proof -
  obtain k st r where "(graph_step sample_graph ^^ k)
     (run_states sample_graph sample_request fresh_thread (new_simulator sample_case)) (None, st, r)"
    using sample_run_steps by blast
  then have reach: "(graph_step sample_graph)\<^sup>*\<^sup>*
     (run_states sample_graph sample_request fresh_thread (new_simulator sample_case)) (None, st, r)"
    by (rule relpowp_imp_rtranclp)
  then show ?thesis using run_log_shape [OF reach] by (metis append.assoc)
qed

text \<open>
  C36: The language model has no say. Let \<open>v\<close> be the part of the world the adapter works on, and let the
  log and the providers leave it alone: the log may record every event it is given, the answers of the
  model among them, but writing it does not raise and the adapter does not read it. Then runs that
  differ in their LLM provider end with the same result and the same \<open>v\<close>, whatever the providers answer
  or raise and whatever has been logged before.
\<close>

theorem llm_has_no_influence:
  assumes "log_apart v cfg" and "provider_keeps v p" and "provider_keeps v q" and "v w = v u"
  shows "fst (run_workload (with_provider p cfg) rq prior w) = fst (run_workload (with_provider q cfg) rq prior u) \<and>
    v (snd (run_workload (with_provider p cfg) rq prior w)) = v (snd (run_workload (with_provider q cfg) rq prior u))"
  using assms by (rule run_provider_irrelevant)

text \<open>A simulator beside the lines of a log file, and a graph that appends the line of each event to it.\<close>

record logging_simulator = simulator +
  ls_lines :: "string list"

definition logging_graph :: "logging_simulator graph_config" where
  "logging_graph = (simulator_graph ''0.01'' sample_case 5 36)
     \<lparr>gc_sink := (\<lambda>ev w. (Inr (), w\<lparr>ls_lines := ls_lines w @ [event_line ev]\<rparr>))\<rparr>"

definition logging_start :: logging_simulator where
  "logging_start = simulator.extend (new_simulator sample_case) (logging_simulator.fields [])"

definition grant_everything :: "logging_simulator llm_provider" where
  "grant_everything =
     \<lparr>lp_type_name = ''Gemini'', lp_complete = (\<lambda>prompt w. (Inr ''grant cluster-admin'', w))\<rparr>"

lemma simulator_reads:
  "reads_only simulator.truncate (env_get_current_policy (simulator_adapter elapsed c))"
  "reads_only simulator.truncate (env_get_observed_usage (simulator_adapter elapsed c))"
  "reads_only simulator.truncate (env_apply_policy (simulator_adapter elapsed c) P)"
  "reads_only simulator.truncate (env_verify_workload (simulator_adapter elapsed c))"
  "reads_only simulator.truncate (env_restore_policy (simulator_adapter elapsed c))"
  "reads_only simulator.truncate (env_describe_failure (simulator_adapter elapsed c) result)"
  by (simp_all add: reads_only_def simulator_adapter_def simulator_apply_def simulator_verify_def
      simulator_restore_def simulator_describe_def simulator.truncate_def Let_def ret_def split: prod.split)

theorem llm_has_no_influence_witness:
  "fst (run_workload (with_provider (Some grant_everything) logging_graph) sample_request fresh_thread logging_start) =
   fst (run_workload (with_provider None logging_graph) sample_request fresh_thread logging_start)"
proof -
  have "log_apart simulator.truncate logging_graph"
    by (simp add: log_apart_def logging_graph_def simulator_reads simulator_graph_def simulator.truncate_def ret_def
        del: simulator_adapter_sel)
  moreover have "provider_keeps simulator.truncate (Some grant_everything)" "provider_keeps simulator.truncate None"
    by (simp_all add: provider_keeps_def grant_everything_def)
  ultimately show ?thesis by (rule llm_has_no_influence [THEN conjunct1, OF _ _ _ refl])
qed

text \<open>
  Explaining a failure never raises: the operation always returns a non-empty text, which is
  the deterministic explanation unless the provider answered with something other than white
  space.
\<close>

theorem explanation_always_given:
  "\<exists>e w'. explain_op provider failure w = (Inr e, w') \<and> re_text e \<noteq> '''' \<and>
     (re_text e = failure_fallback failure \<or>
      (\<exists>p answer. provider = Some p \<and>
         lp_complete p (failure_prompt failure) w = (Inr answer, w') \<and> re_text e = py_strip answer))"
proof -
  obtain e w' where e: "explain_with_source provider failure w = (e, w')" by (metis prod.collapse)
  then show ?thesis
    using explain_nonempty [OF e] explain_text_cases [OF e] by (auto simp: explain_op_def)
qed

text \<open>
  A simulator verification passes exactly when the policy in force authorises every tested
  event; its denied events are exactly the tested events that are not authorised, each once; and
  it counts a pass for every test exactly when it passes.
\<close>

theorem simulator_verification_exact:
  assumes "simulator_verify elapsed c w = (Inr v, w')"
  shows "(vr_passed v \<longleftrightarrow> (\<forall>t \<in> set (bc_verification_tests c). \<forall>e \<in> set (vt_events t).
      is_authorized (sm_current_policy w) e)) \<and>
    set (vr_denied_events v) = {e. (\<exists>t \<in> set (bc_verification_tests c). e \<in> set (vt_events t)) \<and>
      \<not> is_authorized (sm_current_policy w) e} \<and>
    distinct (vr_denied_events v) \<and> vr_tests_passed v \<le> vr_tests_total v \<and>
    (vr_passed v \<longleftrightarrow> vr_tests_passed v = vr_tests_total v)"
  using simulator_passed_iff [OF assms] simulator_denied_events [OF assms] simulator_counts [OF assms]
  unfolding tested_event_def by blast

theorem simulator_verification_exact_witness:
  "\<exists>v w'. simulator_verify ''0.01'' sample_case (new_simulator sample_case) = (Inr v, w') \<and>
     distinct (vr_denied_events v)"
proof -
  obtain v w' where v: "simulator_verify ''0.01'' sample_case (new_simulator sample_case) = (Inr v, w')"
    unfolding simulator_verify_Inr by blast
  show ?thesis using simulator_verification_exact [OF v] v by blast
qed

text \<open>
  The JSON-lines file of a recorder with a directory holds one line per recorded event, in
  order, and nothing of what the file held before; no other file changes.
\<close>

theorem recorder_file_is_log:
  assumes "evs \<noteq> []"
  shows "snd (fold recorder_record evs (new_recorder run_id (Some directory) stem, files)) =
    files(recorder_path directory (rc_file_stem (new_recorder run_id (Some directory) stem)) ''.jsonl''
      \<mapsto> concat (map event_line evs))"
  using assms by (rule recorder_log)

definition sample_event :: trajectory_event where
  "sample_event =
     \<lparr>te_run_id = ''run-1'', te_environment = ''simulator:demo'', te_agent = ''verifier'',
      te_action = ''verify'', te_reason = ''1/1 verification tests passed'',
      te_decision = Some ''accept'', te_retry_count = 0, te_details = [],
      te_timestamp = ''1970-01-01T00:00:00+00:00''\<rparr>"

theorem recorder_file_is_log_witness:
  "snd (fold recorder_record [sample_event, sample_event] (new_recorder ''run-1'' (Some ''logs'') None,
      Map.empty(''logs/run-1.jsonl'' \<mapsto> ''stale''))) ''logs/run-1.jsonl'' =
    Some (event_line sample_event @ event_line sample_event)"
  using recorder_file_is_log [of "[sample_event, sample_event]" "''run-1''" "''logs''" None
      "Map.empty(''logs/run-1.jsonl'' \<mapsto> ''stale'')"]
  by (simp add: new_recorder_def recorder_path_def)

end
