(* ===== verification/Events.thy ===== *)
theory Events
  imports Py_Value
begin

text \<open>
  \<open>event_layer/contracts.py\<close> and \<open>event_layer/topics.py\<close>: the versioned event envelope, its
  validation on construction, its dictionary form and the next delivery attempt. Identifiers and
  timestamps (\<open>uuid4().hex\<close>, \<open>datetime.now\<close>) are arguments where the code draws them.
\<close>

datatype event_type =
    Analysis_Requested
  | Workload_Optimization_Requested
  | Workload_Optimization_Started
  | Candidate_Policy_Generated
  | Verification_Failed
  | Workload_Optimization_Completed
  | Workload_Optimization_Failed
  | System_Verification_Requested
  | System_Verification_Completed
  | Dependency_Context_Requested
  | Dead_Lettered

fun event_type_value :: "event_type \<Rightarrow> string" where
  "event_type_value Analysis_Requested = ''AnalysisRequested''"
| "event_type_value Workload_Optimization_Requested = ''WorkloadOptimizationRequested''"
| "event_type_value Workload_Optimization_Started = ''WorkloadOptimizationStarted''"
| "event_type_value Candidate_Policy_Generated = ''CandidatePolicyGenerated''"
| "event_type_value Verification_Failed = ''VerificationFailed''"
| "event_type_value Workload_Optimization_Completed = ''WorkloadOptimizationCompleted''"
| "event_type_value Workload_Optimization_Failed = ''WorkloadOptimizationFailed''"
| "event_type_value System_Verification_Requested = ''SystemVerificationRequested''"
| "event_type_value System_Verification_Completed = ''SystemVerificationCompleted''"
| "event_type_value Dependency_Context_Requested = ''DependencyContextRequested''"
| "event_type_value Dead_Lettered = ''DeadLettered''"

definition event_types :: "event_type list" where
  "event_types =
     [Analysis_Requested, Workload_Optimization_Requested, Workload_Optimization_Started,
      Candidate_Policy_Generated, Verification_Failed, Workload_Optimization_Completed,
      Workload_Optimization_Failed, System_Verification_Requested,
      System_Verification_Completed, Dependency_Context_Requested, Dead_Lettered]"

text \<open>\<open>EventType(s)\<close>.\<close>

definition event_type_of :: "string \<Rightarrow> event_type result" where
  "event_type_of s =
     (case find (\<lambda>t. event_type_value t = s) event_types of
        None \<Rightarrow> Inl (ValueError (repr_str s @ '' is not a valid EventType''))
      | Some t \<Rightarrow> Inr t)"

lemma event_type_value_inj: "event_type_value t = event_type_value u \<longleftrightarrow> t = u"
  by (cases t; cases u) simp_all

lemma event_types_complete: "t \<in> set event_types"
  by (cases t) (simp_all add: event_types_def)

lemma event_type_of_value [simp]: "event_type_of (event_type_value t) = Inr t"
  using event_types_complete [of t]
  by (auto simp: event_type_of_def event_type_value_inj find_None_iff split: option.splits
      dest!: iffD1 [OF find_Some_iff])

text \<open>Event types are ordered as the strings they are.\<close>

instantiation event_type :: linorder
begin

definition less_eq_event_type :: "event_type \<Rightarrow> event_type \<Rightarrow> bool" where
  "less_eq_event_type t u \<longleftrightarrow> event_type_value t \<le> event_type_value u"

definition less_event_type :: "event_type \<Rightarrow> event_type \<Rightarrow> bool" where
  "less_event_type t u \<longleftrightarrow> event_type_value t < event_type_value u"

instance
  by standard
    (auto simp: less_eq_event_type_def less_event_type_def event_type_value_inj [symmetric])

end

datatype topic =
    Analysis_Requests | Optimization_Requests | Optimization_Results | Verification_Events
  | System_Events | Dlq

fun topic_name :: "topic \<Rightarrow> string" where
  "topic_name Analysis_Requests = ''kuber.analysis.requests''"
| "topic_name Optimization_Requests = ''kuber.workload.optimization.requests''"
| "topic_name Optimization_Results = ''kuber.workload.optimization.results''"
| "topic_name Verification_Events = ''kuber.verification.events''"
| "topic_name System_Events = ''kuber.system.events''"
| "topic_name Dlq = ''kuber.dlq''"

definition optimization_consumer_group :: string where
  "optimization_consumer_group = ''kuber-optimization-workers''"

section \<open>The envelope\<close>

record event_envelope =
  en_event_type :: event_type
  en_run_id :: string
  en_correlation_id :: string
  en_payload :: pydict
  en_event_id :: string
  en_timestamp :: string
  en_causation_id :: "string option"
  en_attempt :: int
  en_schema_version :: string

text \<open>\<open>__post_init__\<close>: every construction of an envelope goes through it.\<close>

definition check_envelope :: "event_envelope \<Rightarrow> event_envelope result" where
  "check_envelope e =
     (case find (\<lambda>(name, value). value = '''')
             [(''event_id'', en_event_id e), (''run_id'', en_run_id e),
              (''correlation_id'', en_correlation_id e), (''schema_version'', en_schema_version e)] of
        Some (name, value) \<Rightarrow> Inl (ValueError (name @ '' must not be empty''))
      | None \<Rightarrow>
          if en_attempt e < 0 then Inl (ValueError ''attempt must be non-negative'')
          else if en_schema_version e \<noteq> ''1'' then
            Inl (ValueError (''unsupported event schema version: '' @ en_schema_version e))
          else Inr e)"

definition envelope_wf :: "event_envelope \<Rightarrow> bool" where
  "envelope_wf e \<longleftrightarrow>
     en_event_id e \<noteq> '''' \<and> en_run_id e \<noteq> '''' \<and> en_correlation_id e \<noteq> '''' \<and>
     0 \<le> en_attempt e \<and> en_schema_version e = ''1''"

text \<open>The constructor with the defaults of the class: \<open>ident\<close> is the drawn (event id, time).\<close>

definition new_envelope ::
  "string \<times> string \<Rightarrow> event_type \<Rightarrow> string \<Rightarrow> string \<Rightarrow> string option \<Rightarrow> int \<Rightarrow> pydict \<Rightarrow>
   event_envelope result" where
  "new_envelope ident kind run_id correlation_id causation_id attempt payload =
     check_envelope
       \<lparr>en_event_type = kind, en_run_id = run_id, en_correlation_id = correlation_id,
        en_payload = payload, en_event_id = fst ident, en_timestamp = snd ident,
        en_causation_id = causation_id, en_attempt = attempt, en_schema_version = ''1''\<rparr>"

definition payload_text :: "event_envelope \<Rightarrow> string \<Rightarrow> string option" where
  "payload_text e key =
     (case dget (en_payload e) key of PNone \<Rightarrow> None | v \<Rightarrow> Some (py_str v))"

definition envelope_task_id :: "event_envelope \<Rightarrow> string option" where
  "envelope_task_id e = payload_text e ''task_id''"

definition envelope_workload_id :: "event_envelope \<Rightarrow> string option" where
  "envelope_workload_id e = payload_text e ''workload_id''"

definition envelope_to_dict :: "event_envelope \<Rightarrow> pydict" where
  "envelope_to_dict e =
     [(''event_type'', PStr (event_type_value (en_event_type e))),
      (''run_id'', PStr (en_run_id e)),
      (''correlation_id'', PStr (en_correlation_id e)),
      (''payload'', PDict (en_payload e)),
      (''event_id'', PStr (en_event_id e)),
      (''timestamp'', PStr (en_timestamp e)),
      (''causation_id'', opt_str (en_causation_id e)),
      (''attempt'', PInt (en_attempt e)),
      (''schema_version'', PStr (en_schema_version e))]"

definition envelope_to_json :: "event_envelope \<Rightarrow> string" where
  "envelope_to_json e = json_compact (PDict (envelope_to_dict e))"

definition required_fields :: "string list" where
  "required_fields =
     [''event_id'', ''event_type'', ''timestamp'', ''run_id'', ''correlation_id'', ''payload'']"

definition envelope_from_dict ::
  "(string \<Rightarrow> int result) \<Rightarrow> pydict \<Rightarrow> event_envelope result" where
  "envelope_from_dict float_int d =
     (let missing = sort (filter (\<lambda>k. map_of d k = None) required_fields) in
      if missing \<noteq> [] then
        Inl (ValueError (''event is missing required fields: '' @ py_join '', '' missing))
      else
        (case dget d ''payload'' of
           PDict payload \<Rightarrow>
             rbind (event_type_of (py_str (dget d ''event_type''))) (\<lambda>kind.
             rbind (py_int float_int (dget_or d ''attempt'' (PInt 0))) (\<lambda>attempt.
             check_envelope
               \<lparr>en_event_type = kind, en_run_id = py_str (dget d ''run_id''),
                en_correlation_id = py_str (dget d ''correlation_id''), en_payload = payload,
                en_event_id = py_str (dget d ''event_id''),
                en_timestamp = py_str (dget d ''timestamp''),
                en_causation_id =
                  (if truthy (dget d ''causation_id'') then Some (py_str (dget d ''causation_id''))
                   else None),
                en_attempt = attempt,
                en_schema_version = py_str (dget_or d ''schema_version'' (PStr ''1''))\<rparr>))
         | _ \<Rightarrow> Inl (ValueError ''event payload must be an object'')))"

text \<open>\<open>from_json\<close>; \<open>loads\<close> is the JSON decoder.\<close>

definition envelope_from_json ::
  "(string \<Rightarrow> int result) \<Rightarrow> (string \<Rightarrow> pyval result) \<Rightarrow> string \<Rightarrow> event_envelope result" where
  "envelope_from_json float_int loads s =
     rbind (loads s) (\<lambda>decoded.
       case decoded of
         PDict d \<Rightarrow> envelope_from_dict float_int d
       | _ \<Rightarrow> Inl (ValueError ''event must be a JSON object''))"

definition next_attempt ::
  "string \<times> string \<Rightarrow> string option \<Rightarrow> event_envelope \<Rightarrow> event_envelope result" where
  "next_attempt ident causation_id e =
     check_envelope
       \<lparr>en_event_type = en_event_type e, en_run_id = en_run_id e,
        en_correlation_id = en_correlation_id e, en_payload = en_payload e,
        en_event_id = fst ident, en_timestamp = snd ident,
        en_causation_id = Some (if truthy_opt causation_id then or_empty causation_id
                                else en_event_id e),
        en_attempt = en_attempt e + 1, en_schema_version = en_schema_version e\<rparr>"

section \<open>Well-formedness and round trip\<close>

lemma check_envelope_Inr_iff: "check_envelope e = Inr e' \<longleftrightarrow> e' = e \<and> envelope_wf e"
  by (auto simp: check_envelope_def envelope_wf_def)

lemma check_envelope_error: "check_envelope e = Inl err \<Longrightarrow> is_value_error err"
  by (auto simp: check_envelope_def split: option.splits if_splits)

lemma new_envelope_wf: "new_envelope ident kind run corr caus att payload = Inr e \<Longrightarrow> envelope_wf e"
  by (simp add: new_envelope_def check_envelope_Inr_iff)

lemma from_dict_wf: "envelope_from_dict float_int d = Inr e \<Longrightarrow> envelope_wf e"
  by (auto simp: envelope_from_dict_def Let_def rbind_Inr_iff check_envelope_Inr_iff
      split: if_splits pyval.splits)

lemma envelope_roundtrip:
  assumes "envelope_wf e" and "en_causation_id e \<noteq> Some ''''"
  shows "envelope_from_dict float_int (envelope_to_dict e) = Inr e"
  using assms
  by (cases "en_causation_id e")
    (simp_all add: envelope_from_dict_def envelope_to_dict_def required_fields_def py_int_def
      check_envelope_Inr_iff Let_def envelope_wf_def)

lemma next_attempt_Inr:
  assumes "envelope_wf e" and "fst ident \<noteq> ''''"
  shows "\<exists>e'. next_attempt ident causation e = Inr e' \<and> envelope_wf e' \<and>
    en_attempt e' = en_attempt e + 1 \<and> en_payload e' = en_payload e \<and>
    en_event_type e' = en_event_type e \<and> en_run_id e' = en_run_id e \<and>
    en_correlation_id e' = en_correlation_id e \<and> en_event_id e' = fst ident"
  using assms by (simp add: next_attempt_def check_envelope_Inr_iff) (simp add: envelope_wf_def)

end
