(* ===== verification/Event_Bus.thy ===== *)
theory Event_Bus
  imports Events Trajectory
begin

text \<open>
  \<open>event_layer/bus.py\<close>: the in-memory event bus. Each operation holds the bus lock for its whole
  effect, so it is one atomic step here; \<open>bus_next\<close> is one turn of the consumer loop up to the
  message it yields. Calls of \<open>event_callback\<close> are kept in order
  (the callback is assumed to return). The log of a topic is the source of truth: the lemmas show
  what every operation keeps of it and of the consumer groups' queues.
\<close>

record published_event =
  pe_topic :: string
  pe_key :: string
  pe_partition :: nat
  pe_offset :: nat
  pe_event :: event_envelope

record consumed_event = published_event +
  ce_consumer_group :: string
  ce_consumer_id :: string
  ce_delivery_count :: nat

datatype callback =
    Published published_event
  | Claimed consumed_event
  | Acknowledged consumed_event

type_synonym ack_key = "string \<times> string \<times> nat \<times> nat"

record event_bus =
  eb_partitions :: nat
  eb_logs :: "string \<Rightarrow> published_event list"
  eb_queues :: "((string \<times> string) \<times> consumed_event list) list"
  eb_acknowledged :: "ack_key list"
  eb_closed :: bool
  eb_callbacks :: "callback list"

definition new_bus :: "int \<Rightarrow> event_bus result" where
  "new_bus partitions =
     (if partitions < 1 then Inl (ValueError ''partitions must be positive'')
      else Inr \<lparr>eb_partitions = nat partitions, eb_logs = (\<lambda>_. []), eb_queues = [],
                eb_acknowledged = [], eb_closed = False, eb_callbacks = []\<rparr>)"

text \<open>\<open>sum(key.encode()) % partitions\<close>.\<close>

definition partition_for :: "nat \<Rightarrow> string \<Rightarrow> nat" where
  "partition_for partitions key = sum_list (map of_char (utf8 key)) mod partitions"

definition consumed :: "published_event \<Rightarrow> string \<Rightarrow> string \<Rightarrow> consumed_event" where
  "consumed p consumer_group consumer_id =
     \<lparr>pe_topic = pe_topic p, pe_key = pe_key p, pe_partition = pe_partition p,
      pe_offset = pe_offset p, pe_event = pe_event p, ce_consumer_group = consumer_group,
      ce_consumer_id = consumer_id, ce_delivery_count = 1\<rparr>"

definition ack_key_of :: "consumed_event \<Rightarrow> string \<Rightarrow> ack_key" where
  "ack_key_of m consumer_group = (pe_topic m, consumer_group, pe_partition m, pe_offset m)"

definition ensure_open :: "event_bus \<Rightarrow> unit result" where
  "ensure_open bus =
     (if eb_closed bus then Inl (RuntimeError ''event bus is closed'') else Inr ())"

definition enqueue_topic ::
  "string \<Rightarrow> consumed_event \<Rightarrow> ((string \<times> string) \<times> consumed_event list) list \<Rightarrow>
   ((string \<times> string) \<times> consumed_event list) list" where
  "enqueue_topic topic m queues =
     map (\<lambda>((t, g), q). ((t, g), if t = topic then q @ [m] else q)) queues"

definition bus_publish ::
  "string \<Rightarrow> event_envelope \<Rightarrow> string \<Rightarrow> event_bus \<Rightarrow> published_event result \<times> event_bus" where
  "bus_publish topic e key bus =
     (if key = '''' then (Inl (ValueError ''event key must not be empty''), bus)
      else
        (case ensure_open bus of
           Inl err \<Rightarrow> (Inl err, bus)
         | Inr _ \<Rightarrow>
             let part = partition_for (eb_partitions bus) key;
                 off = length (filter (\<lambda>p. pe_partition p = part) (eb_logs bus topic));
                 published = \<lparr>pe_topic = topic, pe_key = key, pe_partition = part,
                              pe_offset = off, pe_event = e\<rparr>
             in (Inr published,
                 bus\<lparr>eb_logs := (eb_logs bus)(topic := eb_logs bus topic @ [published]),
                     eb_queues := enqueue_topic topic (consumed published '''' '''') (eb_queues bus),
                     eb_callbacks := eb_callbacks bus @ [Published published]\<rparr>)))"

text \<open>\<open>_subscribe\<close>: a group that is new to a topic starts with the whole log.\<close>

definition bus_subscribe :: "string \<Rightarrow> string \<Rightarrow> event_bus \<Rightarrow> unit result \<times> event_bus" where
  "bus_subscribe topic consumer_group bus =
     (case ensure_open bus of
        Inl err \<Rightarrow> (Inl err, bus)
      | Inr _ \<Rightarrow>
          (case map_of (eb_queues bus) (topic, consumer_group) of
             Some q \<Rightarrow> (Inr (), bus)
           | None \<Rightarrow>
               (Inr (), bus\<lparr>eb_queues := eb_queues bus @
                  [((topic, consumer_group),
                    map (\<lambda>p. consumed p consumer_group '''') (eb_logs bus topic))]\<rparr>)))"

text \<open>The consumer loop skips acknowledged messages: what is left of a queue, and the message.\<close>

fun skip_acknowledged ::
  "ack_key list \<Rightarrow> string \<Rightarrow> consumed_event list \<Rightarrow> consumed_event option \<times> consumed_event list" where
  "skip_acknowledged acked g [] = (None, [])"
| "skip_acknowledged acked g (m # ms) =
     (if ack_key_of m g \<in> set acked then skip_acknowledged acked g ms else (Some m, ms))"

definition set_queue ::
  "string \<times> string \<Rightarrow> consumed_event list \<Rightarrow> event_bus \<Rightarrow> event_bus" where
  "set_queue gk q bus = bus\<lparr>eb_queues := AList.update gk q (eb_queues bus)\<rparr>"

definition queue_of :: "event_bus \<Rightarrow> string \<Rightarrow> string \<Rightarrow> consumed_event list" where
  "queue_of bus topic consumer_group =
     (case map_of (eb_queues bus) (topic, consumer_group) of None \<Rightarrow> [] | Some q \<Rightarrow> q)"

text \<open>\<open>anext\<close> on a subscribed consumer: one turn of its loop. A closed bus ends the iteration.\<close>

datatype turn = Message consumed_event | Waits | Ends

definition bus_next ::
  "string \<Rightarrow> string \<Rightarrow> string \<Rightarrow> event_bus \<Rightarrow> turn \<times> event_bus" where
  "bus_next topic consumer_group consumer_id bus =
     (if eb_closed bus then (Ends, bus)
      else
        (case skip_acknowledged (eb_acknowledged bus) consumer_group
                (queue_of bus topic consumer_group) of
           (None, rest) \<Rightarrow> (Waits, set_queue (topic, consumer_group) rest bus)
         | (Some m, rest) \<Rightarrow>
             let claimed = m\<lparr>ce_consumer_group := consumer_group, ce_consumer_id := consumer_id\<rparr>
             in (Message claimed,
                 (set_queue (topic, consumer_group) rest bus)
                   \<lparr>eb_callbacks := eb_callbacks bus @ [Claimed claimed]\<rparr>)))"

text \<open>The first \<open>anext\<close> on \<open>consume(...)\<close>: its checks and the subscription come first.\<close>

definition bus_claim ::
  "string \<Rightarrow> string \<Rightarrow> string \<Rightarrow> event_bus \<Rightarrow> turn result \<times> event_bus" where
  "bus_claim topic consumer_group consumer_id bus =
     (if consumer_group = '''' \<or> consumer_id = '''' then
        (Inl (ValueError ''consumer_group and consumer_id must not be empty''), bus)
      else
        (case bus_subscribe topic consumer_group bus of
           (Inl err, bus1) \<Rightarrow> (Inl err, bus1)
         | (Inr _, bus1) \<Rightarrow>
             (case bus_next topic consumer_group consumer_id bus1 of
                (turn, bus2) \<Rightarrow> (Inr turn, bus2))))"

definition bus_acknowledge :: "consumed_event \<Rightarrow> event_bus \<Rightarrow> unit result \<times> event_bus" where
  "bus_acknowledge m bus =
     (Inr (), bus\<lparr>eb_acknowledged := ack_key_of m (ce_consumer_group m) # eb_acknowledged bus,
                  eb_callbacks := eb_callbacks bus @ [Acknowledged m]\<rparr>)"

text \<open>\<open>retry\<close>: the message goes to the end of its group's queue with the next attempt.\<close>

definition bus_retry ::
  "string \<times> string \<Rightarrow> consumed_event \<Rightarrow> string \<Rightarrow> event_bus \<Rightarrow> unit result \<times> event_bus" where
  "bus_retry ident m reason bus =
     (if reason = '''' then (Inl (ValueError ''retry reason must not be empty''), bus)
      else
        (case map_of (eb_queues bus) (pe_topic m, ce_consumer_group m) of
           None \<Rightarrow>
             (Inl (KeyError (''('' @ repr_str (pe_topic m) @ '', '' @ repr_str (ce_consumer_group m)
                @ '')'')), bus)
         | Some q \<Rightarrow>
             (case next_attempt ident None (pe_event m) of
                Inl err \<Rightarrow> (Inl err, bus)
              | Inr e \<Rightarrow>
                  (Inr (), set_queue (pe_topic m, ce_consumer_group m)
                     (q @ [m\<lparr>pe_event := e, ce_delivery_count := ce_delivery_count m + 1\<rparr>]) bus))))"

definition dead_letter_event ::
  "string \<times> string \<Rightarrow> consumed_event \<Rightarrow> string \<Rightarrow> event_envelope result" where
  "dead_letter_event ident m reason =
     new_envelope ident Dead_Lettered (en_run_id (pe_event m)) (en_correlation_id (pe_event m))
       (Some (en_event_id (pe_event m))) (en_attempt (pe_event m))
       [(''source_topic'', PStr (pe_topic m)),
        (''source_event'', PDict (envelope_to_dict (pe_event m))),
        (''reason'', PStr reason)]"

definition bus_dead_letter ::
  "string \<times> string \<Rightarrow> consumed_event \<Rightarrow> string \<Rightarrow> event_bus \<Rightarrow> published_event result \<times> event_bus" where
  "bus_dead_letter ident m reason bus =
     (case dead_letter_event ident m reason of
        Inl err \<Rightarrow> (Inl err, bus)
      | Inr e \<Rightarrow>
          (case bus_publish (topic_name Dlq) e (pe_key m) bus of
             (Inl err, bus1) \<Rightarrow> (Inl err, bus1)
           | (Inr published, bus1) \<Rightarrow>
               (case bus_acknowledge m bus1 of (_, bus2) \<Rightarrow> (Inr published, bus2))))"

definition bus_close :: "event_bus \<Rightarrow> event_bus" where
  "bus_close bus = bus\<lparr>eb_closed := True\<rparr>"

definition topic_events :: "string \<Rightarrow> event_bus \<Rightarrow> published_event list" where
  "topic_events topic bus = eb_logs bus topic"

section \<open>Well-formed buses\<close>

text \<open>Per topic and partition the offsets of the log count up from zero in publication order.\<close>

definition log_wf :: "nat \<Rightarrow> string \<Rightarrow> published_event list \<Rightarrow> bool" where
  "log_wf partitions topic log \<longleftrightarrow>
     (\<forall>p \<in> set log. pe_topic p = topic \<and> pe_partition p = partition_for partitions (pe_key p)) \<and>
     (\<forall>k. map pe_offset (filter (\<lambda>p. pe_partition p = k) log) =
          [0..<length (filter (\<lambda>p. pe_partition p = k) log)])"

text \<open>A queued message is a delivery of a log entry of its topic, up to the attempt.\<close>

definition delivers :: "event_bus \<Rightarrow> string \<Rightarrow> consumed_event \<Rightarrow> bool" where
  "delivers bus topic m \<longleftrightarrow>
     pe_topic m = topic \<and>
     (\<exists>p \<in> set (eb_logs bus topic). pe_partition p = pe_partition m \<and> pe_offset p = pe_offset m \<and>
        pe_key p = pe_key m \<and> en_payload (pe_event p) = en_payload (pe_event m))"

definition bus_wf :: "event_bus \<Rightarrow> bool" where
  "bus_wf bus \<longleftrightarrow>
     0 < eb_partitions bus \<and>
     (\<forall>topic. log_wf (eb_partitions bus) topic (eb_logs bus topic)) \<and>
     distinct (map fst (eb_queues bus)) \<and>
     (\<forall>t g q m. ((t, g), q) \<in> set (eb_queues bus) \<longrightarrow> m \<in> set q \<longrightarrow> delivers bus t m)"

lemma new_bus_wf: "new_bus n = Inr bus \<Longrightarrow> bus_wf bus"
  by (auto simp: new_bus_def bus_wf_def log_wf_def split: if_splits)

lemma bus_wfI:
  assumes "0 < eb_partitions bus" "\<And>topic. log_wf (eb_partitions bus) topic (eb_logs bus topic)"
    and "distinct (map fst (eb_queues bus))"
    and "\<And>t g q m. ((t, g), q) \<in> set (eb_queues bus) \<Longrightarrow> m \<in> set q \<Longrightarrow> delivers bus t m"
  shows "bus_wf bus"
  using assms unfolding bus_wf_def by blast

lemma delivers_mono:
  "delivers bus t m \<Longrightarrow> set (eb_logs bus t) \<subseteq> set (eb_logs bus' t) \<Longrightarrow> delivers bus' t m"
  unfolding delivers_def by blast

lemma log_wf_snoc:
  assumes "log_wf n topic log" and "pe_topic p = topic" and "pe_partition p = partition_for n (pe_key p)"
    and "pe_offset p = length (filter (\<lambda>x. pe_partition x = pe_partition p) log)"
  shows "log_wf n topic (log @ [p])"
  using assms by (auto simp: log_wf_def)

lemma bus_publish_Inr:
  assumes "bus_publish topic e key bus = (Inr p, bus')"
  shows "key \<noteq> ''''" "\<not> eb_closed bus"
    and "p = \<lparr>pe_topic = topic, pe_key = key, pe_partition = partition_for (eb_partitions bus) key,
      pe_offset = length (filter (\<lambda>x. pe_partition x = partition_for (eb_partitions bus) key)
        (eb_logs bus topic)), pe_event = e\<rparr>"
    and "bus' = bus\<lparr>eb_logs := (eb_logs bus)(topic := eb_logs bus topic @ [p]),
      eb_queues := enqueue_topic topic (consumed p '''' '''') (eb_queues bus),
      eb_callbacks := eb_callbacks bus @ [Published p]\<rparr>"
  using assms by (auto simp: bus_publish_def ensure_open_def Let_def split: if_splits)

lemma enqueue_topic_keys [simp]: "map fst (enqueue_topic topic m qs) = map fst qs"
  by (auto simp: enqueue_topic_def)

lemma enqueue_topic_mem:
  "((t, g), q) \<in> set (enqueue_topic topic m qs) \<longleftrightarrow>
     (\<exists>q0. ((t, g), q0) \<in> set qs \<and> q = (if t = topic then q0 @ [m] else q0))"
  by (force simp: enqueue_topic_def)

lemma bus_publish_wf:
  assumes "bus_wf bus" and "bus_publish topic e key bus = (Inr p, bus')"
  shows "bus_wf bus'"
proof -
  note pub = bus_publish_Inr [OF assms(2)]
  have deliver: "delivers bus' topic (consumed p '''' '''')"
    by (simp add: delivers_def pub(4) consumed_def) (simp add: pub(3))
  show ?thesis
  proof (rule bus_wfI)
    show "0 < eb_partitions bus'" using assms(1) by (simp add: pub(4) bus_wf_def)
    show "log_wf (eb_partitions bus') t (eb_logs bus' t)" for t
      using assms(1) by (auto simp: pub(4) bus_wf_def pub(3) intro!: log_wf_snoc)
    show "distinct (map fst (eb_queues bus'))" using assms(1) by (simp add: pub(4) bus_wf_def)
    fix t g q m assume "((t, g), q) \<in> set (eb_queues bus')" "m \<in> set q"
    then obtain q0 where "((t, g), q0) \<in> set (eb_queues bus)"
      and "m \<in> set q0 \<or> (t = topic \<and> m = consumed p '''' '''')"
      by (auto simp: pub(4) enqueue_topic_mem split: if_splits)
    moreover have "delivers bus' t m" if "delivers bus t m"
      using that by (rule delivers_mono) (auto simp: pub(4))
    ultimately show "delivers bus' t m"
      using assms(1) deliver unfolding bus_wf_def by blast
  qed
qed

lemma consumed_delivers:
  "log_wf n topic (eb_logs bus topic) \<Longrightarrow> p \<in> set (eb_logs bus topic) \<Longrightarrow>
   delivers bus topic (consumed p g c)"
  by (auto simp: delivers_def consumed_def log_wf_def)

lemma bus_subscribe_wf:
  assumes "bus_wf bus" and "bus_subscribe topic g bus = (x, bus')"
  shows "bus_wf bus' \<and> eb_logs bus' = eb_logs bus \<and> eb_acknowledged bus' = eb_acknowledged bus"
proof (cases "eb_closed bus \<or> map_of (eb_queues bus) (topic, g) \<noteq> None")
  case True
  with assms show ?thesis
    by (auto simp: bus_subscribe_def ensure_open_def split: if_splits)
next
  case False
  then have new: "(topic, g) \<notin> fst ` set (eb_queues bus)" by (auto simp: map_of_eq_None_iff)
  let ?q = "map (\<lambda>p. consumed p g '''') (eb_logs bus topic)"
  from False assms(2) have bus': "bus' = bus\<lparr>eb_queues := eb_queues bus @ [((topic, g), ?q)]\<rparr>"
    by (auto simp: bus_subscribe_def ensure_open_def)
  have "bus_wf bus'"
  proof (rule bus_wfI)
    show "0 < eb_partitions bus'" "distinct (map fst (eb_queues bus'))"
      using assms(1) new by (auto simp: bus' bus_wf_def)
    show "log_wf (eb_partitions bus') t (eb_logs bus' t)" for t
      using assms(1) by (simp add: bus' bus_wf_def)
    fix t g' q m assume q: "((t, g'), q) \<in> set (eb_queues bus')" "m \<in> set q"
    have same: "delivers bus' t m \<longleftrightarrow> delivers bus t m" by (simp add: bus' delivers_def)
    show "delivers bus' t m"
    proof (cases "((t, g'), q) \<in> set (eb_queues bus)")
      case True
      with q(2) assms(1) same show ?thesis unfolding bus_wf_def by blast
    next
      case False
      with q have "t = topic" "m \<in> set ?q" by (auto simp: bus')
      with assms(1) same show ?thesis
        by (auto simp: bus_wf_def intro!: consumed_delivers)
    qed
  qed
  then show ?thesis by (simp add: bus')
qed

lemma set_queue_wf:
  assumes "bus_wf bus" and "\<And>m. m \<in> set q \<Longrightarrow> delivers bus (fst gk) m"
  shows "bus_wf (set_queue gk q bus)"
proof (rule bus_wfI)
  show "0 < eb_partitions (set_queue gk q bus)"
    and "distinct (map fst (eb_queues (set_queue gk q bus)))"
    using assms(1) by (simp_all add: set_queue_def bus_wf_def distinct_update)
  show "log_wf (eb_partitions (set_queue gk q bus)) t (eb_logs (set_queue gk q bus) t)" for t
    using assms(1) by (simp add: set_queue_def bus_wf_def)
  fix t g q' m assume q': "((t, g), q') \<in> set (eb_queues (set_queue gk q bus))" "m \<in> set q'"
  have same: "delivers (set_queue gk q bus) t m \<longleftrightarrow> delivers bus t m"
    by (simp add: set_queue_def delivers_def)
  have "distinct (map fst (AList.update gk q (eb_queues bus)))"
    using assms(1) by (simp add: bus_wf_def distinct_update)
  with q'(1) have "map_of (AList.update gk q (eb_queues bus)) (t, g) = Some q'"
    by (simp add: set_queue_def)
  then have "(if (t, g) = gk then Some q else map_of (eb_queues bus) (t, g)) = Some q'"
    by (simp add: AList.update_conv')
  then consider "(t, g) = gk" "q' = q" | "((t, g), q') \<in> set (eb_queues bus)"
    by (auto split: if_splits dest: map_of_SomeD)
  then show "delivers (set_queue gk q bus) t m"
    using q'(2) assms same unfolding bus_wf_def by cases fastforce+
qed

lemma skip_acknowledged_result:
  "skip_acknowledged acked g q = (r, rest) \<Longrightarrow>
   set rest \<subseteq> set q \<and>
   (\<forall>m. r = Some m \<longrightarrow> m \<in> set q \<and> ack_key_of m g \<notin> set acked) \<and>
   (r = None \<longrightarrow> rest = [] \<and> (\<forall>m \<in> set q. ack_key_of m g \<in> set acked))"
  by (induction q) (auto split: if_splits)

lemma queue_delivers: "bus_wf bus \<Longrightarrow> m \<in> set (queue_of bus topic g) \<Longrightarrow> delivers bus topic m"
  unfolding bus_wf_def queue_of_def by (auto split: option.splits dest: map_of_SomeD)

lemma bus_next_wf:
  assumes "bus_wf bus" and "bus_next topic g c bus = (turn, bus')"
  shows "bus_wf bus' \<and> eb_logs bus' = eb_logs bus \<and> eb_acknowledged bus' = eb_acknowledged bus"
proof -
  let ?q = "queue_of bus topic g"
  obtain r rest where skip: "skip_acknowledged (eb_acknowledged bus) g ?q = (r, rest)" by fastforce
  have "bus_wf (set_queue (topic, g) rest bus)"
    using assms(1) skip_acknowledged_result [OF skip]
    by (intro set_queue_wf) (auto intro: queue_delivers)
  then show ?thesis
    using assms skip
    by (auto simp: bus_next_def Let_def set_queue_def bus_wf_def delivers_def
        split: if_splits option.splits)
qed

lemma bus_next_message:
  assumes "bus_wf bus" and "bus_next topic g c bus = (Message m, bus')"
  shows "ack_key_of m g \<notin> set (eb_acknowledged bus)" and "delivers bus topic m"
    and "ce_consumer_group m = g" and "ce_consumer_id m = c"
proof -
  let ?q = "queue_of bus topic g"
  from assms(2) obtain m0 rest where
    skip: "skip_acknowledged (eb_acknowledged bus) g ?q = (Some m0, rest)"
    and m: "m = m0\<lparr>ce_consumer_group := g, ce_consumer_id := c\<rparr>"
    by (auto simp: bus_next_def Let_def split: if_splits option.splits prod.splits)
  note res = skip_acknowledged_result [OF skip]
  have "delivers bus topic m0"
    using assms(1) res by (blast intro: queue_delivers)
  then show "ack_key_of m g \<notin> set (eb_acknowledged bus)" "delivers bus topic m"
    "ce_consumer_group m = g" "ce_consumer_id m = c"
    using res by (simp_all add: m ack_key_of_def delivers_def)
qed

lemma bus_claim_wf:
  assumes "bus_wf bus" and "bus_claim topic g c bus = (r, bus')"
  shows "bus_wf bus' \<and> eb_logs bus' = eb_logs bus \<and> eb_acknowledged bus' = eb_acknowledged bus"
proof -
  obtain u bus1 where sub: "bus_subscribe topic g bus = (u, bus1)" by fastforce
  obtain turn bus2 where next1: "bus_next topic g c bus1 = (turn, bus2)" by fastforce
  note wf1 = bus_subscribe_wf [OF assms(1) sub]
  note wf2 = bus_next_wf [OF conjunct1 [OF wf1] next1]
  show ?thesis
    using assms wf1 wf2 sub next1 by (auto simp: bus_claim_def split: if_splits sum.splits)
qed

lemma bus_acknowledge_wf: "bus_wf bus \<Longrightarrow> bus_wf (snd (bus_acknowledge m bus))"
  by (simp add: bus_acknowledge_def bus_wf_def delivers_def)

lemma next_attempt_payload:
  "next_attempt ident causation e = Inr e' \<Longrightarrow> en_payload e' = en_payload e \<and>
   en_attempt e' = en_attempt e + 1"
  by (auto simp: next_attempt_def check_envelope_Inr_iff)

lemma bus_retry_wf:
  assumes "bus_wf bus" and "delivers bus (pe_topic m) m"
  shows "bus_wf (snd (bus_retry ident m reason bus))"
proof (cases "map_of (eb_queues bus) (pe_topic m, ce_consumer_group m)")
  case None
  with assms(1) show ?thesis by (simp add: bus_retry_def)
next
  case (Some q)
  show ?thesis
  proof (cases "next_attempt ident None (pe_event m)")
    case (Inl err)
    with assms(1) Some show ?thesis by (simp add: bus_retry_def)
  next
    case (Inr e)
    let ?m = "m\<lparr>pe_event := e, ce_delivery_count := ce_delivery_count m + 1\<rparr>"
    have "delivers bus (pe_topic m) ?m"
      using assms(2) next_attempt_payload [OF Inr] by (simp add: delivers_def)
    moreover have "delivers bus (pe_topic m) x" if "x \<in> set q" for x
      using assms(1) map_of_SomeD [OF Some] that unfolding bus_wf_def by blast
    ultimately have "bus_wf (set_queue (pe_topic m, ce_consumer_group m) (q @ [?m]) bus)"
      using assms(1) by (intro set_queue_wf) auto
    with assms(1) Some Inr show ?thesis by (simp add: bus_retry_def)
  qed
qed

lemma bus_dead_letter_wf:
  assumes "bus_wf bus"
  shows "bus_wf (snd (bus_dead_letter ident m reason bus))"
proof (cases "dead_letter_event ident m reason")
  case (Inl err)
  with assms show ?thesis by (simp add: bus_dead_letter_def)
next
  case (Inr e)
  obtain x bus1 where pub: "bus_publish (topic_name Dlq) e (pe_key m) bus = (x, bus1)"
    by (cases "bus_publish (topic_name Dlq) e (pe_key m) bus")
  show ?thesis
  proof (cases x)
    case (Inl err)
    then have "bus1 = bus"
      using pub by (auto simp: bus_publish_def ensure_open_def Let_def split: if_splits)
    with assms Inr Inl pub show ?thesis by (simp add: bus_dead_letter_def)
  next
    case (Inr p)
    have "bus_wf bus1" using bus_publish_wf [OF assms] pub Inr by blast
    then show ?thesis
      using \<open>dead_letter_event ident m reason = Inr e\<close> pub Inr bus_acknowledge_wf [of bus1 m]
      by (simp add: bus_dead_letter_def bus_acknowledge_def)
  qed
qed

text \<open>In a well-formed log, partition and offset identify an entry.\<close>

lemma log_positions_distinct:
  assumes "log_wf n topic log"
  shows "distinct (map (\<lambda>p. (pe_partition p, pe_offset p)) log)"
proof -
  have "distinct (map (\<lambda>p. (pe_partition p, pe_offset p)) ps)"
    if "\<And>k. distinct (map pe_offset (filter (\<lambda>p. pe_partition p = k) ps))" for ps
    using that
  proof (induction ps)
    case (Cons p ps)
    have "distinct (map pe_offset (filter (\<lambda>p. pe_partition p = k) ps))" for k
      using Cons.prems [of k] by (simp split: if_splits)
    moreover have "pe_offset p \<notin> pe_offset ` {x \<in> set ps. pe_partition x = pe_partition p}"
      using Cons.prems [of "pe_partition p"] by auto
    ultimately show ?case using Cons.IH by auto
  qed simp
  moreover have "distinct (map pe_offset (filter (\<lambda>p. pe_partition p = k) log))" for k
    using assms unfolding log_wf_def by (metis distinct_upt)
  ultimately show ?thesis by blast
qed

end
