(* ===== verification/Context_Models.thy ===== *)
theory Context_Models
  imports Py_Value "HOL-Library.AList"
begin

text \<open>
  \<open>context_layer/models.py\<close>: source repositories, service contexts and indexed contexts with their
  dictionary forms. Constructing a service context checks that its repository is its own; the
  readers raise where the code does. The lemmas are the round trips and what a reader guarantees.
\<close>

section \<open>Reading dynamic values\<close>

definition type_name :: "pyval \<Rightarrow> string" where
  "type_name v =
     (case v of PNone \<Rightarrow> ''NoneType'' | PBool _ \<Rightarrow> ''bool'' | PInt _ \<Rightarrow> ''int'' | PFloat _ \<Rightarrow> ''float''
      | PStr _ \<Rightarrow> ''str'' | PList _ \<Rightarrow> ''list'' | PDict _ \<Rightarrow> ''dict'')"

text \<open>\<open>iter(v)\<close> run to its end, \<open>tuple(map(str, v))\<close>.\<close>

definition py_iter :: "pyval \<Rightarrow> pyval list result" where
  "py_iter v =
     (case v of
        PList xs \<Rightarrow> Inr xs
      | PStr s \<Rightarrow> Inr (map (\<lambda>c. PStr [c]) s)
      | PDict d \<Rightarrow> Inr (map (\<lambda>(k, _). PStr k) d)
      | _ \<Rightarrow> Inl (TypeError (repr_str (type_name v) @ '' object is not iterable'')))"

definition str_tuple :: "pyval \<Rightarrow> string list result" where
  "str_tuple v = rbind (py_iter v) (\<lambda>items. Inr (map py_str items))"

text \<open>\<open>str(d[k]) if d.get(k) else None\<close>.\<close>

definition opt_text :: "pydict \<Rightarrow> string \<Rightarrow> string option" where
  "opt_text d k = (if truthy (dget d k) then Some (py_str (dget d k)) else None)"

definition req_text :: "pydict \<Rightarrow> string \<Rightarrow> string result" where
  "req_text d k = rbind (dget_req d k) (\<lambda>v. Inr (py_str v))"

text \<open>\<open>{str(k): str(v) for k, v in dict(x).items()}\<close>: a mapping, or an iterable of pairs, whose
  keys are told apart by their text.\<close>

definition read_pair :: "pyval \<Rightarrow> (string \<times> string) result" where
  "read_pair v =
     rbind (py_iter v) (\<lambda>items.
       case items of
         [k, x] \<Rightarrow>
           (case unhashable k of Some err \<Rightarrow> Inl err | None \<Rightarrow> Inr (py_str k, py_str x))
       | _ \<Rightarrow> Inl (ValueError ''dictionary update sequence element has the wrong length''))"

definition text_dict :: "pyval \<Rightarrow> (string \<times> string) list result" where
  "text_dict v =
     (case v of
        PDict d \<Rightarrow> Inr (map (\<lambda>(k, x). (k, py_str x)) d)
      | _ \<Rightarrow> rbind (py_iter v) (\<lambda>items.
              rbind (rmap read_pair items) (\<lambda>pairs.
                Inr (fold (\<lambda>(k, x) d. AList.update k x d) pairs []))))"

definition str_list :: "string list \<Rightarrow> pyval" where
  "str_list ss = PList (map PStr ss)"

section \<open>Repositories\<close>

record repository_source =
  rp_service_id :: string
  rp_local_path :: string
  rp_remote_url :: "string option"
  rp_commit_sha :: "string option"

definition repository_to_dict :: "repository_source \<Rightarrow> pydict" where
  "repository_to_dict r =
     [(''service_id'', PStr (rp_service_id r)), (''local_path'', PStr (rp_local_path r)),
      (''remote_url'', opt_str (rp_remote_url r)), (''commit_sha'', opt_str (rp_commit_sha r))]"

definition repository_from_dict :: "pydict \<Rightarrow> repository_source result" where
  "repository_from_dict d =
     rbind (req_text d ''service_id'') (\<lambda>service_id.
     rbind (req_text d ''local_path'') (\<lambda>local_path.
     Inr \<lparr>rp_service_id = service_id, rp_local_path = local_path,
          rp_remote_url = opt_text d ''remote_url'', rp_commit_sha = opt_text d ''commit_sha''\<rparr>))"

section \<open>Service contexts\<close>

record service_context =
  sc_service_id :: string
  sc_namespace :: string
  sc_workload_kind :: string
  sc_deployment_name :: string
  sc_service_account :: string
  sc_source_repository :: repository_source
  sc_important_paths :: "string list"
  sc_verification_profile :: string
  sc_labels :: "(string \<times> string) list"
  sc_container_images :: "string list"
  sc_kubernetes_usage :: "string list"
  sc_dependencies :: "string list"
  sc_last_indexed_commit :: "string option"

text \<open>\<open>__post_init__\<close>.\<close>

definition check_context :: "service_context \<Rightarrow> service_context result" where
  "check_context s =
     (if rp_service_id (sc_source_repository s) \<noteq> sc_service_id s
      then Inl (ValueError ''repository service_id must match service context'')
      else Inr s)"

definition service_to_dict :: "service_context \<Rightarrow> pydict" where
  "service_to_dict s =
     [(''service_id'', PStr (sc_service_id s)), (''namespace'', PStr (sc_namespace s)),
      (''workload_kind'', PStr (sc_workload_kind s)),
      (''deployment_name'', PStr (sc_deployment_name s)),
      (''service_account'', PStr (sc_service_account s)),
      (''source_repository'', PDict (repository_to_dict (sc_source_repository s))),
      (''important_paths'', str_list (sc_important_paths s)),
      (''verification_profile'', PStr (sc_verification_profile s)),
      (''labels'', PDict (map (\<lambda>(k, v). (k, PStr v)) (sc_labels s))),
      (''container_images'', str_list (sc_container_images s)),
      (''kubernetes_usage'', str_list (sc_kubernetes_usage s)),
      (''dependencies'', str_list (sc_dependencies s)),
      (''last_indexed_commit'', opt_str (sc_last_indexed_commit s))]"

definition service_from_dict :: "pydict \<Rightarrow> service_context result" where
  "service_from_dict d =
     rbind (dget_req d ''source_repository'') (\<lambda>raw.
     case raw of
       PDict repository \<Rightarrow>
         rbind (req_text d ''service_id'') (\<lambda>service_id.
         rbind (req_text d ''namespace'') (\<lambda>namespace.
         rbind (req_text d ''workload_kind'') (\<lambda>workload_kind.
         rbind (req_text d ''deployment_name'') (\<lambda>deployment_name.
         rbind (req_text d ''service_account'') (\<lambda>service_account.
         rbind (repository_from_dict repository) (\<lambda>source.
         rbind (str_tuple (dget_or d ''important_paths'' (PList []))) (\<lambda>important_paths.
         rbind (req_text d ''verification_profile'') (\<lambda>verification_profile.
         rbind (text_dict (dget_or d ''labels'' (PDict []))) (\<lambda>labels.
         rbind (str_tuple (dget_or d ''container_images'' (PList []))) (\<lambda>container_images.
         rbind (str_tuple (dget_or d ''kubernetes_usage'' (PList []))) (\<lambda>kubernetes_usage.
         rbind (str_tuple (dget_or d ''dependencies'' (PList []))) (\<lambda>dependencies.
         check_context
           \<lparr>sc_service_id = service_id, sc_namespace = namespace,
            sc_workload_kind = workload_kind, sc_deployment_name = deployment_name,
            sc_service_account = service_account, sc_source_repository = source,
            sc_important_paths = important_paths, sc_verification_profile = verification_profile,
            sc_labels = labels, sc_container_images = container_images,
            sc_kubernetes_usage = kubernetes_usage, sc_dependencies = dependencies,
            sc_last_indexed_commit = opt_text d ''last_indexed_commit''\<rparr>))))))))))))
     | _ \<Rightarrow> Inl (ValueError ''source_repository must be an object''))"

section \<open>Indexed contexts\<close>

record indexed_context =
  ix_context_ref :: string
  ix_service_id :: string
  ix_content_hash :: string
  ix_files :: "string list"
  ix_bytes_loaded :: int
  ix_languages :: "string list"
  ix_kubernetes_usage :: "string list"
  ix_dependencies :: "string list"
  ix_entry_points :: "string list"

definition indexed_to_dict :: "indexed_context \<Rightarrow> pydict" where
  "indexed_to_dict c =
     [(''context_ref'', PStr (ix_context_ref c)), (''service_id'', PStr (ix_service_id c)),
      (''content_hash'', PStr (ix_content_hash c)), (''files'', str_list (ix_files c)),
      (''bytes_loaded'', PInt (ix_bytes_loaded c)), (''languages'', str_list (ix_languages c)),
      (''kubernetes_usage'', str_list (ix_kubernetes_usage c)),
      (''dependencies'', str_list (ix_dependencies c)),
      (''entry_points'', str_list (ix_entry_points c))]"

definition indexed_from_dict ::
  "(string \<Rightarrow> int result) \<Rightarrow> pydict \<Rightarrow> indexed_context result" where
  "indexed_from_dict float_int d =
     rbind (req_text d ''context_ref'') (\<lambda>context_ref.
     rbind (req_text d ''service_id'') (\<lambda>service_id.
     rbind (req_text d ''content_hash'') (\<lambda>content_hash.
     rbind (str_tuple (dget_or d ''files'' (PList []))) (\<lambda>files.
     rbind (py_int float_int (dget_or d ''bytes_loaded'' (PInt 0))) (\<lambda>bytes_loaded.
     rbind (str_tuple (dget_or d ''languages'' (PList []))) (\<lambda>languages.
     rbind (str_tuple (dget_or d ''kubernetes_usage'' (PList []))) (\<lambda>kubernetes_usage.
     rbind (str_tuple (dget_or d ''dependencies'' (PList []))) (\<lambda>dependencies.
     rbind (str_tuple (dget_or d ''entry_points'' (PList []))) (\<lambda>entry_points.
     Inr \<lparr>ix_context_ref = context_ref, ix_service_id = service_id,
          ix_content_hash = content_hash, ix_files = files, ix_bytes_loaded = bytes_loaded,
          ix_languages = languages, ix_kubernetes_usage = kubernetes_usage,
          ix_dependencies = dependencies, ix_entry_points = entry_points\<rparr>)))))))))"

section \<open>Round trips\<close>

lemma str_tuple_str_list [simp]: "str_tuple (str_list ss) = Inr ss"
  by (simp add: str_tuple_def str_list_def py_iter_def comp_def)

lemma str_tuple_empty [simp]: "str_tuple (PList []) = Inr []"
  by (simp add: str_tuple_def py_iter_def)

lemma req_text_Cons [simp]:
  "req_text ((k, v) # d) k' = (if k' = k then Inr (py_str v) else req_text d k')"
  by (simp add: req_text_def)

lemma opt_text_Cons [simp]:
  "opt_text ((k, v) # d) k' = (if k' = k then (if truthy v then Some (py_str v) else None)
                               else opt_text d k')"
  by (simp add: opt_text_def)

lemma text_dict_strings [simp]: "text_dict (PDict (map (\<lambda>(k, v). (k, PStr v)) d)) = Inr d"
  by (induction d) (auto simp: text_dict_def)

definition set_text :: "string option \<Rightarrow> bool" where
  "set_text x \<longleftrightarrow> x \<noteq> Some ''''"

lemma opt_text_opt_str [simp]:
  "set_text x \<Longrightarrow> (if truthy (opt_str x) then Some (py_str (opt_str x)) else None) = x"
  by (cases x) (simp_all add: set_text_def)

definition repository_wf :: "repository_source \<Rightarrow> bool" where
  "repository_wf r \<longleftrightarrow> set_text (rp_remote_url r) \<and> set_text (rp_commit_sha r)"

definition service_wf :: "service_context \<Rightarrow> bool" where
  "service_wf s \<longleftrightarrow> rp_service_id (sc_source_repository s) = sc_service_id s \<and>
     repository_wf (sc_source_repository s) \<and> set_text (sc_last_indexed_commit s)"

lemma repository_from_to_dict:
  assumes "repository_wf r"
  shows "repository_from_dict (repository_to_dict r) = Inr r"
proof -
  have "set_text (rp_remote_url r)" "set_text (rp_commit_sha r)"
    using assms by (simp_all add: repository_wf_def)
  from this [THEN opt_text_opt_str] show ?thesis
    by (simp add: repository_from_dict_def repository_to_dict_def del: truthy_opt_str)
qed

lemma service_from_to_dict:
  assumes "service_wf s"
  shows "service_from_dict (service_to_dict s) = Inr s"
proof -
  have commit: "set_text (sc_last_indexed_commit s)"
    and repo: "repository_from_dict (repository_to_dict (sc_source_repository s)) =
      Inr (sc_source_repository s)"
    and same: "rp_service_id (sc_source_repository s) = sc_service_id s"
    using assms by (simp_all add: service_wf_def repository_from_to_dict)
  from opt_text_opt_str [OF commit] repo same show ?thesis
    by (simp add: service_from_dict_def service_to_dict_def check_context_def
        del: truthy_opt_str text_dict_strings)
      (simp add: str_tuple_def)
qed

lemma indexed_from_to_dict: "indexed_from_dict float_int (indexed_to_dict c) = Inr c"
  by (simp add: indexed_from_dict_def indexed_to_dict_def py_int_def)

text \<open>Whatever is read belongs to its own repository.\<close>

lemma service_from_dict_own:
  assumes "service_from_dict d = Inr s"
  shows "rp_service_id (sc_source_repository s) = sc_service_id s"
proof -
  have "\<exists>s'. check_context s' = Inr s"
  proof (cases "dget_req d ''source_repository''")
    case (Inr x)
    with assms show ?thesis
      unfolding service_from_dict_def
      by (cases x) (simp_all only: rbind.simps pyval.case rbind_Inr_iff sum.distinct, blast)
  qed (use assms in \<open>simp add: service_from_dict_def\<close>)
  then show ?thesis by (auto simp: check_context_def split: if_splits)
qed

end
