(* ===== verification/Evaluation.thy ===== *)
theory Evaluation
  imports Complex_Main Simulator
begin

text \<open>
  \<open>judge_layer/baseline\<close>, \<open>judge_layer/evaluation\<close> (\<open>metrics.py\<close>, \<open>compare.py\<close>, the
  aggregation of \<open>system_benchmarks.py\<close>) and the facade \<open>agent_layer/orchestrator.py\<close>. Python
  floats are rationals here: the arithmetic is exact, IEEE rounding is not modelled.
\<close>

section \<open>Metrics\<close>

record system_case_metrics =
  mt_functional_success :: bool
  mt_initial_risk :: int
  mt_final_risk :: int
  mt_risk_reduction_percent :: rat
  mt_validated_risk_reduction :: rat
  mt_raw_permission_reduction_percent :: rat
  mt_initial_permissions :: int
  mt_final_permissions :: int
  mt_high_risk_permissions_remaining :: int
  mt_cluster_wide_grants_remaining :: int
  mt_incorrect_removals :: int
  mt_repair_iterations :: int
  mt_runtime_seconds :: rat

definition high_risk :: "permission \<Rightarrow> bool" where
  "high_risk p \<longleftrightarrow>
     pm_verb p = ''*'' \<or> pm_resource p = ''*'' \<or> pm_resource p = ''secrets'' \<or>
     pm_verb p \<in> {''create'', ''delete''}"

definition high_risk_count :: "policy \<Rightarrow> int" where
  "high_risk_count P = int (length (filter high_risk (pl_permissions P)))"

text \<open>\<open>100 * (a - b) / a if a else 0.0\<close>.\<close>

definition percent_reduction :: "int \<Rightarrow> int \<Rightarrow> rat" where
  "percent_reduction a b = (if a \<noteq> 0 then 100 * of_int (a - b) / of_int a else 0)"

definition cluster_wide_count :: "policy \<Rightarrow> int" where
  "cluster_wide_count P =
     int (length (filter (\<lambda>p. pm_namespace p = None) (pl_permissions (expand_policy P))))"

definition metrics ::
  "policy \<Rightarrow> policy \<Rightarrow> bool \<Rightarrow> rat \<Rightarrow> int \<Rightarrow> int \<Rightarrow> system_case_metrics" where
  "metrics initial final success runtime incorrect repairs =
     (let initial_risk = ra_score (score_policy initial);
          final_risk = ra_score (score_policy final);
          risk_reduction = percent_reduction initial_risk final_risk;
          initial_count = int (effective_permission_count initial);
          final_count = int (effective_permission_count final)
      in \<lparr>mt_functional_success = success, mt_initial_risk = initial_risk,
          mt_final_risk = final_risk, mt_risk_reduction_percent = risk_reduction,
          mt_validated_risk_reduction = (if success then risk_reduction else 0),
          mt_raw_permission_reduction_percent = percent_reduction initial_count final_count,
          mt_initial_permissions = initial_count, mt_final_permissions = final_count,
          mt_high_risk_permissions_remaining = high_risk_count final,
          mt_cluster_wide_grants_remaining = cluster_wide_count final,
          mt_incorrect_removals = incorrect, mt_repair_iterations = repairs,
          mt_runtime_seconds = runtime\<rparr>)"

section \<open>The orchestrator and the two contestants\<close>

record kuber_run_result =
  kr_run_id :: string
  kr_accepted :: bool
  kr_original_policy :: policy
  kr_final_policy :: policy
  kr_original_risk :: risk_assessment
  kr_final_risk :: risk_assessment
  kr_verification :: verification_result
  kr_repair_iterations :: nat
  kr_incorrect_removals :: nat
  kr_trajectory_path :: "string option"

text \<open>\<open>uuid\<close> is what \<open>uuid4().hex\<close> would give.\<close>

definition orchestrator_run ::
  "'w graph_config \<Rightarrow> string \<Rightarrow> string option \<Rightarrow> workload_state \<Rightarrow> ('w, kuber_run_result) op" where
  "orchestrator_run cfg uuid run_id prior =
     seq (run_workload cfg
            \<lparr>rq_run_id = (if truthy_opt run_id then or_empty run_id else uuid),
             rq_task_id = None, rq_workload_id = None, rq_context_ref = '''',
             rq_repository_ref = ''''\<rparr> prior) (\<lambda>execution.
     ret \<lparr>kr_run_id = we_run_id execution, kr_accepted = we_accepted execution,
          kr_original_policy = we_original_policy execution,
          kr_final_policy = we_final_policy execution,
          kr_original_risk = we_original_risk execution,
          kr_final_risk = we_final_risk execution,
          kr_verification = we_verification execution,
          kr_repair_iterations = we_repair_iterations execution,
          kr_incorrect_removals = we_incorrect_removals execution,
          kr_trajectory_path = we_trajectory_path execution\<rparr>)"

definition run_observed_only :: "policy \<Rightarrow> kube_event list \<Rightarrow> policy result" where
  "run_observed_only current observed = observed_only_policy current observed"

text \<open>\<open>elapsed\<close> and \<open>runtime\<close> are the readings of the clock: inside the simulator's verification
  and around the whole evaluation.\<close>

definition evaluate_baseline ::
  "string \<Rightarrow> rat \<Rightarrow> benchmark_case \<Rightarrow> (policy \<times> system_case_metrics) result" where
  "evaluate_baseline elapsed runtime c =
     (let started = new_simulator c in
      rbind (run_observed_only (bc_initial_policy c) (bc_observed_events c)) (\<lambda>candidate.
        fst (seq (simulator_apply candidate) (\<lambda>_.
             seq (simulator_verify elapsed c) (\<lambda>result.
             ret (candidate, metrics (bc_initial_policy c) candidate (vr_passed result) runtime 0 0)))
          started)))"

text \<open>The orchestrator of the evaluation is built with its defaults: five repairs.\<close>

definition evaluate_kuber ::
  "simulator graph_config \<Rightarrow> string \<Rightarrow> workload_state \<Rightarrow> rat \<Rightarrow> benchmark_case \<Rightarrow>
   (policy \<times> system_case_metrics) result" where
  "evaluate_kuber cfg uuid prior runtime c =
     fst (seq (orchestrator_run cfg uuid (Some (''evaluation-'' @ bc_identifier c)) prior)
       (\<lambda>result.
         ret (kr_final_policy result,
              metrics (bc_initial_policy c) (kr_final_policy result)
                (vr_passed (kr_verification result) \<and> kr_accepted result) runtime
                (int (kr_incorrect_removals result)) (int (kr_repair_iterations result))))
       (new_simulator c))"

section \<open>Summaries\<close>

record evaluation_summary =
  es_cases :: nat
  es_functional_successes :: nat
  es_functional_success_rate :: rat
  es_average_validated_risk_reduction :: rat
  es_average_raw_permission_reduction :: rat
  es_average_risk_reduction :: rat
  es_high_risk_permissions_remaining :: int
  es_cluster_wide_grants_remaining :: int
  es_incorrect_removals :: int
  es_repair_iterations :: int
  es_average_runtime_seconds :: rat

definition summarize :: "system_case_metrics list \<Rightarrow> evaluation_summary" where
  "summarize values =
     (let count = length values in
      if count = 0 then
        \<lparr>es_cases = 0, es_functional_successes = 0, es_functional_success_rate = 0,
         es_average_validated_risk_reduction = 0, es_average_raw_permission_reduction = 0,
         es_average_risk_reduction = 0, es_high_risk_permissions_remaining = 0,
         es_cluster_wide_grants_remaining = 0, es_incorrect_removals = 0,
         es_repair_iterations = 0, es_average_runtime_seconds = 0\<rparr>
      else
        (let successes = length (filter mt_functional_success values);
             average = (\<lambda>f. sum_list (map f values) / of_nat count)
         in \<lparr>es_cases = count, es_functional_successes = successes,
             es_functional_success_rate = 100 * of_nat successes / of_nat count,
             es_average_validated_risk_reduction = average mt_validated_risk_reduction,
             es_average_raw_permission_reduction = average mt_raw_permission_reduction_percent,
             es_average_risk_reduction = average mt_risk_reduction_percent,
             es_high_risk_permissions_remaining =
               sum_list (map mt_high_risk_permissions_remaining values),
             es_cluster_wide_grants_remaining =
               sum_list (map mt_cluster_wide_grants_remaining values),
             es_incorrect_removals = sum_list (map mt_incorrect_removals values),
             es_repair_iterations = sum_list (map mt_repair_iterations values),
             es_average_runtime_seconds = average mt_runtime_seconds\<rparr>))"

definition aggregate_metrics :: "system_case_metrics list \<Rightarrow> rat \<Rightarrow> system_case_metrics" where
  "aggregate_metrics values runtime =
     (let initial_risk = sum_list (map mt_initial_risk values);
          final_risk = sum_list (map mt_final_risk values);
          initial_permissions = sum_list (map mt_initial_permissions values);
          final_permissions = sum_list (map mt_final_permissions values);
          risk_reduction = percent_reduction initial_risk final_risk;
          success = list_all mt_functional_success values
      in \<lparr>mt_functional_success = success, mt_initial_risk = initial_risk,
          mt_final_risk = final_risk, mt_risk_reduction_percent = risk_reduction,
          mt_validated_risk_reduction = (if success then risk_reduction else 0),
          mt_raw_permission_reduction_percent =
            percent_reduction initial_permissions final_permissions,
          mt_initial_permissions = initial_permissions, mt_final_permissions = final_permissions,
          mt_high_risk_permissions_remaining =
            sum_list (map mt_high_risk_permissions_remaining values),
          mt_cluster_wide_grants_remaining =
            sum_list (map mt_cluster_wide_grants_remaining values),
          mt_incorrect_removals = sum_list (map mt_incorrect_removals values),
          mt_repair_iterations = sum_list (map mt_repair_iterations values),
          mt_runtime_seconds = runtime\<rparr>)"

definition evaluate_system_baseline ::
  "string \<Rightarrow> rat \<Rightarrow> benchmark_case list \<Rightarrow> system_case_metrics result" where
  "evaluate_system_baseline elapsed runtime cases =
     rbind (rmap (evaluate_baseline elapsed runtime) cases) (\<lambda>values.
       Inr (aggregate_metrics (map snd values) runtime))"

section \<open>Arithmetic of the metrics\<close>

lemma percent_reduction_le: "0 \<le> a \<Longrightarrow> 0 \<le> b \<Longrightarrow> percent_reduction a b \<le> 100"
  by (auto simp: percent_reduction_def divide_le_eq)

lemma percent_reduction_nonneg: "0 \<le> b \<Longrightarrow> b \<le> a \<Longrightarrow> 0 \<le> percent_reduction a b"
  by (auto simp: percent_reduction_def)

lemma metrics_validated:
  "mt_validated_risk_reduction (metrics P Q s t i r) =
     (if s then mt_risk_reduction_percent (metrics P Q s t i r) else 0)"
  by (simp add: metrics_def Let_def)

lemma metrics_bounds:
  "mt_risk_reduction_percent (metrics P Q s t i r) \<le> 100 \<and>
   mt_raw_permission_reduction_percent (metrics P Q s t i r) \<le> 100 \<and>
   0 \<le> mt_cluster_wide_grants_remaining (metrics P Q s t i r) \<and>
   mt_cluster_wide_grants_remaining (metrics P Q s t i r) \<le> mt_final_permissions (metrics P Q s t i r)"
  using score_bounds [of P] score_bounds [of Q]
  by (simp add: metrics_def Let_def percent_reduction_le cluster_wide_count_def
      effective_permission_count_def)

lemma rate_bounds: "k \<le> n \<Longrightarrow> 0 < n \<Longrightarrow>
   0 \<le> 100 * of_nat k / (of_nat n :: rat) \<and> 100 * of_nat k / (of_nat n :: rat) \<le> 100 \<and>
   (100 * of_nat k / (of_nat n :: rat) = 100 \<longleftrightarrow> k = n)"
  by (auto simp: divide_le_eq divide_eq_eq)

lemma summarize_rate:
  assumes "values \<noteq> []"
  shows "0 \<le> es_functional_success_rate (summarize values) \<and>
    es_functional_success_rate (summarize values) \<le> 100 \<and>
    (es_functional_success_rate (summarize values) = 100 \<longleftrightarrow> list_all mt_functional_success values)"
proof -
  let ?k = "length (filter mt_functional_success values)" and ?n = "length values"
  have rate: "es_functional_success_rate (summarize values) = 100 * of_nat ?k / of_nat ?n"
    using assms by (simp add: summarize_def Let_def)
  have "?k = ?n \<longleftrightarrow> list_all mt_functional_success values"
    by (simp only: length_filter_all_iff list_all_iff)
  then show ?thesis using rate_bounds [of ?k ?n] assms by (simp add: rate)
qed

lemma aggregate_success:
  "mt_functional_success (aggregate_metrics values t) \<longleftrightarrow> (\<forall>m \<in> set values. mt_functional_success m)"
  by (simp add: aggregate_metrics_def Let_def list_all_iff)

section \<open>Baseline against Kuber\<close>

lemma evaluate_baseline_Inr:
  assumes "evaluate_baseline elapsed runtime c = Inr (C, mb)"
  shows "observed_only_policy (bc_initial_policy c) (bc_observed_events c) = Inr C"
    and "mt_functional_success mb \<longleftrightarrow> covers_all (tested_event c) C"
    and "mb = metrics (bc_initial_policy c) C (mt_functional_success mb) runtime 0 0"
proof -
  from assms obtain C' where C': "observed_only_policy (bc_initial_policy c) (bc_observed_events c) = Inr C'"
    unfolding evaluate_baseline_def run_observed_only_def Let_def rbind_Inr_iff by blast
  obtain v w where v: "simulator_verify elapsed c ((new_simulator c)\<lparr>sm_current_policy := C'\<rparr>) = (Inr v, w)"
    unfolding simulator_verify_Inr by blast
  with assms C' have res: "C = C'" "mb = metrics (bc_initial_policy c) C' (vr_passed v) runtime 0 0"
    by (auto simp: evaluate_baseline_def run_observed_only_def seq_def ret_def simulator_apply_def)
  show "observed_only_policy (bc_initial_policy c) (bc_observed_events c) = Inr C"
    using C' res by simp
  show "mt_functional_success mb \<longleftrightarrow> covers_all (tested_event c) C"
    using simulator_passed_iff [OF v] res by (simp add: metrics_def Let_def covers_all_def)
  show "mb = metrics (bc_initial_policy c) C (mt_functional_success mb) runtime 0 0"
    using res by (simp add: metrics_def Let_def)
qed

lemma evaluate_kuber_Inr:
  assumes "evaluate_kuber cfg uuid prior runtime c = Inr (P, mk)"
  obtains rq ex w' where "run_workload cfg rq prior (new_simulator c) = (Inr ex, w')"
    "P = we_final_policy ex"
    "mk = metrics (bc_initial_policy c) P (vr_passed (we_verification ex) \<and> we_accepted ex) runtime
       (int (we_incorrect_removals ex)) (int (we_repair_iterations ex))"
proof -
  let ?rq = "\<lparr>rq_run_id = (if truthy_opt (Some (''evaluation-'' @ bc_identifier c))
      then or_empty (Some (''evaluation-'' @ bc_identifier c)) else uuid),
     rq_task_id = None, rq_workload_id = None, rq_context_ref = '''', rq_repository_ref = ''''\<rparr>"
  obtain x w' where run: "run_workload cfg ?rq prior (new_simulator c) = (x, w')"
    by (cases "run_workload cfg ?rq prior (new_simulator c)")
  with assms obtain ex where "x = Inr ex"
    by (cases x) (auto simp: evaluate_kuber_def orchestrator_run_def seq_def)
  with run assms that [of ?rq ex w'] show thesis
    by (auto simp: evaluate_kuber_def orchestrator_run_def seq_def ret_def)
qed

lemma evaluate_kuber_keeps_passing_baseline:
  assumes "evaluate_baseline elapsed runtime c = Inr (C, mb)" and "mt_functional_success mb"
    and "evaluate_kuber (simulator_graph elapsed c m l) uuid prior runtime' c = Inr (P, mk)"
  shows "P = C \<and> mk = mb\<lparr>mt_runtime_seconds := runtime'\<rparr>"
proof -
  note base = evaluate_baseline_Inr [OF assms(1)]
  obtain rq ex w' where run: "run_workload (simulator_graph elapsed c m l) rq prior (new_simulator c) = (Inr ex, w')"
    and P: "P = we_final_policy ex"
    and mk: "mk = metrics (bc_initial_policy c) P (vr_passed (we_verification ex) \<and> we_accepted ex)
       runtime' (int (we_incorrect_removals ex)) (int (we_repair_iterations ex))"
    by (rule evaluate_kuber_Inr [OF assms(3)])
  have timed: "metrics i f ok t j n\<lparr>mt_runtime_seconds := t'\<rparr> = metrics i f ok t' j n" for i f ok t j n t'
    by (simp only: metrics_def Let_def system_case_metrics.update_convs)
  have start: "sm_current_policy (new_simulator c) = sm_original_policy (new_simulator c)"
    "sm_original_policy (new_simulator c) = bc_initial_policy c"
    by (simp_all add: new_simulator_def)
  have "we_accepted ex \<and> we_final_policy ex = C \<and> we_repair_iterations ex = 0 \<and>
      we_incorrect_removals ex = 0"
    using base assms(2) start by (intro simulated.run_first_try [OF run]) auto
  moreover have "vr_passed (we_verification ex) = we_accepted ex"
    using simulated.run_outcome(4) [OF run start(1)] .
  moreover have "mb\<lparr>mt_runtime_seconds := runtime'\<rparr> = metrics (bc_initial_policy c) C True runtime' 0 0"
    using base(3) assms(2) timed by simp
  ultimately show ?thesis using P mk by simp
qed

lemma evaluate_kuber_success_iff:
  assumes "evaluate_kuber (simulator_graph elapsed c m l) uuid prior runtime c = Inr (P, mk)"
    and "mt_functional_success mk"
  shows "covers_all (tested_event c) P \<and> no_more_than P (bc_initial_policy c)"
proof -
  obtain rq ex w' where run: "run_workload (simulator_graph elapsed c m l) rq prior (new_simulator c) = (Inr ex, w')"
    and P: "P = we_final_policy ex"
    and mk: "mk = metrics (bc_initial_policy c) P (vr_passed (we_verification ex) \<and> we_accepted ex)
       runtime (int (we_incorrect_removals ex)) (int (we_repair_iterations ex))"
    by (rule evaluate_kuber_Inr [OF assms(1)])
  have start: "sm_current_policy (new_simulator c) = sm_original_policy (new_simulator c)"
    "sm_original_policy (new_simulator c) = bc_initial_policy c"
    by (simp_all add: new_simulator_def)
  have "we_accepted ex" using assms(2) mk by (simp add: metrics_def Let_def)
  then show ?thesis
    using simulated.run_tested(1) [OF run start(1)] simulated.run_outcome(3) [OF run start(1)] P start(2)
    by simp
qed

end
