(* ===== verification/Worker.thy ===== *)
theory Worker
  imports Event_Bus Context_Models Evaluation
begin

text \<open>
  \<open>event_layer/worker.py\<close> and \<open>event_layer/locks.py\<close>: the worker that runs the workload graph for
  one claimed message. Its collaborators (bus, deduplication store, context store, lock manager,
  environment factory, clock) are the operations of a record over a state \<open>'s\<close>, as the protocols
  of the source are; the worker adds its statistics and the local variable \<open>environment\<close>.
\<close>

section \<open>Lock keys\<close>

definition workload_lock_key :: "string \<Rightarrow> string \<Rightarrow> string \<Rightarrow> string result" where
  "workload_lock_key cluster namespace workload_id =
     (let values = [cluster, namespace, workload_id] in
      if list_ex (\<lambda>v. v = '''' \<or> CHR '':'' \<in> set v) values then
        Inl (ValueError (''lock key components must be non-empty and may not contain '' @ repr_str '':''))
      else Inr (py_join '':'' values))"

section \<open>Exceptions as values\<close>

text \<open>\<open>type(error).__name__\<close> and \<open>str(error)\<close>; a class outside the model is shown as
  \<open>Exception\<close>.\<close>

fun error_name :: "py_error \<Rightarrow> string" where
  "error_name (ValueError _) = ''ValueError''"
| "error_name (RbacParseError _) = ''RbacParseError''"
| "error_name (UnsupportedResourceError _) = ''UnsupportedResourceError''"
| "error_name (KeyError _) = ''KeyError''"
| "error_name (TypeError _) = ''TypeError''"
| "error_name AssertionError = ''AssertionError''"
| "error_name (RuntimeError _) = ''RuntimeError''"
| "error_name (SafetyError _) = ''SafetyError''"
| "error_name (DryRunOnlyError _) = ''DryRunOnlyError''"
| "error_name (GraphRecursionError _) = ''GraphRecursionError''"
| "error_name (TimeoutError _) = ''TimeoutError''"
| "error_name (FileNotFoundError _) = ''FileNotFoundError''"
| "error_name (CalledProcessError _ _ _) = ''CalledProcessError''"
| "error_name (TimeoutExpired _) = ''TimeoutExpired''"
| "error_name (JsonDecodeError _) = ''JSONDecodeError''"
| "error_name (OtherError _) = ''Exception''"

fun error_text :: "py_error \<Rightarrow> string" where
  "error_text (ValueError s) = s"
| "error_text (RbacParseError s) = s"
| "error_text (UnsupportedResourceError s) = s"
| "error_text (KeyError s) = repr_str s"
| "error_text (TypeError s) = s"
| "error_text AssertionError = ''''"
| "error_text (RuntimeError s) = s"
| "error_text (SafetyError s) = s"
| "error_text (DryRunOnlyError s) = s"
| "error_text (GraphRecursionError s) = s"
| "error_text (TimeoutError s) = s"
| "error_text (FileNotFoundError s) = s"
| "error_text (CalledProcessError s _ _) = s"
| "error_text (TimeoutExpired s) = s"
| "error_text (JsonDecodeError s) = s"
| "error_text (OtherError s) = s"

lemma error_name_nonempty [simp]: "error_name err \<noteq> ''''"
  by (cases err) simp_all

section \<open>The worker and its collaborators\<close>

record 's worker_ports =
  wp_publish :: "string \<Rightarrow> event_envelope \<Rightarrow> string \<Rightarrow> ('s, published_event) op"
  wp_acknowledge :: "consumed_event \<Rightarrow> ('s, unit) op"
  wp_retry :: "consumed_event \<Rightarrow> string \<Rightarrow> ('s, unit) op"
  wp_dead_letter :: "consumed_event \<Rightarrow> string \<Rightarrow> ('s, published_event) op"
  wp_completed_get :: "string \<Rightarrow> ('s, pydict option) op"
  wp_completed_put :: "string \<Rightarrow> pydict \<Rightarrow> ('s, unit) op"
  wp_context_get :: "string \<Rightarrow> ('s, indexed_context option) op"
  wp_acquire :: "string \<Rightarrow> ('s, unit) op"
  wp_release :: "string \<Rightarrow> ('s, unit) op"
  wp_create :: "event_envelope \<Rightarrow> indexed_context \<Rightarrow> ('s, 's environment_adapter) op"
  wp_identity :: "('s, string \<times> string) op"
  wp_elapsed :: "'s \<Rightarrow> string"

record worker_stats =
  wt_claimed :: nat
  wt_completed :: nat
  wt_failed :: nat
  wt_retried :: nat
  wt_duplicates :: nat

definition new_stats :: worker_stats where
  "new_stats =
     \<lparr>wt_claimed = 0, wt_completed = 0, wt_failed = 0, wt_retried = 0, wt_duplicates = 0\<rparr>"

text \<open>\<open>wk_prior\<close> is what the graph's checkpointer holds for the thread of a run.\<close>

record 's worker =
  wk_worker_id :: string
  wk_ports :: "'s worker_ports"
  wk_graph :: "'s graph_config"
  wk_prior :: "run_request \<Rightarrow> 's \<Rightarrow> workload_state"
  wk_cluster :: string
  wk_max_delivery_attempts :: int

record 's worker_state =
  wv_services :: 's
  wv_stats :: worker_stats
  wv_environment :: "'s environment_adapter option"

definition service :: "('s, 'a) op \<Rightarrow> ('s worker_state, 'a) op" where
  "service m v = (case m (wv_services v) of (r, s) \<Rightarrow> (r, v\<lparr>wv_services := s\<rparr>))"

definition count :: "(worker_stats \<Rightarrow> worker_stats) \<Rightarrow> ('s worker_state, unit) op" where
  "count f v = (Inr (), v\<lparr>wv_stats := f (wv_stats v)\<rparr>)"

definition set_environment :: "'s environment_adapter option \<Rightarrow> ('s worker_state, unit) op" where
  "set_environment env v = (Inr (), v\<lparr>wv_environment := env\<rparr>)"

section \<open>Validation of a task\<close>

definition validate_task ::
  "'s worker_ports \<Rightarrow> event_envelope \<Rightarrow> ('s, string \<times> string \<times> string \<times> indexed_context) op" where
  "validate_task ports e =
     (if en_event_type e \<noteq> Workload_Optimization_Requested then
        throw (ValueError (''unexpected event type '' @ event_type_value (en_event_type e)))
      else
        seq (lift_result (req_text (en_payload e) ''task_id'')) (\<lambda>task_id.
        seq (lift_result (req_text (en_payload e) ''workload_id'')) (\<lambda>workload_id.
        seq (lift_result (req_text (en_payload e) ''namespace'')) (\<lambda>namespace.
        seq (lift_result (req_text (en_payload e) ''context_ref'')) (\<lambda>context_ref.
        if task_id = '''' \<or> workload_id = '''' \<or> namespace = '''' \<or> context_ref = '''' then
          throw (ValueError ''task identifiers must not be empty'')
        else
          seq (wp_context_get ports context_ref) (\<lambda>context.
          case context of
            None \<Rightarrow> throw (ValueError (''unknown context_ref '' @ context_ref))
          | Some c \<Rightarrow>
              if ix_service_id c \<noteq> workload_id then
                throw (ValueError ''context belongs to a different workload'')
              else ret (task_id, workload_id, namespace, c)))))))"

section \<open>Processing a message\<close>

definition result_payload ::
  "string \<Rightarrow> string \<Rightarrow> string \<Rightarrow> workload_execution \<Rightarrow> string \<Rightarrow> pydict" where
  "result_payload task_id workload_id worker_id ex elapsed =
     [(''task_id'', PStr task_id), (''workload_id'', PStr workload_id),
      (''worker_id'', PStr worker_id), (''accepted'', PBool (we_accepted ex)),
      (''repairs'', pnat (we_repair_iterations ex)),
      (''original_risk'', PInt (ra_score (we_original_risk ex))),
      (''final_risk'', PInt (ra_score (we_final_risk ex))),
      (''original_permissions'', pnat (effective_permission_count (we_original_policy ex))),
      (''final_permissions'', pnat (effective_permission_count (we_final_policy ex))),
      (''high_risk_permissions_remaining'', PInt (high_risk_count (we_final_policy ex))),
      (''cluster_wide_grants_remaining'', PInt (cluster_wide_count (we_final_policy ex))),
      (''incorrect_removals'', pnat (we_incorrect_removals ex)),
      (''tests_passed'', pnat (vr_tests_passed (we_verification ex))),
      (''tests_total'', pnat (vr_tests_total (we_verification ex))),
      (''processing_seconds'', PFloat elapsed)]"

definition completion_event ::
  "string \<times> string \<Rightarrow> event_envelope \<Rightarrow> pydict \<Rightarrow> event_envelope result" where
  "completion_event ident e payload =
     new_envelope ident Workload_Optimization_Completed (en_run_id e) (en_correlation_id e)
       (Some (en_event_id e)) 0 payload"

text \<open>\<open>publish(OPTIMIZATION_RESULTS, EventEnvelope(...), key)\<close> and \<open>acknowledge(message)\<close>.\<close>

definition publish_completion ::
  "'s worker_ports \<Rightarrow> consumed_event \<Rightarrow> pydict \<Rightarrow> ('s, unit) op" where
  "publish_completion ports m payload =
     seq (wp_identity ports) (\<lambda>ident.
     seq (lift_result (completion_event ident (pe_event m) payload)) (\<lambda>e.
     seq (wp_publish ports (topic_name Optimization_Results) e (pe_key m)) (\<lambda>_.
     wp_acknowledge ports m)))"

definition run_request_of ::
  "event_envelope \<Rightarrow> string \<Rightarrow> string \<Rightarrow> indexed_context \<Rightarrow> string \<Rightarrow> run_request" where
  "run_request_of e task_id workload_id context repository_ref =
     \<lparr>rq_run_id = en_run_id e, rq_task_id = Some task_id, rq_workload_id = Some workload_id,
      rq_context_ref = ix_context_ref context, rq_repository_ref = repository_ref\<rparr>"

definition run_graph :: "'s worker \<Rightarrow> 's environment_adapter \<Rightarrow> run_request \<Rightarrow> ('s, workload_execution) op" where
  "run_graph wk env rq s = run_workload ((wk_graph wk)\<lparr>gc_env := env\<rparr>) rq (wk_prior wk rq s) s"

text \<open>The body of the \<open>async with\<close> block. The result is stored before it is published.\<close>

definition optimize ::
  "'s worker \<Rightarrow> consumed_event \<Rightarrow> string \<Rightarrow> string \<Rightarrow> indexed_context \<Rightarrow> ('s worker_state, unit) op" where
  "optimize wk m task_id workload_id context =
     seq (service (wp_create (wk_ports wk) (pe_event m) context)) (\<lambda>env.
     seq (set_environment (Some env)) (\<lambda>_.
     seq (lift_result (req_text (en_payload (pe_event m)) ''repository_ref'')) (\<lambda>repository_ref.
     seq (service (run_graph wk env
            (run_request_of (pe_event m) task_id workload_id context repository_ref))) (\<lambda>ex.
     seq (service (\<lambda>s. ret (wp_elapsed (wk_ports wk) s) s)) (\<lambda>elapsed.
     let payload = result_payload task_id workload_id (wk_worker_id wk) ex elapsed in
     seq (service (wp_identity (wk_ports wk))) (\<lambda>ident.
     seq (lift_result (completion_event ident (pe_event m) payload)) (\<lambda>e.
     seq (service (wp_completed_put (wk_ports wk) task_id payload)) (\<lambda>_.
     seq (service (wp_publish (wk_ports wk) (topic_name Optimization_Results) e (pe_key m))) (\<lambda>_.
     seq (service (wp_acknowledge (wk_ports wk) m)) (\<lambda>_.
     count (wt_completed_update Suc)))))))))))"

definition restore_environment :: "('s worker_state, unit) op" where
  "restore_environment v =
     (case wv_environment v of
        None \<Rightarrow> ret () v
      | Some env \<Rightarrow> suppressing (service (env_restore_policy env)) v)"

definition handle_failure ::
  "'s worker \<Rightarrow> consumed_event \<Rightarrow> py_error \<Rightarrow> ('s worker_state, unit) op" where
  "handle_failure wk m err =
     seq restore_environment (\<lambda>_.
     if en_attempt (pe_event m) + 1 < wk_max_delivery_attempts wk then
       seq (count (wt_retried_update Suc)) (\<lambda>_.
       service (wp_retry (wk_ports wk) m (error_name err)))
     else
       seq (count (wt_failed_update Suc)) (\<lambda>_.
       seq (service (wp_dead_letter (wk_ports wk) m (error_name err @ '': '' @ error_text err))) (\<lambda>_.
       ret ())))"

definition optimize_locked ::
  "'s worker \<Rightarrow> consumed_event \<Rightarrow> string \<Rightarrow> string \<Rightarrow> string \<Rightarrow> indexed_context \<Rightarrow>
   ('s worker_state, unit) op" where
  "optimize_locked wk m key task_id workload_id context =
     catching
       (seq (service (wp_acquire (wk_ports wk) key)) (\<lambda>_.
          ensuring (optimize wk m task_id workload_id context)
            (service (wp_release (wk_ports wk) key))))
       (handle_failure wk m)"

text \<open>The lock key is built outside the \<open>try\<close>: its \<open>ValueError\<close> leaves \<open>process\<close>.\<close>

definition process_valid ::
  "'s worker \<Rightarrow> consumed_event \<Rightarrow> string \<times> string \<times> string \<times> indexed_context \<Rightarrow>
   ('s worker_state, unit) op" where
  "process_valid wk m task =
     (case task of (task_id, workload_id, namespace, context) \<Rightarrow>
        seq (service (wp_completed_get (wk_ports wk) task_id)) (\<lambda>completed.
        case completed of
          Some payload \<Rightarrow>
            seq (count (wt_duplicates_update Suc)) (\<lambda>_.
            service (publish_completion (wk_ports wk) m payload))
        | None \<Rightarrow>
            seq (lift_result (workload_lock_key (wk_cluster wk) namespace workload_id)) (\<lambda>key.
            optimize_locked wk m key task_id workload_id context)))"

definition reject_task :: "'s worker \<Rightarrow> consumed_event \<Rightarrow> py_error \<Rightarrow> ('s worker_state, unit) op" where
  "reject_task wk m err =
     seq (count (wt_failed_update Suc)) (\<lambda>_.
     seq (service (wp_dead_letter (wk_ports wk) m (''invalid task: '' @ error_text err))) (\<lambda>_.
     ret ()))"

definition process :: "'s worker \<Rightarrow> consumed_event \<Rightarrow> ('s worker_state, unit) op" where
  "process wk m =
     seq (set_environment None) (\<lambda>_.
     seq (count (wt_claimed_update Suc)) (\<lambda>_ v.
     case service (validate_task (wk_ports wk) (pe_event m)) v of
       (Inl err, v') \<Rightarrow>
         if is_key_error err \<or> is_value_error err then reject_task wk m err v' else (Inl err, v')
     | (Inr task, v') \<Rightarrow> process_valid wk m task v'))"

lemma lock_key_Inr:
  "workload_lock_key cluster namespace workload_id = Inr key \<longleftrightarrow>
     cluster \<noteq> '''' \<and> CHR '':'' \<notin> set cluster \<and> namespace \<noteq> '''' \<and> CHR '':'' \<notin> set namespace \<and>
     workload_id \<noteq> '''' \<and> CHR '':'' \<notin> set workload_id \<and>
     key = cluster @ '':'' @ namespace @ '':'' @ workload_id"
  by (auto simp: workload_lock_key_def)

lemma append_sep_inject:
  assumes "c \<notin> set xs" and "c \<notin> set ys" and "xs @ c # us = ys @ c # vs"
  shows "xs = ys \<and> us = vs"
  using assms by (induction xs arbitrary: ys) (auto simp: Cons_eq_append_conv)

text \<open>Different workloads never share a lock.\<close>

lemma lock_key_inject:
  assumes "workload_lock_key c n w = Inr key" and "workload_lock_key c' n' w' = Inr key"
  shows "c = c' \<and> n = n' \<and> w = w'"
proof -
  have eq: "c @ CHR '':'' # n @ CHR '':'' # w = c' @ CHR '':'' # n' @ CHR '':'' # w'"
    using assms by (auto simp: lock_key_Inr)
  from append_sep_inject [OF _ _ eq] assms
  have "c = c'" and eq2: "n @ CHR '':'' # w = n' @ CHR '':'' # w'"
    by (simp_all add: lock_key_Inr)
  with append_sep_inject [OF _ _ eq2] assms show ?thesis by (simp add: lock_key_Inr)
qed

end
