(* ===== verification/Worker_Outcomes.thy ===== *)
theory Worker_Outcomes
  imports Worker
begin

text \<open>
  What processing a message does to the shared record of the system, the ledger: the topic logs,
  the acknowledged positions and the stored results. The locale \<open>task_services\<close> is the contract
  of the worker's collaborators over the ledger; under it every processed message has exactly one
  of four outcomes, and it is acknowledged only after its result is stored and published or it
  is dead-lettered.
\<close>

record ledger =
  lg_log :: "string \<Rightarrow> published_event list"
  lg_acked :: "ack_key set"
  lg_done :: "string \<Rightarrow> pydict option"

definition own_key :: "consumed_event \<Rightarrow> ack_key" where
  "own_key m = ack_key_of m (ce_consumer_group m)"

definition log_add :: "string \<Rightarrow> published_event \<Rightarrow> ledger \<Rightarrow> ledger" where
  "log_add topic p l = l\<lparr>lg_log := (lg_log l)(topic := lg_log l topic @ [p])\<rparr>"

definition ack_add :: "consumed_event \<Rightarrow> ledger \<Rightarrow> ledger" where
  "ack_add m l = l\<lparr>lg_acked := insert (own_key m) (lg_acked l)\<rparr>"

definition done_add :: "string \<Rightarrow> pydict \<Rightarrow> ledger \<Rightarrow> ledger" where
  "done_add task payload l = l\<lparr>lg_done := (lg_done l)(task \<mapsto> payload)\<rparr>"

lemmas ledger_defs = log_add_def ack_add_def done_add_def

text \<open>A dead letter for a message, and its redelivery.\<close>

definition letter_of :: "consumed_event \<Rightarrow> published_event \<Rightarrow> bool" where
  "letter_of m p \<longleftrightarrow> en_event_type (pe_event p) = Dead_Lettered \<and>
     dget (en_payload (pe_event p)) ''source_event'' = PDict (envelope_to_dict (pe_event m))"

definition redelivery_of :: "consumed_event \<Rightarrow> consumed_event \<Rightarrow> bool" where
  "redelivery_of m m' \<longleftrightarrow> pe_topic m' = pe_topic m \<and> pe_partition m' = pe_partition m \<and>
     pe_offset m' = pe_offset m \<and> ce_consumer_group m' = ce_consumer_group m \<and>
     en_payload (pe_event m') = en_payload (pe_event m) \<and>
     en_event_type (pe_event m') = en_event_type (pe_event m) \<and>
     en_attempt (pe_event m') = en_attempt (pe_event m) + 1"

locale task_services =
  fixes wk :: "'s worker" and led :: "'s \<Rightarrow> ledger"
    and queue :: "'s \<Rightarrow> string \<Rightarrow> string \<Rightarrow> consumed_event list"
  assumes publish_adds: "wp_publish (wk_ports wk) t e k s = (Inr p, s') \<Longrightarrow>
      pe_event p = e \<and> pe_key p = k \<and> led s' = log_add t p (led s)"
    and publish_fails: "wp_publish (wk_ports wk) t e k s = (Inl err, s') \<Longrightarrow> led s' = led s"
    and acknowledge_adds: "wp_acknowledge (wk_ports wk) m s = (Inr (), s') \<Longrightarrow> led s' = ack_add m (led s)"
    and acknowledge_fails: "wp_acknowledge (wk_ports wk) m s = (Inl err, s') \<Longrightarrow> led s' = led s"
    and retry_queues: "wp_retry (wk_ports wk) m reason s = (Inr (), s') \<Longrightarrow>
      led s' = led s \<and> (\<exists>m' \<in> set (queue s' (pe_topic m) (ce_consumer_group m)). redelivery_of m m')"
    and dead_letter_adds: "wp_dead_letter (wk_ports wk) m reason s = (Inr p, s') \<Longrightarrow>
      letter_of m p \<and> led s' = ack_add m (log_add (topic_name Dlq) p (led s))"
    and completed_get: "wp_completed_get (wk_ports wk) t s = (Inr x, s') \<Longrightarrow> x = lg_done (led s) t \<and> led s' = led s"
    and completed_put: "wp_completed_put (wk_ports wk) t payload s = (Inr (), s') \<Longrightarrow>
      led s' = done_add t payload (led s)"
    and completed_put_fails: "wp_completed_put (wk_ports wk) t payload s = (Inl err, s') \<Longrightarrow> led s' = led s"
    and context_keeps: "keeps led (wp_context_get (wk_ports wk) ref)"
    and acquire_keeps: "keeps led (wp_acquire (wk_ports wk) key)"
    and release_returns: "\<exists>s'. wp_release (wk_ports wk) key s = (Inr (), s') \<and> led s' = led s"
    and identity_keeps: "keeps led (wp_identity (wk_ports wk))"
    and create_keeps: "keeps led (wp_create (wk_ports wk) e c)"
    and graph_keeps: "wp_create (wk_ports wk) e c s = (Inr env, s') \<Longrightarrow> keeps led (run_graph wk env rq)"
    and restore_keeps: "wp_create (wk_ports wk) e c s = (Inr env, s') \<Longrightarrow> keeps led (env_restore_policy env)"

section \<open>Evaluation of worker operations\<close>

lemma service_eq_iff [op_simps]:
  "service m v = (r, v') \<longleftrightarrow> (\<exists>s. m (wv_services v) = (r, s) \<and> v' = v\<lparr>wv_services := s\<rparr>)"
  by (auto simp: service_def split: prod.splits)

lemma count_eq_iff [op_simps]:
  "count f v = (r, v') \<longleftrightarrow> r = Inr () \<and> v' = v\<lparr>wv_stats := f (wv_stats v)\<rparr>"
  by (auto simp: count_def)

lemma set_environment_eq_iff [op_simps]:
  "set_environment env v = (r, v') \<longleftrightarrow> r = Inr () \<and> v' = v\<lparr>wv_environment := env\<rparr>"
  by (auto simp: set_environment_def)

lemma catching_Inr_iff [op_simps]:
  "catching m h s = (Inr x, s') \<longleftrightarrow>
     m s = (Inr x, s') \<or> (\<exists>err u. m s = (Inl err, u) \<and> h err u = (Inr x, s'))"
  by (auto simp: catching_def split: prod.splits sum.splits)

lemma ensuring_returned:
  assumes "ensuring m cleanup s = (r, s')" and "\<And>u. \<exists>u'. cleanup u = (Inr (), u') \<and> P u u'"
  obtains u where "m s = (r, u)" "P u s'"
proof -
  obtain r0 u where m: "m s = (r0, u)" by fastforce
  obtain u' where "cleanup u = (Inr (), u')" "P u u'" using assms(2) by blast
  with m assms(1) that show thesis by (auto simp: ensuring_def)
qed

text \<open>What the body has done to the ledger when it returns, and when it raises.\<close>

definition completed_by ::
  "consumed_event \<Rightarrow> string \<Rightarrow> ledger \<Rightarrow> ledger \<Rightarrow> bool" where
  "completed_by m task l l' \<longleftrightarrow>
     (\<exists>p. dget (en_payload (pe_event p)) ''task_id'' = PStr task \<and>
        en_event_type (pe_event p) = Workload_Optimization_Completed \<and>
        en_run_id (pe_event p) = en_run_id (pe_event m) \<and> pe_key p = pe_key m \<and>
        l' = ack_add m (log_add (topic_name Optimization_Results) p
          (done_add task (en_payload (pe_event p)) l)))"

definition unsettled :: "string \<Rightarrow> ledger \<Rightarrow> ledger \<Rightarrow> bool" where
  "unsettled task l l' \<longleftrightarrow> lg_acked l' = lg_acked l \<and>
     (\<forall>t. t \<noteq> topic_name Optimization_Results \<longrightarrow> lg_log l' t = lg_log l t) \<and>
     (\<forall>k. k \<noteq> task \<longrightarrow> lg_done l' k = lg_done l k)"

lemma unsettled_refl [simp]: "unsettled task l l"
  by (simp add: unsettled_def)

lemma completion_event_Inr:
  "completion_event ident e payload = Inr e' \<Longrightarrow> en_payload e' = payload \<and>
     en_event_type e' = Workload_Optimization_Completed \<and> en_run_id e' = en_run_id e \<and>
     en_causation_id e' = Some (en_event_id e) \<and> envelope_wf e'"
  by (auto simp: completion_event_def new_envelope_def check_envelope_Inr_iff)

lemma result_payload_task: "dget (result_payload task w i ex t) ''task_id'' = PStr task"
  by (simp add: result_payload_def)

context task_services
begin

lemmas ledger_keeps = keepsD [OF identity_keeps] keepsD [OF create_keeps] keepsD [OF context_keeps]
  keepsD [OF acquire_keeps]

lemma optimize_returns:
  assumes "optimize wk m task w c v = (Inr (), v')"
  shows "completed_by m task (led (wv_services v)) (led (wv_services v')) \<and>
    wv_stats v' = wt_completed_update Suc (wv_stats v)"
proof -
  let ?P = "wk_ports wk"
  from assms obtain env s1 repo ex s2 ident s3 e s4 p s5 s6 where
    create: "wp_create ?P (pe_event m) c (wv_services v) = (Inr env, s1)"
    and run: "run_graph wk env (run_request_of (pe_event m) task w c repo) s1 = (Inr ex, s2)"
    and ident: "wp_identity ?P s2 = (Inr ident, s3)"
    and e: "completion_event ident (pe_event m)
        (result_payload task w (wk_worker_id wk) ex (wp_elapsed ?P s2)) = Inr e"
    and put: "wp_completed_put ?P task
        (result_payload task w (wk_worker_id wk) ex (wp_elapsed ?P s2)) s3 = (Inr (), s4)"
    and pub: "wp_publish ?P (topic_name Optimization_Results) e (pe_key m) s4 = (Inr p, s5)"
    and ack: "wp_acknowledge ?P m s5 = (Inr (), s6)"
    and v': "wv_services v' = s6" "wv_stats v' = wt_completed_update Suc (wv_stats v)"
    by (auto simp: optimize_def op_simps Let_def)
  have same: "led s3 = led (wv_services v)"
    using ledger_keeps(1) [OF ident] keepsD [OF graph_keeps [OF create] run] ledger_keeps(2) [OF create]
    by simp
  show ?thesis
    using v' acknowledge_adds [OF ack] publish_adds [OF pub] completed_put [OF put] same
      completion_event_Inr [OF e] result_payload_task
    unfolding completed_by_def by (intro conjI exI [of _ p]) simp_all
qed

lemma optimize_raises:
  assumes "optimize wk m task w c v = (Inl err, v')"
  shows "unsettled task (led (wv_services v)) (led (wv_services v')) \<and> wv_stats v' = wv_stats v \<and>
    (wv_environment v' = wv_environment v \<or>
     (\<exists>env s s'. wp_create (wk_ports wk) (pe_event m) c s = (Inr env, s') \<and>
        wv_environment v' = Some env))"
proof (cases "wp_create (wk_ports wk) (pe_event m) c (wv_services v)")
  case (Pair r s1)
  show ?thesis
  proof (cases r)
    case (Inl x)
    with Pair assms ledger_keeps(2) [OF Pair] show ?thesis
      by (auto simp: optimize_def op_simps)
  next
    case (Inr env)
    with Pair have create: "wp_create (wk_ports wk) (pe_event m) c (wv_services v) = (Inr env, s1)"
      by simp
    note graph = keepsD [OF graph_keeps [OF create]]
    have "unsettled task (led (wv_services v)) (led (wv_services v')) \<and> wv_stats v' = wv_stats v \<and>
        wv_environment v' = Some env"
      using assms create ledger_keeps(2) [OF create]
      by (auto simp: optimize_def op_simps Let_def unsettled_def ledger_defs
          dest!: publish_fails acknowledge_fails completed_put_fails graph ledger_keeps(1)
            completed_put publish_adds)
    with create show ?thesis by blast
  qed
qed

end

section \<open>The four outcomes\<close>

definition settled_completed :: "consumed_event \<Rightarrow> ledger \<Rightarrow> ledger \<Rightarrow> worker_stats \<Rightarrow> worker_stats \<Rightarrow> bool" where
  "settled_completed m l l' t t' \<longleftrightarrow>
     t' = t\<lparr>wt_completed := Suc (wt_completed t)\<rparr> \<and> (\<exists>task. completed_by m task l l')"

definition settled_duplicate :: "consumed_event \<Rightarrow> ledger \<Rightarrow> ledger \<Rightarrow> worker_stats \<Rightarrow> worker_stats \<Rightarrow> bool" where
  "settled_duplicate m l l' t t' \<longleftrightarrow>
     t' = t\<lparr>wt_duplicates := Suc (wt_duplicates t)\<rparr> \<and>
     (\<exists>task p. lg_done l task = Some (en_payload (pe_event p)) \<and>
        l' = ack_add m (log_add (topic_name Optimization_Results) p l))"

definition settled_retried ::
  "int \<Rightarrow> consumed_event \<Rightarrow> consumed_event list \<Rightarrow> ledger \<Rightarrow> ledger \<Rightarrow> worker_stats \<Rightarrow> worker_stats \<Rightarrow> bool" where
  "settled_retried limit m q l l' t t' \<longleftrightarrow>
     t' = t\<lparr>wt_retried := Suc (wt_retried t)\<rparr> \<and> en_attempt (pe_event m) + 1 < limit \<and>
     (\<exists>task. unsettled task l l') \<and> (\<exists>m' \<in> set q. redelivery_of m m')"

definition settled_dead :: "consumed_event \<Rightarrow> ledger \<Rightarrow> ledger \<Rightarrow> worker_stats \<Rightarrow> worker_stats \<Rightarrow> bool" where
  "settled_dead m l l' t t' \<longleftrightarrow>
     t' = t\<lparr>wt_failed := Suc (wt_failed t)\<rparr> \<and>
     (\<exists>task p l0. unsettled task l l0 \<and> letter_of m p \<and>
        l' = ack_add m (log_add (topic_name Dlq) p l0))"

definition settled ::
  "int \<Rightarrow> consumed_event \<Rightarrow> consumed_event list \<Rightarrow> ledger \<Rightarrow> ledger \<Rightarrow> worker_stats \<Rightarrow> worker_stats \<Rightarrow> bool" where
  "settled limit m q l l' t t' \<longleftrightarrow>
     settled_completed m l l' t t' \<or> settled_duplicate m l l' t t' \<or>
     settled_retried limit m q l l' t t' \<or> settled_dead m l l' t t'"

text \<open>A message is acknowledged or queued again, and only its own position is acknowledged.\<close>

lemma settled_never_lost:
  assumes "settled limit m q l l' t t'"
  shows "own_key m \<in> lg_acked l' \<or> (\<exists>m' \<in> set q. redelivery_of m m')"
  using assms
  by (auto simp: settled_def settled_completed_def settled_duplicate_def settled_retried_def
      settled_dead_def completed_by_def ack_add_def)

lemma settled_acknowledges:
  assumes "settled limit m q l l' t t'" and "k \<in> lg_acked l'" and "k \<notin> lg_acked l"
  shows "k = own_key m \<and>
    ((\<exists>p \<in> set (lg_log l' (topic_name Optimization_Results)). \<exists>task.
        lg_done l' task = Some (en_payload (pe_event p))) \<or>
     (\<exists>p \<in> set (lg_log l' (topic_name Dlq)). letter_of m p))"
  using assms(1) unfolding settled_def
proof (elim disjE)
  assume "settled_completed m l l' t t'"
  with assms(2,3) show ?thesis
    by (auto simp: settled_completed_def completed_by_def ledger_defs)
next
  assume "settled_duplicate m l l' t t'"
  with assms(2,3) show ?thesis
    by (fastforce simp: settled_duplicate_def ledger_defs)
next
  assume "settled_retried limit m q l l' t t'"
  with assms(2,3) show ?thesis by (auto simp: settled_retried_def unsettled_def)
next
  assume "settled_dead m l l' t t'"
  with assms(2,3) show ?thesis
    by (auto simp: settled_dead_def unsettled_def ledger_defs)
qed

context task_services
begin

lemma restore_environment_keeps:
  assumes "restore_environment v = (r, v')"
    and "wv_environment v = None \<or>
      (\<exists>env e c s s'. wv_environment v = Some env \<and> wp_create (wk_ports wk) e c s = (Inr env, s'))"
  shows "r = Inr () \<and> led (wv_services v') = led (wv_services v) \<and> wv_stats v' = wv_stats v"
  using assms(2)
proof (elim disjE exE conjE)
  assume "wv_environment v = None"
  with assms(1) show ?thesis by (simp add: restore_environment_def op_simps)
next
  fix env e c s s'
  assume env: "wv_environment v = Some env" and create: "wp_create (wk_ports wk) e c s = (Inr env, s')"
  obtain r0 s0 where call: "env_restore_policy env (wv_services v) = (r0, s0)" by fastforce
  with assms(1) env keepsD [OF restore_keeps [OF create] call] show ?thesis
    by (auto simp: restore_environment_def suppressing_def service_def)
qed

lemma handle_failure_settles:
  assumes "handle_failure wk m err v = (Inr (), v')" and "unsettled task l (led (wv_services v))"
    and "wv_environment v = None \<or>
      (\<exists>env e c s s'. wv_environment v = Some env \<and> wp_create (wk_ports wk) e c s = (Inr env, s'))"
  shows "settled (wk_max_delivery_attempts wk) m
    (queue (wv_services v') (pe_topic m) (ce_consumer_group m)) l (led (wv_services v'))
    (wv_stats v) (wv_stats v')"
proof -
  obtain u where u: "restore_environment v = (Inr (), u)"
    and same: "led (wv_services u) = led (wv_services v)" "wv_stats u = wv_stats v"
    using restore_environment_keeps [OF _ assms(3)] by (metis prod.collapse)
  show ?thesis
  proof (cases "en_attempt (pe_event m) + 1 < wk_max_delivery_attempts wk")
    case True
    with assms(1) u obtain s where retry: "wp_retry (wk_ports wk) m (error_name err) (wv_services u) = (Inr (), s)"
      and v': "wv_services v' = s" "wv_stats v' = wt_retried_update Suc (wv_stats u)"
      by (auto simp: handle_failure_def op_simps)
    from retry_queues [OF retry] v' same True assms(2) show ?thesis
      by (auto simp: settled_def settled_retried_def)
  next
    case False
    with assms(1) u obtain s p where dead: "wp_dead_letter (wk_ports wk) m
        (error_name err @ '': '' @ error_text err) (wv_services u) = (Inr p, s)"
      and v': "wv_services v' = s" "wv_stats v' = wt_failed_update Suc (wv_stats u)"
      by (auto simp: handle_failure_def op_simps)
    from dead_letter_adds [OF dead] v' same assms(2) show ?thesis
      by (auto simp: settled_def settled_dead_def)
  qed
qed

lemma optimize_locked_settles:
  assumes "optimize_locked wk m key task w c v = (Inr (), v')" and "wv_environment v = None"
  shows "settled (wk_max_delivery_attempts wk) m
    (queue (wv_services v') (pe_topic m) (ce_consumer_group m)) (led (wv_services v))
    (led (wv_services v')) (wv_stats v) (wv_stats v')"
proof -
  let ?body = "\<lambda>_. ensuring (optimize wk m task w c) (service (wp_release (wk_ports wk) key))"
  have release: "\<exists>u'. service (wp_release (wk_ports wk) key) u = (Inr (), u') \<and>
      (led (wv_services u') = led (wv_services u) \<and> wv_stats u' = wv_stats u \<and>
       wv_environment u' = wv_environment u)" for u
  proof -
    obtain s' where s': "wp_release (wk_ports wk) key (wv_services u) = (Inr (), s')"
        "led s' = led (wv_services u)"
      using release_returns by blast
    then show ?thesis
      by (intro exI [of _ "u\<lparr>wv_services := s'\<rparr>"]) (simp add: service_def)
  qed
  obtain r0 s0 where acquire: "wp_acquire (wk_ports wk) key (wv_services v) = (r0, s0)" by fastforce
  let ?v0 = "v\<lparr>wv_services := s0\<rparr>"
  have led0: "led s0 = led (wv_services v)" by (rule ledger_keeps(4) [OF acquire])
  obtain r1 v1 where body: "?body () ?v0 = (r1, v1)" by fastforce
  from release obtain u where opt: "optimize wk m task w c ?v0 = (r1, u)"
    and rel: "led (wv_services v1) = led (wv_services u)" "wv_stats v1 = wv_stats u"
      "wv_environment v1 = wv_environment u"
    by (rule ensuring_returned [OF body]) auto
  have seq1: "seq (service (wp_acquire (wk_ports wk) key)) ?body v =
      (case r0 of Inl err \<Rightarrow> (Inl err, ?v0) | Inr _ \<Rightarrow> (r1, v1))"
    using acquire body by (simp add: seq_def service_def split: sum.split)
  consider (returned) "r0 = Inr ()" "r1 = Inr ()" "v' = v1"
    | (raised) err where "r0 = Inr ()" "r1 = Inl err" "handle_failure wk m err v1 = (Inr (), v')"
    | (locked) err where "r0 = Inl err" "handle_failure wk m err ?v0 = (Inr (), v')"
    using assms(1) unfolding optimize_locked_def catching_def seq1
    by (cases r0; cases r1) auto
  then show ?thesis
  proof cases
    case returned
    from optimize_returns [OF opt [unfolded returned(2)]] rel led0 returned(3) show ?thesis
      by (auto simp: settled_def settled_completed_def)
  next
    case raised
    from optimize_raises [OF opt [unfolded raised(2)]] rel led0 assms(2) handle_failure_settles [OF raised(3)]
    show ?thesis by fastforce
  next
    case locked
    from handle_failure_settles [OF locked(2), of task] led0 assms(2) show ?thesis by simp
  qed
qed

lemma validate_task_keeps: "keeps led (validate_task (wk_ports wk) e)"
  unfolding validate_task_def using context_keeps
  by (auto intro!: keeps_seq split: option.split)

lemma process_valid_settles:
  assumes "process_valid wk m (task, w, ns, c) v = (Inr (), v')" and "wv_environment v = None"
  shows "settled (wk_max_delivery_attempts wk) m
    (queue (wv_services v') (pe_topic m) (ce_consumer_group m)) (led (wv_services v))
    (led (wv_services v')) (wv_stats v) (wv_stats v')"
proof -
  from assms(1) obtain completed s where
    get: "wp_completed_get (wk_ports wk) task (wv_services v) = (Inr completed, s)"
    by (auto simp: process_valid_def op_simps)
  have done1: "completed = lg_done (led (wv_services v)) task" and led1: "led s = led (wv_services v)"
    using completed_get [OF get] by simp_all
  show ?thesis
  proof (cases completed)
    case None
    with assms(1) get obtain key where
      "optimize_locked wk m key task w c (v\<lparr>wv_services := s\<rparr>) = (Inr (), v')"
      by (auto simp: process_valid_def op_simps)
    from optimize_locked_settles [OF this] assms(2) led1 show ?thesis by simp
  next
    case (Some payload)
    with assms(1) get obtain ident s1 e p s2 s3 where
      ident: "wp_identity (wk_ports wk) s = (Inr ident, s1)"
      and e: "completion_event ident (pe_event m) payload = Inr e"
      and pub: "wp_publish (wk_ports wk) (topic_name Optimization_Results) e (pe_key m) s1 = (Inr p, s2)"
      and ack: "wp_acknowledge (wk_ports wk) m s2 = (Inr (), s3)"
      and v': "wv_services v' = s3" "wv_stats v' = wt_duplicates_update Suc (wv_stats v)"
      by (auto simp: process_valid_def publish_completion_def op_simps)
    have "en_payload (pe_event p) = payload"
      using publish_adds [OF pub] completion_event_Inr [OF e] by simp
    with Some done1 have "lg_done (led (wv_services v)) task = Some (en_payload (pe_event p))" by simp
    moreover have "led (wv_services v') =
        ack_add m (log_add (topic_name Optimization_Results) p (led (wv_services v)))"
      using acknowledge_adds [OF ack] publish_adds [OF pub] ledger_keeps(1) [OF ident] led1 v' by simp
    ultimately show ?thesis
      using v' unfolding settled_def settled_duplicate_def by auto
  qed
qed

lemma process_settles:
  assumes "process wk m v = (Inr (), v')"
  shows "settled (wk_max_delivery_attempts wk) m
    (queue (wv_services v') (pe_topic m) (ce_consumer_group m)) (led (wv_services v))
    (led (wv_services v')) (wt_claimed_update Suc (wv_stats v)) (wv_stats v')"
proof -
  let ?v = "v\<lparr>wv_environment := None, wv_stats := wt_claimed_update Suc (wv_stats v)\<rparr>"
  obtain r s where val: "validate_task (wk_ports wk) (pe_event m) (wv_services v) = (r, s)" by fastforce
  have led1: "led s = led (wv_services v)" by (rule keepsD [OF validate_task_keeps val])
  show ?thesis
  proof (cases r)
    case (Inr task)
    obtain t w ns c where task: "task = (t, w, ns, c)" by (cases task) auto
    with assms val Inr have "process_valid wk m (t, w, ns, c) (?v\<lparr>wv_services := s\<rparr>) = (Inr (), v')"
      by (simp add: process_def seq_def set_environment_def count_def service_def)
    from process_valid_settles [OF this] led1 show ?thesis by simp
  next
    case (Inl err)
    with assms val have "reject_task wk m err (?v\<lparr>wv_services := s\<rparr>) = (Inr (), v')"
      by (auto simp: process_def seq_def set_environment_def count_def service_def split: if_splits)
    then obtain p s' where dead: "wp_dead_letter (wk_ports wk) m (''invalid task: '' @ error_text err) s = (Inr p, s')"
      and v': "wv_services v' = s'" "wv_stats v' = wt_failed_update Suc (wt_claimed_update Suc (wv_stats v))"
      by (auto simp: reject_task_def op_simps)
    have "settled_dead m (led (wv_services v)) (led (wv_services v'))
        (wt_claimed_update Suc (wv_stats v)) (wv_stats v')"
      unfolding settled_dead_def using dead_letter_adds [OF dead] v' led1
      by (intro conjI exI [of _ "[]"] exI [of _ p] exI [of _ "led (wv_services v)"]) simp_all
    then show ?thesis by (simp add: settled_def)
  qed
qed

end

end
