(* ===== verification/Workload_Frame.thy ===== *)
theory Workload_Frame
  imports Workload_Graph
begin

text \<open>
  What a run leaves alone: a part of the world that no operation of the environment, the log and
  the reasoner touches is the same after a run, whether the run returns or raises.
\<close>

locale framed_graph =
  fixes cfg :: "'w graph_config" and view :: "'w \<Rightarrow> 'v"
  assumes frame_get: "keeps view (env_get_current_policy (gc_env cfg))"
    and frame_observe: "keeps view (env_get_observed_usage (gc_env cfg))"
    and frame_apply: "keeps view (env_apply_policy (gc_env cfg) P)"
    and frame_verify: "keeps view (env_verify_workload (gc_env cfg))"
    and frame_restore: "keeps view (env_restore_policy (gc_env cfg))"
    and frame_describe: "keeps view (env_describe_failure (gc_env cfg) result)"
    and frame_sink: "keeps view (gc_sink cfg ev)"
    and frame_summary: "keeps view (gc_summary cfg evs)"
    and frame_provider: "provider_keeps view (gc_provider cfg)"
begin

abbreviation run_view :: "'w run \<Rightarrow> 'v" where
  "run_view r \<equiv> view (fst r)"

lemma frame_on_env: "keeps view m \<Longrightarrow> keeps run_view (on_env m)"
  unfolding keeps_def by (auto simp: on_env_def split: prod.splits) (metis snd_conv)

lemma frame_emit: "keeps run_view (emit cfg st agent action reason decision details)"
proof -
  have "run_view (snd (emit cfg st agent action reason decision details (w, evs))) = run_view (w, evs)" for w evs
    using frame_sink unfolding keeps_def
    by (auto simp: emit_def record_event_def split: prod.splits) (metis snd_conv)
  then show ?thesis by (simp add: keeps_def)
qed

lemma frame_need: "keeps run_view (need key x)"
  by (auto simp: need_def split: option.splits)

lemma frame_failure_of: "keeps run_view (failure_of st)"
  unfolding failure_of_def by (intro keeps_seq frame_need) (auto split: option.splits)

lemma frame_explain: "keeps view (explain_op (gc_provider cfg) f)"
  unfolding keeps_def
  by (auto simp: explain_op_def split: prod.splits dest!: explain_keeps [OF frame_provider])

lemmas frame_intros = keeps_seq frame_emit frame_on_env frame_need frame_failure_of frame_explain
  frame_get frame_observe frame_apply frame_verify frame_restore frame_describe
  keeps_ret keeps_throw keeps_lift

lemma frame_node: "keeps run_view (exec_node cfg n st)"
  by (cases n)
    (simp_all add: load_context_def inspect_def gather_def generate_def validate_def verify_def
      apply_candidate_def restore_def
      check_more_def final_verify_def diagnose_def repair_def human_review_def finalize_def
      publish_result_def Let_def frame_intros split: sum.split if_split)

lemma frame_run_nodes: "keeps run_view (run_nodes cfg k n st)"
proof (induction k arbitrary: n st)
  case (Suc k)
  then show ?case
    by (auto intro!: keeps_seq frame_node split: option.split)
qed simp

lemma frame_run: "keeps view (run_workload cfg rq prior)"
proof -
  have wrote: "keeps run_view (write_trajectory cfg)"
  proof -
    have "run_view (snd (write_trajectory cfg (w, evs))) = run_view (w, evs)" for w evs
      using frame_summary unfolding keeps_def
      by (auto simp: write_trajectory_def split: prod.splits) (metis snd_conv)
    then show ?thesis by (simp add: keeps_def)
  qed
  have res: "keeps run_view (run_result rq path st)" for path st
    unfolding run_result_def by (auto intro!: keeps_seq frame_need)
  let ?m = "seq (run_nodes cfg (gc_limit cfg) Load_Service_Context
      (initial_state (env_name (gc_env cfg)) rq prior))
      (\<lambda>final. seq (write_trajectory cfg) (\<lambda>path. run_result rq path final))"
  have m: "keeps run_view ?m" by (intro keeps_seq frame_run_nodes wrote res)
  have "view (snd (run_workload cfg rq prior w)) = view w" for w
  proof -
    obtain x w' evs where call: "?m (w, []) = (x, (w', evs))" by (metis prod.collapse)
    then have "snd (run_workload cfg rq prior w) = w'" by (simp add: run_workload_def)
    moreover have "run_view (w', evs) = run_view (w, [])" by (rule keepsD [OF m call])
    ultimately show ?thesis by simp
  qed
  then show ?thesis by (simp add: keeps_def)
qed

end

end
