(* ===== verification/Context_Store.thy ===== *)
theory Context_Store
  imports Context_Models
begin

text \<open>
  \<open>context_layer/store.py\<close>: the service registry and the context store. A SQLite table with a text
  primary key is its list of rows in \<open>rowid\<close> order: \<open>INSERT OR REPLACE\<close> deletes the row with the
  key and inserts the new one with the greatest \<open>rowid\<close>. Records are JSON texts; \<open>loads\<close> is the
  decoder. Errors of the database itself are not modelled. The two tables are interpreted as
  instances of the locale \<open>row_store\<close>.
\<close>

section \<open>Tables with a text primary key\<close>

definition replace_row :: "('r \<Rightarrow> string) \<Rightarrow> 'r \<Rightarrow> 'r list \<Rightarrow> 'r list" where
  "replace_row key row rows = filter (\<lambda>r. key r \<noteq> key row) rows @ [row]"

definition find_row :: "('r \<Rightarrow> string) \<Rightarrow> string \<Rightarrow> 'r list \<Rightarrow> 'r option" where
  "find_row key k rows = find (\<lambda>r. key r = k) rows"

lemma find_append: "find P (xs @ ys) = (case find P xs of None \<Rightarrow> find P ys | Some x \<Rightarrow> Some x)"
  by (induction xs) auto

lemma find_filter_other:
  "(\<And>r. P r \<Longrightarrow> Q r) \<Longrightarrow> find P (filter Q xs) = find P xs"
  by (induction xs) auto

lemma find_row_replace:
  "find_row key k (replace_row key row rows) =
     (if key row = k then Some row else find_row key k rows)"
proof (cases "key row = k")
  case True
  have "find (\<lambda>r. key r = k) (filter (\<lambda>r. key r \<noteq> key row) rows) = None"
    using True by (auto simp: find_None_iff)
  with True show ?thesis by (simp add: find_row_def replace_row_def find_append)
next
  case False
  then have "find (\<lambda>r. key r = k) (filter (\<lambda>r. key r \<noteq> key row) rows) = find (\<lambda>r. key r = k) rows"
    by (intro find_filter_other) auto
  with False show ?thesis
    by (simp add: find_row_def replace_row_def find_append split: option.split)
qed

lemma replace_row_distinct:
  "distinct (map key rows) \<Longrightarrow> distinct (map key (replace_row key row rows))"
  by (auto simp: replace_row_def distinct_map_filter)

text \<open>What a client of a keyed table relies on: a write is read back under its key, and only
  there.\<close>

locale row_store =
  fixes put :: "'v \<Rightarrow> 's \<Rightarrow> 's"
    and get :: "'k \<Rightarrow> 's \<Rightarrow> 'r option"
    and key :: "'v \<Rightarrow> 'k"
    and stored :: "'v \<Rightarrow> 'r"
  assumes get_put: "get k (put v s) = (if key v = k then Some (stored v) else get k s)"
begin

lemma put_overwrites: "key v = key u \<Longrightarrow> get k (put v (put u s)) = get k (put v s)"
  by (simp add: get_put)

lemma put_commutes: "key v \<noteq> key u \<Longrightarrow> get k (put v (put u s)) = get k (put u (put v s))"
  by (auto simp: get_put)

lemma get_fold_put:
  "distinct (map key vs) \<Longrightarrow> v \<in> set vs \<Longrightarrow> get (key v) (fold put vs s) = Some (stored v)"
proof (induction vs arbitrary: s)
  case (Cons u vs)
  have other: "get k (fold put ws t) = get k t" if "k \<notin> key ` set ws" for k ws t
    using that by (induction ws arbitrary: t) (auto simp: get_put)
  show ?case
  proof (cases "v \<in> set vs")
    case True
    with Cons show ?thesis by simp
  next
    case False
    with Cons.prems have "v = u" "key u \<notin> key ` set vs" by auto
    then show ?thesis by (simp add: other get_put)
  qed
qed simp

end

section \<open>The service registry\<close>

record service_row =
  sr_service_id :: string
  sr_namespace :: string
  sr_record :: string

definition service_row_of :: "service_context \<Rightarrow> service_row" where
  "service_row_of s =
     \<lparr>sr_service_id = sc_service_id s, sr_namespace = sc_namespace s,
      sr_record = json_compact (PDict (service_to_dict s))\<rparr>"

definition registry_put :: "service_context \<Rightarrow> service_row list \<Rightarrow> service_row list" where
  "registry_put s rows = replace_row sr_service_id (service_row_of s) rows"

text \<open>\<open>json.loads\<close> of a record, which is then read as a mapping.\<close>

definition loads_dict :: "(string \<Rightarrow> pyval result) \<Rightarrow> string \<Rightarrow> pydict result" where
  "loads_dict loads text =
     rbind (loads text) (\<lambda>v.
       case v of
         PDict d \<Rightarrow> Inr d
       | _ \<Rightarrow> Inl (TypeError (type_name v @ '' cannot be read by key'')))"

definition registry_get ::
  "(string \<Rightarrow> pyval result) \<Rightarrow> string \<Rightarrow> service_row list \<Rightarrow> service_context option result" where
  "registry_get loads service_id rows =
     (case find_row sr_service_id service_id rows of
        None \<Rightarrow> Inr None
      | Some row \<Rightarrow>
          rbind (loads_dict loads (sr_record row)) (\<lambda>d.
          rbind (service_from_dict d) (\<lambda>s. Inr (Some s))))"

definition registry_list ::
  "(string \<Rightarrow> pyval result) \<Rightarrow> string option \<Rightarrow> service_row list \<Rightarrow> service_context list result" where
  "registry_list loads namespace rows =
     rmap (\<lambda>row. rbind (loads_dict loads (sr_record row)) service_from_dict)
       (sort_key sr_service_id
         (case namespace of
            None \<Rightarrow> rows
          | Some ns \<Rightarrow> filter (\<lambda>row. sr_namespace row = ns) rows))"

interpretation services: row_store registry_put "find_row sr_service_id" sc_service_id service_row_of
  by unfold_locales (simp add: registry_put_def find_row_replace service_row_of_def)

section \<open>The context store\<close>

record context_row =
  cr_context_ref :: string
  cr_service_id :: string
  cr_created_at :: string
  cr_record :: string

text \<open>\<open>now\<close> is \<open>CURRENT_TIMESTAMP\<close>.\<close>

definition context_row_of :: "string \<Rightarrow> indexed_context \<Rightarrow> context_row" where
  "context_row_of now c =
     \<lparr>cr_context_ref = ix_context_ref c, cr_service_id = ix_service_id c, cr_created_at = now,
      cr_record = json_compact (PDict (indexed_to_dict c))\<rparr>"

definition context_put :: "string \<Rightarrow> indexed_context \<Rightarrow> context_row list \<Rightarrow> context_row list" where
  "context_put now c rows = replace_row cr_context_ref (context_row_of now c) rows"

definition read_context ::
  "(string \<Rightarrow> int result) \<Rightarrow> (string \<Rightarrow> pyval result) \<Rightarrow> context_row option \<Rightarrow>
   indexed_context option result" where
  "read_context float_int loads row =
     (case row of
        None \<Rightarrow> Inr None
      | Some r \<Rightarrow>
          rbind (loads_dict loads (cr_record r)) (\<lambda>d.
          rbind (indexed_from_dict float_int d) (\<lambda>c. Inr (Some c))))"

definition context_get ::
  "(string \<Rightarrow> int result) \<Rightarrow> (string \<Rightarrow> pyval result) \<Rightarrow> string \<Rightarrow> context_row list \<Rightarrow>
   indexed_context option result" where
  "context_get float_int loads context_ref rows =
     read_context float_int loads (find_row cr_context_ref context_ref rows)"

text \<open>\<open>ORDER BY created_at DESC, rowid DESC LIMIT 1\<close>: among the newest rows the last one.\<close>

fun newest :: "context_row list \<Rightarrow> context_row option" where
  "newest [] = None"
| "newest (r # rows) =
     (case newest rows of
        None \<Rightarrow> Some r
      | Some s \<Rightarrow> if cr_created_at r \<le> cr_created_at s then Some s else Some r)"

definition latest_row :: "string \<Rightarrow> context_row list \<Rightarrow> context_row option" where
  "latest_row service_id rows = newest (filter (\<lambda>r. cr_service_id r = service_id) rows)"

definition context_latest ::
  "(string \<Rightarrow> int result) \<Rightarrow> (string \<Rightarrow> pyval result) \<Rightarrow> string \<Rightarrow> context_row list \<Rightarrow>
   indexed_context option result" where
  "context_latest float_int loads service_id rows =
     read_context float_int loads (latest_row service_id rows)"

interpretation contexts: row_store "context_put now" "find_row cr_context_ref" ix_context_ref
    "context_row_of now"
  by unfold_locales (simp add: context_put_def find_row_replace context_row_of_def)

lemma newest_Some: "newest rows = Some r \<Longrightarrow> r \<in> set rows \<and> (\<forall>s \<in> set rows. cr_created_at s \<le> cr_created_at r)"
proof (induction rows arbitrary: r)
  case (Cons x rows)
  show ?case
  proof (cases "newest rows")
    case None
    then have "rows = []" by (cases rows) (auto split: option.splits if_splits)
    with Cons.prems show ?thesis by simp
  next
    case (Some s)
    with Cons.IH [of s] Cons.prems show ?thesis
      by (fastforce split: if_splits)
  qed
qed simp

lemma newest_snoc:
  "(\<And>s. s \<in> set rows \<Longrightarrow> cr_created_at s \<le> cr_created_at r) \<Longrightarrow> newest (rows @ [r]) = Some r"
  by (induction rows) auto

text \<open>While the clock does not go back, the latest context of a service is the last one put.\<close>

lemma latest_row_put:
  assumes "\<And>r. r \<in> set rows \<Longrightarrow> cr_created_at r \<le> now"
  shows "latest_row (ix_service_id c) (context_put now c rows) = Some (context_row_of now c)"
  using assms
  by (auto simp: latest_row_def context_put_def replace_row_def context_row_of_def
      intro!: newest_snoc)

lemma latest_row_other:
  assumes "ix_service_id c \<noteq> sid"
    and "\<And>r. r \<in> set rows \<Longrightarrow> cr_context_ref r = ix_context_ref c \<Longrightarrow> cr_service_id r \<noteq> sid"
  shows "latest_row sid (context_put now c rows) = latest_row sid rows"
proof -
  have "filter (\<lambda>r. cr_service_id r = sid \<and> cr_context_ref r \<noteq> ix_context_ref c) rows =
      filter (\<lambda>r. cr_service_id r = sid) rows"
    using assms(2) by (intro filter_cong) auto
  then show ?thesis
    using assms(1)
    by (simp add: latest_row_def context_put_def replace_row_def context_row_of_def conj_commute)
qed

end
