(* ===== verification/Memory_Services.thy ===== *)
theory Memory_Services
  imports Worker_Outcomes Workload_Frame Context_Store Samples
begin

text \<open>
  The in-memory collaborators of a worker, as the judge and the tests put them together:
  \<open>InMemoryEventBus\<close>, \<open>InMemoryDeduplicationStore\<close> (\<open>event_layer/deduplication.py\<close>),
  \<open>InMemoryWorkloadLockManager\<close>, the SQLite context store and a factory of environments over a
  cluster of type \<open>'w\<close>. They meet the contract \<open>task_services\<close>.
\<close>

record 'w services =
  sv_bus :: event_bus
  sv_completed :: "string \<Rightarrow> pydict option"
  sv_contexts :: "context_row list"
  sv_locked :: "string list"
  sv_draws :: nat
  sv_cluster :: 'w

text \<open>\<open>mc_draw n\<close> is the n-th (\<open>uuid4().hex\<close>, \<open>now\<close>) of the process. \<open>mc_prior\<close> is what the graph's
  in-memory saver holds for the thread of a run: the values of an earlier run of a retried task.\<close>

record 'w memory_config =
  mc_draw :: "nat \<Rightarrow> string \<times> string"
  mc_loads :: "string \<Rightarrow> pyval result"
  mc_float_int :: "string \<Rightarrow> int result"
  mc_create :: "event_envelope \<Rightarrow> indexed_context \<Rightarrow> 'w services \<Rightarrow>
    'w services environment_adapter result \<times> 'w services"
  mc_elapsed :: string
  mc_prior :: "run_request \<Rightarrow> 'w services \<Rightarrow> workload_state"

definition draw_identity :: "'w memory_config \<Rightarrow> ('w services, string \<times> string) op" where
  "draw_identity mc s = (Inr (mc_draw mc (sv_draws s)), s\<lparr>sv_draws := Suc (sv_draws s)\<rparr>)"

definition on_bus :: "(event_bus \<Rightarrow> 'a result \<times> event_bus) \<Rightarrow> ('w services, 'a) op" where
  "on_bus m s = (case m (sv_bus s) of (r, bus) \<Rightarrow> (r, s\<lparr>sv_bus := bus\<rparr>))"

definition memory_retry :: "'w memory_config \<Rightarrow> consumed_event \<Rightarrow> string \<Rightarrow> ('w services, unit) op" where
  "memory_retry mc m reason =
     seq (draw_identity mc) (\<lambda>ident. on_bus (bus_retry ident m reason))"

definition memory_dead_letter ::
  "'w memory_config \<Rightarrow> consumed_event \<Rightarrow> string \<Rightarrow> ('w services, published_event) op" where
  "memory_dead_letter mc m reason =
     seq (draw_identity mc) (\<lambda>ident. on_bus (bus_dead_letter ident m reason))"

definition memory_completed_get :: "string \<Rightarrow> ('w services, pydict option) op" where
  "memory_completed_get task_id s = (Inr (sv_completed s task_id), s)"

definition memory_completed_put :: "string \<Rightarrow> pydict \<Rightarrow> ('w services, unit) op" where
  "memory_completed_put task_id result s =
     (Inr (), s\<lparr>sv_completed := (sv_completed s)(task_id \<mapsto> result)\<rparr>)"

text \<open>A worker runs a task from the moment its lock is free, so taking a lock does not wait
  here; \<open>sv_locked\<close> lists the locks held.\<close>

definition memory_acquire :: "string \<Rightarrow> ('w services, unit) op" where
  "memory_acquire key s = (Inr (), s\<lparr>sv_locked := key # sv_locked s\<rparr>)"

definition memory_release :: "string \<Rightarrow> ('w services, unit) op" where
  "memory_release key s = (Inr (), s\<lparr>sv_locked := remove1 key (sv_locked s)\<rparr>)"

definition memory_context_get ::
  "'w memory_config \<Rightarrow> string \<Rightarrow> ('w services, indexed_context option) op" where
  "memory_context_get mc ref s =
     (context_get (mc_float_int mc) (mc_loads mc) ref (sv_contexts s), s)"

definition memory_ports :: "'w memory_config \<Rightarrow> 'w services worker_ports" where
  "memory_ports mc =
     \<lparr>wp_publish = (\<lambda>t e k. on_bus (bus_publish t e k)),
      wp_acknowledge = (\<lambda>m. on_bus (bus_acknowledge m)),
      wp_retry = memory_retry mc, wp_dead_letter = memory_dead_letter mc,
      wp_completed_get = memory_completed_get, wp_completed_put = memory_completed_put,
      wp_context_get = memory_context_get mc, wp_acquire = memory_acquire,
      wp_release = memory_release, wp_create = mc_create mc, wp_identity = draw_identity mc,
      wp_elapsed = (\<lambda>_. mc_elapsed mc)\<rparr>"

definition memory_worker ::
  "'w memory_config \<Rightarrow> 'w services graph_config \<Rightarrow> string \<Rightarrow> string \<Rightarrow> int \<Rightarrow> 'w services worker" where
  "memory_worker mc graph worker_id cluster attempts =
     \<lparr>wk_worker_id = worker_id, wk_ports = memory_ports mc, wk_graph = graph,
      wk_prior = mc_prior mc, wk_cluster = cluster,
      wk_max_delivery_attempts = attempts\<rparr>"

text \<open>\<open>run_one\<close> of a fresh consumer: it claims a message and processes it; with nothing to claim
  it would wait, and a closed bus ends the iteration.\<close>

definition run_one :: "'w services worker \<Rightarrow> ('w services worker_state, consumed_event option) op" where
  "run_one wk =
     seq (service (on_bus (bus_claim (topic_name Optimization_Requests) optimization_consumer_group
            (wk_worker_id wk)))) (\<lambda>turn.
     case turn of
       Message m \<Rightarrow> seq (process wk m) (\<lambda>_. ret (Some m))
     | _ \<Rightarrow> ret None)"

section \<open>Environments over a cluster\<close>

definition on_cluster :: "('w, 'a) op \<Rightarrow> ('w services, 'a) op" where
  "on_cluster m s = (case m (sv_cluster s) of (r, w) \<Rightarrow> (r, s\<lparr>sv_cluster := w\<rparr>))"

definition lift_environment :: "'w environment_adapter \<Rightarrow> 'w services environment_adapter" where
  "lift_environment env =
     \<lparr>env_name = env_name env,
      env_get_current_policy = on_cluster (env_get_current_policy env),
      env_get_observed_usage = on_cluster (env_get_observed_usage env),
      env_apply_policy = (\<lambda>P. on_cluster (env_apply_policy env P)),
      env_verify_workload = on_cluster (env_verify_workload env),
      env_restore_policy = on_cluster (env_restore_policy env),
      env_describe_failure = (\<lambda>r. on_cluster (env_describe_failure env r))\<rparr>"

text \<open>A factory over benchmark cases, as the judge's: each task gets a new simulator.\<close>

definition simulator_create ::
  "(string \<times> benchmark_case) list \<Rightarrow> string \<Rightarrow> event_envelope \<Rightarrow> indexed_context \<Rightarrow>
   simulator services \<Rightarrow> simulator services environment_adapter result \<times> simulator services" where
  "simulator_create cases elapsed e c s =
     (case req_text (en_payload e) ''workload_id'' of
        Inl err \<Rightarrow> (Inl err, s)
      | Inr workload_id \<Rightarrow>
          (case map_of cases workload_id of
             None \<Rightarrow> (Inl (KeyError workload_id), s)
           | Some case_data \<Rightarrow>
               (Inr (lift_environment (simulator_adapter elapsed case_data)),
                s\<lparr>sv_cluster := new_simulator case_data\<rparr>)))"

definition memory_ledger :: "'w services \<Rightarrow> ledger" where
  "memory_ledger s =
     \<lparr>lg_log = eb_logs (sv_bus s), lg_acked = set (eb_acknowledged (sv_bus s)),
      lg_done = sv_completed s\<rparr>"

definition memory_queue :: "'w services \<Rightarrow> string \<Rightarrow> string \<Rightarrow> consumed_event list" where
  "memory_queue s = queue_of (sv_bus s)"

section \<open>The contract\<close>

lemma on_bus_eq_iff [op_simps]:
  "on_bus m s = (r, s') \<longleftrightarrow> (\<exists>bus. m (sv_bus s) = (r, bus) \<and> s' = s\<lparr>sv_bus := bus\<rparr>)"
  by (auto simp: on_bus_def split: prod.splits)

lemma draw_identity_eq_iff [op_simps]:
  "draw_identity mc s = (r, s') \<longleftrightarrow>
     r = Inr (mc_draw mc (sv_draws s)) \<and> s' = s\<lparr>sv_draws := Suc (sv_draws s)\<rparr>"
  by (auto simp: draw_identity_def)

lemma queue_of_set_queue [simp]:
  "queue_of (set_queue (t, g) q bus) t g = q"
  by (simp add: queue_of_def set_queue_def AList.update_conv')

lemma bus_retry_Inr:
  assumes "bus_retry ident m reason bus = (Inr (), bus')"
  shows "eb_logs bus' = eb_logs bus \<and> eb_acknowledged bus' = eb_acknowledged bus \<and>
    (\<exists>m' \<in> set (queue_of bus' (pe_topic m) (ce_consumer_group m)). redelivery_of m m')"
  using assms
  by (auto simp: bus_retry_def redelivery_of_def next_attempt_def check_envelope_Inr_iff
      split: if_splits option.splits sum.splits)
    (auto simp: set_queue_def)

lemma bus_dead_letter_Inr:
  assumes "bus_dead_letter ident m reason bus = (Inr p, bus')"
  shows "letter_of m p" and "eb_logs bus' = (eb_logs bus)(topic_name Dlq := eb_logs bus (topic_name Dlq) @ [p])"
    and "eb_acknowledged bus' = own_key m # eb_acknowledged bus"
proof -
  from assms obtain e bus1 where e: "dead_letter_event ident m reason = Inr e"
    and pub: "bus_publish (topic_name Dlq) e (pe_key m) bus = (Inr p, bus1)"
    and bus': "bus' = snd (bus_acknowledge m bus1)"
    by (auto simp: bus_dead_letter_def split: sum.splits prod.splits)
  note pub' = bus_publish_Inr [OF pub]
  show "letter_of m p"
    using e by (subst pub'(3)) (auto simp: letter_of_def dead_letter_event_def new_envelope_def
        check_envelope_Inr_iff)
  show "eb_logs bus' = (eb_logs bus)(topic_name Dlq := eb_logs bus (topic_name Dlq) @ [p])"
    and "eb_acknowledged bus' = own_key m # eb_acknowledged bus"
    by (simp_all add: bus' bus_acknowledge_def pub'(4) own_key_def)
qed

lemma bus_publish_Inl: "bus_publish t e k bus = (Inl err, bus') \<Longrightarrow> bus' = bus"
  by (auto simp: bus_publish_def ensure_open_def Let_def split: if_splits)

lemma memory_ports_sel [simp]:
  "wp_publish (memory_ports mc) t e k = on_bus (bus_publish t e k)"
  "wp_acknowledge (memory_ports mc) m = on_bus (bus_acknowledge m)"
  "wp_retry (memory_ports mc) = memory_retry mc"
  "wp_dead_letter (memory_ports mc) = memory_dead_letter mc"
  "wp_completed_get (memory_ports mc) = memory_completed_get"
  "wp_completed_put (memory_ports mc) = memory_completed_put"
  "wp_context_get (memory_ports mc) = memory_context_get mc"
  "wp_acquire (memory_ports mc) = memory_acquire"
  "wp_release (memory_ports mc) = memory_release"
  "wp_create (memory_ports mc) = mc_create mc"
  "wp_identity (memory_ports mc) = draw_identity mc"
  "wp_elapsed (memory_ports mc) s = mc_elapsed mc"
  by (simp_all add: memory_ports_def)

lemma memory_worker_sel [simp]:
  "wk_ports (memory_worker mc g i cl n) = memory_ports mc"
  "wk_graph (memory_worker mc g i cl n) = g"
  "wk_worker_id (memory_worker mc g i cl n) = i"
  "wk_cluster (memory_worker mc g i cl n) = cl"
  "wk_max_delivery_attempts (memory_worker mc g i cl n) = n"
  by (simp_all add: memory_worker_def)

text \<open>What a factory and a graph have to leave alone: everything but the cluster.\<close>

definition private_factory :: "'w memory_config \<Rightarrow> 'w services graph_config \<Rightarrow> bool" where
  "private_factory mc graph \<longleftrightarrow>
     (\<forall>e c s r s'. mc_create mc e c s = (r, s') \<longrightarrow> memory_ledger s' = memory_ledger s \<and>
        (\<forall>env. r = Inr env \<longrightarrow> framed_graph (graph\<lparr>gc_env := env\<rparr>) memory_ledger))"

lemma memory_services_contract:
  assumes "private_factory mc graph"
  shows "task_services (memory_worker mc graph worker_id cluster attempts) memory_ledger memory_queue"
proof -
  have framed: "framed_graph (graph\<lparr>gc_env := env\<rparr>) memory_ledger"
    if "mc_create mc e c s = (Inr env, s')" for e c s env s'
    using assms that unfolding private_factory_def by blast
  let ?wk = "memory_worker mc graph worker_id cluster attempts"
  note run = framed_graph.frame_run [OF framed]
  have restore: "keeps memory_ledger (env_restore_policy env)" if "mc_create mc e c s = (Inr env, s')"
    for e c s env s'
    using framed_graph.frame_restore [OF framed [OF that]] by simp
  have created: "keeps memory_ledger (mc_create mc e c)" for e c
    using assms by (auto simp: private_factory_def keeps_def) (metis prod.collapse)
  have graph: "keeps memory_ledger (run_graph ?wk env rq)" if "mc_create mc e c s = (Inr env, s')"
    for e c s env s' rq
    using run [OF that] by (simp add: keeps_def run_graph_def memory_worker_def)
  have bus: "memory_ledger (s\<lparr>sv_bus := b\<rparr>) = (memory_ledger s)\<lparr>lg_log := eb_logs b, lg_acked := set (eb_acknowledged b)\<rparr>"
    for s :: "'a services" and b
    by (simp add: memory_ledger_def)
  show ?thesis
    by (rule task_services.intro; unfold memory_worker_sel memory_ports_sel;
        (rule created graph restore; assumption)?;
        (simp add: op_simps)?;
        (auto simp: op_simps bus ledger_defs memory_retry_def memory_dead_letter_def
          memory_completed_get_def memory_completed_put_def memory_context_get_def
          memory_acquire_def memory_release_def keeps_def memory_ledger_def memory_queue_def
          bus_acknowledge_def own_key_def created draw_identity_def
          dest!: bus_publish_Inl bus_retry_Inr dest: bus_publish_Inr bus_dead_letter_Inr)?)
qed

end
