(* ===== verification/Worker_Safety.thy ===== *)
theory Worker_Safety
  imports Worker_Outcomes Workload_Tested
begin

text \<open>
  What processing a message does to the policy in force. The locale \<open>guarded_services\<close> adds the
  cluster to the contract of the worker: the environments of the factory meet the contract of the
  workload graph, nothing else of the worker touches the cluster, and restoring succeeds. Then a
  completed task leaves in force the policy its result reports, never more than the original; a
  task that fails leaves the original.
\<close>

locale guarded_services = task_services wk led queue
  for wk :: "'s worker" and led :: "'s \<Rightarrow> ledger"
    and queue :: "'s \<Rightarrow> string \<Rightarrow> string \<Rightarrow> consumed_event list" +
  fixes current :: "'s \<Rightarrow> policy" and baseline :: "'s \<Rightarrow> policy"
  assumes created_graph: "wp_create (wk_ports wk) e c s = (Inr env, s') \<Longrightarrow>
      current s' = baseline s' \<and>
      workload_graph ((wk_graph wk)\<lparr>gc_env := env\<rparr>) current baseline (\<lambda>_. True)"
    and uncreated: "wp_create (wk_ports wk) e c s = (Inl err, s') \<Longrightarrow>
      (current s', baseline s') = (current s, baseline s)"
    and restore_works: "wp_create (wk_ports wk) e c s = (Inr env, s') \<Longrightarrow>
      \<exists>u'. env_restore_policy env u = (Inr (), u') \<and> current u' = baseline u'"
    and graph_baseline: "wp_create (wk_ports wk) e c s = (Inr env, s') \<Longrightarrow> keeps baseline (run_graph wk env rq)"
    and ports_keep:
      "keeps (\<lambda>s. (current s, baseline s)) (wp_publish (wk_ports wk) t ev k)"
      "keeps (\<lambda>s. (current s, baseline s)) (wp_acknowledge (wk_ports wk) m)"
      "keeps (\<lambda>s. (current s, baseline s)) (wp_retry (wk_ports wk) m reason)"
      "keeps (\<lambda>s. (current s, baseline s)) (wp_dead_letter (wk_ports wk) m reason)"
      "keeps (\<lambda>s. (current s, baseline s)) (wp_completed_get (wk_ports wk) task)"
      "keeps (\<lambda>s. (current s, baseline s)) (wp_completed_put (wk_ports wk) task payload)"
      "keeps (\<lambda>s. (current s, baseline s)) (wp_context_get (wk_ports wk) ref)"
      "keeps (\<lambda>s. (current s, baseline s)) (wp_acquire (wk_ports wk) key)"
      "keeps (\<lambda>s. (current s, baseline s)) (wp_release (wk_ports wk) key)"
      "keeps (\<lambda>s. (current s, baseline s)) (wp_identity (wk_ports wk))"

text \<open>The result at the end of the results log reports the policy in force.\<close>

definition reports :: "policy \<Rightarrow> policy \<Rightarrow> published_event \<Rightarrow> bool" where
  "reports now original p \<longleftrightarrow>
     (\<exists>accepted. dget (en_payload (pe_event p)) ''accepted'' = PBool accepted \<and>
        no_more_than now original \<and> (\<not> accepted \<longrightarrow> now = original)) \<and>
     dget (en_payload (pe_event p)) ''final_risk'' = PInt (ra_score (score_policy now)) \<and>
     dget (en_payload (pe_event p)) ''final_permissions'' = pnat (effective_permission_count now)"

lemma result_payload_sel:
  "dget (result_payload t w i ex el) ''accepted'' = PBool (we_accepted ex)"
  "dget (result_payload t w i ex el) ''final_risk'' = PInt (ra_score (we_final_risk ex))"
  "dget (result_payload t w i ex el) ''final_permissions'' =
     pnat (effective_permission_count (we_final_policy ex))"
  by (simp_all add: result_payload_def)

lemma keeps_service:
  "keeps view m \<Longrightarrow> keeps (\<lambda>v. view (wv_services v)) (service m)"
  unfolding keeps_def service_def by (auto split: prod.splits) (metis snd_conv)

lemma keeps_count: "keeps (\<lambda>v. view (wv_services v)) (count f)"
  by (simp add: keeps_def count_def)

context guarded_services
begin

abbreviation cluster :: "'s \<Rightarrow> policy \<times> policy" where
  "cluster s \<equiv> (current s, baseline s)"

lemmas cluster_keeps = ports_keep [THEN keepsD]

lemma optimize_returns_safe:
  assumes "optimize wk m task w c v = (Inr (), v')"
  shows "\<exists>before p. lg_log (led (wv_services v')) (topic_name Optimization_Results) = before @ [p] \<and>
    reports (current (wv_services v')) (baseline (wv_services v')) p"
proof -
  let ?P = "wk_ports wk"
  from assms obtain env s1 repo ex s2 ident s3 e s4 p s5 s6 where
    create: "wp_create ?P (pe_event m) c (wv_services v) = (Inr env, s1)"
    and run: "run_graph wk env (run_request_of (pe_event m) task w c repo) s1 = (Inr ex, s2)"
    and ident: "wp_identity ?P s2 = (Inr ident, s3)"
    and e: "completion_event ident (pe_event m)
        (result_payload task w (wk_worker_id wk) ex (wp_elapsed ?P s2)) = Inr e"
    and put: "wp_completed_put ?P task
        (result_payload task w (wk_worker_id wk) ex (wp_elapsed ?P s2)) s3 = (Inr (), s4)"
    and pub: "wp_publish ?P (topic_name Optimization_Results) e (pe_key m) s4 = (Inr p, s5)"
    and ack: "wp_acknowledge ?P m s5 = (Inr (), s6)"
    and v': "wv_services v' = s6"
    by (auto simp: optimize_def op_simps Let_def)
  have start: "current s1 = baseline s1"
    and graph: "workload_graph ((wk_graph wk)\<lparr>gc_env := env\<rparr>) current baseline (\<lambda>_. True)"
    using created_graph [OF create] by simp_all
  note outcome = workload_graph.run_outcome [OF graph run [unfolded run_graph_def] start]
  have same: "cluster s6 = cluster s2"
    using cluster_keeps(10) [OF ident] cluster_keeps(6) [OF put] cluster_keeps(1) [OF pub]
      cluster_keeps(2) [OF ack] by simp
  have base: "baseline s2 = baseline s1" by (rule keepsD [OF graph_baseline [OF create] run])
  have risk: "we_final_risk ex = score_policy (we_final_policy ex)"
    using run unfolding run_graph_def
    by (elim run_workload_reaches) (auto dest: run_result_Inr)
  have "en_payload (pe_event p) = result_payload task w (wk_worker_id wk) ex (wp_elapsed ?P s2)"
    using publish_adds [OF pub] completion_event_Inr [OF e] by simp
  then have "reports (current s6) (baseline s6) p"
    using same base outcome(2,3,5) risk by (auto simp: reports_def result_payload_sel)
  moreover have "lg_log (led s6) (topic_name Optimization_Results) =
      lg_log (led s4) (topic_name Optimization_Results) @ [p]"
    using acknowledge_adds [OF ack] publish_adds [OF pub] by (simp add: ledger_defs)
  ultimately show ?thesis using v' by blast
qed

lemma optimize_raises_safe:
  assumes "optimize wk m task w c v = (Inl err, v')" and "wv_environment v = None"
  shows "cluster (wv_services v') = cluster (wv_services v) \<or>
    (\<exists>env s s'. wp_create (wk_ports wk) (pe_event m) c s = (Inr env, s') \<and>
       wv_environment v' = Some env)"
proof (cases "wp_create (wk_ports wk) (pe_event m) c (wv_services v)")
  case (Pair r s1)
  show ?thesis
  proof (cases r)
    case (Inl x)
    with Pair have "wp_create (wk_ports wk) (pe_event m) c (wv_services v) = (Inl x, s1)" by simp
    from uncreated [OF this] this assms(1) show ?thesis by (auto simp: optimize_def op_simps)
  next
    case (Inr env)
    with Pair assms(1) have "wv_environment v' = Some env"
      by (auto simp: optimize_def op_simps Let_def)
    with Pair Inr show ?thesis by blast
  qed
qed

text \<open>The policy in force is as it was, or the original is back in force.\<close>

definition cluster_safe :: "'s \<Rightarrow> 's \<Rightarrow> bool" where
  "cluster_safe s s' \<longleftrightarrow> cluster s' = cluster s \<or> current s' = baseline s'"

lemma restore_environment_safe:
  assumes "restore_environment v = (r, v')"
    and "wv_environment v = Some env \<and> wp_create (wk_ports wk) e c s = (Inr env, s')"
  shows "current (wv_services v') = baseline (wv_services v')"
proof -
  from assms(2) have env: "wv_environment v = Some env"
    and create: "wp_create (wk_ports wk) e c s = (Inr env, s')" by simp_all
  obtain u' where "env_restore_policy env (wv_services v) = (Inr (), u')" "current u' = baseline u'"
    using restore_works [OF create] by blast
  with assms(1) env show ?thesis
    by (auto simp: restore_environment_def suppressing_def service_def)
qed

lemma handle_failure_cluster:
  assumes "handle_failure wk m err v = (Inr (), v')" and "restore_environment v = (Inr (), u)"
  shows "cluster (wv_services v') = cluster (wv_services u)"
proof (cases "en_attempt (pe_event m) + 1 < wk_max_delivery_attempts wk")
  case True
  with assms show ?thesis by (auto simp: handle_failure_def op_simps dest!: cluster_keeps(3))
next
  case False
  with assms show ?thesis by (auto simp: handle_failure_def op_simps dest!: cluster_keeps(4))
qed

lemma handle_failure_safe:
  assumes "handle_failure wk m err v = (Inr (), v')"
    and "wv_environment v = None \<and> cluster (wv_services v) = cluster s0 \<or>
      (\<exists>env e c s s'. wv_environment v = Some env \<and> wp_create (wk_ports wk) e c s = (Inr env, s'))"
  shows "cluster_safe s0 (wv_services v')"
proof -
  obtain u where u: "restore_environment v = (Inr (), u)"
  proof -
    obtain r u where call: "restore_environment v = (r, u)" by fastforce
    then have "r = Inr ()"
      by (auto simp: restore_environment_def suppressing_def op_simps split: option.splits)
    with call that show thesis by blast
  qed
  note same = handle_failure_cluster [OF assms(1) u]
  from assms(2) show ?thesis
  proof (elim disjE conjE exE)
    assume "wv_environment v = None" "cluster (wv_services v) = cluster s0"
    with u same show ?thesis by (simp add: restore_environment_def op_simps cluster_safe_def)
  next
    fix env e c s s'
    assume "wv_environment v = Some env" "wp_create (wk_ports wk) e c s = (Inr env, s')"
    with restore_environment_safe [OF u] same show ?thesis by (auto simp: cluster_safe_def)
  qed
qed

definition process_safe :: "'s worker_state \<Rightarrow> 's worker_state \<Rightarrow> bool" where
  "process_safe v v' \<longleftrightarrow>
     (if wt_completed (wv_stats v') = wt_completed (wv_stats v)
      then cluster_safe (wv_services v) (wv_services v')
      else \<exists>before p. lg_log (led (wv_services v')) (topic_name Optimization_Results) = before @ [p] \<and>
        reports (current (wv_services v')) (baseline (wv_services v')) p)"

lemma handle_failure_completed:
  assumes "handle_failure wk m err v = (Inr (), v')"
  shows "wt_completed (wv_stats v') = wt_completed (wv_stats v)"
proof -
  have "wv_stats u = wv_stats v" if "restore_environment v = (r, u)" for r u
    using that by (auto simp: restore_environment_def suppressing_def service_def op_simps
        split: option.splits prod.splits)
  with assms show ?thesis by (auto simp: handle_failure_def op_simps split: if_splits)
qed

lemma release_service:
  "\<exists>u'. service (wp_release (wk_ports wk) key) u = (Inr (), u') \<and>
     led (wv_services u') = led (wv_services u) \<and> cluster (wv_services u') = cluster (wv_services u) \<and>
     wv_environment u' = wv_environment u \<and> wv_stats u' = wv_stats u"
proof -
  obtain s' where s': "wp_release (wk_ports wk) key (wv_services u) = (Inr (), s')"
      "led s' = led (wv_services u)"
    using release_returns by blast
  with cluster_keeps(9) [OF s'(1)] show ?thesis
    by (intro exI [of _ "u\<lparr>wv_services := s'\<rparr>"]) (simp add: service_def)
qed

lemma optimize_locked_safe:
  assumes "optimize_locked wk m key task w c v = (Inr (), v')" and "wv_environment v = None"
  shows "process_safe v v'"
proof -
  let ?body = "\<lambda>_. ensuring (optimize wk m task w c) (service (wp_release (wk_ports wk) key))"
  obtain r0 s0 where acquire: "wp_acquire (wk_ports wk) key (wv_services v) = (r0, s0)" by fastforce
  let ?v0 = "v\<lparr>wv_services := s0\<rparr>"
  have same0: "cluster s0 = cluster (wv_services v)" by (rule cluster_keeps(8) [OF acquire])
  obtain r1 v1 where body: "?body () ?v0 = (r1, v1)" by fastforce
  from release_service obtain u where opt: "optimize wk m task w c ?v0 = (r1, u)"
    and rel: "led (wv_services v1) = led (wv_services u)"
      "cluster (wv_services v1) = cluster (wv_services u)" "wv_environment v1 = wv_environment u"
      "wv_stats v1 = wv_stats u"
    by (rule ensuring_returned [OF body]) auto
  have seq1: "seq (service (wp_acquire (wk_ports wk) key)) ?body v =
      (case r0 of Inl err \<Rightarrow> (Inl err, ?v0) | Inr _ \<Rightarrow> (r1, v1))"
    using acquire body by (simp add: seq_def service_def split: sum.split)
  consider (returned) "r1 = Inr ()" "v' = v1"
    | (raised) err where "r1 = Inl err" "handle_failure wk m err v1 = (Inr (), v')"
    | (locked) err where "handle_failure wk m err ?v0 = (Inr (), v')"
    using assms(1) unfolding optimize_locked_def catching_def seq1
    by (cases r0; cases r1) auto
  then show ?thesis
  proof cases
    case returned
    from optimize_returns_safe [OF opt [unfolded returned(1)]] rel returned(2)
      optimize_returns [OF opt [unfolded returned(1)]]
    show ?thesis by (simp add: process_safe_def)
  next
    case raised
    from optimize_raises [OF opt [unfolded raised(1)]] optimize_raises_safe [OF opt [unfolded raised(1)]]
      rel same0 assms(2)
    have "wv_environment v1 = None \<and> cluster (wv_services v1) = cluster (wv_services v) \<or>
      (\<exists>env e c s s'. wv_environment v1 = Some env \<and> wp_create (wk_ports wk) e c s = (Inr env, s'))"
      by auto
    from handle_failure_safe [OF raised(2) this] handle_failure_completed [OF raised(2)] rel
      optimize_raises [OF opt [unfolded raised(1)]]
    show ?thesis by (simp add: process_safe_def)
  next
    case locked
    from handle_failure_safe [OF locked, of "wv_services v"] handle_failure_completed [OF locked]
      same0 assms(2)
    show ?thesis by (simp add: process_safe_def)
  qed
qed

lemma validate_task_cluster: "keeps cluster (validate_task (wk_ports wk) e)"
  unfolding validate_task_def using ports_keep(7)
  by (auto intro!: keeps_seq split: option.split)

lemma publish_completion_cluster: "keeps cluster (publish_completion (wk_ports wk) m payload)"
  unfolding publish_completion_def by (intro keeps_seq ports_keep keeps_lift)

lemma process_is_safe:
  assumes "process wk m v = (Inr (), v')"
  shows "process_safe v v'"
proof -
  let ?v = "v\<lparr>wv_environment := None, wv_stats := wt_claimed_update Suc (wv_stats v)\<rparr>"
  obtain r s where val: "validate_task (wk_ports wk) (pe_event m) (wv_services v) = (r, s)" by fastforce
  have same: "cluster s = cluster (wv_services v)" by (rule keepsD [OF validate_task_cluster val])
  show ?thesis
  proof (cases r)
    case (Inl err)
    with assms val have "reject_task wk m err (?v\<lparr>wv_services := s\<rparr>) = (Inr (), v')"
      by (auto simp: process_def seq_def set_environment_def count_def service_def split: if_splits)
    then have "cluster (wv_services v') = cluster s \<and>
        wt_completed (wv_stats v') = wt_completed (wv_stats v)"
      by (auto simp: reject_task_def op_simps dest!: cluster_keeps(4))
    with same show ?thesis by (simp add: process_safe_def cluster_safe_def)
  next
    case (Inr task)
    obtain t w ns c where task: "task = (t, w, ns, c)" by (cases task) auto
    with assms val Inr have valid: "process_valid wk m (t, w, ns, c) (?v\<lparr>wv_services := s\<rparr>) = (Inr (), v')"
      by (simp add: process_def seq_def set_environment_def count_def service_def)
    then obtain completed s1 where get: "wp_completed_get (wk_ports wk) t s = (Inr completed, s1)"
      by (auto simp: process_valid_def op_simps)
    have same1: "cluster s1 = cluster (wv_services v)" using cluster_keeps(5) [OF get] same by simp
    show ?thesis
    proof (cases completed)
      case None
      with valid get obtain key where
        "optimize_locked wk m key t w c (?v\<lparr>wv_services := s1\<rparr>) = (Inr (), v')"
        by (auto simp: process_valid_def op_simps)
      from optimize_locked_safe [OF this] same1 show ?thesis
        by (auto simp: process_safe_def cluster_safe_def split: if_splits)
    next
      case (Some payload)
      with valid get have "publish_completion (wk_ports wk) m payload s1 = (Inr (), wv_services v')"
          "wt_completed (wv_stats v') = wt_completed (wv_stats v)"
        by (auto simp: process_valid_def op_simps)
      with keepsD [OF publish_completion_cluster this(1)] same1 show ?thesis
        by (simp add: process_safe_def cluster_safe_def)
    qed
  qed
qed

end

end
