(* ===== verification/Judge_Worker.thy ===== *)
theory Judge_Worker
  imports Memory_Services Worker_Safety
begin

text \<open>
  The worker of the judge: in-memory services and a new simulator per task. It meets the
  contracts \<open>framed_graph\<close>, \<open>task_services\<close> and \<open>guarded_services\<close>, so what the worker
  guarantees holds of it.
\<close>

definition judge_memory ::
  "(string \<times> benchmark_case) list \<Rightarrow> string \<Rightarrow> (nat \<Rightarrow> string \<times> string) \<Rightarrow>
   (string \<Rightarrow> pyval result) \<Rightarrow> (string \<Rightarrow> int result) \<Rightarrow>
   (run_request \<Rightarrow> simulator services \<Rightarrow> workload_state) \<Rightarrow> simulator memory_config" where
  "judge_memory cases elapsed draw loads float_int prior =
     \<lparr>mc_draw = draw, mc_loads = loads, mc_float_int = float_int,
      mc_create = simulator_create cases elapsed, mc_elapsed = elapsed, mc_prior = prior\<rparr>"

text \<open>The environment of a graph is given to each run; \<open>env\<close> stands in its place until then.\<close>

definition judge_graph ::
  "'w services environment_adapter \<Rightarrow> nat \<Rightarrow> nat \<Rightarrow> 'w services graph_config" where
  "judge_graph env max_repair limit =
     \<lparr>gc_env = env, gc_max_repair_iterations = max_repair, gc_provider = None,
      gc_sink = (\<lambda>_. ret ()), gc_summary = (\<lambda>_. ret None),
      gc_now = (\<lambda>_. ''1970-01-01T00:00:00+00:00''), gc_limit = limit\<rparr>"

definition judge_worker ::
  "simulator memory_config \<Rightarrow> nat \<Rightarrow> nat \<Rightarrow> string \<Rightarrow> string \<Rightarrow> int \<Rightarrow> simulator services worker" where
  "judge_worker mc max_repair limit worker_id cluster attempts =
     memory_worker mc (judge_graph (lift_environment (simulator_adapter ''0.0'' sample_case))
       max_repair limit) worker_id cluster attempts"

abbreviation in_force :: "simulator services \<Rightarrow> policy" where
  "in_force s \<equiv> sm_current_policy (sv_cluster s)"

abbreviation original :: "simulator services \<Rightarrow> policy" where
  "original s \<equiv> sm_original_policy (sv_cluster s)"

section \<open>Lifted environments\<close>

lemma on_cluster_eq_iff [op_simps]:
  "on_cluster m s = (r, s') \<longleftrightarrow> (\<exists>w. m (sv_cluster s) = (r, w) \<and> s' = s\<lparr>sv_cluster := w\<rparr>)"
  by (auto simp: on_cluster_def split: prod.splits)

lemma on_cluster_keeps: "keeps view m \<Longrightarrow> keeps (\<lambda>s. view (sv_cluster s)) (on_cluster m)"
  unfolding keeps_def on_cluster_def by (auto split: prod.splits) (metis snd_conv)

lemma on_cluster_ledger: "keeps memory_ledger (on_cluster m)"
  by (auto simp: keeps_def on_cluster_def memory_ledger_def split: prod.splits)

lemma lift_environment_sel [simp]:
  "env_name (lift_environment env) = env_name env"
  "env_get_current_policy (lift_environment env) = on_cluster (env_get_current_policy env)"
  "env_get_observed_usage (lift_environment env) = on_cluster (env_get_observed_usage env)"
  "env_apply_policy (lift_environment env) P = on_cluster (env_apply_policy env P)"
  "env_verify_workload (lift_environment env) = on_cluster (env_verify_workload env)"
  "env_restore_policy (lift_environment env) = on_cluster (env_restore_policy env)"
  "env_describe_failure (lift_environment env) r = on_cluster (env_describe_failure env r)"
  by (simp_all add: lift_environment_def)

lemma judge_graph_sel [simp]:
  "gc_env (judge_graph env m l) = env"
  "gc_sink (judge_graph env m l) = (\<lambda>_. ret ())"
  "gc_summary (judge_graph env m l) = (\<lambda>_. ret None)"
  "gc_provider (judge_graph env m l) = None"
  by (simp_all add: judge_graph_def)

lemma judge_graph_env [simp]: "(judge_graph env m l)\<lparr>gc_env := env'\<rparr> = judge_graph env' m l"
  by (simp add: judge_graph_def)

interpretation judged: framed_graph "judge_graph (lift_environment env) m l" memory_ledger
  by unfold_locales (simp_all add: on_cluster_ledger provider_keeps_def)

lemma lift_environment_contract:
  assumes "environment env cur base"
  shows "environment (lift_environment env) (\<lambda>s. cur (sv_cluster s)) (\<lambda>s. base (sv_cluster s))"
proof -
  note laws = environment.get_keeps [OF assms] environment.observe_keeps [OF assms]
    environment.verify_keeps [OF assms] environment.describe_keeps [OF assms]
    environment.apply_keeps [OF assms] environment.restore_keeps [OF assms]
  show ?thesis
  proof (rule environment.intro, unfold lift_environment_sel)
    fix P s s'
    show "on_cluster (env_get_current_policy env) s = (Inr P, s') \<Longrightarrow> P = cur (sv_cluster s)"
      by (auto simp: op_simps dest: environment.get_current [OF assms])
    show "on_cluster (env_apply_policy env P) s = (Inr (), s') \<Longrightarrow> cur (sv_cluster s') = P"
      by (auto simp: op_simps dest: environment.apply_sets [OF assms])
    show "on_cluster (env_restore_policy env) s = (Inr (), s') \<Longrightarrow>
        cur (sv_cluster s') = base (sv_cluster s)"
      by (auto simp: op_simps dest: environment.restore_sets [OF assms])
  qed (rule on_cluster_keeps laws)+
qed

lemma judged_workload_graph:
  "workload_graph (judge_graph (lift_environment (simulator_adapter elapsed c)) m l) in_force original
     (\<lambda>_. True)"
proof (rule workload_graph.intro)
  show "environment (gc_env (judge_graph (lift_environment (simulator_adapter elapsed c)) m l))
      in_force original"
    unfolding judge_graph_sel by (rule lift_environment_contract) (rule simulator.environment_axioms)
  show "workload_graph_axioms (judge_graph (lift_environment (simulator_adapter elapsed c)) m l)
      in_force original (\<lambda>_. True)"
    by unfold_locales (simp_all add: provider_keeps_def)
qed

section \<open>The worker's contracts\<close>

lemma simulator_create_Inr:
  "simulator_create cases elapsed e c s = (Inr env, s') \<longleftrightarrow>
     (\<exists>w case_data. req_text (en_payload e) ''workload_id'' = Inr w \<and>
        map_of cases w = Some case_data \<and>
        env = lift_environment (simulator_adapter elapsed case_data) \<and>
        s' = s\<lparr>sv_cluster := new_simulator case_data\<rparr>)"
  by (auto simp: simulator_create_def split: sum.splits option.splits)

lemma simulator_create_Inl: "simulator_create cases elapsed e c s = (Inl err, s') \<Longrightarrow> s' = s"
  by (auto simp: simulator_create_def split: sum.splits option.splits)

lemma judge_private_factory:
  "private_factory (judge_memory cases elapsed draw loads float_int prior) (judge_graph env m l)"
proof -
  have "memory_ledger s' = memory_ledger s \<and>
      (\<forall>env'. r = Inr env' \<longrightarrow> framed_graph ((judge_graph env m l)\<lparr>gc_env := env'\<rparr>) memory_ledger)"
    if "simulator_create cases elapsed e c s = (r, s')" for e c s r s'
    using that
    by (cases r)
      (auto simp: simulator_create_Inr memory_ledger_def judged.framed_graph_axioms
        dest: simulator_create_Inl)
  then show ?thesis by (simp add: private_factory_def judge_memory_def)
qed

interpretation judge: task_services
  "judge_worker (judge_memory cases elapsed draw loads float_int prior) m l worker_id cluster attempts"
  memory_ledger memory_queue
  unfolding judge_worker_def by (rule memory_services_contract) (rule judge_private_factory)

lemma judge_worker_sel [simp]:
  "wk_ports (judge_worker mc m l i cl n) = memory_ports mc"
  "wk_graph (judge_worker mc m l i cl n) =
     judge_graph (lift_environment (simulator_adapter ''0.0'' sample_case)) m l"
  "wk_max_delivery_attempts (judge_worker mc m l i cl n) = n"
  "wk_worker_id (judge_worker mc m l i cl n) = i"
  "wk_cluster (judge_worker mc m l i cl n) = cl"
  by (simp_all add: judge_worker_def)

lemma judge_memory_sel [simp]:
  "mc_create (judge_memory cases elapsed draw loads float_int prior) = simulator_create cases elapsed"
  by (simp add: judge_memory_def)

lemma on_bus_cluster: "keeps (\<lambda>s. (in_force s, original s)) (on_bus m)"
  by (auto simp: keeps_def on_bus_def split: prod.splits)

lemma draw_cluster: "keeps (\<lambda>s. (in_force s, original s)) (draw_identity mc)"
  by (simp add: keeps_def draw_identity_def)

lemma simulator_original_frame:
  "framed_graph (judge_graph (lift_environment (simulator_adapter elapsed c)) m l) original"
  by unfold_locales
    (auto simp: provider_keeps_def keeps_def on_cluster_def simulator_adapter_def ret_def
      simulator_verify_def simulator_describe_def simulator_apply_def simulator_restore_def Let_def
      split: prod.splits)

interpretation judge_cluster: guarded_services
  "judge_worker (judge_memory cases elapsed draw loads float_int prior) m l worker_id cluster attempts"
  memory_ledger memory_queue in_force original
proof (rule guarded_services.intro [OF judge.task_services_axioms guarded_services_axioms.intro],
    unfold judge_worker_sel memory_ports_sel judge_graph_env judge_memory_sel)
  fix e c s env s'
  assume "simulator_create cases elapsed e c s = (Inr env, s')"
  then obtain case_data where env: "env = lift_environment (simulator_adapter elapsed case_data)"
    and s': "s' = s\<lparr>sv_cluster := new_simulator case_data\<rparr>"
    by (auto simp: simulator_create_Inr)
  show "in_force s' = original s' \<and>
      workload_graph (judge_graph env m l) in_force original (\<lambda>_. True)"
    by (simp add: s' env new_simulator_def judged_workload_graph)
  show "\<exists>u'. env_restore_policy env u = (Inr (), u') \<and> in_force u' = original u'" for u
    by (simp add: env op_simps simulator_adapter_def simulator_restore_def)
  show "keeps original (run_graph (judge_worker (judge_memory cases elapsed draw loads float_int prior) m l
      worker_id cluster attempts) env rq)" for rq
    using framed_graph.frame_run [OF simulator_original_frame, of elapsed case_data m l]
    by (simp add: keeps_def run_graph_def env)
next
  fix e c s err s'
  assume "simulator_create cases elapsed e c s = (Inl err, s')"
  then show "(in_force s', original s') = (in_force s, original s)"
    by (auto dest: simulator_create_Inl)
qed (auto simp: keeps_def memory_retry_def memory_dead_letter_def memory_completed_get_def
    memory_completed_put_def memory_context_get_def memory_acquire_def memory_release_def
    on_bus_def seq_def draw_identity_def split: prod.splits sum.splits)

end
