(* ===== verification/Workload_Lift.thy ===== *)
theory Workload_Lift
  imports Judge_Worker
begin

text \<open>
  A run over a lifted environment is the run over the environment itself, carried out on the
  cluster of the services: every operation commutes with the lifting. So what is known of runs on
  the simulator holds of the judge's worker, and a valid task is completed.
\<close>

definition lift_run :: "('w run, 'a) op \<Rightarrow> ('w services run, 'a) op" where
  "lift_run m r =
     (case r of (s, evs) \<Rightarrow>
        (case m (sv_cluster s, evs) of (x, (w, evs')) \<Rightarrow> (x, (s\<lparr>sv_cluster := w\<rparr>, evs'))))"

named_theorems lift_simps "the lifting commutes with the operations of a run"

lemma lift_run_ret [lift_simps]: "lift_run (ret x) = ret x"
  by (rule ext) (auto simp: lift_run_def ret_def split: prod.splits)

lemma lift_run_throw [lift_simps]: "lift_run (throw err) = throw err"
  by (rule ext) (auto simp: lift_run_def throw_def split: prod.splits)

lemma lift_run_lift [lift_simps]: "lift_run (lift_result x) = lift_result x"
  by (rule ext) (auto simp: lift_run_def lift_result_def split: prod.splits)

lemma lift_run_seq [lift_simps]: "lift_run (seq m f) = seq (lift_run m) (\<lambda>x. lift_run (f x))"
  by (rule ext) (auto simp: lift_run_def seq_def split: prod.splits sum.splits)

lemma lift_run_need [lift_simps]: "lift_run (need key x) = need key x"
  by (cases x) (simp_all add: need_def lift_run_ret lift_run_throw)

lemma lift_run_if [lift_simps]: "lift_run (if b then m else n) = (if b then lift_run m else lift_run n)"
  by simp

lemma lift_run_case [lift_simps]:
  "lift_run (case x of Inl a \<Rightarrow> f a | Inr b \<Rightarrow> g b) =
     (case x of Inl a \<Rightarrow> lift_run (f a) | Inr b \<Rightarrow> lift_run (g b))"
  "lift_run (case y of None \<Rightarrow> m | Some z \<Rightarrow> h z) =
     (case y of None \<Rightarrow> lift_run m | Some z \<Rightarrow> lift_run (h z))"
  by (simp_all split: sum.split option.split)

lemma lift_run_on_env [lift_simps]: "lift_run (on_env m) = on_env (on_cluster m)"
  by (rule ext) (auto simp: lift_run_def on_env_def on_cluster_def split: prod.splits)

abbreviation base_graph :: "string \<Rightarrow> benchmark_case \<Rightarrow> nat \<Rightarrow> nat \<Rightarrow> simulator graph_config" where
  "base_graph elapsed c m l \<equiv> simulator_graph elapsed c m l"

abbreviation lifted_graph :: "string \<Rightarrow> benchmark_case \<Rightarrow> nat \<Rightarrow> nat \<Rightarrow> simulator services graph_config" where
  "lifted_graph elapsed c m l \<equiv> judge_graph (lift_environment (simulator_adapter elapsed c)) m l"

lemma lift_run_emit [lift_simps]:
  "lift_run (emit (base_graph elapsed c m l) st agent action reason decision details) =
   emit (lifted_graph elapsed c m l) st agent action reason decision details"
  by (rule ext)
    (auto simp: lift_run_def emit_def record_event_def simulator_graph_def judge_graph_def ret_def
      split: prod.splits)

lemma lift_run_failure_of [lift_simps]: "lift_run (failure_of st) = failure_of st"
  unfolding failure_of_def by (auto simp: lift_simps intro!: arg_cong2 [where f = seq] split: option.split)

lemma lift_explain: "on_cluster (explain_op None f) = explain_op None f"
  by (rule ext) (simp add: on_cluster_def explain_op_def explain_with_source_def)

lemma lifted_sel [simp]:
  "gc_max_repair_iterations (lifted_graph elapsed c m l) = m" "gc_limit (lifted_graph elapsed c m l) = l"
  by (simp_all add: judge_graph_def)

lemma lift_exec_node: "lift_run (exec_node (base_graph elapsed c m l) n st) =
    exec_node (lifted_graph elapsed c m l) n st"
  by (cases n)
    (simp_all add: load_context_def inspect_def gather_def generate_def validate_def verify_def
      apply_candidate_def restore_def check_more_def final_verify_def diagnose_def repair_def
      human_review_def finalize_def publish_result_def Let_def lift_simps lift_explain
      cong: if_cong sum.case_cong option.case_cong)

lemma lift_next_node: "next_node (base_graph elapsed c m l) n st = next_node (lifted_graph elapsed c m l) n st"
proof -
  have "route_verification (base_graph elapsed c m l) st = route_verification (lifted_graph elapsed c m l) st"
    by (simp add: route_verification_def cong: if_cong option.case_cong)
  then show ?thesis by (cases n) simp_all
qed

lemma lift_run_nodes: "lift_run (run_nodes (base_graph elapsed c m l) k n st) =
    run_nodes (lifted_graph elapsed c m l) k n st"
proof (induction k arbitrary: n st)
  case (Suc k)
  then show ?case by (simp add: lift_simps lift_exec_node lift_next_node cong: option.case_cong)
qed (simp add: lift_simps)

theorem lift_run_workload:
  "run_workload (lifted_graph elapsed c m l) rq prior s =
     on_cluster (run_workload (base_graph elapsed c m l) rq prior) s"
proof -
  define st where "st = initial_state (env_name (simulator_adapter elapsed c :: simulator environment_adapter)) rq prior"
  let ?base = "seq (run_nodes (base_graph elapsed c m l) l Load_Service_Context st) (\<lambda>final. seq (write_trajectory (base_graph elapsed c m l))
      (\<lambda>path. run_result rq path final))"
  have "lift_run (write_trajectory (base_graph elapsed c m l)) =
      write_trajectory (lifted_graph elapsed c m l)"
    by (rule ext) (auto simp: lift_run_def write_trajectory_def ret_def split: prod.splits)
  moreover have "lift_run (run_result rq path st :: (simulator run, workload_execution) op) = run_result rq path st"
    for path st
    by (simp add: run_result_def lift_simps cong: if_cong)
  ultimately have base: "seq (run_nodes (lifted_graph elapsed c m l) l Load_Service_Context st)
      (\<lambda>final. seq (write_trajectory (lifted_graph elapsed c m l)) (\<lambda>path. run_result rq path final)) =
      lift_run ?base"
    by (simp add: lift_simps lift_run_nodes)
  have "run_workload (lifted_graph elapsed c m l) rq prior s =
      (case lift_run ?base (s, []) of (r, (s', _)) \<Rightarrow> (r, s'))"
    by (simp only: run_workload_def lifted_sel judge_graph_sel lift_environment_sel st_def [symmetric] base)
  then show ?thesis
    by (simp add: run_workload_def on_cluster_def lift_run_def split: prod.splits
        del: simulator_adapter_sel flip: st_def)
qed

section \<open>A valid task is completed\<close>

text \<open>A request the worker can serve: its identifiers are there, its context is stored and its
  own, its case exists, it has no result yet, and the bus is open.\<close>

definition servable ::
  "simulator memory_config \<Rightarrow> (string \<times> benchmark_case) list \<Rightarrow> string \<Rightarrow> simulator services \<Rightarrow>
   consumed_event \<Rightarrow> benchmark_case \<Rightarrow> bool" where
  "servable mc cases cluster s msg c \<longleftrightarrow>
     (let e = pe_event msg in
      en_event_type e = Workload_Optimization_Requested \<and> envelope_wf e \<and> pe_key msg \<noteq> '''' \<and>
      \<not> eb_closed (sv_bus s) \<and> (\<forall>n. fst (mc_draw mc n) \<noteq> '''') \<and>
      (\<exists>task_id workload_id namespace ref repository_ref context key.
         req_text (en_payload e) ''task_id'' = Inr task_id \<and> task_id \<noteq> '''' \<and>
         req_text (en_payload e) ''workload_id'' = Inr workload_id \<and> workload_id \<noteq> '''' \<and>
         req_text (en_payload e) ''namespace'' = Inr namespace \<and> namespace \<noteq> '''' \<and>
         req_text (en_payload e) ''context_ref'' = Inr ref \<and> ref \<noteq> '''' \<and>
         req_text (en_payload e) ''repository_ref'' = Inr repository_ref \<and>
         context_get (mc_float_int mc) (mc_loads mc) ref (sv_contexts s) = Inr (Some context) \<and>
         ix_service_id context = workload_id \<and> map_of cases workload_id = Some c \<and>
         workload_lock_key cluster namespace workload_id = Inr key \<and>
         sv_completed s task_id = None))"

lemma seq_returns: "m s = (Inr x, s') \<Longrightarrow> seq m f s = f x s'"
  by (simp add: seq_def)

lemma seq_service: "m (wv_services v) = (Inr x, s') \<Longrightarrow> seq (service m) f v = f x (v\<lparr>wv_services := s'\<rparr>)"
  by (simp add: seq_def service_def)

lemma seq_count: "seq (count g) f v = f () (v\<lparr>wv_stats := g (wv_stats v)\<rparr>)"
  by (simp add: seq_def count_def)

lemma seq_environment: "seq (set_environment env) f v = f () (v\<lparr>wv_environment := env\<rparr>)"
  by (simp add: seq_def set_environment_def)

lemma bus_publish_returns:
  assumes "k \<noteq> ''''" and "\<not> eb_closed bus"
  shows "\<exists>p bus'. bus_publish t e k bus = (Inr p, bus') \<and> \<not> eb_closed bus'"
  using assms by (simp add: bus_publish_def ensure_open_def Let_def)

text \<open>The worker with another publishing operation, such as one that raises.\<close>

definition publishing ::
  "(string \<Rightarrow> event_envelope \<Rightarrow> string \<Rightarrow> ('s, published_event) op) \<Rightarrow> 's worker \<Rightarrow> 's worker" where
  "publishing f wk = wk\<lparr>wk_ports := (wk_ports wk)\<lparr>wp_publish := f\<rparr>\<rparr>"

lemma publishing_sel [simp]:
  "wk_ports (publishing f wk) = (wk_ports wk)\<lparr>wp_publish := f\<rparr>"
  "wk_graph (publishing f wk) = wk_graph wk" "wk_prior (publishing f wk) = wk_prior wk"
  "wk_worker_id (publishing f wk) = wk_worker_id wk" "wk_cluster (publishing f wk) = wk_cluster wk"
  "wk_max_delivery_attempts (publishing f wk) = wk_max_delivery_attempts wk"
  by (simp_all add: publishing_def)

text \<open>The body of the task up to the publication: the result is stored by then.\<close>

lemma judge_optimize_until_published:
  assumes mc_def: "mc = judge_memory cases elapsed draw loads float_int prior"
    and serv: "servable mc cases cluster (wv_services v0) msg c"
    and ids: "req_text (en_payload (pe_event msg)) ''workload_id'' = Inr w" "map_of cases w = Some c"
    and allowed: "all_allowed (case_event c) (bc_initial_policy c)" "1 \<le> m" "11 + 5 * m \<le> l"
  shows "\<exists>e u ex. optimize (publishing f (judge_worker mc m l i cluster n)) msg task w ctx v =
      seq (service (f (topic_name Optimization_Results) e (pe_key msg))) (\<lambda>_.
      seq (service (on_bus (bus_acknowledge msg))) (\<lambda>_. count (wt_completed_update Suc))) u \<and>
    sv_bus (wv_services u) = sv_bus (wv_services v) \<and>
    sv_contexts (wv_services u) = sv_contexts (wv_services v) \<and>
    sv_completed (wv_services u) =
      (sv_completed (wv_services v))(task \<mapsto> result_payload task w i ex elapsed) \<and>
    we_accepted ex \<and> wv_environment u = Some (lift_environment (simulator_adapter elapsed c)) \<and>
    wv_stats u = wv_stats v \<and>
    en_run_id e = en_run_id (pe_event msg) \<and> en_payload e = result_payload task w i ex elapsed"
proof -
  let ?wk = "publishing f (judge_worker mc m l i cluster n)" and ?e = "pe_event msg"
  let ?s = "wv_services v" and ?env = "lift_environment (simulator_adapter elapsed c)"
  obtain repo where repo: "req_text (en_payload ?e) ''repository_ref'' = Inr repo"
    using serv by (auto simp: servable_def Let_def)
  have wf: "envelope_wf ?e" and drawn: "fst (draw k) \<noteq> ''''" for k
    using serv by (auto simp: servable_def Let_def mc_def judge_memory_def)
  let ?s1 = "?s\<lparr>sv_cluster := new_simulator c\<rparr>"
  have create: "wp_create (wk_ports ?wk) ?e ctx ?s = (Inr ?env, ?s1)"
    using ids by (auto simp: mc_def simulator_create_Inr)
  let ?rq = "run_request_of ?e task w ctx repo"
  obtain ex w' where run: "run_workload (base_graph elapsed c m l) ?rq (prior ?rq ?s1) (new_simulator c) = (Inr ex, w')"
    and acc: "we_accepted ex"
    by (rule simulator_run_returns [OF allowed])
  let ?s2 = "?s1\<lparr>sv_cluster := w'\<rparr>"
  have graph: "run_graph ?wk ?env ?rq ?s1 = (Inr ex, ?s2)"
    using run by (simp add: run_graph_def lift_run_workload on_cluster_def)
      (simp add: judge_worker_def memory_worker_def mc_def judge_memory_def)
  let ?payload = "result_payload task w i ex elapsed"
  let ?s3 = "?s2\<lparr>sv_draws := Suc (sv_draws ?s2)\<rparr>"
  have ident: "wp_identity (wk_ports ?wk) ?s2 = (Inr (draw (sv_draws ?s2)), ?s3)"
    by (simp add: draw_identity_def mc_def judge_memory_def)
  obtain e where e: "completion_event (draw (sv_draws ?s2)) ?e ?payload = Inr e"
    using wf drawn by (simp add: completion_event_def new_envelope_def check_envelope_Inr_iff)
      (simp add: envelope_wf_def)
  let ?s4 = "?s3\<lparr>sv_completed := (sv_completed ?s3)(task \<mapsto> ?payload)\<rparr>"
  have put: "wp_completed_put (wk_ports ?wk) task ?payload ?s3 = (Inr (), ?s4)"
    by (simp add: memory_completed_put_def)
  have el: "wp_elapsed (wk_ports ?wk) s = elapsed" for s by (simp add: mc_def judge_memory_def)
  let ?u = "v\<lparr>wv_services := ?s4, wv_environment := Some ?env\<rparr>"
  have ports: "wp_publish (wk_ports ?wk) = f" "wp_acknowledge (wk_ports ?wk) = (\<lambda>m. on_bus (bus_acknowledge m))"
    by (simp_all add: fun_eq_iff)
  have "optimize ?wk msg task w ctx v =
      seq (service (f (topic_name Optimization_Results) e (pe_key msg))) (\<lambda>_.
      seq (service (on_bus (bus_acknowledge msg))) (\<lambda>_. count (wt_completed_update Suc))) ?u"
    unfolding optimize_def Let_def ports
    using create graph ident put e repo
    by (simp only: seq_def service_def set_environment_def lift_result_def ret_def el prod.case
        sum.case worker_state.simps publishing_sel(4) judge_worker_sel(4)) simp
  moreover have "en_run_id e = en_run_id ?e" "en_payload e = ?payload"
    using e by (auto simp: completion_event_def new_envelope_def check_envelope_Inr_iff)
  ultimately show ?thesis using acc by (intro exI [of _ e] exI [of _ ?u] exI [of _ ex]) simp
qed

lemma judge_optimize_completes:
  assumes mc_def: "mc = judge_memory cases elapsed draw loads float_int prior"
    and serv: "servable mc cases cluster (wv_services v0) msg c"
    and v: "sv_bus (wv_services v) = sv_bus (wv_services v0)"
    and ids: "req_text (en_payload (pe_event msg)) ''workload_id'' = Inr w" "map_of cases w = Some c"
    and allowed: "all_allowed (case_event c) (bc_initial_policy c)" "1 \<le> m" "11 + 5 * m \<le> l"
  shows "\<exists>v'. optimize (judge_worker mc m l i cluster n) msg task w ctx v = (Inr (), v')"
proof -
  let ?f = "\<lambda>t e k. on_bus (bus_publish t e k)"
  have own: "publishing ?f (judge_worker mc m l i cluster n) = judge_worker mc m l i cluster n"
    by (simp add: publishing_def judge_worker_def memory_worker_def memory_ports_def)
  obtain e u where opt: "optimize (judge_worker mc m l i cluster n) msg task w ctx v =
      seq (service (?f (topic_name Optimization_Results) e (pe_key msg))) (\<lambda>_.
      seq (service (on_bus (bus_acknowledge msg))) (\<lambda>_. count (wt_completed_update Suc))) u"
    and u: "sv_bus (wv_services u) = sv_bus (wv_services v)"
    using judge_optimize_until_published [OF mc_def serv ids allowed, of ?f i n task ctx v] unfolding own
    by blast
  have "pe_key msg \<noteq> ''''" "\<not> eb_closed (sv_bus (wv_services u))"
    using serv v u by (auto simp: servable_def Let_def)
  from bus_publish_returns [OF this] obtain p bus where
    "bus_publish (topic_name Optimization_Results) e (pe_key msg) (sv_bus (wv_services u)) = (Inr p, bus)"
    by blast
  then show ?thesis
    by (simp add: opt seq_def service_def on_bus_def bus_acknowledge_def count_def)
qed

lemma judge_process_completes:
  assumes mc_def: "mc = judge_memory cases elapsed draw loads float_int prior"
    and serv: "servable mc cases cluster (wv_services v) msg c"
    and allowed: "all_allowed (case_event c) (bc_initial_policy c)" "1 \<le> m" "11 + 5 * m \<le> l"
  shows "\<exists>v'. process (judge_worker mc m l i cluster n) msg v = (Inr (), v') \<and>
    wt_completed (wv_stats v') = Suc (wt_completed (wv_stats v))"
proof -
  let ?wk = "judge_worker mc m l i cluster n" and ?e = "pe_event msg"
  obtain task w ns ref ctx key where
    ty: "en_event_type ?e = Workload_Optimization_Requested"
    and p1: "req_text (en_payload ?e) ''task_id'' = Inr task" "task \<noteq> ''''"
    and p2: "req_text (en_payload ?e) ''workload_id'' = Inr w" "w \<noteq> ''''"
    and p3: "req_text (en_payload ?e) ''namespace'' = Inr ns" "ns \<noteq> ''''"
    and p4: "req_text (en_payload ?e) ''context_ref'' = Inr ref" "ref \<noteq> ''''"
    and stored: "context_get (mc_float_int mc) (mc_loads mc) ref (sv_contexts (wv_services v)) = Inr (Some ctx)"
    and own: "ix_service_id ctx = w" and case_c: "map_of cases w = Some c"
    and key: "workload_lock_key cluster ns w = Inr key" and new: "sv_completed (wv_services v) task = None"
    using serv unfolding servable_def Let_def by blast
  let ?v = "v\<lparr>wv_environment := None, wv_stats := wt_claimed_update Suc (wv_stats v)\<rparr>"
  have val: "service (validate_task (wk_ports ?wk) ?e) ?v = (Inr (task, w, ns, ctx), ?v)"
    using ty p1 p2 p3 p4 stored own
    by (simp add: service_def validate_task_def seq_def lift_result_def memory_context_get_def ret_def)
  let ?u = "?v\<lparr>wv_services := (wv_services v)\<lparr>sv_locked := key # sv_locked (wv_services v)\<rparr>\<rparr>"
  obtain v1 where opt: "optimize ?wk msg task w ctx ?u = (Inr (), v1)"
    using judge_optimize_completes [OF mc_def serv _ p2(1) case_c allowed, of ?u i n task ctx] by auto
  let ?v2 = "v1\<lparr>wv_services := (wv_services v1)\<lparr>sv_locked := remove1 key (sv_locked (wv_services v1))\<rparr>\<rparr>"
  have locked: "optimize_locked ?wk msg key task w ctx ?v = (Inr (), ?v2)"
    using opt by (simp add: optimize_locked_def catching_def seq_def service_def ensuring_def
        memory_acquire_def memory_release_def)
  have "process ?wk msg v = (Inr (), ?v2)"
    using val locked new key
    by (simp add: process_def process_valid_def seq_def set_environment_def count_def service_def
        memory_completed_get_def lift_result_def)
  moreover have "wv_stats v1 = wt_completed_update Suc (wt_claimed_update Suc (wv_stats v))"
    using judge.optimize_returns [OF opt [unfolded mc_def]] by simp
  ultimately show ?thesis by auto
qed

end
