(* ===== verification/Worker_Redelivery.thy ===== *)
theory Worker_Redelivery
  imports Workload_Lift
begin

text \<open>
  Redelivery after a failed publication. The worker stores the result of a task before it
  publishes it; if publishing raises, it restores the original policy and queues the task again,
  and the redelivered task is answered from the store. The lemmas follow both deliveries.
\<close>

definition unavailable :: "string \<Rightarrow> event_envelope \<Rightarrow> string \<Rightarrow> ('s, published_event) op" where
  "unavailable topic e key = throw (RuntimeError ''broker unavailable'')"

lemma simulator_restores:
  "env_restore_policy (lift_environment (simulator_adapter elapsed c)) s =
     (Inr (), s\<lparr>sv_cluster := (sv_cluster s)\<lparr>sm_current_policy := original s\<rparr>\<rparr>)"
  by (simp add: simulator_adapter_def on_cluster_def simulator_restore_def)

lemma bus_retry_returns:
  assumes "map_of (eb_queues bus) (pe_topic msg, ce_consumer_group msg) = Some q"
    and "envelope_wf (pe_event msg)" and "fst ident \<noteq> ''''" and "reason \<noteq> ''''"
  shows "\<exists>bus' m'. bus_retry ident msg reason bus = (Inr (), bus') \<and>
    queue_of bus' (pe_topic msg) (ce_consumer_group msg) = q @ [m'] \<and> redelivery_of msg m' \<and>
    pe_key m' = pe_key msg \<and> envelope_wf (pe_event m') \<and> eb_closed bus' = eb_closed bus"
proof -
  obtain e where e: "next_attempt ident None (pe_event msg) = Inr e" "envelope_wf e"
    "en_attempt e = en_attempt (pe_event msg) + 1" "en_payload e = en_payload (pe_event msg)"
    "en_event_type e = en_event_type (pe_event msg)"
    using next_attempt_Inr [OF assms(2,3), of None] by blast
  let ?m = "msg\<lparr>pe_event := e, ce_delivery_count := ce_delivery_count msg + 1\<rparr>"
  have "bus_retry ident msg reason bus =
      (Inr (), set_queue (pe_topic msg, ce_consumer_group msg) (q @ [?m]) bus)"
    using assms(1,4) e(1) by (simp add: bus_retry_def)
  moreover have "redelivery_of msg ?m" using e by (simp add: redelivery_of_def)
  ultimately show ?thesis using e(2)
    by (intro exI [of _ "set_queue (pe_topic msg, ce_consumer_group msg) (q @ [?m]) bus"] exI [of _ ?m])
      (simp add: set_queue_def queue_of_def update_conv)
qed

lemma failed_publication:
  assumes mc_def: "mc = judge_memory cases elapsed draw loads float_int prior"
    and serv: "servable mc cases cluster (wv_services v) msg c"
    and allowed: "all_allowed (case_event c) (bc_initial_policy c)" "1 \<le> m" "11 + 5 * m \<le> l"
    and limit: "en_attempt (pe_event msg) + 1 < n"
    and queued: "map_of (eb_queues (sv_bus (wv_services v))) (pe_topic msg, ce_consumer_group msg) = Some q"
    and task: "req_text (en_payload (pe_event msg)) ''task_id'' = Inr task"
  shows "\<exists>v' payload m'. process (publishing unavailable (judge_worker mc m l i cluster n)) msg v = (Inr (), v') \<and>
    in_force (wv_services v') = original (wv_services v') \<and>
    sv_completed (wv_services v') task = Some payload \<and> dget payload ''accepted'' = PBool True \<and>
    sv_contexts (wv_services v') = sv_contexts (wv_services v) \<and>
    \<not> eb_closed (sv_bus (wv_services v')) \<and>
    queue_of (sv_bus (wv_services v')) (pe_topic msg) (ce_consumer_group msg) = q @ [m'] \<and>
    redelivery_of msg m' \<and> pe_key m' = pe_key msg \<and> envelope_wf (pe_event m')"
proof -
  let ?wk = "publishing unavailable (judge_worker mc m l i cluster n)" and ?e = "pe_event msg"
  obtain w ns ref ctx key where
    ty: "en_event_type ?e = Workload_Optimization_Requested" and p1: "task \<noteq> ''''"
    and p2: "req_text (en_payload ?e) ''workload_id'' = Inr w" "w \<noteq> ''''"
    and p3: "req_text (en_payload ?e) ''namespace'' = Inr ns" "ns \<noteq> ''''"
    and p4: "req_text (en_payload ?e) ''context_ref'' = Inr ref" "ref \<noteq> ''''"
    and stored: "context_get (mc_float_int mc) (mc_loads mc) ref (sv_contexts (wv_services v)) = Inr (Some ctx)"
    and own: "ix_service_id ctx = w" and case_c: "map_of cases w = Some c"
    and key: "workload_lock_key cluster ns w = Inr key" and new: "sv_completed (wv_services v) task = None"
    and wf: "envelope_wf ?e" and opened: "\<not> eb_closed (sv_bus (wv_services v))" and drawn: "fst (draw k) \<noteq> ''''" for k
    using serv task unfolding servable_def Let_def mc_def judge_memory_def by auto
  let ?v = "v\<lparr>wv_environment := None, wv_stats := wt_claimed_update Suc (wv_stats v)\<rparr>"
  have val: "service (validate_task (wk_ports ?wk) ?e) ?v = (Inr (task, w, ns, ctx), ?v)"
    using ty task p1 p2 p3 p4 stored own
    by (simp add: service_def validate_task_def seq_def lift_result_def memory_context_get_def ret_def)
  let ?u0 = "?v\<lparr>wv_services := (wv_services v)\<lparr>sv_locked := key # sv_locked (wv_services v)\<rparr>\<rparr>"
  obtain e u ex where opt: "optimize ?wk msg task w ctx ?u0 =
      seq (service (unavailable (topic_name Optimization_Results) e (pe_key msg))) (\<lambda>_.
      seq (service (on_bus (bus_acknowledge msg))) (\<lambda>_. count (wt_completed_update Suc))) u"
    and u: "sv_bus (wv_services u) = sv_bus (wv_services ?u0)"
      "sv_contexts (wv_services u) = sv_contexts (wv_services ?u0)"
      "sv_completed (wv_services u) = (sv_completed (wv_services ?u0))(task \<mapsto> result_payload task w i ex elapsed)"
      "we_accepted ex" "wv_environment u = Some (lift_environment (simulator_adapter elapsed c))"
    using judge_optimize_until_published [OF mc_def serv p2(1) case_c allowed, of unavailable i n task ctx ?u0]
    by blast
  let ?s1 = "(wv_services u)\<lparr>sv_locked := remove1 key (sv_locked (wv_services u))\<rparr>"
  let ?s2 = "?s1\<lparr>sv_cluster := (sv_cluster ?s1)\<lparr>sm_current_policy := original ?s1\<rparr>\<rparr>"
  let ?s3 = "?s2\<lparr>sv_draws := Suc (sv_draws ?s2)\<rparr>"
  have bus_kept: "sv_bus (wv_services u) = sv_bus (wv_services v)" using u(1) by simp
  from bus_retry_returns [OF queued wf drawn, of "''RuntimeError''" "sv_draws ?s2"] obtain bus m' where
    bus: "bus_retry (draw (sv_draws ?s2)) msg ''RuntimeError'' (sv_bus (wv_services v)) = (Inr (), bus)"
    and again: "queue_of bus (pe_topic msg) (ce_consumer_group msg) = q @ [m']" "redelivery_of msg m'"
      "pe_key m' = pe_key msg" "envelope_wf (pe_event m')" "eb_closed bus = eb_closed (sv_bus (wv_services v))"
    by auto
  have retry: "memory_retry mc msg ''RuntimeError'' ?s2 = (Inr (), ?s3\<lparr>sv_bus := bus\<rparr>)"
    using bus bus_kept
    by (simp add: memory_retry_def seq_def draw_identity_def on_bus_def mc_def judge_memory_def)
  have failed: "optimize ?wk msg task w ctx ?u0 = (Inl (RuntimeError ''broker unavailable''), u)"
    by (simp add: opt seq_def service_def unavailable_def throw_def)
  have "optimize_locked ?wk msg key task w ctx ?v = handle_failure ?wk msg (RuntimeError ''broker unavailable'')
      (u\<lparr>wv_services := ?s1\<rparr>)"
    using failed
    by (simp add: optimize_locked_def catching_def seq_def service_def ensuring_def memory_acquire_def
        memory_release_def)
  also have "\<dots> = (Inr (), u\<lparr>wv_services := ?s3\<lparr>sv_bus := bus\<rparr>, wv_stats := wt_retried_update Suc (wv_stats u)\<rparr>)"
    using limit retry u(5)
    by (simp add: handle_failure_def restore_environment_def suppressing_def seq_def service_def
        count_def simulator_restores del: lift_environment_sel simulator_adapter_sel)
  finally have "process ?wk msg v = (Inr (), u\<lparr>wv_services := ?s3\<lparr>sv_bus := bus\<rparr>,
      wv_stats := wt_retried_update Suc (wv_stats u)\<rparr>)"
    using val new key
    by (simp add: process_def process_valid_def seq_def set_environment_def count_def service_def
        memory_completed_get_def lift_result_def)
  then show ?thesis
    using u again opened
    by (intro exI [of _ "u\<lparr>wv_services := ?s3\<lparr>sv_bus := bus\<rparr>, wv_stats := wt_retried_update Suc (wv_stats u)\<rparr>"]
        exI [of _ "result_payload task w i ex elapsed"] exI [of _ m']) (simp add: result_payload_sel)
qed

text \<open>The redelivered task: its stored result is published, the cluster is not touched.\<close>

lemma answered_from_store:
  assumes ty: "en_event_type (pe_event msg) = Workload_Optimization_Requested"
    and task: "req_text (en_payload (pe_event msg)) ''task_id'' = Inr task" "task \<noteq> ''''"
    and w: "req_text (en_payload (pe_event msg)) ''workload_id'' = Inr w" "w \<noteq> ''''"
    and ns: "req_text (en_payload (pe_event msg)) ''namespace'' = Inr ns" "ns \<noteq> ''''"
    and ref: "req_text (en_payload (pe_event msg)) ''context_ref'' = Inr ref" "ref \<noteq> ''''"
    and stored: "context_get (mc_float_int mc) (mc_loads mc) ref (sv_contexts (wv_services v)) = Inr (Some ctx)"
    and own: "ix_service_id ctx = w"
    and result: "sv_completed (wv_services v) task = Some payload"
    and ok: "envelope_wf (pe_event msg)" "\<And>k. fst (mc_draw mc k) \<noteq> ''''" "pe_key msg \<noteq> ''''"
      "\<not> eb_closed (sv_bus (wv_services v))"
  shows "\<exists>v' p. process (judge_worker mc m l i cluster n) msg v = (Inr (), v') \<and>
    sv_cluster (wv_services v') = sv_cluster (wv_services v) \<and>
    eb_logs (sv_bus (wv_services v')) (topic_name Optimization_Results) =
      eb_logs (sv_bus (wv_services v)) (topic_name Optimization_Results) @ [p] \<and>
    en_event_type (pe_event p) = Workload_Optimization_Completed \<and> en_payload (pe_event p) = payload"
proof -
  let ?wk = "judge_worker mc m l i cluster n" and ?e = "pe_event msg"
  let ?v = "v\<lparr>wv_environment := None, wv_stats := wt_claimed_update Suc (wv_stats v)\<rparr>"
  let ?s = "wv_services v" and ?id = "mc_draw mc (sv_draws (wv_services v))"
  have val: "service (validate_task (wk_ports ?wk) ?e) ?v = (Inr (task, w, ns, ctx), ?v)"
    using ty task w ns ref stored own
    by (simp add: service_def validate_task_def seq_def lift_result_def memory_context_get_def ret_def)
  obtain e where e: "completion_event ?id ?e payload = Inr e"
    using ok(1,2) by (simp add: completion_event_def new_envelope_def check_envelope_Inr_iff)
      (simp add: envelope_wf_def)
  obtain p bus where pub: "bus_publish (topic_name Optimization_Results) e (pe_key msg) (sv_bus ?s) = (Inr p, bus)"
    using bus_publish_returns [OF ok(3,4)] by blast
  note published = bus_publish_Inr [OF pub]
  have "pe_event p = e" by (simp add: published(3))
  let ?bus = "snd (bus_acknowledge msg bus)"
  have "publish_completion (wk_ports ?wk) msg payload ?s =
      (Inr (), ?s\<lparr>sv_draws := Suc (sv_draws ?s), sv_bus := ?bus\<rparr>)"
    using e pub
    by (simp add: publish_completion_def seq_def draw_identity_def lift_result_def on_bus_def
        bus_acknowledge_def)
  then have "\<exists>v'. process ?wk msg v = (Inr (), v') \<and>
      wv_services v' = ?s\<lparr>sv_draws := Suc (sv_draws ?s), sv_bus := ?bus\<rparr>"
    using val result
    by (simp add: process_def process_valid_def seq_def set_environment_def count_def service_def
        memory_completed_get_def)
  moreover have "eb_logs ?bus (topic_name Optimization_Results) =
      eb_logs (sv_bus ?s) (topic_name Optimization_Results) @ [p]"
    by (simp add: bus_acknowledge_def published(4))
  ultimately show ?thesis
    using completion_event_Inr [OF e] \<open>pe_event p = e\<close> by fastforce
qed

text \<open>Both deliveries: whatever has happened since, a later delivery of the retried task to any worker
  with a broker is answered from the store.\<close>

lemma redelivery_answered:
  assumes mc_def: "mc = judge_memory cases elapsed draw loads float_int prior"
    and serv: "servable mc cases cluster (wv_services v) msg c"
    and task: "req_text (en_payload (pe_event msg)) ''task_id'' = Inr task"
    and again: "redelivery_of msg m'" "pe_key m' = pe_key msg" "envelope_wf (pe_event m')"
    and u: "sv_completed (wv_services u) task = Some payload"
      "sv_contexts (wv_services u) = sv_contexts (wv_services v)" "\<not> eb_closed (sv_bus (wv_services u))"
  shows "\<exists>u' p. process (judge_worker mc m l j cluster n) m' u = (Inr (), u') \<and>
    sv_cluster (wv_services u') = sv_cluster (wv_services u) \<and>
    eb_logs (sv_bus (wv_services u')) (topic_name Optimization_Results) =
      eb_logs (sv_bus (wv_services u)) (topic_name Optimization_Results) @ [p] \<and>
    en_event_type (pe_event p) = Workload_Optimization_Completed \<and> en_payload (pe_event p) = payload"
proof -
  let ?e = "pe_event msg"
  obtain w ns ref ctx where
    ty: "en_event_type ?e = Workload_Optimization_Requested" and p1: "task \<noteq> ''''"
    and p2: "req_text (en_payload ?e) ''workload_id'' = Inr w" "w \<noteq> ''''"
    and p3: "req_text (en_payload ?e) ''namespace'' = Inr ns" "ns \<noteq> ''''"
    and p4: "req_text (en_payload ?e) ''context_ref'' = Inr ref" "ref \<noteq> ''''"
    and stored: "context_get (mc_float_int mc) (mc_loads mc) ref (sv_contexts (wv_services v)) = Inr (Some ctx)"
    and own: "ix_service_id ctx = w" and drawn: "fst (mc_draw mc k) \<noteq> ''''" and key: "pe_key msg \<noteq> ''''" for k
    using serv task unfolding servable_def Let_def by auto
  have same: "en_payload (pe_event m') = en_payload ?e" "en_event_type (pe_event m') = en_event_type ?e"
    using again(1) by (simp_all add: redelivery_of_def)
  show ?thesis
    by (rule answered_from_store [where w = w and ns = ns and ref = ref and ctx = ctx and task = task])
      (use ty task p1 p2 p3 p4 stored own u again drawn key in \<open>simp_all add: same\<close>)
qed

end
