(* ===== verification/System_Graph.thy ===== *)
theory System_Graph
  imports Event_Bus Context_Models Workload_Graph
begin

text \<open>
  \<open>agent_layer/graphs/system.py\<close>: the coordinator of a namespace. It discovers the services,
  registers and indexes them, publishes one optimisation task per service, waits for as many
  results and verifies the system. Its collaborators are operations over a state \<open>'s\<close>; one
  definition per node, in the order of the source, composed along the edges of the graph, which
  has no cycle.
\<close>

record 's system_ports =
  sp_discover :: "string \<Rightarrow> ('s, service_context list) op"
  sp_registry_put :: "service_context \<Rightarrow> ('s, unit) op"
  sp_index :: "service_context \<Rightarrow> ('s, indexed_context) op"
  sp_publish :: "string \<Rightarrow> event_envelope \<Rightarrow> string \<Rightarrow> ('s, published_event) op"
  sp_consume :: "string \<Rightarrow> string \<Rightarrow> string \<Rightarrow> ('s, unit) op"
  sp_next :: "string \<Rightarrow> string \<Rightarrow> string \<Rightarrow> ('s, consumed_event) op"
  sp_acknowledge :: "consumed_event \<Rightarrow> ('s, unit) op"
  sp_identity :: "('s, string \<times> string) op"
  sp_verifier :: "('s, bool) op option"
  sp_record :: "string \<Rightarrow> string \<Rightarrow> ('s, unit) op"
  sp_write_report :: "string \<Rightarrow> string \<Rightarrow> ('s, unit) op"
  sp_write_summary :: "('s, string option) op"

text \<open>\<open>sy_message_limit\<close> bounds the messages that arrive before \<open>result_timeout_seconds\<close> is over;
  \<open>sp_next\<close> raises \<open>TimeoutError\<close> if the time is over before the next one.\<close>

record 's system_config =
  sy_ports :: "'s system_ports"
  sy_cluster :: string
  sy_report_directory :: "string option"
  sy_message_limit :: nat

record system_state =
  ss_run_id :: string
  ss_namespace :: string
  ss_services :: "service_context list option"
  ss_contexts :: "indexed_context list option"
  ss_result_events :: "event_envelope list option"
  ss_expected_results :: "nat option"
  ss_system_passed :: "bool option"
  ss_report_path :: "string option option"
  ss_graph_node :: string

record system_run_result =
  sr_run_id :: string
  sr_run_namespace :: string
  sr_services :: "service_context list"
  sr_results :: "event_envelope list"
  sr_system_passed :: bool
  sr_trajectory_path :: "string option"
  sr_report_path :: "string option"

type_synonym 's system_node = "'s system_config \<Rightarrow> system_state \<Rightarrow> ('s, system_state) op"

text \<open>An operation for each item of a list, in order.\<close>

fun each :: "('a \<Rightarrow> ('s, 'b) op) \<Rightarrow> 'a list \<Rightarrow> ('s, 'b list) op" where
  "each f [] = ret []"
| "each f (x # xs) = seq (f x) (\<lambda>y. seq (each f xs) (\<lambda>ys. ret (y # ys)))"

section \<open>Discovery, registry and index\<close>

definition discover_system :: "'s system_node" where
  "discover_system cfg st =
     seq (sp_discover (sy_ports cfg) (ss_namespace st)) (\<lambda>services.
     seq (sp_record (sy_ports cfg) ''discover_system''
            (''discovered '' @ nat_str (length services) @ '' workloads dynamically'')) (\<lambda>_.
     ret (st\<lparr>ss_services := Some services, ss_graph_node := ''DISCOVER_SYSTEM''\<rparr>)))"

definition build_registry :: "'s system_node" where
  "build_registry cfg st =
     seq (need ''services'' (ss_services st)) (\<lambda>services.
     seq (each (sp_registry_put (sy_ports cfg)) services) (\<lambda>_.
     seq (sp_record (sy_ports cfg) ''build_service_registry''
            ''persisted deterministic service records'') (\<lambda>_.
     ret (st\<lparr>ss_graph_node := ''BUILD_SERVICE_REGISTRY''\<rparr>))))"

definition index_contexts :: "'s system_node" where
  "index_contexts cfg st =
     seq (need ''services'' (ss_services st)) (\<lambda>services.
     seq (each (sp_index (sy_ports cfg)) services) (\<lambda>contexts.
     seq (sp_record (sy_ports cfg) ''index_service_contexts''
            (''indexed '' @ nat_str (sum_list (map (\<lambda>c. length (ix_files c)) contexts)) @
             '' service-scoped files'')) (\<lambda>_.
     ret (st\<lparr>ss_contexts := Some contexts, ss_graph_node := ''INDEX_SERVICE_CONTEXTS''\<rparr>))))"

section \<open>Dispatch\<close>

text \<open>\<open>{item.service_id: item for item in contexts}[service_id]\<close>: the last one wins.\<close>

definition context_for :: "indexed_context list \<Rightarrow> string \<Rightarrow> indexed_context option" where
  "context_for contexts service_id = find (\<lambda>c. ix_service_id c = service_id) (rev contexts)"

definition task_payload ::
  "string \<Rightarrow> service_context \<Rightarrow> indexed_context \<Rightarrow> pydict" where
  "task_payload run_id service context =
     [(''task_id'', PStr (run_id @ '':'' @ sc_service_id service)),
      (''workload_id'', PStr (sc_service_id service)),
      (''namespace'', PStr (sc_namespace service)),
      (''deployment'', PStr (sc_deployment_name service)),
      (''service_account'', PStr (sc_service_account service)),
      (''repository_ref'', PStr (''service://'' @ sc_service_id service)),
      (''context_ref'', PStr (ix_context_ref context)),
      (''verification_profile'', PStr (sc_verification_profile service))]"

definition dispatch_one ::
  "'s system_config \<Rightarrow> string \<Rightarrow> indexed_context list \<Rightarrow> service_context \<Rightarrow> ('s, published_event) op" where
  "dispatch_one cfg run_id contexts service =
     (case context_for contexts (sc_service_id service) of
        None \<Rightarrow> throw (KeyError (sc_service_id service))
      | Some context \<Rightarrow>
          seq (sp_identity (sy_ports cfg)) (\<lambda>ident.
          seq (lift_result (new_envelope ident Workload_Optimization_Requested run_id run_id None 0
                 (task_payload run_id service context))) (\<lambda>e.
          sp_publish (sy_ports cfg) (topic_name Optimization_Requests) e
            (sy_cluster cfg @ '':'' @ sc_namespace service @ '':'' @ sc_service_id service))))"

definition dispatch :: "'s system_node" where
  "dispatch cfg st =
     seq (need ''contexts'' (ss_contexts st)) (\<lambda>contexts.
     seq (need ''services'' (ss_services st)) (\<lambda>services.
     seq (each (dispatch_one cfg (ss_run_id st) contexts) services) (\<lambda>_.
     seq (sp_record (sy_ports cfg) ''dispatch_workload_events''
            (''published '' @ nat_str (length services) @ '' independently consumable tasks'')) (\<lambda>_.
     ret (st\<lparr>ss_expected_results := Some (length services),
             ss_graph_node := ''DISPATCH_WORKLOAD_EVENTS''\<rparr>)))))"

section \<open>Waiting for the results\<close>

definition results_group :: "string \<Rightarrow> string" where
  "results_group run_id = ''kuber-system-'' @ run_id"

fun collect_results ::
  "'s system_config \<Rightarrow> string \<Rightarrow> nat \<Rightarrow> nat \<Rightarrow> event_envelope list \<Rightarrow> ('s, event_envelope list) op" where
  "collect_results cfg run_id expected 0 results =
     (if expected \<le> length results then ret results else throw (TimeoutError ''''))"
| "collect_results cfg run_id expected (Suc k) results =
     (if expected \<le> length results then ret results
      else
        seq (sp_next (sy_ports cfg) (topic_name Optimization_Results) (results_group run_id)
               ''system-coordinator'') (\<lambda>m.
        seq (sp_acknowledge (sy_ports cfg) m) (\<lambda>_.
        collect_results cfg run_id expected k
          (if en_run_id (pe_event m) = run_id then results @ [pe_event m] else results))))"

definition wait_for_completion :: "'s system_node" where
  "wait_for_completion cfg st =
     seq (need ''expected_results'' (ss_expected_results st)) (\<lambda>expected.
     seq (if expected = 0 then ret []
          else
            seq (sp_consume (sy_ports cfg) (topic_name Optimization_Results)
                   (results_group (ss_run_id st)) ''system-coordinator'') (\<lambda>_.
            collect_results cfg (ss_run_id st) expected (sy_message_limit cfg) [])) (\<lambda>results.
     seq (sp_record (sy_ports cfg) ''wait_for_completion_events''
            (''received '' @ nat_str (length results) @ '' durable results'')) (\<lambda>_.
     ret (st\<lparr>ss_result_events := Some results,
             ss_graph_node := ''WAIT_FOR_COMPLETION_EVENTS''\<rparr>))))"

definition aggregate :: "'s system_node" where
  "aggregate cfg st =
     seq (sp_record (sy_ports cfg) ''aggregate_results'' ''aggregated results by workload and task'')
       (\<lambda>_. ret (st\<lparr>ss_graph_node := ''AGGREGATE_RESULTS''\<rparr>))"

section \<open>Verification\<close>

definition system_key :: "'s system_config \<Rightarrow> system_state \<Rightarrow> string" where
  "system_key cfg st = sy_cluster cfg @ '':'' @ ss_namespace st"

definition result_accepted :: "event_envelope \<Rightarrow> bool" where
  "result_accepted e \<longleftrightarrow> truthy (dget (en_payload e) ''accepted'')"

definition verify_system :: "'s system_node" where
  "verify_system cfg st =
     seq (sp_identity (sy_ports cfg)) (\<lambda>ident.
     seq (lift_result (new_envelope ident System_Verification_Requested (ss_run_id st) (ss_run_id st)
            None 0 [(''namespace'', PStr (ss_namespace st))])) (\<lambda>requested.
     seq (sp_publish (sy_ports cfg) (topic_name System_Events) requested (system_key cfg st)) (\<lambda>_.
     seq (need ''result_events'' (ss_result_events st)) (\<lambda>results.
     seq (need ''expected_results'' (ss_expected_results st)) (\<lambda>expected.
     let workload_passed = (length results = expected \<and> list_all result_accepted results) in
     seq (case sp_verifier (sy_ports cfg) of
            Some verifier \<Rightarrow> if workload_passed then verifier else ret workload_passed
          | None \<Rightarrow> ret workload_passed) (\<lambda>end_to_end_passed.
     let passed = (workload_passed \<and> end_to_end_passed) in
     seq (sp_identity (sy_ports cfg)) (\<lambda>ident.
     seq (lift_result (new_envelope ident System_Verification_Completed (ss_run_id st)
            (ss_run_id st) (Some (en_event_id requested)) 0
            [(''namespace'', PStr (ss_namespace st)), (''passed'', PBool passed),
             (''workload_verification_passed'', PBool workload_passed),
             (''end_to_end_passed'', PBool end_to_end_passed)])) (\<lambda>completed.
     seq (sp_publish (sy_ports cfg) (topic_name System_Events) completed (system_key cfg st)) (\<lambda>_.
     seq (sp_record (sy_ports cfg) ''system_verify''
            (if passed then ''all workload verification results passed''
             else ''system verification failed'')) (\<lambda>_.
     ret (st\<lparr>ss_system_passed := Some passed, ss_graph_node := ''SYSTEM_VERIFY''\<rparr>)))))))))))"

section \<open>Report\<close>

text \<open>The UTF-8 bytes of the arrow in the report.\<close>

definition arrow :: string where
  "arrow = '' '' @ map char_of [226, 134, 146 :: nat] @ '' ''"

definition report_row :: "event_envelope \<Rightarrow> string result" where
  "report_row e =
     (let value = en_payload e; status = (if result_accepted e then ''PASS'' else ''FAIL'') in
      rbind (req_text value ''workload_id'') (\<lambda>workload_id.
      rbind (req_text value ''worker_id'') (\<lambda>worker_id.
      rbind (req_text value ''original_permissions'') (\<lambda>original_permissions.
      rbind (req_text value ''final_permissions'') (\<lambda>final_permissions.
      rbind (req_text value ''original_risk'') (\<lambda>original_risk.
      rbind (req_text value ''final_risk'') (\<lambda>final_risk.
      rbind (req_text value ''tests_passed'') (\<lambda>tests_passed.
      rbind (req_text value ''tests_total'') (\<lambda>tests_total.
      rbind (req_text value ''repairs'') (\<lambda>repairs.
      Inr (''| '' @ utf8 workload_id @ '' | '' @ utf8 worker_id @ '' | '' @
           utf8 original_permissions @ arrow @ utf8 final_permissions @ '' | '' @
           utf8 original_risk @ arrow @ utf8 final_risk @ '' | '' @
           utf8 tests_passed @ ''/'' @ utf8 tests_total @ '' | '' @
           utf8 repairs @ '' | '' @ status @ '' |'')))))))))))"

definition report_text ::
  "string \<Rightarrow> string \<Rightarrow> nat \<Rightarrow> nat \<Rightarrow> bool \<Rightarrow> string list \<Rightarrow> string" where
  "report_text namespace run_id services results passed rows =
     (let status = (if passed then ''PASS'' else ''FAIL'') in
      ''# Kuber namespace report: '' @ utf8 namespace @ newline @ newline @
      ''- Run ID: `'' @ utf8 run_id @ ''`'' @ newline @
      ''- Services discovered: '' @ nat_str services @ newline @
      ''- Workload results received: '' @ nat_str results @ newline @
      ''- System verification: **'' @ status @ ''**'' @ newline @ newline @
      ''| Service | Worker | Permissions | Risk | Tests | Repairs | Result |'' @ newline @
      ''|---|---|---:|---:|---:|---:|---|'' @ newline @ py_join newline rows @ newline)"

text \<open>\<open>sorted(..., key=...)\<close> evaluates the key of every item first.\<close>

definition write_report ::
  "'s system_config \<Rightarrow> system_state \<Rightarrow> ('s, string option) op" where
  "write_report cfg st =
     (case sy_report_directory cfg of
        None \<Rightarrow> ret None
      | Some directory \<Rightarrow>
          let path = directory @ ''/'' @ ss_run_id st @ ''-namespace-report.md'' in
          seq (need ''result_events'' (ss_result_events st)) (\<lambda>results.
          seq (lift_result (rmap (\<lambda>e. rbind (req_text (en_payload e) ''workload_id'')
                 (\<lambda>key. Inr (key, e))) results)) (\<lambda>keyed.
          seq (lift_result (rmap report_row (map snd (sort_key fst keyed)))) (\<lambda>rows.
          seq (need ''system_passed'' (ss_system_passed st)) (\<lambda>passed.
          seq (need ''services'' (ss_services st)) (\<lambda>services.
          seq (sp_write_report (sy_ports cfg) path
                 (report_text (ss_namespace st) (ss_run_id st) (length services) (length results)
                    passed rows)) (\<lambda>_.
          ret (Some path))))))))"

definition report :: "'s system_node" where
  "report cfg st =
     seq (write_report cfg st) (\<lambda>path.
     seq (sp_record (sy_ports cfg) ''system_report''
            (case path of
               None \<Rightarrow> ''final namespace result is ready''
             | Some p \<Rightarrow> ''wrote final namespace report to '' @ p)) (\<lambda>_.
     ret (st\<lparr>ss_report_path := Some path, ss_graph_node := ''SYSTEM_REPORT''\<rparr>)))"

definition diagnose_system :: "'s system_node" where
  "diagnose_system cfg st =
     seq (sp_record (sy_ports cfg) ''system_diagnosis''
            ''one or more workloads require rollback or human review'') (\<lambda>_.
     ret (st\<lparr>ss_graph_node := ''SYSTEM_DIAGNOSIS''\<rparr>))"

section \<open>The graph\<close>

definition system_graph :: "'s system_node" where
  "system_graph cfg st =
     seq (discover_system cfg st) (\<lambda>st1.
     seq (build_registry cfg st1) (\<lambda>st2.
     seq (index_contexts cfg st2) (\<lambda>st3.
     seq (dispatch cfg st3) (\<lambda>st4.
     seq (wait_for_completion cfg st4) (\<lambda>st5.
     seq (aggregate cfg st5) (\<lambda>st6.
     seq (verify_system cfg st6) (\<lambda>st7.
     seq (need ''system_passed'' (ss_system_passed st7)) (\<lambda>passed.
     if passed then report cfg st7 else diagnose_system cfg st7))))))))"

text \<open>\<open>uuid\<close> is what \<open>uuid4().hex\<close> would give; \<open>prior\<close> is what the checkpointer holds.\<close>

definition run_system ::
  "'s system_config \<Rightarrow> system_state \<Rightarrow> string \<Rightarrow> string option \<Rightarrow> string \<Rightarrow> ('s, system_run_result) op" where
  "run_system cfg prior namespace run_id uuid =
     (let identifier = (if truthy_opt run_id then or_empty run_id else uuid) in
      seq (system_graph cfg (prior\<lparr>ss_run_id := identifier, ss_namespace := namespace,
             ss_graph_node := ''START''\<rparr>)) (\<lambda>final.
      seq (need ''services'' (ss_services final)) (\<lambda>services.
      seq (need ''result_events'' (ss_result_events final)) (\<lambda>results.
      seq (need ''system_passed'' (ss_system_passed final)) (\<lambda>passed.
      seq (sp_write_summary (sy_ports cfg)) (\<lambda>path.
      ret \<lparr>sr_run_id = identifier, sr_run_namespace = namespace, sr_services = services,
           sr_results = results, sr_system_passed = passed, sr_trajectory_path = path,
           sr_report_path = (case ss_report_path final of None \<Rightarrow> None | Some p \<Rightarrow> p)\<rparr>))))))"

end
