(* ===== verification/System_Safety.thy ===== *)
theory System_Safety
  imports System_Graph
begin

text \<open>
  What the coordinator guarantees: the tasks it dispatches (under the contract \<open>request_log\<close> of
  the bus), the results it waits for, and what a passed system means.
\<close>

section \<open>Operations on lists\<close>

lemma each_length: "each f xs s = (Inr ys, s') \<Longrightarrow> length ys = length xs"
  by (induction xs arbitrary: ys s) (auto simp: op_simps)

lemma each_append_Inr:
  "each f (xs @ zs) s = (Inr ys, s') \<longleftrightarrow>
     (\<exists>us vs u. each f xs s = (Inr us, u) \<and> each f zs u = (Inr vs, s') \<and> ys = us @ vs)"
proof (induction xs arbitrary: ys s)
  case (Cons x xs)
  show ?case by (simp add: op_simps Cons.IH) (metis append_Cons)
qed (auto simp: op_simps)

section \<open>Nodes\<close>

lemma discover_system_Inr:
  "discover_system cfg st s = (Inr st', s') \<Longrightarrow>
   \<exists>services. st' = st\<lparr>ss_services := Some services, ss_graph_node := ''DISCOVER_SYSTEM''\<rparr>"
  by (auto simp: discover_system_def op_simps)

lemma need_eq_iff [op_simps]:
  "need key x s = (Inr v, s') \<longleftrightarrow> x = Some v \<and> s' = s"
  "need key x s = (Inl err, s') \<longleftrightarrow> x = None \<and> err = KeyError key \<and> s' = s"
  by (auto simp: need_def op_simps split: option.splits)

lemma build_registry_Inr:
  "build_registry cfg st s = (Inr st', s') \<Longrightarrow> st' = st\<lparr>ss_graph_node := ''BUILD_SERVICE_REGISTRY''\<rparr>"
  by (auto simp: build_registry_def op_simps)

lemma index_contexts_Inr:
  "index_contexts cfg st s = (Inr st', s') \<Longrightarrow>
   \<exists>contexts. st' = st\<lparr>ss_contexts := Some contexts, ss_graph_node := ''INDEX_SERVICE_CONTEXTS''\<rparr>"
  by (auto simp: index_contexts_def op_simps)

lemma dispatch_Inr:
  "dispatch cfg st s = (Inr st', s') \<Longrightarrow>
   \<exists>services. ss_services st = Some services \<and>
     st' = st\<lparr>ss_expected_results := Some (length services),
              ss_graph_node := ''DISPATCH_WORKLOAD_EVENTS''\<rparr>"
  by (auto simp: dispatch_def op_simps)

text \<open>The loop stops as soon as it has what it waits for: it never returns more.\<close>

lemma collect_results_Inr:
  "collect_results cfg run_id n k results s = (Inr rs, s') \<Longrightarrow> length results \<le> n \<Longrightarrow>
   (\<forall>e \<in> set results. en_run_id e = run_id) \<Longrightarrow>
   length rs = n \<and> (\<forall>e \<in> set rs. en_run_id e = run_id) \<and> (\<exists>more. rs = results @ more)"
proof (induction k arbitrary: results s)
  case 0
  then show ?case by (auto simp: op_simps split: if_splits)
next
  case (Suc k)
  show ?case
  proof (cases "n \<le> length results")
    case True
    with Suc.prems show ?thesis by (auto simp: op_simps)
  next
    case False
    let ?step = "\<lambda>m. if en_run_id (pe_event m) = run_id then results @ [pe_event m] else results"
    have "\<exists>m u. collect_results cfg run_id n k (?step (m :: consumed_event)) u = (Inr rs, s')"
      using Suc.prems(1) False by (simp only: collect_results.simps if_False op_simps) (elim exE conjE, intro exI)
    then obtain m u where rec: "collect_results cfg run_id n k (?step (m :: consumed_event)) u = (Inr rs, s')"
      by (elim exE)
    have "length (?step m) \<le> n" "\<forall>e \<in> set (?step m). en_run_id e = run_id"
      using Suc.prems(3) False by auto
    from Suc.IH [OF rec this] show ?thesis by (cases "en_run_id (pe_event m) = run_id") auto
  qed
qed

lemma wait_for_completion_Inr:
  assumes "wait_for_completion cfg st s = (Inr st', s')"
  shows "\<exists>results. ss_expected_results st = Some (length results) \<and>
    (\<forall>e \<in> set results. en_run_id e = ss_run_id st) \<and>
    st' = st\<lparr>ss_result_events := Some results, ss_graph_node := ''WAIT_FOR_COMPLETION_EVENTS''\<rparr>"
  using assms
  by (auto simp: wait_for_completion_def op_simps split: if_splits dest!: collect_results_Inr)

lemma aggregate_Inr:
  "aggregate cfg st s = (Inr st', s') \<Longrightarrow> st' = st\<lparr>ss_graph_node := ''AGGREGATE_RESULTS''\<rparr>"
  by (auto simp: aggregate_def op_simps)

definition system_verified :: "'s system_config \<Rightarrow> event_envelope list \<Rightarrow> nat \<Rightarrow> bool \<Rightarrow> bool" where
  "system_verified cfg results expected passed \<longleftrightarrow>
     (passed \<longrightarrow> length results = expected \<and> (\<forall>e \<in> set results. result_accepted e) \<and>
        (\<forall>verifier. sp_verifier (sy_ports cfg) = Some verifier \<longrightarrow>
           (\<exists>u u'. verifier u = (Inr True, u'))))"

lemma verify_system_Inr:
  assumes "verify_system cfg st s = (Inr st', s')"
  shows "\<exists>results expected passed. ss_result_events st = Some results \<and>
    ss_expected_results st = Some expected \<and> system_verified cfg results expected passed \<and>
    st' = st\<lparr>ss_system_passed := Some passed, ss_graph_node := ''SYSTEM_VERIFY''\<rparr>"
proof -
  from assms obtain results expected outcome u u' where
    sel: "ss_result_events st = Some results" "ss_expected_results st = Some expected"
    and outcome: "(case sp_verifier (sy_ports cfg) of
            Some verifier \<Rightarrow> if length results = expected \<and> list_all result_accepted results
              then verifier else ret (length results = expected \<and> list_all result_accepted results)
          | None \<Rightarrow> ret (length results = expected \<and> list_all result_accepted results)) u =
        (Inr outcome, u')"
    and st': "st' = st\<lparr>ss_system_passed := Some ((length results = expected \<and>
        list_all result_accepted results) \<and> outcome), ss_graph_node := ''SYSTEM_VERIFY''\<rparr>"
    by (simp only: verify_system_def Let_def op_simps) blast
  have "system_verified cfg results expected ((length results = expected \<and>
      list_all result_accepted results) \<and> outcome)"
    using outcome
    by (auto simp: system_verified_def list_all_iff op_simps split: option.splits) blast
  with sel st' show ?thesis by blast
qed

lemma report_Inr:
  "report cfg st s = (Inr st', s') \<Longrightarrow>
   \<exists>path. st' = st\<lparr>ss_report_path := Some path, ss_graph_node := ''SYSTEM_REPORT''\<rparr>"
  by (auto simp: report_def op_simps)

lemma diagnose_system_Inr:
  "diagnose_system cfg st s = (Inr st', s') \<Longrightarrow> st' = st\<lparr>ss_graph_node := ''SYSTEM_DIAGNOSIS''\<rparr>"
  by (auto simp: diagnose_system_def op_simps)

section \<open>A run of the system\<close>

lemma system_graph_Inr:
  assumes "system_graph cfg st s = (Inr final, s')"
  shows "\<exists>services results passed. ss_services final = Some services \<and>
    ss_result_events final = Some results \<and> ss_system_passed final = Some passed \<and>
    ss_run_id final = ss_run_id st \<and> length results = length services \<and>
    (\<forall>e \<in> set results. en_run_id e = ss_run_id st) \<and>
    system_verified cfg results (length services) passed \<and>
    ss_graph_node final = (if passed then ''SYSTEM_REPORT'' else ''SYSTEM_DIAGNOSIS'')"
proof -
  from assms obtain st1 s1 st2 s2 st3 s3 st4 s4 st5 s5 st6 s6 st7 s7 passed where
    n1: "discover_system cfg st s = (Inr st1, s1)" and n2: "build_registry cfg st1 s1 = (Inr st2, s2)"
    and n3: "index_contexts cfg st2 s2 = (Inr st3, s3)" and n4: "dispatch cfg st3 s3 = (Inr st4, s4)"
    and n5: "wait_for_completion cfg st4 s4 = (Inr st5, s5)" and n6: "aggregate cfg st5 s5 = (Inr st6, s6)"
    and n7: "verify_system cfg st6 s6 = (Inr st7, s7)" and p: "ss_system_passed st7 = Some passed"
    and last: "(if passed then report cfg st7 else diagnose_system cfg st7) s7 = (Inr final, s')"
    by (simp only: system_graph_def op_simps) blast
  from discover_system_Inr [OF n1] build_registry_Inr [OF n2] index_contexts_Inr [OF n3]
    dispatch_Inr [OF n4] wait_for_completion_Inr [OF n5] aggregate_Inr [OF n6]
    verify_system_Inr [OF n7] p
  obtain services results where st7: "ss_services st7 = Some services"
    "ss_result_events st7 = Some results" "ss_run_id st7 = ss_run_id st"
    "length results = length services" "\<forall>e \<in> set results. en_run_id e = ss_run_id st"
    "system_verified cfg results (length services) passed"
    by auto
  have "ss_services final = ss_services st7" "ss_result_events final = ss_result_events st7"
    "ss_system_passed final = ss_system_passed st7" "ss_run_id final = ss_run_id st7"
    "ss_graph_node final = (if passed then ''SYSTEM_REPORT'' else ''SYSTEM_DIAGNOSIS'')"
    using last by (auto dest: report_Inr diagnose_system_Inr split: if_splits)
  with st7 p show ?thesis by auto
qed

lemma run_system_Inr:
  assumes "run_system cfg prior ns rid uuid s = (Inr r, s')"
  shows "length (sr_results r) = length (sr_services r)"
    and "\<forall>e \<in> set (sr_results r). en_run_id e = sr_run_id r"
    and "system_verified cfg (sr_results r) (length (sr_services r)) (sr_system_passed r)"
proof -
  let ?id = "if truthy_opt rid then or_empty rid else uuid"
  let ?st = "prior\<lparr>ss_run_id := ?id, ss_namespace := ns, ss_graph_node := ''START''\<rparr>"
  from assms obtain final u services results passed where
    graph: "system_graph cfg ?st s = (Inr final, u)"
    and sel: "ss_services final = Some services" "ss_result_events final = Some results"
      "ss_system_passed final = Some passed"
    and r: "sr_services r = services" "sr_results r = results" "sr_system_passed r = passed"
      "sr_run_id r = ?id"
    by (auto simp: run_system_def Let_def op_simps)
  from system_graph_Inr [OF graph] sel r
  show "length (sr_results r) = length (sr_services r)"
    and "\<forall>e \<in> set (sr_results r). en_run_id e = sr_run_id r"
    and "system_verified cfg (sr_results r) (length (sr_services r)) (sr_system_passed r)"
    by auto
qed

section \<open>Dispatch\<close>

text \<open>What the coordinator relies on of the bus: a published event is appended to its topic.\<close>

locale request_log =
  fixes cfg :: "'s system_config" and log :: "'s \<Rightarrow> string \<Rightarrow> published_event list"
  assumes publish_appends: "sp_publish (sy_ports cfg) t e k s = (Inr p, s') \<Longrightarrow>
      pe_event p = e \<and> pe_key p = k \<and> log s' = (log s)(t := log s t @ [p])"
    and identity_keeps: "keeps log (sp_identity (sy_ports cfg))"

text \<open>The request of a service: one task, under the lock key of its workload.\<close>

definition request_for ::
  "string \<Rightarrow> string \<Rightarrow> indexed_context list \<Rightarrow> service_context \<Rightarrow> published_event \<Rightarrow> bool" where
  "request_for cluster run_id contexts service p \<longleftrightarrow>
     en_event_type (pe_event p) = Workload_Optimization_Requested \<and>
     en_run_id (pe_event p) = run_id \<and> en_attempt (pe_event p) = 0 \<and>
     pe_key p = cluster @ '':'' @ sc_namespace service @ '':'' @ sc_service_id service \<and>
     (\<exists>context. context_for contexts (sc_service_id service) = Some context \<and>
        en_payload (pe_event p) = task_payload run_id service context)"

context request_log
begin

lemma dispatch_one_appends:
  assumes "dispatch_one cfg run_id contexts service s = (Inr p, s')"
  shows "request_for (sy_cluster cfg) run_id contexts service p \<and>
    log s' = (log s)(topic_name Optimization_Requests :=
      log s (topic_name Optimization_Requests) @ [p])"
proof -
  from assms obtain ctx ident s1 e where
    c: "context_for contexts (sc_service_id service) = Some ctx"
    and ident: "sp_identity (sy_ports cfg) s = (Inr ident, s1)"
    and e: "new_envelope ident Workload_Optimization_Requested run_id run_id None 0
      (task_payload run_id service ctx) = Inr e"
    and pub: "sp_publish (sy_ports cfg) (topic_name Optimization_Requests) e
      (sy_cluster cfg @ '':'' @ sc_namespace service @ '':'' @ sc_service_id service) s1 = (Inr p, s')"
    by (auto simp: dispatch_one_def op_simps split: option.splits)
  from publish_appends [OF pub] keepsD [OF identity_keeps ident] c e show ?thesis
    by (auto simp: request_for_def new_envelope_def check_envelope_Inr_iff)
qed

lemma each_dispatch_appends:
  "each (dispatch_one cfg run_id contexts) services s = (Inr ps, s') \<Longrightarrow>
   list_all2 (request_for (sy_cluster cfg) run_id contexts) services ps \<and>
   log s' = (log s)(topic_name Optimization_Requests :=
     log s (topic_name Optimization_Requests) @ ps)"
proof (induction services arbitrary: ps s)
  case Nil
  then show ?case by (simp add: op_simps)
next
  case (Cons service services)
  from Cons.prems obtain p u qs where one: "dispatch_one cfg run_id contexts service s = (Inr p, u)"
    and rest: "each (dispatch_one cfg run_id contexts) services u = (Inr qs, s')" and ps: "ps = p # qs"
    by (auto simp: op_simps)
  from dispatch_one_appends [OF one] Cons.IH [OF rest] ps show ?case by (simp add: fun_eq_iff)
qed

end

end
