(* ===== verification/Context_Index.thy ===== *)
theory Context_Index
  imports Context_Store Trajectory
begin

text \<open>
  \<open>context_layer/discovery.py\<close> and \<open>context_layer/indexer.py\<close>. The Kubernetes client is a
  parameter: a deployment is the record of the attributes the code reads. The file system is a
  record of functions on absolute paths (lists of components); \<open>sha256\<close> is the hash. The lemmas
  give what discovery and indexing select, and when an earlier index is reused.
\<close>

section \<open>Discovery\<close>

definition static_discover :: "service_context list \<Rightarrow> string \<Rightarrow> service_context list" where
  "static_discover services namespace = filter (\<lambda>s. sc_namespace s = namespace) services"

record deployment =
  dp_name :: string
  dp_labels :: "(string \<times> string) list option"
  dp_annotations :: "(string \<times> string) list option"
  dp_service_account_name :: "string option"
  dp_images :: "string list"

definition or_empty_dict :: "(string \<times> string) list option \<Rightarrow> (string \<times> string) list" where
  "or_empty_dict x = (case x of None \<Rightarrow> [] | Some d \<Rightarrow> d)"

definition lookup_or :: "(string \<times> string) list \<Rightarrow> string \<Rightarrow> string \<Rightarrow> string" where
  "lookup_or d k default_value = (case map_of d k of None \<Rightarrow> default_value | Some v \<Rightarrow> v)"

text \<open>\<open>s.split(sep)\<close> for a separator of one character.\<close>

fun py_split :: "char \<Rightarrow> string \<Rightarrow> string list" where
  "py_split sep [] = [[]]"
| "py_split sep (c # cs) =
     (if c = sep then [] # py_split sep cs
      else (case py_split sep cs of [] \<Rightarrow> [[c]] | w # ws \<Rightarrow> (c # w) # ws))"

text \<open>\<open>tuple(v.strip() for v in text.split(",") if v.strip())\<close>.\<close>

definition comma_list :: "string \<Rightarrow> string list" where
  "comma_list text =
     map py_strip (filter (\<lambda>v. py_strip v \<noteq> '''') (py_split (CHR '','') text))"

text \<open>\<open>locate\<close> is \<open>str((repository_root / path).resolve())\<close>.\<close>

definition to_context ::
  "(string \<Rightarrow> string) \<Rightarrow> string \<Rightarrow> deployment \<Rightarrow> service_context result" where
  "to_context locate namespace d =
     (let labels = or_empty_dict (dp_labels d);
          annotations = or_empty_dict (dp_annotations d);
          service_id = lookup_or labels ''app.kubernetes.io/name'' (dp_name d);
          source_path = lookup_or annotations ''kuber.dev/source-path''
            (''examples/service_catalog/'' @ service_id)
      in check_context
        \<lparr>sc_service_id = service_id, sc_namespace = namespace, sc_workload_kind = ''Deployment'',
         sc_deployment_name = dp_name d,
         sc_service_account =
           (if truthy_opt (dp_service_account_name d) then or_empty (dp_service_account_name d)
            else ''default''),
         sc_source_repository =
           \<lparr>rp_service_id = service_id, rp_local_path = locate source_path,
            rp_remote_url = map_of annotations ''kuber.dev/repository-url'',
            rp_commit_sha = map_of annotations ''kuber.dev/commit-sha''\<rparr>,
         sc_important_paths = comma_list (lookup_or annotations ''kuber.dev/important-paths'' ''.''),
         sc_verification_profile =
           lookup_or annotations ''kuber.dev/verification-profile'' service_id,
         sc_labels = labels, sc_container_images = dp_images d, sc_kubernetes_usage = [],
         sc_dependencies = comma_list (lookup_or annotations ''kuber.dev/dependencies'' ''''),
         sc_last_indexed_commit = map_of annotations ''kuber.dev/commit-sha''\<rparr>)"

definition opted_in :: "deployment \<Rightarrow> bool" where
  "opted_in d \<longleftrightarrow> map_of (or_empty_dict (dp_annotations d)) ''kuber.dev/source-path'' \<noteq> None"

definition kubernetes_discover ::
  "(string \<Rightarrow> string) \<Rightarrow> (string \<Rightarrow> deployment list result) \<Rightarrow> string \<Rightarrow>
   service_context list result" where
  "kubernetes_discover locate list_deployments namespace =
     rbind (list_deployments namespace) (\<lambda>deployments.
     rbind (rmap (to_context locate namespace) (filter opted_in deployments)) (\<lambda>services.
     Inr (sort_key sc_service_id services)))"

section \<open>Files\<close>

type_synonym path = "string list"

text \<open>\<open>ft_join root text\<close> is \<open>(root / text).resolve()\<close>; \<open>ft_walk p\<close> lists what \<open>p.rglob("*")\<close>
  yields, relative to \<open>p\<close>; \<open>ft_file p\<close> is the content of a file, \<open>None\<close> if \<open>p\<close> is no file.\<close>

record file_tree =
  ft_resolve :: "string \<Rightarrow> path"
  ft_join :: "path \<Rightarrow> string \<Rightarrow> path"
  ft_is_dir :: "path \<Rightarrow> bool"
  ft_walk :: "path \<Rightarrow> path list"
  ft_file :: "path \<Rightarrow> string option"

definition relative_to :: "path \<Rightarrow> path \<Rightarrow> path option" where
  "relative_to p root =
     (if take (length root) p = root then Some (drop (length root) p) else None)"

definition ignored_parts :: "string list" where
  "ignored_parts =
     [''.git'', ''.mypy_cache'', ''.pytest_cache'', ''.ruff_cache'', ''.venv'', ''__pycache__'']"

definition entry_names :: "string list" where
  "entry_names = [''main.py'', ''app.py'', ''server.py'', ''Dockerfile'', ''pyproject.toml'']"

definition languages :: "(string \<times> string) list" where
  "languages =
     [(''.py'', ''Python''), (''.go'', ''Go''), (''.js'', ''JavaScript''), (''.ts'', ''TypeScript''),
      (''.java'', ''Java''), (''.yaml'', ''YAML''), (''.yml'', ''YAML'')]"

definition posix :: "path \<Rightarrow> string" where
  "posix p = (if p = [] then ''.'' else py_join ''/'' p)"

definition path_name :: "path \<Rightarrow> string" where
  "path_name p = (if p = [] then '''' else last p)"

text \<open>\<open>PurePath.suffix\<close>: from the last dot, unless that starts or ends the name.\<close>

definition path_suffix :: "path \<Rightarrow> string" where
  "path_suffix p =
     (let name = path_name p;
          after = takeWhile (\<lambda>c. c \<noteq> CHR ''.'') (rev name);
          stem = length name - length after - 1
      in if CHR ''.'' \<in> set name \<and> 0 < stem \<and> after \<noteq> [] then drop stem name else '''')"

definition lower_char :: "char \<Rightarrow> char" where
  "lower_char c =
     (let n = (of_char c :: nat) in if 65 \<le> n \<and> n \<le> 90 then char_of (n + 32) else c)"

definition lower_bytes :: "string \<Rightarrow> string" where
  "lower_bytes s = map lower_char s"

fun contains :: "string \<Rightarrow> string \<Rightarrow> bool" where
  "contains needle [] = (needle = [])"
| "contains needle (c # cs) =
     (take (length needle) (c # cs) = needle \<or> contains needle cs)"

definition selectable :: "file_tree \<Rightarrow> nat \<Rightarrow> path \<Rightarrow> bool" where
  "selectable ft maximum p \<longleftrightarrow>
     (case ft_file ft p of
        None \<Rightarrow> False
      | Some content \<Rightarrow> set p \<inter> set ignored_parts = {} \<and> length content \<le> maximum)"

definition candidate_files ::
  "file_tree \<Rightarrow> nat \<Rightarrow> path \<Rightarrow> string \<Rightarrow> path list result" where
  "candidate_files ft maximum root relative =
     (let candidate = ft_join ft root relative in
      if relative_to candidate root = None then
        Inl (ValueError (''important path escapes repository root: '' @ relative))
      else Inr (filter (selectable ft maximum)
        (if ft_is_dir ft candidate then map (\<lambda>sub. candidate @ sub) (ft_walk ft candidate)
         else [candidate])))"

definition resolve_files ::
  "file_tree \<Rightarrow> nat \<Rightarrow> path \<Rightarrow> string list \<Rightarrow> path list result" where
  "resolve_files ft maximum root important_paths =
     (if \<not> ft_is_dir ft root then
        Inl (FileNotFoundError (''service repository does not exist: '' @ ''/'' @ py_join ''/'' root))
      else rbind (rmap (candidate_files ft maximum root) important_paths) (\<lambda>selected.
        Inr (sort (remdups (concat selected)))))"

section \<open>Indexing\<close>

record index_result =
  ir_context :: indexed_context
  ir_reused :: bool

text \<open>What the loop reads of one file.\<close>

definition file_content :: "file_tree \<Rightarrow> path \<Rightarrow> string" where
  "file_content ft p = or_empty (ft_file ft p)"

definition relative_name :: "path \<Rightarrow> path \<Rightarrow> string" where
  "relative_name root p = posix (drop (length root) p)"

definition digest_input :: "file_tree \<Rightarrow> path \<Rightarrow> path list \<Rightarrow> string" where
  "digest_input ft root files =
     concat (map (\<lambda>p. utf8 (relative_name root p) @ [char_of (0 :: nat)] @ file_content ft p) files)"

definition uses_kubernetes :: "string \<Rightarrow> bool" where
  "uses_kubernetes content \<longleftrightarrow>
     (let lowered = lower_bytes content in
      contains ''kubernetes'' lowered \<or> contains ''kubectl'' lowered \<or>
      contains ''client-go'' lowered)"

text \<open>\<open>sorted(set(...))\<close>.\<close>

definition sorted_set :: "string list \<Rightarrow> string list" where
  "sorted_set xs = sort (remdups xs)"

definition indexed_of ::
  "file_tree \<Rightarrow> (string \<Rightarrow> string) \<Rightarrow> service_context \<Rightarrow> path \<Rightarrow> path list \<Rightarrow> indexed_context" where
  "indexed_of ft sha256 s root files =
     (let content_hash = sha256 (digest_input ft root files) in
      \<lparr>ix_context_ref = ''context://'' @ sc_service_id s @ ''/'' @ take 16 content_hash,
       ix_service_id = sc_service_id s, ix_content_hash = content_hash,
       ix_files = map (relative_name root) files,
       ix_bytes_loaded = int (sum_list (map (\<lambda>p. length (file_content ft p)) files)),
       ix_languages = sorted_set (filter (\<lambda>l. l \<noteq> '''')
         (map (\<lambda>p. or_empty (map_of languages (lower_bytes (path_suffix p)))) files)),
       ix_kubernetes_usage = sorted_set (sc_kubernetes_usage s @
         map (relative_name root) (filter (\<lambda>p. uses_kubernetes (file_content ft p)) files)),
       ix_dependencies = sorted_set (sc_dependencies s),
       ix_entry_points = sort (map (relative_name root)
         (filter (\<lambda>p. path_name p \<in> set entry_names) files))\<rparr>)"

definition index_service ::
  "(string \<Rightarrow> int result) \<Rightarrow> (string \<Rightarrow> pyval result) \<Rightarrow> file_tree \<Rightarrow> (string \<Rightarrow> string) \<Rightarrow> nat \<Rightarrow>
   string \<Rightarrow> service_context \<Rightarrow> context_row list \<Rightarrow> index_result result \<times> context_row list" where
  "index_service float_int loads ft sha256 maximum now s rows =
     (let root = ft_resolve ft (rp_local_path (sc_source_repository s)) in
      case resolve_files ft maximum root (sc_important_paths s) of
        Inl err \<Rightarrow> (Inl err, rows)
      | Inr files \<Rightarrow>
          let context = indexed_of ft sha256 s root files;
              fresh = (Inr \<lparr>ir_context = context, ir_reused = False\<rparr>, context_put now context rows)
          in (case context_latest float_int loads (sc_service_id s) rows of
                Inl err \<Rightarrow> (Inl err, rows)
              | Inr None \<Rightarrow> fresh
              | Inr (Some previous) \<Rightarrow>
                  if ix_content_hash previous = ix_content_hash context
                  then (Inr \<lparr>ir_context = previous, ir_reused = True\<rparr>, rows)
                  else fresh))"

section \<open>What is discovered and selected\<close>

lemma to_context_Inr:
  "\<exists>s. to_context locate namespace d = Inr s \<and> sc_namespace s = namespace \<and>
     sc_service_account s \<noteq> '''' \<and> sc_deployment_name s = dp_name d"
  by (cases "dp_service_account_name d") (auto simp: to_context_def Let_def check_context_def)

lemma py_split_join: "py_join [sep] (py_split sep s) = s \<and> py_split sep s \<noteq> []"
proof (induction s)
  case (Cons c cs)
  then show ?case
    by (cases "py_split sep cs"; cases "tl (py_split sep cs)") auto
qed simp

lemma py_split_no_sep: "w \<in> set (py_split sep s) \<Longrightarrow> sep \<notin> set w"
  by (induction s arbitrary: w) (auto split: if_splits list.splits)

lemma comma_list_nonempty: "v \<in> set (comma_list text) \<Longrightarrow> v \<noteq> ''''"
  by (auto simp: comma_list_def)

lemma relative_to_append [simp]: "relative_to (root @ sub) root = Some sub"
  by (simp add: relative_to_def)

lemma relative_to_Some_iff: "relative_to p root = Some sub \<longleftrightarrow> p = root @ sub"
  by (auto simp: relative_to_def) (metis append_take_drop_id)

lemma candidate_files_Inr:
  assumes "candidate_files ft maximum root relative = Inr ps" and "p \<in> set ps"
  shows "(\<exists>sub. p = root @ sub) \<and> selectable ft maximum p"
proof -
  obtain sub where "ft_join ft root relative = root @ sub"
    using assms(1) by (auto simp: candidate_files_def Let_def relative_to_Some_iff split: if_splits)
  with assms show ?thesis
    by (auto simp: candidate_files_def Let_def split: if_splits)
qed

lemma resolve_files_Inr:
  assumes "resolve_files ft maximum root paths = Inr files"
  shows "ft_is_dir ft root" and "sorted files" and "distinct files"
    and "p \<in> set files \<Longrightarrow> (\<exists>sub. p = root @ sub) \<and> selectable ft maximum p"
proof -
  obtain selected where sel: "rmap (candidate_files ft maximum root) paths = Inr selected"
    and dir: "ft_is_dir ft root" and files: "files = sort (remdups (concat selected))"
    using assms by (auto simp: resolve_files_def rbind_Inr_iff split: if_splits)
  show "ft_is_dir ft root" by (rule dir)
  show "sorted files" "distinct files" by (simp_all add: files)
  assume "p \<in> set files"
  then obtain ps where "ps \<in> set selected" "p \<in> set ps" by (auto simp: files)
  with sel show "(\<exists>sub. p = root @ sub) \<and> selectable ft maximum p"
    by (meson candidate_files_Inr rmap_Inr_set)
qed

section \<open>Reuse\<close>

lemma index_service_Inr:
  assumes "index_service float_int loads ft sha256 maximum now s rows = (Inr r, rows')"
  obtains files where
    "resolve_files ft maximum (ft_resolve ft (rp_local_path (sc_source_repository s)))
       (sc_important_paths s) = Inr files"
    "ix_content_hash (ir_context r) = sha256 (digest_input ft
       (ft_resolve ft (rp_local_path (sc_source_repository s))) files)"
    "\<not> ir_reused r \<longrightarrow> ir_context r = indexed_of ft sha256 s
       (ft_resolve ft (rp_local_path (sc_source_repository s))) files \<and>
       rows' = context_put now (ir_context r) rows"
    "ir_reused r \<longrightarrow> rows' = rows \<and>
       context_latest float_int loads (sc_service_id s) rows = Inr (Some (ir_context r))"
  using assms
  by (auto simp: index_service_def indexed_of_def Let_def
      split: sum.splits option.splits if_splits)

text \<open>Indexing a service again, with nothing of it changed, reuses the stored context and writes
  nothing. \<open>loads\<close> has to read back the record that was written.\<close>

lemma context_latest_put:
  assumes "\<And>r. r \<in> set rows \<Longrightarrow> cr_created_at r \<le> now"
    and "loads (json_compact (PDict (indexed_to_dict c))) = Inr (PDict d)"
    and "indexed_from_dict float_int d = Inr c"
  shows "context_latest float_int loads (ix_service_id c) (context_put now c rows) = Inr (Some c)"
  using assms(2,3) latest_row_put [OF assms(1), of rows c]
  by (simp add: context_latest_def read_context_def context_row_of_def loads_dict_def)

lemma index_service_again:
  assumes "index_service float_int loads ft sha256 maximum now s rows = (Inr r, rows')"
    and "\<And>row. row \<in> set rows \<Longrightarrow> cr_created_at row \<le> now"
    and "loads (json_compact (PDict (indexed_to_dict (ir_context r)))) = Inr (PDict d)"
    and "indexed_from_dict float_int d = Inr (ir_context r)"
  shows "index_service float_int loads ft sha256 maximum later s rows' =
    (Inr \<lparr>ir_context = ir_context r, ir_reused = True\<rparr>, rows')"
proof -
  let ?root = "ft_resolve ft (rp_local_path (sc_source_repository s))"
  from assms(1) obtain files where files: "resolve_files ft maximum ?root (sc_important_paths s) = Inr files"
    and hash: "ix_content_hash (ir_context r) = sha256 (digest_input ft ?root files)"
    and fresh: "\<not> ir_reused r \<longrightarrow> ir_context r = indexed_of ft sha256 s ?root files \<and>
       rows' = context_put now (ir_context r) rows"
    and again: "ir_reused r \<longrightarrow> rows' = rows \<and>
       context_latest float_int loads (sc_service_id s) rows = Inr (Some (ir_context r))"
    by (rule index_service_Inr)
  have "context_latest float_int loads (sc_service_id s) rows' = Inr (Some (ir_context r))"
  proof (cases "ir_reused r")
    case False
    with fresh have "ix_service_id (ir_context r) = sc_service_id s"
      by (simp add: indexed_of_def Let_def)
    with False fresh context_latest_put [of rows now loads "ir_context r" d float_int] assms(2-4)
    show ?thesis by simp
  qed (use again in simp)
  with files hash show ?thesis
    by (simp add: index_service_def Let_def) (simp add: indexed_of_def Let_def)
qed

end
