(* ===== verification/Judge_System.thy ===== *)
theory Judge_System
  imports Judge_Worker System_Safety Context_Index
begin

text \<open>
  The whole system as the judge runs it: the coordinator over a static discovery, the service
  registry, the indexer and the in-memory bus, with the workers of the judge. While the coordinator
  awaits a result the workers take turns; \<open>jc_worker\<close> tells whose turn it is. In a turn a worker
  serves one message to its end: that two workers are inside \<open>process\<close> at the same time is not
  modelled. An exception that leaves a worker's \<open>process\<close> ends that worker, and no other.
\<close>

record coordinator =
  co_worker :: "simulator services worker_state"
  co_stopped :: "string list"
  co_registry :: "service_row list"
  co_files :: file_system
  co_log :: "(string \<times> string) list"

record judge_config =
  jc_services :: "service_context list"
  jc_tree :: file_tree
  jc_sha256 :: "string \<Rightarrow> string"
  jc_maximum :: nat
  jc_now :: string
  jc_memory :: "simulator memory_config"
  jc_worker :: "coordinator \<Rightarrow> simulator services worker"
  jc_cluster :: string
  jc_turns :: nat
  jc_limit :: nat
  jc_report_directory :: "string option"

definition on_worker :: "(simulator services worker_state, 'a) op \<Rightarrow> (coordinator, 'a) op" where
  "on_worker m s = (case m (co_worker s) of (r, v) \<Rightarrow> (r, s\<lparr>co_worker := v\<rparr>))"

definition judge_index :: "judge_config \<Rightarrow> service_context \<Rightarrow> ('w services, indexed_context) op" where
  "judge_index jc svc s =
     (case index_service (mc_float_int (jc_memory jc)) (mc_loads (jc_memory jc)) (jc_tree jc)
             (jc_sha256 jc) (jc_maximum jc) (jc_now jc) svc (sv_contexts s) of
        (Inl err, rows) \<Rightarrow> (Inl err, s\<lparr>sv_contexts := rows\<rparr>)
      | (Inr r, rows) \<Rightarrow> (Inr (ir_context r), s\<lparr>sv_contexts := rows\<rparr>))"

definition judge_consume :: "string \<Rightarrow> string \<Rightarrow> string \<Rightarrow> event_bus \<Rightarrow> unit result \<times> event_bus" where
  "judge_consume topic consumer_group consumer_id bus =
     (if consumer_group = '''' \<or> consumer_id = '''' then
        (Inl (ValueError ''consumer_group and consumer_id must not be empty''), bus)
      else bus_subscribe topic consumer_group bus)"

definition bus_turn :: "string \<Rightarrow> string \<Rightarrow> string \<Rightarrow> event_bus \<Rightarrow> turn result \<times> event_bus" where
  "bus_turn topic consumer_group consumer_id bus =
     (case bus_next topic consumer_group consumer_id bus of (turn, bus') \<Rightarrow> (Inr turn, bus'))"

text \<open>A turn of a worker: one round of the loop of \<open>run\<close>. A worker whose task has ended with an
  exception takes no further turn; \<open>co_stopped\<close> holds their names.\<close>

definition worker_turn :: "judge_config \<Rightarrow> (coordinator, unit) op" where
  "worker_turn jc s =
     (let wk = jc_worker jc s in
      if wk_worker_id wk \<in> set (co_stopped s) then (Inr (), s)
      else case on_worker (run_one wk) s of
        (Inl _, s') \<Rightarrow> (Inr (), s'\<lparr>co_stopped := wk_worker_id wk # co_stopped s'\<rparr>)
      | (Inr _, s') \<Rightarrow> (Inr (), s'))"

fun await_message ::
  "judge_config \<Rightarrow> nat \<Rightarrow> string \<Rightarrow> string \<Rightarrow> string \<Rightarrow> (coordinator, consumed_event) op" where
  "await_message jc 0 topic consumer_group consumer_id = throw (TimeoutError '''')"
| "await_message jc (Suc k) topic consumer_group consumer_id =
     seq (on_worker (service (on_bus (bus_turn topic consumer_group consumer_id)))) (\<lambda>turn.
     case turn of
       Message m \<Rightarrow> ret m
     | Ends \<Rightarrow> throw (OtherError ''StopAsyncIteration'')
     | Waits \<Rightarrow> seq (worker_turn jc) (\<lambda>_. await_message jc k topic consumer_group consumer_id))"

definition judge_ports :: "judge_config \<Rightarrow> coordinator system_ports" where
  "judge_ports jc =
     \<lparr>sp_discover = (\<lambda>namespace. ret (static_discover (jc_services jc) namespace)),
      sp_registry_put = (\<lambda>service s. (Inr (), s\<lparr>co_registry := registry_put service (co_registry s)\<rparr>)),
      sp_index = (\<lambda>x. on_worker (service (judge_index jc x))),
      sp_publish = (\<lambda>t e k. on_worker (service (on_bus (bus_publish t e k)))),
      sp_consume = (\<lambda>t g c. on_worker (service (on_bus (judge_consume t g c)))),
      sp_next = (\<lambda>t g c. await_message jc (jc_turns jc) t g c),
      sp_acknowledge = (\<lambda>m. on_worker (service (on_bus (bus_acknowledge m)))),
      sp_identity = on_worker (service (draw_identity (jc_memory jc))),
      sp_verifier = None,
      sp_record = (\<lambda>action reason s. (Inr (), s\<lparr>co_log := co_log s @ [(action, reason)]\<rparr>)),
      sp_write_report = (\<lambda>path text s. (Inr (), s\<lparr>co_files := (co_files s)(path \<mapsto> text)\<rparr>)),
      sp_write_summary = ret None\<rparr>"

definition judge_system :: "judge_config \<Rightarrow> coordinator system_config" where
  "judge_system jc =
     \<lparr>sy_ports = judge_ports jc, sy_cluster = jc_cluster jc,
      sy_report_directory = jc_report_directory jc, sy_message_limit = jc_limit jc\<rparr>"

abbreviation requests_log :: "coordinator \<Rightarrow> string \<Rightarrow> published_event list" where
  "requests_log s \<equiv> eb_logs (sv_bus (wv_services (co_worker s)))"

lemma on_worker_eq_iff [op_simps]:
  "on_worker m s = (r, s') \<longleftrightarrow> (\<exists>v. m (co_worker s) = (r, v) \<and> s' = s\<lparr>co_worker := v\<rparr>)"
  by (auto simp: on_worker_def split: prod.splits)

lemma judge_ports_sel [simp]:
  "sp_publish (judge_ports jc) t e k = on_worker (service (on_bus (bus_publish t e k)))"
  "sp_identity (judge_ports jc) = on_worker (service (draw_identity (jc_memory jc)))"
  "sp_verifier (judge_ports jc) = None"
  by (simp_all add: judge_ports_def)

lemma judge_system_sel [simp]:
  "sy_ports (judge_system jc) = judge_ports jc"
  "sy_cluster (judge_system jc) = jc_cluster jc"
  by (simp_all add: judge_system_def)

interpretation judge_requests: request_log "judge_system jc" requests_log
proof unfold_locales
  fix t e k s p s'
  assume "sp_publish (sy_ports (judge_system jc)) t e k s = (Inr p, s')"
  then obtain bus where pub: "bus_publish t e k (sv_bus (wv_services (co_worker s))) = (Inr p, bus)"
    and s': "s' = s\<lparr>co_worker := (co_worker s)\<lparr>wv_services :=
      (wv_services (co_worker s))\<lparr>sv_bus := bus\<rparr>\<rparr>\<rparr>"
    by (auto simp: op_simps)
  have "pe_event p = e" "pe_key p = k"
    by (simp_all add: bus_publish_Inr(3) [OF pub])
  then show "pe_event p = e \<and> pe_key p = k \<and>
      requests_log s' = (requests_log s)(t := requests_log s t @ [p])"
    by (simp add: s' bus_publish_Inr(4) [OF pub])
next
  show "keeps requests_log (sp_identity (sy_ports (judge_system jc)))"
    by (auto simp: keeps_def on_worker_def service_def draw_identity_def)
qed

section \<open>A sample\<close>

definition sample_service :: service_context where
  "sample_service =
     \<lparr>sc_service_id = ''api'', sc_namespace = ''prod'', sc_workload_kind = ''Deployment'',
      sc_deployment_name = ''api'', sc_service_account = ''api'',
      sc_source_repository =
        \<lparr>rp_service_id = ''api'', rp_local_path = ''/srv/api'', rp_remote_url = None,
         rp_commit_sha = None\<rparr>,
      sc_important_paths = [''.''], sc_verification_profile = ''api'', sc_labels = [],
      sc_container_images = [], sc_kubernetes_usage = [], sc_dependencies = [],
      sc_last_indexed_commit = None\<rparr>"

definition sample_tree :: file_tree where
  "sample_tree =
     \<lparr>ft_resolve = (\<lambda>_. [''srv'', ''api'']), ft_join = (\<lambda>root _. root),
      ft_is_dir = (\<lambda>p. p = [''srv'', ''api'']),
      ft_walk = (\<lambda>_. [[''main.py''], [''.git'', ''HEAD'']]),
      ft_file = (\<lambda>p. if p = [''srv'', ''api'', ''main.py''] then Some ''import kubernetes''
                      else if p = [''srv'', ''api'', ''.git'', ''HEAD''] then Some ''ref'' else None)\<rparr>"

definition sample_draw :: "nat \<Rightarrow> string \<times> string" where
  "sample_draw n = (''id-'' @ nat_str n, ''1970-01-01T00:00:00+00:00'')"

text \<open>A decoder that knows the one record the sample stores.\<close>

definition sample_context :: indexed_context where
  "sample_context = indexed_of sample_tree (\<lambda>_. ''0123456789abcdef0123'') sample_service
     [''srv'', ''api''] [[''srv'', ''api'', ''main.py'']]"

definition sample_loads :: "string \<Rightarrow> pyval result" where
  "sample_loads text = Inr (PDict (indexed_to_dict sample_context))"

definition sample_memory :: "simulator memory_config" where
  "sample_memory =
     judge_memory [(''api'', sample_case)] ''0.01'' sample_draw sample_loads
       (\<lambda>_. Inl (ValueError ''not a number'')) (\<lambda>_ _. fresh_thread)"

definition sample_worker :: "simulator services worker" where
  "sample_worker = judge_worker sample_memory 5 36 ''worker-1'' ''kind-kuber'' 3"

definition sample_config :: judge_config where
  "sample_config =
     \<lparr>jc_services = [sample_service], jc_tree = sample_tree,
      jc_sha256 = (\<lambda>_. ''0123456789abcdef0123''), jc_maximum = 1000, jc_now = ''1970-01-01 00:00:00'',
      jc_memory = sample_memory, jc_worker = (\<lambda>_. sample_worker), jc_cluster = ''kind-kuber'', jc_turns = 3, jc_limit = 3,
      jc_report_directory = Some ''reports''\<rparr>"

definition sample_start :: coordinator where
  "sample_start =
     \<lparr>co_worker =
        \<lparr>wv_services =
           \<lparr>sv_bus = \<lparr>eb_partitions = 3, eb_logs = (\<lambda>_. []), eb_queues = [], eb_acknowledged = [],
                     eb_closed = False, eb_callbacks = []\<rparr>,
            sv_completed = (\<lambda>_. None), sv_contexts = [], sv_locked = [], sv_draws = 0,
            sv_cluster = new_simulator sample_case\<rparr>,
         wv_stats = new_stats, wv_environment = None\<rparr>,
      co_stopped = [], co_registry = [], co_files = (\<lambda>_. None), co_log = []\<rparr>"

definition fresh_system :: system_state where
  "fresh_system =
     \<lparr>ss_run_id = '''', ss_namespace = '''', ss_services = None, ss_contexts = None,
      ss_result_events = None, ss_expected_results = None, ss_system_passed = None,
      ss_report_path = None, ss_graph_node = ''''\<rparr>"



end
