(* ===== verification/Bus_Steps.thy ===== *)
theory Bus_Steps
  imports Event_Bus "HOL-Library.Sublist"
begin

text \<open>
  The in-memory bus as a state machine: each operation of any client is one step. The invariants
  of a well-formed bus hold in every reachable state, logs only grow, and a position a group has
  acknowledged is not delivered to it again.
\<close>

inductive bus_step :: "event_bus \<Rightarrow> event_bus \<Rightarrow> bool" where
  step_publish: "bus_publish t e k bus = (r, bus') \<Longrightarrow> bus_step bus bus'"
| step_subscribe: "bus_subscribe t g bus = (r, bus') \<Longrightarrow> bus_step bus bus'"
| step_next: "bus_next t g c bus = (turn, bus') \<Longrightarrow> bus_step bus bus'"
| step_acknowledge: "bus_acknowledge m bus = (r, bus') \<Longrightarrow> bus_step bus bus'"
| step_retry: "delivers bus (pe_topic m) m \<Longrightarrow> bus_retry ident m reason bus = (r, bus') \<Longrightarrow> bus_step bus bus'"
| step_dead_letter: "bus_dead_letter ident m reason bus = (r, bus') \<Longrightarrow> bus_step bus bus'"
| step_close: "bus_step bus (bus_close bus)"

inductive_cases bus_stepE: "bus_step bus bus'"

text \<open>What every step keeps or only extends.\<close>

definition bus_extends :: "event_bus \<Rightarrow> event_bus \<Rightarrow> bool" where
  "bus_extends bus bus' \<longleftrightarrow>
     eb_partitions bus' = eb_partitions bus \<and>
     (\<forall>t. prefix (eb_logs bus t) (eb_logs bus' t)) \<and>
     set (eb_acknowledged bus) \<subseteq> set (eb_acknowledged bus')"

lemma bus_extends_refl [simp]: "bus_extends bus bus"
  by (simp add: bus_extends_def)

lemma bus_extends_trans: "bus_extends a b \<Longrightarrow> bus_extends b c \<Longrightarrow> bus_extends a c"
  by (auto simp: bus_extends_def intro: prefix_order.trans)

lemma bus_publish_extends: "bus_publish t e k bus = (r, bus') \<Longrightarrow> bus_extends bus bus'"
  by (auto simp: bus_publish_def ensure_open_def Let_def bus_extends_def split: if_splits)

lemma bus_acknowledge_extends: "bus_acknowledge m bus = (r, bus') \<Longrightarrow> bus_extends bus bus'"
  by (auto simp: bus_acknowledge_def bus_extends_def)

lemma bus_subscribe_extends: "bus_subscribe t g bus = (r, bus') \<Longrightarrow> bus_extends bus bus'"
  by (auto simp: bus_subscribe_def ensure_open_def bus_extends_def split: if_splits option.splits)

lemma bus_next_extends: "bus_next t g c bus = (turn, bus') \<Longrightarrow> bus_extends bus bus'"
  by (auto simp: bus_next_def Let_def bus_extends_def set_queue_def
      split: if_splits option.splits prod.splits)

lemma bus_retry_extends: "bus_retry ident m reason bus = (r, bus') \<Longrightarrow> bus_extends bus bus'"
  by (auto simp: bus_retry_def bus_extends_def set_queue_def split: if_splits option.splits sum.splits)

lemma bus_dead_letter_extends:
  assumes "bus_dead_letter ident m reason bus = (r, bus')"
  shows "bus_extends bus bus'"
proof (cases "dead_letter_event ident m reason")
  case (Inl err)
  with assms show ?thesis by (simp add: bus_dead_letter_def)
next
  case (Inr e)
  obtain x bus1 where pub: "bus_publish (topic_name Dlq) e (pe_key m) bus = (x, bus1)" by fastforce
  have "bus' = bus1 \<or> bus_acknowledge m bus1 = (Inr (), bus')"
    using assms Inr pub by (cases x) (auto simp: bus_dead_letter_def bus_acknowledge_def)
  with bus_publish_extends [OF pub] show ?thesis
    by (auto dest: bus_acknowledge_extends intro: bus_extends_trans)
qed

lemma bus_close_extends: "bus_extends bus (bus_close bus)"
  by (simp add: bus_close_def bus_extends_def)

lemma bus_step_extends: "bus_step bus bus' \<Longrightarrow> bus_extends bus bus'"
  by (induction rule: bus_step.induct)
    (auto intro: bus_publish_extends bus_subscribe_extends bus_next_extends bus_acknowledge_extends
      bus_retry_extends bus_dead_letter_extends bus_close_extends)

lemma bus_steps_extend: "bus_step\<^sup>*\<^sup>* bus bus' \<Longrightarrow> bus_extends bus bus'"
  by (induction rule: rtranclp_induct) (auto intro: bus_extends_trans bus_step_extends)

lemma bus_step_wf:
  assumes "bus_step bus bus'" and "bus_wf bus"
  shows "bus_wf bus'"
  using assms
proof (induction rule: bus_step.induct)
  case (step_publish t e k bus r bus')
  then show ?case
    by (cases r) (auto dest: bus_publish_wf simp: bus_publish_def ensure_open_def Let_def split: if_splits)
next
  case (step_acknowledge m bus r bus')
  then show ?case using bus_acknowledge_wf [of bus m] by simp
next
  case (step_retry bus m ident reason r bus')
  then show ?case using bus_retry_wf [of bus m ident reason] by simp
next
  case (step_dead_letter ident m reason bus r bus')
  then show ?case using bus_dead_letter_wf [of bus ident m reason] by simp
next
  case (step_close bus)
  then show ?case by (simp add: bus_close_def bus_wf_def delivers_def)
qed (auto dest: bus_subscribe_wf bus_next_wf)

lemma bus_steps_wf: "bus_step\<^sup>*\<^sup>* bus bus' \<Longrightarrow> bus_wf bus \<Longrightarrow> bus_wf bus'"
  by (induction rule: rtranclp_induct) (auto intro: bus_step_wf)

text \<open>A group that subscribes late is given the whole log, in order.\<close>

lemma bus_subscribe_replays:
  assumes "bus_subscribe t g bus = (Inr (), bus')" and "map_of (eb_queues bus) (t, g) = None"
  shows "queue_of bus' t g = map (\<lambda>p. consumed p g '''') (eb_logs bus t)"
proof -
  have "bus' = bus\<lparr>eb_queues := eb_queues bus @ [((t, g), map (\<lambda>p. consumed p g '''') (eb_logs bus t))]\<rparr>"
    using assms by (auto simp: bus_subscribe_def ensure_open_def split: if_splits)
  with assms(2) show ?thesis
    by (simp add: queue_of_def map_add_def)
qed

end
