(* ===== verification/Service_Properties.thy ===== *)
theory Service_Properties
  imports Worker_Redelivery Judge_System Bus_Steps
begin

text \<open>
  Properties of the services around the workload graph: envelopes and the bus, the worker, the
  coordinator, the context layer and the evaluation, each with a witness on concrete data.
\<close>

section \<open>Sample messages\<close>

definition sample_envelope :: event_envelope where
  "sample_envelope =
     \<lparr>en_event_type = Workload_Optimization_Requested, en_run_id = ''run-1'',
      en_correlation_id = ''run-1'', en_payload = task_payload ''run-1'' sample_service sample_context,
      en_event_id = ''id-0'', en_timestamp = ''1970-01-01T00:00:00+00:00'', en_causation_id = None,
      en_attempt = 0, en_schema_version = ''1''\<rparr>"

definition sample_message :: consumed_event where
  "sample_message =
     \<lparr>pe_topic = ''kuber.workload.optimization.requests'', pe_key = ''kind-kuber:prod:api'',
      pe_partition = 0, pe_offset = 0, pe_event = sample_envelope,
      ce_consumer_group = ''kuber-optimization-workers'', ce_consumer_id = ''worker-1'',
      ce_delivery_count = 1\<rparr>"

definition sample_state :: "simulator services worker_state" where
  "sample_state =
     (co_worker sample_start)\<lparr>wv_services := (wv_services (co_worker sample_start))
        \<lparr>sv_contexts := [context_row_of ''1970-01-01 00:00:00'' sample_context]\<rparr>\<rparr>"

lemma sample_context_sel:
  "ix_service_id sample_context = ''api''"
  "ix_context_ref sample_context = ''context://api/0123456789abcdef''"
  by (simp_all add: sample_context_def indexed_of_def sample_service_def Let_def)

lemma sample_servable:
  "servable sample_memory [(''api'', sample_case)] ''kind-kuber'' (wv_services sample_state)
     sample_message sample_case"
proof -
  have "indexed_from_dict f (indexed_to_dict sample_context) = Inr sample_context" for f
    by (rule indexed_from_to_dict)
  then have "context_get (mc_float_int sample_memory) (mc_loads sample_memory)
      ''context://api/0123456789abcdef'' (sv_contexts (wv_services sample_state)) = Inr (Some sample_context)"
    by (simp add: context_get_def sample_state_def find_row_def context_row_of_def sample_context_sel
        read_context_def loads_dict_def sample_memory_def judge_memory_def sample_loads_def)
  then show ?thesis
    by (simp add: servable_def Let_def sample_message_def sample_envelope_def task_payload_def
        sample_context_sel sample_service_def envelope_wf_def workload_lock_key_def sample_state_def
        sample_start_def sample_memory_def judge_memory_def sample_draw_def)
qed

lemma sample_process_completes:
  obtains v' where "process sample_worker sample_message sample_state = (Inr (), v')"
    "wt_completed (wv_stats v') = Suc (wt_completed (wv_stats sample_state))"
proof -
  have mc: "sample_memory = judge_memory [(''api'', sample_case)] ''0.01'' sample_draw sample_loads
      (\<lambda>_. Inl (ValueError ''not a number'')) (\<lambda>_ _. fresh_thread)"
    by (simp add: sample_memory_def)
  show thesis
    using judge_process_completes [OF mc sample_servable sample_case_allowed, of 5 36 "''worker-1''" 3] that
    by (auto simp: sample_worker_def)
qed

section \<open>The worker\<close>

text \<open>
  C8: The outcome of a message. When the judge's worker has processed a message, exactly one kind
  of outcome is counted and the shared record shows it: its result is stored, published and the
  message acknowledged; a stored result is published again; the message is queued again with the
  next attempt, below the limit; or it is dead-lettered and acknowledged. A message is never lost,
  and no other position is ever acknowledged.
\<close>

theorem worker_settles:
  assumes "process (judge_worker (judge_memory cases elapsed draw loads float_int prior) m l i cluster n)
      msg v = (Inr (), v')"
  shows "settled n msg (memory_queue (wv_services v') (pe_topic msg) (ce_consumer_group msg))
      (memory_ledger (wv_services v)) (memory_ledger (wv_services v'))
      (wt_claimed_update Suc (wv_stats v)) (wv_stats v') \<and>
    (own_key msg \<in> set (eb_acknowledged (sv_bus (wv_services v'))) \<or>
      (\<exists>m' \<in> set (memory_queue (wv_services v') (pe_topic msg) (ce_consumer_group msg)).
         redelivery_of msg m')) \<and>
    set (eb_acknowledged (sv_bus (wv_services v'))) \<subseteq>
      insert (own_key msg) (set (eb_acknowledged (sv_bus (wv_services v))))"
proof -
  have s: "settled n msg (memory_queue (wv_services v') (pe_topic msg) (ce_consumer_group msg))
      (memory_ledger (wv_services v)) (memory_ledger (wv_services v'))
      (wt_claimed_update Suc (wv_stats v)) (wv_stats v')"
    using judge.process_settles [OF assms] by simp
  from settled_never_lost [OF s] settled_acknowledges [OF s] s show ?thesis
    by (auto simp: memory_ledger_def)
qed

theorem worker_settles_witness:
  "\<exists>v'. process sample_worker sample_message sample_state = (Inr (), v') \<and>
     set (eb_acknowledged (sv_bus (wv_services v'))) \<subseteq> {own_key sample_message}"
proof -
  obtain v' where run: "process sample_worker sample_message sample_state = (Inr (), v')"
    by (rule sample_process_completes)
  have "eb_acknowledged (sv_bus (wv_services sample_state)) = []"
    by (simp add: sample_state_def sample_start_def)
  with run worker_settles [OF run [unfolded sample_worker_def sample_memory_def]] show ?thesis by auto
qed

text \<open>
  C9: What a message does to the cluster. If the worker counts a completion, the last published
  result reports the policy in force: it is accepted and grants no more than the original, or
  rejected and the original is in force, and its risk and permission count are those of that
  policy. Otherwise the cluster is untouched or the original policy is back in force.
\<close>

theorem worker_leaves_safe_policy:
  assumes "process (judge_worker (judge_memory cases elapsed draw loads float_int prior) m l i cluster n)
      msg v = (Inr (), v')"
  shows "if wt_completed (wv_stats v') = wt_completed (wv_stats v)
    then (in_force (wv_services v'), original (wv_services v')) =
           (in_force (wv_services v), original (wv_services v)) \<or>
         in_force (wv_services v') = original (wv_services v')
    else \<exists>before p. eb_logs (sv_bus (wv_services v')) (topic_name Optimization_Results) = before @ [p] \<and>
           reports (in_force (wv_services v')) (original (wv_services v')) p"
  using judge_cluster.process_is_safe [OF assms]
  unfolding judge_cluster.process_safe_def judge_cluster.cluster_safe_def
  by (simp add: memory_ledger_def del: topic_name.simps split del: if_split cong: if_cong)

theorem worker_leaves_safe_policy_witness:
  "\<exists>v' before p. process sample_worker sample_message sample_state = (Inr (), v') \<and>
     eb_logs (sv_bus (wv_services v')) (topic_name Optimization_Results) = before @ [p] \<and>
     reports (in_force (wv_services v')) (original (wv_services v')) p"
proof -
  obtain v' where run: "process sample_worker sample_message sample_state = (Inr (), v')"
    and done1: "wt_completed (wv_stats v') = Suc (wt_completed (wv_stats sample_state))"
    by (rule sample_process_completes)
  from worker_leaves_safe_policy [OF run [unfolded sample_worker_def sample_memory_def]] done1 run
  show ?thesis by (simp del: topic_name.simps)
qed

text \<open>
  Progress of the worker. A valid request for a stored context, with no result yet, over an
  open bus is completed if the initial policy of its case allows what the case observes and tests,
  one repair is permitted and the recursion limit covers the longest run.
\<close>

theorem worker_completes:
  assumes "servable (judge_memory cases elapsed draw loads float_int prior) cases cluster (wv_services v) msg c"
    and "all_allowed (case_event c) (bc_initial_policy c)" and "1 \<le> m" and "11 + 5 * m \<le> l"
  shows "\<exists>v'. process (judge_worker (judge_memory cases elapsed draw loads float_int prior) m l i cluster n)
      msg v = (Inr (), v') \<and>
    wt_completed (wv_stats v') = Suc (wt_completed (wv_stats v))"
  by (rule judge_process_completes [OF refl assms])

theorem worker_completes_witness:
  "\<exists>v'. process sample_worker sample_message sample_state = (Inr (), v') \<and>
     wt_completed (wv_stats v') = Suc (wt_completed (wv_stats sample_state))"
  unfolding sample_worker_def sample_memory_def
  by (rule worker_completes [OF sample_servable [unfolded sample_memory_def] sample_case_allowed])
    simp_all

text \<open>
  Answering from the store. A valid request whose task has a stored result is answered with
  that result, published once more, and the cluster is not touched.
\<close>

theorem stored_result_is_republished:
  assumes "en_event_type (pe_event msg) = Workload_Optimization_Requested" and "envelope_wf (pe_event msg)"
    and "req_text (en_payload (pe_event msg)) ''task_id'' = Inr task" and "task \<noteq> ''''"
    and "req_text (en_payload (pe_event msg)) ''workload_id'' = Inr w" and "w \<noteq> ''''"
    and "req_text (en_payload (pe_event msg)) ''namespace'' = Inr ns" and "ns \<noteq> ''''"
    and "req_text (en_payload (pe_event msg)) ''context_ref'' = Inr ref" and "ref \<noteq> ''''"
    and "context_get (mc_float_int mc) (mc_loads mc) ref (sv_contexts (wv_services v)) = Inr (Some ctx)"
    and "ix_service_id ctx = w" and "sv_completed (wv_services v) task = Some payload"
    and "\<And>k. fst (mc_draw mc k) \<noteq> ''''" and "pe_key msg \<noteq> ''''" and "\<not> eb_closed (sv_bus (wv_services v))"
  shows "\<exists>v' p. process (judge_worker mc m l i cluster n) msg v = (Inr (), v') \<and>
    sv_cluster (wv_services v') = sv_cluster (wv_services v) \<and>
    eb_logs (sv_bus (wv_services v')) (topic_name Optimization_Results) =
      eb_logs (sv_bus (wv_services v)) (topic_name Optimization_Results) @ [p] \<and>
    en_event_type (pe_event p) = Workload_Optimization_Completed \<and> en_payload (pe_event p) = payload"
  using answered_from_store [OF assms(1,3-13,2,14-16)] .

lemma sample_lookup:
  "context_get (mc_float_int sample_memory) (mc_loads sample_memory)
     ''context://api/0123456789abcdef'' (sv_contexts (wv_services sample_state)) = Inr (Some sample_context)"
  using indexed_from_to_dict [of "mc_float_int sample_memory" sample_context]
  by (simp add: context_get_def sample_state_def find_row_def context_row_of_def sample_context_sel
      read_context_def loads_dict_def sample_memory_def judge_memory_def sample_loads_def)

definition answered_state :: "simulator services worker_state" where
  "answered_state = sample_state\<lparr>wv_services := (wv_services sample_state)
     \<lparr>sv_completed := (\<lambda>_. Some [(''accepted'', PBool True)])\<rparr>\<rparr>"

theorem stored_result_is_republished_witness:
  "\<exists>v' p. process sample_worker sample_message answered_state = (Inr (), v') \<and>
     sv_cluster (wv_services v') = new_simulator sample_case \<and>
     eb_logs (sv_bus (wv_services v')) (topic_name Optimization_Results) = [p] \<and>
     en_payload (pe_event p) = [(''accepted'', PBool True)]"
proof -
  have "\<exists>v' p. process sample_worker sample_message answered_state = (Inr (), v') \<and>
    sv_cluster (wv_services v') = sv_cluster (wv_services answered_state) \<and>
    eb_logs (sv_bus (wv_services v')) (topic_name Optimization_Results) =
      eb_logs (sv_bus (wv_services answered_state)) (topic_name Optimization_Results) @ [p] \<and>
    en_event_type (pe_event p) = Workload_Optimization_Completed \<and>
    en_payload (pe_event p) = [(''accepted'', PBool True)]"
    unfolding sample_worker_def
    by (rule stored_result_is_republished [where task = "''run-1:api''" and w = "''api''" and ns = "''prod''"
          and ref = "''context://api/0123456789abcdef''" and ctx = sample_context])
      (use sample_lookup in \<open>simp_all add: answered_state_def sample_message_def sample_envelope_def
        task_payload_def sample_service_def sample_context_sel envelope_wf_def sample_memory_def
        judge_memory_def sample_draw_def sample_state_def sample_start_def\<close>)
  then show ?thesis
    by (auto simp: answered_state_def sample_state_def sample_start_def simp del: topic_name.simps)
qed

text \<open>
  C18: A failed publication. If the results topic is unavailable when a task has been optimised, the
  worker restores the original policy and queues the task again with its next attempt, yet the
  accepted result stays in the deduplication store. As long as that result and the stored contexts are
  there and the bus is open, whatever else has happened, delivering the retried task to a worker with a
  broker publishes the stored result and leaves the cluster as it is: the task is reported as
  accepted although the original policy is in force.
\<close>

theorem failed_publication_leaves_result:
  assumes "servable (judge_memory cases elapsed draw loads float_int prior) cases cluster (wv_services v) msg c"
    and "all_allowed (case_event c) (bc_initial_policy c)" and "1 \<le> m" and "11 + 5 * m \<le> l"
    and "en_attempt (pe_event msg) + 1 < n"
    and "map_of (eb_queues (sv_bus (wv_services v))) (pe_topic msg, ce_consumer_group msg) = Some q"
    and "req_text (en_payload (pe_event msg)) ''task_id'' = Inr task"
  shows "\<exists>v' payload m'. process (publishing unavailable
      (judge_worker (judge_memory cases elapsed draw loads float_int prior) m l i cluster n)) msg v = (Inr (), v') \<and>
    in_force (wv_services v') = original (wv_services v') \<and>
    sv_completed (wv_services v') task = Some payload \<and> dget payload ''accepted'' = PBool True \<and>
    queue_of (sv_bus (wv_services v')) (pe_topic msg) (ce_consumer_group msg) = q @ [m'] \<and>
    redelivery_of msg m' \<and>
    (sv_contexts (wv_services v') = sv_contexts (wv_services v) \<and> \<not> eb_closed (sv_bus (wv_services v'))) \<and>
    (\<forall>u j. sv_completed (wv_services u) task = Some payload \<and>
        sv_contexts (wv_services u) = sv_contexts (wv_services v) \<and> \<not> eb_closed (sv_bus (wv_services u)) \<longrightarrow>
      (\<exists>u' p. process (judge_worker (judge_memory cases elapsed draw loads float_int prior) m l j cluster n) m' u =
          (Inr (), u') \<and> sv_cluster (wv_services u') = sv_cluster (wv_services u) \<and>
        eb_logs (sv_bus (wv_services u')) (topic_name Optimization_Results) =
          eb_logs (sv_bus (wv_services u)) (topic_name Optimization_Results) @ [p] \<and>
        en_event_type (pe_event p) = Workload_Optimization_Completed \<and> en_payload (pe_event p) = payload))"
proof -
  obtain v' payload m' where first: "process (publishing unavailable
      (judge_worker (judge_memory cases elapsed draw loads float_int prior) m l i cluster n)) msg v = (Inr (), v')"
    "in_force (wv_services v') = original (wv_services v')" "sv_completed (wv_services v') task = Some payload"
    "dget payload ''accepted'' = PBool True" "sv_contexts (wv_services v') = sv_contexts (wv_services v)"
    "\<not> eb_closed (sv_bus (wv_services v'))"
    "queue_of (sv_bus (wv_services v')) (pe_topic msg) (ce_consumer_group msg) = q @ [m']"
    and again: "redelivery_of msg m'" "pe_key m' = pe_key msg" "envelope_wf (pe_event m')"
    using failed_publication [OF refl assms] by metis
  with redelivery_answered [OF refl assms(1,7) again] show ?thesis by blast
qed

definition subscribed_state :: "simulator services worker_state" where
  "subscribed_state = sample_state\<lparr>wv_services := (wv_services sample_state)
     \<lparr>sv_bus := (sv_bus (wv_services sample_state))\<lparr>eb_queues :=
        [((''kuber.workload.optimization.requests'', ''kuber-optimization-workers''), [])]\<rparr>\<rparr>\<rparr>"

theorem failed_publication_leaves_result_witness:
  "\<exists>v' m' u' p. process (publishing unavailable sample_worker) sample_message subscribed_state = (Inr (), v') \<and>
     redelivery_of sample_message m' \<and> process sample_worker m' v' = (Inr (), u') \<and>
     in_force (wv_services u') = original (wv_services u') \<and>
     eb_logs (sv_bus (wv_services u')) (topic_name Optimization_Results) =
       eb_logs (sv_bus (wv_services v')) (topic_name Optimization_Results) @ [p] \<and>
     dget (en_payload (pe_event p)) ''accepted'' = PBool True"
proof -
  have serv: "servable sample_memory [(''api'', sample_case)] ''kind-kuber'' (wv_services subscribed_state)
      sample_message sample_case"
    using sample_servable by (simp add: servable_def Let_def subscribed_state_def)
  have queued: "map_of (eb_queues (sv_bus (wv_services subscribed_state)))
      (pe_topic sample_message, ce_consumer_group sample_message) = Some []"
    and task: "req_text (en_payload (pe_event sample_message)) ''task_id'' = Inr ''run-1:api''"
    and attempt: "en_attempt (pe_event sample_message) + 1 < 3"
    by (simp_all add: sample_message_def sample_envelope_def subscribed_state_def task_payload_def sample_service_def)
  from failed_publication_leaves_result [OF serv [unfolded sample_memory_def] sample_case_allowed _ _ attempt queued task,
      of 5 36 "''worker-1''"]
  obtain v' payload m' where first: "process (publishing unavailable sample_worker) sample_message subscribed_state = (Inr (), v')"
    "in_force (wv_services v') = original (wv_services v')" "sv_completed (wv_services v') ''run-1:api'' = Some payload"
    "dget payload ''accepted'' = PBool True" "redelivery_of sample_message m'"
    "sv_contexts (wv_services v') = sv_contexts (wv_services subscribed_state)" "\<not> eb_closed (sv_bus (wv_services v'))"
    and later: "\<And>u. sv_completed (wv_services u) ''run-1:api'' = Some payload \<and>
        sv_contexts (wv_services u) = sv_contexts (wv_services subscribed_state) \<and> \<not> eb_closed (sv_bus (wv_services u)) \<Longrightarrow>
      \<exists>u' p. process sample_worker m' u = (Inr (), u') \<and> sv_cluster (wv_services u') = sv_cluster (wv_services u) \<and>
        eb_logs (sv_bus (wv_services u')) (topic_name Optimization_Results) =
          eb_logs (sv_bus (wv_services u)) (topic_name Optimization_Results) @ [p] \<and>
        en_event_type (pe_event p) = Workload_Optimization_Completed \<and> en_payload (pe_event p) = payload"
    unfolding sample_worker_def sample_memory_def by (simp del: topic_name.simps) metis
  from later [of v'] first show ?thesis by (metis (no_types, lifting))
qed

text \<open>
  Lock keys. Two tasks share a lock only if cluster, namespace and workload are the same.
\<close>

theorem lock_keys_distinct:
  assumes "workload_lock_key c n w = Inr key" and "workload_lock_key c' n' w' = Inr key"
  shows "c = c' \<and> n = n' \<and> w = w'"
  using assms by (rule lock_key_inject)

theorem lock_keys_distinct_witness:
  "workload_lock_key ''kind'' ''prod'' ''api'' = Inr ''kind:prod:api'' \<and>
   workload_lock_key ''kind'' ''prod'' ''db'' \<noteq> Inr ''kind:prod:api''"
proof -
  have key: "workload_lock_key ''kind'' ''prod'' ''api'' = Inr ''kind:prod:api''"
    by (simp add: workload_lock_key_def)
  then show ?thesis using lock_keys_distinct [OF key, of "''kind''" "''prod''" "''db''"] by auto
qed

section \<open>Envelopes and the bus\<close>

text \<open>
  An envelope is read back from its dictionary as it was.
\<close>

theorem envelope_dict_roundtrip:
  assumes "envelope_wf e" and "en_causation_id e \<noteq> Some ''''"
  shows "envelope_from_dict float_int (envelope_to_dict e) = Inr e"
  using assms by (rule envelope_roundtrip)

theorem envelope_dict_roundtrip_witness:
  "envelope_from_dict (\<lambda>_. Inr 0) (envelope_to_dict sample_envelope) = Inr sample_envelope"
  by (rule envelope_dict_roundtrip) (simp_all add: sample_envelope_def envelope_wf_def)

text \<open>
  C29: Invariant of the bus. In every state the bus can reach, each topic's log holds events of the
  topic on the partition of their key, the offsets of each partition count up from zero in order of
  publication, so that partition and offset identify an event, and every queued message is the
  delivery of a logged event with its payload.
\<close>

theorem bus_invariant:
  assumes "new_bus n = Inr bus0" and "bus_step\<^sup>*\<^sup>* bus0 bus"
  shows "(\<forall>topic. log_wf (eb_partitions bus) topic (eb_logs bus topic) \<and>
      distinct (map (\<lambda>p. (pe_partition p, pe_offset p)) (eb_logs bus topic))) \<and>
    (\<forall>topic g. \<forall>m \<in> set (queue_of bus topic g). delivers bus topic m)"
proof -
  have wf: "bus_wf bus" using assms new_bus_wf bus_steps_wf by blast
  then have "log_wf (eb_partitions bus) topic (eb_logs bus topic)" for topic
    by (simp add: bus_wf_def)
  with wf show ?thesis by (blast intro: log_positions_distinct queue_delivers)
qed

definition published_once :: event_bus where
  "published_once = snd (bus_publish ''topic'' sample_envelope ''key''
     \<lparr>eb_partitions = 3, eb_logs = (\<lambda>_. []), eb_queues = [], eb_acknowledged = [],
      eb_closed = False, eb_callbacks = []\<rparr>)"

theorem bus_invariant_witness:
  "log_wf 3 ''topic'' (eb_logs published_once ''topic'') \<and> length (eb_logs published_once ''topic'') = 1"
proof -
  let ?bus0 = "\<lparr>eb_partitions = 3, eb_logs = (\<lambda>_. []), eb_queues = [], eb_acknowledged = [],
      eb_closed = False, eb_callbacks = []\<rparr>"
  have new: "new_bus 3 = Inr ?bus0" by (simp add: new_bus_def)
  obtain r where pub: "bus_publish ''topic'' sample_envelope ''key'' ?bus0 = (r, published_once)"
    unfolding published_once_def by (metis prod.collapse)
  have "bus_step\<^sup>*\<^sup>* ?bus0 published_once" using step_publish [OF pub] by blast
  from bus_invariant [OF new this] have "log_wf (eb_partitions published_once) ''topic''
      (eb_logs published_once ''topic'')" by blast
  then show ?thesis by (simp add: published_once_def bus_publish_def ensure_open_def Let_def)
qed

text \<open>
  C14: Acknowledged positions. Whatever any clients do in between, a group is never again delivered
  a position it has acknowledged; and no log loses or reorders an event.
\<close>

theorem acknowledged_never_redelivered:
  assumes "bus_wf bus" and "own_key a \<in> set (eb_acknowledged bus)"
    and "bus_step\<^sup>*\<^sup>* bus bus'" and "bus_next t (ce_consumer_group a) c bus' = (Message m, bus'')"
  shows "own_key m \<noteq> own_key a \<and> (\<forall>topic. prefix (eb_logs bus topic) (eb_logs bus' topic))"
proof -
  have ext: "bus_extends bus bus'" by (rule bus_steps_extend [OF assms(3)])
  then have "own_key a \<in> set (eb_acknowledged bus')" using assms(2) by (auto simp: bus_extends_def)
  moreover note bus_next_message [OF bus_steps_wf [OF assms(3,1)] assms(4)]
  ultimately show ?thesis using ext by (auto simp: own_key_def bus_extends_def)
qed

definition acknowledged_bus :: event_bus where
  "acknowledged_bus = snd (bus_acknowledge sample_message (sv_bus (wv_services sample_state)))"

theorem acknowledged_never_redelivered_witness:
  "\<exists>m bus''. bus_next ''other'' ''kuber-optimization-workers'' ''c''
      (snd (bus_subscribe ''other'' ''kuber-optimization-workers''
        (snd (bus_publish ''other'' sample_envelope ''key'' acknowledged_bus)))) = (Message m, bus'') \<and>
     own_key m \<noteq> own_key sample_message"
proof -
  let ?g = "''kuber-optimization-workers''"
  let ?b1 = "snd (bus_publish ''other'' sample_envelope ''key'' acknowledged_bus)"
  let ?b2 = "snd (bus_subscribe ''other'' ?g ?b1)"
  have start: "bus_wf (sv_bus (wv_services sample_state))"
    by (simp add: bus_wf_def log_wf_def sample_state_def sample_start_def)
  have wf: "bus_wf acknowledged_bus" unfolding acknowledged_bus_def by (rule bus_acknowledge_wf [OF start])
  have acked: "own_key sample_message \<in> set (eb_acknowledged acknowledged_bus)"
    by (simp add: acknowledged_bus_def bus_acknowledge_def own_key_def)
  have "bus_step acknowledged_bus ?b1" by (rule step_publish) (rule prod.collapse [symmetric])
  moreover have "bus_step ?b1 ?b2" by (rule step_subscribe) (rule prod.collapse [symmetric])
  ultimately have steps: "bus_step\<^sup>*\<^sup>* acknowledged_bus ?b2" by auto
  have "\<exists>m bus''. bus_next ''other'' ?g ''c'' ?b2 = (Message m, bus'')"
    by (simp add: bus_next_def bus_subscribe_def bus_publish_def ensure_open_def Let_def queue_of_def
        acknowledged_bus_def bus_acknowledge_def sample_state_def sample_start_def enqueue_topic_def
        ack_key_of_def consumed_def sample_message_def)
  then obtain m bus'' where next1: "bus_next ''other'' ?g ''c'' ?b2 = (Message m, bus'')" by blast
  have g: "ce_consumer_group sample_message = ?g" by (simp add: sample_message_def)
  from acknowledged_never_redelivered [OF wf acked steps, of "''other''" "''c''" m bus''] next1
  show ?thesis unfolding g by blast
qed

section \<open>The coordinator\<close>

text \<open>
  C13: What a passed system means. A run that returns has as many results as discovered services,
  all of this run; if the system passed, every result was accepted and the end-to-end verifier,
  if there is one, returned true.
\<close>

theorem system_pass_means:
  assumes "run_system cfg prior namespace run_id uuid s = (Inr r, s')"
  shows "length (sr_results r) = length (sr_services r) \<and>
    (\<forall>e \<in> set (sr_results r). en_run_id e = sr_run_id r) \<and>
    (sr_system_passed r \<longrightarrow> (\<forall>e \<in> set (sr_results r). result_accepted e) \<and>
      (\<forall>verifier. sp_verifier (sy_ports cfg) = Some verifier \<longrightarrow> (\<exists>u u'. verifier u = (Inr True, u'))))"
  using run_system_Inr [OF assms] by (auto simp: system_verified_def)

text \<open>A coordinator whose results are given in advance, as a list of messages.\<close>

definition canned_ports :: "service_context list \<Rightarrow> consumed_event list system_ports" where
  "canned_ports services =
     \<lparr>sp_discover = (\<lambda>_. ret services), sp_registry_put = (\<lambda>_. ret ()),
      sp_index = (\<lambda>s. ret (sample_context\<lparr>ix_service_id := sc_service_id s\<rparr>)),
      sp_publish = (\<lambda>t e k. ret \<lparr>pe_topic = t, pe_key = k, pe_partition = 0, pe_offset = 0, pe_event = e\<rparr>),
      sp_consume = (\<lambda>_ _ _. ret ()),
      sp_next = (\<lambda>_ _ _ ms. case ms of [] \<Rightarrow> (Inl (TimeoutError ''''), ms) | m # rest \<Rightarrow> (Inr m, rest)),
      sp_acknowledge = (\<lambda>_. ret ()), sp_identity = ret (''id'', ''now''), sp_verifier = None,
      sp_record = (\<lambda>_ _. ret ()), sp_write_report = (\<lambda>_ _. ret ()), sp_write_summary = ret None\<rparr>"

definition canned_system :: "service_context list \<Rightarrow> consumed_event list system_config" where
  "canned_system services =
     \<lparr>sy_ports = canned_ports services, sy_cluster = ''kind-kuber'', sy_report_directory = None,
      sy_message_limit = 5\<rparr>"

definition sample_result :: "string \<Rightarrow> consumed_event" where
  "sample_result workload_id =
     sample_message\<lparr>pe_event := sample_envelope\<lparr>en_event_type := Workload_Optimization_Completed,
       en_payload := [(''workload_id'', PStr workload_id), (''accepted'', PBool True)]\<rparr>\<rparr>"

definition other_service :: service_context where
  "other_service = sample_service\<lparr>sc_service_id := ''db'',
     sc_source_repository := (sc_source_repository sample_service)\<lparr>rp_service_id := ''db''\<rparr>\<rparr>"

lemmas canned_defs = run_system_def system_graph_def discover_system_def build_registry_def
  index_contexts_def dispatch_def dispatch_one_def wait_for_completion_def aggregate_def
  verify_system_def report_def write_report_def diagnose_system_def canned_system_def
  canned_ports_def need_def lift_result_def seq_def ret_def context_for_def new_envelope_def
  check_envelope_Inr_iff

lemma check_envelope_ok: "envelope_wf e \<Longrightarrow> check_envelope e = Inr e"
  by (simp add: check_envelope_Inr_iff)

lemma canned_run:
  "\<exists>r. run_system (canned_system [sample_service]) fresh_system ''prod'' (Some ''run-1'') ''uuid''
      [sample_result ''api''] = (Inr r, []) \<and> sr_system_passed r \<and>
      sr_results r = [pe_event (sample_result ''api'')]"
  by (simp add: canned_defs Let_def check_envelope_ok envelope_wf_def fresh_system_def
      sample_result_def sample_message_def sample_envelope_def result_accepted_def numeral_eq_Suc
      sample_service_def)

theorem system_pass_means_witness:
  "\<exists>r s'. run_system (canned_system [sample_service]) fresh_system ''prod'' (Some ''run-1'') ''uuid''
      [sample_result ''api''] = (Inr r, s') \<and> length (sr_results r) = length (sr_services r) \<and>
      list_all result_accepted (sr_results r)"
proof -
  obtain r where run: "run_system (canned_system [sample_service]) fresh_system ''prod''
      (Some ''run-1'') ''uuid'' [sample_result ''api''] = (Inr r, [])" and passed: "sr_system_passed r"
    using canned_run by blast
  from system_pass_means [OF run] passed run show ?thesis by (auto simp: list_all_iff)
qed

text \<open>The count of results is all the verification looks at: a workload that reported twice stands
  in for one that never reported.\<close>

theorem pass_without_a_workload:
  "\<exists>r. run_system (canned_system [sample_service, other_service]) fresh_system ''prod''
      (Some ''run-1'') ''uuid'' [sample_result ''api'', sample_result ''api''] = (Inr r, []) \<and>
    sr_system_passed r \<and> map sc_service_id (sr_services r) = [''api'', ''db''] \<and>
    (\<forall>e \<in> set (sr_results r). dget (en_payload e) ''workload_id'' = PStr ''api'')"
  by (simp add: canned_defs Let_def check_envelope_ok envelope_wf_def fresh_system_def
      sample_result_def sample_message_def sample_envelope_def result_accepted_def numeral_eq_Suc
      sample_service_def other_service_def)

text \<open>
  Dispatch. On the judge's system the dispatch node appends to the request topic exactly one
  request per service, in the order of the services, each with the service's own context and its
  workload's lock key, and expects that many results.
\<close>

theorem dispatch_one_request_per_service:
  assumes "dispatch (judge_system jc) st s = (Inr st', s')"
  shows "\<exists>services contexts requests. ss_services st = Some services \<and> ss_contexts st = Some contexts \<and>
    list_all2 (request_for (jc_cluster jc) (ss_run_id st) contexts) services requests \<and>
    eb_logs (sv_bus (wv_services (co_worker s'))) (topic_name Optimization_Requests) =
      eb_logs (sv_bus (wv_services (co_worker s))) (topic_name Optimization_Requests) @ requests \<and>
    ss_expected_results st' = Some (length services)"
proof -
  from assms obtain contexts services ps u where
    sel: "ss_contexts st = Some contexts" "ss_services st = Some services"
    and each: "each (dispatch_one (judge_system jc) (ss_run_id st) contexts) services s = (Inr ps, u)"
    and s': "co_worker s' = co_worker u" and st': "ss_expected_results st' = Some (length services)"
    by (auto simp: dispatch_def op_simps judge_ports_def)
  from judge_requests.each_dispatch_appends [OF each] sel s' st' show ?thesis by auto
qed

definition indexed_state :: system_state where
  "indexed_state = fresh_system\<lparr>ss_run_id := ''run-1'', ss_namespace := ''prod'',
     ss_services := Some [sample_service], ss_contexts := Some [sample_context]\<rparr>"

theorem dispatch_one_request_per_service_witness:
  "\<exists>st' s' p. dispatch (judge_system sample_config) indexed_state sample_start = (Inr st', s') \<and>
     eb_logs (sv_bus (wv_services (co_worker s'))) (topic_name Optimization_Requests) = [p] \<and>
     en_payload (pe_event p) = task_payload ''run-1'' sample_service sample_context"
proof -
  have context_sample: "context_for [sample_context] (sc_service_id sample_service) = Some sample_context"
    by (simp add: context_for_def sample_context_sel sample_service_def)
  have "\<exists>st' s'. dispatch (judge_system sample_config) indexed_state sample_start = (Inr st', s')"
    using context_sample
    by (simp add: dispatch_def dispatch_one_def indexed_state_def need_def seq_def ret_def
        lift_result_def on_worker_def service_def draw_identity_def on_bus_def new_envelope_def
        check_envelope_ok envelope_wf_def sample_config_def sample_memory_def judge_memory_def
        sample_draw_def sample_start_def bus_publish_def ensure_open_def Let_def judge_ports_def
        judge_system_def fresh_system_def)
  then obtain st' s' where run: "dispatch (judge_system sample_config) indexed_state sample_start = (Inr st', s')"
    by blast
  from dispatch_one_request_per_service [OF run] obtain requests where
    "list_all2 (request_for (jc_cluster sample_config) ''run-1'' [sample_context])
       [sample_service] requests"
    "eb_logs (sv_bus (wv_services (co_worker s'))) (topic_name Optimization_Requests) = requests"
    by (auto simp: indexed_state_def sample_start_def simp del: topic_name.simps)
  with run context_sample show ?thesis
    by (auto simp: list_all2_Cons1 request_for_def simp del: topic_name.simps)
qed

section \<open>The context layer\<close>

text \<open>
  Service and indexed contexts are read back from their dictionaries as they were.
\<close>

theorem context_dict_roundtrip:
  assumes "service_wf s"
  shows "service_from_dict (service_to_dict s) = Inr s \<and>
    indexed_from_dict float_int (indexed_to_dict c) = Inr c"
  using service_from_to_dict [OF assms] indexed_from_to_dict by blast

theorem context_dict_roundtrip_witness:
  "service_from_dict (service_to_dict sample_service) = Inr sample_service \<and>
   indexed_from_dict (\<lambda>_. Inr 0) (indexed_to_dict sample_context) = Inr sample_context"
  by (rule context_dict_roundtrip)
    (simp add: service_wf_def repository_wf_def set_text_def sample_service_def)

text \<open>
  C39: What an index may contain. The files selected for a service are sorted, without repetition,
  and each lies under the repository root, has no ignored directory on its path and is within the
  size limit.
\<close>

theorem indexed_files_contained:
  assumes "resolve_files ft maximum repository important_paths = Inr files"
  shows "sorted files \<and> distinct files \<and>
    (\<forall>p \<in> set files. \<exists>sub content. p = repository @ sub \<and> ft_file ft p = Some content \<and>
       length content \<le> maximum \<and> set p \<inter> set ignored_parts = {})"
  using resolve_files_Inr [OF assms] by (fastforce simp: selectable_def split: option.splits)

lemma sample_files:
  "resolve_files sample_tree 1000 [''srv'', ''api''] [''.''] = Inr [[''srv'', ''api'', ''main.py'']]"
  by (simp add: resolve_files_def candidate_files_def sample_tree_def relative_to_def selectable_def
      ignored_parts_def)

theorem indexed_files_contained_witness:
  "\<exists>files. resolve_files sample_tree 1000 [''srv'', ''api''] [''.''] = Inr files \<and> files \<noteq> [] \<and>
     (\<forall>p \<in> set files. \<exists>sub content. p = [''srv'', ''api''] @ sub \<and> ft_file sample_tree p = Some content \<and>
        length content \<le> 1000 \<and> set p \<inter> set ignored_parts = {})"
  using indexed_files_contained [OF sample_files] sample_files by (intro exI [of _ "[[''srv'', ''api'', ''main.py'']]"]) blast

text \<open>
  Reindexing. If nothing of a service has changed, indexing it again gives the same context,
  marked as reused, and leaves the store as it is, provided the record that was written is read
  back and the clock has not gone back.
\<close>

theorem reindexing_reuses:
  assumes "index_service float_int loads ft sha256 maximum now s rows = (Inr r, rows')"
    and "\<And>row. row \<in> set rows \<Longrightarrow> cr_created_at row \<le> now"
    and "loads (json_compact (PDict (indexed_to_dict (ir_context r)))) = Inr (PDict d)"
    and "indexed_from_dict float_int d = Inr (ir_context r)"
  shows "index_service float_int loads ft sha256 maximum later s rows' =
    (Inr \<lparr>ir_context = ir_context r, ir_reused = True\<rparr>, rows')"
  using assms by (rule index_service_again)

theorem reindexing_reuses_witness:
  "\<exists>rows'. index_service (\<lambda>_. Inr 0) sample_loads sample_tree (\<lambda>_. ''0123456789abcdef0123'') 1000
      ''1970-01-02 00:00:00'' sample_service rows' =
    (Inr \<lparr>ir_context = sample_context, ir_reused = True\<rparr>, rows')"
proof -
  let ?index = "\<lambda>now rows. index_service (\<lambda>_. Inr 0) sample_loads sample_tree
      (\<lambda>_. ''0123456789abcdef0123'') 1000 now sample_service rows"
  have root: "ft_resolve sample_tree (rp_local_path (sc_source_repository sample_service)) = [''srv'', ''api'']"
    and paths: "sc_important_paths sample_service = [''.'']"
    by (simp_all add: sample_tree_def sample_service_def)
  have first: "?index ''1970-01-01 00:00:00'' [] = (Inr \<lparr>ir_context = sample_context, ir_reused = False\<rparr>,
      context_put ''1970-01-01 00:00:00'' sample_context [])"
    unfolding index_service_def Let_def root paths sample_files
    by (simp add: context_latest_def latest_row_def read_context_def sample_context_def)
  show ?thesis
    using reindexing_reuses [OF first, of "indexed_to_dict sample_context"] indexed_from_to_dict
    by (auto simp: sample_loads_def)
qed

section \<open>The evaluation\<close>

text \<open>
  C27: Kuber against the baseline. On a case whose observed-only policy already passes the tests,
  Kuber ends with exactly that policy and the same metrics, but for the time it took.
\<close>

theorem kuber_keeps_passing_baseline:
  assumes "evaluate_baseline elapsed runtime c = Inr (C, mb)" and "mt_functional_success mb"
    and "evaluate_kuber (simulator_graph elapsed c m l) uuid prior runtime' c = Inr (P, mk)"
  shows "P = C \<and> mk = mb\<lparr>mt_runtime_seconds := runtime'\<rparr>"
  using assms by (rule evaluate_kuber_keeps_passing_baseline)

definition passing_case :: benchmark_case where
  "passing_case = sample_case\<lparr>bc_verification_tests := [\<lparr>vt_name = ''smoke'', vt_events = [list_pods]\<rparr>]\<rparr>"

lemma passing_case_allowed: "all_allowed (case_event passing_case) (bc_initial_policy passing_case)"
  using sample_case_allowed
  by (auto simp: all_allowed_def case_event_def tested_event_def passing_case_def sample_case_def)

lemma evaluate_kuber_returns:
  assumes "all_allowed (case_event c) (bc_initial_policy c)"
  shows "\<exists>P mk. evaluate_kuber (simulator_graph elapsed c 5 36) uuid prior runtime c = Inr (P, mk) \<and>
    mt_functional_success mk"
proof -
  let ?rq = "\<lparr>rq_run_id = ''evaluation-'' @ bc_identifier c, rq_task_id = None, rq_workload_id = None,
     rq_context_ref = '''', rq_repository_ref = ''''\<rparr>"
  obtain ex w' where run: "run_workload (simulator_graph elapsed c 5 36) ?rq prior (new_simulator c) = (Inr ex, w')"
    and acc: "we_accepted ex"
    by (rule simulator_run_returns [OF assms, of 5 36]) auto
  have "vr_passed (we_verification ex) = we_accepted ex"
    using simulated.run_outcome(4) [OF run] by (simp add: new_simulator_def)
  with run acc show ?thesis
    by (simp add: evaluate_kuber_def orchestrator_run_def seq_def ret_def metrics_def Let_def)
qed

lemma passing_baseline:
  "\<exists>C mb. evaluate_baseline ''0.01'' 1 passing_case = Inr (C, mb) \<and> mt_functional_success mb"
proof -
  have "case evaluate_baseline ''0.01'' 1 passing_case of Inl _ \<Rightarrow> False | Inr x \<Rightarrow> mt_functional_success (snd x)"
    by code_simp
  then show ?thesis by (cases "evaluate_baseline ''0.01'' 1 passing_case") auto
qed

theorem kuber_keeps_passing_baseline_witness:
  "\<exists>C mb. evaluate_baseline ''0.01'' 1 passing_case = Inr (C, mb) \<and>
     evaluate_kuber (simulator_graph ''0.01'' passing_case 5 36) ''uuid'' fresh_thread 2 passing_case =
       Inr (C, mb\<lparr>mt_runtime_seconds := 2\<rparr>)"
proof -
  obtain C mb where base: "evaluate_baseline ''0.01'' 1 passing_case = Inr (C, mb)"
    and ok: "mt_functional_success mb"
    using passing_baseline by blast
  obtain P mk where kuber: "evaluate_kuber (simulator_graph ''0.01'' passing_case 5 36) ''uuid''
      fresh_thread 2 passing_case = Inr (P, mk)"
    using evaluate_kuber_returns [OF passing_case_allowed] by blast
  from kuber_keeps_passing_baseline [OF base ok kuber] base kuber show ?thesis by simp
qed

text \<open>
  What a success of the evaluation means. A case Kuber is credited with ends with a policy
  that covers every tested event and grants no more than the initial policy.
\<close>

theorem kuber_success_means:
  assumes "evaluate_kuber (simulator_graph elapsed c m l) uuid prior runtime c = Inr (P, mk)"
    and "mt_functional_success mk"
  shows "covers_all (tested_event c) P \<and> no_more_than P (bc_initial_policy c)"
  using assms by (rule evaluate_kuber_success_iff)

theorem kuber_success_means_witness:
  "\<exists>P mk. evaluate_kuber (simulator_graph ''0.01'' sample_case 5 36) ''uuid'' fresh_thread 1 sample_case =
      Inr (P, mk) \<and> covers_all (tested_event sample_case) P"
proof -
  obtain P mk where "evaluate_kuber (simulator_graph ''0.01'' sample_case 5 36) ''uuid''
      fresh_thread 1 sample_case = Inr (P, mk)" "mt_functional_success mk"
    using evaluate_kuber_returns [OF sample_case_allowed] by blast
  with kuber_success_means [OF this] show ?thesis by blast
qed

end
