(* ===== verification/Observation.thy ===== *)
theory Observation
  imports Context_Models Environment
begin

text \<open>
  Reading API events from a workload's log: \<open>KubeEvent.from_dict\<close> of
  \<open>rules_engine/models/event.py\<close> and \<open>kubernetes_runtime/observation/event_collector.py\<close>.
  \<open>loads\<close> is \<open>json.loads\<close>.
\<close>

section \<open>Lines\<close>

text \<open>\<open>str.splitlines\<close> over the first 256 code points.\<close>

definition line_break :: "char \<Rightarrow> bool" where
  "line_break c \<longleftrightarrow> (let n = (of_char c :: nat) in
     (10 \<le> n \<and> n \<le> 13) \<or> (28 \<le> n \<and> n \<le> 30) \<or> n = 133)"

fun join_crlf :: "string \<Rightarrow> string" where
  "join_crlf (c # d # cs) =
     (if c = char_of (13 :: nat) \<and> d = char_of (10 :: nat) then d # join_crlf cs
      else c # join_crlf (d # cs))"
| "join_crlf cs = cs"

fun lines_from :: "string \<Rightarrow> string \<Rightarrow> string list" where
  "lines_from current [] = (if current = '''' then [] else [current])"
| "lines_from current (c # cs) =
     (if line_break c then current # lines_from '''' cs else lines_from (current @ [c]) cs)"

definition split_lines :: "string \<Rightarrow> string list" where
  "split_lines s = lines_from '''' (join_crlf s)"

section \<open>Events\<close>

text \<open>A field declared \<open>str | None\<close> that \<open>from_dict\<close> takes over unconverted. A list or a
  dictionary makes the event unhashable. A number or a truth value, which Python would keep as it
  is, is outside the declared type: the model stops with an error that no handler takes.\<close>

definition text_or_none :: "pyval \<Rightarrow> string option result" where
  "text_or_none v =
     (case v of
        PNone \<Rightarrow> Inr None
      | PStr s \<Rightarrow> Inr (Some s)
      | _ \<Rightarrow>
          (case unhashable v of
             Some err \<Rightarrow> Inl err
           | None \<Rightarrow> Inl (OtherError ''field outside its declared type'')))"

definition event_from_dict :: "pydict \<Rightarrow> kube_event result" where
  "event_from_dict d =
     rbind (req_text d ''resource'') (\<lambda>resource.
     rbind (req_text d ''verb'') (\<lambda>verb.
     rbind (text_or_none (dget d ''namespace'')) (\<lambda>namespace.
     rbind (text_or_none (dget d ''resource_name'')) (\<lambda>resource_name.
     rbind (text_or_none (dget d ''workload_id'')) (\<lambda>workload_id.
     Inr \<lparr>ev_api_group = py_str (dget_or d ''api_group'' (PStr '''')), ev_resource = resource,
          ev_verb = verb, ev_namespace = namespace, ev_resource_name = resource_name,
          ev_workload_id = workload_id\<rparr>)))))"

text \<open>\<open>line[line.find("{"):] if "{" in line else ""\<close>.\<close>

definition json_part :: "string \<Rightarrow> string" where
  "json_part line = dropWhile (\<lambda>c. c \<noteq> CHR ''{'') line"

fun is_json_error :: "py_error \<Rightarrow> bool" where
  "is_json_error (JsonDecodeError _) = True"
| "is_json_error _ = False"

text \<open>What a line contributes: an event, nothing (a \<open>continue\<close>), or an exception that is not
  caught. \<open>is True\<close> distinguishes \<open>True\<close> from any other true value.\<close>

definition line_event ::
  "(string \<Rightarrow> pyval result) \<Rightarrow> bool \<Rightarrow> string \<Rightarrow> kube_event option result" where
  "line_event loads denied_only line =
     (case loads (json_part line) of
        Inl err \<Rightarrow> if is_json_error err \<or> is_type_error err then Inr None else Inl err
      | Inr (PDict value) \<Rightarrow>
          if dget value ''kuber_event'' \<noteq> PBool True then Inr None
          else if denied_only \<and> dget value ''kuber_denied'' \<noteq> PBool True then Inr None
          else
            (case event_from_dict value of
               Inl err \<Rightarrow>
                 if is_key_error err \<or> is_type_error err \<or> is_value_error err then Inr None
                 else Inl err
             | Inr e \<Rightarrow> Inr (Some e))
      | Inr _ \<Rightarrow> Inr None)"

definition collect_events ::
  "(string \<Rightarrow> pyval result) \<Rightarrow> bool \<Rightarrow> string \<Rightarrow> kube_event list result" where
  "collect_events loads denied_only log_text =
     rbind (rmap (line_event loads denied_only) (split_lines log_text)) (\<lambda>found.
       Inr (uniq (List.map_filter (\<lambda>e. e) found)))"

section \<open>What is collected\<close>

lemma text_or_none_opt_str [simp]: "text_or_none (opt_str x) = Inr x"
  by (cases x) (simp_all add: text_or_none_def)

lemma event_from_to_dict:
  "event_to_dict e = PDict d \<Longrightarrow> event_from_dict d = Inr e"
  by (auto simp: event_to_dict_def event_from_dict_def req_text_def)

lemma line_event_Some_iff:
  "line_event loads denied_only line = Inr (Some e) \<longleftrightarrow>
    (\<exists>d. loads (json_part line) = Inr (PDict d) \<and> dget d ''kuber_event'' = PBool True \<and>
      (denied_only \<longrightarrow> dget d ''kuber_denied'' = PBool True) \<and> event_from_dict d = Inr e)"
  by (auto simp: line_event_def split: sum.splits pyval.splits if_splits)

lemma collect_events_mem_iff:
  assumes "collect_events loads denied_only log_text = Inr events"
  shows "e \<in> set events \<longleftrightarrow>
    (\<exists>line \<in> set (split_lines log_text). line_event loads denied_only line = Inr (Some e))"
proof -
  obtain found where found: "rmap (line_event loads denied_only) (split_lines log_text) = Inr found"
    and events: "events = uniq (List.map_filter (\<lambda>e. e) found)"
    using assms by (auto simp: collect_events_def result_simps)
  have "e \<in> set events \<longleftrightarrow> Some e \<in> set found"
    by (force simp: events List.map_filter_def)
  then show ?thesis by (simp add: rmap_Inr_set [OF found])
qed

lemma collect_events_distinct:
  "collect_events loads denied_only log_text = Inr events \<Longrightarrow> distinct events"
  by (auto simp: collect_events_def result_simps)

text \<open>A denied event is an event: the denials are among what is collected without the filter.\<close>

lemma denied_line_event:
  "line_event loads True line = Inr (Some e) \<Longrightarrow> line_event loads False line = Inr (Some e)"
  by (auto simp: line_event_Some_iff)

lemma denied_are_events:
  assumes "collect_events loads True log_text = Inr denied"
    and "collect_events loads False log_text = Inr events"
  shows "set denied \<subseteq> set events"
  using collect_events_mem_iff [OF assms(1)] collect_events_mem_iff [OF assms(2)]
  by (blast dest: denied_line_event)

end
