(* ===== verification/Kubernetes_Environment.thy ===== *)
theory Kubernetes_Environment
  imports Complex_Main Observation Rbac_Roundtrip
begin

text \<open>
  \<open>kubernetes_runtime/adapter/kubernetes_environment.py\<close>: the adapter for a live cluster. What
  lies outside the process (\<open>kubectl\<close>, the smoke test, files, the clock) is a world \<open>'c\<close> behind a
  record of ports; the object's own fields are the record \<open>kubernetes\<close>.
\<close>

record completed_process =
  cp_returncode :: int
  cp_stdout :: string
  cp_stderr :: string

text \<open>
  \<open>kp_execute\<close> is \<open>subprocess.run\<close> without \<open>check\<close> (command, input, timeout); \<open>kp_write_proposal\<close>
  creates the directory and writes the file; \<open>kp_now\<close> is \<open>perf_counter\<close> and \<open>kp_sleep\<close> the
  \<open>sleep(0.2)\<close>; \<open>kp_read\<close>, \<open>kp_exists\<close>, \<open>kp_load_all\<close>, \<open>kp_dump\<close> and \<open>kp_loads\<close> are the file
  system, YAML and JSON; \<open>kp_seconds\<close> is the \<open>repr\<close> of a duration and \<open>kp_signal\<close> the name of a
  signal.
\<close>

record 'c kubernetes_ports =
  kp_execute :: "string list \<Rightarrow> string option \<Rightarrow> nat \<Rightarrow> ('c, completed_process) op"
  kp_write_proposal :: "string \<Rightarrow> string \<Rightarrow> ('c, unit) op"
  kp_sleep :: "('c, unit) op"
  kp_now :: "'c \<Rightarrow> rat"
  kp_exists :: "'c \<Rightarrow> string \<Rightarrow> string + bool"
  kp_read :: "'c \<Rightarrow> string \<Rightarrow> string + string"
  kp_load_all :: "string \<Rightarrow> string + pyval list"
  kp_dump :: "pyval list \<Rightarrow> string"
  kp_loads :: "string \<Rightarrow> pyval result"
  kp_seconds :: "rat \<Rightarrow> string"
  kp_signal :: "int \<Rightarrow> string"

text \<open>The constructor's arguments, and the attributes it fixes for the object's life.\<close>

record kubernetes_settings =
  ks_context :: string
  ks_namespace :: string
  ks_service_account :: string
  ks_deployment_name :: string
  ks_workload_id :: string
  ks_smoke_command :: "string list"
  ks_initial_manifest :: string
  ks_original_binding_name :: string
  ks_dry_run :: "bool option"
  ks_allow_unsafe_context :: bool
  ks_artifact_directory :: string

record kubernetes_config = kubernetes_settings +
  kc_original_policy :: policy
  kc_safe :: bool
  kc_dry_run :: bool

record 'c kubernetes =
  kb_current_policy :: policy
  kb_candidate_documents :: "pyval list"
  kb_log_line_cursor :: nat
  kb_pod_name :: "string option"
  kb_world :: 'c

section \<open>Subprocesses\<close>

definition repr_tuple :: "string list \<Rightarrow> string" where
  "repr_tuple xs =
     ''('' @ py_join '', '' (map repr_str xs) @ (if length xs = 1 then '','' else '''') @ '')''"

definition exit_text :: "'c kubernetes_ports \<Rightarrow> string list \<Rightarrow> int \<Rightarrow> string" where
  "exit_text p command code =
     (let quote = [char_of (39 :: nat)] in
      ''Command '' @ quote @ repr_tuple command @ quote @
      (if code < 0 then '' died with '' @ kp_signal p (- code) @ ''.''
       else '' returned non-zero exit status '' @ int_str code @ ''.''))"

definition run_command ::
  "'c kubernetes_ports \<Rightarrow> string list \<Rightarrow> string option \<Rightarrow> bool \<Rightarrow> nat \<Rightarrow> ('c, completed_process) op" where
  "run_command p command input check timeout =
     seq (kp_execute p command input timeout) (\<lambda>r.
     if check \<and> cp_returncode r \<noteq> 0 then
       throw (CalledProcessError (exit_text p command (cp_returncode r)) (cp_stdout r) (cp_stderr r))
     else ret r)"

definition kubectl ::
  "'c kubernetes_ports \<Rightarrow> 'x kubernetes_settings_scheme \<Rightarrow> string list \<Rightarrow> string option \<Rightarrow> bool \<Rightarrow> nat \<Rightarrow>
   ('c, completed_process) op" where
  "kubectl p cfg arguments input check timeout =
     run_command p ([''kubectl'', ''--context'', ks_context cfg] @ arguments) input check timeout"

section \<open>Construction\<close>

definition sandbox_label :: string where
  "sandbox_label =
     ''jsonpath={.metadata.labels.kuber'' @ [char_of (92 :: nat)] @ ''.dev/sandbox}''"

definition is_recognized_sandbox ::
  "'c kubernetes_ports \<Rightarrow> 'x kubernetes_settings_scheme \<Rightarrow> ('c, bool) op" where
  "is_recognized_sandbox p st c =
     (case seq (run_command p [''kubectl'', ''config'', ''current-context''] None True 10) (\<lambda>r.
             if py_strip (cp_stdout r) \<noteq> ks_context st \<or> ks_context st \<noteq> ''kind-kuber'' then ret False
             else
               seq (kubectl p st [''get'', ''namespace'', ks_namespace st, ''-o'', sandbox_label]
                      None True 10) (\<lambda>label.
               ret (py_strip (cp_stdout label) = ''true''))) c of
        (Inl err, c') \<Rightarrow>
          if is_file_not_found err \<or> is_subprocess_error err then (Inr False, c') else (Inl err, c')
      | (Inr safe, c') \<Rightarrow> (Inr safe, c'))"

definition read_manifest ::
  "'c kubernetes_ports \<Rightarrow> rbac_source \<Rightarrow> ('c, parsed_rbac) op" where
  "read_manifest p source c =
     (parse_rbac (kp_exists p c) (kp_read p c) (kp_load_all p) source, c)"

definition account_ref :: "'x kubernetes_settings_scheme \<Rightarrow> service_account_ref" where
  "account_ref st = \<lparr>sr_name = ks_service_account st, sr_namespace = ks_namespace st\<rparr>"

definition new_kubernetes ::
  "'c kubernetes_ports \<Rightarrow> kubernetes_settings \<Rightarrow> ('c, kubernetes_config) op" where
  "new_kubernetes p st =
     seq (read_manifest p (SourcePath (ks_initial_manifest st))) (\<lambda>parsed.
     seq (is_recognized_sandbox p st) (\<lambda>safe.
     let dry_run = (case ks_dry_run st of None \<Rightarrow> \<not> safe | Some b \<Rightarrow> b) in
     if \<not> safe \<and> \<not> dry_run \<and> \<not> ks_allow_unsafe_context st then
       throw (SafetyError ''live mutation refused: context and sandbox namespace label were not both recognized'')
     else
       ret (kubernetes_settings.extend st (kubernetes_config.fields
              (resolve_effective_policy parsed (account_ref st)) safe dry_run))))"

definition fresh_kubernetes :: "kubernetes_config \<Rightarrow> 'c \<Rightarrow> 'c kubernetes" where
  "fresh_kubernetes cfg c =
     \<lparr>kb_current_policy = kc_original_policy cfg, kb_candidate_documents = [],
      kb_log_line_cursor = 0, kb_pod_name = None, kb_world = c\<rparr>"

definition kubernetes_name :: "kubernetes_config \<Rightarrow> string" where
  "kubernetes_name cfg =
     ''kubernetes:'' @ ks_context cfg @ ''/'' @ ks_namespace cfg @ '':'' @ ks_workload_id cfg @ '':'' @
     (if kc_dry_run cfg then ''dry-run'' else ''live'')"

section \<open>Reading the log\<close>

definition outside :: "('c, 'a) op \<Rightarrow> ('c kubernetes, 'a) op" where
  "outside m s = (case m (kb_world s) of (r, c) \<Rightarrow> (r, s\<lparr>kb_world := c\<rparr>))"

definition set_cursor :: "nat \<Rightarrow> ('c kubernetes, unit) op" where
  "set_cursor n s = (Inr (), s\<lparr>kb_log_line_cursor := n\<rparr>)"

definition set_current :: "policy \<Rightarrow> ('c kubernetes, unit) op" where
  "set_current P s = (Inr (), s\<lparr>kb_current_policy := P\<rparr>)"

definition set_documents :: "pyval list \<Rightarrow> ('c kubernetes, unit) op" where
  "set_documents docs s = (Inr (), s\<lparr>kb_candidate_documents := docs\<rparr>)"

definition set_pod :: "string option \<Rightarrow> ('c kubernetes, unit) op" where
  "set_pod pod s = (Inr (), s\<lparr>kb_pod_name := pod\<rparr>)"

definition field :: "('c kubernetes \<Rightarrow> 'a) \<Rightarrow> ('c kubernetes, 'a) op" where
  "field f s = (Inr (f s), s)"

definition logs :: "'c kubernetes_ports \<Rightarrow> kubernetes_config \<Rightarrow> ('c kubernetes, string) op" where
  "logs p cfg =
     seq (field kb_pod_name) (\<lambda>pod.
     let target = (if truthy_opt pod then ''pod/'' @ or_empty pod
                   else ''deployment/'' @ ks_deployment_name cfg) in
     seq (outside (kubectl p cfg [''logs'', ''-n'', ks_namespace cfg, target] None False 30)) (\<lambda>r.
     ret (cp_stdout r @ newline @ cp_stderr r)))"

text \<open>\<open>while perf_counter() < deadline\<close>: look, stop if there is something, else sleep. A round
  that does not stop sleeps 0.2 seconds, so a window of 5 seconds has at most 25 such rounds, and
  the next one ends the loop. Where the clock does not advance the loop never ends; running out of
  rounds is an exception of its own, which the code does not have.\<close>

definition poll_rounds :: nat where
  "poll_rounds = 26"

fun poll ::
  "'c kubernetes_ports \<Rightarrow> ('c kubernetes, 'a) op \<Rightarrow> ('a \<Rightarrow> bool) \<Rightarrow> rat \<Rightarrow> nat \<Rightarrow> 'a \<Rightarrow>
   ('c kubernetes, 'a) op" where
  "poll p look stop deadline 0 latest = throw (OtherError ''the clock does not advance'')"
| "poll p look stop deadline (Suc k) latest =
     seq (field (\<lambda>s. kp_now p (kb_world s))) (\<lambda>now.
     if now < deadline then
       seq look (\<lambda>found.
       if stop found then ret found
       else seq (outside (kp_sleep p)) (\<lambda>_. poll p look stop deadline k found))
     else ret latest)"

definition clock :: "'c kubernetes_ports \<Rightarrow> ('c kubernetes, rat) op" where
  "clock p = field (\<lambda>s. kp_now p (kb_world s))"

definition read_events ::
  "'c kubernetes_ports \<Rightarrow> kubernetes_config \<Rightarrow> ('c kubernetes, string \<times> kube_event list) op" where
  "read_events p cfg =
     seq (logs p cfg) (\<lambda>text.
     seq (lift_result (collect_events (kp_loads p) False text)) (\<lambda>events.
     ret (text, events)))"

definition get_observed_usage ::
  "'c kubernetes_ports \<Rightarrow> kubernetes_config \<Rightarrow> ('c kubernetes, kube_event list) op" where
  "get_observed_usage p cfg =
     seq (clock p) (\<lambda>start.
     seq (poll p (read_events p cfg) (\<lambda>(text, events). events \<noteq> []) (start + 5) poll_rounds ('''', []))
       (\<lambda>(text, events).
     seq (set_cursor (length (split_lines text))) (\<lambda>_.
     ret events)))"

section \<open>Changing the cluster\<close>

definition change ::
  "'c kubernetes_ports \<Rightarrow> kubernetes_config \<Rightarrow> string list \<Rightarrow> string option \<Rightarrow> bool \<Rightarrow>
   ('c kubernetes, completed_process) op" where
  "change p cfg arguments input check = outside (kubectl p cfg arguments input check 90)"

fun each_do :: "('a \<Rightarrow> ('s, 'b) op) \<Rightarrow> 'a list \<Rightarrow> ('s, unit) op" where
  "each_do f [] = ret ()"
| "each_do f (x # xs) = seq (f x) (\<lambda>_. each_do f xs)"

text \<open>\<open>str.lower\<close> over the first 256 code points.\<close>

definition lower_text :: "string \<Rightarrow> string" where
  "lower_text s = map (\<lambda>c. let n = (of_char c :: nat) in
     if (65 \<le> n \<and> n \<le> 90) \<or> (192 \<le> n \<and> n \<le> 222 \<and> n \<noteq> 215) then char_of (n + 32) else c) s"

text \<open>\<open>_delete_candidates\<close>: the kind, name and namespace of a generated document.\<close>

definition delete_arguments :: "pyval \<Rightarrow> string list result" where
  "delete_arguments doc =
     (case doc of
        PDict document \<Rightarrow>
          rbind (dget_req document ''kind'') (\<lambda>kind.
          rbind (dget_req document ''metadata'') (\<lambda>metadata.
          case metadata of
            PDict md \<Rightarrow>
              rbind (req_text md ''name'') (\<lambda>name.
              Inr ([''delete'', lower_text (py_str kind), name, ''--ignore-not-found''] @
                   (if truthy (dget md ''namespace'') then [''-n'', py_str (dget md ''namespace'')] else [])))
          | _ \<Rightarrow> Inl AssertionError))
      | _ \<Rightarrow> Inl (TypeError ''document is not an object''))"

definition delete_candidates ::
  "'c kubernetes_ports \<Rightarrow> kubernetes_config \<Rightarrow> ('c kubernetes, unit) op" where
  "delete_candidates p cfg =
     seq (field kb_candidate_documents) (\<lambda>documents.
     seq (each_do (\<lambda>document. seq (lift_result (delete_arguments document)) (\<lambda>arguments.
            change p cfg arguments None False)) documents) (\<lambda>_.
     set_documents []))"

definition known_objects :: "kubernetes_config \<Rightarrow> (string \<times> string \<times> bool) list" where
  "known_objects cfg =
     (let sa = ks_service_account cfg; ns = ks_namespace cfg in
      [(''rolebinding'', sa @ ''-kuber-'' @ ns @ ''-binding'', True),
       (''role'', sa @ ''-kuber-'' @ ns, True),
       (''clusterrolebinding'', sa @ ''-kuber-cluster-binding'', False),
       (''clusterrole'', sa @ ''-kuber-cluster'', False)])"

definition delete_known :: "kubernetes_config \<Rightarrow> string \<times> string \<times> bool \<Rightarrow> string list" where
  "delete_known cfg obj =
     (case obj of (kind, name, namespaced) \<Rightarrow>
        [''delete'', kind, name, ''--ignore-not-found''] @
        (if namespaced then [''-n'', ks_namespace cfg] else []))"

definition prepare_sandbox ::
  "'c kubernetes_ports \<Rightarrow> kubernetes_config \<Rightarrow> ('c kubernetes, unit) op" where
  "prepare_sandbox p cfg =
     (if kc_dry_run cfg then throw (DryRunOnlyError ''live preparation requires the recognized sandbox'')
      else
        seq (delete_candidates p cfg) (\<lambda>_.
        seq (each_do (\<lambda>obj. change p cfg (delete_known cfg obj) None False) (known_objects cfg)) (\<lambda>_.
        seq (each_do (\<lambda>job. change p cfg
               [''delete'', ''job'', job, ''-n'', ks_namespace cfg, ''--ignore-not-found''] None False)
               [''kuber-warmup'', ''kuber-smoke'', ''kuber-worker-smoke'']) (\<lambda>_.
        seq (change p cfg [''delete'', ''lease'', ks_deployment_name cfg, ''-n'', ks_namespace cfg,
               ''--ignore-not-found''] None False) (\<lambda>_.
        seq (change p cfg [''apply'', ''-f'', ks_initial_manifest cfg] None True) (\<lambda>_.
        seq (change p cfg [''rollout'', ''restart'', ''deployment/'' @ ks_deployment_name cfg, ''-n'',
               ks_namespace cfg] None True) (\<lambda>_.
        seq (outside (kubectl p cfg [''rollout'', ''status'', ''deployment/'' @ ks_deployment_name cfg,
               ''-n'', ks_namespace cfg, ''--timeout=120s''] None True 130)) (\<lambda>_.
        seq (change p cfg [''get'', ''pods'', ''-n'', ks_namespace cfg, ''-l'',
               ''app='' @ ks_deployment_name cfg, ''--field-selector=status.phase=Running'',
               ''--sort-by=.metadata.creationTimestamp'', ''-o'',
               ''jsonpath={.items[-1].metadata.name}''] None False) (\<lambda>r.
        seq (set_pod (let pod = py_strip (cp_stdout r) in if pod = '''' then None else Some pod)) (\<lambda>_.
        seq (set_current (kc_original_policy cfg)) (\<lambda>_.
        set_cursor 0)))))))))))"

text \<open>The check of the text that is about to be applied, and the file it is written to.\<close>

definition validate_text ::
  "'c kubernetes_ports \<Rightarrow> kubernetes_config \<Rightarrow> policy \<Rightarrow> string \<Rightarrow> ('c kubernetes, unit) op" where
  "validate_text p cfg P yaml_text =
     seq (outside (read_manifest p (SourceText yaml_text))) (\<lambda>parsed.
     if policy_keys (resolve_effective_policy parsed (account_ref cfg)) \<noteq> policy_keys P then
       throw (ValueError ''generated policy failed deterministic round-trip validation'')
     else ret ())"

definition proposal_path :: "kubernetes_config \<Rightarrow> string" where
  "proposal_path cfg = ks_artifact_directory cfg @ ''/'' @ ks_service_account cfg @ ''.yaml''"

definition delete_original :: "kubernetes_config \<Rightarrow> string \<Rightarrow> string list" where
  "delete_original cfg kind =
     [''delete'', kind, ks_original_binding_name cfg, ''--ignore-not-found''] @
     (if kind = ''rolebinding'' then [''-n'', ks_namespace cfg] else [])"

definition apply_policy ::
  "'c kubernetes_ports \<Rightarrow> kubernetes_config \<Rightarrow> policy \<Rightarrow> ('c kubernetes, unit) op" where
  "apply_policy p cfg P =
     (let yaml_text = policy_to_yaml (kp_dump p) P in
      seq (validate_text p cfg P yaml_text) (\<lambda>_.
      seq (outside (kp_write_proposal p (proposal_path cfg) yaml_text)) (\<lambda>_.
      if kc_dry_run cfg then
        throw (DryRunOnlyError (''proposal written to '' @ proposal_path cfg @
          ''; explicit approval is required outside the sandbox''))
      else
        seq (set_documents (policy_to_documents P)) (\<lambda>_.
        seq (if policy_to_documents P \<noteq> [] then
               seq (change p cfg [''apply'', ''-f'', ''-''] (Some yaml_text) True) (\<lambda>_. ret ())
             else ret ()) (\<lambda>_.
        seq (each_do (\<lambda>kind. change p cfg (delete_original cfg kind) None True)
               [''rolebinding'', ''clusterrolebinding'']) (\<lambda>_.
        set_current P))))))"

definition restore_policy ::
  "'c kubernetes_ports \<Rightarrow> kubernetes_config \<Rightarrow> ('c kubernetes, unit) op" where
  "restore_policy p cfg =
     (if kc_dry_run cfg then set_current (kc_original_policy cfg)
      else
        seq (delete_candidates p cfg) (\<lambda>_.
        seq (change p cfg [''apply'', ''-f'', ''-'']
               (Some (policy_to_yaml (kp_dump p) (kc_original_policy cfg))) True) (\<lambda>_.
        set_current (kc_original_policy cfg))))"

section \<open>Verification\<close>

text \<open>\<open>re.search(r"KUBER_TEST_SUMMARY=(\d+)/(\d+)", s)\<close>: the first position where the pattern
  matches. Both digit runs are maximal, so \<open>int\<close> reads them (up to the interpreter's limit on the
  number of digits).\<close>

definition digits_of :: "string \<Rightarrow> string" where
  "digits_of s = takeWhile is_digit s"

definition digits_value :: "string \<Rightarrow> nat" where
  "digits_value ds = foldl (\<lambda>n c. 10 * n + (of_char c - 48)) 0 ds"

definition summary_here :: "string \<Rightarrow> (nat \<times> nat) option" where
  "summary_here s =
     (let mark = ''KUBER_TEST_SUMMARY='' in
      if take (length mark) s \<noteq> mark then None
      else
        let rest = drop (length mark) s; passed = digits_of rest;
            after = drop (length passed) rest; total = digits_of (tl after) in
        if passed \<noteq> [] \<and> after \<noteq> [] \<and> hd after = CHR ''/'' \<and> total \<noteq> []
        then Some (digits_value passed, digits_value total) else None)"

fun test_summary :: "string \<Rightarrow> (nat \<times> nat) option" where
  "test_summary [] = summary_here []"
| "test_summary (c # cs) =
     (case summary_here (c # cs) of Some r \<Rightarrow> Some r | None \<Rightarrow> test_summary cs)"

definition read_denials ::
  "'c kubernetes_ports \<Rightarrow> kubernetes_config \<Rightarrow>
   ('c kubernetes, string list \<times> string \<times> kube_event list) op" where
  "read_denials p cfg =
     seq (logs p cfg) (\<lambda>text.
     seq (field kb_log_line_cursor) (\<lambda>cursor.
     let lines = split_lines text;
         start = (if cursor \<le> length lines then cursor else 0);
         fresh_logs = py_join newline (drop start lines) in
     seq (lift_result (collect_events (kp_loads p) True fresh_logs)) (\<lambda>denied.
     ret (lines, fresh_logs, denied))))"

definition verify_workload ::
  "'c kubernetes_ports \<Rightarrow> kubernetes_config \<Rightarrow> ('c kubernetes, verification_result) op" where
  "verify_workload p cfg =
     seq (clock p) (\<lambda>started.
     seq (outside (run_command p (ks_smoke_command cfg) None False 120)) (\<lambda>result.
     seq (clock p) (\<lambda>opened.
     seq (poll p (read_denials p cfg)
            (\<lambda>(lines, fresh_logs, denied). cp_returncode result = 0 \<or> denied \<noteq> [])
            (opened + 5) poll_rounds ([], '''', [])) (\<lambda>(lines, fresh_logs, denied).
     seq (set_cursor (length lines)) (\<lambda>_.
     seq (clock p) (\<lambda>finished.
     let summary = test_summary (cp_stdout result) in
     ret \<lparr>vr_passed = (cp_returncode result = 0),
          vr_tests_passed = (case summary of Some (k, n) \<Rightarrow> k
                              | None \<Rightarrow> if cp_returncode result = 0 then 6 else 0),
          vr_tests_total = (case summary of Some (k, n) \<Rightarrow> n | None \<Rightarrow> 6),
          vr_denied_events = denied, vr_stdout = cp_stdout result,
          vr_stderr = cp_stderr result @ newline @ fresh_logs,
          vr_duration_seconds = kp_seconds p (finished - started)\<rparr>))))))"

definition describe_failure ::
  "verification_result \<Rightarrow> ('c kubernetes, failure_description) op" where
  "describe_failure result =
     ret (if vr_denied_events result \<noteq> [] then
            \<lparr>fd_summary = ''real Kubernetes RBAC denied '' @ nat_str (length (vr_denied_events result)) @
               '' capability/capabilities'',
             fd_missing_events = vr_denied_events result, fd_authorization_denial = True\<rparr>
          else
            \<lparr>fd_summary = ''smoke tests failed without a structured Kubernetes 403; automatic repair refused'',
             fd_missing_events = [], fd_authorization_denial = False\<rparr>)"

definition kubernetes_adapter ::
  "'c kubernetes_ports \<Rightarrow> kubernetes_config \<Rightarrow> 'c kubernetes environment_adapter" where
  "kubernetes_adapter p cfg =
     \<lparr>env_name = kubernetes_name cfg,
      env_get_current_policy = field kb_current_policy,
      env_get_observed_usage = get_observed_usage p cfg,
      env_apply_policy = apply_policy p cfg,
      env_verify_workload = verify_workload p cfg,
      env_restore_policy = restore_policy p cfg,
      env_describe_failure = describe_failure\<rparr>"

end
