(* ===== verification/Kubernetes_Safety.thy ===== *)
theory Kubernetes_Safety
  imports Kubernetes_Environment Workload_Run Workload_Frame
begin

text \<open>
  The live adapter: when it may change a cluster at all, what each operation keeps of its own
  fields (the contract \<open>environment\<close> of the agent layer), and what a dry run leaves alone.
\<close>

section \<open>The guard\<close>

lemma recognized_sandbox_Inr:
  assumes "is_recognized_sandbox p st c = (Inr True, c')"
  shows "ks_context st = ''kind-kuber'' \<and>
    (\<exists>r u label. kp_execute p [''kubectl'', ''config'', ''current-context''] None 10 c = (Inr r, u) \<and>
       py_strip (cp_stdout r) = ks_context st \<and>
       kp_execute p [''kubectl'', ''--context'', ks_context st, ''get'', ''namespace'', ks_namespace st,
         ''-o'', sandbox_label] None 10 u = (Inr label, c') \<and>
       py_strip (cp_stdout label) = ''true'')"
  using assms
  by (auto simp: is_recognized_sandbox_def kubectl_def run_command_def op_simps
      split: prod.splits sum.splits if_splits)

lemma new_kubernetes_Inr:
  assumes "new_kubernetes p st c = (Inr cfg, c')"
  obtains parsed c0 where
    "parse_rbac (kp_exists p c) (kp_read p c) (kp_load_all p) (SourcePath (ks_initial_manifest st))
       = Inr parsed"
    and "is_recognized_sandbox p st c = (Inr (kc_safe cfg), c')"
    and "kc_original_policy cfg = resolve_effective_policy parsed (account_ref st)"
    and "kubernetes_settings.truncate cfg = st"
    and "kc_dry_run cfg = (case ks_dry_run st of None \<Rightarrow> \<not> kc_safe cfg | Some b \<Rightarrow> b)"
    and "kc_dry_run cfg \<or> kc_safe cfg \<or> ks_allow_unsafe_context st"
proof -
  from assms obtain parsed safe where read: "parse_rbac (kp_exists p c) (kp_read p c) (kp_load_all p)
      (SourcePath (ks_initial_manifest st)) = Inr parsed"
    and safe: "is_recognized_sandbox p st c = (Inr safe, c')"
    and guard: "safe \<or> (case ks_dry_run st of None \<Rightarrow> \<not> safe | Some b \<Rightarrow> b) \<or> ks_allow_unsafe_context st"
    and cfg: "cfg = kubernetes_settings.extend st (kubernetes_config.fields
      (resolve_effective_policy parsed (account_ref st)) safe
      (case ks_dry_run st of None \<Rightarrow> \<not> safe | Some b \<Rightarrow> b))"
    unfolding new_kubernetes_def read_manifest_def seq_Inr_iff Let_def
    by (fastforce simp: ret_def throw_def split: if_splits)
  show thesis
    by (rule that [OF read]) (use safe guard in \<open>simp_all add: cfg kubernetes_settings.defs
        kubernetes_config.defs disj_commute disj_left_commute split: option.split\<close>)
qed

section \<open>The object's fields\<close>

lemma outside_eq_iff [op_simps]:
  "outside m s = (r, s') \<longleftrightarrow> (\<exists>c. m (kb_world s) = (r, c) \<and> s' = s\<lparr>kb_world := c\<rparr>)"
  by (auto simp: outside_def split: prod.splits)

lemma field_eq_iff [op_simps]: "field f s = (r, s') \<longleftrightarrow> r = Inr (f s) \<and> s' = s"
  by (auto simp: field_def)

lemma set_field_eq_iff [op_simps]:
  "set_cursor n s = (r, s') \<longleftrightarrow> r = Inr () \<and> s' = s\<lparr>kb_log_line_cursor := n\<rparr>"
  "set_current P s = (r, s') \<longleftrightarrow> r = Inr () \<and> s' = s\<lparr>kb_current_policy := P\<rparr>"
  "set_documents docs s = (r, s') \<longleftrightarrow> r = Inr () \<and> s' = s\<lparr>kb_candidate_documents := docs\<rparr>"
  "set_pod pod s = (r, s') \<longleftrightarrow> r = Inr () \<and> s' = s\<lparr>kb_pod_name := pod\<rparr>"
  by (auto simp: set_cursor_def set_current_def set_documents_def set_pod_def)

lemma keeps_outside: "keeps (\<lambda>s. kb_current_policy s) (outside m)"
  by (auto simp: keeps_def outside_def split: prod.splits)

lemma keeps_outside_world:
  "keeps view m \<Longrightarrow> keeps (\<lambda>s. view (kb_world s)) (outside m)"
  unfolding keeps_def by (auto simp: outside_def split: prod.splits) (metis snd_conv)

lemma keeps_fields [intro, simp]:
  "keeps view (field f)"
  "keeps (\<lambda>s. kb_current_policy s) (set_cursor n)"
  "keeps (\<lambda>s. kb_current_policy s) (set_documents docs)"
  "keeps (\<lambda>s. kb_current_policy s) (set_pod pod)"
  "keeps (\<lambda>s. v (kb_world s)) (set_cursor n)"
  "keeps (\<lambda>s. v (kb_world s)) (set_current P)"
  "keeps (\<lambda>s. v (kb_world s)) (set_documents docs)"
  "keeps (\<lambda>s. v (kb_world s)) (set_pod pod)"
  by (simp_all add: keeps_def field_def set_cursor_def set_current_def set_documents_def set_pod_def)

lemma keeps_poll:
  assumes "keeps view look" and "keeps view (outside (kp_sleep p))"
  shows "keeps view (poll p look stop deadline k latest)"
  using assms
proof (induction k arbitrary: latest)
  case (Suc k)
  then show ?case by (auto intro!: keeps_seq)
qed simp

lemma keeps_each_do: "(\<And>x. keeps view (f x)) \<Longrightarrow> keeps view (each_do f xs)"
  by (induction xs) (auto intro!: keeps_seq)

lemma keeps_run_command:
  "keeps view (kp_execute p command input timeout) \<Longrightarrow>
   keeps view (run_command p command input check timeout)"
  by (auto simp: run_command_def intro!: keeps_seq)

section \<open>The contract of the agent layer\<close>

lemma kubernetes_adapter_sel [simp]:
  "env_name (kubernetes_adapter p cfg) = kubernetes_name cfg"
  "env_get_current_policy (kubernetes_adapter p cfg) = field kb_current_policy"
  "env_get_observed_usage (kubernetes_adapter p cfg) = get_observed_usage p cfg"
  "env_apply_policy (kubernetes_adapter p cfg) = apply_policy p cfg"
  "env_verify_workload (kubernetes_adapter p cfg) = verify_workload p cfg"
  "env_restore_policy (kubernetes_adapter p cfg) = restore_policy p cfg"
  "env_describe_failure (kubernetes_adapter p cfg) = describe_failure"
  by (simp_all add: kubernetes_adapter_def)

lemma keeps_observation:
  assumes "\<And>target. keeps view (outside (kubectl p cfg [''logs'', ''-n'', ks_namespace cfg, target] None False 30))"
    and "keeps view (outside (kp_sleep p))" and "\<And>n. keeps view (set_cursor n)"
  shows "keeps view (get_observed_usage p cfg)"
    and "keeps view (outside (run_command p (ks_smoke_command cfg) None False 120)) \<Longrightarrow>
      keeps view (verify_workload p cfg)"
  by (auto simp: get_observed_usage_def verify_workload_def clock_def read_events_def read_denials_def
      logs_def Let_def intro!: keeps_seq keeps_poll assms split: prod.split)

lemma each_do_Inr_keeps:
  assumes "each_do f xs s = (Inr u, s')" and "\<And>x. keeps view (f x)"
  shows "view s' = view s"
  using keepsD [OF keeps_each_do [of view f xs] assms(1)] assms(2) by blast

interpretation kubernetes: environment "kubernetes_adapter p cfg" kb_current_policy
  "\<lambda>_. kc_original_policy cfg"
proof unfold_locales
  have logs: "keeps kb_current_policy
      (outside (kubectl p cfg [''logs'', ''-n'', ks_namespace cfg, target] None False 30))" for target
    by (rule keeps_outside)
  note observation = keeps_observation [OF logs keeps_outside keeps_fields(2)]
  have const: "keeps (\<lambda>w. (kb_current_policy w, kc_original_policy cfg)) m" if "keeps kb_current_policy m"
    for m :: "('a kubernetes, 'b) op"
    using that by (simp add: keeps_def)
  show "keeps (\<lambda>w. (kb_current_policy w, kc_original_policy cfg))
      (env_get_observed_usage (kubernetes_adapter p cfg))"
    unfolding kubernetes_adapter_sel by (intro const observation(1))
  show "keeps (\<lambda>w. (kb_current_policy w, kc_original_policy cfg))
      (env_verify_workload (kubernetes_adapter p cfg))"
    unfolding kubernetes_adapter_sel by (intro const observation(2) keeps_outside)
qed (auto simp: keeps_def op_simps apply_policy_def restore_policy_def describe_failure_def Let_def
      field_def ret_def split: if_splits)

end
