(* ===== verification/Kubernetes_Server.thy ===== *)
theory Kubernetes_Server
  imports Kubernetes_Safety
begin

text \<open>
  The adapter against the documented behaviour of an API server. \<open>objects c\<close> is the table of RBAC
  objects as they were last applied, keyed by kind, namespace and name; \<open>serves\<close> says what the
  commands the adapter issues do to it: \<open>kubectl apply -f -\<close> of generated documents and
  \<open>kubectl delete\<close> of one named RBAC object. An exit code of 0 means the change was made, and in any
  case no other object is touched.
\<close>

type_synonym object_key = "string \<times> string \<times> string"

definition document_key :: "pyval \<Rightarrow> object_key" where
  "document_key doc =
     (case doc of
        PDict d \<Rightarrow>
          (lower_text (py_str (dget d ''kind'')),
           (case dget d ''metadata'' of
              PDict md \<Rightarrow>
                (if truthy (dget md ''namespace'') then py_str (dget md ''namespace'') else '''',
                 py_str (dget md ''name''))
            | _ \<Rightarrow> ('''', '''')))
      | _ \<Rightarrow> ('''', '''', ''''))"

definition put_documents ::
  "pyval list \<Rightarrow> (object_key \<Rightarrow> pyval option) \<Rightarrow> object_key \<Rightarrow> pyval option" where
  "put_documents docs table = fold (\<lambda>doc t. t(document_key doc \<mapsto> doc)) docs table"

definition delete_command :: "string \<Rightarrow> object_key \<Rightarrow> string list" where
  "delete_command ctx key =
     (case key of (kind, ns, name) \<Rightarrow>
        [''kubectl'', ''--context'', ctx, ''delete'', kind, name, ''--ignore-not-found''] @
        (if ns = '''' then [] else [''-n'', ns]))"

definition apply_command :: "string \<Rightarrow> string list" where
  "apply_command ctx = [''kubectl'', ''--context'', ctx, ''apply'', ''-f'', ''-'']"

text \<open>The documents of a policy name a namespace where \<open>kubectl\<close> needs one; a key names one RBAC
  object where the kind and the namespace belong together and the name is not an option.\<close>

definition namespaced :: "policy \<Rightarrow> bool" where
  "namespaced P \<longleftrightarrow> Some '''' \<notin> pm_namespace ` set (pl_permissions P)"

definition rbac_key :: "object_key \<Rightarrow> bool" where
  "rbac_key key \<longleftrightarrow>
     (case key of (kind, ns, name) \<Rightarrow>
        \<not> prefix ''-'' name \<and>
        (if ns = '''' then kind \<in> {''clusterrole'', ''clusterrolebinding''}
         else kind \<in> {''role'', ''rolebinding''}))"

definition applies :: "'c kubernetes_ports \<Rightarrow> string \<Rightarrow> ('c \<Rightarrow> object_key \<Rightarrow> pyval option) \<Rightarrow> bool" where
  "applies p ctx objects \<longleftrightarrow>
     (\<forall>input P docs c r c'. kp_load_all p input = Inr docs \<longrightarrow>
        docs = policy_to_documents P \<longrightarrow> namespaced P \<longrightarrow>
        kp_execute p (apply_command ctx) (Some input) 90 c = (r, c') \<longrightarrow>
        (\<forall>key. key \<notin> document_key ` set docs \<longrightarrow> objects c' key = objects c key) \<and>
        (\<forall>done. r = Inr done \<longrightarrow> cp_returncode done = 0 \<longrightarrow>
           objects c' = put_documents docs (objects c)))"

definition deletes :: "'c kubernetes_ports \<Rightarrow> string \<Rightarrow> ('c \<Rightarrow> object_key \<Rightarrow> pyval option) \<Rightarrow> bool" where
  "deletes p ctx objects \<longleftrightarrow>
     (\<forall>key c r c'. rbac_key key \<longrightarrow> kp_execute p (delete_command ctx key) None 90 c = (r, c') \<longrightarrow>
        (\<forall>key'. key' \<noteq> key \<longrightarrow> objects c' key' = objects c key') \<and>
        (\<forall>done. r = Inr done \<longrightarrow> cp_returncode done = 0 \<longrightarrow> objects c' key = None))"

definition serves :: "'c kubernetes_ports \<Rightarrow> string \<Rightarrow> ('c \<Rightarrow> object_key \<Rightarrow> pyval option) \<Rightarrow> bool" where
  "serves p ctx objects \<longleftrightarrow>
     applies p ctx objects \<and> deletes p ctx objects \<and>
     (\<forall>path text. keeps objects (kp_write_proposal p path text))"

section \<open>Tables\<close>

lemma put_documents_other:
  "key \<notin> document_key ` set docs \<Longrightarrow> put_documents docs table key = table key"
  unfolding put_documents_def by (induction docs arbitrary: table) auto

lemma put_documents_mem:
  assumes "doc \<in> set docs" and "distinct (map document_key docs)"
  shows "put_documents docs table (document_key doc) = Some doc"
  using assms
proof (induction docs arbitrary: table)
  case (Cons d docs)
  show ?case
  proof (cases "doc = d")
    case True
    with Cons.prems(2) have "document_key d \<notin> document_key ` set docs" by auto
    from put_documents_other [OF this, of "table(document_key d \<mapsto> d)"] True
    show ?thesis by (simp add: put_documents_def)
  next
    case False
    with Cons show ?thesis by (simp add: put_documents_def)
  qed
qed simp

section \<open>One command\<close>

lemma change_apply:
  assumes "serves p (ks_context cfg) objects" and "kp_load_all p text = Inr (policy_to_documents P)"
    and "namespaced P" and "change p cfg [''apply'', ''-f'', ''-''] (Some text) True s = (Inr r, s')"
  shows "objects (kb_world s') = put_documents (policy_to_documents P) (objects (kb_world s))"
  using assms
  by (fastforce simp: serves_def applies_def apply_command_def change_def kubectl_def run_command_def
      op_simps split: if_splits)

lemma change_apply_fields:
  assumes "change p cfg args input check s = (Inr r, s')"
  shows "kb_candidate_documents s' = kb_candidate_documents s"
  using assms by (auto simp: change_def op_simps)

lemma change_delete:
  assumes "serves p (ks_context cfg) objects" and "rbac_key key"
    and "args = drop 3 (delete_command (ks_context cfg) key)"
    and "change p cfg args None check s = (r, s')"
  shows "key' \<noteq> key \<Longrightarrow> objects (kb_world s') key' = objects (kb_world s) key'"
    and "check \<Longrightarrow> r = Inr x \<Longrightarrow> objects (kb_world s') key = None"
proof -
  have command: "[''kubectl'', ''--context'', ks_context cfg] @ args = delete_command (ks_context cfg) key"
    using assms(3) by (simp add: delete_command_def split: prod.split)
  from assms(4) obtain q c where run: "kp_execute p (delete_command (ks_context cfg) key) None 90
      (kb_world s) = (q, c)" and s': "kb_world s' = c"
    and code: "check \<Longrightarrow> r = Inr x \<Longrightarrow> \<exists>done. q = Inr done \<and> cp_returncode done = 0"
    unfolding change_def kubectl_def run_command_def command
    by (cases "kp_execute p (delete_command (ks_context cfg) key) None 90 (kb_world s)")
      (auto simp: outside_def seq_def ret_def throw_def split: sum.splits if_splits)
  note law = assms(1) [unfolded serves_def deletes_def, THEN conjunct2, THEN conjunct1,
      rule_format, OF assms(2) run]
  show "key' \<noteq> key \<Longrightarrow> objects (kb_world s') key' = objects (kb_world s) key'"
    using law by (cases key') (simp add: s')
  show "check \<Longrightarrow> r = Inr x \<Longrightarrow> objects (kb_world s') key = None"
    using law code by (auto simp: s')
qed

section \<open>Applying a policy\<close>

definition original_bindings :: "kubernetes_config \<Rightarrow> object_key set" where
  "original_bindings cfg =
     {(''rolebinding'', ks_namespace cfg, ks_original_binding_name cfg),
      (''clusterrolebinding'', '''', ks_original_binding_name cfg)}"

lemma delete_original_command:
  assumes "ks_namespace cfg \<noteq> ''''"
  shows "delete_original cfg ''rolebinding'' = drop 3 (delete_command (ks_context cfg)
      (''rolebinding'', ks_namespace cfg, ks_original_binding_name cfg))"
    and "delete_original cfg ''clusterrolebinding'' = drop 3 (delete_command (ks_context cfg)
      (''clusterrolebinding'', '''', ks_original_binding_name cfg))"
  using assms by (simp_all add: delete_original_def delete_command_def)

lemma original_bindings_keys:
  assumes "ks_namespace cfg \<noteq> ''''" and "\<not> prefix ''-'' (ks_original_binding_name cfg)"
  shows "rbac_key (''rolebinding'', ks_namespace cfg, ks_original_binding_name cfg)"
    and "rbac_key (''clusterrolebinding'', '''', ks_original_binding_name cfg)"
  using assms by (simp_all add: rbac_key_def)

lemma delete_originals_effect:
  assumes "serves p (ks_context cfg) objects" and "ks_namespace cfg \<noteq> ''''"
    and "\<not> prefix ''-'' (ks_original_binding_name cfg)"
    and "each_do (\<lambda>kind. change p cfg (delete_original cfg kind) None True)
      [''rolebinding'', ''clusterrolebinding''] s = (Inr (), s')"
  shows "objects (kb_world s') key = (if key \<in> original_bindings cfg then None else objects (kb_world s) key)"
    and "kb_candidate_documents s' = kb_candidate_documents s"
proof -
  from assms(4) obtain x u y where
    one: "change p cfg (delete_original cfg ''rolebinding'') None True s = (Inr x, u)"
    and two: "change p cfg (delete_original cfg ''clusterrolebinding'') None True u = (Inr y, s')"
    by (auto simp: op_simps)
  note d1 = change_delete [OF assms(1) original_bindings_keys(1) [OF assms(2,3)]
      delete_original_command(1) [OF assms(2)] one]
  note d2 = change_delete [OF assms(1) original_bindings_keys(2) [OF assms(2,3)]
      delete_original_command(2) [OF assms(2)] two]
  show "objects (kb_world s') key = (if key \<in> original_bindings cfg then None else objects (kb_world s) key)"
    using d1(1) [of key] d1(2) d2(1) [of key] d2(2) by (auto simp: original_bindings_def)
  show "kb_candidate_documents s' = kb_candidate_documents s"
    using change_apply_fields [OF one] change_apply_fields [OF two] by simp
qed

lemma apply_policy_Inr:
  assumes "apply_policy p cfg P s = (Inr (), s')"
  obtains parsed c u v where "\<not> kc_dry_run cfg"
    and "parse_rbac (kp_exists p (kb_world s)) (kp_read p (kb_world s)) (kp_load_all p)
      (SourceText (policy_to_yaml (kp_dump p) P)) = Inr parsed"
    and "policy_keys (resolve_effective_policy parsed (account_ref cfg)) = policy_keys P"
    and "kp_write_proposal p (proposal_path cfg) (policy_to_yaml (kp_dump p) P) (kb_world s) = (Inr (), c)"
    and "(if policy_to_documents P \<noteq> [] then
        \<exists>r. change p cfg [''apply'', ''-f'', ''-''] (Some (policy_to_yaml (kp_dump p) P)) True
          (s\<lparr>kb_world := c, kb_candidate_documents := policy_to_documents P\<rparr>) = (Inr r, u)
      else u = s\<lparr>kb_world := c, kb_candidate_documents := policy_to_documents P\<rparr>)"
    and "each_do (\<lambda>kind. change p cfg (delete_original cfg kind) None True)
      [''rolebinding'', ''clusterrolebinding''] u = (Inr (), v)"
    and "s' = v\<lparr>kb_current_policy := P\<rparr>"
  using assms
  by (auto simp: apply_policy_def validate_text_def read_manifest_def op_simps Let_def
      simp del: each_do.simps split: if_splits)

text \<open>What passed the round-trip check names its namespaces: the parser refuses a \<open>Role\<close> without
  one. (A text without a line break may be read as a path, so it proves nothing.)\<close>

lemma parsed_namespaced:
  assumes "parse_documents (policy_to_documents P) = Inr parsed"
  shows "namespaced P"
  unfolding namespaced_def
proof
  assume "Some '''' \<in> pm_namespace ` set (pl_permissions P)"
  then obtain ps where scope: "(Some '''', ps) \<in> set (policy_scopes P)" by (auto simp: policy_scopes_mem_iff)
  let ?docs = "concat (map (\<lambda>(ns, ps). [role_document P ns ps, binding_document P ns]) (policy_scopes P))"
  have docs: "policy_to_documents P = map PDict ?docs"
    by (simp add: policy_to_documents_def map_concat o_def scope_documents_def [abs_def] case_prod_beta)
  have "\<forall>d \<in> set ?docs. dget d ''kind'' \<noteq> PStr ''List''"
    by (auto simp: role_document_def binding_document_def)
  then have "flatten_documents (policy_to_documents P) = Inr ?docs"
    unfolding docs by (rule flatten_mappings)
  with assms have "\<exists>items. rmap parse_document ?docs = Inr items"
    by (auto simp: parse_documents_def rbind_Inr_iff)
  moreover have "role_document P (Some '''') ps \<in> set ?docs" using scope by force
  ultimately obtain item where "parse_document (role_document P (Some '''') ps) = Inr item"
    unfolding rmap_total_iff by blast
  then show False
    by (simp add: parse_document_def role_document_def member_of_def unhashable_def supported_kinds_def
        parse_metadata_def scoped_metadata_def role_name_for_def parse_role_def)
qed

lemma parsed_text_namespaced:
  assumes "parse_rbac e r load (SourceText text) = Inr parsed" and "char_of (10 :: nat) \<in> set text"
    and "load text = Inr (policy_to_documents P)"
  shows "namespaced P"
  using assms by (intro parsed_namespaced [of P parsed]) (simp add: parse_rbac_def load_documents_def)

lemma apply_policy_effect:
  assumes "serves p (ks_context cfg) objects" and "ks_namespace cfg \<noteq> ''''"
    and "\<not> prefix ''-'' (ks_original_binding_name cfg)"
    and "policy_to_documents P \<noteq> [] \<longrightarrow> char_of (10 :: nat) \<in> set (policy_to_yaml (kp_dump p) P)"
    and "policy_to_documents P \<noteq> [] \<longrightarrow>
      kp_load_all p (policy_to_yaml (kp_dump p) P) = Inr (policy_to_documents P)"
    and "apply_policy p cfg P s = (Inr (), s')"
  shows "objects (kb_world s') key =
      (if key \<in> original_bindings cfg then None
       else put_documents (policy_to_documents P) (objects (kb_world s)) key)"
    and "kb_current_policy s' = P" and "kb_candidate_documents s' = policy_to_documents P"
proof -
  from assms(6) obtain parsed c u v where
    parsed: "parse_rbac (kp_exists p (kb_world s)) (kp_read p (kb_world s)) (kp_load_all p)
      (SourceText (policy_to_yaml (kp_dump p) P)) = Inr parsed"
    and wrote: "kp_write_proposal p (proposal_path cfg) (policy_to_yaml (kp_dump p) P) (kb_world s) = (Inr (), c)"
    and u: "if policy_to_documents P \<noteq> [] then
        \<exists>r. change p cfg [''apply'', ''-f'', ''-''] (Some (policy_to_yaml (kp_dump p) P)) True
          (s\<lparr>kb_world := c, kb_candidate_documents := policy_to_documents P\<rparr>) = (Inr r, u)
      else u = s\<lparr>kb_world := c, kb_candidate_documents := policy_to_documents P\<rparr>"
    and del: "each_do (\<lambda>kind. change p cfg (delete_original cfg kind) None True)
      [''rolebinding'', ''clusterrolebinding''] u = (Inr (), v)"
    and s': "s' = v\<lparr>kb_current_policy := P\<rparr>"
    by (rule apply_policy_Inr)
  have "keeps objects (kp_write_proposal p (proposal_path cfg) (policy_to_yaml (kp_dump p) P))"
    using assms(1) by (simp add: serves_def)
  from keepsD [OF this wrote] have "objects c = objects (kb_world s)" .
  then have put: "objects (kb_world u) = put_documents (policy_to_documents P) (objects (kb_world s))"
    using u change_apply [OF assms(1) assms(5) [rule_format]]
      parsed_text_namespaced [OF parsed assms(4) [rule_format] assms(5) [rule_format]]
    by (auto simp: put_documents_def split: if_splits)
  have docs: "kb_candidate_documents u = policy_to_documents P"
    using u by (auto split: if_splits dest!: change_apply_fields)
  note gone = delete_originals_effect [OF assms(1-3) del]
  show "objects (kb_world s') key =
      (if key \<in> original_bindings cfg then None
       else put_documents (policy_to_documents P) (objects (kb_world s)) key)"
    using gone(1) [of key] put by (simp add: s')
  show "kb_current_policy s' = P" by (simp add: s')
  show "kb_candidate_documents s' = policy_to_documents P"
    using gone(2) docs by (simp add: s')
qed

end
