(* ===== verification/Kubernetes_Restore.thy ===== *)
theory Kubernetes_Restore
  imports Kubernetes_Server
begin

text \<open>
  Restoring, and what it leaves behind: the documents of the original policy are written under
  names of their own, which no operation deletes, so a candidate that is applied later does not
  replace them. Also: the round-trip check accepts every expressible policy, and the polling loops
  are bounded.
\<close>

section \<open>Names of generated documents\<close>

definition named_after :: "string \<Rightarrow> object_key \<Rightarrow> bool" where
  "named_after name key \<longleftrightarrow> prefix (name @ ''-'') (snd (snd key))"

lemma lower_kinds:
  "lower_text ''Role'' = ''role''" "lower_text ''ClusterRole'' = ''clusterrole''"
  "lower_text ''RoleBinding'' = ''rolebinding''"
  "lower_text ''ClusterRoleBinding'' = ''clusterrolebinding''"
  by code_simp+

lemma document_key_role:
  "document_key (PDict (role_document P ns ps)) =
     (if ns = None then ''clusterrole'' else ''role'', or_empty ns, role_name_for P ns)"
  by (cases ns) (auto simp: document_key_def role_document_def scoped_metadata_def lower_kinds)

lemma document_key_binding:
  "document_key (PDict (binding_document P ns)) =
     (if ns = None then ''clusterrolebinding'' else ''rolebinding'', or_empty ns,
      role_name_for P ns @ ''-binding'')"
  by (cases ns) (auto simp: document_key_def binding_document_def scoped_metadata_def lower_kinds)

lemmas document_keys = document_key_role document_key_binding

lemma document_named_after:
  "doc \<in> set (policy_to_documents P) \<Longrightarrow> named_after (pl_name P) (document_key doc)"
  by (auto simp: policy_to_documents_def scope_documents_def document_keys named_after_def
      role_name_for_def prefix_def)

definition key_scope :: "object_key \<Rightarrow> string option" where
  "key_scope key =
     (if fst key \<in> {''clusterrole'', ''clusterrolebinding''} then None else Some (fst (snd key)))"

lemma key_scope_document:
  "doc \<in> set (scope_documents P scope) \<Longrightarrow> key_scope (document_key doc) = fst scope"
  by (cases "fst scope") (auto simp: scope_documents_def document_keys key_scope_def)

lemma distinct_scope_keys: "distinct (map document_key (scope_documents P scope))"
  by (simp add: scope_documents_def document_keys)

lemma distinct_document_keys: "distinct (map document_key (policy_to_documents P))"
proof -
  have "distinct (map document_key (concat (map (scope_documents P) scopes)))"
    if "distinct (map fst scopes)" for scopes
    using that
  proof (induction scopes)
    case (Cons s scopes)
    have "document_key d \<noteq> document_key d'"
      if "d \<in> set (scope_documents P s)" "t \<in> set scopes" "d' \<in> set (scope_documents P t)" for d t d'
    proof
      assume "document_key d = document_key d'"
      then have "fst s = fst t" using key_scope_document that by metis
      with Cons.prems that(2) show False by force
    qed
    then have "document_key ` set (scope_documents P s) \<inter>
        document_key ` set (concat (map (scope_documents P) scopes)) = {}"
      by fastforce
    with Cons distinct_scope_keys [of P s] show ?case by simp
  qed simp
  then show ?thesis
    unfolding policy_to_documents_def using distinct_policy_scopes by blast
qed

text \<open>Names built from different suffixes of the same account do not meet.\<close>

lemma not_both_named_after:
  assumes "named_after (sa @ ''-effective'') key" and "named_after (sa @ ''-kuber'') key'"
  shows "key \<noteq> key'"
  using assms by (auto simp: named_after_def prefix_def)

section \<open>Restoring\<close>

lemma restore_policy_effect:
  assumes "serves p (ks_context cfg) objects" and "\<not> kc_dry_run cfg" and "namespaced (kc_original_policy cfg)"
    and "kp_load_all p (policy_to_yaml (kp_dump p) (kc_original_policy cfg)) =
      Inr (policy_to_documents (kc_original_policy cfg))"
    and "restore_policy p cfg s = (Inr (), s')"
    and "doc \<in> set (policy_to_documents (kc_original_policy cfg))"
  shows "objects (kb_world s') (document_key doc) = Some doc"
proof -
  from assms(2,5) obtain u r v where
    "change p cfg [''apply'', ''-f'', ''-'']
      (Some (policy_to_yaml (kp_dump p) (kc_original_policy cfg))) True u = (Inr r, v)"
    and s': "s' = v\<lparr>kb_current_policy := kc_original_policy cfg\<rparr>"
    by (auto simp: restore_policy_def op_simps)
  from change_apply [OF assms(1,4,3) this(1)] show ?thesis
    by (simp add: s' put_documents_mem [OF assms(6) distinct_document_keys])
qed

lemma restore_clears:
  assumes "restore_policy p cfg s = (Inr (), s')" and "\<not> kc_dry_run cfg"
  shows "kb_candidate_documents s' = []"
  using assms
  by (auto simp: restore_policy_def delete_candidates_def op_simps simp del: each_do.simps
      dest!: change_apply_fields)

lemma applied_policy_keeps_others:
  assumes "serves p (ks_context cfg) objects" and "ks_namespace cfg \<noteq> ''''"
    and "\<not> prefix ''-'' (ks_original_binding_name cfg)"
    and "char_of (10 :: nat) \<in> set (policy_to_yaml (kp_dump p) P)"
    and "kp_load_all p (policy_to_yaml (kp_dump p) P) = Inr (policy_to_documents P)"
    and "apply_policy p cfg P s = (Inr (), s')"
    and "key \<notin> original_bindings cfg" and "key \<notin> document_key ` set (policy_to_documents P)"
  shows "objects (kb_world s') key = objects (kb_world s) key"
  using apply_policy_effect(1) [OF assms(1-3) _ _ assms(6), of key] assms(4,5,7,8)
  by (simp add: put_documents_other)

section \<open>Preparing the sandbox\<close>

text \<open>
  What \<open>prepare_sandbox\<close> runs besides deleting objects of Kuber's own names: commands that change
  no RBAC object, and \<open>kubectl apply -f\<close> of the workload's manifest, which touches the objects of that
  manifest only.
\<close>

definition sandbox_commands :: "kubernetes_config \<Rightarrow> string list list" where
  "sandbox_commands cfg =
     map (\<lambda>job. [''delete'', ''job'', job, ''-n'', ks_namespace cfg, ''--ignore-not-found''])
       [''kuber-warmup'', ''kuber-smoke'', ''kuber-worker-smoke''] @
     [[''delete'', ''lease'', ks_deployment_name cfg, ''-n'', ks_namespace cfg, ''--ignore-not-found''],
      [''rollout'', ''restart'', ''deployment/'' @ ks_deployment_name cfg, ''-n'', ks_namespace cfg],
      [''get'', ''pods'', ''-n'', ks_namespace cfg, ''-l'', ''app='' @ ks_deployment_name cfg,
       ''--field-selector=status.phase=Running'', ''--sort-by=.metadata.creationTimestamp'', ''-o'',
       ''jsonpath={.items[-1].metadata.name}'']]"

definition prepares ::
  "'c kubernetes_ports \<Rightarrow> kubernetes_config \<Rightarrow> ('c \<Rightarrow> object_key \<Rightarrow> pyval option) \<Rightarrow> object_key set \<Rightarrow> bool" where
  "prepares p cfg objects manifest \<longleftrightarrow>
     (\<forall>args \<in> set (sandbox_commands cfg).
        keeps objects (kp_execute p ([''kubectl'', ''--context'', ks_context cfg] @ args) None 90)) \<and>
     keeps objects (kp_execute p [''kubectl'', ''--context'', ks_context cfg, ''rollout'', ''status'',
       ''deployment/'' @ ks_deployment_name cfg, ''-n'', ks_namespace cfg, ''--timeout=120s''] None 130) \<and>
     (\<forall>key. key \<notin> manifest \<longrightarrow>
        keeps (\<lambda>c. objects c key) (kp_execute p [''kubectl'', ''--context'', ks_context cfg, ''apply'', ''-f'',
          ks_initial_manifest cfg] None 90))"

lemma keeps_at: "keeps objects m \<Longrightarrow> keeps (\<lambda>c. objects c key) m"
  unfolding keeps_def by metis

lemma keeps_change:
  assumes "keeps view (kp_execute p ([''kubectl'', ''--context'', ks_context cfg] @ args) None 90)"
  shows "keeps (\<lambda>s. view (kb_world s)) (change p cfg args None check)"
  unfolding change_def kubectl_def by (intro keeps_outside_world keeps_run_command assms)

lemma known_object_keys:
  assumes "obj \<in> set (known_objects cfg)" and "ks_namespace cfg \<noteq> ''''"
    and "\<not> prefix ''-'' (ks_service_account cfg)" and "ks_service_account cfg \<noteq> ''''"
  shows "\<exists>key. rbac_key key \<and> named_after (ks_service_account cfg @ ''-kuber'') key \<and>
    delete_known cfg obj = drop 3 (delete_command (ks_context cfg) key)"
proof -
  from assms(4) have "prefix ''-'' (ks_service_account cfg @ suffix) = prefix ''-'' (ks_service_account cfg)" for suffix
    by (cases "ks_service_account cfg") simp_all
  note plain = this
  obtain kind name own where obj: "obj = (kind, name, own)" by (cases obj) auto
  let ?key = "(kind, if own then ks_namespace cfg else '''', name)"
  have "rbac_key ?key \<and> named_after (ks_service_account cfg @ ''-kuber'') ?key \<and>
      delete_known cfg obj = drop 3 (delete_command (ks_context cfg) ?key)"
    using assms(1-3)
    by (auto simp: obj known_objects_def Let_def rbac_key_def named_after_def delete_known_def
        delete_command_def plain)
  then show ?thesis by blast
qed

lemma prepare_keeps_others:
  assumes "serves p (ks_context cfg) objects" and "prepares p cfg objects manifest"
    and "ks_namespace cfg \<noteq> ''''" and "\<not> prefix ''-'' (ks_service_account cfg)" and "ks_service_account cfg \<noteq> ''''"
    and "kb_candidate_documents s = []" and "key \<notin> manifest"
    and "\<And>key'. named_after (ks_service_account cfg @ ''-kuber'') key' \<Longrightarrow> key' \<noteq> key"
    and "prepare_sandbox p cfg s = (r, s')"
  shows "objects (kb_world s') key = objects (kb_world s) key"
proof -
  let ?view = "\<lambda>s. objects (kb_world s) key"
  have known: "keeps ?view (change p cfg (delete_known cfg obj) None False)" if "obj \<in> set (known_objects cfg)" for obj
  proof -
    from known_object_keys [OF that assms(3-5)] obtain key' where key': "rbac_key key'"
      "named_after (ks_service_account cfg @ ''-kuber'') key'"
      "delete_known cfg obj = drop 3 (delete_command (ks_context cfg) key')" by blast
    show ?thesis
      unfolding keeps_def
      using change_delete(1) [OF assms(1) key'(1,3)] assms(8) [OF key'(2)] by (metis prod.collapse)
  qed
  have others: "keeps ?view (change p cfg args None check)" if "args \<in> set (sandbox_commands cfg)" for args check
  proof -
    have "keeps objects (kp_execute p ([''kubectl'', ''--context'', ks_context cfg] @ args) None 90)"
      using assms(2) that unfolding prepares_def by blast
    from keeps_change [OF keeps_at [OF this]] show ?thesis .
  qed
  have manifest: "keeps ?view (change p cfg [''apply'', ''-f'', ks_initial_manifest cfg] None True)"
  proof -
    have "keeps (\<lambda>c. objects c key) (kp_execute p ([''kubectl'', ''--context'', ks_context cfg] @
        [''apply'', ''-f'', ks_initial_manifest cfg]) None 90)"
      using assms(2,7) unfolding prepares_def by (simp del: split_paired_All)
    from keeps_change [OF this] show ?thesis .
  qed
  have status: "keeps ?view (outside (kubectl p cfg [''rollout'', ''status'', ''deployment/'' @ ks_deployment_name cfg,
      ''-n'', ks_namespace cfg, ''--timeout=120s''] None True 130))"
  proof -
    have "keeps objects (kp_execute p ([''kubectl'', ''--context'', ks_context cfg] @ [''rollout'', ''status'',
        ''deployment/'' @ ks_deployment_name cfg, ''-n'', ks_namespace cfg, ''--timeout=120s'']) None 130)"
      using assms(2) unfolding prepares_def by simp
    from keeps_outside_world [OF keeps_run_command [OF keeps_at [OF this]]] show ?thesis
      unfolding kubectl_def .
  qed
  have each: "keeps ?view (each_do f xs)" if "\<And>x. x \<in> set xs \<Longrightarrow> keeps ?view (f x)" for f :: "'b \<Rightarrow> ('a kubernetes, completed_process) op" and xs
    using that by (induction xs) (auto intro!: keeps_seq)
  have deleted: "delete_candidates p cfg s = set_documents [] s"
    using assms(6) by (simp add: delete_candidates_def seq_def field_def ret_def)
  let ?rest = "seq (each_do (\<lambda>obj. change p cfg (delete_known cfg obj) None False) (known_objects cfg)) (\<lambda>_.
    seq (each_do (\<lambda>job. change p cfg
           [''delete'', ''job'', job, ''-n'', ks_namespace cfg, ''--ignore-not-found''] None False)
           [''kuber-warmup'', ''kuber-smoke'', ''kuber-worker-smoke'']) (\<lambda>_.
    seq (change p cfg [''delete'', ''lease'', ks_deployment_name cfg, ''-n'', ks_namespace cfg,
           ''--ignore-not-found''] None False) (\<lambda>_.
    seq (change p cfg [''apply'', ''-f'', ks_initial_manifest cfg] None True) (\<lambda>_.
    seq (change p cfg [''rollout'', ''restart'', ''deployment/'' @ ks_deployment_name cfg, ''-n'',
           ks_namespace cfg] None True) (\<lambda>_.
    seq (outside (kubectl p cfg [''rollout'', ''status'', ''deployment/'' @ ks_deployment_name cfg,
           ''-n'', ks_namespace cfg, ''--timeout=120s''] None True 130)) (\<lambda>_.
    seq (change p cfg [''get'', ''pods'', ''-n'', ks_namespace cfg, ''-l'',
           ''app='' @ ks_deployment_name cfg, ''--field-selector=status.phase=Running'',
           ''--sort-by=.metadata.creationTimestamp'', ''-o'',
           ''jsonpath={.items[-1].metadata.name}''] None False) (\<lambda>r.
    seq (set_pod (let pod = py_strip (cp_stdout r) in if pod = '''' then None else Some pod)) (\<lambda>_.
    seq (set_current (kc_original_policy cfg)) (\<lambda>_.
    set_cursor 0)))))))))"
  have objs: "keeps ?view (each_do (\<lambda>obj. change p cfg (delete_known cfg obj) None False) (known_objects cfg))"
    by (rule each) (rule known)
  have jobs: "keeps ?view (each_do (\<lambda>job. change p cfg
      [''delete'', ''job'', job, ''-n'', ks_namespace cfg, ''--ignore-not-found''] None False)
      [''kuber-warmup'', ''kuber-smoke'', ''kuber-worker-smoke''])"
    by (rule each) (rule others, auto simp: sandbox_commands_def)
  note single = others [of "[''delete'', ''lease'', ks_deployment_name cfg, ''-n'', ks_namespace cfg,
      ''--ignore-not-found'']"]
    others [of "[''rollout'', ''restart'', ''deployment/'' @ ks_deployment_name cfg, ''-n'', ks_namespace cfg]"]
    others [of "[''get'', ''pods'', ''-n'', ks_namespace cfg, ''-l'', ''app='' @ ks_deployment_name cfg,
      ''--field-selector=status.phase=Running'', ''--sort-by=.metadata.creationTimestamp'', ''-o'',
      ''jsonpath={.items[-1].metadata.name}'']"]
  note fields = keeps_fields(5-8) [where v = "\<lambda>c. objects c key"]
  have "keeps ?view ?rest"
    by (rule keeps_seq objs jobs manifest status single fields | simp add: sandbox_commands_def)+
  moreover have "r = Inl (DryRunOnlyError ''live preparation requires the recognized sandbox'') \<and> s' = s \<or>
      ?rest (s\<lparr>kb_candidate_documents := []\<rparr>) = (r, s')"
    using assms(9) deleted by (simp add: prepare_sandbox_def seq_def [of "delete_candidates p cfg"]
        throw_def set_documents_def split: if_splits)
  ultimately show ?thesis using keepsD by fastforce
qed

lemma restored_documents_survive:
  assumes "serves p (ks_context cfg) objects" and "\<not> kc_dry_run cfg" and "namespaced (kc_original_policy cfg)"
    and "kp_load_all p (policy_to_yaml (kp_dump p) (kc_original_policy cfg)) =
      Inr (policy_to_documents (kc_original_policy cfg))"
    and "pl_name (kc_original_policy cfg) = sa @ ''-effective''"
    and "restore_policy p cfg s = (Inr (), s1)"
    and "doc \<in> set (policy_to_documents (kc_original_policy cfg))"
    and "ks_context cfg' = ks_context cfg" and "ks_namespace cfg' \<noteq> ''''"
    and "ks_service_account cfg' = sa" and "sa \<noteq> ''''" and "\<not> prefix ''-'' sa"
    and "\<not> prefix ''-'' (ks_original_binding_name cfg')"
    and "\<not> prefix (sa @ ''-effective-'') (ks_original_binding_name cfg')"
    and "prepares p cfg' objects manifest" and "document_key doc \<notin> manifest"
    and "kb_world s2 = kb_world s1" and "kb_candidate_documents s2 = []"
    and "t = s2 \<or> prepare_sandbox p cfg' s2 = (r, t)"
    and "char_of (10 :: nat) \<in> set (policy_to_yaml (kp_dump p) P)"
    and "kp_load_all p (policy_to_yaml (kp_dump p) P) = Inr (policy_to_documents P)"
    and "pl_name P = sa @ ''-kuber''" and "apply_policy p cfg' P t = (Inr (), s3)"
  shows "objects (kb_world s3) (document_key doc) = Some doc"
proof -
  have named: "named_after (sa @ ''-effective'') (document_key doc)"
    using document_named_after [OF assms(7)] by (simp add: assms(5))
  have serves: "serves p (ks_context cfg') objects" using assms(1,8) by simp
  have prepared: "objects (kb_world t) (document_key doc) = objects (kb_world s2) (document_key doc)"
    using assms(19)
  proof
    assume prep: "prepare_sandbox p cfg' s2 = (r, t)"
    show ?thesis
    proof (rule prepare_keeps_others [OF serves assms(15,9) _ _ assms(18,16) _ prep])
      show "key' \<noteq> document_key doc" if "named_after (ks_service_account cfg' @ ''-kuber'') key'" for key'
        using not_both_named_after [OF named, of key'] that assms(10) by auto
    qed (use assms(10-12) in simp_all)
  qed simp
  have "document_key doc \<notin> document_key ` set (policy_to_documents P)"
  proof
    assume "document_key doc \<in> document_key ` set (policy_to_documents P)"
    then obtain d where "d \<in> set (policy_to_documents P)" "document_key doc = document_key d" by blast
    with not_both_named_after [OF named, of "document_key d"] document_named_after [of d P] assms(22)
    show False by simp
  qed
  moreover have "document_key doc \<notin> original_bindings cfg'"
    using named assms(14) by (auto simp: original_bindings_def named_after_def)
  ultimately have "objects (kb_world s3) (document_key doc) = objects (kb_world t) (document_key doc)"
    using applied_policy_keeps_others [OF serves assms(9,13,20,21,23)] by simp
  with restore_policy_effect [OF assms(1-4,6,7)] prepared show ?thesis by (simp add: assms(17))
qed

section \<open>The round-trip check\<close>

lemma validate_text_accepts:
  assumes "expressible_policy P" and "canonical_policy P" and "account_of P = account_ref cfg"
    and "char_of (10 :: nat) \<in> set (policy_to_yaml (kp_dump p) P)"
    and "kp_load_all p (policy_to_yaml (kp_dump p) P) = Inr (policy_to_documents P)"
  shows "validate_text p cfg P (policy_to_yaml (kp_dump p) P) s = (Inr (), s)"
proof -
  have parse: "parse_rbac e r (kp_load_all p) (SourceText (policy_to_yaml (kp_dump p) P)) =
      Inr (generated_rbac P)" for e r
    using assms(4,5) parse_generated [OF assms(1)] by (simp add: parse_rbac_def load_documents_def)
  have "map perm_key (pl_permissions (resolve_effective_policy (generated_rbac P) (account_ref cfg)))
      = map perm_key (pl_permissions P)"
    using resolve_generated_keys [OF assms(1,2)] assms(3) by simp
  from arg_cong [OF this, of set] show ?thesis
    by (simp add: validate_text_def read_manifest_def parse seq_def outside_def ret_def)
qed

section \<open>When every command succeeds\<close>

definition succeeds :: "'c kubernetes_ports \<Rightarrow> bool" where
  "succeeds p \<longleftrightarrow>
     (\<forall>command input timeout c. \<exists>r c'. kp_execute p command input timeout c = (Inr r, c') \<and>
        cp_returncode r = 0) \<and>
     (\<forall>path yaml. returns (kp_write_proposal p path yaml))"

lemma change_returns: "succeeds p \<Longrightarrow> \<exists>r s'. change p cfg arguments input check s = (Inr r, s')"
  by (fastforce simp: succeeds_def change_def kubectl_def run_command_def op_simps)

lemma each_do_returns:
  "(\<And>x s. x \<in> set xs \<Longrightarrow> \<exists>y s'. f x s = (Inr y, s')) \<Longrightarrow> \<exists>s'. each_do f xs s = (Inr (), s')"
proof (induction xs arbitrary: s)
  case (Cons x xs)
  obtain y u where "f x s = (Inr y, u)" using Cons.prems by fastforce
  moreover obtain s' where "each_do f xs u = (Inr (), s')" using Cons by fastforce
  ultimately show ?case by (simp add: seq_def)
qed (simp add: ret_def)

lemma apply_policy_returns:
  assumes "succeeds p" and "\<not> kc_dry_run cfg"
    and "validate_text p cfg P (policy_to_yaml (kp_dump p) P) s = (Inr (), s)"
  shows "\<exists>s'. apply_policy p cfg P s = (Inr (), s')"
proof -
  let ?yaml = "policy_to_yaml (kp_dump p) P"
  have "returns (kp_write_proposal p (proposal_path cfg) ?yaml)"
    using assms(1) by (simp add: succeeds_def)
  then obtain c where "kp_write_proposal p (proposal_path cfg) ?yaml (kb_world s) = (Inr (), c)"
    unfolding returns_def by auto
  then have wrote: "outside (kp_write_proposal p (proposal_path cfg) ?yaml) s = (Inr (), s\<lparr>kb_world := c\<rparr>)"
    by (simp add: op_simps)
  let ?u = "s\<lparr>kb_world := c, kb_candidate_documents := policy_to_documents P\<rparr>"
  let ?put = "if policy_to_documents P \<noteq> [] then
      seq (change p cfg [''apply'', ''-f'', ''-''] (Some ?yaml) True) (\<lambda>_. ret ())
    else ret ()"
  obtain r t where "change p cfg [''apply'', ''-f'', ''-''] (Some ?yaml) True ?u = (Inr r, t)"
    using change_returns [OF assms(1)] by blast
  then have "\<exists>v. ?put ?u = (Inr (), v)"
    by (cases "policy_to_documents P = []") (simp_all add: seq_def ret_def)
  then obtain v where put: "?put ?u = (Inr (), v)" by blast
  obtain w where "each_do (\<lambda>kind. change p cfg (delete_original cfg kind) None True)
      [''rolebinding'', ''clusterrolebinding''] v = (Inr (), w)"
    using each_do_returns [of _ "\<lambda>kind. change p cfg (delete_original cfg kind) None True"]
      change_returns [OF assms(1)] by blast
  with assms(2,3) wrote put show ?thesis
    by (simp add: apply_policy_def seq_def set_documents_def set_current_def Let_def del: each_do.simps)
qed

lemma seq_total:
  assumes "\<exists>x s'. m s = (Inr x, s')" and "\<And>x s. \<exists>y s'. f x s = (Inr y, s')"
  shows "\<exists>y s'. seq m f s = (Inr y, s')"
  using assms by (fastforce simp: seq_def)

lemma prepare_sandbox_returns:
  assumes "succeeds p" and "\<not> kc_dry_run cfg" and "kb_candidate_documents s = []"
  shows "\<exists>t. prepare_sandbox p cfg s = (Inr (), t)"
proof -
  have each: "\<exists>x u'. each_do (\<lambda>x. change p cfg (g x) None c) xs u = (Inr x, u')" for g c xs u
    using each_do_returns [of xs "\<lambda>x. change p cfg (g x) None c"] change_returns [OF assms(1)] by blast
  have status: "\<exists>x u'. outside (kubectl p cfg args None True 130) u = (Inr x, u')" for args u
    using assms(1) by (fastforce simp: succeeds_def kubectl_def run_command_def op_simps)
  have fields: "\<exists>x u'. set_pod pod u = (Inr x, u')" "\<exists>x u'. set_current P u = (Inr x, u')"
    "\<exists>x u'. set_cursor n u = (Inr x, u')" for pod P n and u :: "'a kubernetes"
    by (simp_all add: op_simps)
  have deleted: "\<exists>x u'. delete_candidates p cfg s = (Inr x, u')"
    using assms(3) by (simp add: delete_candidates_def seq_def field_def ret_def set_documents_def)
  have "\<exists>x t. prepare_sandbox p cfg s = (Inr x, t)"
    unfolding prepare_sandbox_def if_not_P [OF assms(2)]
    by (rule deleted seq_total each change_returns [OF assms(1)] status fields)+
  then show ?thesis by simp
qed

lemma delete_arguments_generated:
  "doc \<in> set (policy_to_documents P) \<Longrightarrow> \<exists>arguments. delete_arguments doc = Inr arguments"
  by (auto simp: policy_to_documents_def scope_documents_def role_document_def binding_document_def
      scoped_metadata_def delete_arguments_def req_text_def)

lemma restore_policy_returns:
  assumes "succeeds p" and "kb_candidate_documents s = policy_to_documents P"
  shows "\<exists>s'. restore_policy p cfg s = (Inr (), s')"
proof -
  let ?delete = "\<lambda>document. seq (lift_result (delete_arguments document)) (\<lambda>arguments.
      change p cfg arguments None False)"
  have "\<exists>y t'. ?delete doc t = (Inr y, t')" if "doc \<in> set (policy_to_documents P)" for doc t
    using delete_arguments_generated [OF that] change_returns [OF assms(1)]
    by (auto simp: seq_def lift_result_def)
  then obtain u where deleted: "each_do ?delete (policy_to_documents P) s = (Inr (), u)"
    using each_do_returns [of "policy_to_documents P" ?delete] by blast
  let ?v = "u\<lparr>kb_candidate_documents := []\<rparr>"
  obtain r t where "change p cfg [''apply'', ''-f'', ''-'']
      (Some (policy_to_yaml (kp_dump p) (kc_original_policy cfg))) True ?v = (Inr r, t)"
    using change_returns [OF assms(1)] by blast
  with deleted assms(2) show ?thesis
    by (simp add: restore_policy_def delete_candidates_def seq_def field_def set_documents_def
        set_current_def)
qed

section \<open>The polling loops\<close>

text \<open>Once the window is over, or a round after as many sleeps as fill it, more rounds change nothing.\<close>

lemma poll_bounded:
  assumes look: "\<And>s r s'. look s = (r, s') \<Longrightarrow> kp_now p (kb_world s) \<le> kp_now p (kb_world s')"
    and sleep: "\<And>c r c'. kp_sleep p c = (r, c') \<Longrightarrow> kp_now p c + 1 / 5 \<le> kp_now p c'"
    and "deadline \<le> kp_now p (kb_world s) + of_nat k / 5" and "Suc k \<le> j"
  shows "poll p look stop deadline j latest s = poll p look stop deadline (Suc k) latest s"
  using assms(3,4)
proof (induction k arbitrary: j latest s)
  case 0
  then show ?case by (cases j) (simp_all add: seq_def field_def ret_def)
next
  case (Suc k)
  then obtain i where j: "j = Suc i" "Suc k \<le> i" by (cases j) auto
  have "poll p look stop deadline i found t = poll p look stop deadline (Suc k) found t"
    if "look s = (Inr found, u)" and "outside (kp_sleep p) u = (Inr x, t)" for found u x t
  proof (rule Suc.IH [OF _ j(2)])
    from that(2) obtain c where "kp_sleep p (kb_world u) = (Inr x, c)" "t = u\<lparr>kb_world := c\<rparr>"
      by (auto simp: op_simps)
    with look [OF that(1)] sleep have "kp_now p (kb_world s) + 1 / 5 \<le> kp_now p (kb_world t)"
      by fastforce
    then show "deadline \<le> kp_now p (kb_world t) + of_nat k / 5"
      using Suc.prems(1) by (simp add: add_divide_distrib)
  qed
  then show ?case
    by (auto simp: j seq_def field_def ret_def simp del: poll.simps(2)
        simp: poll.simps(2) [of p look stop deadline i] poll.simps(2) [of p look stop deadline "Suc k"]
        split: prod.split sum.split)
qed

definition clock_runs :: "'c kubernetes_ports \<Rightarrow> bool" where
  "clock_runs p \<longleftrightarrow>
     (\<forall>command input timeout c. kp_now p c \<le> kp_now p (snd (kp_execute p command input timeout c))) \<and>
     (\<forall>c. kp_now p c + 1 / 5 \<le> kp_now p (snd (kp_sleep p c)))"

lemma logs_clock:
  assumes "clock_runs p"
  shows "logs p cfg s = (r, s') \<Longrightarrow> kp_now p (kb_world s) \<le> kp_now p (kb_world s')"
proof -
  have "kp_now p c \<le> kp_now p c'" if "kubectl p cfg args None False 30 c = (x, c')" for args c x c'
  proof -
    let ?run = "kp_execute p ([''kubectl'', ''--context'', ks_context cfg] @ args) None 30 c"
    from that have "c' = snd ?run"
      by (cases ?run) (auto simp: kubectl_def run_command_def seq_def ret_def split: sum.splits)
    with assms show ?thesis by (simp add: clock_runs_def)
  qed
  then show "logs p cfg s = (r, s') \<Longrightarrow> kp_now p (kb_world s) \<le> kp_now p (kb_world s')"
    by (cases r) (auto simp: logs_def Let_def op_simps)
qed

lemma looks_clock:
  assumes "clock_runs p"
  shows "read_events p cfg s = (r, s') \<Longrightarrow> kp_now p (kb_world s) \<le> kp_now p (kb_world s')"
    and "read_denials p cfg s = (q, s') \<Longrightarrow> kp_now p (kb_world s) \<le> kp_now p (kb_world s')"
  by (cases r; cases q; auto simp: read_events_def read_denials_def Let_def op_simps
      dest: logs_clock [OF assms])+

section \<open>Dry runs\<close>

text \<open>
  A whole run of the workload graph over a dry-run adapter: it never returns, and whatever of the
  world is untouched by reading logs, running the smoke test, waiting and writing the proposal is
  the same afterwards. In particular nothing is applied and nothing is deleted.
\<close>

lemma dry_run_keeps:
  assumes "kc_dry_run cfg" and "\<And>path text. keeps view (kp_write_proposal p path text)"
  shows "keeps (\<lambda>s. view (kb_world s)) (apply_policy p cfg P)"
    and "keeps (\<lambda>s. view (kb_world s)) (restore_policy p cfg)"
    and "keeps (\<lambda>s. view (kb_world s)) (prepare_sandbox p cfg)"
proof -
  have "keeps (\<lambda>s. view (kb_world s)) (validate_text p cfg P yaml)" for yaml
  proof -
    have "keeps view (read_manifest p (SourceText yaml))"
      by (simp add: keeps_def read_manifest_def)
    from keeps_outside_world [OF this] show ?thesis
      unfolding validate_text_def by (auto intro!: keeps_seq)
  qed
  with assms show "keeps (\<lambda>s. view (kb_world s)) (apply_policy p cfg P)"
    by (auto simp: apply_policy_def Let_def intro!: keeps_seq keeps_outside_world)
qed (use assms(1) in \<open>auto simp: restore_policy_def prepare_sandbox_def\<close>)

lemma dry_run_apply_raises: "kc_dry_run cfg \<Longrightarrow> apply_policy p cfg P s \<noteq> (Inr u, s')"
  by (auto simp: apply_policy_def op_simps Let_def)

lemma run_without_apply:
  assumes raises: "\<And>P w u w'. env_apply_policy (gc_env g) P w \<noteq> (Inr u, w')"
    and "n \<in> {Load_Service_Context, Inspect_Rbac, Gather_Evidence, Generate_Candidate,
      Validate_Candidate, Apply_Candidate}"
  shows "run_nodes g k n st r \<noteq> (Inr x, r')"
  using assms(2)
proof (induction k arbitrary: n st r)
  case (Suc k)
  have "(exec_node g Apply_Candidate st r = (Inr y, (w, evs))) = False" for y w evs
    using raises by (auto simp: apply_candidate_def op_simps on_env_def split: prod.splits)
  note never = this
  from Suc show ?case by (auto simp: op_simps never simp del: exec_node.simps)
qed (simp add: throw_def)

lemma dry_run_of_graph:
  assumes "gc_env g = kubernetes_adapter p cfg" and "kc_dry_run cfg"
    and "\<And>target. keeps view (kp_execute p [''kubectl'', ''--context'', ks_context cfg, ''logs'', ''-n'',
      ks_namespace cfg, target] None 30)"
    and "keeps view (kp_execute p (ks_smoke_command cfg) None 120)"
    and "keeps view (kp_sleep p)" and "\<And>path text. keeps view (kp_write_proposal p path text)"
    and "\<And>ev. keeps (\<lambda>s. view (kb_world s)) (gc_sink g ev)"
    and "\<And>evs. keeps (\<lambda>s. view (kb_world s)) (gc_summary g evs)"
    and "provider_keeps (\<lambda>s. view (kb_world s)) (gc_provider g)"
  shows "keeps (\<lambda>s. view (kb_world s)) (run_workload g rq prior)"
    and "run_workload g rq prior s \<noteq> (Inr ex, s')"
proof -
  let ?view = "\<lambda>s. view (kb_world s)"
  have "keeps ?view (outside (kubectl p cfg [''logs'', ''-n'', ks_namespace cfg, target] None False 30))"
    for target
    unfolding kubectl_def using assms(3) by (intro keeps_outside_world keeps_run_command) simp
  note observation = keeps_observation [of ?view, OF this keeps_outside_world [OF assms(5)] keeps_fields(5)]
  have "framed_graph g ?view"
  proof (intro framed_graph.intro; (unfold assms(1) kubernetes_adapter_sel)?)
    show "keeps ?view (verify_workload p cfg)"
      by (intro observation(2) keeps_outside_world keeps_run_command assms(4))
  qed (use observation(1) dry_run_keeps [of cfg view p] assms(2,6-9) in
      \<open>auto simp: describe_failure_def\<close>)
  then show "keeps ?view (run_workload g rq prior)"
    by (rule framed_graph.frame_run)
  have "env_apply_policy (gc_env g) P w \<noteq> (Inr u, w')" for P w u w'
    using dry_run_apply_raises [OF assms(2)] by (simp add: assms(1))
  note run_without_apply [of g, OF this, of Load_Service_Context]
  then show "run_workload g rq prior s \<noteq> (Inr ex, s')"
    by (auto simp: run_workload_def op_simps split: prod.splits)
qed

end
