(* ===== verification/Kubernetes_Properties.thy ===== *)
theory Kubernetes_Properties
  imports Kubernetes_Restore Samples
begin

text \<open>
  The properties of the live Kubernetes adapter, each with a witness over a small API server: a
  table of objects and a clock, which answers every command with exit code 0.
\<close>

record sample_cluster =
  cl_objects :: "object_key \<Rightarrow> pyval option"
  cl_time :: rat

definition exit_ok :: "string \<Rightarrow> completed_process" where
  "exit_ok out = \<lparr>cp_returncode = 0, cp_stdout = out, cp_stderr = ''''\<rparr>"

text \<open>A YAML that knows two streams of documents, by their number.\<close>

definition sample_dump :: "pyval list \<Rightarrow> string" where
  "sample_dump docs = nat_str (length docs) @ newline"

definition sample_load :: "string \<Rightarrow> string + pyval list" where
  "sample_load yaml =
     (case find (\<lambda>P. policy_to_yaml sample_dump P = yaml) [sample_policy, narrow_policy] of
        Some P \<Rightarrow> Inr (policy_to_documents P)
      | None \<Rightarrow> Inl ''unknown document'')"

definition sample_execute ::
  "string list \<Rightarrow> string option \<Rightarrow> nat \<Rightarrow> (sample_cluster, completed_process) op" where
  "sample_execute command input timeout c =
     (case drop 3 command of
        [a, b, d] \<Rightarrow>
          (case input of
             Some yaml \<Rightarrow>
               (case sample_load yaml of
                  Inr docs \<Rightarrow> (Inr (exit_ok ''''), c\<lparr>cl_objects := put_documents docs (cl_objects c)\<rparr>)
                | Inl _ \<Rightarrow> (Inr (exit_ok ''''), c))
           | None \<Rightarrow> (Inr (exit_ok ''true''), c))
      | verb # kind # name # flag # rest \<Rightarrow>
          if verb = ''delete'' \<and> kind \<notin> {''job'', ''lease''} then
            (Inr (exit_ok ''''), c\<lparr>cl_objects := (cl_objects c)
               ((kind, (case rest of [n, ns] \<Rightarrow> ns | _ \<Rightarrow> ''''), name) := None)\<rparr>)
          else (Inr (exit_ok ''true''), c)
      | _ \<Rightarrow> (Inr (exit_ok ''kind-kuber''), c))"

definition sample_ports :: "sample_cluster kubernetes_ports" where
  "sample_ports =
     \<lparr>kp_execute = sample_execute, kp_write_proposal = (\<lambda>path yaml. ret ()),
      kp_sleep = (\<lambda>c. (Inr (), c\<lparr>cl_time := cl_time c + 1 / 5\<rparr>)), kp_now = cl_time,
      kp_exists = (\<lambda>c path. Inr True), kp_read = (\<lambda>c path. Inr (policy_to_yaml sample_dump sample_policy)),
      kp_load_all = sample_load, kp_dump = sample_dump,
      kp_loads = (\<lambda>line. Inl (JsonDecodeError ''Expecting value'')), kp_seconds = (\<lambda>r. ''0.1''),
      kp_signal = (\<lambda>n. ''signal'')\<rparr>"

definition sample_settings :: kubernetes_settings where
  "sample_settings =
     \<lparr>ks_context = ''kind-kuber'', ks_namespace = ''prod'', ks_service_account = ''api'',
      ks_deployment_name = ''api'', ks_workload_id = ''api'', ks_smoke_command = [''smoke.sh'', ''api''],
      ks_initial_manifest = ''rbac.yaml'', ks_original_binding_name = ''api-overprivileged'',
      ks_dry_run = None, ks_allow_unsafe_context = False, ks_artifact_directory = ''artifacts/policies''\<rparr>"

definition sample_live :: "bool \<Rightarrow> kubernetes_config" where
  "sample_live dry_run = kubernetes_settings.extend sample_settings
     (kubernetes_config.fields sample_policy True dry_run)"

definition empty_cluster :: sample_cluster where
  "empty_cluster = \<lparr>cl_objects = (\<lambda>_. None), cl_time = 0\<rparr>"

definition sample_kubernetes :: "sample_cluster kubernetes" where
  "sample_kubernetes = fresh_kubernetes (sample_live False) empty_cluster"

lemma sample_ports_sel [simp]:
  "kp_execute sample_ports = sample_execute" "kp_write_proposal sample_ports = (\<lambda>path yaml. ret ())"
  "kp_load_all sample_ports = sample_load" "kp_dump sample_ports = sample_dump"
  "kp_now sample_ports = cl_time"
  "kp_sleep sample_ports = (\<lambda>c. (Inr (), c\<lparr>cl_time := cl_time c + 1 / 5\<rparr>))"
  by (simp_all add: sample_ports_def)

lemma sample_live_sel [simp]:
  "ks_context (sample_live d) = ''kind-kuber''" "ks_namespace (sample_live d) = ''prod''"
  "ks_service_account (sample_live d) = ''api''" "kc_dry_run (sample_live d) = d"
  "ks_original_binding_name (sample_live d) = ''api-overprivileged''"
  "kc_original_policy (sample_live d) = sample_policy"
  "ks_smoke_command (sample_live d) = [''smoke.sh'', ''api'']"
  by (simp_all add: sample_live_def sample_settings_def kubernetes_settings.defs kubernetes_config.defs)

lemma sample_kubernetes_sel [simp]:
  "kb_world sample_kubernetes = empty_cluster" "kb_candidate_documents sample_kubernetes = []"
  by (simp_all add: sample_kubernetes_def fresh_kubernetes_def)

lemma sample_serves: "serves sample_ports ''kind-kuber'' cl_objects"
proof -
  have "applies sample_ports ''kind-kuber'' cl_objects"
    by (auto simp: applies_def apply_command_def sample_execute_def put_documents_other)
  moreover have "deletes sample_ports ''kind-kuber'' cl_objects"
    by (auto simp: deletes_def rbac_key_def delete_command_def sample_execute_def split: if_splits)
  ultimately show ?thesis by (simp add: serves_def)
qed

lemma sample_yaml_distinct:
  "policy_to_yaml sample_dump sample_policy \<noteq> policy_to_yaml sample_dump narrow_policy"
  by code_simp

lemma sample_loads_back:
  "sample_load (policy_to_yaml sample_dump sample_policy) = Inr (policy_to_documents sample_policy)"
  "sample_load (policy_to_yaml sample_dump narrow_policy) = Inr (policy_to_documents narrow_policy)"
  using sample_yaml_distinct by (simp_all add: sample_load_def)

lemma sample_names: "pl_name sample_policy = ''api-effective''" "pl_name narrow_policy = ''api-kuber''"
  by (simp_all add: sample_policy_def narrow_policy_def mk_policy_def)

lemma sample_succeeds: "succeeds sample_ports"
proof -
  have "\<exists>r c'. sample_execute command input timeout c = (Inr r, c') \<and> cp_returncode r = 0"
    for command input timeout c
    by (auto simp: sample_execute_def exit_ok_def split: list.split option.split sum.split)
  then show ?thesis by (simp add: succeeds_def ret_returns)
qed

lemma sample_expressible: "expressible_policy sample_policy" "expressible_policy narrow_policy"
  by code_simp+

lemma sample_validates:
  "validate_text sample_ports (sample_live d) narrow_policy
     (policy_to_yaml sample_dump narrow_policy) s = (Inr (), s)"
proof -
  have "account_of narrow_policy = account_ref (sample_live d)"
    by (simp add: account_of_def account_ref_def narrow_policy_def mk_policy_def)
  moreover have "canonical_policy narrow_policy" by (simp add: narrow_policy_def)
  moreover have "char_of (10 :: nat) \<in> set (policy_to_yaml sample_dump narrow_policy)"
    by (simp add: policy_to_yaml_def sample_dump_def newline_def)
  ultimately show ?thesis
    using validate_text_accepts [of narrow_policy "sample_live d" sample_ports s] sample_loads_back(2)
      sample_expressible(2) by simp
qed

lemma sample_lines:
  "char_of (10 :: nat) \<in> set (policy_to_yaml sample_dump sample_policy)"
  "char_of (10 :: nat) \<in> set (policy_to_yaml sample_dump narrow_policy)"
  by (simp_all add: policy_to_yaml_def sample_dump_def newline_def)

section \<open>The guard\<close>

text \<open>
  C25: When an adapter may change a cluster. An adapter that was constructed and is not in dry-run
  mode either was explicitly allowed an unsafe context, or its context is the sandbox's, is the
  current context, and the namespace carried the sandbox label when it was asked for.
\<close>

theorem live_changes_need_sandbox:
  assumes "new_kubernetes p st c = (Inr cfg, c')" and "\<not> kc_dry_run cfg"
  shows "ks_allow_unsafe_context st \<or>
    (ks_context st = ''kind-kuber'' \<and>
     (\<exists>r u label. kp_execute p [''kubectl'', ''config'', ''current-context''] None 10 c = (Inr r, u) \<and>
        py_strip (cp_stdout r) = ks_context st \<and>
        kp_execute p [''kubectl'', ''--context'', ks_context st, ''get'', ''namespace'', ks_namespace st,
          ''-o'', sandbox_label] None 10 u = (Inr label, c') \<and>
        py_strip (cp_stdout label) = ''true''))"
proof -
  from assms(1) obtain parsed where "is_recognized_sandbox p st c = (Inr (kc_safe cfg), c')"
    and "kc_dry_run cfg \<or> kc_safe cfg \<or> ks_allow_unsafe_context st"
    by (rule new_kubernetes_Inr)
  with assms(2) recognized_sandbox_Inr show ?thesis by fastforce
qed

lemma sample_constructed:
  "\<exists>cfg. new_kubernetes sample_ports sample_settings empty_cluster = (Inr cfg, empty_cluster) \<and>
     \<not> kc_dry_run cfg"
proof -
  have parse: "parse_rbac e (\<lambda>path. Inr (policy_to_yaml sample_dump sample_policy)) sample_load
      (SourcePath path) = Inr (generated_rbac sample_policy)" for e path
    using sample_loads_back(1) parse_generated [OF sample_expressible(1)]
    by (simp add: parse_rbac_def load_documents_def)
  have strip: "py_strip ''kind-kuber'' = ''kind-kuber''" "py_strip ''true'' = ''true''" by code_simp+
  show ?thesis
    by (simp add: new_kubernetes_def read_manifest_def is_recognized_sandbox_def run_command_def
        kubectl_def sample_execute_def sample_settings_def exit_ok_def seq_def ret_def strip
        sample_ports_def parse kubernetes_settings.defs kubernetes_config.defs Let_def)
qed

theorem live_changes_need_sandbox_witness:
  "\<exists>cfg. new_kubernetes sample_ports sample_settings empty_cluster = (Inr cfg, empty_cluster) \<and>
     \<not> kc_dry_run cfg \<and> ks_context sample_settings = ''kind-kuber''"
proof -
  obtain cfg where "new_kubernetes sample_ports sample_settings empty_cluster = (Inr cfg, empty_cluster)"
    and "\<not> kc_dry_run cfg"
    using sample_constructed by blast
  with live_changes_need_sandbox [OF this] show ?thesis by (auto simp: sample_settings_def)
qed

text \<open>
  C26: A dry run changes nothing. A run of the workload graph over an adapter in dry-run mode ends
  with an exception, and every part of the world that reading the log, the smoke test, waiting and
  writing the proposal file leave alone, such as the objects of the cluster, is the same afterwards.
\<close>

theorem dry_run_changes_nothing:
  assumes "gc_env g = kubernetes_adapter p cfg" and "kc_dry_run cfg"
    and "\<And>target. keeps view (kp_execute p [''kubectl'', ''--context'', ks_context cfg, ''logs'', ''-n'',
      ks_namespace cfg, target] None 30)"
    and "keeps view (kp_execute p (ks_smoke_command cfg) None 120)"
    and "keeps view (kp_sleep p)" and "\<And>path yaml. keeps view (kp_write_proposal p path yaml)"
    and "\<And>ev. keeps (\<lambda>s. view (kb_world s)) (gc_sink g ev)"
    and "\<And>evs. keeps (\<lambda>s. view (kb_world s)) (gc_summary g evs)"
    and "provider_keeps (\<lambda>s. view (kb_world s)) (gc_provider g)"
    and "run_workload g rq prior s = (r, s')"
  shows "view (kb_world s') = view (kb_world s) \<and> (\<exists>err. r = Inl err)"
  using keepsD [OF dry_run_of_graph(1) [OF assms(1-9)] assms(10)]
    dry_run_of_graph(2) [OF assms(1-9), of rq prior s] assms(10)
  by (cases r) auto

definition sample_dry_graph :: "sample_cluster kubernetes graph_config" where
  "sample_dry_graph =
     \<lparr>gc_env = kubernetes_adapter sample_ports (sample_live True), gc_max_repair_iterations = 5,
      gc_provider = None, gc_sink = (\<lambda>_. ret ()), gc_summary = (\<lambda>_. ret None),
      gc_now = (\<lambda>_. ''1970-01-01T00:00:00+00:00''), gc_limit = 36\<rparr>"

theorem dry_run_changes_nothing_witness:
  "cl_objects (kb_world (snd (run_workload sample_dry_graph sample_request fresh_thread sample_kubernetes))) =
     cl_objects empty_cluster"
proof -
  obtain r s' where run: "run_workload sample_dry_graph sample_request fresh_thread sample_kubernetes = (r, s')"
    by (metis prod.collapse)
  have "cl_objects (kb_world s') = cl_objects (kb_world sample_kubernetes) \<and> (\<exists>err. r = Inl err)"
    by (rule dry_run_changes_nothing [OF _ _ _ _ _ _ _ _ _ run, where p = sample_ports
          and cfg = "sample_live True"])
      (auto simp: sample_dry_graph_def keeps_def sample_execute_def ret_def provider_keeps_def)
  then show ?thesis by (simp add: run)
qed

section \<open>Applying and restoring\<close>

text \<open>
  C15: Applying a policy. Against the documented behaviour of the API server, an application that
  returns was not a dry run, the text sent to the cluster had been parsed and resolved back to
  exactly the keys of the policy, and afterwards the cluster holds the documents of the policy, the
  original binding is gone and every other object is as before. The YAML text reads back as the
  documents and has a line break, and the name of the original binding is not an option of
  \<open>kubectl\<close>.
\<close>

theorem applied_policy_in_cluster:
  assumes "serves p (ks_context cfg) objects" and "ks_namespace cfg \<noteq> ''''"
    and "\<not> prefix ''-'' (ks_original_binding_name cfg)"
    and "char_of (10 :: nat) \<in> set (policy_to_yaml (kp_dump p) P)"
    and "kp_load_all p (policy_to_yaml (kp_dump p) P) = Inr (policy_to_documents P)"
    and "apply_policy p cfg P s = (Inr (), s')"
  shows "\<not> kc_dry_run cfg \<and> kb_current_policy s' = P \<and>
    (\<exists>parsed. parse_rbac (kp_exists p (kb_world s)) (kp_read p (kb_world s)) (kp_load_all p)
        (SourceText (policy_to_yaml (kp_dump p) P)) = Inr parsed \<and>
      policy_keys (resolve_effective_policy parsed (account_ref cfg)) = policy_keys P) \<and>
    (\<forall>key. objects (kb_world s') key =
      (if key \<in> original_bindings cfg then None
       else put_documents (policy_to_documents P) (objects (kb_world s)) key))"
proof -
  obtain parsed where "\<not> kc_dry_run cfg"
    and "parse_rbac (kp_exists p (kb_world s)) (kp_read p (kb_world s)) (kp_load_all p)
        (SourceText (policy_to_yaml (kp_dump p) P)) = Inr parsed"
    and "policy_keys (resolve_effective_policy parsed (account_ref cfg)) = policy_keys P"
    by (rule apply_policy_Inr [OF assms(6)])
  with apply_policy_effect [OF assms(1-3) _ _ assms(6)] assms(4,5) show ?thesis by blast
qed

theorem applied_policy_in_cluster_witness:
  "\<exists>s'. apply_policy sample_ports (sample_live False) narrow_policy sample_kubernetes = (Inr (), s') \<and>
     kb_current_policy s' = narrow_policy \<and>
     cl_objects (kb_world s') (''rolebinding'', ''prod'', ''api-overprivileged'') = None"
proof -
  obtain s' where run: "apply_policy sample_ports (sample_live False) narrow_policy sample_kubernetes = (Inr (), s')"
    using apply_policy_returns [OF sample_succeeds, of "sample_live False" narrow_policy sample_kubernetes]
      sample_validates by auto
  have "serves sample_ports (ks_context (sample_live False)) cl_objects"
    by (simp add: sample_serves)
  from applied_policy_in_cluster [OF this _ _ _ _ run] run sample_loads_back(2) sample_lines(2) show ?thesis
    by (auto simp: original_bindings_def)
qed

text \<open>
  Nothing expressible is refused. If the commands succeed and YAML reads back what it wrote, a
  live adapter applies every policy of its account whose permissions the manifests can express: the
  round-trip check does not stand in its way.
\<close>

theorem expressible_policy_applies:
  assumes "succeeds p" and "\<not> kc_dry_run cfg"
    and "expressible_policy P" and "canonical_policy P" and "account_of P = account_ref cfg"
    and "char_of (10 :: nat) \<in> set (policy_to_yaml (kp_dump p) P)"
    and "kp_load_all p (policy_to_yaml (kp_dump p) P) = Inr (policy_to_documents P)"
  shows "\<exists>s'. apply_policy p cfg P s = (Inr (), s')"
  by (rule apply_policy_returns [OF assms(1,2) validate_text_accepts [OF assms(3-7)]])

theorem expressible_policy_applies_witness:
  "\<exists>s'. apply_policy sample_ports (sample_live False) narrow_policy sample_kubernetes = (Inr (), s')"
proof (rule expressible_policy_applies [OF sample_succeeds])
  show "account_of narrow_policy = account_ref (sample_live False)"
    by (simp add: account_of_def account_ref_def narrow_policy_def mk_policy_def)
  show "canonical_policy narrow_policy" by (simp add: narrow_policy_def)
  show "char_of (10 :: nat) \<in> set (policy_to_yaml (kp_dump sample_ports) narrow_policy)"
    by (simp add: policy_to_yaml_def sample_dump_def newline_def)
qed (simp_all add: sample_expressible sample_loads_back)

text \<open>
  C10: What a restore leaves behind. Restoring writes the documents of the original policy under the
  name the resolver gave it, \<open>...-effective\<close>. Neither the preparation of the sandbox, however it ends,
  nor a later application removes them: when a candidate of the same account is applied after a
  restore, by this adapter or a new one, with or without the sandbox being prepared in between, every
  document of the original policy that the workload's own manifest does not redefine is still in the
  cluster, so the account keeps its original grants whatever the candidate says.
\<close>

theorem restored_grants_survive:
  assumes "serves p (ks_context cfg) objects" and "\<not> kc_dry_run cfg" and "namespaced (kc_original_policy cfg)"
    and "kp_load_all p (policy_to_yaml (kp_dump p) (kc_original_policy cfg)) =
      Inr (policy_to_documents (kc_original_policy cfg))"
    and "pl_name (kc_original_policy cfg) = sa @ ''-effective''"
    and "restore_policy p cfg s = (Inr (), s1)"
    and "doc \<in> set (policy_to_documents (kc_original_policy cfg))"
    and "ks_context cfg' = ks_context cfg" and "ks_namespace cfg' \<noteq> ''''"
    and "ks_service_account cfg' = sa" and "sa \<noteq> ''''" and "\<not> prefix ''-'' sa"
    and "\<not> prefix ''-'' (ks_original_binding_name cfg')"
    and "\<not> prefix (sa @ ''-effective-'') (ks_original_binding_name cfg')"
    and "prepares p cfg' objects manifest" and "document_key doc \<notin> manifest"
    and "kb_world s2 = kb_world s1" and "kb_candidate_documents s2 = []"
    and "t = s2 \<or> prepare_sandbox p cfg' s2 = (r, t)"
    and "char_of (10 :: nat) \<in> set (policy_to_yaml (kp_dump p) P)"
    and "kp_load_all p (policy_to_yaml (kp_dump p) P) = Inr (policy_to_documents P)"
    and "pl_name P = sa @ ''-kuber''" and "apply_policy p cfg' P t = (Inr (), s3)"
  shows "kb_current_policy s3 = P \<and> objects (kb_world s3) (document_key doc) = Some doc"
  using restored_documents_survive [OF assms] apply_policy_effect(2) [OF _ assms(9,13) _ _ assms(23)]
    assms(1,8,20,21) by simp

lemma sample_prepares: "prepares sample_ports (sample_live False) cl_objects {}"
  by (auto simp: prepares_def sandbox_commands_def keeps_def sample_execute_def)

theorem restored_grants_survive_witness:
  "\<exists>s1 t s3. restore_policy sample_ports (sample_live False) sample_kubernetes = (Inr (), s1) \<and>
     prepare_sandbox sample_ports (sample_live False) s1 = (Inr (), t) \<and>
     apply_policy sample_ports (sample_live False) narrow_policy t = (Inr (), s3) \<and>
     kb_current_policy s3 = narrow_policy \<and>
     cl_objects (kb_world s3) (''clusterrolebinding'', '''', ''api-effective-cluster-binding'') =
       Some (PDict (binding_document sample_policy None))"
proof -
  have "policy_to_documents fresh = []" if "pl_permissions fresh = []" for fresh
    using that by (simp add: policy_to_documents_empty_iff)
  then have "kb_candidate_documents sample_kubernetes = policy_to_documents (mk_policy [] '''' '''' '''')"
    by (simp add: mk_policy_def normalize_permissions_def dict_of_def dict_values_def)
  from restore_policy_returns [OF sample_succeeds this] obtain s1
    where restored: "restore_policy sample_ports (sample_live False) sample_kubernetes = (Inr (), s1)"
    by blast
  then have cleared: "kb_candidate_documents s1 = []" by (rule restore_clears) simp
  from prepare_sandbox_returns [OF sample_succeeds _ this, of "sample_live False"] obtain t
    where prepared: "prepare_sandbox sample_ports (sample_live False) s1 = (Inr (), t)" by auto
  obtain s3 where applied: "apply_policy sample_ports (sample_live False) narrow_policy t = (Inr (), s3)"
    using apply_policy_returns [OF sample_succeeds, of "sample_live False" narrow_policy t]
      sample_validates by auto
  have doc: "PDict (binding_document sample_policy None) \<in> set (policy_to_documents sample_policy)"
    by code_simp
  have named: "namespaced sample_policy" by code_simp
  have "kb_current_policy s3 = narrow_policy \<and> cl_objects (kb_world s3)
      (document_key (PDict (binding_document sample_policy None))) =
        Some (PDict (binding_document sample_policy None))"
    by (rule restored_grants_survive [where sa = "''api''" and ?s1.0 = s1 and ?s2.0 = s1 and t = t and P = narrow_policy
          and cfg = "sample_live False" and cfg' = "sample_live False" and r = "Inr ()" and manifest = "{}",
          OF _ _ _ _ _ restored _ _ _ _ _ _ _ _ sample_prepares _ _ cleared _ _ _ _ applied])
      (simp_all add: sample_serves sample_loads_back sample_names sample_lines doc named prepared)
  then show ?thesis
    using restored prepared applied by (simp add: document_key_binding role_name_for_def sample_names)
qed

section \<open>Evidence\<close>

text \<open>
  Evidence from a log. The events collected are, without repetition, exactly those a line of
  the log holds from its first brace on as a JSON object marked as an event of Kuber (and, if only
  denials are asked for, as denied) whose fields can be read.
\<close>

theorem collected_events_exact:
  assumes "collect_events loads denied_only log_text = Inr events"
  shows "distinct events \<and>
    (e \<in> set events \<longleftrightarrow>
      (\<exists>line \<in> set (split_lines log_text). \<exists>d. loads (json_part line) = Inr (PDict d) \<and>
        dget d ''kuber_event'' = PBool True \<and> (denied_only \<longrightarrow> dget d ''kuber_denied'' = PBool True) \<and>
        event_from_dict d = Inr e))"
  using collect_events_distinct [OF assms] collect_events_mem_iff [OF assms]
  unfolding line_event_Some_iff by blast

definition sample_loads_line :: "string \<Rightarrow> pyval result" where
  "sample_loads_line s =
     (if s = ''{1}'' then
        Inr (PDict [(''kuber_event'', PBool True), (''resource'', PStr ''pods''), (''verb'', PStr ''list''),
          (''namespace'', PStr ''prod'')])
      else Inl (JsonDecodeError ''Expecting value''))"

theorem collected_events_exact_witness:
  "\<exists>events. collect_events sample_loads_line False (''INFO {1}'' @ newline @ ''{2}'') = Inr events \<and>
     list_pods \<in> set events"
proof -
  let ?log = "''INFO {1}'' @ newline @ ''{2}''"
  have run: "collect_events sample_loads_line False ?log = Inr [list_pods]"
    by code_simp
  have line: "''INFO {1}'' \<in> set (split_lines ?log)" by code_simp
  have part: "json_part ''INFO {1}'' = ''{1}''" by code_simp
  have "event_from_dict [(''kuber_event'', PBool True), (''resource'', PStr ''pods''),
      (''verb'', PStr ''list''), (''namespace'', PStr ''prod'')] = Inr list_pods"
    by code_simp
  with collected_events_exact [OF run, of list_pods] line part have "list_pods \<in> set [list_pods]"
    by (fastforce simp: sample_loads_line_def)
  with run show ?thesis by blast
qed

text \<open>
  The polling loops end. If the clock does not go back while a command runs and a sleep takes
  its fifth of a second, the 5 second windows of observation and verification are over within
  \<open>poll_rounds\<close> rounds: allowing more makes no difference.
\<close>

theorem polling_bounded:
  assumes "clock_runs p" and "poll_rounds \<le> j"
  shows "poll p (read_events p cfg) stop (kp_now p (kb_world s) + 5) j latest s =
      poll p (read_events p cfg) stop (kp_now p (kb_world s) + 5) poll_rounds latest s \<and>
    poll p (read_denials p cfg) stop' (kp_now p (kb_world s) + 5) j latest' s =
      poll p (read_denials p cfg) stop' (kp_now p (kb_world s) + 5) poll_rounds latest' s"
proof -
  have sleep: "kp_now p c + 1 / 5 \<le> kp_now p c'" if "kp_sleep p c = (r, c')" for c r c'
    using assms(1) that unfolding clock_runs_def by (metis snd_conv)
  have rounds: "poll_rounds = Suc 25" by (simp add: poll_rounds_def)
  have window: "kp_now p (kb_world s) + 5 \<le> kp_now p (kb_world s) + of_nat 25 / 5"
    by simp
  show ?thesis
    unfolding rounds
    by (intro conjI; rule poll_bounded [OF _ _ window assms(2) [unfolded rounds]];
        (erule looks_clock [OF assms(1)] | erule sleep))
qed

theorem polling_bounded_witness:
  "poll sample_ports (read_events sample_ports (sample_live False)) (\<lambda>_. False)
       (kp_now sample_ports (kb_world sample_kubernetes) + 5) 1000 ('''', []) sample_kubernetes =
     poll sample_ports (read_events sample_ports (sample_live False)) (\<lambda>_. False)
       (kp_now sample_ports (kb_world sample_kubernetes) + 5) poll_rounds ('''', []) sample_kubernetes"
proof -
  have "clock_runs sample_ports"
    by (auto simp: clock_runs_def sample_execute_def split: list.split option.split sum.split)
  moreover have "poll_rounds \<le> 1000" by (simp add: poll_rounds_def)
  ultimately show ?thesis by (rule polling_bounded [THEN conjunct1])
qed

end
