(* ===== verification/Bus_Progress.thy ===== *)
theory Bus_Progress
  imports Event_Bus
begin

text \<open>
  How far a consumer group is in a topic of the in-memory bus: after \<open>n\<close> messages were claimed, the
  rest of the log is still to come, in order. Publishing extends what is to come, claiming moves the
  group on by one, acknowledging what was claimed changes nothing for anyone.
\<close>

definition running :: "event_bus \<Rightarrow> bool" where
  "running bus \<longleftrightarrow>
     bus_wf bus \<and> \<not> eb_closed bus \<and>
     (\<forall>(t, g, part, off) \<in> set (eb_acknowledged bus).
        \<exists>p \<in> set (eb_logs bus t). pe_partition p = part \<and> pe_offset p = off)"

definition subscribed :: "event_bus \<Rightarrow> string \<Rightarrow> string \<Rightarrow> bool" where
  "subscribed bus t g \<longleftrightarrow> map_of (eb_queues bus) (t, g) \<noteq> None"

definition claimed_to :: "event_bus \<Rightarrow> string \<Rightarrow> string \<Rightarrow> nat \<Rightarrow> bool" where
  "claimed_to bus t g n \<longleftrightarrow>
     n \<le> length (eb_logs bus t) \<and>
     (\<forall>p \<in> set (drop n (eb_logs bus t)).
        (t, g, pe_partition p, pe_offset p) \<notin> set (eb_acknowledged bus)) \<and>
     (case map_of (eb_queues bus) (t, g) of
        None \<Rightarrow> n = 0
      | Some q \<Rightarrow> map published_event.truncate q = drop n (eb_logs bus t))"

lemma runningD:
  assumes "running bus"
  shows "bus_wf bus" "\<not> eb_closed bus" "0 < eb_partitions bus" "log_wf (eb_partitions bus) t (eb_logs bus t)"
    and "(t, g, part, off) \<in> set (eb_acknowledged bus) \<Longrightarrow>
      \<exists>p \<in> set (eb_logs bus t). pe_partition p = part \<and> pe_offset p = off"
  using assms by (auto simp: running_def bus_wf_def)

lemma truncate_consumed [simp]: "published_event.truncate (consumed p g c) = p"
  by (simp add: published_event.truncate_def consumed_def)

lemma truncate_claimed [simp]:
  "published_event.truncate (m\<lparr>ce_consumer_group := g, ce_consumer_id := c\<rparr>) = published_event.truncate m"
  by (simp add: published_event.truncate_def)

lemma truncate_fields:
  assumes "published_event.truncate m = p"
  shows "pe_topic m = pe_topic p" "pe_key m = pe_key p" "pe_partition m = pe_partition p"
    "pe_offset m = pe_offset p" "pe_event m = pe_event p"
  using assms by (auto simp: published_event.truncate_def)

lemma log_topic: "running bus \<Longrightarrow> p \<in> set (eb_logs bus t) \<Longrightarrow> pe_topic p = t"
  using runningD(4) [of bus t] by (auto simp: log_wf_def)

text \<open>The position of a published event is new.\<close>

lemma published_position_new:
  assumes "running bus" and "bus_publish t e k bus = (Inr p, bus')" and "q \<in> set (eb_logs bus t)"
  shows "(pe_partition q, pe_offset q) \<noteq> (pe_partition p, pe_offset p)"
proof -
  note pub = bus_publish_Inr [OF assms(2)]
  have "log_wf (eb_partitions bus) t (eb_logs bus t @ [p])"
    using runningD(4) [OF assms(1), of t] by (rule log_wf_snoc) (simp_all add: pub(3))
  from log_positions_distinct [OF this] assms(3) show ?thesis by (auto simp: image_iff)
qed

lemma publish_running:
  assumes "running bus" and "bus_publish t e k bus = (Inr p, bus')"
  shows "running bus'"
proof -
  note pub = bus_publish_Inr [OF assms(2)]
  have "bus_wf bus'" by (rule bus_publish_wf [OF runningD(1) [OF assms(1)] assms(2)])
  then show ?thesis using assms(1) by (fastforce simp: running_def pub(4))
qed

lemma enqueue_topic_map_of:
  "map_of (enqueue_topic topic m qs) (t, g) =
     (case map_of qs (t, g) of None \<Rightarrow> None | Some q \<Rightarrow> Some (if t = topic then q @ [m] else q))"
  by (induction qs) (auto simp: enqueue_topic_def)

lemma publish_claimed:
  assumes "running bus" and "bus_publish t e k bus = (Inr p, bus')" and "claimed_to bus t' g n"
  shows "claimed_to bus' t' g n"
proof -
  note pub = bus_publish_Inr [OF assms(2)]
  have new: "(t, g, pe_partition p, pe_offset p) \<notin> set (eb_acknowledged bus)"
    using runningD(5) [OF assms(1)] published_position_new [OF assms(1,2)] by fastforce
  show ?thesis
    using assms(3) new
    by (auto simp: claimed_to_def pub(4) enqueue_topic_map_of split: option.splits)
qed

lemma publish_subscribed:
  assumes "bus_publish t e k bus = (Inr p, bus')"
  shows "subscribed bus' t' g \<longleftrightarrow> subscribed bus t' g"
  by (auto simp: subscribed_def bus_publish_Inr(4) [OF assms] enqueue_topic_map_of split: option.splits)

section \<open>Claiming\<close>

lemma subscribe_claimed:
  assumes "running bus" and "bus_subscribe t g bus = (r, bus')"
  shows "r = Inr ()" "running bus'" "subscribed bus' t g" "eb_logs bus' = eb_logs bus"
    and "claimed_to bus t' g' n \<Longrightarrow> claimed_to bus' t' g' n"
    and "subscribed bus t' g' \<Longrightarrow> subscribed bus' t' g'"
proof -
  have "r = Inr () \<and> running bus' \<and> subscribed bus' t g \<and> eb_logs bus' = eb_logs bus \<and>
    (claimed_to bus t' g' n \<longrightarrow> claimed_to bus' t' g' n) \<and> (subscribed bus t' g' \<longrightarrow> subscribed bus' t' g')"
  proof (cases "map_of (eb_queues bus) (t, g)")
    case (Some q)
    with assms runningD(2) [OF assms(1)] show ?thesis
      by (simp add: bus_subscribe_def ensure_open_def subscribed_def)
  next
    case None
    with assms(2) runningD(2) [OF assms(1)]
    have bus': "bus' = bus\<lparr>eb_queues := eb_queues bus @ [((t, g), map (\<lambda>p. consumed p g '''') (eb_logs bus t))]\<rparr>"
      and r: "r = Inr ()"
      by (simp_all add: bus_subscribe_def ensure_open_def)
    have queues: "map_of (eb_queues bus') (t', g') =
        (if (t', g') = (t, g) then Some (map (\<lambda>p. consumed p g '''') (eb_logs bus t)) else map_of (eb_queues bus) (t', g'))"
      for t' g'
      using None by (simp add: bus' map_add_def split: option.split)
    have fields: "eb_logs bus' = eb_logs bus" "eb_acknowledged bus' = eb_acknowledged bus" "eb_closed bus' = eb_closed bus"
      by (simp_all add: bus')
    have "running bus'"
      using bus_subscribe_wf [OF runningD(1) [OF assms(1)] assms(2)] assms(1) by (simp add: running_def fields)
    moreover have "claimed_to bus t' g' n \<longrightarrow> claimed_to bus' t' g' n"
      using None by (auto simp: claimed_to_def queues fields o_def split: option.splits)
    ultimately show ?thesis using r None by (simp add: fields subscribed_def queues)
  qed
  then show "r = Inr ()" "running bus'" "subscribed bus' t g" "eb_logs bus' = eb_logs bus"
    and "claimed_to bus t' g' n \<Longrightarrow> claimed_to bus' t' g' n"
    and "subscribed bus t' g' \<Longrightarrow> subscribed bus' t' g'"
    by simp_all
qed

lemma next_claimed:
  assumes "running bus" and "subscribed bus t g" and "claimed_to bus t g n" and "n < length (eb_logs bus t)"
  obtains m bus' where "bus_next t g c bus = (Message m, bus')"
    and "published_event.truncate m = eb_logs bus t ! n" and "ce_consumer_group m = g"
    and "claimed_to bus' t g (Suc n)" and "running bus'" and "eb_logs bus' = eb_logs bus"
    and "\<And>t' g' k. (t', g') \<noteq> (t, g) \<Longrightarrow> claimed_to bus t' g' k \<Longrightarrow> claimed_to bus' t' g' k"
    and "\<And>t' g'. subscribed bus t' g' \<Longrightarrow> subscribed bus' t' g'"
proof -
  from assms(2,3) obtain q where q: "map_of (eb_queues bus) (t, g) = Some q"
    and left: "map published_event.truncate q = drop n (eb_logs bus t)"
    by (auto simp: subscribed_def claimed_to_def)
  from assms(4) have drop: "drop n (eb_logs bus t) = eb_logs bus t ! n # drop (Suc n) (eb_logs bus t)"
    by (simp add: Cons_nth_drop_Suc)
  with left obtain m rest where m: "q = m # rest" "published_event.truncate m = eb_logs bus t ! n"
    and rest: "map published_event.truncate rest = drop (Suc n) (eb_logs bus t)"
    by (cases q) auto
  note fields = truncate_fields [OF m(2)]
  have entry: "eb_logs bus t ! n \<in> set (drop n (eb_logs bus t))" by (simp add: drop)
  then have topic: "pe_topic m = t"
    using log_topic [OF assms(1)] fields(1) by (metis in_set_dropD)
  have "ack_key_of m g \<notin> set (eb_acknowledged bus)"
    using assms(3) entry fields topic by (auto simp: claimed_to_def ack_key_of_def)
  then have skip: "skip_acknowledged (eb_acknowledged bus) g (queue_of bus t g) = (Some m, rest)"
    by (simp add: queue_of_def q m(1))
  let ?m = "m\<lparr>ce_consumer_group := g, ce_consumer_id := c\<rparr>"
  let ?bus = "(set_queue (t, g) rest bus)\<lparr>eb_callbacks := eb_callbacks bus @ [Claimed ?m]\<rparr>"
  have next1: "bus_next t g c bus = (Message ?m, ?bus)"
    using runningD(2) [OF assms(1)] skip by (simp add: bus_next_def Let_def)
  have sub: "\<forall>p \<in> set (drop (Suc n) (eb_logs bus t)). p \<in> set (drop n (eb_logs bus t))"
    by (simp add: drop)
  have "claimed_to ?bus t g (Suc n)"
    using assms(3,4) rest sub by (auto simp: claimed_to_def set_queue_def AList.update_conv')
  moreover have "running ?bus"
    using bus_next_wf [OF runningD(1) [OF assms(1)] next1] assms(1) by (auto simp: running_def set_queue_def)
  moreover have "claimed_to ?bus t' g' k" if "(t', g') \<noteq> (t, g)" "claimed_to bus t' g' k" for t' g' k
    using that by (auto simp: claimed_to_def set_queue_def AList.update_conv' split: option.splits)
  moreover have "subscribed ?bus t' g'" if "subscribed bus t' g'" for t' g'
    using that by (auto simp: subscribed_def set_queue_def AList.update_conv')
  ultimately show thesis using next1 m(2) by (intro that [of ?m ?bus]) (simp_all add: set_queue_def)
qed

lemma next_waits:
  assumes "running bus" and "subscribed bus t g" and "claimed_to bus t g (length (eb_logs bus t))"
  obtains bus' where "bus_next t g c bus = (Waits, bus')" and "running bus'" and "eb_logs bus' = eb_logs bus"
    and "\<And>t' g' k. claimed_to bus t' g' k \<Longrightarrow> claimed_to bus' t' g' k"
    and "\<And>t' g'. subscribed bus t' g' \<Longrightarrow> subscribed bus' t' g'"
proof -
  have q: "map_of (eb_queues bus) (t, g) = Some []"
    using assms(2,3) by (auto simp: subscribed_def claimed_to_def)
  then have next1: "bus_next t g c bus = (Waits, set_queue (t, g) [] bus)"
    using runningD(2) [OF assms(1)] by (simp add: bus_next_def queue_of_def)
  have "running (set_queue (t, g) [] bus)"
    using bus_next_wf [OF runningD(1) [OF assms(1)] next1] assms(1) by (auto simp: running_def set_queue_def)
  with next1 q show thesis
    by (intro that [of "set_queue (t, g) [] bus"])
      (auto simp: set_queue_def claimed_to_def subscribed_def AList.update_conv' split: option.splits if_splits)
qed

lemma claim_claimed:
  assumes "running bus" and "claimed_to bus t g n" and "n < length (eb_logs bus t)" and "g \<noteq> ''''" "c \<noteq> ''''"
  obtains m bus' where "bus_claim t g c bus = (Inr (Message m), bus')"
    and "published_event.truncate m = eb_logs bus t ! n" and "ce_consumer_group m = g"
    and "claimed_to bus' t g (Suc n)" and "running bus'" and "eb_logs bus' = eb_logs bus"
    and "\<And>t' g' k. (t', g') \<noteq> (t, g) \<Longrightarrow> claimed_to bus t' g' k \<Longrightarrow> claimed_to bus' t' g' k"
    and "\<And>t' g'. subscribed bus t' g' \<Longrightarrow> subscribed bus' t' g'"
proof -
  obtain r bus1 where sub: "bus_subscribe t g bus = (r, bus1)" by fastforce
  note s = subscribe_claimed [OF assms(1) sub]
  have len: "n < length (eb_logs bus1 t)" using assms(3) by (simp add: s(4))
  show thesis
  proof (rule next_claimed [OF s(2,3) s(5) [OF assms(2)] len, where c = c])
    fix m bus'
    assume next1: "bus_next t g c bus1 = (Message m, bus')"
      and m: "published_event.truncate m = eb_logs bus1 t ! n" "ce_consumer_group m = g"
      and bus': "claimed_to bus' t g (Suc n)" "running bus'" "eb_logs bus' = eb_logs bus1"
      and other: "\<And>t' g' k. (t', g') \<noteq> (t, g) \<Longrightarrow> claimed_to bus1 t' g' k \<Longrightarrow> claimed_to bus' t' g' k"
      and subs: "\<And>t' g'. subscribed bus1 t' g' \<Longrightarrow> subscribed bus' t' g'"
    show thesis
    proof (rule that)
      show "bus_claim t g c bus = (Inr (Message m), bus')"
        using assms(4,5) sub s(1) next1 by (simp add: bus_claim_def)
    qed (use m bus' other subs s in auto)
  qed
qed

section \<open>Acknowledging\<close>

lemma acknowledge_claimed:
  assumes "running bus" and "0 < n" and "n \<le> length (eb_logs bus t)"
    and "published_event.truncate m = eb_logs bus t ! (n - 1)" and "ce_consumer_group m = g"
    and "claimed_to bus t g n" and "bus_acknowledge m bus = (r, bus')"
  shows "r = Inr ()" "running bus'" "eb_logs bus' = eb_logs bus"
    and "(t', g') = (t, g) \<longrightarrow> k = n \<Longrightarrow> claimed_to bus t' g' k \<Longrightarrow> claimed_to bus' t' g' k"
    and "subscribed bus' t' g' \<longleftrightarrow> subscribed bus t' g'"
proof -
  note fields = truncate_fields [OF assms(4)]
  have "n - 1 < length (eb_logs bus t)" using assms(2,3) by simp
  then have entry: "eb_logs bus t ! (n - 1) \<in> set (eb_logs bus t)" by (rule nth_mem)
  then have topic: "pe_topic m = t" using log_topic [OF assms(1)] fields(1) by simp
  have bus': "bus' = bus\<lparr>eb_acknowledged := (t, g, pe_partition m, pe_offset m) # eb_acknowledged bus,
      eb_callbacks := eb_callbacks bus @ [Acknowledged m]\<rparr>" "r = Inr ()"
    using assms(5,7) topic by (auto simp: bus_acknowledge_def ack_key_of_def)
  show "r = Inr ()" "eb_logs bus' = eb_logs bus" "subscribed bus' t' g' \<longleftrightarrow> subscribed bus t' g'"
    by (simp_all add: bus' subscribed_def)
  have "bus_wf bus'"
    using bus_acknowledge_wf [OF runningD(1) [OF assms(1)], of m] assms(7) by simp
  then show "running bus'"
    using assms(1) entry fields by (auto simp: running_def bus')
  have fresh: "(pe_partition p, pe_offset p) \<noteq> (pe_partition m, pe_offset m)"
    if "p \<in> set (drop n (eb_logs bus t))" for p
  proof -
    let ?f = "\<lambda>p. (pe_partition p, pe_offset p)"
    obtain j where j: "n \<le> j" "j < length (eb_logs bus t)" "p = eb_logs bus t ! j"
    proof -
      from \<open>p \<in> set (drop n (eb_logs bus t))\<close> obtain i where "i < length (drop n (eb_logs bus t))"
        "p = drop n (eb_logs bus t) ! i"
        by (metis in_set_conv_nth)
      then show thesis by (intro that [of "n + i"]) auto
    qed
    have "distinct (map ?f (eb_logs bus t))" by (rule log_positions_distinct [OF runningD(4) [OF assms(1)]])
    then have "?f (eb_logs bus t ! j) \<noteq> ?f (eb_logs bus t ! (n - 1))"
      using j assms(2) nth_eq_iff_index_eq [of "map ?f (eb_logs bus t)" j "n - 1"] by simp
    then show ?thesis using fields j(3) by auto
  qed
  show "claimed_to bus' t' g' k" if "(t', g') = (t, g) \<longrightarrow> k = n" "claimed_to bus t' g' k"
    using that fresh by (auto simp: claimed_to_def bus' split: option.splits)
qed

end
