(* ===== verification/Judge_Liveness.thy ===== *)
theory Judge_Liveness
  imports Judge_System Workload_Lift Bus_Progress
begin

text \<open>
  The judge's system comes to its end: over services it can discover, index and serve, every task is
  dispatched, claimed, optimised, published and collected, the system passes and the report is
  written. The lemmas follow the nodes of the coordinator.
\<close>

abbreviation requests_topic :: string where
  "requests_topic \<equiv> topic_name Optimization_Requests"

abbreviation results_topic :: string where
  "results_topic \<equiv> topic_name Optimization_Results"

abbreviation worker_group :: string where
  "worker_group \<equiv> optimization_consumer_group"

text \<open>The judge's configuration: the in-memory services, workers with names, enough repairs, a
  recursion limit that covers the longest run, and identifiers that are not empty.\<close>

definition judge_setup ::
  "judge_config \<Rightarrow> (string \<times> benchmark_case) list \<Rightarrow> nat \<Rightarrow> nat \<Rightarrow> bool" where
  "judge_setup jc cases m l \<longleftrightarrow>
     (\<exists>elapsed draw loads float_int prior. jc_memory jc = judge_memory cases elapsed draw loads float_int prior \<and>
        (\<forall>k. fst (draw k) \<noteq> '''')) \<and>
     (\<forall>s. \<exists>i n. i \<noteq> '''' \<and> jc_worker jc s = judge_worker (jc_memory jc) m l i (jc_cluster jc) n) \<and>
     1 \<le> m \<and> 11 + 5 * m \<le> l"

definition plain_name :: "string \<Rightarrow> bool" where
  "plain_name s \<longleftrightarrow> s \<noteq> '''' \<and> CHR '':'' \<notin> set s"

text \<open>A service whose case allows what it observes and tests.\<close>

definition judged_service :: "(string \<times> benchmark_case) list \<Rightarrow> service_context \<Rightarrow> bool" where
  "judged_service cases x \<longleftrightarrow>
     plain_name (sc_service_id x) \<and> plain_name (sc_namespace x) \<and>
     (\<exists>c. map_of cases (sc_service_id x) = Some c \<and> all_allowed (case_event c) (bc_initial_policy c))"

definition task_of :: "string \<Rightarrow> service_context \<Rightarrow> string" where
  "task_of run_id x = run_id @ '':'' @ sc_service_id x"

definition judge_request ::
  "string \<Rightarrow> service_context \<Rightarrow> indexed_context \<Rightarrow> published_event \<Rightarrow> bool" where
  "judge_request run_id x ctx p \<longleftrightarrow>
     en_event_type (pe_event p) = Workload_Optimization_Requested \<and> envelope_wf (pe_event p) \<and>
     en_run_id (pe_event p) = run_id \<and> en_payload (pe_event p) = task_payload run_id x ctx \<and>
     pe_key p \<noteq> '''' \<and> ix_service_id ctx = sc_service_id x \<and> ix_context_ref ctx \<noteq> ''''"

definition judge_result :: "string \<Rightarrow> service_context \<Rightarrow> event_envelope \<Rightarrow> bool" where
  "judge_result run_id x e \<longleftrightarrow>
     en_run_id e = run_id \<and>
     (\<exists>i ex elapsed. we_accepted ex \<and>
        en_payload e = result_payload (task_of run_id x) (sc_service_id x) i ex elapsed)"

section \<open>A turn of a worker\<close>

text \<open>With a task it can serve, the worker publishes one accepted result and acknowledges the task.\<close>

lemma judge_process_effect:
  assumes mc_def: "mc = judge_memory cases elapsed draw loads float_int prior"
    and serv: "servable mc cases cluster (wv_services v) msg c"
    and allowed: "all_allowed (case_event c) (bc_initial_policy c)" "1 \<le> m" "11 + 5 * m \<le> l"
    and ids: "req_text (en_payload (pe_event msg)) ''task_id'' = Inr task"
      "req_text (en_payload (pe_event msg)) ''workload_id'' = Inr w"
  obtains v' e ex p bus where "process (judge_worker mc m l i cluster n) msg v = (Inr (), v')"
    and "bus_publish (topic_name Optimization_Results) e (pe_key msg) (sv_bus (wv_services v)) = (Inr p, bus)"
    and "sv_bus (wv_services v') = snd (bus_acknowledge msg bus)"
    and "sv_contexts (wv_services v') = sv_contexts (wv_services v)"
    and "sv_completed (wv_services v') =
      (sv_completed (wv_services v))(task \<mapsto> result_payload task w i ex elapsed)"
    and "en_run_id e = en_run_id (pe_event msg)" and "en_payload e = result_payload task w i ex elapsed"
    and "we_accepted ex"
proof -
  let ?wk = "judge_worker mc m l i cluster n" and ?e = "pe_event msg"
  obtain ns ref ctx key where
    ty: "en_event_type ?e = Workload_Optimization_Requested"
    and p1: "task \<noteq> ''''" and p2: "w \<noteq> ''''"
    and p3: "req_text (en_payload ?e) ''namespace'' = Inr ns" "ns \<noteq> ''''"
    and p4: "req_text (en_payload ?e) ''context_ref'' = Inr ref" "ref \<noteq> ''''"
    and stored: "context_get (mc_float_int mc) (mc_loads mc) ref (sv_contexts (wv_services v)) = Inr (Some ctx)"
    and own: "ix_service_id ctx = w" and case_c: "map_of cases w = Some c"
    and key: "workload_lock_key cluster ns w = Inr key" and new: "sv_completed (wv_services v) task = None"
    using serv ids unfolding servable_def Let_def by auto
  let ?v = "v\<lparr>wv_environment := None, wv_stats := wt_claimed_update Suc (wv_stats v)\<rparr>"
  have val: "service (validate_task (wk_ports ?wk) ?e) ?v = (Inr (task, w, ns, ctx), ?v)"
    using ty ids p1 p2 p3 p4 stored own
    by (simp add: service_def validate_task_def seq_def lift_result_def memory_context_get_def ret_def)
  let ?u = "?v\<lparr>wv_services := (wv_services v)\<lparr>sv_locked := key # sv_locked (wv_services v)\<rparr>\<rparr>"
  let ?f = "\<lambda>t e k. on_bus (bus_publish t e k)"
  have same: "publishing ?f ?wk = ?wk"
    by (simp add: publishing_def judge_worker_def memory_worker_def memory_ports_def)
  obtain e u ex where opt: "optimize ?wk msg task w ctx ?u =
      seq (service (?f (topic_name Optimization_Results) e (pe_key msg))) (\<lambda>_.
      seq (service (on_bus (bus_acknowledge msg))) (\<lambda>_. count (wt_completed_update Suc))) u"
    and u: "sv_bus (wv_services u) = sv_bus (wv_services v)"
      "sv_contexts (wv_services u) = sv_contexts (wv_services v)"
      "sv_completed (wv_services u) = (sv_completed (wv_services v))(task \<mapsto> result_payload task w i ex elapsed)"
    and e: "en_run_id e = en_run_id ?e" "en_payload e = result_payload task w i ex elapsed"
    and acc: "we_accepted ex"
    using judge_optimize_until_published [OF mc_def serv ids(2) case_c allowed, of ?f i n task ctx ?u]
    unfolding same by auto
  have "pe_key msg \<noteq> ''''" "\<not> eb_closed (sv_bus (wv_services v))"
    using serv by (auto simp: servable_def Let_def)
  from bus_publish_returns [OF this] obtain p bus where
    pub: "bus_publish (topic_name Optimization_Results) e (pe_key msg) (sv_bus (wv_services v)) = (Inr p, bus)"
    by blast
  let ?v1 = "u\<lparr>wv_services := (wv_services u)\<lparr>sv_bus := snd (bus_acknowledge msg bus)\<rparr>,
    wv_stats := wt_completed_update Suc (wv_stats u)\<rparr>"
  have done1: "optimize ?wk msg task w ctx ?u = (Inr (), ?v1)"
    using pub u(1) by (simp add: opt seq_def service_def on_bus_def bus_acknowledge_def count_def)
  let ?v2 = "?v1\<lparr>wv_services := (wv_services ?v1)\<lparr>sv_locked := remove1 key (sv_locked (wv_services ?v1))\<rparr>\<rparr>"
  have locked: "optimize_locked ?wk msg key task w ctx ?v = (Inr (), ?v2)"
    using done1 by (simp add: optimize_locked_def catching_def seq_def service_def ensuring_def
        memory_acquire_def memory_release_def)
  have "process ?wk msg v = (Inr (), ?v2)"
    using val locked new key
    by (simp add: process_def process_valid_def seq_def set_environment_def count_def service_def
        memory_completed_get_def lift_result_def)
  from that [OF this pub] u e acc show thesis by simp
qed

text \<open>A turn does that with the next task of the group.\<close>

lemma judge_turn:
  assumes cfg: "judge_setup jc cases m l" and svc: "judged_service cases x" and "plain_name (jc_cluster jc)"
    and bus: "running (sv_bus (wv_services (co_worker s)))"
      "claimed_to (sv_bus (wv_services (co_worker s))) requests_topic worker_group i"
      "i < length (eb_logs (sv_bus (wv_services (co_worker s))) requests_topic)"
    and req: "judge_request run_id x ctx (eb_logs (sv_bus (wv_services (co_worker s))) requests_topic ! i)"
    and stored: "context_get (mc_float_int (jc_memory jc)) (mc_loads (jc_memory jc)) (ix_context_ref ctx)
      (sv_contexts (wv_services (co_worker s))) = Inr (Some ctx)"
    and new: "sv_completed (wv_services (co_worker s)) (task_of run_id x) = None" and alive: "co_stopped s = []"
  obtains s' p where "worker_turn jc s = (Inr (), s')" and "co_stopped s' = []"
    and "running (sv_bus (wv_services (co_worker s')))"
    and "claimed_to (sv_bus (wv_services (co_worker s'))) requests_topic worker_group (Suc i)"
    and "eb_logs (sv_bus (wv_services (co_worker s'))) =
      (eb_logs (sv_bus (wv_services (co_worker s))))
        (results_topic := eb_logs (sv_bus (wv_services (co_worker s))) results_topic @ [p])"
    and "\<And>t g k. (t, g) \<noteq> (requests_topic, worker_group) \<Longrightarrow>
      claimed_to (sv_bus (wv_services (co_worker s))) t g k \<Longrightarrow>
      claimed_to (sv_bus (wv_services (co_worker s'))) t g k"
    and "\<And>t g. subscribed (sv_bus (wv_services (co_worker s))) t g \<Longrightarrow>
      subscribed (sv_bus (wv_services (co_worker s'))) t g"
    and "sv_contexts (wv_services (co_worker s')) = sv_contexts (wv_services (co_worker s))"
    and "\<And>task. task \<noteq> task_of run_id x \<Longrightarrow>
      sv_completed (wv_services (co_worker s')) task = sv_completed (wv_services (co_worker s)) task"
    and "judge_result run_id x (pe_event p)"
proof -
  from cfg obtain elapsed draw loads float_int prior w n where
    mc: "jc_memory jc = judge_memory cases elapsed draw loads float_int prior" and drawn: "\<And>k. fst (draw k) \<noteq> ''''"
    and wk: "w \<noteq> ''''" "jc_worker jc s = judge_worker (jc_memory jc) m l w (jc_cluster jc) n"
    and fuel: "1 \<le> m" "11 + 5 * m \<le> l"
    unfolding judge_setup_def by blast
  from svc obtain c where c: "map_of cases (sc_service_id x) = Some c"
    and allowed: "all_allowed (case_event c) (bc_initial_policy c)"
    and names: "plain_name (sc_service_id x)" "plain_name (sc_namespace x)"
    unfolding judged_service_def by blast
  let ?v = "co_worker s" and ?mc = "jc_memory jc"
  let ?bus = "sv_bus (wv_services ?v)"
  have groups: "worker_group \<noteq> ''''" by (simp add: optimization_consumer_group_def)
  show thesis
  proof (rule claim_claimed [OF bus groups wk(1)])
    fix msg bus1
    assume claim: "bus_claim requests_topic worker_group w ?bus = (Inr (Message msg), bus1)"
      and msg: "published_event.truncate msg = eb_logs ?bus requests_topic ! i" "ce_consumer_group msg = worker_group"
      and bus1: "claimed_to bus1 requests_topic worker_group (Suc i)" "running bus1" "eb_logs bus1 = eb_logs ?bus"
      and others: "\<And>t' g' k. (t', g') \<noteq> (requests_topic, worker_group) \<Longrightarrow> claimed_to ?bus t' g' k \<Longrightarrow> claimed_to bus1 t' g' k"
      and subs: "\<And>t' g'. subscribed ?bus t' g' \<Longrightarrow> subscribed bus1 t' g'"
    note fields = truncate_fields [OF msg(1)]
    let ?v1 = "?v\<lparr>wv_services := (wv_services ?v)\<lparr>sv_bus := bus1\<rparr>\<rparr>"
    have payload: "en_payload (pe_event msg) = task_payload run_id x ctx"
      using req fields by (simp add: judge_request_def)
    have texts: "req_text (en_payload (pe_event msg)) ''task_id'' = Inr (task_of run_id x)"
      "req_text (en_payload (pe_event msg)) ''workload_id'' = Inr (sc_service_id x)"
      "req_text (en_payload (pe_event msg)) ''namespace'' = Inr (sc_namespace x)"
      "req_text (en_payload (pe_event msg)) ''context_ref'' = Inr (ix_context_ref ctx)"
      "req_text (en_payload (pe_event msg)) ''repository_ref'' = Inr (''service://'' @ sc_service_id x)"
      by (simp_all add: payload task_payload_def req_text_def task_of_def)
    have key: "\<exists>key. workload_lock_key (jc_cluster jc) (sc_namespace x) (sc_service_id x) = Inr key"
      using names assms(3) by (simp add: lock_key_Inr plain_name_def)
    have task: "task_of run_id x \<noteq> ''''" by (simp add: task_of_def)
    have serv: "servable ?mc cases (jc_cluster jc) (wv_services ?v1) msg c"
      unfolding servable_def Let_def texts
      using req fields names key task stored new c drawn runningD(2) [OF bus1(2)]
      by (simp add: judge_request_def plain_name_def mc judge_memory_def)
    show thesis
    proof (rule judge_process_effect [OF mc serv allowed fuel texts(1,2), where i = w and n = n])
      fix v' e ex p bus2
      assume proc: "process (judge_worker ?mc m l w (jc_cluster jc) n) msg ?v1 = (Inr (), v')"
        and pub: "bus_publish results_topic e (pe_key msg) (sv_bus (wv_services ?v1)) = (Inr p, bus2)"
        and v'_bus: "sv_bus (wv_services v') = snd (bus_acknowledge msg bus2)"
        and v'_rest: "sv_contexts (wv_services v') = sv_contexts (wv_services ?v1)"
          "sv_completed (wv_services v') = (sv_completed (wv_services ?v1))(task_of run_id x \<mapsto>
            result_payload (task_of run_id x) (sc_service_id x) w ex elapsed)"
        and e: "en_run_id e = en_run_id (pe_event msg)"
          "en_payload e = result_payload (task_of run_id x) (sc_service_id x) w ex elapsed"
        and acc: "we_accepted ex"
      have pub1: "bus_publish results_topic e (pe_key msg) bus1 = (Inr p, bus2)" using pub by simp
      note p = bus_publish_Inr [OF pub1]
      have run2: "running bus2" by (rule publish_running [OF bus1(2) pub1])
      have logs2: "eb_logs bus2 = (eb_logs ?bus)(results_topic := eb_logs ?bus results_topic @ [p])"
        by (simp add: p(4) bus1(3))
      have len: "Suc i \<le> length (eb_logs bus2 requests_topic)" using bus(3) by (simp add: logs2)
      have msg2: "published_event.truncate msg = eb_logs bus2 requests_topic ! (Suc i - 1)"
        by (simp add: logs2 msg(1))
      have to2: "claimed_to bus2 t g k" if "claimed_to bus1 t g k" for t g k
        by (rule publish_claimed [OF bus1(2) pub1 that])
      obtain r bus3 where ack: "bus_acknowledge msg bus2 = (r, bus3)" by fastforce
      note a = acknowledge_claimed [OF run2 zero_less_Suc len msg2 msg(2) to2 [OF bus1(1)] ack]
      have v'_bus3: "sv_bus (wv_services v') = bus3" by (simp add: v'_bus ack)
      let ?s' = "s\<lparr>co_worker := v'\<rparr>"
      have turn: "worker_turn jc s = (Inr (), ?s')"
        using claim proc alive
        by (simp add: worker_turn_def on_worker_def wk(2) run_one_def service_def on_bus_def seq_def ret_def
            del: topic_name.simps)
      show thesis
      proof (rule that [OF turn])
        show "judge_result run_id x (pe_event p)"
          using e acc req fields by (auto simp: judge_result_def p(3) judge_request_def)
        show "claimed_to (sv_bus (wv_services (co_worker ?s'))) t g k"
          if "(t, g) \<noteq> (requests_topic, worker_group)" "claimed_to ?bus t g k" for t g k
        proof -
          have "(t, g) = (requests_topic, worker_group) \<longrightarrow> k = Suc i" using that(1) by blast
          from a(4) [OF this to2 [OF others [OF that]]] show ?thesis by (simp add: v'_bus3)
        qed
        show "subscribed (sv_bus (wv_services (co_worker ?s'))) t g" if "subscribed ?bus t g" for t g
          using a(5) subs [OF that] publish_subscribed [OF pub1] by (simp add: v'_bus3)
        show "claimed_to (sv_bus (wv_services (co_worker ?s'))) requests_topic worker_group (Suc i)"
          using a(4) [of requests_topic worker_group "Suc i"] to2 [OF bus1(1)] by (simp add: v'_bus3 del: topic_name.simps)
      qed (use a(2,3) logs2 v'_rest alive in \<open>simp_all add: v'_bus3 del: topic_name.simps\<close>)
    qed
  qed
qed

end
