(* ===== verification/Judge_Dispatch.thy ===== *)
theory Judge_Dispatch
  imports Judge_Liveness
begin

text \<open>
  The coordinator before it waits: it indexes every service it discovered and publishes one request
  for each of them, in order. After it the contexts are stored under their references and the log of
  the requests holds the tasks.
\<close>

declare topic_name.simps [simp del]

section \<open>Indexing\<close>

abbreviation service_root :: "judge_config \<Rightarrow> service_context \<Rightarrow> path" where
  "service_root jc x \<equiv> ft_resolve (jc_tree jc) (rp_local_path (sc_source_repository x))"

abbreviation service_files :: "judge_config \<Rightarrow> service_context \<Rightarrow> path list result" where
  "service_files jc x \<equiv>
     resolve_files (jc_tree jc) (jc_maximum jc) (service_root jc x) (sc_important_paths x)"

definition context_of :: "judge_config \<Rightarrow> service_context \<Rightarrow> indexed_context" where
  "context_of jc x =
     indexed_of (jc_tree jc) (jc_sha256 jc) x (service_root jc x)
       (case service_files jc x of Inl _ \<Rightarrow> [] | Inr files \<Rightarrow> files)"

text \<open>The files of the service can be selected, its hash is long enough to be cut, and its record is
  read back.\<close>

definition indexable :: "judge_config \<Rightarrow> service_context \<Rightarrow> bool" where
  "indexable jc x \<longleftrightarrow>
     (case service_files jc x of Inl _ \<Rightarrow> False | Inr files \<Rightarrow> True) \<and>
     16 \<le> length (ix_content_hash (context_of jc x)) \<and>
     mc_loads (jc_memory jc) (json_compact (PDict (indexed_to_dict (context_of jc x)))) =
       Inr (PDict (indexed_to_dict (context_of jc x)))"

lemma context_of_sel [simp]:
  "ix_service_id (context_of jc x) = sc_service_id x"
  "ix_context_ref (context_of jc x) =
     ''context://'' @ sc_service_id x @ ''/'' @ take 16 (ix_content_hash (context_of jc x))"
  by (simp_all add: context_of_def indexed_of_def Let_def)

lemma context_refs_differ:
  assumes "indexable jc x" "indexable jc y" "sc_service_id x \<noteq> sc_service_id y"
  shows "ix_context_ref (context_of jc x) \<noteq> ix_context_ref (context_of jc y)"
  using assms by (auto simp: indexable_def append_eq_append_conv)

lemma judge_index_fresh:
  assumes "indexable jc x" and "\<forall>r \<in> set (sv_contexts sv). cr_service_id r \<noteq> sc_service_id x"
  shows "judge_index jc x sv = (Inr (context_of jc x),
    sv\<lparr>sv_contexts := context_put (jc_now jc) (context_of jc x) (sv_contexts sv)\<rparr>)"
proof -
  obtain files where files: "service_files jc x = Inr files"
    using assms(1) by (auto simp: indexable_def split: sum.splits)
  have "filter (\<lambda>r. cr_service_id r = sc_service_id x) (sv_contexts sv) = []"
    using assms(2) by (simp add: filter_empty_conv)
  then have "context_latest f ld (sc_service_id x) (sv_contexts sv) = Inr None" for f ld
    by (simp add: context_latest_def latest_row_def read_context_def)
  with files show ?thesis
    by (simp add: judge_index_def index_service_def Let_def context_of_def)
qed

definition indexed_state :: "judge_config \<Rightarrow> service_context list \<Rightarrow> coordinator \<Rightarrow> coordinator" where
  "indexed_state jc xs s =
     s\<lparr>co_worker := (co_worker s)\<lparr>wv_services := (wv_services (co_worker s))
        \<lparr>sv_contexts := fold (context_put (jc_now jc)) (map (context_of jc) xs)
           (sv_contexts (wv_services (co_worker s)))\<rparr>\<rparr>\<rparr>"

lemma index_each:
  assumes "\<forall>x \<in> set xs. indexable jc x" and "distinct (map sc_service_id xs)"
    and "\<forall>r \<in> set (sv_contexts (wv_services (co_worker s))). cr_service_id r \<notin> sc_service_id ` set xs"
  shows "each (sp_index (judge_ports jc)) xs s = (Inr (map (context_of jc) xs), indexed_state jc xs s)"
  using assms
proof (induction xs arbitrary: s)
  case (Cons x xs)
  let ?s1 = "indexed_state jc [x] s"
  have "sp_index (judge_ports jc) x s = (Inr (context_of jc x), ?s1)"
    using judge_index_fresh [of jc x "wv_services (co_worker s)"] Cons.prems
    by (simp add: judge_ports_def on_worker_def service_def indexed_state_def)
  moreover have "each (sp_index (judge_ports jc)) xs ?s1 = (Inr (map (context_of jc) xs), indexed_state jc xs ?s1)"
    using Cons.prems
    by (intro Cons.IH) (auto simp: indexed_state_def context_put_def replace_row_def context_row_of_def)
  moreover have "indexed_state jc xs ?s1 = indexed_state jc (x # xs) s"
    by (simp add: indexed_state_def)
  ultimately show ?case by (simp add: seq_def ret_def)
qed (simp add: ret_def indexed_state_def)

lemma indexed_context_get:
  assumes "\<forall>x \<in> set xs. indexable jc x" and "distinct (map sc_service_id xs)" and "x \<in> set xs"
  shows "context_get (mc_float_int (jc_memory jc)) (mc_loads (jc_memory jc)) (ix_context_ref (context_of jc x))
    (sv_contexts (wv_services (co_worker (indexed_state jc xs s)))) = Inr (Some (context_of jc x))"
proof -
  have "inj_on (\<lambda>x. ix_context_ref (context_of jc x)) (set xs)"
  proof (rule inj_onI)
    fix y z assume "y \<in> set xs" "z \<in> set xs" "ix_context_ref (context_of jc y) = ix_context_ref (context_of jc z)"
    with context_refs_differ [of jc y z] assms(1) have "sc_service_id y = sc_service_id z" by blast
    with assms(2) \<open>y \<in> set xs\<close> \<open>z \<in> set xs\<close> show "y = z" by (auto simp: distinct_map inj_on_def)
  qed
  with assms(2) have "distinct (map ix_context_ref (map (context_of jc) xs))"
    by (simp add: distinct_map o_def)
  from contexts.get_fold_put [OF this, of "context_of jc x"] assms(3)
  have "find_row cr_context_ref (ix_context_ref (context_of jc x))
      (sv_contexts (wv_services (co_worker (indexed_state jc xs s)))) =
    Some (context_row_of (jc_now jc) (context_of jc x))"
    by (simp add: indexed_state_def del: context_of_sel)
  then show ?thesis
    using assms(1,3)
    by (simp add: context_get_def read_context_def loads_dict_def context_row_of_def indexable_def
        indexed_from_to_dict del: context_of_sel)
qed

lemma find_only: "y \<in> set ys \<Longrightarrow> P y \<Longrightarrow> (\<And>z. z \<in> set ys \<Longrightarrow> P z \<Longrightarrow> z = y) \<Longrightarrow> find P ys = Some y"
proof (induction ys)
  case (Cons z ys)
  show ?case
  proof (cases "P z")
    case True
    with Cons.prems(3) [of z] show ?thesis by simp
  next
    case False
    with Cons.prems(1,2) have "y \<in> set ys" by auto
    from Cons.IH [OF this Cons.prems(2) Cons.prems(3) [OF list.set_intros(2)]] False show ?thesis by simp
  qed
qed simp

lemma context_for_own:
  assumes "distinct (map sc_service_id xs)" and "x \<in> set xs"
  shows "context_for (map (context_of jc) xs) (sc_service_id x) = Some (context_of jc x)"
  unfolding context_for_def
proof (rule find_only)
  fix c assume "c \<in> set (rev (map (context_of jc) xs))" and id: "ix_service_id c = sc_service_id x"
  then obtain y where "y \<in> set xs" "c = context_of jc y" by auto
  moreover have "inj_on sc_service_id (set xs)" using assms(1) by (simp add: distinct_map)
  ultimately have "y = x" using id assms(2) by (intro inj_onD [of sc_service_id "set xs"]) simp_all
  with \<open>c = context_of jc y\<close> show "c = context_of jc x" by simp
next
  show "context_of jc x \<in> set (rev (map (context_of jc) xs))" using assms(2) by simp
qed simp

section \<open>Dispatch\<close>

lemma dispatch_one_publishes:
  assumes drawn: "\<And>k. fst (mc_draw (jc_memory jc) k) \<noteq> ''''" and run: "run_id \<noteq> ''''"
    and ctx: "context_for contexts (sc_service_id x) = Some ctx" and own: "ix_service_id ctx = sc_service_id x"
    and ref: "ix_context_ref ctx \<noteq> ''''" and bus: "running (sv_bus (wv_services (co_worker s)))"
  obtains p s' where "dispatch_one (judge_system jc) run_id contexts x s = (Inr p, s')"
    and "judge_request run_id x ctx p" and "running (sv_bus (wv_services (co_worker s')))"
    and "requests_log s' = (requests_log s)(requests_topic := requests_log s requests_topic @ [p])"
    and "\<And>t g n. claimed_to (sv_bus (wv_services (co_worker s))) t g n \<Longrightarrow>
      claimed_to (sv_bus (wv_services (co_worker s'))) t g n"
    and "sv_contexts (wv_services (co_worker s')) = sv_contexts (wv_services (co_worker s))"
    and "sv_completed (wv_services (co_worker s')) = sv_completed (wv_services (co_worker s))"
    and "co_stopped s' = co_stopped s"
proof -
  let ?sv = "wv_services (co_worker s)"
  let ?ident = "mc_draw (jc_memory jc) (sv_draws ?sv)"
  let ?key = "jc_cluster jc @ '':'' @ sc_namespace x @ '':'' @ sc_service_id x"
  let ?e = "\<lparr>en_event_type = Workload_Optimization_Requested, en_run_id = run_id, en_correlation_id = run_id,
      en_payload = task_payload run_id x ctx, en_event_id = fst ?ident, en_timestamp = snd ?ident,
      en_causation_id = None, en_attempt = 0, en_schema_version = ''1''\<rparr>"
  have wf: "envelope_wf ?e" using drawn run by (simp add: envelope_wf_def)
  then have new: "new_envelope ?ident Workload_Optimization_Requested run_id run_id None 0 (task_payload run_id x ctx) = Inr ?e"
    by (simp add: new_envelope_def check_envelope_Inr_iff)
  obtain p bus' where pub: "bus_publish requests_topic ?e ?key (sv_bus ?sv) = (Inr p, bus')"
    using bus_publish_returns [OF _ runningD(2) [OF bus], of ?key requests_topic ?e] by auto
  note p = bus_publish_Inr [OF pub]
  let ?s' = "s\<lparr>co_worker := (co_worker s)\<lparr>wv_services := ?sv\<lparr>sv_draws := Suc (sv_draws ?sv), sv_bus := bus'\<rparr>\<rparr>\<rparr>"
  show thesis
  proof (rule that [of p ?s'])
    show "dispatch_one (judge_system jc) run_id contexts x s = (Inr p, ?s')"
      using pub
      by (simp add: dispatch_one_def ctx seq_def on_worker_def service_def draw_identity_def lift_result_def new on_bus_def
         )
    show "judge_request run_id x ctx p" using wf own ref by (simp add: judge_request_def p(3))
    show "running (sv_bus (wv_services (co_worker ?s')))" using publish_running [OF bus pub] by simp
    show "requests_log ?s' = (requests_log s)(requests_topic := requests_log s requests_topic @ [p])"
      by (simp add: p(4))
    show "claimed_to (sv_bus (wv_services (co_worker ?s'))) t g n"
      if "claimed_to (sv_bus (wv_services (co_worker s))) t g n" for t g n
      using publish_claimed [OF bus pub that] by simp
  qed simp_all
qed

lemma dispatch_each:
  assumes drawn: "\<And>k. fst (mc_draw (jc_memory jc) k) \<noteq> ''''" and run: "run_id \<noteq> ''''"
    and "\<forall>x \<in> set xs. context_for contexts (sc_service_id x) = Some (f x) \<and> ix_service_id (f x) = sc_service_id x \<and>
      ix_context_ref (f x) \<noteq> ''''"
    and "running (sv_bus (wv_services (co_worker s)))"
  shows "\<exists>ps s'. each (dispatch_one (judge_system jc) run_id contexts) xs s = (Inr ps, s') \<and>
    list_all2 (\<lambda>x. judge_request run_id x (f x)) xs ps \<and> running (sv_bus (wv_services (co_worker s'))) \<and>
    requests_log s' = (requests_log s)(requests_topic := requests_log s requests_topic @ ps) \<and>
    (\<forall>t g n. claimed_to (sv_bus (wv_services (co_worker s))) t g n \<longrightarrow>
      claimed_to (sv_bus (wv_services (co_worker s'))) t g n) \<and>
    sv_contexts (wv_services (co_worker s')) = sv_contexts (wv_services (co_worker s)) \<and>
    sv_completed (wv_services (co_worker s')) = sv_completed (wv_services (co_worker s)) \<and>
    co_stopped s' = co_stopped s"
  using assms(3,4)
proof (induction xs arbitrary: s)
  case (Cons x xs)
  from Cons.prems have x: "context_for contexts (sc_service_id x) = Some (f x)" "ix_service_id (f x) = sc_service_id x"
    "ix_context_ref (f x) \<noteq> ''''" by simp_all
  from dispatch_one_publishes [OF drawn run x Cons.prems(2)] obtain p s1 where
    one: "dispatch_one (judge_system jc) run_id contexts x s = (Inr p, s1)"
    and req: "judge_request run_id x (f x) p" and bus1: "running (sv_bus (wv_services (co_worker s1)))"
    and log1: "requests_log s1 = (requests_log s)(requests_topic := requests_log s requests_topic @ [p])"
    and to1: "\<And>t g n. claimed_to (sv_bus (wv_services (co_worker s))) t g n \<Longrightarrow>
      claimed_to (sv_bus (wv_services (co_worker s1))) t g n"
    and rest1: "sv_contexts (wv_services (co_worker s1)) = sv_contexts (wv_services (co_worker s))"
      "sv_completed (wv_services (co_worker s1)) = sv_completed (wv_services (co_worker s))"
      "co_stopped s1 = co_stopped s"
    by blast
  from Cons.prems(1) have "\<forall>x \<in> set xs. context_for contexts (sc_service_id x) = Some (f x) \<and>
      ix_service_id (f x) = sc_service_id x \<and> ix_context_ref (f x) \<noteq> ''''" by simp
  from Cons.IH [OF this bus1] obtain ps s2 where
    more: "each (dispatch_one (judge_system jc) run_id contexts) xs s1 = (Inr ps, s2)"
      "list_all2 (\<lambda>x. judge_request run_id x (f x)) xs ps" "running (sv_bus (wv_services (co_worker s2)))"
      "requests_log s2 = (requests_log s1)(requests_topic := requests_log s1 requests_topic @ ps)"
      "\<forall>t g n. claimed_to (sv_bus (wv_services (co_worker s1))) t g n \<longrightarrow> claimed_to (sv_bus (wv_services (co_worker s2))) t g n"
      "sv_contexts (wv_services (co_worker s2)) = sv_contexts (wv_services (co_worker s1))"
      "sv_completed (wv_services (co_worker s2)) = sv_completed (wv_services (co_worker s1))"
      "co_stopped s2 = co_stopped s1"
    by blast
  show ?case
    using one req log1 to1 rest1 more by (intro exI [of _ "p # ps"] exI [of _ s2]) (simp add: seq_def ret_def)
qed (simp add: ret_def)

end
