(* ===== verification/Judge_Completion.thy ===== *)
theory Judge_Completion
  imports Judge_Liveness
begin

text \<open>
  The coordinator collects the results: while it awaits one, the workers' turns serve the tasks in
  the order they were dispatched, one result for each turn.
\<close>

declare topic_name.simps [simp del]

text \<open>After \<open>n\<close> results: the first \<open>n\<close> requests are claimed, and the \<open>n\<close> results are acknowledged.\<close>

definition awaiting ::
  "judge_config \<Rightarrow> string \<Rightarrow> (service_context \<times> indexed_context) list \<Rightarrow> nat \<Rightarrow> coordinator \<Rightarrow> bool" where
  "awaiting jc run_id tasks n s \<longleftrightarrow>
     (let sv = wv_services (co_worker s); bus = sv_bus sv in
      co_stopped s = [] \<and> running bus \<and> subscribed bus results_topic (results_group run_id) \<and>
      list_all2 (\<lambda>(x, ctx). judge_request run_id x ctx) tasks (eb_logs bus requests_topic) \<and>
      claimed_to bus requests_topic worker_group n \<and>
      length (eb_logs bus results_topic) = n \<and> claimed_to bus results_topic (results_group run_id) n \<and>
      (\<forall>(x, ctx) \<in> set tasks. context_get (mc_float_int (jc_memory jc)) (mc_loads (jc_memory jc))
         (ix_context_ref ctx) (sv_contexts sv) = Inr (Some ctx)) \<and>
      (\<forall>(x, ctx) \<in> set (drop n tasks). sv_completed sv (task_of run_id x) = None))"

lemma topics_differ [simp]: "results_topic \<noteq> requests_topic" "requests_topic \<noteq> results_topic"
  by (simp_all add: topic_name.simps)

lemma awaiting_step:
  assumes cfg: "judge_setup jc cases m l" and cluster: "plain_name (jc_cluster jc)"
    and svc: "\<forall>(x, ctx) \<in> set tasks. judged_service cases x"
    and ids: "distinct (map (sc_service_id \<circ> fst) tasks)"
    and inv: "awaiting jc run_id tasks n s" and left: "n < length tasks" and turns: "2 \<le> jc_turns jc"
  obtains msg s1 s2 where
    "await_message jc (jc_turns jc) results_topic (results_group run_id) ''system-coordinator'' s = (Inr msg, s1)"
    and "on_worker (service (on_bus (bus_acknowledge msg))) s1 = (Inr (), s2)"
    and "awaiting jc run_id tasks (Suc n) s2"
    and "judge_result run_id (fst (tasks ! n)) (pe_event msg)"
proof -
  let ?bus = "\<lambda>s. sv_bus (wv_services (co_worker s))" and ?grp = "results_group run_id"
  from inv have alive: "co_stopped s = []" and run: "running (?bus s)" and sub: "subscribed (?bus s) results_topic ?grp"
    and reqs: "list_all2 (\<lambda>(x, ctx). judge_request run_id x ctx) tasks (eb_logs (?bus s) requests_topic)"
    and at_req: "claimed_to (?bus s) requests_topic worker_group n"
    and len: "length (eb_logs (?bus s) results_topic) = n" and at_res: "claimed_to (?bus s) results_topic ?grp n"
    and stored: "\<forall>(x, ctx) \<in> set tasks. context_get (mc_float_int (jc_memory jc)) (mc_loads (jc_memory jc))
         (ix_context_ref ctx) (sv_contexts (wv_services (co_worker s))) = Inr (Some ctx)"
    and new: "\<forall>(x, ctx) \<in> set (drop n tasks). sv_completed (wv_services (co_worker s)) (task_of run_id x) = None"
    unfolding awaiting_def Let_def by blast+
  obtain x ctx where nth: "tasks ! n = (x, ctx)" by fastforce
  with left have mem: "(x, ctx) \<in> set tasks" and dmem: "(x, ctx) \<in> set (drop n tasks)"
    by (metis nth_mem, metis Cons_nth_drop_Suc list.set_intros(1))
  have lenr: "n < length (eb_logs (?bus s) requests_topic)" using reqs left by (simp add: list_all2_lengthD)
  have req: "judge_request run_id x ctx (eb_logs (?bus s) requests_topic ! n)"
    using list_all2_nthD [OF reqs left] by (simp add: nth)
  obtain k where k: "jc_turns jc = Suc (Suc k)" using turns by (metis add_2_eq_Suc le_Suc_ex)
  show thesis
  proof (rule next_waits [OF run sub, where c = "''system-coordinator''"])
    show "claimed_to (?bus s) results_topic ?grp (length (eb_logs (?bus s) results_topic))"
      by (simp only: len at_res)
  next
    fix bus1
    assume waits: "bus_next results_topic ?grp ''system-coordinator'' (?bus s) = (Waits, bus1)"
      and bus1: "running bus1" "eb_logs bus1 = eb_logs (?bus s)"
      and to1: "\<And>t g k. claimed_to (?bus s) t g k \<Longrightarrow> claimed_to bus1 t g k"
      and sub1: "\<And>t g. subscribed (?bus s) t g \<Longrightarrow> subscribed bus1 t g"
    let ?s1 = "s\<lparr>co_worker := (co_worker s)\<lparr>wv_services := (wv_services (co_worker s))\<lparr>sv_bus := bus1\<rparr>\<rparr>\<rparr>"
    have svcx: "judged_service cases x" using svc mem by auto
    show thesis
    proof (rule judge_turn [OF cfg svcx cluster, where s = ?s1 and i = n and ctx = ctx and run_id = run_id])
      fix s2 p
      assume turn: "worker_turn jc ?s1 = (Inr (), s2)" and alive2: "co_stopped s2 = []"
        and run2: "running (?bus s2)" and req2: "claimed_to (?bus s2) requests_topic worker_group (Suc n)"
        and logs2: "eb_logs (?bus s2) = (eb_logs (?bus ?s1))(results_topic := eb_logs (?bus ?s1) results_topic @ [p])"
        and to2: "\<And>t g k. (t, g) \<noteq> (requests_topic, worker_group) \<Longrightarrow>
          claimed_to (?bus ?s1) t g k \<Longrightarrow> claimed_to (?bus s2) t g k"
        and sub2: "\<And>t g. subscribed (?bus ?s1) t g \<Longrightarrow> subscribed (?bus s2) t g"
        and ctxs2: "sv_contexts (wv_services (co_worker s2)) = sv_contexts (wv_services (co_worker ?s1))"
        and done2: "\<And>task. task \<noteq> task_of run_id x \<Longrightarrow>
          sv_completed (wv_services (co_worker s2)) task = sv_completed (wv_services (co_worker ?s1)) task"
        and result: "judge_result run_id x (pe_event p)"
      have sub2': "subscribed (?bus s2) results_topic ?grp" by (rule sub2) (simp add: sub1 [OF sub])
      have at2: "claimed_to (?bus s2) results_topic ?grp n"
        by (rule to2) (simp_all add: to1 [OF at_res])
      have len2: "n < length (eb_logs (?bus s2) results_topic)" and nth2: "eb_logs (?bus s2) results_topic ! n = p"
        using len by (simp_all add: logs2 bus1(2) nth_append)
      show thesis
      proof (rule next_claimed [OF run2 sub2' at2 len2, where c = "''system-coordinator''"])
        fix msg bus3
        assume claim: "bus_next results_topic ?grp ''system-coordinator'' (?bus s2) = (Message msg, bus3)"
          and msg: "published_event.truncate msg = eb_logs (?bus s2) results_topic ! n" "ce_consumer_group msg = ?grp"
          and at3: "claimed_to bus3 results_topic ?grp (Suc n)" and run3: "running bus3"
          and logs3: "eb_logs bus3 = eb_logs (?bus s2)"
          and to3: "\<And>t g k. (t, g) \<noteq> (results_topic, ?grp) \<Longrightarrow> claimed_to (?bus s2) t g k \<Longrightarrow> claimed_to bus3 t g k"
          and sub3: "\<And>t g. subscribed (?bus s2) t g \<Longrightarrow> subscribed bus3 t g"
        let ?s3 = "s2\<lparr>co_worker := (co_worker s2)\<lparr>wv_services := (wv_services (co_worker s2))\<lparr>sv_bus := bus3\<rparr>\<rparr>\<rparr>"
        have msg3: "published_event.truncate msg = eb_logs bus3 results_topic ! (Suc n - 1)"
          by (simp add: logs3 msg(1))
        have len3: "Suc n \<le> length (eb_logs bus3 results_topic)" using len2 by (simp add: logs3)
        obtain r bus4 where ack: "bus_acknowledge msg bus3 = (r, bus4)" by fastforce
        note a = acknowledge_claimed [OF run3 zero_less_Suc len3 msg3 msg(2) at3 ack]
        let ?s4 = "?s3\<lparr>co_worker := (co_worker ?s3)\<lparr>wv_services := (wv_services (co_worker ?s3))\<lparr>sv_bus := bus4\<rparr>\<rparr>\<rparr>"
        have logs4: "eb_logs bus4 = (eb_logs (?bus s))(results_topic := eb_logs (?bus s) results_topic @ [p])"
          by (simp add: a(3) logs3 logs2 bus1(2))
        show thesis
        proof (rule that [of msg ?s3 ?s4])
          show "await_message jc (jc_turns jc) results_topic ?grp ''system-coordinator'' s = (Inr msg, ?s3)"
            unfolding k await_message.simps
            using waits turn claim
            by (simp add: seq_def on_worker_def service_def on_bus_def bus_turn_def ret_def)
          show "on_worker (service (on_bus (bus_acknowledge msg))) ?s3 = (Inr (), ?s4)"
            using ack a(1) by (simp add: on_worker_def service_def on_bus_def)
          show "judge_result run_id (fst (tasks ! n)) (pe_event msg)"
            using result truncate_fields(5) [OF msg(1)] by (simp add: nth nth2)
          have "claimed_to bus4 requests_topic worker_group (Suc n)"
            by (rule a(4), simp, rule to3, simp, rule req2)
          moreover have "claimed_to bus4 results_topic ?grp (Suc n)" by (rule a(4) [OF _ at3]) simp
          moreover have "subscribed bus4 results_topic ?grp"
            unfolding a(5) by (rule sub3 [OF sub2'])
          moreover have "sv_completed (wv_services (co_worker s2)) (task_of run_id y) = None"
            if "(y, c) \<in> set (drop (Suc n) tasks)" for y c
          proof -
            have "sc_service_id y \<noteq> sc_service_id x"
            proof
              assume eq: "sc_service_id y = sc_service_id x"
              have "distinct (map (sc_service_id \<circ> fst) (drop n tasks))"
                using ids by (simp add: drop_map [symmetric])
              with that eq left show False
                by (auto simp: Cons_nth_drop_Suc [symmetric] nth image_iff)
            qed
            then have "task_of run_id y \<noteq> task_of run_id x" by (simp add: task_of_def)
            moreover have "(y, c) \<in> set (drop n tasks)"
              using that left by (metis Cons_nth_drop_Suc list.set_intros(2))
            ultimately show ?thesis using done2 new by fastforce
          qed
          ultimately show "awaiting jc run_id tasks (Suc n) ?s4"
            using reqs stored a(2) len alive2 by (auto simp: awaiting_def Let_def logs4 ctxs2)
        qed
      qed
    qed (use bus1 lenr req stored mem new dmem alive to1 [OF at_req] in \<open>auto simp: bus1\<close>)
  qed
qed

lemma judge_ports_waiting [simp]:
  "sp_next (judge_ports jc) = await_message jc (jc_turns jc)"
  "sp_acknowledge (judge_ports jc) = (\<lambda>m. on_worker (service (on_bus (bus_acknowledge m))))"
  "sp_consume (judge_ports jc) = (\<lambda>t g c. on_worker (service (on_bus (judge_consume t g c))))"
  "sp_record (judge_ports jc) = (\<lambda>action reason s. (Inr (), s\<lparr>co_log := co_log s @ [(action, reason)]\<rparr>))"
  by (simp_all add: judge_ports_def fun_eq_iff)

lemma list_all2_take_snoc:
  "list_all2 P (take n xs) ys \<Longrightarrow> n < length xs \<Longrightarrow> P (xs ! n) y \<Longrightarrow> list_all2 P (take (Suc n) xs) (ys @ [y])"
  by (simp add: take_Suc_conv_app_nth list_all2_appendI)

lemma collect_results_all:
  assumes cfg: "judge_setup jc cases m l" and cluster: "plain_name (jc_cluster jc)"
    and svc: "\<forall>(x, ctx) \<in> set tasks. judged_service cases x"
    and ids: "distinct (map (sc_service_id \<circ> fst) tasks)" and turns: "2 \<le> jc_turns jc"
    and inv: "awaiting jc run_id tasks (length results) s"
    and sofar: "list_all2 (judge_result run_id) (take (length results) (map fst tasks)) results"
    and fuel: "length tasks \<le> length results + k"
  shows "\<exists>results' s'. collect_results (judge_system jc) run_id (length tasks) k results s = (Inr results', s') \<and>
    awaiting jc run_id tasks (length results') s' \<and> list_all2 (judge_result run_id) (map fst tasks) results'"
  using inv sofar fuel
proof (induction k arbitrary: results s)
  case 0
  then have "length results = length tasks" by (auto dest: list_all2_lengthD)
  with 0 show ?case by (simp add: ret_def)
next
  case (Suc k)
  show ?case
  proof (cases "length tasks \<le> length results")
    case True
    with Suc.prems(1,2) show ?thesis by (simp add: ret_def)
  next
    case False
    then have left: "length results < length tasks" by simp
    from awaiting_step [OF cfg cluster svc ids Suc.prems(1) left turns] obtain msg s1 s2 where
      next1: "await_message jc (jc_turns jc) results_topic (results_group run_id) ''system-coordinator'' s = (Inr msg, s1)"
      and ack: "on_worker (service (on_bus (bus_acknowledge msg))) s1 = (Inr (), s2)"
      and inv2: "awaiting jc run_id tasks (Suc (length results)) s2"
      and result: "judge_result run_id (fst (tasks ! length results)) (pe_event msg)" .
    let ?results = "results @ [pe_event msg]"
    have run: "en_run_id (pe_event msg) = run_id" using result by (simp add: judge_result_def)
    have "list_all2 (judge_result run_id) (take (length ?results) (map fst tasks)) ?results"
      using list_all2_take_snoc [OF Suc.prems(2), of "pe_event msg"] left result by simp
    from Suc.IH [OF _ this] inv2 Suc.prems(3) have
      "\<exists>results' s'. collect_results (judge_system jc) run_id (length tasks) k ?results s2 = (Inr results', s') \<and>
        awaiting jc run_id tasks (length results') s' \<and> list_all2 (judge_result run_id) (map fst tasks) results'"
      by simp
    moreover have "collect_results (judge_system jc) run_id (length tasks) (Suc k) results s =
      collect_results (judge_system jc) run_id (length tasks) k ?results s2"
      using left next1 ack by (simp add: seq_def run)
    ultimately show ?thesis by simp
  qed
qed

text \<open>What remains for \<open>wait_for_completion\<close>: the subscription comes first.\<close>

lemma subscribe_awaiting:
  assumes "running (sv_bus (wv_services (co_worker s)))" and "co_stopped s = []"
    and "list_all2 (\<lambda>(x, ctx). judge_request run_id x ctx) tasks (requests_log s requests_topic)"
    and "claimed_to (sv_bus (wv_services (co_worker s))) requests_topic worker_group 0"
    and "requests_log s results_topic = []"
    and "claimed_to (sv_bus (wv_services (co_worker s))) results_topic (results_group run_id) 0"
    and "\<forall>(x, ctx) \<in> set tasks. context_get (mc_float_int (jc_memory jc)) (mc_loads (jc_memory jc))
         (ix_context_ref ctx) (sv_contexts (wv_services (co_worker s))) = Inr (Some ctx)"
    and "\<forall>(x, ctx) \<in> set tasks. sv_completed (wv_services (co_worker s)) (task_of run_id x) = None"
  obtains s' where
    "on_worker (service (on_bus (judge_consume results_topic (results_group run_id) ''system-coordinator''))) s = (Inr (), s')"
    and "awaiting jc run_id tasks 0 s'"
proof -
  let ?bus = "sv_bus (wv_services (co_worker s))"
  obtain r bus where sub: "bus_subscribe results_topic (results_group run_id) ?bus = (r, bus)" by fastforce
  note b = subscribe_claimed [OF assms(1) sub]
  let ?s' = "s\<lparr>co_worker := (co_worker s)\<lparr>wv_services := (wv_services (co_worker s))\<lparr>sv_bus := bus\<rparr>\<rparr>\<rparr>"
  have "awaiting jc run_id tasks 0 ?s'"
    using assms b(2,3,4) b(5) [OF assms(4)] b(5) [OF assms(6)] by (simp add: awaiting_def Let_def)
  moreover have "results_group run_id \<noteq> ''''" by (simp add: results_group_def)
  ultimately show thesis
    using sub b(1) by (intro that) (simp_all add: on_worker_def service_def on_bus_def judge_consume_def)
qed

lemma wait_for_completion_all:
  assumes cfg: "judge_setup jc cases m l" and cluster: "plain_name (jc_cluster jc)"
    and svc: "\<forall>(x, ctx) \<in> set tasks. judged_service cases x"
    and ids: "distinct (map (sc_service_id \<circ> fst) tasks)"
    and turns: "2 \<le> jc_turns jc" and limit: "length tasks \<le> jc_limit jc"
    and st: "ss_run_id st = run_id" "ss_expected_results st = Some (length tasks)"
    and running: "running (sv_bus (wv_services (co_worker s)))" and alive: "co_stopped s = []"
    and reqs: "list_all2 (\<lambda>(x, ctx). judge_request run_id x ctx) tasks (requests_log s requests_topic)"
    and at: "claimed_to (sv_bus (wv_services (co_worker s))) requests_topic worker_group 0"
      "requests_log s results_topic = []"
      "claimed_to (sv_bus (wv_services (co_worker s))) results_topic (results_group run_id) 0"
    and stored: "\<forall>(x, ctx) \<in> set tasks. context_get (mc_float_int (jc_memory jc)) (mc_loads (jc_memory jc))
         (ix_context_ref ctx) (sv_contexts (wv_services (co_worker s))) = Inr (Some ctx)"
    and new: "\<forall>(x, ctx) \<in> set tasks. sv_completed (wv_services (co_worker s)) (task_of run_id x) = None"
  obtains results s' where "wait_for_completion (judge_system jc) st s =
      (Inr (st\<lparr>ss_result_events := Some results, ss_graph_node := ''WAIT_FOR_COMPLETION_EVENTS''\<rparr>), s')"
    and "list_all2 (judge_result run_id) (map fst tasks) results"
    and "running (sv_bus (wv_services (co_worker s')))"
proof (cases "tasks = []")
  case True
  with st running show thesis
    by (intro that [of "[]" "s\<lparr>co_log := co_log s @ [(''wait_for_completion_events'',
          ''received '' @ nat_str 0 @ '' durable results'')]\<rparr>"]) (simp_all add: wait_for_completion_def need_def seq_def ret_def)
next
  case False
  from subscribe_awaiting [OF running alive reqs at stored new] obtain s1 where
    sub: "on_worker (service (on_bus (judge_consume results_topic (results_group run_id) ''system-coordinator''))) s = (Inr (), s1)"
    and inv: "awaiting jc run_id tasks 0 s1" .
  have "\<exists>results' s'. collect_results (judge_system jc) run_id (length tasks) (jc_limit jc) [] s1 = (Inr results', s') \<and>
    awaiting jc run_id tasks (length results') s' \<and> list_all2 (judge_result run_id) (map fst tasks) results'"
    by (rule collect_results_all [OF cfg cluster svc ids turns]) (use inv limit in simp_all)
  then obtain results s2 where
    coll: "collect_results (judge_system jc) run_id (length tasks) (jc_limit jc) [] s1 = (Inr results, s2)"
    and inv2: "awaiting jc run_id tasks (length results) s2"
    and all: "list_all2 (judge_result run_id) (map fst tasks) results"
    by blast
  have limit1: "sy_message_limit (judge_system jc) = jc_limit jc" by (simp add: judge_system_def)
  show thesis
    using False st sub coll limit1 inv2 all
    by (intro that [of results "s2\<lparr>co_log := co_log s2 @ [(''wait_for_completion_events'',
          ''received '' @ nat_str (length results) @ '' durable results'')]\<rparr>"])
      (simp_all add: wait_for_completion_def need_def seq_def ret_def awaiting_def Let_def)
qed

lemma judge_result_accepted: "judge_result run_id x e \<Longrightarrow> result_accepted e"
  by (auto simp: judge_result_def result_accepted_def result_payload_def dget_def)

lemma judge_results_accepted:
  "list_all2 (judge_result run_id) xs results \<Longrightarrow> list_all result_accepted results"
  by (induction rule: list_all2_induct) (auto dest: judge_result_accepted)

end
