(* ===== verification/Judge_Run.thy ===== *)
theory Judge_Run
  imports Judge_Dispatch Judge_Completion
begin

text \<open>
  A run of the judge's system from its first node to the report, over the lemmas of the single
  nodes: it returns, it passed, and it holds one accepted result for every service, in order.
\<close>

section \<open>Verification and report\<close>

lemma coordinator_identity:
  assumes "\<And>k. fst (mc_draw (jc_memory jc) k) \<noteq> ''''" and "running (sv_bus (wv_services (co_worker s)))"
  obtains ident s' where "sp_identity (judge_ports jc) s = (Inr ident, s')" and "fst ident \<noteq> ''''"
    and "running (sv_bus (wv_services (co_worker s')))"
  using assms by (auto simp: on_worker_def service_def draw_identity_def)

lemma coordinator_publish:
  assumes "k \<noteq> ''''" and "running (sv_bus (wv_services (co_worker s)))"
  obtains p s' where "sp_publish (judge_ports jc) t e k s = (Inr p, s')"
    and "running (sv_bus (wv_services (co_worker s')))"
proof -
  from bus_publish_returns [OF assms(1) runningD(2) [OF assms(2)]] obtain p bus where
    pub: "bus_publish t e k (sv_bus (wv_services (co_worker s))) = (Inr p, bus)" by blast
  show thesis
    using pub publish_running [OF assms(2) pub]
    by (intro that [of p "s\<lparr>co_worker := (co_worker s)\<lparr>wv_services := (wv_services (co_worker s))\<lparr>sv_bus := bus\<rparr>\<rparr>\<rparr>"])
      (simp_all add: on_worker_def service_def on_bus_def)
qed

lemma new_envelope_ok:
  assumes "fst ident \<noteq> ''''" and "run_id \<noteq> ''''"
  shows "\<exists>e. new_envelope ident kind run_id run_id cause 0 payload = Inr e"
  using assms by (simp add: new_envelope_def check_envelope_Inr_iff envelope_wf_def)

lemma verify_system_passes:
  assumes drawn: "\<And>k. fst (mc_draw (jc_memory jc) k) \<noteq> ''''" and bus: "running (sv_bus (wv_services (co_worker s)))"
    and st: "ss_run_id st \<noteq> ''''" "ss_result_events st = Some results" "ss_expected_results st = Some (length results)"
    and accepted: "list_all result_accepted results"
  obtains s' where "verify_system (judge_system jc) st s =
    (Inr (st\<lparr>ss_system_passed := Some True, ss_graph_node := ''SYSTEM_VERIFY''\<rparr>), s')"
proof -
  have key: "system_key (judge_system jc) st \<noteq> ''''" by (simp add: system_key_def)
  obtain i1 s1 where id1: "sp_identity (judge_ports jc) s = (Inr i1, s1)" "fst i1 \<noteq> ''''"
    and bus1: "running (sv_bus (wv_services (co_worker s1)))"
    by (rule coordinator_identity [OF drawn bus])
  obtain e1 where e1: "new_envelope i1 System_Verification_Requested (ss_run_id st) (ss_run_id st) None 0
      [(''namespace'', PStr (ss_namespace st))] = Inr e1"
    using new_envelope_ok [OF id1(2) st(1)] by blast
  obtain p2 s2 where pub2: "sp_publish (judge_ports jc) (topic_name System_Events) e1 (system_key (judge_system jc) st) s1 = (Inr p2, s2)"
    and bus2: "running (sv_bus (wv_services (co_worker s2)))"
    by (rule coordinator_publish [OF key bus1])
  obtain i3 s3 where id3: "sp_identity (judge_ports jc) s2 = (Inr i3, s3)" "fst i3 \<noteq> ''''"
    and bus3: "running (sv_bus (wv_services (co_worker s3)))"
    by (rule coordinator_identity [OF drawn bus2])
  obtain e3 where e3: "new_envelope i3 System_Verification_Completed (ss_run_id st) (ss_run_id st) (Some (en_event_id e1)) 0
      [(''namespace'', PStr (ss_namespace st)), (''passed'', PBool True),
       (''workload_verification_passed'', PBool True), (''end_to_end_passed'', PBool True)] = Inr e3"
    using new_envelope_ok [OF id3(2) st(1)] by blast
  obtain p4 s4 where pub4: "sp_publish (judge_ports jc) (topic_name System_Events) e3 (system_key (judge_system jc) st) s3 = (Inr p4, s4)"
    by (rule coordinator_publish [OF key bus3])
  show thesis
    using id1(1) e1 pub2 id3(1) e3 pub4 st(2,3) accepted
    by (intro that) (simp add: verify_system_def seq_def lift_result_def need_def ret_def Let_def
        del: judge_ports_sel(1,2))
qed

lemma judge_result_row:
  assumes "judge_result run_id x e"
  shows "\<exists>row. report_row e = Inr row" and "req_text (en_payload e) ''workload_id'' = Inr (sc_service_id x)"
  using assms
  by (auto simp: judge_result_def report_row_def result_payload_def Let_def)

lemma report_writes:
  assumes st: "ss_result_events st = Some results" "ss_system_passed st = Some passed" "ss_services st = Some services"
    and results: "list_all2 (judge_result run_id) xs results"
  obtains path s' where "report (judge_system jc) st s =
    (Inr (st\<lparr>ss_report_path := Some path, ss_graph_node := ''SYSTEM_REPORT''\<rparr>), s')"
proof -
  have each: "\<forall>e \<in> set results. \<exists>x. judge_result run_id x e"
    using results by (induction rule: list_all2_induct) auto
  have "\<exists>ks. rmap (\<lambda>e. rbind (req_text (en_payload e) ''workload_id'') (\<lambda>key. Inr (key, e))) results = Inr ks"
    unfolding rmap_total_iff using each judge_result_row(2) by fastforce
  then obtain ks where ks: "rmap (\<lambda>e. rbind (req_text (en_payload e) ''workload_id'') (\<lambda>key. Inr (key, e))) results = Inr ks"
    by blast
  have "snd k \<in> set results" if "k \<in> set ks" for k
    using that rmap_Inr_set [OF ks, of k] by (auto simp: rbind_Inr_iff)
  then have "\<exists>rows. rmap report_row (map snd (sort_key fst ks)) = Inr rows"
    unfolding rmap_total_iff using each judge_result_row(1) by fastforce
  then obtain rows where rows: "rmap report_row (map snd (sort_key fst ks)) = Inr rows" by blast
  have "\<exists>path s'. write_report (judge_system jc) st s = (Inr path, s')"
    using ks rows st
    by (cases "jc_report_directory jc")
      (simp_all add: write_report_def judge_system_def judge_ports_def seq_def need_def lift_result_def ret_def Let_def)
  then obtain path s1 where "write_report (judge_system jc) st s = (Inr path, s1)" by blast
  then show thesis
    by (intro that [of path "s1\<lparr>co_log := co_log s1 @ [(''system_report'',
        case path of None \<Rightarrow> ''final namespace result is ready'' | Some p \<Rightarrow> ''wrote final namespace report to '' @ p)]\<rparr>"])
      (simp add: report_def seq_def ret_def)
qed

section \<open>The whole run\<close>

text \<open>A state in which nothing has been published, stored or completed, and every worker runs.\<close>

definition fresh_start :: "coordinator \<Rightarrow> bool" where
  "fresh_start s \<longleftrightarrow>
     (\<exists>n. new_bus n = Inr (sv_bus (wv_services (co_worker s)))) \<and> co_stopped s = [] \<and>
     sv_contexts (wv_services (co_worker s)) = [] \<and> (\<forall>t. sv_completed (wv_services (co_worker s)) t = None)"

lemma new_bus_running:
  assumes "new_bus n = Inr bus"
  shows "running bus" "claimed_to bus t g 0" "eb_logs bus t = []"
  using assms new_bus_wf [OF assms]
  by (auto simp: new_bus_def running_def claimed_to_def split: if_splits)

lemma registry_each:
  "\<exists>ys s'. each (sp_registry_put (judge_ports jc)) xs s = (Inr ys, s') \<and> co_worker s' = co_worker s \<and> co_stopped s' = co_stopped s"
proof (induction xs arbitrary: s)
  case (Cons x xs)
  obtain ys s' where "each (sp_registry_put (judge_ports jc)) xs (s\<lparr>co_registry := registry_put x (co_registry s)\<rparr>) = (Inr ys, s')"
    "co_worker s' = co_worker s" "co_stopped s' = co_stopped s"
    using Cons [of "s\<lparr>co_registry := registry_put x (co_registry s)\<rparr>"] by auto
  then show ?case by (simp add: judge_ports_def seq_def ret_def)
qed (simp add: ret_def)

definition judge_ready ::
  "judge_config \<Rightarrow> (string \<times> benchmark_case) list \<Rightarrow> service_context list \<Rightarrow> bool" where
  "judge_ready jc cases xs \<longleftrightarrow>
     (\<exists>m l. judge_setup jc cases m l) \<and> plain_name (jc_cluster jc) \<and>
     (\<forall>x \<in> set xs. judged_service cases x \<and> indexable jc x) \<and> distinct (map sc_service_id xs) \<and>
     2 \<le> jc_turns jc \<and> length xs \<le> jc_limit jc"

lemma judge_readyD:
  assumes "judge_ready jc cases xs"
  shows "\<exists>m l. judge_setup jc cases m l" "plain_name (jc_cluster jc)" "2 \<le> jc_turns jc" "length xs \<le> jc_limit jc"
    "distinct (map sc_service_id xs)" "\<forall>x \<in> set xs. judged_service cases x" "\<forall>x \<in> set xs. indexable jc x"
    "fst (mc_draw (jc_memory jc) k) \<noteq> ''''"
  using assms by (auto simp: judge_ready_def judge_setup_def judge_memory_def)

text \<open>From the start to the stored contexts.\<close>

lemma judge_indexes:
  assumes ready: "judge_ready jc cases xs" and xs: "xs = static_discover (jc_services jc) (ss_namespace st)"
    and empty: "sv_contexts (wv_services (co_worker s)) = []"
  obtains s' where "seq (discover_system (judge_system jc) st) (\<lambda>st1.
      seq (build_registry (judge_system jc) st1) (index_contexts (judge_system jc))) s =
    (Inr (st\<lparr>ss_services := Some xs, ss_contexts := Some (map (context_of jc) xs),
       ss_graph_node := ''INDEX_SERVICE_CONTEXTS''\<rparr>), s')"
    and "sv_bus (wv_services (co_worker s')) = sv_bus (wv_services (co_worker s))"
    and "sv_completed (wv_services (co_worker s')) = sv_completed (wv_services (co_worker s))"
    and "co_stopped s' = co_stopped s"
    and "\<And>x. x \<in> set xs \<Longrightarrow> context_get (mc_float_int (jc_memory jc)) (mc_loads (jc_memory jc))
      (ix_context_ref (context_of jc x)) (sv_contexts (wv_services (co_worker s'))) = Inr (Some (context_of jc x))"
proof -
  note r = judge_readyD [OF ready]
  let ?st1 = "st\<lparr>ss_services := Some xs, ss_graph_node := ''DISCOVER_SYSTEM''\<rparr>"
  let ?s1 = "s\<lparr>co_log := co_log s @ [(''discover_system'', ''discovered '' @ nat_str (length xs) @ '' workloads dynamically'')]\<rparr>"
  have n1: "discover_system (judge_system jc) st s = (Inr ?st1, ?s1)"
    by (simp add: discover_system_def judge_ports_def seq_def ret_def xs)
  let ?st2 = "?st1\<lparr>ss_graph_node := ''BUILD_SERVICE_REGISTRY''\<rparr>"
  obtain ys s1' where reg: "each (sp_registry_put (judge_ports jc)) xs ?s1 = (Inr ys, s1')" "co_worker s1' = co_worker ?s1" "co_stopped s1' = co_stopped ?s1"
    using registry_each by blast
  let ?s2 = "s1'\<lparr>co_log := co_log s1' @ [(''build_service_registry'', ''persisted deterministic service records'')]\<rparr>"
  have n2: "build_registry (judge_system jc) ?st1 ?s1 = (Inr ?st2, ?s2)"
    using reg(1) by (simp add: build_registry_def seq_def need_def ret_def)
  let ?contexts = "map (context_of jc) xs" and ?i = "indexed_state jc xs ?s2"
  let ?s3 = "?i\<lparr>co_log := co_log ?i @ [(''index_service_contexts'',
      ''indexed '' @ nat_str (sum_list (map (\<lambda>c. length (ix_files c)) ?contexts)) @ '' service-scoped files'')]\<rparr>"
  have "each (sp_index (judge_ports jc)) xs ?s2 = (Inr ?contexts, ?i)"
    by (rule index_each) (use r reg(2) empty in auto)
  then have n3: "index_contexts (judge_system jc) ?st2 ?s2 =
      (Inr (?st2\<lparr>ss_contexts := Some ?contexts, ss_graph_node := ''INDEX_SERVICE_CONTEXTS''\<rparr>), ?s3)"
    by (simp add: index_contexts_def seq_def need_def ret_def)
  show thesis
  proof (rule that [of ?s3])
    show "context_get (mc_float_int (jc_memory jc)) (mc_loads (jc_memory jc))
      (ix_context_ref (context_of jc x)) (sv_contexts (wv_services (co_worker ?s3))) = Inr (Some (context_of jc x))"
      if "x \<in> set xs" for x
      using indexed_context_get [OF r(7,5) that, of ?s2] by simp
  qed (use n1 n2 n3 reg(2,3) in \<open>simp_all add: seq_def indexed_state_def\<close>)
qed

text \<open>From the stored contexts to the results.\<close>

lemma judge_collects:
  assumes ready: "judge_ready jc cases xs" and id: "ss_run_id st \<noteq> ''''"
    and st: "ss_services st = Some xs" "ss_contexts st = Some (map (context_of jc) xs)"
    and new: "new_bus n = Inr (sv_bus (wv_services (co_worker s)))" and alive: "co_stopped s = []"
    and fresh: "\<And>t. sv_completed (wv_services (co_worker s)) t = None"
    and stored: "\<And>x. x \<in> set xs \<Longrightarrow> context_get (mc_float_int (jc_memory jc)) (mc_loads (jc_memory jc))
      (ix_context_ref (context_of jc x)) (sv_contexts (wv_services (co_worker s))) = Inr (Some (context_of jc x))"
  obtains results s' where "seq (dispatch (judge_system jc) st) (wait_for_completion (judge_system jc)) s =
      (Inr (st\<lparr>ss_expected_results := Some (length xs), ss_result_events := Some results,
         ss_graph_node := ''WAIT_FOR_COMPLETION_EVENTS''\<rparr>), s')"
    and "list_all2 (judge_result (ss_run_id st)) xs results" and "running (sv_bus (wv_services (co_worker s')))"
proof -
  note r = judge_readyD [OF ready] and bus = new_bus_running [OF new]
  from r(1) obtain m l where cfg: "judge_setup jc cases m l" by blast
  have own: "\<forall>x \<in> set xs. context_for (map (context_of jc) xs) (sc_service_id x) = Some (context_of jc x) \<and>
      ix_service_id (context_of jc x) = sc_service_id x \<and> ix_context_ref (context_of jc x) \<noteq> ''''"
    using context_for_own [OF r(5)] by simp
  obtain ps s4 where disp: "each (dispatch_one (judge_system jc) (ss_run_id st) (map (context_of jc) xs)) xs s = (Inr ps, s4)"
    and reqs: "list_all2 (\<lambda>x. judge_request (ss_run_id st) x (context_of jc x)) xs ps"
    and bus4: "running (sv_bus (wv_services (co_worker s4)))"
    and logs4: "requests_log s4 = (requests_log s)(requests_topic := requests_log s requests_topic @ ps)"
    and to4: "\<And>t g n. claimed_to (sv_bus (wv_services (co_worker s))) t g n \<Longrightarrow>
      claimed_to (sv_bus (wv_services (co_worker s4))) t g n"
    and alive4: "co_stopped s4 = co_stopped s"
    and same4: "sv_contexts (wv_services (co_worker s4)) = sv_contexts (wv_services (co_worker s))"
      "sv_completed (wv_services (co_worker s4)) = sv_completed (wv_services (co_worker s))"
    using dispatch_each [OF r(8) id own bus(1)] by blast
  let ?st4 = "st\<lparr>ss_expected_results := Some (length xs), ss_graph_node := ''DISPATCH_WORKLOAD_EVENTS''\<rparr>"
  let ?s5 = "s4\<lparr>co_log := co_log s4 @ [(''dispatch_workload_events'',
      ''published '' @ nat_str (length xs) @ '' independently consumable tasks'')]\<rparr>"
  have n4: "dispatch (judge_system jc) st s = (Inr ?st4, ?s5)"
    using disp st by (simp add: dispatch_def seq_def need_def ret_def)
  let ?tasks = "map (\<lambda>x. (x, context_of jc x)) xs"
  show thesis
  proof (rule wait_for_completion_all [OF cfg r(2), of ?tasks, where st = ?st4 and s = ?s5 and run_id = "ss_run_id st"])
    show "list_all2 (\<lambda>(x, ctx). judge_request (ss_run_id st) x ctx) ?tasks (requests_log ?s5 requests_topic)"
      using reqs by (simp add: logs4 bus(3) list_all2_map1)
    show "requests_log ?s5 results_topic = []" by (simp add: logs4 bus(3))
    fix results s6
    assume "wait_for_completion (judge_system jc) ?st4 ?s5 =
        (Inr (?st4\<lparr>ss_result_events := Some results, ss_graph_node := ''WAIT_FOR_COMPLETION_EVENTS''\<rparr>), s6)"
      and "list_all2 (judge_result (ss_run_id st)) (map fst ?tasks) results"
      and "running (sv_bus (wv_services (co_worker s6)))"
    with n4 show thesis by (intro that [of results s6]) (simp_all add: seq_def o_def)
  qed (use r stored fresh alive alive4 same4 bus4 to4 bus(2) in \<open>auto simp: o_def\<close>)
qed

lemma seq_step: "m s = (Inr x, s') \<Longrightarrow> seq m f s = f x s'"
  by (simp add: seq_def)

lemma system_graph_stages:
  "system_graph cfg st =
     seq (seq (discover_system cfg st) (\<lambda>st1. seq (build_registry cfg st1) (index_contexts cfg))) (\<lambda>st3.
     seq (seq (dispatch cfg st3) (wait_for_completion cfg)) (\<lambda>st5.
     seq (aggregate cfg st5) (\<lambda>st6.
     seq (verify_system cfg st6) (\<lambda>st7.
     seq (need ''system_passed'' (ss_system_passed st7)) (\<lambda>passed.
     if passed then report cfg st7 else diagnose_system cfg st7)))))"
  by (simp add: system_graph_def seq_def fun_eq_iff split: prod.splits sum.splits)

lemma judge_graph_passes:
  assumes ready: "judge_ready jc cases xs" and xs: "xs = static_discover (jc_services jc) (ss_namespace st)"
    and fresh: "fresh_start s" and id: "ss_run_id st \<noteq> ''''"
  shows "\<exists>final results s'. system_graph (judge_system jc) st s = (Inr final, s') \<and>
    ss_services final = Some xs \<and> ss_result_events final = Some results \<and> ss_system_passed final = Some True \<and>
    list_all2 (judge_result (ss_run_id st)) xs results"
proof -
  from fresh obtain n where new: "new_bus n = Inr (sv_bus (wv_services (co_worker s)))"
    and alive0: "co_stopped s = []"
    and ctx0: "sv_contexts (wv_services (co_worker s)) = []"
    and done0: "\<And>t. sv_completed (wv_services (co_worker s)) t = None"
    unfolding fresh_start_def by blast
  let ?st3 = "st\<lparr>ss_services := Some xs, ss_contexts := Some (map (context_of jc) xs),
       ss_graph_node := ''INDEX_SERVICE_CONTEXTS''\<rparr>"
  obtain s3 where n3: "seq (discover_system (judge_system jc) st) (\<lambda>st1.
      seq (build_registry (judge_system jc) st1) (index_contexts (judge_system jc))) s = (Inr ?st3, s3)"
    and s3: "sv_bus (wv_services (co_worker s3)) = sv_bus (wv_services (co_worker s))"
      "sv_completed (wv_services (co_worker s3)) = sv_completed (wv_services (co_worker s))"
      "co_stopped s3 = co_stopped s"
    and stored: "\<And>x. x \<in> set xs \<Longrightarrow> context_get (mc_float_int (jc_memory jc)) (mc_loads (jc_memory jc))
      (ix_context_ref (context_of jc x)) (sv_contexts (wv_services (co_worker s3))) = Inr (Some (context_of jc x))"
    using judge_indexes [OF ready xs ctx0] by metis
  obtain results s5 where n5: "seq (dispatch (judge_system jc) ?st3) (wait_for_completion (judge_system jc)) s3 =
      (Inr (?st3\<lparr>ss_expected_results := Some (length xs), ss_result_events := Some results,
         ss_graph_node := ''WAIT_FOR_COMPLETION_EVENTS''\<rparr>), s5)"
    and all3: "list_all2 (judge_result (ss_run_id ?st3)) xs results" and bus5: "running (sv_bus (wv_services (co_worker s5)))"
    by (rule judge_collects [OF ready, of ?st3 n s3]) (use id new done0 alive0 s3 stored in simp_all)
  let ?st6 = "?st3\<lparr>ss_expected_results := Some (length xs), ss_result_events := Some results,
       ss_graph_node := ''AGGREGATE_RESULTS''\<rparr>"
  let ?s6 = "s5\<lparr>co_log := co_log s5 @ [(''aggregate_results'', ''aggregated results by workload and task'')]\<rparr>"
  have all: "list_all2 (judge_result (ss_run_id st)) xs results" using all3 by simp
  let ?st7 = "?st6\<lparr>ss_system_passed := Some True, ss_graph_node := ''SYSTEM_VERIFY''\<rparr>"
  obtain s7 where n7: "verify_system (judge_system jc) ?st6 ?s6 = (Inr ?st7, s7)"
    by (rule verify_system_passes [OF judge_readyD(8) [OF ready], of ?s6 ?st6 results])
      (use bus5 id list_all2_lengthD [OF all] judge_results_accepted [OF all] in simp_all)
  obtain path s8 where n8: "report (judge_system jc) ?st7 s7 =
      (Inr (?st7\<lparr>ss_report_path := Some path, ss_graph_node := ''SYSTEM_REPORT''\<rparr>), s8)"
    by (rule report_writes [of ?st7 results True xs, OF _ _ _ all]) simp_all
  have n6: "aggregate (judge_system jc) 
      (?st3\<lparr>ss_expected_results := Some (length xs), ss_result_events := Some results,
         ss_graph_node := ''WAIT_FOR_COMPLETION_EVENTS''\<rparr>) s5 = (Inr ?st6, ?s6)"
    by (simp add: aggregate_def seq_def ret_def)
  have "system_graph (judge_system jc) st s =
      (Inr (?st7\<lparr>ss_report_path := Some path, ss_graph_node := ''SYSTEM_REPORT''\<rparr>), s8)"
    unfolding system_graph_stages
    by (subst seq_step, rule n3, subst seq_step, rule n5, subst seq_step, rule n6, subst seq_step, rule n7)
      (use n8 in \<open>simp add: need_def seq_step [where m = "ret _", OF ret_def]\<close>)
  with all show ?thesis by simp
qed

lemma judge_run_returns:
  assumes ready: "judge_ready jc cases xs" and xs: "xs = static_discover (jc_services jc) namespace"
    and fresh: "fresh_start s" and id: "(if truthy_opt run_id then or_empty run_id else uuid) = identifier" "identifier \<noteq> ''''"
  shows "\<exists>r s'. run_system (judge_system jc) prior namespace run_id uuid s = (Inr r, s') \<and>
    sr_run_id r = identifier \<and> sr_services r = xs \<and> sr_system_passed r \<and>
    list_all2 (judge_result identifier) xs (sr_results r)"
proof -
  let ?st = "prior\<lparr>ss_run_id := identifier, ss_namespace := namespace, ss_graph_node := ''START''\<rparr>"
  from judge_graph_passes [OF ready, of ?st s] xs fresh id(2) obtain final results s' where
    graph: "system_graph (judge_system jc) ?st s = (Inr final, s')"
    and final: "ss_services final = Some xs" "ss_result_events final = Some results" "ss_system_passed final = Some True"
    and all: "list_all2 (judge_result identifier) xs results"
    by auto
  have "sp_write_summary (judge_ports jc) = ret None" by (simp add: judge_ports_def)
  with graph final all show ?thesis
    by (simp add: run_system_def Let_def id(1) seq_def need_def ret_def)
qed

end
