(* ===== verification/Benchmark_Files.thy ===== *)
theory Benchmark_Files
  imports Observation Evaluation Resolver
begin

text \<open>
  Reading benchmarks: \<open>load_benchmark\<close> of \<open>judge_layer/simulator/workload_runner.py\<close> and
  \<open>load_system_benchmark\<close> of \<open>judge_layer/evaluation/system_benchmarks.py\<close>, over a record of what
  the file system, YAML and JSON give for a path.
\<close>

record benchmark_files =
  bf_yaml :: "string \<Rightarrow> pyval result"
  bf_read :: "string \<Rightarrow> string result"
  bf_exists :: "string \<Rightarrow> bool"
  bf_loads :: "string \<Rightarrow> pyval result"
  bf_rbac :: "string \<Rightarrow> parsed_rbac result"

text \<open>\<open>v[key]\<close>. Only a mapping has text keys.\<close>

definition item :: "pyval \<Rightarrow> string \<Rightarrow> pyval result" where
  "item v key =
     (case v of PDict d \<Rightarrow> dget_req d key | _ \<Rightarrow> Inl (TypeError ''object has no such item''))"

text \<open>A field of the declared type \<open>str\<close> that is taken over unconverted; another value is outside
  the declared type and ends the model's run.\<close>

definition text_item :: "pyval \<Rightarrow> string \<Rightarrow> string result" where
  "text_item v key =
     rbind (item v key) (\<lambda>x.
     case x of PStr s \<Rightarrow> Inr s | _ \<Rightarrow> Inl (OtherError ''field outside its declared type''))"

definition read_event :: "pyval \<Rightarrow> kube_event result" where
  "read_event v =
     (case v of PDict d \<Rightarrow> event_from_dict d | _ \<Rightarrow> Inl (OtherError ''AttributeError''))"

definition read_events_of :: "pyval \<Rightarrow> kube_event list result" where
  "read_events_of v = rbind (py_iter v) (rmap read_event)"

definition read_test :: "pyval \<Rightarrow> verification_test result" where
  "read_test v =
     rbind (text_item v ''name'') (\<lambda>name.
     rbind (item v ''events'') (\<lambda>events_value.
     rbind (read_events_of events_value) (\<lambda>events.
     Inr \<lparr>vt_name = name, vt_events = events\<rparr>)))"

definition in_directory :: "string \<Rightarrow> string \<Rightarrow> string" where
  "in_directory dir name = dir @ ''/'' @ name"

text \<open>\<open>path.name\<close> of a normalised path.\<close>

definition base_name :: "string \<Rightarrow> string" where
  "base_name path = rev (takeWhile (\<lambda>c. c \<noteq> CHR ''/'') (rev path))"

definition expected_policy ::
  "benchmark_files \<Rightarrow> string \<Rightarrow> service_account_ref \<Rightarrow> policy option result" where
  "expected_policy bf path sa =
     (let expected_path = in_directory path ''expected-minimum.yaml'' in
      if \<not> bf_exists bf expected_path then Inr None
      else
        rbind (bf_read bf expected_path) (\<lambda>body.
        if py_strip body = '''' then Inr None
        else
          rbind (bf_rbac bf expected_path) (\<lambda>parsed.
          Inr (Some (resolve_effective_policy parsed sa)))))"

definition load_benchmark :: "benchmark_files \<Rightarrow> string \<Rightarrow> benchmark_case result" where
  "load_benchmark bf path =
     rbind (bf_yaml bf (in_directory path ''metadata.yaml'')) (\<lambda>metadata.
     case metadata of
       PDict _ \<Rightarrow>
         rbind (text_item metadata ''service_account'') (\<lambda>account.
         rbind (text_item metadata ''namespace'') (\<lambda>namespace.
         let sa = \<lparr>sr_name = account, sr_namespace = namespace\<rparr> in
         rbind (bf_rbac bf (in_directory path ''initial-rbac.yaml'')) (\<lambda>parsed.
         rbind (bf_read bf (in_directory path ''observed-events.json'')) (\<lambda>observed_text.
         rbind (bf_loads bf observed_text) (\<lambda>observed_raw.
         rbind (read_events_of observed_raw) (\<lambda>observed.
         rbind (bf_yaml bf (in_directory path ''verification-tests.yaml'')) (\<lambda>verification_raw.
         rbind (item verification_raw ''tests'') (\<lambda>tests_value.
         rbind (py_iter tests_value) (\<lambda>test_values.
         rbind (rmap read_test test_values) (\<lambda>tests.
         rbind (expected_policy bf path sa) (\<lambda>expected.
         rbind (text_item metadata ''name'') (\<lambda>name.
         rbind (text_item metadata ''description'') (\<lambda>description.
         Inr \<lparr>bc_identifier = base_name path, bc_name = name, bc_description = description,
              bc_initial_policy = resolve_effective_policy parsed sa,
              bc_observed_events = observed, bc_verification_tests = tests,
              bc_expected_policy = expected\<rparr>)))))))))))))
     | _ \<Rightarrow> Inl (ValueError (''invalid metadata in '' @ path)))"

record system_benchmark =
  sb_identifier :: string
  sb_name :: string
  sb_description :: string
  sb_cases :: "benchmark_case list"
  sb_workers :: int

definition load_system_benchmark ::
  "(string \<Rightarrow> int result) \<Rightarrow> benchmark_files \<Rightarrow> string \<Rightarrow> string \<Rightarrow> system_benchmark result" where
  "load_system_benchmark float_int bf path benchmark_root =
     rbind (bf_yaml bf (in_directory path ''metadata.yaml'')) (\<lambda>metadata.
     rbind (bf_yaml bf (in_directory path ''system.yaml'')) (\<lambda>system.
     case (metadata, system) of
       (PDict md, PDict sys) \<Rightarrow>
         rbind (dget_req sys ''cases'') (\<lambda>case_names.
         rbind (py_iter case_names) (\<lambda>names.
         rbind (rmap (\<lambda>v. load_benchmark bf (in_directory benchmark_root (py_str v))) names) (\<lambda>cases.
         rbind (req_text md ''name'') (\<lambda>name.
         rbind (req_text md ''description'') (\<lambda>description.
         rbind (py_int float_int (dget_or sys ''workers'' (PInt 3))) (\<lambda>workers.
         Inr \<lparr>sb_identifier = base_name path, sb_name = name, sb_description = description,
              sb_cases = cases, sb_workers = workers\<rparr>))))))
     | _ \<Rightarrow> Inl (ValueError (''invalid system benchmark in '' @ path))))"

section \<open>What a loaded case is\<close>

lemma load_benchmark_policy:
  assumes "load_benchmark bf path = Inr c"
  shows "\<exists>sa parsed. bf_rbac bf (in_directory path ''initial-rbac.yaml'') = Inr parsed \<and>
    bc_initial_policy c = resolve_effective_policy parsed sa"
proof -
  from assms obtain metadata where "bf_yaml bf (in_directory path ''metadata.yaml'') = Inr metadata"
    unfolding load_benchmark_def rbind_Inr_iff by blast
  with assms show ?thesis
    by (cases metadata) (auto simp: load_benchmark_def result_simps Let_def)
qed

text \<open>Every initial policy a benchmark starts from is in normal form.\<close>

lemma load_benchmark_canonical:
  "load_benchmark bf path = Inr c \<Longrightarrow> canonical_policy (bc_initial_policy c)"
  by (auto simp: resolve_effective_policy_def dest!: load_benchmark_policy)

end
