(* ===== verification/System_Metrics.thy ===== *)
theory System_Metrics
  imports Worker Event_Bus
begin

text \<open>
  The metrics of a system benchmark, which the judge computes from the result events
  (\<open>_metrics_from_events\<close> of \<open>judge_layer/evaluation/system_benchmarks.py\<close>), and the transport
  trajectory (\<open>event_layer/trajectory.py\<close>).
\<close>

section \<open>Metrics from events\<close>

definition int_field :: "(string \<Rightarrow> int result) \<Rightarrow> string \<Rightarrow> pydict \<Rightarrow> int result" where
  "int_field float_int key d = rbind (dget_req d key) (py_int float_int)"

definition sum_field :: "(string \<Rightarrow> int result) \<Rightarrow> string \<Rightarrow> pydict list \<Rightarrow> int result" where
  "sum_field float_int key payloads =
     rbind (rmap (int_field float_int key) payloads) (\<lambda>xs. Inr (sum_list xs))"

text \<open>\<open>all(bool(value["accepted"]) for value in payloads)\<close> stops at the first one that is not.\<close>

fun all_accepted :: "pydict list \<Rightarrow> bool result" where
  "all_accepted [] = Inr True"
| "all_accepted (d # ds) =
     rbind (dget_req d ''accepted'') (\<lambda>v. if truthy v then all_accepted ds else Inr False)"

definition metrics_from_events ::
  "(string \<Rightarrow> int result) \<Rightarrow> event_envelope list \<Rightarrow> rat \<Rightarrow> system_case_metrics result" where
  "metrics_from_events float_int events runtime =
     (let payloads = map en_payload events; total = (\<lambda>key. sum_field float_int key payloads) in
      rbind (total ''original_risk'') (\<lambda>initial_risk.
      rbind (total ''final_risk'') (\<lambda>final_risk.
      rbind (total ''original_permissions'') (\<lambda>initial_permissions.
      rbind (total ''final_permissions'') (\<lambda>final_permissions.
      rbind (all_accepted payloads) (\<lambda>success.
      let risk_reduction = percent_reduction initial_risk final_risk;
          raw_reduction = percent_reduction initial_permissions final_permissions in
      rbind (total ''high_risk_permissions_remaining'') (\<lambda>high_risk.
      rbind (total ''cluster_wide_grants_remaining'') (\<lambda>cluster_wide.
      rbind (total ''incorrect_removals'') (\<lambda>incorrect.
      rbind (total ''repairs'') (\<lambda>repairs.
      Inr \<lparr>mt_functional_success = success, mt_initial_risk = initial_risk,
           mt_final_risk = final_risk, mt_risk_reduction_percent = risk_reduction,
           mt_validated_risk_reduction = (if success then risk_reduction else 0),
           mt_raw_permission_reduction_percent = raw_reduction,
           mt_initial_permissions = initial_permissions, mt_final_permissions = final_permissions,
           mt_high_risk_permissions_remaining = high_risk,
           mt_cluster_wide_grants_remaining = cluster_wide,
           mt_incorrect_removals = incorrect, mt_repair_iterations = repairs,
           mt_runtime_seconds = runtime\<rparr>))))))))))"

text \<open>What \<open>_metrics\<close> makes of one execution.\<close>

definition execution_metrics :: "workload_execution \<Rightarrow> system_case_metrics" where
  "execution_metrics ex =
     metrics (we_original_policy ex) (we_final_policy ex) (we_accepted ex) 0
       (int (we_incorrect_removals ex)) (int (we_repair_iterations ex))"

definition risks_reported :: "workload_execution \<Rightarrow> bool" where
  "risks_reported ex \<longleftrightarrow>
     we_original_risk ex = score_policy (we_original_policy ex) \<and>
     we_final_risk ex = score_policy (we_final_policy ex)"

definition reports_execution :: "workload_execution \<Rightarrow> event_envelope \<Rightarrow> bool" where
  "reports_execution ex e \<longleftrightarrow> risks_reported ex \<and>
     (\<exists>task workload worker_id elapsed. en_payload e = result_payload task workload worker_id ex elapsed)"

lemma sum_field_reported:
  assumes "list_all2 reports_execution exs events"
    and "\<And>ex e. reports_execution ex e \<Longrightarrow> dget_req (en_payload e) key = Inr (PInt (f ex))"
  shows "sum_field float_int key (map en_payload events) = Inr (sum_list (map f exs))"
proof -
  have "rmap (int_field float_int key) (map en_payload events) = Inr (map f exs)"
    using assms(1)
  proof (induction exs events rule: list_all2_induct)
    case (Cons ex exs e events)
    then show ?case by (simp add: int_field_def assms(2) py_int_def)
  qed simp
  then show ?thesis by (simp add: sum_field_def)
qed

lemma all_accepted_reported:
  assumes "list_all2 reports_execution exs events"
  shows "all_accepted (map en_payload events) = Inr (list_all we_accepted exs)"
  using assms
  by (induction exs events rule: list_all2_induct)
    (auto simp: reports_execution_def result_payload_def)

lemma execution_metrics_sel:
  "mt_functional_success (execution_metrics ex) = we_accepted ex"
  "mt_initial_risk (execution_metrics ex) = ra_score (score_policy (we_original_policy ex))"
  "mt_final_risk (execution_metrics ex) = ra_score (score_policy (we_final_policy ex))"
  "mt_initial_permissions (execution_metrics ex) = int (effective_permission_count (we_original_policy ex))"
  "mt_final_permissions (execution_metrics ex) = int (effective_permission_count (we_final_policy ex))"
  "mt_high_risk_permissions_remaining (execution_metrics ex) = high_risk_count (we_final_policy ex)"
  "mt_cluster_wide_grants_remaining (execution_metrics ex) = cluster_wide_count (we_final_policy ex)"
  "mt_incorrect_removals (execution_metrics ex) = int (we_incorrect_removals ex)"
  "mt_repair_iterations (execution_metrics ex) = int (we_repair_iterations ex)"
  by (simp_all add: execution_metrics_def metrics_def Let_def)

lemma metrics_from_events_eq:
  assumes "list_all2 reports_execution exs events"
  shows "metrics_from_events float_int events runtime =
    Inr (aggregate_metrics (map execution_metrics exs) runtime)"
proof -
  note total = sum_field_reported [OF assms, of _ _ float_int]
  have fields:
    "sum_field float_int ''original_risk'' (map en_payload events) =
      Inr (sum_list (map (\<lambda>ex. ra_score (score_policy (we_original_policy ex))) exs))"
    "sum_field float_int ''final_risk'' (map en_payload events) =
      Inr (sum_list (map (\<lambda>ex. ra_score (score_policy (we_final_policy ex))) exs))"
    "sum_field float_int ''original_permissions'' (map en_payload events) =
      Inr (sum_list (map (\<lambda>ex. int (effective_permission_count (we_original_policy ex))) exs))"
    "sum_field float_int ''final_permissions'' (map en_payload events) =
      Inr (sum_list (map (\<lambda>ex. int (effective_permission_count (we_final_policy ex))) exs))"
    "sum_field float_int ''high_risk_permissions_remaining'' (map en_payload events) =
      Inr (sum_list (map (\<lambda>ex. high_risk_count (we_final_policy ex)) exs))"
    "sum_field float_int ''cluster_wide_grants_remaining'' (map en_payload events) =
      Inr (sum_list (map (\<lambda>ex. cluster_wide_count (we_final_policy ex)) exs))"
    "sum_field float_int ''incorrect_removals'' (map en_payload events) =
      Inr (sum_list (map (\<lambda>ex. int (we_incorrect_removals ex)) exs))"
    "sum_field float_int ''repairs'' (map en_payload events) =
      Inr (sum_list (map (\<lambda>ex. int (we_repair_iterations ex)) exs))"
    by (rule total; auto simp: reports_execution_def risks_reported_def result_payload_def)+
  show ?thesis
    by (simp add: metrics_from_events_def aggregate_metrics_def fields all_accepted_reported [OF assms]
        Let_def execution_metrics_sel o_def list_all_iff)
qed

section \<open>The transport trajectory\<close>

definition callback_event :: "callback \<Rightarrow> event_envelope" where
  "callback_event cb =
     (case cb of Published p \<Rightarrow> pe_event p | Claimed m \<Rightarrow> pe_event m | Acknowledged m \<Rightarrow> pe_event m)"

definition transport_fields :: "string \<Rightarrow> 'a published_event_scheme \<Rightarrow> pydict" where
  "transport_fields stage m =
     [(''stage'', PStr stage), (''topic'', PStr (pe_topic m)), (''key'', PStr (pe_key m)),
      (''partition'', PInt (int (pe_partition m))), (''offset'', PInt (int (pe_offset m))),
      (''event'', PDict (envelope_to_dict (pe_event m)))]"

definition consumer_fields :: "consumed_event \<Rightarrow> pydict" where
  "consumer_fields m =
     [(''consumer_group'', PStr (ce_consumer_group m)), (''consumer_id'', PStr (ce_consumer_id m)),
      (''delivery_count'', PInt (int (ce_delivery_count m)))]"

definition transport_value :: "callback \<Rightarrow> pydict" where
  "transport_value cb =
     (case cb of
        Published p \<Rightarrow> transport_fields ''published'' p
      | Claimed m \<Rightarrow> transport_fields ''claimed'' m @ consumer_fields m
      | Acknowledged m \<Rightarrow> transport_fields ''acknowledged'' m @ consumer_fields m)"

definition transport_path :: "string \<Rightarrow> event_envelope \<Rightarrow> string" where
  "transport_path root_directory e =
     (let workload_id = envelope_workload_id e in
      root_directory @ ''/'' @ en_run_id e @ ''/'' @
      (if truthy_opt workload_id then or_empty workload_id else ''system'') @ ''-events.jsonl'')"

definition transport_line :: "callback \<Rightarrow> string" where
  "transport_line cb = json_compact (PDict (transport_value cb)) @ newline"

definition transport_record :: "string \<Rightarrow> callback \<Rightarrow> file_system \<Rightarrow> file_system" where
  "transport_record root_directory cb fs =
     (let path = transport_path root_directory (callback_event cb) in
      fs(path \<mapsto> or_empty (fs path) @ transport_line cb))"

text \<open>Each file holds the lines of its own callbacks, in the order of the calls.\<close>

lemma transport_log:
  "or_empty (fold (transport_record dir) cbs fs path) =
     or_empty (fs path) @ concat (map transport_line
       (filter (\<lambda>cb. transport_path dir (callback_event cb) = path) cbs))"
  by (induction cbs arbitrary: fs) (simp_all add: transport_record_def Let_def)

end
