(* ===== verification/Judge_Benchmark.thy ===== *)
theory Judge_Benchmark
  imports Judge_Run Benchmark_Files System_Metrics
begin

text \<open>
  The evaluation of a system benchmark by the judge (\<open>_evaluate_system_kuber\<close> of
  \<open>judge_layer/evaluation/system_benchmarks.py\<close>): the services of the cases, the in-memory services,
  the workers and the coordinator, over a run record of what the environment gives. The workers share
  one record of statistics, which nothing reads. Left out are the trajectory files and what follows the
  run: the workers are cancelled and the bus and the stores closed, whatever the result. With cases
  that allow what they observe and test, the evaluation returns and the result is a functional success.
\<close>

text \<open>\<open>br_turn\<close> tells whose turn it is among the workers; \<open>br_idle\<close> stands in the place of a
  simulator until a worker creates one; \<open>br_turns\<close> and \<open>br_messages\<close> bound the waiting.\<close>

record benchmark_run =
  br_tree :: file_tree
  br_sha256 :: "string \<Rightarrow> string"
  br_now :: string
  br_draw :: "nat \<Rightarrow> string \<times> string"
  br_loads :: "string \<Rightarrow> pyval result"
  br_float_int :: "string \<Rightarrow> int result"
  br_elapsed :: string
  br_runtime :: rat
  br_idle :: simulator
  br_prior :: "run_request \<Rightarrow> simulator services \<Rightarrow> workload_state"
  br_turn :: "coordinator \<Rightarrow> nat"
  br_turns :: nat
  br_messages :: nat
  br_recursion :: nat

definition case_service :: "system_benchmark \<Rightarrow> benchmark_case \<Rightarrow> service_context result" where
  "case_service b c =
     check_context
       \<lparr>sc_service_id = bc_identifier c, sc_namespace = sb_identifier b, sc_workload_kind = ''Deployment'',
        sc_deployment_name = bc_identifier c,
        sc_service_account = pl_service_account (bc_initial_policy c),
        sc_source_repository =
          \<lparr>rp_service_id = bc_identifier c,
           rp_local_path = in_directory ''judge_layer/benchmarks'' (bc_identifier c),
           rp_remote_url = None, rp_commit_sha = None\<rparr>,
        sc_important_paths =
          [''metadata.yaml'', ''initial-rbac.yaml'', ''observed-events.json'', ''verification-tests.yaml''],
        sc_verification_profile = bc_identifier c, sc_labels = [], sc_container_images = [],
        sc_kubernetes_usage = [], sc_dependencies = [], sc_last_indexed_commit = None\<rparr>"

text \<open>\<open>{case.identifier: case for case in benchmark.cases}\<close>: a later case replaces an earlier one.\<close>

definition case_dict :: "system_benchmark \<Rightarrow> (string \<times> benchmark_case) list" where
  "case_dict b = rev (map (\<lambda>c. (bc_identifier c, c)) (sb_cases b))"

definition benchmark_memory :: "benchmark_run \<Rightarrow> system_benchmark \<Rightarrow> simulator memory_config" where
  "benchmark_memory br b =
     judge_memory (case_dict b) (br_elapsed br) (br_draw br) (br_loads br) (br_float_int br)
       (br_prior br)"

definition benchmark_worker :: "benchmark_run \<Rightarrow> system_benchmark \<Rightarrow> nat \<Rightarrow> simulator services worker" where
  "benchmark_worker br b index =
     judge_worker (benchmark_memory br b) 5 (br_recursion br) (''judge-worker-'' @ nat_str (Suc index)) ''judge'' 3"

text \<open>Without workers no turn is ever taken: the wait for the first result times out.\<close>

definition benchmark_config :: "benchmark_run \<Rightarrow> system_benchmark \<Rightarrow> service_context list \<Rightarrow> judge_config" where
  "benchmark_config br b services =
     \<lparr>jc_services = services, jc_tree = br_tree br, jc_sha256 = br_sha256 br, jc_maximum = 1000000,
      jc_now = br_now br, jc_memory = benchmark_memory br b,
      jc_worker = (\<lambda>s. benchmark_worker br b (br_turn br s mod nat (sb_workers b))),
      jc_cluster = ''judge'', jc_turns = (if sb_workers b \<le> 0 then 0 else br_turns br),
      jc_limit = br_messages br, jc_report_directory = None\<rparr>"

definition benchmark_start :: "benchmark_run \<Rightarrow> event_bus \<Rightarrow> coordinator" where
  "benchmark_start br bus =
     \<lparr>co_worker =
        \<lparr>wv_services =
           \<lparr>sv_bus = bus, sv_completed = (\<lambda>_. None), sv_contexts = [], sv_locked = [], sv_draws = 0,
            sv_cluster = br_idle br\<rparr>,
         wv_stats = new_stats, wv_environment = None\<rparr>,
      co_stopped = [], co_registry = [], co_files = (\<lambda>_. None), co_log = []\<rparr>"

definition evaluate_system_kuber :: "benchmark_run \<Rightarrow> system_benchmark \<Rightarrow> system_case_metrics result" where
  "evaluate_system_kuber br b =
     rbind (new_bus (max 3 (sb_workers b))) (\<lambda>bus.
     rbind (rmap (case_service b) (sb_cases b)) (\<lambda>services.
     rbind (fst (run_system (judge_system (benchmark_config br b services)) fresh_system (sb_identifier b)
              (Some (''evaluation-'' @ sb_identifier b)) '''' (benchmark_start br bus))) (\<lambda>result.
     metrics_from_events (br_float_int br) (sr_results result) (br_runtime br))))"

section \<open>The metrics of the judge's results\<close>

lemma sum_field_returns:
  assumes "\<And>d. d \<in> set ds \<Longrightarrow> \<exists>i. int_field float_int key d = Inr i"
  shows "\<exists>i. sum_field float_int key ds = Inr i"
proof -
  have "\<exists>is. rmap (int_field float_int key) ds = Inr is"
    unfolding rmap_total_iff using assms by blast
  then show ?thesis by (auto simp: sum_field_def)
qed

lemma judge_results_metrics:
  assumes "list_all2 (judge_result run_id) xs events"
  shows "\<exists>m. metrics_from_events float_int events runtime = Inr m \<and> mt_functional_success m \<and>
    mt_validated_risk_reduction m = mt_risk_reduction_percent m"
proof -
  have payloads: "\<exists>task w i ex elapsed. d = result_payload task w i ex elapsed \<and> we_accepted ex"
    if "d \<in> set (map en_payload events)" for d
  proof -
    have "\<exists>x e. judge_result run_id x e \<and> d = en_payload e"
      using assms that by (induction rule: list_all2_induct) auto
    then show ?thesis unfolding judge_result_def by blast
  qed
  have "\<exists>i. int_field float_int key d = Inr i"
    if "key \<in> {''original_risk'', ''final_risk'', ''original_permissions'', ''final_permissions'',
      ''high_risk_permissions_remaining'', ''cluster_wide_grants_remaining'', ''incorrect_removals'', ''repairs''}"
      "d \<in> set (map en_payload events)" for key d
    using payloads [OF that(2)] that(1) by (auto simp: int_field_def result_payload_def py_int_def)
  then have total: "\<exists>i. sum_field float_int key (map en_payload events) = Inr i"
    if "key \<in> {''original_risk'', ''final_risk'', ''original_permissions'', ''final_permissions'',
      ''high_risk_permissions_remaining'', ''cluster_wide_grants_remaining'', ''incorrect_removals'', ''repairs''}" for key
    using that sum_field_returns [of "map en_payload events" float_int key] by blast
  have "all_accepted ds = Inr True" if "\<And>d. d \<in> set ds \<Longrightarrow> dget_req d ''accepted'' = Inr (PBool True)" for ds
    using that by (induction ds) auto
  from this [of "map en_payload events"] payloads have accepted: "all_accepted (map en_payload events) = Inr True"
    by (fastforce simp: result_payload_def)
  from total obtain a b c d e f g h where
    "sum_field float_int ''original_risk'' (map en_payload events) = Inr a"
    "sum_field float_int ''final_risk'' (map en_payload events) = Inr b"
    "sum_field float_int ''original_permissions'' (map en_payload events) = Inr c"
    "sum_field float_int ''final_permissions'' (map en_payload events) = Inr d"
    "sum_field float_int ''high_risk_permissions_remaining'' (map en_payload events) = Inr e"
    "sum_field float_int ''cluster_wide_grants_remaining'' (map en_payload events) = Inr f"
    "sum_field float_int ''incorrect_removals'' (map en_payload events) = Inr g"
    "sum_field float_int ''repairs'' (map en_payload events) = Inr h"
    by (metis insertI1 insertI2)
  with accepted show ?thesis by (simp add: metrics_from_events_def Let_def)
qed

section \<open>The evaluation succeeds\<close>

text \<open>The workers' identifiers, the drawn event ids and the bounds are those of \<open>judge_setup\<close>.\<close>

lemma benchmark_setup:
  assumes "\<And>k. fst (br_draw br k) \<noteq> ''''" and "36 \<le> br_recursion br"
  shows "judge_setup (benchmark_config br b xs) (case_dict b) 5 (br_recursion br)"
  using assms
  by (auto simp: judge_setup_def benchmark_config_def benchmark_worker_def benchmark_memory_def) blast

lemma case_services:
  assumes "list_all2 (\<lambda>c x. case_service b c = Inr x) cs xs"
  shows "map sc_service_id xs = map bc_identifier cs" and "\<forall>x \<in> set xs. sc_namespace x = sb_identifier b"
  using assms
  by (induction rule: list_all2_induct) (auto simp: case_service_def check_context_def)

lemma case_services_judged:
  assumes "list_all2 (\<lambda>c x. case_service b c = Inr x) (sb_cases b) xs"
    and "\<forall>c \<in> set (sb_cases b). plain_name (bc_identifier c) \<and> all_allowed (case_event c) (bc_initial_policy c)"
    and "plain_name (sb_identifier b)" and "distinct (map bc_identifier (sb_cases b))" and "x \<in> set xs"
  shows "judged_service (case_dict b) x"
proof -
  have "sc_service_id x \<in> set (map bc_identifier (sb_cases b))"
    using assms(5) by (simp add: case_services(1) [OF assms(1), symmetric])
  then obtain c where c: "c \<in> set (sb_cases b)" "sc_service_id x = bc_identifier c" by auto
  have "distinct (map fst (case_dict b))"
    using assms(4) by (simp add: case_dict_def rev_map [symmetric] o_def)
  moreover have "(bc_identifier c, c) \<in> set (case_dict b)" using c(1) by (auto simp: case_dict_def)
  ultimately have "map_of (case_dict b) (bc_identifier c) = Some c" by simp
  with c assms(2,3,5) case_services(2) [OF assms(1)] show ?thesis
    by (auto simp: judged_service_def)
qed

text \<open>A benchmark the judge can evaluate: a worker at least, cases of different names that allow what
  they observe and test and whose directories can be indexed.\<close>

definition benchmark_ready :: "benchmark_run \<Rightarrow> system_benchmark \<Rightarrow> bool" where
  "benchmark_ready br b \<longleftrightarrow>
     (\<exists>xs. rmap (case_service b) (sb_cases b) = Inr xs \<and>
        (\<forall>x \<in> set xs. indexable (benchmark_config br b xs) x)) \<and>
     (\<forall>c \<in> set (sb_cases b). plain_name (bc_identifier c) \<and>
        all_allowed (case_event c) (bc_initial_policy c)) \<and>
     plain_name (sb_identifier b) \<and> distinct (map bc_identifier (sb_cases b)) \<and> 1 \<le> sb_workers b \<and>
     (\<forall>k. fst (br_draw br k) \<noteq> '''') \<and> 36 \<le> br_recursion br \<and> 2 \<le> br_turns br \<and>
     length (sb_cases b) \<le> br_messages br"

lemma benchmark_judge_ready:
  assumes "benchmark_ready br b" and "rmap (case_service b) (sb_cases b) = Inr xs"
  shows "judge_ready (benchmark_config br b xs) (case_dict b) xs"
proof -
  let ?jc = "benchmark_config br b xs"
  have services: "list_all2 (\<lambda>c x. case_service b c = Inr x) (sb_cases b) xs"
    using assms(2) by (simp add: rmap_Inr_iff)
  note r = assms(1) [unfolded benchmark_ready_def assms(2), simplified]
  show ?thesis
    unfolding judge_ready_def
  proof (intro conjI exI)
    show "judge_setup ?jc (case_dict b) 5 (br_recursion br)" by (rule benchmark_setup) (use r in simp_all)
    show "\<forall>x \<in> set xs. judged_service (case_dict b) x \<and> indexable ?jc x"
      using r case_services_judged [OF services] by blast
    show "plain_name (jc_cluster ?jc)" by (simp add: plain_name_def benchmark_config_def)
    show "distinct (map sc_service_id xs)" using r by (simp add: case_services(1) [OF services])
    show "2 \<le> jc_turns ?jc" "length xs \<le> jc_limit ?jc"
      using r list_all2_lengthD [OF services] by (simp_all add: benchmark_config_def)
  qed
qed

lemma system_evaluation_returns:
  assumes "benchmark_ready br b"
  shows "\<exists>m. evaluate_system_kuber br b = Inr m \<and> mt_functional_success m \<and>
    mt_validated_risk_reduction m = mt_risk_reduction_percent m"
proof -
  from assms obtain xs where xs: "rmap (case_service b) (sb_cases b) = Inr xs"
    unfolding benchmark_ready_def by blast
  let ?jc = "benchmark_config br b xs" and ?id = "''evaluation-'' @ sb_identifier b"
  have "\<forall>x \<in> set xs. sc_namespace x = sb_identifier b"
    using case_services(2) xs by (simp add: rmap_Inr_iff)
  then have disc: "static_discover (jc_services ?jc) (sb_identifier b) = xs"
    by (simp add: static_discover_def benchmark_config_def)
  obtain bus where bus: "new_bus (max 3 (sb_workers b)) = Inr bus" by (simp add: new_bus_def)
  then have fresh: "fresh_start (benchmark_start br bus)"
    by (auto simp: fresh_start_def benchmark_start_def)
  have id: "(if truthy_opt (Some ?id) then or_empty (Some ?id) else '''') = ?id" by (simp add: or_empty_def)
  have "?id \<noteq> ''''" by simp
  from judge_run_returns [OF benchmark_judge_ready [OF assms xs] disc [symmetric] fresh id this, of fresh_system]
  have ran: "\<exists>r s'. run_system (judge_system ?jc) fresh_system (sb_identifier b) (Some ?id) ''''
      (benchmark_start br bus) = (Inr r, s') \<and> list_all2 (judge_result ?id) xs (sr_results r)" by blast
  obtain r s' where run: "run_system (judge_system ?jc) fresh_system (sb_identifier b) (Some ?id) ''''
      (benchmark_start br bus) = (Inr r, s')" and results: "list_all2 (judge_result ?id) xs (sr_results r)"
    using ran by blast
  with judge_results_metrics [OF results, of "br_float_int br" "br_runtime br"] bus xs show ?thesis
    by (simp add: evaluate_system_kuber_def)
qed

end
