(* ===== verification/Gemini_Provider.thy ===== *)
theory Gemini_Provider
  imports Worker
begin

text \<open>
  \<open>agent_layer/llm/provider.py\<close>: the optional Gemini client, as an \<open>llm_provider\<close> of the failure
  reasoner. The HTTP exchange, the sleep, \<open>json.loads\<close> and the contents of \<open>.env\<close> are parameters.
\<close>

section \<open>Construction\<close>

record gemini_provider =
  gm_api_key :: string
  gm_timeout_seconds :: int
  gm_model :: string

definition gemini_api_root :: string where
  "gemini_api_root = ''https://generativelanguage.googleapis.com/v1beta''"

definition default_gemini_model :: string where
  "default_gemini_model = ''gemini-3.1-flash-lite''"

definition transient_http_statuses :: "int list" where
  "transient_http_statuses = [429, 500, 502, 503, 504]"

definition max_request_attempts :: nat where
  "max_request_attempts = 3"

definition model_char :: "char \<Rightarrow> bool" where
  "model_char c \<longleftrightarrow> (let n = (of_char c :: nat) in
     (48 \<le> n \<and> n \<le> 57) \<or> (65 \<le> n \<and> n \<le> 90) \<or> (97 \<le> n \<and> n \<le> 122) \<or>
     c \<in> {CHR ''.'', CHR ''_'', CHR ''-''})"

definition remove_prefix :: "string \<Rightarrow> string \<Rightarrow> string" where
  "remove_prefix p s = (if take (length p) s = p then drop (length p) s else s)"

definition new_gemini :: "string \<Rightarrow> int \<Rightarrow> string \<Rightarrow> gemini_provider result" where
  "new_gemini api_key timeout model =
     (if py_strip api_key = '''' then Inl (ValueError ''Gemini API key must not be empty'')
      else if timeout \<le> 0 then Inl (ValueError ''Gemini timeout must be positive'')
      else
        let normalized = py_strip (remove_prefix ''models/'' model) in
        if normalized = '''' \<or> \<not> list_all model_char normalized then
          Inl (ValueError ''Gemini model must be a plain model name'')
        else Inr \<lparr>gm_api_key = api_key, gm_timeout_seconds = timeout, gm_model = normalized\<rparr>)"

definition gemini_endpoint :: "gemini_provider \<Rightarrow> string" where
  "gemini_endpoint g = gemini_api_root @ ''/models/'' @ gm_model g @ '':generateContent''"

text \<open>\<open>os.getenv\<close> after \<open>load_dotenv(override=False)\<close>: the process values come first.\<close>

definition get_env :: "(string \<times> string) list \<Rightarrow> (string \<times> string) list \<Rightarrow> string \<Rightarrow> string \<Rightarrow> string" where
  "get_env environ dotenv key default_value =
     (case map_of (environ @ dotenv) key of None \<Rightarrow> default_value | Some v \<Rightarrow> v)"

definition provider_from_environment ::
  "(string \<times> string) list \<Rightarrow> (string \<times> string) list \<Rightarrow> gemini_provider option result" where
  "provider_from_environment environ dotenv =
     (let get = get_env environ dotenv; api_key = py_strip (get ''GEMINI_API_KEY'' '''') in
      if api_key = '''' then Inr None
      else
        (case int_of_string (get ''GEMINI_TIMEOUT_SECONDS'' ''20'') of
           Inl err \<Rightarrow> Inl (ValueError ''GEMINI_TIMEOUT_SECONDS must be an integer'')
         | Inr timeout \<Rightarrow>
             rbind (new_gemini api_key timeout (get ''GEMINI_MODEL'' default_gemini_model)) (\<lambda>g.
             Inr (Some g))))"

section \<open>The request\<close>

text \<open>\<open>json.dumps\<close> without \<open>sort_keys\<close>: items in the order of the dictionary.\<close>

fun json_ordered :: "pyval \<Rightarrow> string"
  and json_ordered_list :: "pyval list \<Rightarrow> string list"
  and json_ordered_items :: "pydict \<Rightarrow> string list" where
  "json_ordered (PDict d) = ''{'' @ py_join '', '' (json_ordered_items d) @ ''}''"
| "json_ordered (PList xs) = ''['' @ py_join '', '' (json_ordered_list xs) @ '']''"
| "json_ordered v = json_dumps v"
| "json_ordered_list [] = []"
| "json_ordered_list (x # xs) = json_ordered x # json_ordered_list xs"
| "json_ordered_items [] = []"
| "json_ordered_items ((k, v) # kvs) =
     (json_string k @ '': '' @ json_ordered v) # json_ordered_items kvs"

record http_request =
  hr_url :: string
  hr_data :: string
  hr_headers :: "(string \<times> string) list"
  hr_method :: string
  hr_timeout :: int

definition gemini_request :: "gemini_provider \<Rightarrow> string \<Rightarrow> http_request" where
  "gemini_request g prompt =
     \<lparr>hr_url = gemini_endpoint g,
      hr_data = json_ordered (PDict
        [(''contents'', PList [PDict
            [(''role'', PStr ''user''), (''parts'', PList [PDict [(''text'', PStr prompt)]])]]),
         (''generationConfig'', PDict
            [(''temperature'', PFloat ''0.2''), (''maxOutputTokens'', PInt 512)])]),
      hr_headers = [(''x-goog-api-key'', gm_api_key g), (''Content-Type'', ''application/json'')],
      hr_method = ''POST'', hr_timeout = gm_timeout_seconds g\<rparr>"

text \<open>\<open>gp_exchange\<close> is \<open>urlopen\<close> with \<open>read\<close> and \<open>decode\<close>; \<open>gp_sleep\<close> sleeps a number of seconds.\<close>

record 'w gemini_ports =
  gp_exchange :: "http_request \<Rightarrow> 'w \<Rightarrow> (provider_error + string) \<times> 'w"
  gp_sleep :: "rat \<Rightarrow> 'w \<Rightarrow> 'w"
  gp_loads :: "string \<Rightarrow> provider_error + pyval"

fun attempts_from ::
  "'w gemini_ports \<Rightarrow> http_request \<Rightarrow> nat list \<Rightarrow> 'w \<Rightarrow> (provider_error + string option) \<times> 'w" where
  "attempts_from p request [] w = (Inr None, w)"
| "attempts_from p request (attempt # rest) w =
     (case gp_exchange p request w of
        (Inr body, w') \<Rightarrow> (Inr (Some body), w')
      | (Inl (HttpError code reason), w') \<Rightarrow>
          if code \<notin> set transient_http_statuses \<or> attempt = max_request_attempts - 1 then
            (Inl (HttpError code reason), w')
          else attempts_from p request rest (gp_sleep p (1 / 2 * 2 ^ attempt) w')
      | (Inl exc, w') \<Rightarrow> (Inl exc, w'))"

section \<open>The answer\<close>

definition raised :: "py_error \<Rightarrow> provider_error" where
  "raised err = ProviderError (error_name err) (error_text err)"

text \<open>\<open>v.get(key, default)\<close> and iteration over a dynamic value.\<close>

definition get_attr :: "pyval \<Rightarrow> string \<Rightarrow> pyval \<Rightarrow> provider_error + pyval" where
  "get_attr v key default_value =
     (case v of
        PDict d \<Rightarrow> Inr (dget_or d key default_value)
      | _ \<Rightarrow> Inl (ProviderError ''AttributeError''
               (repr_str (type_name v) @ '' object has no attribute '' @ repr_str ''get'')))"

definition iterate :: "pyval \<Rightarrow> provider_error + pyval list" where
  "iterate v = (case py_iter v of Inl err \<Rightarrow> Inl (raised err) | Inr xs \<Rightarrow> Inr xs)"

fun text_parts :: "pyval list \<Rightarrow> provider_error + string list" where
  "text_parts [] = Inr []"
| "text_parts (part # rest) =
     (case get_attr part ''text'' PNone of
        Inl exc \<Rightarrow> Inl exc
      | Inr text_value \<Rightarrow>
          (case text_parts rest of
             Inl exc \<Rightarrow> Inl exc
           | Inr texts \<Rightarrow>
               Inr (case text_value of
                      PStr s \<Rightarrow> if py_strip s \<noteq> '''' then py_strip s # texts else texts
                    | _ \<Rightarrow> texts)))"

definition candidate_texts :: "pyval \<Rightarrow> provider_error + string list" where
  "candidate_texts candidate =
     (case get_attr candidate ''content'' (PDict []) of
        Inl exc \<Rightarrow> Inl exc
      | Inr content \<Rightarrow>
          (case get_attr content ''parts'' (PList []) of
             Inl exc \<Rightarrow> Inl exc
           | Inr parts \<Rightarrow> (case iterate parts of Inl exc \<Rightarrow> Inl exc | Inr items \<Rightarrow> text_parts items)))"

text \<open>The first candidate with text ends the loop.\<close>

fun first_texts :: "pyval list \<Rightarrow> provider_error + string list" where
  "first_texts [] = Inr []"
| "first_texts (candidate # rest) =
     (case candidate_texts candidate of
        Inl exc \<Rightarrow> Inl exc
      | Inr texts \<Rightarrow> if texts \<noteq> [] then Inr texts else first_texts rest)"

definition decode_answer :: "'w gemini_ports \<Rightarrow> string \<Rightarrow> provider_error + string" where
  "decode_answer p body =
     (case gp_loads p body of
        Inl exc \<Rightarrow> Inl exc
      | Inr value \<Rightarrow>
          (case get_attr value ''candidates'' (PList []) of
             Inl exc \<Rightarrow> Inl exc
           | Inr candidates \<Rightarrow>
               (case iterate candidates of
                  Inl exc \<Rightarrow> Inl exc
                | Inr items \<Rightarrow>
                    (case first_texts items of
                       Inl exc \<Rightarrow> Inl exc
                     | Inr texts \<Rightarrow>
                         if texts = [] then
                           Inl (raised (ValueError ''Gemini response contained no text candidate''))
                         else Inr (py_join newline texts)))))"

definition gemini_complete ::
  "'w gemini_ports \<Rightarrow> gemini_provider \<Rightarrow> string \<Rightarrow> 'w \<Rightarrow> (provider_error + string) \<times> 'w" where
  "gemini_complete p g prompt w =
     (case attempts_from p (gemini_request g prompt) [0..<max_request_attempts] w of
        (Inl exc, w') \<Rightarrow> (Inl exc, w')
      | (Inr None, w') \<Rightarrow>
          (Inl (raised (RuntimeError ''Gemini request completed without a response'')), w')
      | (Inr (Some body), w') \<Rightarrow> (decode_answer p body, w'))"

definition gemini_llm :: "'w gemini_ports \<Rightarrow> gemini_provider \<Rightarrow> 'w llm_provider" where
  "gemini_llm p g = \<lparr>lp_type_name = ''GeminiProvider'', lp_complete = gemini_complete p g\<rparr>"

section \<open>What a completion does\<close>

lemma attempts_from_bounded:
  assumes "\<And>request w. sent (snd (gp_exchange p request w)) = Suc (sent w)"
    and "\<And>d w. sent (gp_sleep p d w) = sent w"
  shows "sent (snd (attempts_from p request attempts w)) \<le> sent w + length attempts"
proof (induction attempts arbitrary: w)
  case (Cons a attempts)
  obtain r u where call: "gp_exchange p request w = (r, u)" by fastforce
  have u: "sent u = Suc (sent w)" using assms(1) [of request w] by (simp add: call)
  show ?case
  proof (cases "\<exists>code reason. r = Inl (HttpError code reason) \<and> code \<in> set transient_http_statuses \<and>
      a \<noteq> max_request_attempts - 1")
    case True
    then have "attempts_from p request (a # attempts) w =
        attempts_from p request attempts (gp_sleep p (1 / 2 * 2 ^ a) u)"
      by (auto simp: call)
    with Cons [of "gp_sleep p (1 / 2 * 2 ^ a) u"] show ?thesis by (simp add: assms(2) u)
  next
    case False
    then have "snd (attempts_from p request (a # attempts) w) = u"
      by (cases r) (auto simp: call split: provider_error.splits)
    then show ?thesis by (simp add: u)
  qed
qed simp

text \<open>The last attempt never falls through.\<close>

lemma attempts_from_answers:
  assumes "attempts_from p request attempts w = (Inr None, w')"
  shows "max_request_attempts - 1 \<notin> set attempts"
  using assms
proof (induction attempts arbitrary: w)
  case (Cons a attempts)
  then show ?case
    by (auto split: prod.splits sum.splits provider_error.splits if_splits)
qed simp

lemma gemini_complete_world:
  "snd (gemini_complete p g prompt w) =
     snd (attempts_from p (gemini_request g prompt) [0..<max_request_attempts] w)"
  by (auto simp: gemini_complete_def split: prod.splits sum.splits option.splits)

lemma text_parts_nonempty: "text_parts parts = Inr texts \<Longrightarrow> t \<in> set texts \<Longrightarrow> t \<noteq> ''''"
proof (induction parts arbitrary: texts)
  case (Cons part parts)
  then show ?case by (auto split: sum.splits pyval.splits if_splits)
qed simp

lemma first_texts_nonempty: "first_texts candidates = Inr texts \<Longrightarrow> t \<in> set texts \<Longrightarrow> t \<noteq> ''''"
  by (induction candidates)
    (auto simp: candidate_texts_def dest: text_parts_nonempty split: sum.splits if_splits)

lemma join_nonempty: "xs \<noteq> [] \<Longrightarrow> \<forall>x \<in> set xs. x \<noteq> '''' \<Longrightarrow> py_join sep xs \<noteq> ''''"
  by (induction sep xs rule: py_join.induct) auto

lemma decode_answer_nonempty: "decode_answer p body = Inr answer \<Longrightarrow> answer \<noteq> ''''"
  by (auto simp: decode_answer_def join_nonempty first_texts_nonempty split: sum.splits if_splits)

lemma gemini_keeps:
  assumes "\<And>request w. view (snd (gp_exchange p request w)) = view w"
    and "\<And>d w. view (gp_sleep p d w) = view w"
  shows "provider_keeps view (Some (gemini_llm p g))"
proof -
  have "view (snd (attempts_from p request attempts w)) = view w" for request attempts w
  proof (induction attempts arbitrary: w)
    case (Cons a attempts)
    obtain r u where call: "gp_exchange p request w = (r, u)" by fastforce
    with assms(1) [of request w] have "view u = view w" by simp
    with Cons assms(2) show ?case
      by (cases r) (auto simp: call split: provider_error.splits)
  qed simp
  then show ?thesis by (simp add: provider_keeps_def gemini_llm_def gemini_complete_world)
qed

end
