(* ===== verification/Kubernetes_Worker.thy ===== *)
theory Kubernetes_Worker
  imports Kubernetes_Restore Judge_Worker
begin

text \<open>
  \<open>kubernetes_runtime/adapter/factory.py\<close>: one guarded live adapter per task, and the worker over
  it. With in-memory services it meets \<open>task_services\<close>, so a message given to it is settled as
  one given to the judge's worker is.
\<close>

definition settings_for ::
  "string \<Rightarrow> string \<Rightarrow> event_envelope \<Rightarrow> indexed_context \<Rightarrow> kubernetes_settings result" where
  "settings_for ctx artifact_directory e c =
     rbind (req_text (en_payload e) ''workload_id'') (\<lambda>workload_id.
     if workload_id \<noteq> ix_service_id c then
       Inl (ValueError ''event and service context workload identifiers differ'')
     else
       rbind (req_text (en_payload e) ''namespace'') (\<lambda>namespace.
       rbind (req_text (en_payload e) ''service_account'') (\<lambda>service_account.
       rbind (req_text (en_payload e) ''deployment'') (\<lambda>deployment.
       Inr \<lparr>ks_context = ctx, ks_namespace = namespace, ks_service_account = service_account,
            ks_deployment_name = deployment, ks_workload_id = workload_id,
            ks_smoke_command = [''./deploy/kind/scripts/service-smoke.sh'', workload_id],
            ks_initial_manifest = ''deploy/kind/reference-rbac.yaml'',
            ks_original_binding_name = workload_id @ ''-overprivileged'', ks_dry_run = None,
            ks_allow_unsafe_context = False, ks_artifact_directory = artifact_directory\<rparr>))))"

definition kubernetes_create ::
  "'c kubernetes_ports \<Rightarrow> string \<Rightarrow> string \<Rightarrow> event_envelope \<Rightarrow> indexed_context \<Rightarrow>
   'c kubernetes services \<Rightarrow> 'c kubernetes services environment_adapter result \<times> 'c kubernetes services" where
  "kubernetes_create p ctx artifact_directory e c s =
     (case settings_for ctx artifact_directory e c of
        Inl err \<Rightarrow> (Inl err, s)
      | Inr st \<Rightarrow>
          (case new_kubernetes p st (kb_world (sv_cluster s)) of
             (Inl err, w) \<Rightarrow> (Inl err, s\<lparr>sv_cluster := (sv_cluster s)\<lparr>kb_world := w\<rparr>\<rparr>)
           | (Inr cfg, w) \<Rightarrow>
               (Inr (lift_environment (kubernetes_adapter p cfg)),
                s\<lparr>sv_cluster := fresh_kubernetes cfg w\<rparr>)))"

definition kubernetes_memory ::
  "'c kubernetes_ports \<Rightarrow> string \<Rightarrow> string \<Rightarrow> (nat \<Rightarrow> string \<times> string) \<Rightarrow>
   (string \<Rightarrow> int result) \<Rightarrow> string \<Rightarrow>
   (run_request \<Rightarrow> 'c kubernetes services \<Rightarrow> workload_state) \<Rightarrow> 'c kubernetes memory_config" where
  "kubernetes_memory p ctx artifact_directory draw float_int elapsed prior =
     \<lparr>mc_draw = draw, mc_loads = kp_loads p, mc_float_int = float_int,
      mc_create = kubernetes_create p ctx artifact_directory, mc_elapsed = elapsed,
      mc_prior = prior\<rparr>"

definition kubernetes_worker ::
  "'c kubernetes_ports \<Rightarrow> kubernetes_config \<Rightarrow> 'c kubernetes memory_config \<Rightarrow> nat \<Rightarrow> nat \<Rightarrow> string \<Rightarrow>
   int \<Rightarrow> 'c kubernetes services worker" where
  "kubernetes_worker p cfg mc max_repair limit worker_id attempts =
     memory_worker mc (judge_graph (lift_environment (kubernetes_adapter p cfg)) max_repair limit)
       worker_id ''kind-kuber'' attempts"

lemma kubernetes_create_ledger:
  "kubernetes_create p ctx dir e c s = (r, s') \<Longrightarrow> memory_ledger s' = memory_ledger s"
  by (auto simp: kubernetes_create_def memory_ledger_def split: sum.splits prod.splits)

lemma kubernetes_create_Inr:
  assumes "kubernetes_create p ctx dir e c s = (Inr env, s')"
  obtains st cfg w where "settings_for ctx dir e c = Inr st"
    and "new_kubernetes p st (kb_world (sv_cluster s)) = (Inr cfg, w)"
    and "env = lift_environment (kubernetes_adapter p cfg)"
    and "s' = s\<lparr>sv_cluster := fresh_kubernetes cfg w\<rparr>"
  using assms by (auto simp: kubernetes_create_def split: sum.splits prod.splits)

text \<open>The factory of the CLI never overrides the guard: what it creates is in dry-run mode or in
  the recognised sandbox.\<close>

lemma created_adapter_guarded:
  assumes "kubernetes_create p ctx dir e c s = (Inr env, s')"
  shows "\<exists>cfg. env = lift_environment (kubernetes_adapter p cfg) \<and> (kc_dry_run cfg \<longleftrightarrow> \<not> kc_safe cfg)"
proof -
  obtain st cfg w where st: "settings_for ctx dir e c = Inr st"
    and new: "new_kubernetes p st (kb_world (sv_cluster s)) = (Inr cfg, w)"
    and env: "env = lift_environment (kubernetes_adapter p cfg)"
    by (rule kubernetes_create_Inr [OF assms])
  have "ks_dry_run st = None"
    using st by (auto simp: settings_for_def result_simps split: if_splits)
  moreover have "kc_dry_run cfg = (case ks_dry_run st of None \<Rightarrow> \<not> kc_safe cfg | Some b \<Rightarrow> b)"
    by (rule new_kubernetes_Inr [OF new])
  ultimately show ?thesis using env by auto
qed

lemma kubernetes_private_factory:
  "private_factory (kubernetes_memory p ctx dir draw float_int elapsed prior)
     (judge_graph (lift_environment (kubernetes_adapter p cfg)) m l)"
  by (auto simp: private_factory_def kubernetes_memory_def judged.framed_graph_axioms
      dest: kubernetes_create_ledger elim!: kubernetes_create_Inr)

interpretation kubernetes_tasks: task_services
  "kubernetes_worker p cfg (kubernetes_memory p ctx dir draw float_int elapsed prior) m l worker_id attempts"
  memory_ledger memory_queue
  unfolding kubernetes_worker_def by (rule memory_services_contract) (rule kubernetes_private_factory)

end
