(* ===== verification/Reports.thy ===== *)
theory Reports
  imports System_Metrics Benchmark_Files
begin

text \<open>
  The evaluation over a directory of benchmarks and its artifacts:
  \<open>judge_layer/evaluation/runner.py\<close> and \<open>judge_layer/evaluation/report.py\<close>. \<open>fixed1\<close> is the
  \<open>.1f\<close> format and \<open>repr_rat\<close> the \<open>repr\<close> of a float. The run is silent here; \<open>Narrated_Evaluation\<close> has its narration.
\<close>

record case_row =
  cw_id :: string
  cw_name :: string
  cw_baseline :: system_case_metrics
  cw_kuber :: system_case_metrics

section \<open>Dictionaries\<close>

definition metrics_to_dict :: "(rat \<Rightarrow> string) \<Rightarrow> system_case_metrics \<Rightarrow> pydict" where
  "metrics_to_dict repr_rat m =
     [(''functional_success'', PBool (mt_functional_success m)),
      (''initial_risk'', PInt (mt_initial_risk m)), (''final_risk'', PInt (mt_final_risk m)),
      (''risk_reduction_percent'', PFloat (repr_rat (mt_risk_reduction_percent m))),
      (''validated_risk_reduction'', PFloat (repr_rat (mt_validated_risk_reduction m))),
      (''raw_permission_reduction_percent'',
         PFloat (repr_rat (mt_raw_permission_reduction_percent m))),
      (''initial_permissions'', PInt (mt_initial_permissions m)),
      (''final_permissions'', PInt (mt_final_permissions m)),
      (''high_risk_permissions_remaining'', PInt (mt_high_risk_permissions_remaining m)),
      (''cluster_wide_grants_remaining'', PInt (mt_cluster_wide_grants_remaining m)),
      (''incorrect_removals'', PInt (mt_incorrect_removals m)),
      (''repair_iterations'', PInt (mt_repair_iterations m)),
      (''runtime_seconds'', PFloat (repr_rat (mt_runtime_seconds m)))]"

definition summary_to_dict :: "(rat \<Rightarrow> string) \<Rightarrow> evaluation_summary \<Rightarrow> pydict" where
  "summary_to_dict repr_rat s =
     [(''cases'', PInt (int (es_cases s))),
      (''functional_successes'', PInt (int (es_functional_successes s))),
      (''functional_success_rate'', PFloat (repr_rat (es_functional_success_rate s))),
      (''average_validated_risk_reduction'', PFloat (repr_rat (es_average_validated_risk_reduction s))),
      (''average_raw_permission_reduction'', PFloat (repr_rat (es_average_raw_permission_reduction s))),
      (''average_risk_reduction'', PFloat (repr_rat (es_average_risk_reduction s))),
      (''high_risk_permissions_remaining'', PInt (es_high_risk_permissions_remaining s)),
      (''cluster_wide_grants_remaining'', PInt (es_cluster_wide_grants_remaining s)),
      (''incorrect_removals'', PInt (es_incorrect_removals s)),
      (''repair_iterations'', PInt (es_repair_iterations s)),
      (''average_runtime_seconds'', PFloat (repr_rat (es_average_runtime_seconds s)))]"

definition row_to_dict :: "(rat \<Rightarrow> string) \<Rightarrow> case_row \<Rightarrow> pydict" where
  "row_to_dict repr_rat row =
     [(''id'', PStr (cw_id row)), (''name'', PStr (cw_name row)),
      (''baseline'', PDict (metrics_to_dict repr_rat (cw_baseline row))),
      (''kuber'', PDict (metrics_to_dict repr_rat (cw_kuber row)))]"

text \<open>\<open>json.dumps(v, indent=2, sort_keys=True)\<close>.\<close>

definition indent :: "nat \<Rightarrow> string" where
  "indent n = newline @ replicate (2 * n) CHR '' ''"

fun json_pretty :: "nat \<Rightarrow> pyval \<Rightarrow> string"
  and json_pretty_list :: "nat \<Rightarrow> pyval list \<Rightarrow> string list"
  and json_pretty_items :: "nat \<Rightarrow> pydict \<Rightarrow> (string \<times> string) list" where
  "json_pretty n (PDict d) =
     (if d = [] then ''{}''
      else ''{'' @ indent (Suc n) @
        py_join ('','' @ indent (Suc n)) (map (\<lambda>(k, r). json_string k @ '': '' @ r)
          (sort_key fst (json_pretty_items (Suc n) d))) @ indent n @ ''}'')"
| "json_pretty n (PList xs) =
     (if xs = [] then ''[]''
      else ''['' @ indent (Suc n) @ py_join ('','' @ indent (Suc n)) (json_pretty_list (Suc n) xs) @
        indent n @ '']'')"
| "json_pretty n v = json_dumps v"
| "json_pretty_list n [] = []"
| "json_pretty_list n (x # xs) = json_pretty n x # json_pretty_list n xs"
| "json_pretty_items n [] = []"
| "json_pretty_items n ((k, v) # kvs) = (k, json_pretty n v) # json_pretty_items n kvs"

section \<open>Tables\<close>

definition pad_right :: "nat \<Rightarrow> string \<Rightarrow> string" where
  "pad_right n s = s @ replicate (n - length s) CHR '' ''"

definition pad_left :: "nat \<Rightarrow> string \<Rightarrow> string" where
  "pad_left n s = replicate (n - length s) CHR '' '' @ s"

definition table_line :: "string \<times> string \<times> string \<Rightarrow> string" where
  "table_line row = (case row of (label, left, right) \<Rightarrow>
     pad_right 32 label @ '' '' @ pad_left 16 left @ '' '' @ pad_left 16 right)"

definition successes_text :: "evaluation_summary \<Rightarrow> string" where
  "successes_text s = nat_str (es_functional_successes s) @ ''/'' @ nat_str (es_cases s)"

definition console_table ::
  "(rat \<Rightarrow> string) \<Rightarrow> evaluation_summary \<Rightarrow> evaluation_summary \<Rightarrow> string" where
  "console_table fixed1 baseline kuber =
     py_join newline
       ([''Kuber Evaluation'', replicate 72 CHR ''='', '''', ''Cases: '' @ nat_str (es_cases kuber), '''',
         table_line (''Metric'', ''Baseline'', ''Kuber''), replicate 72 CHR ''-''] @
        map table_line
          [(''Functional success'', successes_text baseline, successes_text kuber),
           (''Validated Risk Reduction'',
            fixed1 (es_average_validated_risk_reduction baseline) @ ''%'',
            fixed1 (es_average_validated_risk_reduction kuber) @ ''%''),
           (''Raw privilege reduction'',
            fixed1 (es_average_raw_permission_reduction baseline) @ ''%'',
            fixed1 (es_average_raw_permission_reduction kuber) @ ''%''),
           (''Cluster-wide grants left'', int_str (es_cluster_wide_grants_remaining baseline),
            int_str (es_cluster_wide_grants_remaining kuber)),
           (''Repair iterations'', int_str (es_repair_iterations baseline),
            int_str (es_repair_iterations kuber))])"

definition report_arrow :: string where
  "report_arrow = '' '' @ map char_of [226, 134, 146 :: nat] @ '' ''"

definition metric_row :: "string \<Rightarrow> string \<Rightarrow> string \<Rightarrow> string" where
  "metric_row label left right = ''| '' @ label @ '' | '' @ left @ '' | '' @ right @ '' |''"

definition pass_text :: "system_case_metrics \<Rightarrow> string" where
  "pass_text m = (if mt_functional_success m then ''PASS'' else ''FAIL'')"

definition case_cells :: "(rat \<Rightarrow> string) \<Rightarrow> system_case_metrics \<Rightarrow> string" where
  "case_cells fixed1 m =
     ''| '' @ pass_text m @ '' '' @
     ''| '' @ int_str (mt_initial_permissions m) @ report_arrow @ int_str (mt_final_permissions m) @ '' '' @
     ''| '' @ int_str (mt_initial_risk m) @ report_arrow @ int_str (mt_final_risk m) @ '' '' @
     ''| '' @ fixed1 (mt_validated_risk_reduction m) @ ''% ''"

definition case_line :: "(rat \<Rightarrow> string) \<Rightarrow> case_row \<Rightarrow> string" where
  "case_line fixed1 row =
     ''| '' @ cw_name row @ '' '' @ case_cells fixed1 (cw_baseline row) @ case_cells fixed1 (cw_kuber row) @
     ''| '' @ int_str (mt_repair_iterations (cw_kuber row)) @ '' | '' @
     ''[trajectory](../trajectories/evaluation-'' @ cw_id row @ ''.md) |''"

definition markdown_report ::
  "(rat \<Rightarrow> string) \<Rightarrow> evaluation_summary \<Rightarrow> evaluation_summary \<Rightarrow> case_row list \<Rightarrow> string" where
  "markdown_report fixed1 baseline kuber cases =
     py_join newline
       ([''# Kuber evaluation report'', '''',
         ''> Generated by `make evaluate`; no results are hardcoded.'', '''',
         ''Validated Risk Reduction (VRR) is risk reduction when every declared'',
         ''verification test passes, and zero otherwise. The risk score is an'',
         ''explainable project heuristic, not an industry standard.'', '''',
         ''| Metric | Observed-only baseline | Kuber |'', ''|---|---:|---:|'',
         metric_row ''Functional success'' (successes_text baseline) (successes_text kuber),
         metric_row ''Average VRR'' (fixed1 (es_average_validated_risk_reduction baseline) @ ''%'')
           (fixed1 (es_average_validated_risk_reduction kuber) @ ''%''),
         metric_row ''Average raw permission reduction''
           (fixed1 (es_average_raw_permission_reduction baseline) @ ''%'')
           (fixed1 (es_average_raw_permission_reduction kuber) @ ''%''),
         metric_row ''Cluster-wide grants remaining''
           (int_str (es_cluster_wide_grants_remaining baseline))
           (int_str (es_cluster_wide_grants_remaining kuber)),
         metric_row ''Incorrect removals detected'' (int_str (es_incorrect_removals baseline))
           (int_str (es_incorrect_removals kuber)),
         metric_row ''Repair iterations'' (int_str (es_repair_iterations baseline))
           (int_str (es_repair_iterations kuber)),
         '''', ''## Cases'', '''',
         ''| Case | Baseline | Baseline permissions | Baseline risk | Baseline VRR | Kuber | Kuber permissions | Kuber risk | Kuber VRR | Repairs | Trace |'',
         ''|---|---:|---:|---:|---:|---:|---:|---:|---:|---:|---|''] @
        map (case_line fixed1) cases) @ newline"

section \<open>The evaluation\<close>

text \<open>What the run of one benchmark directory uses: loading, the clock readings, and the evaluation
  of a system benchmark through the event layer.\<close>

record evaluation_ports =
  ep_files :: benchmark_files
  ep_float_int :: "string \<Rightarrow> int result"
  ep_root :: string
  ep_elapsed :: string
  ep_runtime :: rat
  ep_kuber_runtime :: rat
  ep_uuid :: string
  ep_max_repair :: nat
  ep_limit :: nat
  ep_prior :: workload_state
  ep_system_kuber :: "system_benchmark \<Rightarrow> system_case_metrics result"
  ep_fixed1 :: "rat \<Rightarrow> string"
  ep_repr :: "rat \<Rightarrow> string"

definition evaluate_path :: "evaluation_ports \<Rightarrow> string \<Rightarrow> case_row result" where
  "evaluate_path ep path =
     (if bf_exists (ep_files ep) (in_directory path ''system.yaml'') then
        rbind (load_system_benchmark (ep_float_int ep) (ep_files ep) path (ep_root ep)) (\<lambda>benchmark.
        rbind (evaluate_system_baseline (ep_elapsed ep) (ep_runtime ep) (sb_cases benchmark)) (\<lambda>baseline.
        rbind (ep_system_kuber ep benchmark) (\<lambda>kuber.
        Inr \<lparr>cw_id = sb_identifier benchmark, cw_name = sb_name benchmark, cw_baseline = baseline,
             cw_kuber = kuber\<rparr>)))
      else
        rbind (load_benchmark (ep_files ep) path) (\<lambda>c.
        rbind (evaluate_baseline (ep_elapsed ep) (ep_runtime ep) c) (\<lambda>baseline.
        rbind (evaluate_kuber (simulator_graph (ep_elapsed ep) c (ep_max_repair ep) (ep_limit ep))
                 (ep_uuid ep) (ep_prior ep) (ep_kuber_runtime ep) c) (\<lambda>kuber.
        Inr \<lparr>cw_id = bc_identifier c, cw_name = bc_name c, cw_baseline = snd baseline,
             cw_kuber = snd kuber\<rparr>))))"

record evaluation_output =
  eo_rows :: "case_row list"
  eo_baseline :: evaluation_summary
  eo_kuber :: evaluation_summary
  eo_results_json :: string
  eo_csv_rows :: "pydict list"
  eo_report :: string
  eo_console :: string

definition csv_rows :: "(rat \<Rightarrow> string) \<Rightarrow> case_row \<Rightarrow> pydict list" where
  "csv_rows repr_rat row =
     map (\<lambda>(system, m). [(''id'', PStr (cw_id row)), (''name'', PStr (cw_name row)),
            (''system'', PStr system)] @ metrics_to_dict repr_rat m)
       [(''baseline'', cw_baseline row), (''kuber'', cw_kuber row)]"

text \<open>What is computed of the rows, and written to the artifacts.\<close>

definition output_of :: "evaluation_ports \<Rightarrow> case_row list \<Rightarrow> evaluation_output" where
  "output_of ep rows =
     (let baseline = summarize (map cw_baseline rows); kuber = summarize (map cw_kuber rows);
          output = PDict
            [(''methodology'', PDict
               [(''primary_metric'', PStr ''Validated Risk Reduction''),
                (''risk_score'', PStr ''Kuber benchmark heuristic v1; not an industry standard'')]),
             (''baseline'', PDict (summary_to_dict (ep_repr ep) baseline)),
             (''kuber'', PDict (summary_to_dict (ep_repr ep) kuber)),
             (''cases'', PList (map (\<lambda>row. PDict (row_to_dict (ep_repr ep) row)) rows))]
      in \<lparr>eo_rows = rows, eo_baseline = baseline, eo_kuber = kuber,
          eo_results_json = json_pretty 0 output @ newline,
          eo_csv_rows = concat (map (csv_rows (ep_repr ep)) rows),
          eo_report = markdown_report (ep_fixed1 ep) baseline kuber rows,
          eo_console = console_table (ep_fixed1 ep) baseline kuber\<rparr>)"

definition too_few_cases :: "string list \<Rightarrow> py_error" where
  "too_few_cases paths =
     RuntimeError (''expected at least 12 benchmark cases, found '' @ nat_str (length paths))"

definition run_evaluation :: "evaluation_ports \<Rightarrow> string list \<Rightarrow> evaluation_output result" where
  "run_evaluation ep paths =
     (if length paths < 12 then Inl (too_few_cases paths)
      else rbind (rmap (evaluate_path ep) paths) (\<lambda>rows. Inr (output_of ep rows)))"

section \<open>What the output says\<close>

lemma run_evaluation_Inr:
  assumes "run_evaluation ep paths = Inr out"
  shows "12 \<le> length paths \<and> rmap (evaluate_path ep) paths = Inr (eo_rows out) \<and>
    eo_baseline out = summarize (map cw_baseline (eo_rows out)) \<and>
    eo_kuber out = summarize (map cw_kuber (eo_rows out))"
  using assms by (auto simp: run_evaluation_def output_of_def result_simps Let_def split: if_splits)

lemma csv_rows_length: "length (concat (map (csv_rows f) rows)) = 2 * length rows"
  by (induction rows) (simp_all add: csv_rows_def)

end
