(* ===== verification/Presenters.thy ===== *)
theory Presenters
  imports Benchmark_Files Evaluation Trajectory System_Graph Gemini_Provider Observation
begin

text \<open>
  The terminal narration: \<open>judge_layer/evaluation/presenter.py\<close> and \<open>kuber_cli/system_presenter.py\<close>.
  What is modelled is which renderables are handed to the console, in which order, and with which
  texts; \<open>rich\<close> itself is the port \<open>pp_print\<close>, which may raise (for instance on broken markup).
  \<open>Markup\<close> is a string that \<open>rich\<close> interprets, \<open>Plain\<close> a \<open>Text\<close> it does not: spans with a style.
  Signs outside the first 256 code points are written as their UTF-8 bytes.
\<close>

datatype renderable =
    Blank
  | Markup string
  | Plain "(string \<times> string) list"
  | Panel renderable string string
  | Table "string list" "renderable list list"
  | Rule string

abbreviation unstyled :: "string \<Rightarrow> renderable" where
  "unstyled s \<equiv> Plain [(s, '''')]"

record 'k presenter_ports =
  pp_print :: "renderable \<Rightarrow> ('k, unit) op"
  pp_escape :: "string \<Rightarrow> string"
  pp_fixed1 :: "rat \<Rightarrow> string"
  pp_fixed4 :: "rat \<Rightarrow> string"

fun print_all :: "'k presenter_ports \<Rightarrow> renderable list \<Rightarrow> ('k, unit) op" where
  "print_all p [] = ret ()"
| "print_all p (x # xs) = seq (pp_print p x) (\<lambda>_. print_all p xs)"

section \<open>Dynamic details\<close>

text \<open>\<open>details[key]\<close> is \<open>dget_req\<close>; \<open>len\<close> and \<open>.get\<close> on a value of any type.\<close>

definition py_len :: "pyval \<Rightarrow> nat result" where
  "py_len v =
     (case v of
        PList xs \<Rightarrow> Inr (length xs)
      | PDict d \<Rightarrow> Inr (length d)
      | PStr s \<Rightarrow> Inr (length s)
      | _ \<Rightarrow> Inl (TypeError ''object has no len()''))"

definition text_of :: "pydict \<Rightarrow> string \<Rightarrow> string result" where
  "text_of d key = rbind (dget_req d key) (\<lambda>v. Inr (py_str v))"

definition truthy_or :: "pyval \<Rightarrow> string \<Rightarrow> string" where
  "truthy_or v default_text = (if truthy v then py_str v else default_text)"

definition event_label :: "pydict \<Rightarrow> string" where
  "event_label value =
     py_str (dget_or value ''verb'' (PStr ''?'')) @ '' '' @ truthy_or (dget value ''api_group'') ''core'' @
     ''/'' @ py_str (dget_or value ''resource'' (PStr ''unknown'')) @
     (if truthy (dget value ''resource_name'') then ''/'' @ py_str (dget value ''resource_name'') else '''') @
     '' ['' @ truthy_or (dget value ''namespace'') ''cluster-wide'' @ '']''"

definition label_of :: "pyval \<Rightarrow> string result" where
  "label_of v =
     (case v of
        PDict d \<Rightarrow> Inr (event_label d)
      | _ \<Rightarrow> Inl (OtherError ''object has no attribute get''))"

definition kube_label :: "kube_event \<Rightarrow> string" where
  "kube_label e = (case event_to_dict e of PDict d \<Rightarrow> event_label d | _ \<Rightarrow> '''')"

definition two_digits :: "nat \<Rightarrow> string" where
  "two_digits n = (if n < 10 then ''0'' @ nat_str n else nat_str n)"

definition pass_fail :: "bool \<Rightarrow> string" where
  "pass_fail b = (if b then ''PASS'' else ''FAIL'')"

section \<open>The judge's presenter\<close>

definition judge_start :: "'k presenter_ports \<Rightarrow> nat \<Rightarrow> string \<Rightarrow> ('k, unit) op" where
  "judge_start p case_count benchmark_root =
     print_all p
       [Blank,
        Panel (Markup (''[bold]Deterministic least-privilege evaluation[/bold]'' @ newline @
                 ''Benchmark files define behavior. The RBAC simulator proves PASS or FAIL.''))
          ''[bold cyan]KUBER JUDGE[/bold cyan]'' ''cyan'',
        Table []
          [[Markup ''Benchmark root'', unstyled benchmark_root],
           [Markup ''Cases discovered'', Markup (nat_str case_count)],
           [Markup ''Decision authority'', Markup ''Files + deterministic RBAC simulator''],
           [Markup ''LLM'', Markup ''Disabled and not required'']],
        Markup (''[dim]Discovered '' @ nat_str case_count @ '' benchmark cases under '' @
          pp_escape p benchmark_root @ ''.[/dim]'')]"

definition evidence_files :: "(string \<times> string) list" where
  "evidence_files =
     [(''Current grant'', ''initial-rbac.yaml''), (''Runtime evidence'', ''observed-events.json''),
      (''Owner tests'', ''verification-tests.yaml''), (''Reference'', ''expected-minimum.yaml'')]"

definition permissions_and_risk :: "policy \<Rightarrow> string" where
  "permissions_and_risk P =
     nat_str (effective_permission_count P) @ '' permissions, risk '' @
     int_str (ra_score (score_policy P)) @ ''/100''"

definition input_rows :: "benchmark_case \<Rightarrow> renderable list list" where
  "input_rows c =
     [[Markup ''Initial policy'',
       Markup (nat_str (effective_permission_count (bc_initial_policy c)) @ '' permissions'')],
      [Markup ''Initial risk'',
       Markup (int_str (ra_score (score_policy (bc_initial_policy c))) @ ''/100'')],
      [Markup ''Observed calls'', Markup (nat_str (length (bc_observed_events c)))],
      [Markup ''Declared tests'', Markup (nat_str (length (bc_verification_tests c)))]] @
     (case bc_expected_policy c of
        None \<Rightarrow> []
      | Some P \<Rightarrow> [[Markup ''Reference minimum'', Markup (permissions_and_risk P)]])"

definition visibility_rows :: "benchmark_case \<Rightarrow> renderable list list" where
  "visibility_rows c =
     concat (map (\<lambda>test. map (\<lambda>e.
         [unstyled (vt_name test), unstyled (kube_label e),
          (if e \<notin> set (bc_observed_events c) then Plain [(''HIDDEN PATH'', ''bold yellow'')]
           else unstyled ''observed'')])
       (vt_events test)) (bc_verification_tests c))"

definition case_started ::
  "'k presenter_ports \<Rightarrow> nat \<Rightarrow> nat \<Rightarrow> string \<Rightarrow> benchmark_case \<Rightarrow> ('k, unit) op" where
  "case_started p index case_count path c =
     print_all p
       [Rule (''[bold cyan]['' @ two_digits index @ ''/'' @ two_digits case_count @ ''] '' @
          pp_escape p (bc_name c) @ ''[/bold cyan]''),
        Panel (unstyled (bc_description c)) ''Purpose'' ''cyan'',
        Table [''Evidence files:'', ''Path'']
          (map (\<lambda>(label, name). [Markup label, unstyled (in_directory path name)]) evidence_files),
        Table [''Input'', ''Value''] (input_rows c),
        Table [''Observed normalized calls:'']
          (map (\<lambda>e. [unstyled (kube_label e)]) (bc_observed_events c)),
        Table [''Owner-declared verification tests:'', ''Capability'', ''Visibility''] (visibility_rows c)]"

definition denied_by :: "policy \<Rightarrow> verification_test \<Rightarrow> kube_event list" where
  "denied_by P test = filter (\<lambda>e. \<not> is_authorized P e) (vt_events test)"

definition test_row :: "policy \<Rightarrow> verification_test \<Rightarrow> renderable list" where
  "test_row P test =
     unstyled (vt_name test) #
     (if denied_by P test \<noteq> [] then
        [Plain [(''FAIL'', ''bold red'')],
         unstyled (py_join newline (map (\<lambda>e. ''DENIED '' @ kube_label e) (denied_by P test)))]
      else
        [Plain [(''PASS'', ''bold green'')],
         Plain [(''All declared capabilities authorized'', ''green'')]])"

definition tests_authorized :: "policy \<Rightarrow> verification_test list \<Rightarrow> nat" where
  "tests_authorized P tests = length (filter (\<lambda>test. denied_by P test = []) tests)"

definition show_baseline ::
  "'k presenter_ports \<Rightarrow> benchmark_case \<Rightarrow> policy \<Rightarrow> system_case_metrics \<Rightarrow> ('k, unit) op" where
  "show_baseline p c P m =
     print_all p
       [Markup ''[bold yellow]Observed-only baseline:[/bold yellow]'',
        Table [''Metric'', ''Before'', ''Candidate'']
          [[Markup ''Effective permissions'', Markup (int_str (mt_initial_permissions m)),
            Markup (int_str (mt_final_permissions m))],
           [Markup ''Risk score'', Markup (int_str (mt_initial_risk m)), Markup (int_str (mt_final_risk m))]],
        Table [''Test'', ''Status'', ''Deterministic evidence''] (map (test_row P) (bc_verification_tests c)),
        Panel (unstyled (pass_fail (mt_functional_success m) @ '' ('' @
            nat_str (tests_authorized P (bc_verification_tests c)) @ ''/'' @
            nat_str (length (bc_verification_tests c)) @ '' tests); validated risk reduction '' @
            pp_fixed1 p (mt_validated_risk_reduction m) @ ''%''))
          ''Baseline result'' (if mt_functional_success m then ''green'' else ''red'')]"

definition agent_started :: "'k presenter_ports \<Rightarrow> ('k, unit) op" where
  "agent_started p = pp_print p (Markup ''[bold magenta]Kuber agent flow:[/bold magenta]'')"

definition system_case_started ::
  "'k presenter_ports \<Rightarrow> nat \<Rightarrow> nat \<Rightarrow> system_benchmark \<Rightarrow> ('k, unit) op" where
  "system_case_started p index case_count b =
     print_all p
       [Rule (''[bold cyan]['' @ two_digits index @ ''/'' @ two_digits case_count @ ''] '' @ sb_name b),
        Panel (Markup (sb_description b)) ''Multi-service benchmark'' '''',
        Table [''Workload'', ''Declared tests'']
          (map (\<lambda>c. [Markup (bc_identifier c), Markup (nat_str (length (bc_verification_tests c)))]) (sb_cases b)),
        Markup (''Dispatching through [bold]'' @ int_str (sb_workers b) @ ''[/bold] in-memory consumer workers '' @
          ''using production event contracts and the LangGraph workload subgraph.'')]"

definition system_case_finished ::
  "'k presenter_ports \<Rightarrow> system_case_metrics \<Rightarrow> system_case_metrics \<Rightarrow> ('k, unit) op" where
  "system_case_finished p baseline kuber =
     (let row = \<lambda>label f. [Markup label, Markup (f baseline), Markup (f kuber)] in
      pp_print p (Table [''Metric'', ''Observed-only'', ''Kuber'']
        [row ''Functional success'' (\<lambda>m. pass_fail (mt_functional_success m)),
         row ''Permissions'' (\<lambda>m. int_str (mt_initial_permissions m) @ arrow @ int_str (mt_final_permissions m)),
         row ''Validated risk reduction'' (\<lambda>m. pp_fixed1 p (mt_validated_risk_reduction m) @ ''%''),
         row ''Repairs'' (\<lambda>m. int_str (mt_repair_iterations m)),
         row ''Observed wall time'' (\<lambda>m. pp_fixed4 p (mt_runtime_seconds m) @ ''s'')]))"

text \<open>\<open>handle_event\<close>: each branch reads what it needs of the details, line by line.\<close>

definition show_inspect :: "'k presenter_ports \<Rightarrow> pydict \<Rightarrow> ('k, unit) op" where
  "show_inspect p details =
     seq (lift_result (text_of details ''permissions'')) (\<lambda>permissions.
     seq (lift_result (text_of details ''risk'')) (\<lambda>risk.
     pp_print p (Plain [(''  Inspector -> '', ''bold blue''),
       (''resolved '' @ permissions @ '' permissions, risk '' @ risk @ ''/100'', '''')])))"

definition show_evidence :: "'k presenter_ports \<Rightarrow> pydict \<Rightarrow> ('k, unit) op" where
  "show_evidence p details =
     seq (lift_result (rbind (dget_req details ''observed_events'') py_len)) (\<lambda>n.
     pp_print p (Plain [(''  Evidence  -> '', ''bold blue''),
       (nat_str n @ '' normalized observed calls'', '''')]))"

definition show_proposal :: "'k presenter_ports \<Rightarrow> pydict \<Rightarrow> ('k, unit) op" where
  "show_proposal p details =
     seq (lift_result (text_of details ''permissions'')) (\<lambda>permissions.
     seq (lift_result (text_of details ''removed_permissions'')) (\<lambda>removed.
     seq (lift_result (text_of details ''risk'')) (\<lambda>risk.
     seq (pp_print p (Plain [(''  Reducer   -> '', ''bold yellow''),
            (''proposed '' @ permissions @ '' permissions (removed '' @ removed @ ''), risk '' @ risk @ ''/100'', '''')]))
       (\<lambda>_.
     seq (lift_result (rbind (dget_req details ''candidate_permissions'') py_iter)) (\<lambda>grants.
     print_all p (map (\<lambda>g. Plain [(''      GRANT '' @ py_str g, ''yellow'')]) grants))))))"

definition show_apply :: "'k presenter_ports \<Rightarrow> pydict \<Rightarrow> ('k, unit) op" where
  "show_apply p details =
     seq (lift_result (text_of details ''attempt'')) (\<lambda>attempt.
     seq (lift_result (text_of details ''permissions'')) (\<lambda>permissions.
     pp_print p (Plain [(''  Verifier  -> '', ''bold magenta''),
       (''attempt '' @ attempt @ '': apply '' @ permissions @ '' permissions'', '''')])))"

fun print_labels :: "'k presenter_ports \<Rightarrow> (string \<Rightarrow> renderable) \<Rightarrow> pyval list \<Rightarrow> ('k, unit) op" where
  "print_labels p f [] = ret ()"
| "print_labels p f (v # vs) =
     seq (lift_result (label_of v)) (\<lambda>label. seq (pp_print p (f label)) (\<lambda>_. print_labels p f vs))"

definition show_verify :: "'k presenter_ports \<Rightarrow> bool \<Rightarrow> pydict \<Rightarrow> ('k, unit) op" where
  "show_verify p passed details =
     seq (lift_result (text_of details ''tests_passed'')) (\<lambda>tests_passed.
     seq (lift_result (text_of details ''tests_total'')) (\<lambda>tests_total.
     seq (pp_print p (Plain [(''  Verifier  -> '', ''bold magenta''),
            (pass_fail passed, if passed then ''bold green'' else ''bold red''),
            ('' '' @ tests_passed @ ''/'' @ tests_total @ '' declared tests'', '''')])) (\<lambda>_.
     seq (lift_result (py_iter (dget_or details ''denied_events'' (PList [])))) (\<lambda>denied.
     print_labels p (\<lambda>label. Plain [(''      DENIED '' @ label, ''bold red'')]) denied))))"

definition show_repair :: "'k presenter_ports \<Rightarrow> pydict \<Rightarrow> ('k, unit) op" where
  "show_repair p details =
     seq (lift_result (rbind (dget_req details ''restored'') py_iter)) (\<lambda>restored.
     seq (lift_result (rmap label_of restored)) (\<lambda>labels.
     pp_print p (Panel (Plain [(py_join newline (map (\<lambda>l. ''RESTORE '' @ l) labels), ''magenta'')])
       ''Repair -> restore only originally authorized denied capabilities'' ''magenta'')))"

definition show_finalize :: "'k presenter_ports \<Rightarrow> pydict \<Rightarrow> ('k, unit) op" where
  "show_finalize p details =
     seq (lift_result (text_of details ''permissions'')) (\<lambda>permissions.
     seq (lift_result (text_of details ''risk'')) (\<lambda>risk.
     pp_print p (Panel (Markup (''[bold green]ACCEPT[/bold green] '' @ permissions @ '' permissions, risk '' @
       risk @ ''/100'')) ''Finalize'' ''green'')))"

definition handle_event :: "'k presenter_ports \<Rightarrow> trajectory_event \<Rightarrow> ('k, unit) op" where
  "handle_event p ev =
     (let is_step = \<lambda>agent action. te_agent ev = agent \<and> te_action ev = action in
      if is_step ''inspector'' ''inspect'' then show_inspect p (te_details ev)
      else if is_step ''inspector'' ''gather_evidence'' then show_evidence p (te_details ev)
      else if is_step ''reducer'' ''propose_policy'' then show_proposal p (te_details ev)
      else if is_step ''verifier'' ''apply_policy'' then show_apply p (te_details ev)
      else if is_step ''verifier'' ''verify'' then
        show_verify p (te_decision ev = Some ''accept'') (te_details ev)
      else if is_step ''verifier'' ''repair_policy'' then show_repair p (te_details ev)
      else if is_step ''orchestrator'' ''finalize'' then show_finalize p (te_details ev)
      else if is_step ''orchestrator'' ''restore_policy'' then
        pp_print p (Panel (Markup ''[bold red]REJECT[/bold red] candidate and restore original policy'')
          ''Finalize'' ''red'')
      else ret ())"

definition case_finished ::
  "'k presenter_ports \<Rightarrow> system_case_metrics \<Rightarrow> policy \<Rightarrow> string \<Rightarrow> ('k, unit) op" where
  "case_finished p m final_policy trajectory_path =
     print_all p
       [Markup ''[bold green]Case outcome:[/bold green]'',
        Table [''Metric'', ''Before'', ''After'']
          [[Markup ''Effective permissions'', Markup (int_str (mt_initial_permissions m)),
            Markup (int_str (mt_final_permissions m))],
           [Markup ''Risk score'', Markup (int_str (mt_initial_risk m)), Markup (int_str (mt_final_risk m))],
           [Markup ''Verification'', Markup ''not proven'', Markup (pass_fail (mt_functional_success m))],
           [Markup ''Validated risk reduction'', Markup em_dash,
            Markup (pp_fixed1 p (mt_validated_risk_reduction m) @ ''%'')],
           [Markup ''Repair iterations'', Markup em_dash, Markup (int_str (mt_repair_iterations m))]],
        Table [''Final grants ('' @ nat_str (length (pl_permissions final_policy)) @ '' normalized rules):'']
          (map (\<lambda>q. [unstyled (perm_display q)]) (pl_permissions final_policy)),
        Markup (''Machine trajectory: [cyan]'' @ pp_escape p trajectory_path @ ''[/cyan]'')]"

definition judge_finish :: "'k presenter_ports \<Rightarrow> string \<Rightarrow> string \<Rightarrow> ('k, unit) op" where
  "judge_finish p summary artifact_root =
     print_all p
       [Rule ''[bold green]Aggregate evaluation'', Panel (unstyled summary) '''' ''green'',
        Table []
          [[Markup ''Generated evidence:'', unstyled (in_directory artifact_root ''results.json'')],
           [Markup ''Generated comparison:'', unstyled (in_directory artifact_root ''report.md'')]]]"

section \<open>The system presenter\<close>

text \<open>\<open>str.upper\<close> on the first 256 code points whose capital is among them, and on the sharp s.\<close>

definition upper_char :: "char \<Rightarrow> string" where
  "upper_char c =
     (let n = (of_char c :: nat) in
      if (97 \<le> n \<and> n \<le> 122) \<or> (224 \<le> n \<and> n \<le> 254 \<and> n \<noteq> 247) then [char_of (n - 32)]
      else if n = 223 then ''SS'' else [c])"

definition upper_text :: "string \<Rightarrow> string" where
  "upper_text s = concat (map upper_char s)"

definition dash :: string where
  "dash = '' '' @ em_dash @ '' ''"

definition system_start :: "'k presenter_ports \<Rightarrow> string \<Rightarrow> ('k, unit) op" where
  "system_start p llm_label =
     pp_print p (Panel (Markup
       (''[bold]Kuber multi-service least-privilege compiler[/bold]'' @ newline @
        ''Kubernetes discovery'' @ arrow @ ''scoped contexts'' @ arrow @ ''Kafka tasks'' @ arrow @
        ''worker LangGraphs'' @ arrow @ ''system E2E'' @ newline @
        ''LLM reasoning: '' @ llm_label)) '''' ''cyan'')"

definition starts_with :: "string \<Rightarrow> string \<Rightarrow> bool" where
  "starts_with s t \<longleftrightarrow> take (length t) s = t"

definition preparation :: "'k presenter_ports \<Rightarrow> string \<Rightarrow> ('k, unit) op" where
  "preparation p output =
     print_all p
       (Markup (''[green]'' @ map char_of [226, 156, 147 :: nat] @
          '' Starting policies and workloads reset[/green]'') #
        map (\<lambda>line. Markup (''  '' @ line))
          (filter (\<lambda>line. starts_with line ''KUBER_WARMUP'' \<or> starts_with line ''Warmup complete'')
             (split_lines output)))"

definition real_denial :: "pyval \<Rightarrow> renderable result" where
  "real_denial v =
     (case v of
        PDict denied \<Rightarrow>
          rbind (text_of denied ''verb'') (\<lambda>verb.
          rbind (text_of denied ''resource'') (\<lambda>resource.
          Inr (Plain [(''    REAL 403: '' @ verb @ '' '' @ truthy_or (dget denied ''api_group'') ''core'' @
                 ''/'' @ resource @ ''/'' @ truthy_or (dget denied ''resource_name'') ''*'', ''bold red'')])))
      | _ \<Rightarrow> Inl (OtherError ''object has no attribute get''))"

fun print_results :: "'k presenter_ports \<Rightarrow> ('a \<Rightarrow> renderable result) \<Rightarrow> 'a list \<Rightarrow> ('k, unit) op" where
  "print_results p f [] = ret ()"
| "print_results p f (v # vs) =
     seq (lift_result (f v)) (\<lambda>x. seq (pp_print p x) (\<lambda>_. print_results p f vs))"

definition narrated_actions :: "string list" where
  "narrated_actions =
     [''load_service_context'', ''inspect'', ''gather_evidence'', ''propose_policy'',
      ''validate_candidate'', ''apply_policy'', ''finalize'', ''publish_result_event'']"

definition event_prefix :: "trajectory_event \<Rightarrow> string" where
  "event_prefix ev =
     ''[cyan]'' @ remove_prefix ''kubernetes:kind-kuber/kuber-sandbox:'' (te_environment ev) @
     ''[/cyan] [bold]'' @ upper_text (te_action ev) @ ''[/bold]''"

definition graph_event :: "'k presenter_ports \<Rightarrow> trajectory_event \<Rightarrow> ('k, unit) op" where
  "graph_event p ev =
     (let line = event_prefix ev in
      if te_action ev = ''verify'' then
        let color = (if te_decision ev = Some ''accept'' then ''green'' else ''red'') in
        seq (pp_print p (Markup (line @ '' ['' @ color @ '']'' @ te_reason ev @ ''[/'' @ color @ '']''))) (\<lambda>_.
        seq (lift_result (py_iter (dget_or (te_details ev) ''denied_events'' (PList [])))) (\<lambda>denied.
        print_results p real_denial denied))
      else if te_action ev = ''diagnose_failure'' then
        pp_print p (Markup (line @ '' ('' @
          py_str (dget_or (te_details ev) ''reasoner'' (PStr ''deterministic'')) @ '')'' @ dash @ te_reason ev))
      else if te_action ev = ''repair_policy'' then
        pp_print p (Markup (line @ dash @ ''minimum denied capability restored''))
      else if te_action ev \<in> set narrated_actions then
        pp_print p (Markup (line @ dash @ te_reason ev))
      else ret ())"

definition system_event :: "'k presenter_ports \<Rightarrow> string \<Rightarrow> string \<Rightarrow> ('k, unit) op" where
  "system_event p action reason =
     pp_print p (Markup (''[magenta]SYSTEM[/magenta] [bold]'' @ upper_text action @ ''[/bold]'' @ dash @ reason))"

definition result_row :: "event_envelope \<Rightarrow> renderable list result" where
  "result_row e =
     (let value = en_payload e in
      rbind (text_of value ''workload_id'') (\<lambda>workload_id.
      rbind (text_of value ''worker_id'') (\<lambda>worker_id.
      rbind (text_of value ''original_permissions'') (\<lambda>original_permissions.
      rbind (text_of value ''final_permissions'') (\<lambda>final_permissions.
      rbind (text_of value ''original_risk'') (\<lambda>original_risk.
      rbind (text_of value ''final_risk'') (\<lambda>final_risk.
      rbind (text_of value ''tests_passed'') (\<lambda>tests_passed.
      rbind (text_of value ''tests_total'') (\<lambda>tests_total.
      rbind (text_of value ''repairs'') (\<lambda>repairs.
      Inr [Markup workload_id, Markup worker_id,
           Markup (original_permissions @ arrow @ final_permissions),
           Markup (original_risk @ arrow @ final_risk),
           Markup (tests_passed @ ''/'' @ tests_total), Markup repairs]))))))))))"

definition result_rows :: "event_envelope list \<Rightarrow> renderable list list result" where
  "result_rows results =
     rbind (rmap (\<lambda>e. rbind (text_of (en_payload e) ''workload_id'') (\<lambda>key. Inr (key, e))) results) (\<lambda>keyed.
     rmap result_row (map snd (sort_key fst keyed)))"

definition system_finish :: "'k presenter_ports \<Rightarrow> system_run_result \<Rightarrow> ('k, unit) op" where
  "system_finish p result =
     seq (lift_result (result_rows (sr_results result))) (\<lambda>rows.
     let color = (if sr_system_passed result then ''green'' else ''red'') in
     print_all p
       ([Table [''Service'', ''Worker'', ''Permissions'', ''Risk'', ''Tests'', ''Repairs''] rows,
         Panel (Markup (''['' @ color @ ''][bold]'' @ pass_fail (sr_system_passed result) @ ''[/bold][/'' @
             color @ '']'' @ dash @ ''all workload tests and system E2E''))
           ''Final system verification'' color,
         Markup (''Trajectories: [cyan]artifacts/trajectories/'' @ sr_run_id result @ ''[/cyan]'')] @
        (case sr_report_path result of
           None \<Rightarrow> []
         | Some path \<Rightarrow> [Markup (''Namespace report: [cyan]'' @ path @ ''[/cyan]'')])))"

section \<open>Narration cannot fail by itself\<close>

text \<open>A console that prints everything it is given.\<close>

definition prints :: "'k presenter_ports \<Rightarrow> bool" where
  "prints p \<longleftrightarrow> (\<forall>x. returns (pp_print p x))"

lemma returning_ret [simp]: "returns (ret x)"
  by (simp add: returns_def ret_def)

lemma returning_seq: "returns m \<Longrightarrow> (\<And>x. returns (f x)) \<Longrightarrow> returns (seq m f)"
  unfolding returns_def seq_def by (metis (mono_tags, lifting) old.prod.case sum.case(2))

lemma returns_lift_seq: "r = Inr x \<Longrightarrow> returns (f x) \<Longrightarrow> returns (seq (lift_result r) f)"
  by (simp add: returns_def seq_def lift_result_def)

lemma returns_print: "prints p \<Longrightarrow> returns (pp_print p x)"
  by (simp add: prints_def)

lemma returns_print_all: "prints p \<Longrightarrow> returns (print_all p xs)"
  by (induction xs) (auto intro!: returning_seq returns_print)

lemma returns_print_labels:
  "prints p \<Longrightarrow> returns (print_labels p f (map event_to_dict es))"
  by (induction es)
    (auto simp: event_to_dict_def label_of_def intro!: returns_lift_seq [OF refl] returning_seq [OF returns_print])

lemma real_denial_event: "\<exists>x. real_denial (event_to_dict e) = Inr x"
  by (simp add: real_denial_def event_to_dict_def text_of_def)

lemma returns_print_results:
  "prints p \<Longrightarrow> \<forall>v \<in> set vs. \<exists>x. f v = Inr x \<Longrightarrow> returns (print_results p f vs)"
  by (induction vs) (auto intro!: returns_lift_seq returning_seq [OF returns_print])

end
