(* ===== verification/Narration.thy ===== *)
theory Narration
  imports Presenters Samples Workload_Properties Context_Index
begin

text \<open>
  The presenters on the events of the workload graph. Every event a run records has the details its
  narration reads, so on a console that prints what it is given no presenter ends a run. A console
  may refuse broken markup, though, and the narration of a diagnosis prints the answer of the
  language model as markup.
\<close>

section \<open>Events the graph records\<close>

definition narratable :: "'k presenter_ports \<Rightarrow> trajectory_event \<Rightarrow> bool" where
  "narratable p ev \<longleftrightarrow> returns (handle_event p ev) \<and> returns (graph_event p ev)"

text \<open>An operation that adds narratable events only, whether it returns or raises.\<close>

definition records :: "(trajectory_event \<Rightarrow> bool) \<Rightarrow> ('w run, 'a) op \<Rightarrow> bool" where
  "records Q m \<longleftrightarrow> (\<forall>r. list_all Q (snd r) \<longrightarrow> list_all Q (snd (snd (m r))))"

lemma records_ret [simp, intro]: "records Q (ret x)"
  by (simp add: records_def ret_def)

lemma records_throw [simp, intro]: "records Q (throw err)"
  by (simp add: records_def throw_def)

lemma records_lift [simp, intro]: "records Q (lift_result x)"
  by (simp add: records_def lift_result_def)

lemma records_need [simp, intro]: "records Q (need key x)"
  by (simp add: need_def split: option.split)

lemma records_on_env [simp, intro]: "records Q (on_env m)"
  by (simp add: records_def on_env_def case_prod_beta)

lemma records_seq [intro]:
  "records Q m \<Longrightarrow> (\<And>x. records Q (f x)) \<Longrightarrow> records Q (seq m f)"
  unfolding records_def seq_def by (auto split: prod.splits sum.splits) (metis snd_conv)+

lemma records_failure_of [simp, intro]: "records Q (failure_of st)"
  unfolding failure_of_def by (rule records_seq) (auto split: option.split)

lemma records_if [intro]: "records Q m \<Longrightarrow> records Q m' \<Longrightarrow> records Q (if b then m else m')"
  by simp

lemma records_emit:
  assumes "\<And>t. Q \<lparr>te_run_id = ws_run_id st, te_environment = env_name (gc_env cfg), te_agent = agent,
        te_action = action, te_reason = reason, te_decision = decision,
        te_retry_count = ws_retry_count st, te_details = details, te_timestamp = t\<rparr>"
  shows "records Q (emit cfg st agent action reason decision details)"
  using assms by (auto simp: records_def emit_def record_event_def case_prod_beta)

lemma seq_lift_Inr [simp]: "seq (lift_result (Inr x)) f = f x"
  by (rule ext) (simp add: seq_def lift_result_def)

lemma returns_then: "prints p \<Longrightarrow> returns (f ()) \<Longrightarrow> returns (seq (pp_print p x) f)"
  by (rule returning_seq) (auto simp: returns_print)

declare returns_print [simp] returns_print_all [simp] returns_print_labels [simp]

lemma labels_total: "rmap label_of (map event_to_dict es) = Inr (map kube_label es)"
  by (induction es) (simp_all add: label_of_def kube_label_def event_to_dict_def)

lemma narratable_other:
  assumes "prints p" and "te_action ev \<notin> {''inspect'', ''gather_evidence'', ''propose_policy'', ''apply_policy'', ''verify'', ''repair_policy'', ''finalize''}"
  shows "narratable p ev"
  using assms by (auto simp: narratable_def handle_event_def graph_event_def Let_def intro: returns_print)

lemmas show_defs = show_inspect_def show_evidence_def show_proposal_def show_apply_def show_verify_def
  show_repair_def show_finalize_def text_of_def py_len_def py_iter_def

lemma records_node:
  assumes "prints p"
  shows "records (narratable p) (exec_node cfg n st)"
proof -
  note narratable = narratable_def handle_event_def graph_event_def Let_def show_defs labels_total
  note emits = records_seq records_on_env records_ret records_need records_failure_of records_lift
    records_throw records_emit
  have other: "records (narratable p) (emit cfg st agent action reason decision details)"
    if "action \<notin> {''inspect'', ''gather_evidence'', ''propose_policy'', ''apply_policy'', ''verify'',
      ''repair_policy'', ''finalize''}" for agent action reason decision details
    using that by (intro records_emit narratable_other assms) simp
  show ?thesis
  proof (cases n)
    case Load_Service_Context
    then show ?thesis by (auto simp: load_context_def intro!: emits(1-7) other)
  next
    case Inspect_Rbac
    show ?thesis
      unfolding Inspect_Rbac exec_node.simps inspect_def Let_def
      by (intro emits) (simp add: narratable narrated_actions_def assms)
  next
    case Gather_Evidence
    show ?thesis
      unfolding Gather_Evidence exec_node.simps gather_def
      by (intro emits) (simp add: narratable narrated_actions_def assms)
  next
    case Generate_Candidate
    show ?thesis
      unfolding Generate_Candidate exec_node.simps generate_def Let_def
      by (intro emits) (simp add: narratable narrated_actions_def assms returns_then)
  next
    case Validate_Candidate
    then show ?thesis by (auto simp: validate_def intro!: emits(1-7) other)
  next
    case Apply_Candidate
    show ?thesis
      unfolding Apply_Candidate exec_node.simps apply_candidate_def
      by (intro emits) (simp add: narratable narrated_actions_def assms)
  next
    case Verify
    show ?thesis
      unfolding Verify exec_node.simps verify_def Let_def
      by (intro emits records_if)
        (auto simp: narratable assms real_denial_event intro!: returns_then returns_print_results)
  next
    case Check_More_Reductions
    then show ?thesis by (auto simp: check_more_def intro!: emits(1-7) other)
  next
    case Final_Verify
    then show ?thesis by (auto simp: final_verify_def intro!: emits(1-7) other)
  next
    case Diagnose_Failure
    then show ?thesis by (auto simp: diagnose_def intro!: emits(1-7) other)
  next
    case Repair_Policy
    show ?thesis
      unfolding Repair_Policy exec_node.simps repair_def
      by (intro emits) (auto simp: narratable assms split: sum.split intro!: emits)
  next
    case Restore_Last_Known_Good
    then show ?thesis by (auto simp: restore_def intro!: emits(1-7) other)
  next
    case Human_Review
    then show ?thesis by (auto simp: human_review_def intro!: emits(1-7) other)
  next
    case Finalize_Workload
    show ?thesis
      unfolding Finalize_Workload exec_node.simps finalize_def
      by (intro emits) (simp add: narratable narrated_actions_def assms)
  next
    case Publish_Result_Event
    then show ?thesis by (auto simp: publish_result_def intro!: emits(1-7) other)
  qed
qed

lemma records_run:
  assumes "prints p"
  shows "records (narratable p) (run_nodes cfg k n st)"
proof (induction k arbitrary: n st)
  case 0
  then show ?case by simp
next
  case (Suc k)
  then show ?case
    by (auto intro!: records_seq records_node assms records_lift split: option.split)
qed

section \<open>Properties\<close>

text \<open>Narration does not end a run. However a run of the workload graph ends, both presenters
  narrate every event it recorded without raising, on any console that prints what it is given: the
  details they read are there, with the types they need.\<close>

theorem run_is_narrated:
  assumes "prints p" and "run_nodes cfg k n st (w, []) = (x, (w', evs))" and "ev \<in> set evs"
  shows "returns (handle_event p ev) \<and> returns (graph_event p ev)"
proof -
  have "list_all (narratable p) (snd (snd (run_nodes cfg k n st (w, []))))"
    using records_run [OF assms(1), of cfg k n st] unfolding records_def
    by (metis list.pred_inject(1) snd_conv)
  with assms(2,3) show ?thesis by (auto simp: list_all_iff narratable_def)
qed

definition diagnosis_line :: "string \<Rightarrow> string \<Rightarrow> string \<Rightarrow> string" where
  "diagnosis_line env_text source answer =
     ''[cyan]'' @ remove_prefix ''kubernetes:kind-kuber/kuber-sandbox:'' env_text @
     ''[/cyan] [bold]DIAGNOSE_FAILURE[/bold] ('' @ source @ '')'' @ dash @ answer"

text \<open>C31: The language model's answer is printed as markup. With the live presenter attached to the
  graph, the diagnosis of a failed test prints the model's answer unescaped, so an answer that the
  console cannot render as markup raises out of the graph: the run ends with that error instead of
  trying the repair, although the answer has no part in the decision.\<close>

theorem answer_markup_ends_run:
  assumes "gc_sink cfg = graph_event p" and "gc_provider cfg = Some lp"
    and "ws_failure_details st = Some (Some f)"
    and "lp_complete lp (failure_prompt f) w = (Inr answer, w1)" and "py_strip answer \<noteq> ''''"
    and "pp_print p (Markup (diagnosis_line (env_name (gc_env cfg)) (lp_type_name lp) (py_strip answer))) w1 =
      (Inl err, w2)"
  shows "\<exists>evs'. run_nodes cfg (Suc k) Diagnose_Failure st (w, evs) = (Inl err, (w2, evs'))"
proof -
  have upper: "upper_text ''diagnose_failure'' = ''DIAGNOSE_FAILURE''" by code_simp
  show ?thesis
    using assms
    by (auto simp: diagnose_def failure_of_def need_def on_env_def explain_op_def
        explain_with_source_def Let_def emit_def record_event_def graph_event_def event_prefix_def
        diagnosis_line_def upper seq_def ret_def)
qed

text \<open>A rejected run is narrated as accepted. When a run ends without acceptance, the event of its
  finalisation says reject, and the judge's presenter shows it as ACCEPT.\<close>

theorem rejected_run_shown_as_accepted:
  assumes "exec_node cfg Finalize_Workload st (w, evs) = (Inr st', (w', evs'))" and "\<not> ws_accepted st"
  shows "\<exists>ev permissions risk. evs' = evs @ [ev] \<and> te_decision ev = Some ''reject'' \<and>
    handle_event p ev = pp_print p (Panel (Markup (''[bold green]ACCEPT[/bold green] '' @ permissions @
      '' permissions, risk '' @ risk @ ''/100'')) ''Finalize'' ''green'')"
proof -
  obtain P where P: "ws_current_policy st = Some P"
    using assms(1) by (cases "ws_current_policy st") (auto simp: finalize_def need_def seq_def throw_def)
  let ?ev = "\<lparr>te_run_id = ws_run_id st, te_environment = env_name (gc_env cfg), te_agent = ''orchestrator'',
    te_action = ''finalize'', te_reason = ''last-known-good policy retained'', te_decision = Some ''reject'',
    te_retry_count = ws_retry_count st,
    te_details = [(''permissions'', pnat (effective_permission_count P)),
             (''risk'', PInt (ra_score (score_policy P))),
             (''final_permissions'', PList (map (\<lambda>p. PStr (perm_display p)) (pl_permissions P)))],
    te_timestamp = gc_now cfg w\<rparr>"
  have "evs' = evs @ [?ev]"
    using assms P by (auto simp: finalize_def need_def op_simps emit_def record_event_def split: prod.splits)
  moreover have "\<exists>permissions risk. handle_event p ?ev = pp_print p (Panel (Markup
      (''[bold green]ACCEPT[/bold green] '' @ permissions @ '' permissions, risk '' @ risk @ ''/100''))
      ''Finalize'' ''green'')"
    unfolding handle_event_def Let_def show_finalize_def text_of_def by (simp del: append.simps) blast
  ultimately show ?thesis by (intro exI [of _ ?ev]) simp
qed

section \<open>Witnesses\<close>

definition strict_presenter :: "'w presenter_ports" where
  "strict_presenter =
     \<lparr>pp_print = \<lambda>x w. (case x of
          Markup s \<Rightarrow> if contains ''[/oops]'' s then (Inl (OtherError ''MarkupError''), w) else (Inr (), w)
        | _ \<Rightarrow> (Inr (), w)),
      pp_escape = \<lambda>s. s, pp_fixed1 = \<lambda>r. '''', pp_fixed4 = \<lambda>r. ''''\<rparr>"

definition plain_presenter :: "'w presenter_ports" where
  "plain_presenter =
     \<lparr>pp_print = \<lambda>x w. (Inr (), w), pp_escape = \<lambda>s. s, pp_fixed1 = \<lambda>r. '''', pp_fixed4 = \<lambda>r. ''''\<rparr>"

theorem run_is_narrated_witness:
  "\<exists>ev x w'. run_nodes sample_graph 1 Load_Service_Context fresh_thread (new_simulator sample_case, []) =
      (x, (w', [ev])) \<and> returns (handle_event (plain_presenter :: simulator presenter_ports) ev)"
proof -
  have prints: "prints (plain_presenter :: simulator presenter_ports)"
    by (simp add: prints_def plain_presenter_def returns_def)
  obtain x w' ev where run: "run_nodes sample_graph 1 Load_Service_Context fresh_thread
      (new_simulator sample_case, []) = (x, (w', [ev]))"
    by (simp add: load_context_def seq_def emit_def record_event_def simulator_graph_def ret_def
        lift_result_def throw_def)
  from run_is_narrated [OF prints run, of ev] run show ?thesis by auto
qed

definition failed_state :: workload_state where
  "failed_state = fresh_thread\<lparr>ws_failure_details := Some (Some
     \<lparr>fd_summary = ''denied'', fd_missing_events = [get_configmaps], fd_authorization_denial = True\<rparr>)\<rparr>"

theorem answer_markup_ends_run_witness:
  "\<exists>evs'. run_nodes (sample_graph\<lparr>gc_sink := graph_event strict_presenter, gc_provider := Some
        \<lparr>lp_type_name = ''Gemini'', lp_complete = \<lambda>prompt w. (Inr ''See [/oops]'', w)\<rparr>\<rparr>)
      (Suc 0) Diagnose_Failure failed_state (new_simulator sample_case, []) =
    (Inl (OtherError ''MarkupError''), (new_simulator sample_case, evs'))"
proof -
  have "contains ''[/oops]'' (diagnosis_line (env_name (gc_env sample_graph)) ''Gemini'' (py_strip ''See [/oops]''))"
    by code_simp
  then show ?thesis
    by (intro answer_markup_ends_run)
      (auto simp: failed_state_def strict_presenter_def simulator_graph_def, code_simp+)
qed

theorem rejected_run_shown_as_accepted_witness:
  "\<exists>ev. te_decision ev = Some ''reject'' \<and>
     (\<exists>text. handle_event (plain_presenter :: simulator presenter_ports) ev =
        pp_print plain_presenter (Panel (Markup (''[bold green]ACCEPT[/bold green] '' @ text)) ''Finalize'' ''green''))"
proof -
  obtain st' w' evs' where "exec_node sample_graph Finalize_Workload
      (fresh_thread\<lparr>ws_current_policy := Some narrow_policy\<rparr>) (new_simulator sample_case, []) = (Inr st', (w', evs'))"
    by (simp add: finalize_def need_def seq_def ret_def emit_def record_event_def simulator_graph_def)
  from rejected_run_shown_as_accepted [OF this, of plain_presenter] show ?thesis
    by (fastforce simp: fresh_thread_def)
qed

end
