(* ===== verification/Narrated_Evaluation.thy ===== *)
theory Narrated_Evaluation
  imports Reports Narration
begin

text \<open>
  The evaluation run with its narration (\<open>run_evaluation\<close> of \<open>judge_layer/evaluation/runner.py\<close>, and the
  command \<open>evaluate\<close>). The world of a narrated run is the simulator beside the console; the run of the
  benchmarks is an operation on the console and on what has been written. On a console that prints
  what it is given the narration has no influence: the output is that of the silent run.
\<close>

section \<open>The narrated run of a case\<close>

record 'k narrated = simulator +
  nr_console :: 'k

definition on_console :: "('k, 'a) op \<Rightarrow> ('k narrated, 'a) op" where
  "on_console m w = (case m (nr_console w) of (r, k) \<Rightarrow> (r, w\<lparr>nr_console := k\<rparr>))"

definition narrated_graph ::
  "'k presenter_ports \<Rightarrow> string \<Rightarrow> benchmark_case \<Rightarrow> nat \<Rightarrow> nat \<Rightarrow> 'k narrated graph_config" where
  "narrated_graph p elapsed c max_repair limit =
     (simulator_graph elapsed c max_repair limit)\<lparr>gc_sink := (\<lambda>ev. on_console (handle_event p ev))\<rparr>"

definition narrated_start :: "benchmark_case \<Rightarrow> 'k \<Rightarrow> 'k narrated" where
  "narrated_start c k =
     \<lparr>sm_original_policy = bc_initial_policy c, sm_current_policy = bc_initial_policy c, nr_console = k\<rparr>"

definition kuber_contest ::
  "'w graph_config \<Rightarrow> string \<Rightarrow> workload_state \<Rightarrow> rat \<Rightarrow> benchmark_case \<Rightarrow> ('w, policy \<times> system_case_metrics) op" where
  "kuber_contest cfg uuid prior runtime c =
     seq (orchestrator_run cfg uuid (Some (''evaluation-'' @ bc_identifier c)) prior) (\<lambda>result.
     ret (kr_final_policy result,
          metrics (bc_initial_policy c) (kr_final_policy result)
            (vr_passed (kr_verification result) \<and> kr_accepted result) runtime
            (int (kr_incorrect_removals result)) (int (kr_repair_iterations result))))"

definition narrated_kuber ::
  "'k presenter_ports \<Rightarrow> string \<Rightarrow> nat \<Rightarrow> nat \<Rightarrow> string \<Rightarrow> workload_state \<Rightarrow> rat \<Rightarrow> benchmark_case \<Rightarrow>
   ('k, policy \<times> system_case_metrics) op" where
  "narrated_kuber p elapsed max_repair limit uuid prior runtime c k =
     (case kuber_contest (narrated_graph p elapsed c max_repair limit) uuid prior runtime c (narrated_start c k) of
        (r, w) \<Rightarrow> (r, nr_console w))"

section \<open>The narrated run of the benchmarks\<close>

text \<open>The console, what has been printed on the standard output, and the artifacts that have been written.\<close>

record 'k evaluating =
  ev_console :: 'k
  ev_stdout :: "string list"
  ev_artifacts :: "evaluation_output option"

definition on_terminal :: "('k, 'a) op \<Rightarrow> ('k evaluating, 'a) op" where
  "on_terminal m s = (case m (ev_console s) of (r, k) \<Rightarrow> (r, s\<lparr>ev_console := k\<rparr>))"

text \<open>\<open>if presenter is not None\<close>.\<close>

definition narrate ::
  "'k presenter_ports option \<Rightarrow> ('k presenter_ports \<Rightarrow> ('k, unit) op) \<Rightarrow> ('k evaluating, unit) op" where
  "narrate pp f = (case pp of None \<Rightarrow> ret () | Some p \<Rightarrow> on_terminal (f p))"

record evaluation_roots =
  er_benchmarks :: string
  er_artifacts :: string
  er_trajectories :: string

definition trajectory_file :: "evaluation_roots \<Rightarrow> benchmark_case \<Rightarrow> string" where
  "trajectory_file roots c =
     in_directory (er_trajectories roots) (''evaluation-'' @ bc_identifier c @ ''.jsonl'')"

definition narrated_system_path ::
  "evaluation_ports \<Rightarrow> 'k presenter_ports option \<Rightarrow> nat \<Rightarrow> nat \<Rightarrow> string \<Rightarrow> ('k evaluating, case_row) op" where
  "narrated_system_path ep pp index case_count path =
     seq (lift_result (load_system_benchmark (ep_float_int ep) (ep_files ep) path (ep_root ep))) (\<lambda>benchmark.
     seq (narrate pp (\<lambda>p. system_case_started p index case_count benchmark)) (\<lambda>_.
     seq (lift_result (evaluate_system_baseline (ep_elapsed ep) (ep_runtime ep) (sb_cases benchmark))) (\<lambda>baseline.
     seq (lift_result (ep_system_kuber ep benchmark)) (\<lambda>kuber.
     seq (narrate pp (\<lambda>p. system_case_finished p baseline kuber)) (\<lambda>_.
     ret \<lparr>cw_id = sb_identifier benchmark, cw_name = sb_name benchmark, cw_baseline = baseline,
          cw_kuber = kuber\<rparr>)))))"

definition contest ::
  "evaluation_ports \<Rightarrow> 'k presenter_ports option \<Rightarrow> benchmark_case \<Rightarrow>
   ('k evaluating, policy \<times> system_case_metrics) op" where
  "contest ep pp c =
     (case pp of
        None \<Rightarrow> lift_result (evaluate_kuber (simulator_graph (ep_elapsed ep) c (ep_max_repair ep) (ep_limit ep))
                  (ep_uuid ep) (ep_prior ep) (ep_kuber_runtime ep) c)
      | Some p \<Rightarrow> on_terminal (narrated_kuber p (ep_elapsed ep) (ep_max_repair ep) (ep_limit ep)
                  (ep_uuid ep) (ep_prior ep) (ep_kuber_runtime ep) c))"

definition narrated_case_path ::
  "evaluation_ports \<Rightarrow> 'k presenter_ports option \<Rightarrow> evaluation_roots \<Rightarrow> nat \<Rightarrow> nat \<Rightarrow> string \<Rightarrow>
   ('k evaluating, case_row) op" where
  "narrated_case_path ep pp roots index case_count path =
     seq (lift_result (load_benchmark (ep_files ep) path)) (\<lambda>c.
     seq (narrate pp (\<lambda>p. case_started p index case_count path c)) (\<lambda>_.
     seq (lift_result (evaluate_baseline (ep_elapsed ep) (ep_runtime ep) c)) (\<lambda>baseline.
     seq (narrate pp (\<lambda>p. show_baseline p c (fst baseline) (snd baseline))) (\<lambda>_.
     seq (narrate pp agent_started) (\<lambda>_.
     seq (contest ep pp c) (\<lambda>kuber.
     seq (narrate pp (\<lambda>p. case_finished p (snd kuber) (fst kuber) (trajectory_file roots c))) (\<lambda>_.
     ret \<lparr>cw_id = bc_identifier c, cw_name = bc_name c, cw_baseline = snd baseline,
          cw_kuber = snd kuber\<rparr>)))))))"

definition narrated_path ::
  "evaluation_ports \<Rightarrow> 'k presenter_ports option \<Rightarrow> evaluation_roots \<Rightarrow> nat \<Rightarrow> nat \<times> string \<Rightarrow>
   ('k evaluating, case_row) op" where
  "narrated_path ep pp roots case_count entry =
     (if bf_exists (ep_files ep) (in_directory (snd entry) ''system.yaml'')
      then narrated_system_path ep pp (fst entry) case_count (snd entry)
      else narrated_case_path ep pp roots (fst entry) case_count (snd entry))"

definition write_artifacts :: "evaluation_output \<Rightarrow> ('k evaluating, unit) op" where
  "write_artifacts out s = (Inr (), s\<lparr>ev_artifacts := Some out\<rparr>)"

definition print_line :: "string \<Rightarrow> ('k evaluating, unit) op" where
  "print_line x s = (Inr (), s\<lparr>ev_stdout := ev_stdout s @ [x]\<rparr>)"

definition finish_evaluation ::
  "'k presenter_ports option \<Rightarrow> evaluation_roots \<Rightarrow> evaluation_output \<Rightarrow> ('k evaluating, unit) op" where
  "finish_evaluation pp roots out =
     (case pp of
        None \<Rightarrow> print_line (eo_console out)
      | Some p \<Rightarrow> on_terminal (judge_finish p (eo_console out) (er_artifacts roots)))"

definition narrated_evaluation ::
  "evaluation_ports \<Rightarrow> 'k presenter_ports option \<Rightarrow> evaluation_roots \<Rightarrow> string list \<Rightarrow>
   ('k evaluating, evaluation_output) op" where
  "narrated_evaluation ep pp roots paths =
     (if length paths < 12 then throw (too_few_cases paths)
      else
        seq (narrate pp (\<lambda>p. judge_start p (length paths) (er_benchmarks roots))) (\<lambda>_.
        seq (each (narrated_path ep pp roots (length paths)) (List.enumerate 1 paths)) (\<lambda>rows.
        let out = output_of ep rows in
        seq (write_artifacts out) (\<lambda>_.
        seq (finish_evaluation pp roots out) (\<lambda>_.
        ret out)))))"

definition evaluate_command ::
  "evaluation_ports \<Rightarrow> 'k presenter_ports \<Rightarrow> evaluation_roots \<Rightarrow> string list \<Rightarrow> bool \<Rightarrow> ('k evaluating, unit) op" where
  "evaluate_command ep p roots paths summary_only =
     seq (narrated_evaluation ep (if summary_only then None else Some p) roots paths) (\<lambda>_. ret ())"

section \<open>A narrated run is the run\<close>

text \<open>\<open>m\<close> on the simulator beside the console does what \<open>m'\<close> does on the simulator, provided that the
  events \<open>m'\<close> records can be narrated.\<close>

definition shadows :: "(trajectory_event \<Rightarrow> bool) \<Rightarrow> ('k narrated run, 'a) op \<Rightarrow> (simulator run, 'a) op \<Rightarrow> bool" where
  "shadows Q m m' \<longleftrightarrow>
     (\<forall>w evs x u out. m' (simulator.truncate w, evs) = (x, (u, out)) \<longrightarrow>
        (\<exists>new. out = evs @ new \<and>
           (list_all Q new \<longrightarrow> (\<exists>w'. m (w, evs) = (x, (w', out)) \<and> simulator.truncate w' = u))))"

lemma shadowsI:
  assumes "\<And>w evs x u out. m' (simulator.truncate w, evs) = (x, (u, out)) \<Longrightarrow>
    \<exists>new. out = evs @ new \<and> (list_all Q new \<longrightarrow> (\<exists>w'. m (w, evs) = (x, (w', out)) \<and> simulator.truncate w' = u))"
  shows "shadows Q m m'"
  using assms unfolding shadows_def by blast

lemma shadowsE:
  assumes "shadows Q m m'" and "m' (simulator.truncate w, evs) = (x, (u, out))"
  obtains new where "out = evs @ new"
    and "list_all Q new \<longrightarrow> (\<exists>w'. m (w, evs) = (x, (w', out)) \<and> simulator.truncate w' = u)"
  using assms unfolding shadows_def by blast

lemma shadows_seq:
  fixes m :: "('k narrated run, 'a) op"
  assumes "shadows Q m m'" and "\<And>x. shadows Q (f x) (f' x)"
  shows "shadows Q (seq m f) (seq m' f')"
proof (rule shadowsI)
  fix w :: "'k narrated" and evs x u out
  assume run: "seq m' f' (simulator.truncate w, evs) = (x, (u, out))"
  obtain y u1 log1 where m': "m' (simulator.truncate w, evs) = (y, (u1, log1))" by (metis prod.collapse)
  from assms(1) m' obtain new1 where new1: "log1 = evs @ new1"
    and sim1: "list_all Q new1 \<longrightarrow> (\<exists>w'. m (w, evs) = (y, (w', log1)) \<and> simulator.truncate w' = u1)"
    by (rule shadowsE)
  show "\<exists>new. out = evs @ new \<and> (list_all Q new \<longrightarrow>
      (\<exists>w'. seq m f (w, evs) = (x, (w', out)) \<and> simulator.truncate w' = u))"
  proof (cases y)
    case (Inl err)
    with run m' new1 sim1 show ?thesis by (auto simp: seq_def)
  next
    case (Inr z)
    have rest: "f' z (u1, log1) = (x, (u, out))" using run m' Inr by (simp add: seq_def)
    have u1: "simulator.truncate (simulator.extend u1 (narrated.fields (nr_console w))) = u1"
      by (simp add: simulator.truncate_def simulator.extend_def)
    have "f' z (simulator.truncate (simulator.extend u1 (narrated.fields (nr_console w))), log1) = (x, (u, out))"
      by (simp only: u1 rest)
    with assms(2) obtain new2 where new2: "out = log1 @ new2" by (rule shadowsE)
    have "\<exists>w'. seq m f (w, evs) = (x, (w', out)) \<and> simulator.truncate w' = u"
      if "list_all Q (new1 @ new2)"
    proof -
      from sim1 that obtain w1 where w1: "m (w, evs) = (y, (w1, log1))" "simulator.truncate w1 = u1" by auto
      have "f' z (simulator.truncate w1, log1) = (x, (u, out))" using rest w1(2) by simp
      with assms(2) obtain new3 where "out = log1 @ new3"
        and "list_all Q new3 \<longrightarrow> (\<exists>w'. f z (w1, log1) = (x, (w', out)) \<and> simulator.truncate w' = u)"
        by (rule shadowsE)
      with new2 that w1(1) Inr show ?thesis by (auto simp: seq_def)
    qed
    with new1 new2 show ?thesis by simp
  qed
qed

lemma shadows_simple:
  "shadows Q (ret x) (ret x)" "shadows Q (throw err) (throw err)" "shadows Q (lift_result r) (lift_result r)"
  "shadows Q (need key y) (need key y)" "shadows Q (failure_of st) (failure_of st)"
  by (auto simp: shadows_def ret_def throw_def lift_result_def need_def failure_of_def seq_def split: option.splits)

lemma shadows_explain: "shadows Q (on_env (explain_op None f)) (on_env (explain_op None f))"
  by (auto simp: shadows_def on_env_def explain_op_def explain_with_source_def)

lemma shadows_on_env:
  fixes m :: "('k narrated, 'a) op"
  assumes "\<And>w. \<exists>w'. m w = (fst (m' (simulator.truncate w)), w') \<and>
    simulator.truncate w' = snd (m' (simulator.truncate w))"
  shows "shadows Q (on_env m) (on_env m')"
proof (rule shadowsI)
  fix w :: "'k narrated" and evs x u out
  assume "on_env m' (simulator.truncate w, evs) = (x, (u, out))"
  with assms [of w] show "\<exists>new. out = evs @ new \<and> (list_all Q new \<longrightarrow>
      (\<exists>w'. on_env m (w, evs) = (x, (w', out)) \<and> simulator.truncate w' = u))"
    by (auto simp: on_env_def split: prod.splits)
qed

lemma shadows_simulator:
  "shadows Q (on_env (env_get_current_policy (simulator_adapter elapsed c)))
     (on_env (env_get_current_policy (simulator_adapter elapsed c)))"
  "shadows Q (on_env (env_get_observed_usage (simulator_adapter elapsed c)))
     (on_env (env_get_observed_usage (simulator_adapter elapsed c)))"
  "shadows Q (on_env (env_apply_policy (simulator_adapter elapsed c) P))
     (on_env (env_apply_policy (simulator_adapter elapsed c) P))"
  "shadows Q (on_env (env_verify_workload (simulator_adapter elapsed c)))
     (on_env (env_verify_workload (simulator_adapter elapsed c)))"
  "shadows Q (on_env (env_restore_policy (simulator_adapter elapsed c)))
     (on_env (env_restore_policy (simulator_adapter elapsed c)))"
  "shadows Q (on_env (env_describe_failure (simulator_adapter elapsed c) result))
     (on_env (env_describe_failure (simulator_adapter elapsed c) result))"
  by (rule shadows_on_env; simp add: simulator_adapter_def simulator_apply_def simulator_verify_def
      simulator_restore_def simulator_describe_def simulator.truncate_def Let_def split: prod.split)+

lemma console_returns:
  assumes "returns m"
  shows "\<exists>w'. on_console m w = (Inr (), w') \<and> simulator.truncate w' = simulator.truncate w"
proof -
  from assms obtain k where "m (nr_console w) = (Inr (), k)" unfolding returns_def by (metis old.unit.exhaust)
  then show ?thesis by (simp add: on_console_def simulator.truncate_def)
qed

lemma shadows_emit:
  fixes p :: "'k presenter_ports"
  assumes "\<And>ev. Q ev \<Longrightarrow> returns (handle_event p ev)"
  shows "shadows Q (emit (narrated_graph p elapsed c m l) st agent action reason decision details)
    (emit (simulator_graph elapsed c m l) st agent action reason decision details)"
proof (rule shadowsI)
  fix w :: "'k narrated" and evs x u out
  let ?ev = "\<lparr>te_run_id = ws_run_id st, te_environment = ''simulator:'' @ bc_identifier c, te_agent = agent,
        te_action = action, te_reason = reason, te_decision = decision,
        te_retry_count = ws_retry_count st, te_details = details,
        te_timestamp = ''1970-01-01T00:00:00+00:00''\<rparr>"
  assume "emit (simulator_graph elapsed c m l) st agent action reason decision details
    (simulator.truncate w, evs) = (x, (u, out))"
  then have silent: "x = Inr ()" "u = simulator.truncate w" "out = evs @ [?ev]"
    by (auto simp: emit_def record_event_def simulator_graph_def simulator_adapter_def ret_def)
  have "\<exists>w'. emit (narrated_graph p elapsed c m l) st agent action reason decision details (w, evs) =
      (x, (w', out)) \<and> simulator.truncate w' = u" if "Q ?ev"
    using console_returns [OF assms [OF that], of w] silent
    by (auto simp: emit_def record_event_def narrated_graph_def simulator_graph_def simulator_adapter_def)
  with silent(3) show "\<exists>new. out = evs @ new \<and> (list_all Q new \<longrightarrow>
      (\<exists>w'. emit (narrated_graph p elapsed c m l) st agent action reason decision details (w, evs) =
        (x, (w', out)) \<and> simulator.truncate w' = u))"
    by auto
qed

lemma narrated_graph_sel [simp]:
  "gc_env (narrated_graph p elapsed c m l) = simulator_adapter elapsed c"
  "gc_max_repair_iterations (narrated_graph p elapsed c m l) = m"
  "gc_provider (narrated_graph p elapsed c m l) = None"
  "gc_limit (narrated_graph p elapsed c m l) = l"
  "gc_summary (narrated_graph p elapsed c m l) = (\<lambda>_. ret None)"
  by (simp_all add: narrated_graph_def simulator_graph_def)

lemma shadows_node:
  assumes "\<And>ev. Q ev \<Longrightarrow> returns (handle_event p ev)"
  shows "shadows Q (exec_node (narrated_graph p elapsed c m l) n st) (exec_node (simulator_graph elapsed c m l) n st)"
  by (cases n)
    (simp_all add: load_context_def inspect_def gather_def generate_def validate_def apply_candidate_def
      verify_def check_more_def final_verify_def repair_def restore_def diagnose_def human_review_def
      finalize_def publish_result_def Let_def shadows_seq shadows_simple shadows_explain shadows_simulator
      shadows_emit [OF assms] del: simulator_adapter_sel split: sum.split)

lemma shadows_run_nodes:
  assumes "\<And>ev. Q ev \<Longrightarrow> returns (handle_event p ev)"
  shows "shadows Q (run_nodes (narrated_graph p elapsed c m l) k n st) (run_nodes (simulator_graph elapsed c m l) k n st)"
proof (induction k arbitrary: n st)
  case 0
  show ?case by (simp add: shadows_simple)
next
  case (Suc k)
  have "next_node (narrated_graph p elapsed c m l) n st' = next_node (simulator_graph elapsed c m l :: simulator graph_config) n st'" for st'
    by (cases n) (simp_all add: route_verification_def split: option.split)
  moreover have "shadows Q (case succ of None \<Rightarrow> ret st' | Some j \<Rightarrow> run_nodes (narrated_graph p elapsed c m l) k j st')
      (case succ of None \<Rightarrow> ret st' | Some j \<Rightarrow> run_nodes (simulator_graph elapsed c m l) k j st')" for succ st'
    using Suc by (simp add: shadows_simple split: option.split)
  ultimately show ?case by (simp add: shadows_seq shadows_node [OF assms] shadows_simple)
qed

lemma narrated_run:
  fixes p :: "'k presenter_ports"
  assumes "prints p"
  shows "\<exists>w'. run_workload (narrated_graph p elapsed c m l) rq prior w =
    (fst (run_workload (simulator_graph elapsed c m l) rq prior (simulator.truncate w)), w')"
proof -
  define st where "st = initial_state (''simulator:'' @ bc_identifier c) rq prior"
  let ?last = "\<lambda>final. seq (lift_result (Inr None)) (\<lambda>path. run_result rq path final)"
  let ?silent = "seq (run_nodes (simulator_graph elapsed c m l) l Load_Service_Context st) ?last"
  let ?loud = "seq (run_nodes (narrated_graph p elapsed c m l) l Load_Service_Context st) ?last"
  have wrote: "write_trajectory cfg = lift_result (Inr None)" if "gc_summary cfg = (\<lambda>_. ret None)" for cfg :: "'w graph_config"
    using that by (simp add: write_trajectory_def fun_eq_iff ret_def lift_result_def split: prod.split)
  have res: "shadows Q (run_result rq path final) (run_result rq path final)" for Q path final
    by (simp add: run_result_def shadows_seq shadows_simple)
  have handled: "narratable p ev \<Longrightarrow> returns (handle_event p ev)" for ev
    by (simp add: narratable_def)
  have "shadows (narratable p) ?loud ?silent"
    by (intro shadows_seq shadows_run_nodes handled shadows_simple res)
  obtain x u out where silent: "?silent (simulator.truncate w, []) = (x, (u, out))" by (metis prod.collapse)
  have "records (narratable p) ?silent"
    by (intro records_seq records_run assms) (auto simp: run_result_def intro!: records_seq records_if)
  then have "list_all (narratable p) out"
    using silent unfolding records_def by (metis list.pred_inject(1) snd_conv)
  moreover obtain new where "out = [] @ new" and "list_all (narratable p) new \<longrightarrow>
      (\<exists>w'. ?loud (w, []) = (x, (w', out)) \<and> simulator.truncate w' = u)"
    using \<open>shadows (narratable p) ?loud ?silent\<close> silent by (rule shadowsE)
  ultimately obtain w' where "?loud (w, []) = (x, (w', out))" by auto
  moreover have "initial_state (env_name (gc_env (narrated_graph p elapsed c m l))) rq prior = st"
    "initial_state (env_name (gc_env (simulator_graph elapsed c m l :: simulator graph_config))) rq prior = st"
    by (simp_all add: st_def)
  ultimately show ?thesis
    using silent unfolding run_workload_def by (simp only: wrote narrated_graph_sel simulator_graph_sel) simp
qed

lemma narrated_kuber_result:
  assumes "prints p"
  shows "\<exists>k'. narrated_kuber p elapsed m l uuid prior runtime c k =
    (evaluate_kuber (simulator_graph elapsed c m l) uuid prior runtime c, k')"
proof -
  let ?rq = "\<lparr>rq_run_id = ''evaluation-'' @ bc_identifier c, rq_task_id = None, rq_workload_id = None,
     rq_context_ref = '''', rq_repository_ref = ''''\<rparr>"
  have "simulator.truncate (narrated_start c k) = new_simulator c"
    by (simp add: narrated_start_def new_simulator_def simulator.truncate_def)
  with narrated_run [OF assms, of elapsed c m l ?rq prior "narrated_start c k"] obtain w' where
    "run_workload (narrated_graph p elapsed c m l) ?rq prior (narrated_start c k) =
      (fst (run_workload (simulator_graph elapsed c m l) ?rq prior (new_simulator c)), w')" by auto
  then show ?thesis
    by (cases "run_workload (simulator_graph elapsed c m l) ?rq prior (new_simulator c)")
      (auto simp: narrated_kuber_def kuber_contest_def evaluate_kuber_def orchestrator_run_def seq_def ret_def
        split: sum.splits)
qed

section \<open>The narration of the benchmarks\<close>

text \<open>\<open>m\<close> has the result \<open>r\<close>, whatever the console.\<close>

definition yields :: "('s, 'a) op \<Rightarrow> 'a result \<Rightarrow> bool" where
  "yields m r \<longleftrightarrow> (\<forall>s. \<exists>s'. m s = (r, s'))"

lemma yields_simple [simp, intro]: "yields (lift_result r) r" "yields (ret x) (Inr x)" "yields (throw err) (Inl err)"
  by (auto simp: yields_def lift_result_def ret_def throw_def)

lemma yieldsE:
  assumes "yields m r"
  obtains s' where "m s = (r, s')"
  using assms unfolding yields_def by blast

lemma yields_seq:
  assumes "yields m r" and "\<And>x. yields (f x) (g x)"
  shows "yields (seq m f) (rbind r g)"
  unfolding yields_def
proof
  fix s
  obtain s1 where m: "m s = (r, s1)" using assms(1) by (rule yieldsE)
  show "\<exists>s'. seq m f s = (rbind r g, s')"
  proof (cases r)
    case (Inr x)
    obtain s2 where "f x s1 = (g x, s2)" using assms(2) by (rule yieldsE)
    with m Inr show ?thesis by (simp add: seq_def)
  qed (use m in \<open>simp add: seq_def\<close>)
qed

lemma yields_then: "yields m (Inr ()) \<Longrightarrow> yields (f ()) r \<Longrightarrow> yields (seq m f) r"
  using yields_seq [of m "Inr ()" f "\<lambda>_. r"] by simp

lemma yields_each:
  "(\<And>x. x \<in> set xs \<Longrightarrow> yields (f x) (g x)) \<Longrightarrow> yields (each f xs) (rmap g xs)"
proof (induction xs)
  case (Cons x xs)
  have "yields (seq (f x) (\<lambda>y. seq (each f xs) (\<lambda>ys. ret (y # ys))))
      (rbind (g x) (\<lambda>y. rbind (rmap g xs) (\<lambda>ys. Inr (y # ys))))"
    by (intro yields_seq yields_simple Cons) simp_all
  moreover have "rbind (g x) (\<lambda>y. rbind (rmap g xs) (\<lambda>ys. Inr (y # ys))) = rmap g (x # xs)"
    by (cases "g x"; cases "rmap g xs") simp_all
  ultimately show ?case by simp
qed simp

lemma yields_narrate:
  assumes "\<And>p. pp = Some p \<Longrightarrow> returns (f p)"
  shows "yields (narrate pp f) (Inr ())"
proof (cases pp)
  case (Some p)
  from assms [OF this] show ?thesis
    unfolding Some yields_def narrate_def option.case on_terminal_def returns_def
    by (metis (mono_tags, lifting) case_prod_conv old.unit.exhaust)
qed (simp add: narrate_def)

lemmas judge_prints = judge_start_def case_started_def show_baseline_def agent_started_def
  system_case_started_def system_case_finished_def case_finished_def judge_finish_def

lemma yields_contest:
  assumes "\<And>p. pp = Some p \<Longrightarrow> prints p"
  shows "yields (contest ep pp c) (evaluate_kuber (simulator_graph (ep_elapsed ep) c (ep_max_repair ep) (ep_limit ep))
    (ep_uuid ep) (ep_prior ep) (ep_kuber_runtime ep) c)"
proof (cases pp)
  case (Some p)
  show ?thesis
    unfolding Some contest_def option.case yields_def on_terminal_def
    using narrated_kuber_result [OF assms [OF Some]] by (metis (mono_tags, lifting) case_prod_conv)
qed (simp add: contest_def)

lemma returns_judge_prints:
  assumes "prints p"
  shows "returns (judge_start p n dir)" "returns (case_started p i n path c)" "returns (show_baseline p c P m)"
    "returns (agent_started p)" "returns (system_case_started p i n b)" "returns (system_case_finished p m k)"
    "returns (case_finished p m P path)" "returns (judge_finish p s dir)"
  using assms by (simp_all add: judge_prints Let_def returns_print returns_print_all del: print_all.simps)

lemma narrated_path_result:
  assumes "\<And>p. pp = Some p \<Longrightarrow> prints p"
  shows "yields (narrated_path ep pp roots n entry) (evaluate_path ep (snd entry))"
proof (cases "bf_exists (ep_files ep) (in_directory (snd entry) ''system.yaml'')")
  case True
  have "yields (narrated_system_path ep pp i n path)
      (rbind (load_system_benchmark (ep_float_int ep) (ep_files ep) path (ep_root ep)) (\<lambda>benchmark.
        rbind (evaluate_system_baseline (ep_elapsed ep) (ep_runtime ep) (sb_cases benchmark)) (\<lambda>baseline.
        rbind (ep_system_kuber ep benchmark) (\<lambda>kuber.
        Inr \<lparr>cw_id = sb_identifier benchmark, cw_name = sb_name benchmark, cw_baseline = baseline,
             cw_kuber = kuber\<rparr>))))" for i path
    unfolding narrated_system_path_def
    by (intro yields_seq yields_simple yields_then [OF yields_narrate]) (auto dest: assms intro: returns_judge_prints)
  with True show ?thesis by (simp add: narrated_path_def evaluate_path_def)
next
  case False
  have "yields (narrated_case_path ep pp roots i n path)
      (rbind (load_benchmark (ep_files ep) path) (\<lambda>c.
        rbind (evaluate_baseline (ep_elapsed ep) (ep_runtime ep) c) (\<lambda>baseline.
        rbind (evaluate_kuber (simulator_graph (ep_elapsed ep) c (ep_max_repair ep) (ep_limit ep))
                 (ep_uuid ep) (ep_prior ep) (ep_kuber_runtime ep) c) (\<lambda>kuber.
        Inr \<lparr>cw_id = bc_identifier c, cw_name = bc_name c, cw_baseline = snd baseline,
             cw_kuber = snd kuber\<rparr>))))" for i path
    unfolding narrated_case_path_def
    by (intro yields_seq yields_simple yields_then [OF yields_narrate] yields_contest)
      (auto dest: assms intro: returns_judge_prints)
  with False show ?thesis by (simp add: narrated_path_def evaluate_path_def)
qed

lemma rmap_enumerate: "rmap (\<lambda>e. g (snd e)) (List.enumerate k xs) = rmap g xs"
  by (induction xs arbitrary: k) (simp_all cong: sum.case_cong)

section \<open>What is written\<close>

definition keeps_artifacts :: "('k evaluating, 'a) op \<Rightarrow> bool" where
  "keeps_artifacts m \<longleftrightarrow> (\<forall>s. ev_artifacts (snd (m s)) = ev_artifacts s)"

lemma keeps_simple:
  "keeps_artifacts (ret x)" "keeps_artifacts (throw err)" "keeps_artifacts (lift_result r)"
  "keeps_artifacts (on_terminal m)"
  by (simp_all add: keeps_artifacts_def ret_def throw_def lift_result_def on_terminal_def split: prod.splits)

lemma keeps_narrate: "keeps_artifacts (narrate pp f)"
  by (simp add: narrate_def keeps_simple split: option.split)

lemma keeps_finish: "keeps_artifacts (finish_evaluation pp roots out)"
  by (simp add: finish_evaluation_def keeps_simple split: option.split)
    (simp add: keeps_artifacts_def print_line_def)

lemma finish_result:
  assumes "\<And>p. pp = Some p \<Longrightarrow> prints p"
  shows "yields (finish_evaluation pp roots out) (Inr ())"
proof (cases pp)
  case None
  then show ?thesis by (simp add: finish_evaluation_def yields_def print_line_def)
next
  case (Some p)
  have "yields (narrate pp (\<lambda>p. judge_finish p (eo_console out) (er_artifacts roots))) (Inr ())"
    by (intro yields_narrate returns_judge_prints assms)
  then show ?thesis by (simp add: Some narrate_def finish_evaluation_def)
qed

lemma keeps_contest: "keeps_artifacts (contest ep pp c)"
  by (simp add: contest_def keeps_simple split: option.split)

lemma kept_seq:
  assumes "keeps_artifacts m" and "\<And>x. keeps_artifacts (f x)"
  shows "keeps_artifacts (seq m f)"
  unfolding keeps_artifacts_def
proof
  fix s
  obtain r s1 where m: "m s = (r, s1)" by (cases "m s")
  with assms(1) have "ev_artifacts s1 = ev_artifacts s" unfolding keeps_artifacts_def by (metis snd_conv)
  with m assms(2) show "ev_artifacts (snd (seq m f s)) = ev_artifacts s"
    by (cases r) (simp_all add: seq_def keeps_artifacts_def)
qed

lemma keeps_each: "(\<And>x. keeps_artifacts (f x)) \<Longrightarrow> keeps_artifacts (each f xs)"
  by (induction xs) (simp_all add: kept_seq keeps_simple)

lemmas keeps_artifacts = kept_seq keeps_each keeps_simple keeps_narrate keeps_contest

lemma keeps_path: "keeps_artifacts (narrated_path ep pp roots n entry)"
  by (simp add: narrated_path_def narrated_system_path_def narrated_case_path_def keeps_artifacts)

text \<open>An operation that has the result \<open>r\<close> and leaves the artifacts as they were.\<close>

lemma kept_result:
  assumes "yields m r" and "keeps_artifacts m"
  obtains s' where "m s = (r, s')" and "ev_artifacts s' = ev_artifacts s"
  using assms unfolding yields_def keeps_artifacts_def by (metis snd_conv)

lemma narrated_rows:
  assumes "\<And>p. pp = Some p \<Longrightarrow> prints p"
  shows "yields (each (narrated_path ep pp roots n) (List.enumerate 1 paths)) (rmap (evaluate_path ep) paths)"
proof -
  have "yields (each (narrated_path ep pp roots n) (List.enumerate 1 paths))
      (rmap (\<lambda>e. evaluate_path ep (snd e)) (List.enumerate 1 paths))"
    by (intro yields_each narrated_path_result) (auto dest: assms)
  then show ?thesis by (simp add: rmap_enumerate)
qed

lemma narrated_evaluation_result:
  assumes "\<forall>p. pp = Some p \<longrightarrow> prints p"
  shows "\<exists>s'. narrated_evaluation ep pp roots paths s = (run_evaluation ep paths, s') \<and>
    ev_artifacts s' = (case run_evaluation ep paths of Inl _ \<Rightarrow> ev_artifacts s | Inr out \<Rightarrow> Some out)"
proof (cases "length paths < 12")
  case True
  then show ?thesis by (simp add: narrated_evaluation_def run_evaluation_def throw_def)
next
  case False
  have narrates: "yields (narrate pp f) (Inr ())" if "\<And>p. prints p \<Longrightarrow> returns (f p)" for f
    using assms that by (intro yields_narrate) blast
  let ?first = "narrate pp (\<lambda>p. judge_start p (length paths) (er_benchmarks roots))"
  let ?rows = "each (narrated_path ep pp roots (length paths)) (List.enumerate 1 paths)"
  have "yields ?first (Inr ())" by (rule narrates) (rule returns_judge_prints)
  then obtain s1 where s1: "?first s = (Inr (), s1)" "ev_artifacts s1 = ev_artifacts s"
    by (rule kept_result [OF _ keeps_narrate])
  have "yields ?rows (rmap (evaluate_path ep) paths)" by (rule narrated_rows) (use assms in blast)
  then obtain s2 where s2: "?rows s1 = (rmap (evaluate_path ep) paths, s2)" "ev_artifacts s2 = ev_artifacts s1"
    by (rule kept_result) (intro keeps_each keeps_path)
  show ?thesis
  proof (cases "rmap (evaluate_path ep) paths")
    case (Inl err)
    with False s1 s2 show ?thesis by (simp add: narrated_evaluation_def run_evaluation_def seq_def)
  next
    case (Inr rows)
    let ?last = "finish_evaluation pp roots (output_of ep rows)"
    have "yields ?last (Inr ())" by (rule finish_result) (use assms in blast)
    then obtain s3 where s3: "?last (s2\<lparr>ev_artifacts := Some (output_of ep rows)\<rparr>) = (Inr (), s3)"
      and "ev_artifacts s3 = ev_artifacts (s2\<lparr>ev_artifacts := Some (output_of ep rows)\<rparr>)"
      by (rule kept_result [OF _ keeps_finish])
    with False s1 s2 Inr show ?thesis
      by (simp add: narrated_evaluation_def run_evaluation_def seq_def Let_def write_artifacts_def ret_def)
  qed
qed

end
