(* ===== verification/Evaluation_Properties.thy ===== *)
theory Evaluation_Properties
  imports Judge_Benchmark Gemini_Provider Kubernetes_Worker Narrated_Evaluation Samples
    "HOL-Library.Multiset"
begin

text \<open>
  Properties of the parts around the core: the metrics the judge derives from result events, the
  language model client, the judge's system and its evaluation of a system benchmark, and the
  evaluation command: all three come to a successful end.
\<close>

text \<open>
  Metrics of a system run. If each result event carries the worker's payload for an execution
  whose risks are those of its policies, the metrics computed from the events are the aggregate of
  the metrics computed directly from the executions; no field is missing and none is misread.
\<close>

theorem system_metrics_from_events:
  assumes "list_all2 reports_execution exs events"
  shows "metrics_from_events float_int events runtime =
    Inr (aggregate_metrics (map execution_metrics exs) runtime)"
  using assms by (rule metrics_from_events_eq)

definition narrow_execution :: workload_execution where
  "narrow_execution =
     \<lparr>we_run_id = ''run-1'', we_accepted = True, we_original_policy = sample_policy,
      we_final_policy = narrow_policy, we_original_risk = score_policy sample_policy,
      we_final_risk = score_policy narrow_policy,
      we_verification = \<lparr>vr_passed = True, vr_tests_passed = 1, vr_tests_total = 1,
        vr_denied_events = [], vr_stdout = '''', vr_stderr = '''', vr_duration_seconds = ''0.1''\<rparr>,
      we_repair_iterations = 1, we_incorrect_removals = 1, we_trajectory_path = None\<rparr>"

definition narrow_event :: event_envelope where
  "narrow_event =
     \<lparr>en_event_type = Workload_Optimization_Completed, en_run_id = ''run-1'',
      en_correlation_id = ''run-1'',
      en_payload = result_payload ''run-1:api'' ''api'' ''w1'' narrow_execution ''0.1'',
      en_event_id = ''e1'', en_timestamp = ''t'', en_causation_id = None, en_attempt = 0,
      en_schema_version = ''1''\<rparr>"

theorem system_metrics_from_events_witness:
  "metrics_from_events (\<lambda>_. Inr 0) [narrow_event] 1 =
     Inr (aggregate_metrics [execution_metrics narrow_execution] 1)"
proof -
  have "list_all2 reports_execution [narrow_execution] [narrow_event]"
    by (auto simp: reports_execution_def risks_reported_def narrow_event_def)
      (simp_all add: narrow_execution_def)
  from system_metrics_from_events [OF this] show ?thesis by simp
qed

text \<open>
  C40: Requests to the language model. However the service answers, one completion sends at most
  \<open>max_request_attempts\<close> requests; it leaves alone what requests and sleeps leave alone; and a text
  it returns is never empty.
\<close>

theorem gemini_requests_bounded:
  assumes "\<And>request w. sent (snd (gp_exchange p request w)) = Suc (sent w)"
    and "\<And>d w. sent (gp_sleep p d w) = sent w"
    and "\<And>request w. view (snd (gp_exchange p request w)) = view w"
    and "\<And>d w. view (gp_sleep p d w) = view w"
  shows "sent (snd (gemini_complete p g prompt w)) \<le> sent w + max_request_attempts \<and>
    view (snd (gemini_complete p g prompt w)) = view w \<and>
    fst (gemini_complete p g prompt w) \<noteq> Inr ''''"
proof -
  have "sent (snd (gemini_complete p g prompt w)) \<le> sent w + max_request_attempts"
    using attempts_from_bounded [of sent p "gemini_request g prompt" "[0..<max_request_attempts]" w] assms(1,2)
    by (simp add: gemini_complete_world)
  moreover have "view (snd (gemini_complete p g prompt w)) = view w"
    using gemini_keeps [of view p g, OF assms(3,4)] by (simp add: provider_keeps_def gemini_llm_def)
  moreover have "fst (gemini_complete p g prompt w) \<noteq> Inr ''''"
    by (auto simp: gemini_complete_def dest: decode_answer_nonempty
        split: prod.splits sum.splits option.splits)
  ultimately show ?thesis by blast
qed

text \<open>A service that is always overloaded; the world has a counter of requests, a counter of the
  seconds slept, and a file that neither touches.\<close>

definition busy_service :: "(nat \<times> rat \<times> string) gemini_ports" where
  "busy_service =
     \<lparr>gp_exchange = (\<lambda>request (n, t, f). (Inl (HttpError 503 ''Service Unavailable''), (Suc n, t, f))),
      gp_sleep = (\<lambda>d (n, t, f). (n, t + d, f)), gp_loads = (\<lambda>body. Inl (ProviderError ''JSONDecodeError'' ''''))\<rparr>"

theorem gemini_requests_bounded_witness:
  "let w = snd (gemini_complete busy_service \<lparr>gm_api_key = ''k'', gm_timeout_seconds = 20, gm_model = ''m''\<rparr> ''p''
      (0, 0, ''policy'')) in fst w \<le> 3 \<and> snd (snd w) = ''policy''"
  using gemini_requests_bounded [of fst busy_service "\<lambda>w. snd (snd w)"
      "\<lparr>gm_api_key = ''k'', gm_timeout_seconds = 20, gm_model = ''m''\<rparr>" "''p''" "(0, 0, ''policy'')"]
  by (simp add: busy_service_def max_request_attempts_def Let_def split: prod.splits)

section \<open>The judge comes to an end\<close>

text \<open>
  C3: The judge's run ends well. Over a fresh bus and empty stores, with services that can be indexed
  and whose cases allow what they observe and test, the system discovers, registers, indexes and
  dispatches every service of the namespace, the workers' turns serve every task, and the run
  returns: the system passed, and the results are, in some order, one accepted result for each
  service. In a turn a worker serves one message to its end; which worker takes it is arbitrary.
\<close>

theorem judge_system_passes:
  assumes "judge_ready jc cases (static_discover (jc_services jc) namespace)" and "fresh_start s"
    and "identifier \<noteq> ''''"
  shows "\<exists>r s'. run_system (judge_system jc) prior namespace (Some identifier) uuid s = (Inr r, s') \<and>
    sr_run_id r = identifier \<and> sr_services r = static_discover (jc_services jc) namespace \<and>
    sr_system_passed r \<and> rel_mset (judge_result identifier) (mset (sr_services r)) (mset (sr_results r))"
proof -
  have "(if truthy_opt (Some identifier) then or_empty (Some identifier) else uuid) = identifier"
    using assms(3) by (simp add: or_empty_def)
  moreover have "rel_mset R (mset xs) (mset ys)" if "list_all2 R xs ys"
    for R :: "service_context \<Rightarrow> event_envelope \<Rightarrow> bool" and xs ys
    using that unfolding rel_mset_def by blast
  ultimately show ?thesis using judge_run_returns [OF assms(1) refl assms(2) _ assms(3), of "Some identifier" uuid prior]
    by metis
qed

text \<open>
  C28: The judge's evaluation of a system benchmark succeeds. With a worker at least, cases of different
  names that allow what they observe and test and whose directories can be indexed, the evaluation
  returns metrics, the functional success holds, and the validated risk reduction is the risk
  reduction.
\<close>

theorem system_evaluation_succeeds:
  assumes "benchmark_ready br b"
  shows "\<exists>m. evaluate_system_kuber br b = Inr m \<and> mt_functional_success m \<and>
    mt_validated_risk_reduction m = mt_risk_reduction_percent m"
  using assms by (rule system_evaluation_returns)

text \<open>Two cases of the same contents and two workers that take turns.\<close>

definition sample_benchmark :: system_benchmark where
  "sample_benchmark =
     \<lparr>sb_identifier = ''shop'', sb_name = ''Shop'', sb_description = '''',
      sb_cases = [sample_case, sample_case\<lparr>bc_identifier := ''cart''\<rparr>], sb_workers = 2\<rparr>"

definition sample_run_contexts :: "indexed_context list" where
  "sample_run_contexts =
     map (\<lambda>s. indexed_of sample_tree (\<lambda>_. ''0123456789abcdef0123'') (sample_service\<lparr>sc_service_id := s\<rparr>)
       [''srv'', ''api''] [[''srv'', ''api'', ''main.py'']]) [''demo'', ''cart'']"

definition sample_run :: benchmark_run where
  "sample_run =
     \<lparr>br_tree = sample_tree, br_sha256 = (\<lambda>_. ''0123456789abcdef0123''), br_now = ''1970-01-01 00:00:00'',
      br_draw = sample_draw,
      br_loads = (\<lambda>text. case find (\<lambda>c. json_compact (PDict (indexed_to_dict c)) = text) sample_run_contexts of
         None \<Rightarrow> Inl (ValueError ''not JSON'') | Some c \<Rightarrow> Inr (PDict (indexed_to_dict c))),
      br_float_int = (\<lambda>_. Inl (ValueError ''not a number'')), br_elapsed = ''0.01'', br_runtime = 1,
      br_idle = new_simulator sample_case, br_prior = (\<lambda>_ _. fresh_thread), br_turn = (\<lambda>s. length (co_log s)), br_turns = 2,
      br_messages = 2, br_recursion = 36\<rparr>"

lemma sample_case_files:
  "resolve_files sample_tree 1000000 [''srv'', ''api'']
     [''metadata.yaml'', ''initial-rbac.yaml'', ''observed-events.json'', ''verification-tests.yaml''] =
   Inr [[''srv'', ''api'', ''main.py'']]"
  by (simp add: resolve_files_def candidate_files_def selectable_def sample_tree_def Let_def relative_to_def
      ignored_parts_def)

lemma sample_case_context:
  assumes "case_service sample_benchmark c = Inr x"
  shows "context_of (benchmark_config sample_run sample_benchmark xs) x =
    indexed_of sample_tree (\<lambda>_. ''0123456789abcdef0123'') (sample_service\<lparr>sc_service_id := bc_identifier c\<rparr>)
      [''srv'', ''api''] [[''srv'', ''api'', ''main.py'']]"
    and "service_files (benchmark_config sample_run sample_benchmark xs) x = Inr [[''srv'', ''api'', ''main.py'']]"
proof -
  let ?jc = "benchmark_config sample_run sample_benchmark xs"
  have root: "service_root ?jc x = [''srv'', ''api'']"
    by (simp add: benchmark_config_def sample_run_def sample_tree_def)
  have paths: "sc_important_paths x =
      [''metadata.yaml'', ''initial-rbac.yaml'', ''observed-events.json'', ''verification-tests.yaml'']"
    and x: "sc_service_id x = bc_identifier c" "sc_kubernetes_usage x = []" "sc_dependencies x = []"
    using assms by (auto simp: case_service_def check_context_def)
  show files: "service_files ?jc x = Inr [[''srv'', ''api'', ''main.py'']]"
    unfolding root paths by (simp add: benchmark_config_def sample_run_def sample_case_files)
  show "context_of ?jc x = indexed_of sample_tree (\<lambda>_. ''0123456789abcdef0123'')
      (sample_service\<lparr>sc_service_id := bc_identifier c\<rparr>) [''srv'', ''api''] [[''srv'', ''api'', ''main.py'']]"
    unfolding context_of_def unfolding files unfolding sum.case root
    by (simp add: benchmark_config_def sample_run_def indexed_of_def Let_def x sample_service_def)
qed

lemma sample_texts_differ:
  "json_compact (PDict (indexed_to_dict (sample_run_contexts ! 0))) \<noteq>
   json_compact (PDict (indexed_to_dict (sample_run_contexts ! 1)))"
  by code_simp

lemma sample_decoded:
  assumes "c \<in> set sample_run_contexts"
  shows "br_loads sample_run (json_compact (PDict (indexed_to_dict c))) = Inr (PDict (indexed_to_dict c))"
proof -
  obtain c0 c1 where cs: "sample_run_contexts = [c0, c1]" by (simp add: sample_run_contexts_def)
  from sample_texts_differ have "json_compact (PDict (indexed_to_dict c0)) \<noteq> json_compact (PDict (indexed_to_dict c1))"
    by (simp add: cs)
  with assms show ?thesis by (auto simp: sample_run_def cs)
qed

lemma sample_case_indexable:
  assumes "c \<in> set (sb_cases sample_benchmark)" and "case_service sample_benchmark c = Inr x"
  shows "indexable (benchmark_config sample_run sample_benchmark xs) x"
proof -
  have "context_of (benchmark_config sample_run sample_benchmark xs) x \<in> set sample_run_contexts"
    unfolding sample_case_context(1) [OF assms(2)]
    using assms(1) by (auto simp: sample_run_contexts_def sample_benchmark_def sample_case_def)
  from sample_decoded [OF this] show ?thesis
    unfolding indexable_def sample_case_context [OF assms(2)]
    by (simp add: benchmark_config_def benchmark_memory_def judge_memory_def indexed_of_def Let_def)
qed

lemma sample_benchmark_ready: "benchmark_ready sample_run sample_benchmark"
proof -
  obtain xs where xs: "rmap (case_service sample_benchmark) (sb_cases sample_benchmark) = Inr xs"
    by (simp add: sample_benchmark_def case_service_def check_context_def)
  have "\<forall>x \<in> set xs. indexable (benchmark_config sample_run sample_benchmark xs) x"
    using sample_case_indexable rmap_Inr_set [OF xs] by blast
  moreover have "case_event (sample_case\<lparr>bc_identifier := i\<rparr>) = case_event sample_case" for i
    by (simp add: fun_eq_iff case_event_def tested_event_def)
  then have "\<forall>c \<in> set (sb_cases sample_benchmark). plain_name (bc_identifier c) \<and>
      all_allowed (case_event c) (bc_initial_policy c)"
    using sample_case_allowed by (simp add: sample_benchmark_def plain_name_def) (simp add: sample_case_def)
  moreover have "plain_name (sb_identifier sample_benchmark)" "1 \<le> sb_workers sample_benchmark"
    "distinct (map bc_identifier (sb_cases sample_benchmark))" "length (sb_cases sample_benchmark) \<le> br_messages sample_run"
    "36 \<le> br_recursion sample_run" "2 \<le> br_turns sample_run" "\<forall>k. fst (br_draw sample_run k) \<noteq> ''''"
    by (simp_all add: sample_benchmark_def plain_name_def sample_run_def sample_draw_def sample_case_def)
  ultimately show ?thesis using xs unfolding benchmark_ready_def by blast
qed

theorem judge_system_passes_witness:
  "\<exists>xs r s'. rmap (case_service sample_benchmark) (sb_cases sample_benchmark) = Inr xs \<and>
     run_system (judge_system (benchmark_config sample_run sample_benchmark xs)) fresh_system ''shop''
       (Some ''run-1'') '''' (benchmark_start sample_run \<lparr>eb_partitions = 3, eb_logs = (\<lambda>_. []),
         eb_queues = [], eb_acknowledged = [], eb_closed = False, eb_callbacks = []\<rparr>) = (Inr r, s') \<and>
     map sc_service_id xs = [''demo'', ''cart''] \<and> sr_system_passed r \<and> size (mset (sr_results r)) = 2"
proof -
  obtain xs where xs: "rmap (case_service sample_benchmark) (sb_cases sample_benchmark) = Inr xs"
    and names: "map sc_service_id xs = [''demo'', ''cart'']" "\<forall>x \<in> set xs. sc_namespace x = ''shop''"
    by (simp add: sample_benchmark_def case_service_def check_context_def) (simp add: sample_case_def)
  let ?jc = "benchmark_config sample_run sample_benchmark xs"
  let ?s = "benchmark_start sample_run \<lparr>eb_partitions = 3, eb_logs = (\<lambda>_. []), eb_queues = [],
    eb_acknowledged = [], eb_closed = False, eb_callbacks = []\<rparr>"
  have disc: "static_discover (jc_services ?jc) ''shop'' = xs"
    using names(2) by (simp add: static_discover_def benchmark_config_def)
  have "judge_ready ?jc (case_dict sample_benchmark) xs"
    by (rule benchmark_judge_ready [OF sample_benchmark_ready xs])
  moreover have "fresh_start ?s"
    by (auto simp: fresh_start_def benchmark_start_def new_bus_def intro!: exI [of _ 3])
  ultimately obtain r s' where "run_system (judge_system ?jc) fresh_system ''shop'' (Some ''run-1'') '''' ?s = (Inr r, s')"
    and "sr_services r = xs" "sr_system_passed r"
    and results: "rel_mset (judge_result ''run-1'') (mset (sr_services r)) (mset (sr_results r))"
    using judge_system_passes [of ?jc "case_dict sample_benchmark" "''shop''" ?s "''run-1''" fresh_system "''''"] disc
    by auto
  moreover have "size (mset (sr_results r)) = size (mset xs)"
    using rel_mset_size [OF results] \<open>sr_services r = xs\<close> by simp
  moreover have "length xs = 2" using arg_cong [OF names(1), of length] by simp
  ultimately show ?thesis using xs names by auto
qed

theorem system_evaluation_succeeds_witness:
  "\<exists>m. evaluate_system_kuber sample_run sample_benchmark = Inr m \<and> mt_functional_success m"
  using system_evaluation_succeeds [OF sample_benchmark_ready] by blast

section \<open>The evaluation command\<close>

text \<open>
  C37: The narration of an evaluation changes nothing. With no presenter, as with \<open>--summary-only\<close>, and
  with a presenter on any console that prints what it is given, the run has the result of the silent
  run, an error included, and the artifacts that are written are those of the silent run: none when it
  ends with an error.
\<close>

theorem narration_changes_nothing:
  assumes "\<forall>p. pp = Some p \<longrightarrow> prints p"
  shows "\<exists>s'. narrated_evaluation ep pp roots paths s = (run_evaluation ep paths, s') \<and>
    ev_artifacts s' = (case run_evaluation ep paths of Inl _ \<Rightarrow> ev_artifacts s | Inr out \<Rightarrow> Some out)"
  using assms by (rule narrated_evaluation_result)

text \<open>A directory whose case allows what it observes and tests, or whose system benchmark is ready.\<close>

definition path_ready :: "evaluation_ports \<Rightarrow> benchmark_run \<Rightarrow> string \<Rightarrow> bool" where
  "path_ready ep br path \<longleftrightarrow>
     (if bf_exists (ep_files ep) (in_directory path ''system.yaml'')
      then \<exists>b. load_system_benchmark (ep_float_int ep) (ep_files ep) path (ep_root ep) = Inr b \<and> benchmark_ready br b
      else \<exists>c. load_benchmark (ep_files ep) path = Inr c \<and> all_allowed (case_event c) (bc_initial_policy c))"

text \<open>An evaluation with enough directories, repairs and steps.\<close>

definition evaluation_ready :: "evaluation_ports \<Rightarrow> benchmark_run \<Rightarrow> string list \<Rightarrow> bool" where
  "evaluation_ready ep br paths \<longleftrightarrow>
     12 \<le> length paths \<and> (\<forall>path \<in> set paths. path_ready ep br path) \<and>
     ep_system_kuber ep = evaluate_system_kuber br \<and> 1 \<le> ep_max_repair ep \<and> 11 + 5 * ep_max_repair ep \<le> ep_limit ep"

lemma baseline_returns:
  assumes "all_allowed (case_event c) (bc_initial_policy c)"
  shows "\<exists>b. evaluate_baseline elapsed runtime c = Inr b"
proof -
  obtain C where "observed_only_policy (bc_initial_policy c) (bc_observed_events c) = Inr C"
    using assms observed_only_succeeds_iff unfolding all_allowed_def case_event_def by blast
  moreover obtain v w where "simulator_verify elapsed c ((new_simulator c)\<lparr>sm_current_policy := C\<rparr>) = (Inr v, w)"
    unfolding simulator_verify_Inr by blast
  ultimately show ?thesis
    by (simp add: evaluate_baseline_def run_observed_only_def seq_def ret_def simulator_apply_def)
qed

lemma system_baseline_returns:
  assumes "\<forall>c \<in> set cases. all_allowed (case_event c) (bc_initial_policy c)"
  shows "\<exists>m. evaluate_system_baseline elapsed runtime cases = Inr m"
proof -
  have "\<exists>values. rmap (evaluate_baseline elapsed runtime) cases = Inr values"
    using assms baseline_returns unfolding rmap_total_iff by blast
  then show ?thesis by (auto simp: evaluate_system_baseline_def)
qed

lemma kuber_returns:
  assumes "all_allowed (case_event c) (bc_initial_policy c)" and "1 \<le> m" and "11 + 5 * m \<le> l"
  shows "\<exists>k. evaluate_kuber (simulator_graph elapsed c m l) uuid prior runtime c = Inr k \<and> mt_functional_success (snd k)"
proof -
  let ?rq = "\<lparr>rq_run_id = ''evaluation-'' @ bc_identifier c, rq_task_id = None, rq_workload_id = None,
     rq_context_ref = '''', rq_repository_ref = ''''\<rparr>"
  obtain ex w' where run: "run_workload (simulator_graph elapsed c m l) ?rq prior (new_simulator c) = (Inr ex, w')"
    and accepted: "we_accepted ex"
    using simulator_run_returns [OF assms] .
  have "vr_passed (we_verification ex) = we_accepted ex"
    by (rule simulated.run_outcome(4) [OF run]) (simp add: new_simulator_def)
  with run accepted show ?thesis
    by (auto simp: evaluate_kuber_def orchestrator_run_def seq_def ret_def metrics_def Let_def)
qed

lemma ready_path_succeeds:
  assumes "path_ready ep br path" and "ep_system_kuber ep = evaluate_system_kuber br"
    and "1 \<le> ep_max_repair ep" and "11 + 5 * ep_max_repair ep \<le> ep_limit ep"
  shows "\<exists>row. evaluate_path ep path = Inr row \<and> mt_functional_success (cw_kuber row)"
proof (cases "bf_exists (ep_files ep) (in_directory path ''system.yaml'')")
  case True
  with assms(1) obtain b where b: "load_system_benchmark (ep_float_int ep) (ep_files ep) path (ep_root ep) = Inr b"
    and ready: "benchmark_ready br b"
    by (auto simp: path_ready_def)
  obtain baseline where "evaluate_system_baseline (ep_elapsed ep) (ep_runtime ep) (sb_cases b) = Inr baseline"
    using ready system_baseline_returns unfolding benchmark_ready_def by blast
  with True b assms(2) system_evaluation_returns [OF ready] show ?thesis by (auto simp: evaluate_path_def)
next
  case False
  with assms(1) obtain c where c: "load_benchmark (ep_files ep) path = Inr c"
    and allowed: "all_allowed (case_event c) (bc_initial_policy c)"
    by (auto simp: path_ready_def)
  obtain baseline where baseline: "evaluate_baseline (ep_elapsed ep) (ep_runtime ep) c = Inr baseline"
    using baseline_returns [OF allowed] by blast
  obtain kuber where "evaluate_kuber (simulator_graph (ep_elapsed ep) c (ep_max_repair ep) (ep_limit ep))
      (ep_uuid ep) (ep_prior ep) (ep_kuber_runtime ep) c = Inr kuber" and "mt_functional_success (snd kuber)"
    using kuber_returns [OF allowed assms(3,4)] by blast
  with False c baseline show ?thesis by (simp add: evaluate_path_def)
qed

lemma ready_evaluation_succeeds:
  assumes "evaluation_ready ep br paths"
  shows "\<exists>out. run_evaluation ep paths = Inr out \<and> length (eo_rows out) = length paths \<and>
    es_functional_success_rate (eo_kuber out) = 100"
proof -
  note ready = assms [unfolded evaluation_ready_def]
  then have each: "\<exists>row. evaluate_path ep path = Inr row \<and> mt_functional_success (cw_kuber row)"
    if "path \<in> set paths" for path
    using that ready_path_succeeds by blast
  then obtain rows where rows: "rmap (evaluate_path ep) paths = Inr rows"
    using rmap_total_iff [of "evaluate_path ep" paths] by blast
  have zip: "list_all2 (\<lambda>path row. evaluate_path ep path = Inr row) paths rows"
    using rows by (simp add: rmap_Inr_iff)
  have "list_all mt_functional_success (map cw_kuber rows)"
    unfolding list_all_length length_map
  proof (intro allI impI)
    fix i assume "i < length rows"
    with zip each show "mt_functional_success (map cw_kuber rows ! i)"
      by (auto simp: list_all2_conv_all_nth) (metis Inr_inject nth_mem)
  qed
  moreover have "rows \<noteq> []" "length rows = length paths" using zip ready by (auto simp: list_all2_lengthD dest: list_all2_lengthD)
  ultimately have "es_functional_success_rate (summarize (map cw_kuber rows)) = 100"
    using summarize_rate [of "map cw_kuber rows"] by simp
  with rows ready \<open>length rows = length paths\<close> show ?thesis
    by (auto simp: run_evaluation_def output_of_def Let_def)
qed

text \<open>
  C5: The evaluation command succeeds. On twelve directories or more, each with a case that allows
  what it observes and tests or with a system benchmark the judge can evaluate, and with a repair at
  least and the recursion limit the repairs need, the command returns, with and without narration;
  the artifacts have a row for each directory and a functional success rate of 100 for Kuber.
\<close>

theorem evaluate_command_succeeds:
  assumes "evaluation_ready ep br paths" and "prints p"
  shows "\<exists>s' out. evaluate_command ep p roots paths summary_only s = (Inr (), s') \<and>
    ev_artifacts s' = Some out \<and> length (eo_rows out) = length paths \<and>
    es_functional_success_rate (eo_kuber out) = 100"
proof -
  from ready_evaluation_succeeds [OF assms(1)] obtain out where out: "run_evaluation ep paths = Inr out"
    "length (eo_rows out) = length paths" "es_functional_success_rate (eo_kuber out) = 100" by blast
  have "\<forall>p'. (if summary_only then None else Some p) = Some p' \<longrightarrow> prints p'"
    using assms(2) by (cases summary_only) simp_all
  from narrated_evaluation_result [OF this, of ep roots paths s] out(1) obtain s' where
    "narrated_evaluation ep (if summary_only then None else Some p) roots paths s = (Inr out, s')"
    and "ev_artifacts s' = Some out" by auto
  with out show ?thesis by (simp add: evaluate_command_def seq_def ret_def)
qed

text \<open>Twelve directories of the same contents: one account that may list pods, and does.\<close>

definition pods_rbac :: parsed_rbac where
  "pods_rbac =
     \<lparr>pr_service_accounts = [\<lparr>so_name = ''api'', so_namespace = ''prod''\<rparr>],
      pr_roles = [\<lparr>ro_name = ''reader'', ro_namespace = Some ''prod'',
        ro_rules = [\<lparr>ru_api_groups = [''''], ru_resources = [''pods'', ''secrets''], ru_verbs = [''list''],
          ru_resource_names = []\<rparr>], ro_cluster_role = False\<rparr>],
      pr_bindings = [\<lparr>bo_name = ''reads'', bo_namespace = Some ''prod'', bo_role_name = ''reader'',
        bo_role_kind = ''Role'', bo_subjects = [\<lparr>sr_name = ''api'', sr_namespace = ''prod''\<rparr>],
        bo_cluster_binding = False\<rparr>]\<rparr>"

definition pods_event :: pyval where
  "pods_event = PDict [(''resource'', PStr ''pods''), (''verb'', PStr ''list''), (''namespace'', PStr ''prod'')]"

definition pods_files :: benchmark_files where
  "pods_files =
     \<lparr>bf_yaml = (\<lambda>_. Inr (PDict [(''service_account'', PStr ''api''), (''namespace'', PStr ''prod''),
        (''name'', PStr ''Pods''), (''description'', PStr ''Lists pods''),
        (''tests'', PList [PDict [(''name'', PStr ''smoke''), (''events'', PList [pods_event])]])])),
      bf_read = (\<lambda>_. Inr ''[]''), bf_exists = (\<lambda>_. False), bf_loads = (\<lambda>_. Inr (PList [pods_event])),
      bf_rbac = (\<lambda>_. Inr pods_rbac)\<rparr>"

definition pods_evaluation :: evaluation_ports where
  "pods_evaluation =
     \<lparr>ep_files = pods_files, ep_float_int = (\<lambda>_. Inl (ValueError ''not a number'')), ep_root = ''benchmarks'',
      ep_elapsed = ''0.01'', ep_runtime = 1, ep_kuber_runtime = 2, ep_uuid = '''', ep_max_repair = 5, ep_limit = 36,
      ep_prior = fresh_thread, ep_system_kuber = evaluate_system_kuber sample_run,
      ep_fixed1 = (\<lambda>_. ''0.0''), ep_repr = (\<lambda>_. ''0.0'')\<rparr>"

definition pods_paths :: "string list" where
  "pods_paths = map (\<lambda>i. ''benchmarks/'' @ nat_str i) [0..<12]"

definition pods_roots :: evaluation_roots where
  "pods_roots = \<lparr>er_benchmarks = ''benchmarks'', er_artifacts = ''artifacts'', er_trajectories = ''trajectories''\<rparr>"

lemma pods_ready: "path_ready pods_evaluation br path"
proof -
  let ?call = "sample_call '''' ''pods'' ''list''"
  let ?test = "PDict [(''name'', PStr ''smoke''), (''events'', PList [pods_event])]"
  have event: "read_event pods_event = Inr ?call" by code_simp
  have "read_test ?test = Inr \<lparr>vt_name = ''smoke'', vt_events = [?call]\<rparr>"
    by (simp add: read_test_def text_item_def item_def dget_req_def read_events_of_def py_iter_def event)
  with event obtain c where "load_benchmark pods_files path = Inr c"
    and P: "bc_initial_policy c = resolve_effective_policy pods_rbac \<lparr>sr_name = ''api'', sr_namespace = ''prod''\<rparr>"
    and events: "bc_observed_events c = [?call]" "bc_verification_tests c = [\<lparr>vt_name = ''smoke'', vt_events = [?call]\<rparr>]"
    by (simp add: load_benchmark_def pods_files_def text_item_def item_def dget_req_def read_events_of_def py_iter_def
        expected_policy_def)
  moreover have "is_authorized (resolve_effective_policy pods_rbac \<lparr>sr_name = ''api'', sr_namespace = ''prod''\<rparr>) ?call"
    by code_simp
  moreover have "grantable ?call"
    by (simp add: grantable_def sample_call_def supported_verbs_def is_supported_resource_def supported_resources_def)
  ultimately show ?thesis
    by (auto simp: path_ready_def pods_evaluation_def pods_files_def all_allowed_def case_event_def tested_event_def)
qed

lemma pods_evaluation_ready: "evaluation_ready pods_evaluation sample_run pods_paths"
  using pods_ready by (simp add: evaluation_ready_def) (simp add: pods_paths_def pods_evaluation_def)

lemma plain_prints: "prints plain_presenter"
  by (simp add: plain_presenter_def prints_def returns_def)

theorem evaluate_command_succeeds_witness:
  "\<exists>s' out. evaluate_command pods_evaluation plain_presenter pods_roots pods_paths False
      \<lparr>ev_console = (0 :: nat), ev_stdout = [], ev_artifacts = None\<rparr> = (Inr (), s') \<and>
    ev_artifacts s' = Some out \<and> es_functional_success_rate (eo_kuber out) = 100"
  using evaluate_command_succeeds [OF pods_evaluation_ready plain_prints] by blast

theorem narration_changes_nothing_witness:
  "\<exists>s'. narrated_evaluation pods_evaluation (Some plain_presenter) pods_roots (tl pods_paths)
      \<lparr>ev_console = (0 :: nat), ev_stdout = [], ev_artifacts = None\<rparr> =
      (Inl (RuntimeError ''expected at least 12 benchmark cases, found 11''), s') \<and> ev_artifacts s' = None"
proof -
  have "run_evaluation pods_evaluation (tl pods_paths) =
      Inl (RuntimeError ''expected at least 12 benchmark cases, found 11'')"
    by (simp add: run_evaluation_def too_few_cases_def pods_paths_def) code_simp
  then show ?thesis
    using narration_changes_nothing [of "Some plain_presenter" pods_evaluation pods_roots "tl pods_paths"]
      plain_prints by fastforce
qed

end
