(* ===== verification/Workload_Types.thy ===== *)
theory Workload_Types
  imports Samples
begin

text \<open>
  The typing of the graph state: which keys are present when a node starts. A node whose keys are
  there never fails to read one, and the node that follows finds its own; so a run raises what a
  collaborator raises, a \<open>ValueError\<close> of the rules, or the recursion limit, and never a \<open>KeyError\<close> or
  an \<open>AssertionError\<close> of its own.
\<close>

definition raises_only :: "(py_error \<Rightarrow> bool) \<Rightarrow> ('s, 'a) op \<Rightarrow> bool" where
  "raises_only E m \<longleftrightarrow> (\<forall>s err s'. m s = (Inl err, s') \<longrightarrow> E err)"

lemma raises_onlyD: "raises_only E m \<Longrightarrow> m s = (Inl err, s') \<Longrightarrow> E err"
  by (auto simp: raises_only_def)

lemma raises_only_seq [intro]:
  "raises_only E m \<Longrightarrow> (\<And>x. raises_only E (f x)) \<Longrightarrow> raises_only E (seq m f)"
  by (auto simp: raises_only_def seq_def split: prod.splits sum.splits)

lemma raises_only_simps [simp, intro]:
  "raises_only E (ret x)" "raises_only E (throw err) = E err" "raises_only E (lift_result (Inr x))"
  "raises_only E (lift_result (Inl err)) = E err" "raises_only E (need key (Some x))"
  by (auto simp: raises_only_def ret_def throw_def lift_result_def need_def)

lemma raises_only_need: "x \<noteq> None \<Longrightarrow> raises_only E (need key x)"
  by auto

lemma raises_only_on_env [intro]: "raises_only E m \<Longrightarrow> raises_only E (on_env m)"
  by (auto simp: raises_only_def on_env_def split: prod.splits)

lemma raises_only_explain [simp, intro]: "raises_only E (explain_op provider f)"
  by (auto simp: raises_only_def explain_op_def split: prod.splits)

section \<open>The keys a node finds\<close>

definition has_inspection :: "workload_state \<Rightarrow> bool" where
  "has_inspection st \<longleftrightarrow>
     ws_original_policy st \<noteq> None \<and> ws_current_policy st \<noteq> None \<and>
     ws_last_known_good_policy st \<noteq> None \<and> ws_original_risk st \<noteq> None"

definition has_failure :: "workload_state \<Rightarrow> bool" where
  "has_failure st \<longleftrightarrow> (\<exists>f. ws_failure_details st = Some (Some f))"

definition keys_at :: "node option \<Rightarrow> workload_state \<Rightarrow> bool" where
  "keys_at n st \<longleftrightarrow>
     (case n of
        Some Load_Service_Context \<Rightarrow> True
      | Some Inspect_Rbac \<Rightarrow> True
      | Some Gather_Evidence \<Rightarrow> has_inspection st
      | Some Generate_Candidate \<Rightarrow> has_inspection st \<and> ws_observed_events st \<noteq> None
      | Some Validate_Candidate \<Rightarrow> has_inspection st \<and> ws_candidate_policy st \<noteq> None
      | Some Apply_Candidate \<Rightarrow> has_inspection st \<and> ws_candidate_policy st \<noteq> None
      | Some Verify \<Rightarrow> has_inspection st \<and> ws_candidate_policy st \<noteq> None
      | Some Diagnose_Failure \<Rightarrow> has_inspection st \<and> ws_candidate_policy st \<noteq> None \<and>
          ws_verification_result st \<noteq> None \<and> has_failure st
      | Some Repair_Policy \<Rightarrow> has_inspection st \<and> ws_candidate_policy st \<noteq> None \<and>
          ws_verification_result st \<noteq> None \<and> has_failure st
      | _ \<Rightarrow> has_inspection st \<and> ws_verification_result st \<noteq> None)"

lemma has_update [simp]:
  "has_inspection (st\<lparr>ws_graph_node := g\<rparr>) = has_inspection st"
  "has_inspection (st\<lparr>ws_observed_events := o1\<rparr>) = has_inspection st"
  "has_inspection (st\<lparr>ws_candidate_policy := c\<rparr>) = has_inspection st"
  "has_inspection (st\<lparr>ws_candidate_risk := cr\<rparr>) = has_inspection st"
  "has_inspection (st\<lparr>ws_verification_result := v\<rparr>) = has_inspection st"
  "has_inspection (st\<lparr>ws_failure_details := fd\<rparr>) = has_inspection st"
  "has_inspection (st\<lparr>ws_failure_type := ft\<rparr>) = has_inspection st"
  "has_inspection (st\<lparr>ws_missing_permissions := mp\<rparr>) = has_inspection st"
  "has_inspection (st\<lparr>ws_accepted := a\<rparr>) = has_inspection st"
  "has_inspection (st\<lparr>ws_current_risk := r\<rparr>) = has_inspection st"
  "has_inspection (st\<lparr>ws_retry_count := k\<rparr>) = has_inspection st"
  "has_inspection (st\<lparr>ws_incorrect_removals := k\<rparr>) = has_inspection st"
  "has_inspection (st\<lparr>ws_reductions_attempted := k\<rparr>) = has_inspection st"
  "has_inspection (st\<lparr>ws_reductions_accepted := k\<rparr>) = has_inspection st"
  "has_inspection (st\<lparr>ws_reductions_rejected := k\<rparr>) = has_inspection st"
  "has_inspection st \<Longrightarrow> has_inspection (st\<lparr>ws_current_policy := Some P\<rparr>)"
  "has_failure (st\<lparr>ws_graph_node := g\<rparr>) = has_failure st"
  by (simp_all add: has_inspection_def has_failure_def)

lemma keys_next:
  assumes "keys_at (Some n) st" and "exec_node cfg n st r = (Inr st', r')"
    and "next_node cfg n st' = Inr succ"
  shows "keys_at succ st'"
proof (cases n)
  case Inspect_Rbac
  with assms show ?thesis by (auto dest!: inspect_Inr simp: keys_at_def has_inspection_def)
next
  case Verify
  with assms(2) have "verify cfg st r = (Inr st', r')" by simp
  then show ?thesis
    by (rule verify_Inr)
      (use assms(1,3) Verify in \<open>auto simp: keys_at_def route_verification_def has_failure_def split: if_splits\<close>)
next
  case Repair_Policy
  with assms(2) have "repair cfg st r = (Inr st', r')" by simp
  then show ?thesis
    by (rule repair_Inr)
      (use assms(1,3) Repair_Policy in
        \<open>auto simp: keys_at_def route_repair_def unrecoverable_def repair_accepted_def split: if_splits\<close>)
next
  case Diagnose_Failure
  with assms show ?thesis by (auto dest!: diagnose_Inr simp: keys_at_def)
next
  case Validate_Candidate
  with assms show ?thesis by (auto dest!: validate_Inr simp: keys_at_def)
qed (use assms in \<open>auto dest!: node_Inr simp: keys_at_def\<close>)

section \<open>The errors of a run\<close>

definition collaborators_raise :: "(py_error \<Rightarrow> bool) \<Rightarrow> 'w graph_config \<Rightarrow> bool" where
  "collaborators_raise E cfg \<longleftrightarrow>
     (let env = gc_env cfg in
      raises_only E (env_get_current_policy env) \<and> raises_only E (env_get_observed_usage env) \<and>
      (\<forall>P. raises_only E (env_apply_policy env P)) \<and> raises_only E (env_verify_workload env) \<and>
      raises_only E (env_restore_policy env) \<and> (\<forall>r. raises_only E (env_describe_failure env r)) \<and>
      (\<forall>ev. raises_only E (gc_sink cfg ev)) \<and> (\<forall>evs. raises_only E (gc_summary cfg evs)))"

definition run_error :: "(py_error \<Rightarrow> bool) \<Rightarrow> py_error \<Rightarrow> bool" where
  "run_error E err \<longleftrightarrow> E err \<or> is_value_error err \<or> err = GraphRecursionError ''recursion limit reached''"

lemma raises_run_error: "raises_only E m \<Longrightarrow> raises_only (run_error E) m"
  by (auto simp: raises_only_def run_error_def)

lemma run_error_simps [simp]:
  "run_error E (ValueError s)" "run_error E (GraphRecursionError ''recursion limit reached'')"
  by (simp_all add: run_error_def)

lemma collaborators_raiseD:
  assumes "collaborators_raise E cfg"
  shows "raises_only (run_error E) (env_get_current_policy (gc_env cfg))"
    and "raises_only (run_error E) (env_get_observed_usage (gc_env cfg))"
    and "raises_only (run_error E) (env_apply_policy (gc_env cfg) P)"
    and "raises_only (run_error E) (env_verify_workload (gc_env cfg))"
    and "raises_only (run_error E) (env_restore_policy (gc_env cfg))"
    and "raises_only (run_error E) (env_describe_failure (gc_env cfg) result)"
    and "raises_only (run_error E) (emit cfg st agent action reason decision details)"
    and "raises_only (run_error E) (write_trajectory cfg)"
proof -
  have sink: "\<And>ev. raises_only (run_error E) (gc_sink cfg ev)"
    and summary: "\<And>evs. raises_only (run_error E) (gc_summary cfg evs)"
    using assms by (auto simp: collaborators_raise_def Let_def intro!: raises_run_error)
  show "raises_only (run_error E) (emit cfg st agent action reason decision details)"
    using sink by (auto simp: raises_only_def emit_def record_event_def split: prod.splits)
  show "raises_only (run_error E) (write_trajectory cfg)"
    using summary by (auto simp: raises_only_def write_trajectory_def split: prod.splits)
qed (use assms in \<open>auto simp: collaborators_raise_def Let_def intro!: raises_run_error\<close>)

lemma raises_failure_of: "has_failure st \<Longrightarrow> raises_only E (failure_of st)"
  by (auto simp: has_failure_def failure_of_def need_Some seq_ret)

lemma observed_error_is_value_error:
  "observed_only_policy current observed = Inl err \<Longrightarrow> is_value_error err"
  by (auto simp: observed_only_policy_def result_simps Let_def event_permission_def
      dest!: rmap_Inl_mem split: if_splits)

lemma proposal_raises: "raises_only (run_error E) (lift_result (reducer_propose original observed))"
proof (cases "reducer_propose original observed")
  case (Inl err)
  then have "is_value_error err"
    using observed_error_is_value_error by (auto simp: reducer_propose_def)
  with Inl show ?thesis by (simp add: run_error_def)
qed simp

lemma node_raises:
  assumes "collaborators_raise E cfg" and "keys_at (Some n) st"
  shows "raises_only (run_error E) (exec_node cfg n st)"
proof -
  note c = collaborators_raiseD [OF assms(1)] raises_only_need raises_failure_of proposal_raises
  show ?thesis
    using assms(2)
    by (cases n)
      (auto simp: keys_at_def load_context_def inspect_def gather_def generate_def validate_def verify_def
        apply_candidate_def restore_def check_more_def final_verify_def diagnose_def repair_def
        human_review_def finalize_def publish_result_def Let_def has_inspection_def
        dest: verifier_repair_error intro!: raises_only_seq raises_only_on_env c
        split: sum.split if_split option.split)
qed

lemma next_raises:
  assumes "keys_at (Some n) st" and "exec_node cfg n st r = (Inr st', r')"
  obtains succ where "next_node cfg n st' = Inr succ"
proof (cases n)
  case Verify
  with assms(2) have "verify cfg st r = (Inr st', r')" by simp
  then show thesis by (rule verify_Inr) (use Verify that in \<open>auto simp: route_verification_def\<close>)
qed (use that in auto)

lemma run_nodes_raises:
  assumes "collaborators_raise E cfg" and "keys_at (Some n) st"
  shows "raises_only (run_error E) (run_nodes cfg k n st)"
    and "run_nodes cfg k n st r = (Inr st', r') \<Longrightarrow> keys_at None st'"
  using assms(2)
proof (induction k arbitrary: n st r)
  case (Suc k)
  {
    case 1
    have "raises_only (run_error E) (run_nodes cfg (Suc k) n st)"
      unfolding raises_only_def
    proof (intro allI impI)
      fix r err r2
      assume run: "run_nodes cfg (Suc k) n st r = (Inl err, r2)"
      show "run_error E err"
      proof -
        obtain x r1 where Pair: "exec_node cfg n st r = (x, r1)" by (metis prod.collapse)
        show ?thesis
        proof (cases x)
          case (Inl e)
          with run Pair raises_onlyD [OF node_raises [OF assms(1) 1], of r] show ?thesis
            by (simp add: seq_def)
        next
          case (Inr st1)
          with Pair have node: "exec_node cfg n st r = (Inr st1, r1)" by simp
          obtain succ where next1: "next_node cfg n st1 = Inr succ" by (rule next_raises [OF 1 node])
          from keys_next [OF 1 node next1] Suc.IH(1) run node next1 show ?thesis
            by (cases succ) (auto simp: seq_def ret_def lift_result_def dest: raises_onlyD)
        qed
      qed
    qed
    then show ?case .
  next
    case 2
    then obtain st1 r1 succ where node: "exec_node cfg n st r = (Inr st1, r1)"
      and next1: "next_node cfg n st1 = Inr succ"
      and rest: "(case succ of None \<Rightarrow> ret st1 | Some m \<Rightarrow> run_nodes cfg k m st1) r1 = (Inr st', r')"
      by (auto simp: op_simps)
    with keys_next [OF 2(2) node next1] Suc.IH(2) show ?case
      by (cases succ) (auto simp: ret_def)
  }
qed (simp_all add: throw_def)

lemma run_result_returns:
  assumes "keys_at None st"
  shows "raises_only E (run_result rq path st)"
  using assms by (auto simp: keys_at_def has_inspection_def run_result_def intro!: raises_only_seq)

lemma run_workload_raises:
  assumes "collaborators_raise E cfg" and "run_workload cfg rq prior w = (Inl err, w')"
  shows "run_error E err"
proof -
  let ?st = "initial_state (env_name (gc_env cfg)) rq prior"
  have keys: "keys_at (Some Load_Service_Context) ?st" by (simp add: keys_at_def)
  note nodes = run_nodes_raises [OF assms(1) keys]
  obtain r where run: "seq (run_nodes cfg (gc_limit cfg) Load_Service_Context ?st) (\<lambda>final.
      seq (write_trajectory cfg) (\<lambda>path. run_result rq path final)) (w, []) = (Inl err, r)"
    using assms(2) by (auto simp: run_workload_def split: prod.splits)
  obtain x r1 where Pair: "run_nodes cfg (gc_limit cfg) Load_Service_Context ?st (w, []) = (x, r1)" by (metis prod.collapse)
  show ?thesis
    proof (cases x)
      case (Inl e)
      with Pair run raises_onlyD [OF nodes(1)] show ?thesis by (simp add: seq_def)
    next
      case (Inr final)
      with Pair nodes(2) have "raises_only (run_error E) (seq (write_trajectory cfg) (\<lambda>path. run_result rq path final))"
        by (intro raises_only_seq collaborators_raiseD [OF assms(1)] run_result_returns) blast
      with Pair Inr run show ?thesis by (auto simp: seq_def dest: raises_onlyD)
    qed
qed

section \<open>Property\<close>

text \<open>
  C7: The state of the graph is well typed. Whatever a checkpoint left behind, a run of the workload
  graph reads no key of its state that is not there: when its collaborators raise errors of a kind
  \<open>E\<close> only, a run that raises raises such an error, a \<open>ValueError\<close> of the rules engine, or the
  recursion limit. In particular it raises no \<open>KeyError\<close> and no \<open>AssertionError\<close> of its own.
\<close>

theorem run_errors_typed:
  assumes "collaborators_raise E cfg" and "run_workload cfg rq prior w = (Inl err, w')"
  shows "E err \<or> is_value_error err \<or> err = GraphRecursionError ''recursion limit reached''"
  using run_workload_raises [OF assms] by (simp add: run_error_def)

definition foreign_case :: benchmark_case where
  "foreign_case = sample_case\<lparr>bc_initial_policy := narrow_policy, bc_observed_events := [get_secrets]\<rparr>"

lemma simulator_raises: "collaborators_raise E (simulator_graph elapsed c m l)"
  by (auto simp: collaborators_raise_def simulator_graph_def Let_def simulator_adapter_def
      simulator_apply_def simulator_verify_def simulator_restore_def simulator_describe_def
      raises_only_def ret_def split: prod.splits)

theorem run_errors_typed_witness:
  "\<exists>err w'. run_workload (simulator_graph ''0.0'' foreign_case 5 36) sample_request fresh_thread
      (new_simulator foreign_case) = (Inl err, w') \<and> is_value_error err"
proof -
  have "\<not> is_authorized narrow_policy get_secrets" by code_simp
  then obtain reason w' where run: "run_workload (simulator_graph ''0.0'' foreign_case 5 36) sample_request
      fresh_thread (new_simulator foreign_case) = (Inl (ValueError reason), w')"
    by (simp add: run_workload_def numeral_eq_Suc load_context_def inspect_def gather_def generate_def
        reducer_propose_def observed_only_policy_def foreign_case_def simulator_adapter_def on_env_def
        emit_def record_event_def need_def new_simulator_def Let_def seq_def ret_def lift_result_def)
  from run_errors_typed [OF simulator_raises [of "\<lambda>_. False"] run] run show ?thesis
    by simp
qed

end
