(* ===== verification/Distributed_Services.thy ===== *)
theory Distributed_Services
  imports Memory_Services
begin

text \<open>
  The production counterparts of the in-memory services: \<open>KafkaEventBus\<close> (\<open>event_layer/kafka.py\<close>),
  \<open>RedisDeduplicationStore\<close> (\<open>deduplication.py\<close>) and \<open>RedisWorkloadLockManager\<close> (\<open>locks.py\<close>). The
  client libraries are ports over a world \<open>'k\<close>; what is modelled is what the classes do with them.
  Keys and payloads are passed as text, their encoding is left to the port.
\<close>

section \<open>Kafka\<close>

record kafka_record =
  kr_topic :: string
  kr_key :: "string option"
  kr_partition :: nat
  kr_offset :: nat
  kr_value :: string

text \<open>\<open>kk_next\<close> is one step of \<open>async for record in consumer\<close>, \<open>None\<close> when the iteration ends;
  \<open>kk_commit group consumer topic partition offset\<close> commits an offset.\<close>

record 'k kafka_ports =
  kk_installed :: bool
  kk_start_producer :: "('k, unit) op"
  kk_stop_producer :: "('k, unit) op"
  kk_send :: "string \<Rightarrow> string \<Rightarrow> string \<Rightarrow> ('k, nat \<times> nat) op"
  kk_start_consumer :: "string \<Rightarrow> string \<Rightarrow> string \<Rightarrow> ('k, unit) op"
  kk_stop_consumer :: "string \<Rightarrow> string \<Rightarrow> ('k, unit) op"
  kk_next :: "string \<Rightarrow> string \<Rightarrow> ('k, kafka_record option) op"
  kk_commit :: "string \<Rightarrow> string \<Rightarrow> string \<Rightarrow> nat \<Rightarrow> nat \<Rightarrow> ('k, unit) op"
  kk_identity :: "('k, string \<times> string) op"
  kk_loads :: "string \<Rightarrow> pyval result"
  kk_float_int :: "string \<Rightarrow> int result"

record 'k kafka_bus =
  kf_producer :: bool
  kf_consumers :: "(string \<times> string) list"
  kf_callbacks :: "callback list"
  kf_world :: 'k

definition kafka_port :: "('k, 'a) op \<Rightarrow> ('k kafka_bus, 'a) op" where
  "kafka_port m s = (case m (kf_world s) of (r, w) \<Rightarrow> (r, s\<lparr>kf_world := w\<rparr>))"

definition call_back :: "callback \<Rightarrow> ('k kafka_bus, unit) op" where
  "call_back cb s = (Inr (), s\<lparr>kf_callbacks := kf_callbacks s @ [cb]\<rparr>)"

definition aiokafka :: "'k kafka_ports \<Rightarrow> ('k kafka_bus, unit) op" where
  "aiokafka p =
     (if kk_installed p then ret ()
      else throw (RuntimeError
        ''Kafka support requires the 'distributed' or 'kubernetes' project extra''))"

text \<open>The producer is kept once it has been created, also if starting it raises.\<close>

definition get_producer :: "'k kafka_ports \<Rightarrow> ('k kafka_bus, unit) op" where
  "get_producer p s =
     (if kf_producer s then (Inr (), s)
      else seq (aiokafka p) (\<lambda>_ u. kafka_port (kk_start_producer p) (u\<lparr>kf_producer := True\<rparr>)) s)"

definition kafka_publish ::
  "'k kafka_ports \<Rightarrow> string \<Rightarrow> event_envelope \<Rightarrow> string \<Rightarrow> ('k kafka_bus, published_event) op" where
  "kafka_publish p topic e key =
     (if key = '''' then throw (ValueError ''event key must not be empty'')
      else
        seq (get_producer p) (\<lambda>_.
        seq (kafka_port (kk_send p topic (envelope_to_json e) key)) (\<lambda>(part, off).
        let published = \<lparr>pe_topic = topic, pe_key = key, pe_partition = part, pe_offset = off,
                         pe_event = e\<rparr> in
        seq (call_back (Published published)) (\<lambda>_. ret published))))"

definition add_consumer :: "string \<times> string \<Rightarrow> ('k kafka_bus, unit) op" where
  "add_consumer identity s =
     (Inr (), s\<lparr>kf_consumers :=
        (if identity \<in> set (kf_consumers s) then kf_consumers s else kf_consumers s @ [identity])\<rparr>)"

definition drop_consumer :: "string \<times> string \<Rightarrow> ('k kafka_bus, unit) op" where
  "drop_consumer identity s = (Inr (), s\<lparr>kf_consumers := removeAll identity (kf_consumers s)\<rparr>)"

text \<open>\<open>_consume\<close>: opening the iteration, one step of it, and its \<open>finally\<close>, which also runs when a
  record cannot be read.\<close>

definition kafka_open ::
  "'k kafka_ports \<Rightarrow> string \<Rightarrow> string \<Rightarrow> string \<Rightarrow> ('k kafka_bus, unit) op" where
  "kafka_open p topic consumer_group consumer_id =
     seq (aiokafka p) (\<lambda>_.
     seq (add_consumer (consumer_group, consumer_id)) (\<lambda>_.
     kafka_port (kk_start_consumer p topic consumer_group consumer_id)))"

definition kafka_finally ::
  "'k kafka_ports \<Rightarrow> string \<Rightarrow> string \<Rightarrow> ('k kafka_bus, unit) op" where
  "kafka_finally p consumer_group consumer_id =
     seq (kafka_port (kk_stop_consumer p consumer_group consumer_id)) (\<lambda>_.
     drop_consumer (consumer_group, consumer_id))"

definition record_message ::
  "'k kafka_ports \<Rightarrow> string \<Rightarrow> string \<Rightarrow> kafka_record \<Rightarrow> consumed_event result" where
  "record_message p consumer_group consumer_id r =
     rbind (envelope_from_json (kk_float_int p) (kk_loads p) (kr_value r)) (\<lambda>e.
     Inr \<lparr>pe_topic = kr_topic r, pe_key = (if truthy_opt (kr_key r) then or_empty (kr_key r) else ''''),
          pe_partition = kr_partition r, pe_offset = kr_offset r, pe_event = e,
          ce_consumer_group = consumer_group, ce_consumer_id = consumer_id, ce_delivery_count = 1\<rparr>)"

definition kafka_next ::
  "'k kafka_ports \<Rightarrow> string \<Rightarrow> string \<Rightarrow> ('k kafka_bus, consumed_event option) op" where
  "kafka_next p consumer_group consumer_id s =
     (case seq (kafka_port (kk_next p consumer_group consumer_id)) (\<lambda>found.
             case found of
               None \<Rightarrow> ret None
             | Some r \<Rightarrow>
                 seq (lift_result (record_message p consumer_group consumer_id r)) (\<lambda>m.
                 seq (call_back (Claimed m)) (\<lambda>_. ret (Some m)))) s of
        (Inr (Some m), s') \<Rightarrow> (Inr (Some m), s')
      | (r, s') \<Rightarrow>
          (case kafka_finally p consumer_group consumer_id s' of
             (Inl err, s'') \<Rightarrow> (Inl err, s'')
           | (Inr _, s'') \<Rightarrow> (r, s'')))"

definition kafka_acknowledge :: "'k kafka_ports \<Rightarrow> consumed_event \<Rightarrow> ('k kafka_bus, unit) op" where
  "kafka_acknowledge p m s =
     (if (ce_consumer_group m, ce_consumer_id m) \<notin> set (kf_consumers s) then
        (Inl (RuntimeError ''consumer is not active''), s)
      else
        seq (kafka_port (kk_commit p (ce_consumer_group m) (ce_consumer_id m) (pe_topic m)
               (pe_partition m) (pe_offset m + 1))) (\<lambda>_.
        call_back (Acknowledged m)) s)"

definition kafka_retry ::
  "'k kafka_ports \<Rightarrow> consumed_event \<Rightarrow> string \<Rightarrow> ('k kafka_bus, unit) op" where
  "kafka_retry p m reason =
     (if reason = '''' then throw (ValueError ''retry reason must not be empty'')
      else
        seq (kafka_port (kk_identity p)) (\<lambda>ident.
        seq (lift_result (next_attempt ident None (pe_event m))) (\<lambda>e.
        seq (kafka_publish p (pe_topic m) e (pe_key m)) (\<lambda>_.
        kafka_acknowledge p m))))"

definition kafka_dead_letter ::
  "'k kafka_ports \<Rightarrow> consumed_event \<Rightarrow> string \<Rightarrow> ('k kafka_bus, published_event) op" where
  "kafka_dead_letter p m reason =
     seq (kafka_port (kk_identity p)) (\<lambda>ident.
     seq (lift_result (dead_letter_event ident m reason)) (\<lambda>e.
     seq (kafka_publish p (topic_name Dlq) e (pe_key m)) (\<lambda>published.
     seq (kafka_acknowledge p m) (\<lambda>_. ret published))))"

fun stop_consumers :: "'k kafka_ports \<Rightarrow> (string \<times> string) list \<Rightarrow> ('k kafka_bus, unit) op" where
  "stop_consumers p [] = ret ()"
| "stop_consumers p ((g, c) # rest) =
     seq (kafka_port (kk_stop_consumer p g c)) (\<lambda>_. stop_consumers p rest)"

definition kafka_close :: "'k kafka_ports \<Rightarrow> ('k kafka_bus, unit) op" where
  "kafka_close p s =
     seq (stop_consumers p (kf_consumers s)) (\<lambda>_ u.
       (let v = u\<lparr>kf_consumers := []\<rparr> in
        if kf_producer v then
          seq (kafka_port (kk_stop_producer p)) (\<lambda>_ x. (Inr (), x\<lparr>kf_producer := False\<rparr>)) v
        else (Inr (), v))) s"

section \<open>Redis\<close>

text \<open>The client of the store or of the lock manager, made at its first use: \<open>rp_connect\<close> is
  \<open>from_url\<close>, \<open>rp_get\<close>, \<open>rp_set key value ttl\<close>, the lease of a lock and \<open>rp_aclose\<close> are the
  client's methods.\<close>

record 'k redis_ports =
  rp_installed :: bool
  rp_connect :: "('k, unit) op"
  rp_get :: "string \<Rightarrow> ('k, string option) op"
  rp_set :: "string \<Rightarrow> string \<Rightarrow> nat \<Rightarrow> ('k, unit) op"
  rp_acquire :: "string \<Rightarrow> ('k, bool) op"
  rp_release :: "string \<Rightarrow> ('k, unit) op"
  rp_aclose :: "('k, unit) op"
  rp_loads :: "string \<Rightarrow> pyval result"

record 'k redis =
  rd_client :: bool
  rd_world :: 'k

definition redis_port :: "('k, 'a) op \<Rightarrow> ('k redis, 'a) op" where
  "redis_port m s = (case m (rd_world s) of (r, k) \<Rightarrow> (r, s\<lparr>rd_world := k\<rparr>))"

definition redis_client :: "'k redis_ports \<Rightarrow> string \<Rightarrow> ('k redis, unit) op" where
  "redis_client p feature s =
     (if rd_client s then (Inr (), s)
      else if \<not> rp_installed p then
        (Inl (RuntimeError (''Redis '' @ feature @
           '' requires the 'distributed' or 'kubernetes' project extra'')), s)
      else seq (redis_port (rp_connect p)) (\<lambda>_ u. (Inr (), u\<lparr>rd_client := True\<rparr>)) s)"

definition redis_close :: "'k redis_ports \<Rightarrow> ('k redis, unit) op" where
  "redis_close p s =
     (if rd_client s then
        seq (redis_port (rp_aclose p)) (\<lambda>_ u. (Inr (), u\<lparr>rd_client := False\<rparr>)) s
      else (Inr (), s))"

definition completed_key :: "string \<Rightarrow> string" where
  "completed_key task_id = ''kuber:completed:'' @ task_id"

definition redis_completed_get :: "'k redis_ports \<Rightarrow> string \<Rightarrow> ('k redis, pydict option) op" where
  "redis_completed_get p task_id =
     seq (redis_client p ''deduplication'') (\<lambda>_.
     seq (redis_port (rp_get p (completed_key task_id))) (\<lambda>stored.
     case stored of
       None \<Rightarrow> ret None
     | Some body \<Rightarrow>
         seq (lift_result (rp_loads p body)) (\<lambda>decoded.
         case decoded of
           PDict d \<Rightarrow> ret (Some d)
         | _ \<Rightarrow> throw (ValueError ''deduplication result is not an object''))))"

definition redis_completed_put ::
  "'k redis_ports \<Rightarrow> nat \<Rightarrow> string \<Rightarrow> pydict \<Rightarrow> ('k redis, unit) op" where
  "redis_completed_put p ttl_seconds task_id result =
     seq (redis_client p ''deduplication'') (\<lambda>_.
     redis_port (rp_set p (completed_key task_id) (json_compact (PDict result)) ttl_seconds))"

definition redis_locked ::
  "'k redis_ports \<Rightarrow> string \<Rightarrow> ('k redis, 'a) op \<Rightarrow> ('k redis, 'a) op" where
  "redis_locked p key body =
     seq (redis_client p ''locking'') (\<lambda>_.
     seq (redis_port (rp_acquire p (''kuber:lock:'' @ key))) (\<lambda>acquired.
     if \<not> acquired then throw (TimeoutError (''timed out acquiring workload lock: '' @ key))
     else ensuring body (redis_port (rp_release p (''kuber:lock:'' @ key)))))"

section \<open>What reaches the broker\<close>

lemma kafka_port_eq_iff [op_simps]:
  "kafka_port m s = (r, s') \<longleftrightarrow> (\<exists>w. m (kf_world s) = (r, w) \<and> s' = s\<lparr>kf_world := w\<rparr>)"
  by (auto simp: kafka_port_def split: prod.splits)

lemma call_back_eq_iff [op_simps]:
  "call_back cb s = (r, s') \<longleftrightarrow> r = Inr () \<and> s' = s\<lparr>kf_callbacks := kf_callbacks s @ [cb]\<rparr>"
  by (auto simp: call_back_def)

lemma keeps_kafka_port: "keeps view m \<Longrightarrow> keeps (\<lambda>s. view (kf_world s)) (kafka_port m)"
  unfolding keeps_def by (auto simp: kafka_port_def split: prod.splits) (metis snd_conv)

lemma keeps_call_back [simp]: "keeps (\<lambda>s. view (kf_world s)) (call_back cb)"
  by (simp add: keeps_def call_back_def)

lemma keeps_get_producer:
  assumes "keeps view (kk_start_producer p)"
  shows "keeps (\<lambda>s. view (kf_world s)) (get_producer p)"
proof -
  have "view (kf_world (snd (get_producer p s))) = view (kf_world s)" for s
    using assms
    by (cases "kk_start_producer p (kf_world s)")
      (auto simp: get_producer_def aiokafka_def kafka_port_def keeps_def seq_def ret_def throw_def
        dest!: spec [of _ "kf_world s"])
  then show ?thesis by (simp add: keeps_def)
qed

lemma keeps_kafka_publish:
  assumes "keeps view (kk_start_producer p)" and "\<And>t v k. keeps view (kk_send p t v k)"
  shows "keeps (\<lambda>s. view (kf_world s)) (kafka_publish p topic e key)"
  by (auto simp: kafka_publish_def Let_def
      intro!: keeps_seq keeps_get_producer keeps_kafka_port assms split: prod.split)

text \<open>Publishing comes first: when a retry or a dead letter cannot be published, no offset is
  committed, so the message is delivered again.\<close>

lemma uncommitted_unless_published:
  assumes "keeps view (kk_start_producer p)" and "\<And>t v k. keeps view (kk_send p t v k)"
    and "keeps view (kk_identity p)"
    and "kafka_retry p m reason s = (r, s')" and "view (kf_world s') \<noteq> view (kf_world s)"
  shows "\<exists>e u published v. kafka_publish p (pe_topic m) e (pe_key m) u = (Inr published, v) \<and>
    en_attempt e = en_attempt (pe_event m) + 1 \<and> en_payload e = en_payload (pe_event m)"
proof -
  note publish = keeps_kafka_publish [OF assms(1,2)]
  from assms(4,5) obtain ident w where ident: "kk_identity p (kf_world s) = (Inr ident, w)"
    and run: "seq (lift_result (next_attempt ident None (pe_event m))) (\<lambda>e.
        seq (kafka_publish p (pe_topic m) e (pe_key m)) (\<lambda>_. kafka_acknowledge p m))
        (s\<lparr>kf_world := w\<rparr>) = (r, s')"
    using keepsD [OF assms(3)]
    by (cases "kk_identity p (kf_world s)"; cases "fst (kk_identity p (kf_world s))")
      (auto simp: kafka_retry_def seq_def kafka_port_def throw_def split: if_splits)
  have same: "view w = view (kf_world s)" by (rule keepsD [OF assms(3) ident])
  from run assms(5) same obtain e where e: "next_attempt ident None (pe_event m) = Inr e"
    and run': "seq (kafka_publish p (pe_topic m) e (pe_key m)) (\<lambda>_. kafka_acknowledge p m)
        (s\<lparr>kf_world := w\<rparr>) = (r, s')"
    by (cases "next_attempt ident None (pe_event m)") (auto simp: seq_def lift_result_def)
  obtain q v where pub: "kafka_publish p (pe_topic m) e (pe_key m) (s\<lparr>kf_world := w\<rparr>) = (q, v)"
    by fastforce
  have "q \<noteq> Inl err" for err
    using run' keepsD [OF publish pub] assms(5) same by (auto simp: seq_def pub)
  then obtain published where "q = Inr published" by (cases q) auto
  moreover have "en_attempt e = en_attempt (pe_event m) + 1 \<and> en_payload e = en_payload (pe_event m)"
    using e by (auto simp: next_attempt_def check_envelope_Inr_iff)
  ultimately show ?thesis using pub by blast
qed

text \<open>A record that is no envelope ends the iteration: the consumer is stopped and nothing is
  committed, so the same record comes first again.\<close>

lemma unreadable_record_ends_consumer:
  assumes "kk_next p g c (kf_world s) = (Inr (Some r), w)" and "view w = view (kf_world s)"
    and "record_message p g c r = Inl err"
    and "kk_stop_consumer p g c w = (Inr (), w')" and "view w' = view w"
  shows "\<exists>s'. kafka_next p g c s = (Inl err, s') \<and> (g, c) \<notin> set (kf_consumers s') \<and>
    view (kf_world s') = view (kf_world s)"
  using assms
  by (simp add: kafka_next_def seq_def kafka_port_def lift_result_def kafka_finally_def drop_consumer_def)

text \<open>A client is ready when it is connected or can be.\<close>

lemma redis_client_ready:
  assumes "rd_client s \<or> rp_installed p" and "\<And>w. rp_connect p w = (Inr (), w)"
  shows "redis_client p feature s = (Inr (), s\<lparr>rd_client := True\<rparr>)"
  using assms by (cases s) (auto simp: redis_client_def seq_def redis_port_def)

lemma redis_completed_get_put:
  assumes "rp_installed p" and "\<And>w. rp_connect p w = (Inr (), w)"
    and "\<And>w. \<exists>w'. rp_set p (completed_key task_id) (json_compact (PDict result)) ttl w = (Inr (), w') \<and>
      (\<exists>w''. rp_get p (completed_key task_id) w' = (Inr (Some (json_compact (PDict result))), w''))"
    and "rp_loads p (json_compact (PDict result)) = Inr (PDict result)"
  shows "\<exists>s' s''. redis_completed_put p ttl task_id result s = (Inr (), s') \<and>
    redis_completed_get p task_id s' = (Inr (Some result), s'')"
  using assms(3) [of "rd_world s"] assms(1,4)
  by (auto simp: redis_completed_put_def redis_completed_get_def redis_client_ready assms(2) seq_def
    redis_port_def lift_result_def ret_def)

lemma redis_close_closes:
  assumes "redis_close p s = (Inr (), s')"
  shows "\<not> rd_client s'"
  using assms by (auto simp: redis_close_def seq_def redis_port_def split: prod.splits sum.splits if_splits)

lemma completed_key_inject: "completed_key t = completed_key u \<longleftrightarrow> t = u"
  by (simp add: completed_key_def)

text \<open>The lock is released however the body ends.\<close>

lemma redis_locked_releases:
  assumes "redis_client p ''locking'' s = (Inr (), s1)"
    and "rp_acquire p (''kuber:lock:'' @ key) (rd_world s1) = (Inr True, u)"
    and "body (s1\<lparr>rd_world := u\<rparr>) = (r, t)"
    and "rp_release p (''kuber:lock:'' @ key) (rd_world t) = (Inr (), w')"
  shows "redis_locked p key body s = (r, t\<lparr>rd_world := w'\<rparr>)"
  using assms by (simp add: redis_locked_def seq_def ensuring_def redis_port_def)

end
