(* ===== verification/Reference_Workload.thy ===== *)
theory Reference_Workload
  imports Observation Minimizer
begin

text \<open>
  The workload that Kuber observes in its sandbox: the instrumented client
  \<open>reference_workload/tracked_kube_client.py\<close> and the HTTP handlers of \<open>reference_workload/main.py\<close>,
  and the example services of \<open>examples/service_catalog\<close>. The Kubernetes client library is a record
  of operations on a server \<open>'k\<close>; standard output is a text.
\<close>

section \<open>The client library and the process\<close>

datatype api_error =
    ApiException "int option" "string option"
  | HttpException int string

type_synonym ('k, 'a) call = "(api_error, 'k, 'a) raising"

text \<open>One operation per method of the library; the arguments after the name are in the order
  namespace, body. A config map or secret is its \<open>data\<close>, a list of pods the names, a job its
  \<open>metadata.name\<close>, a lease the object itself.\<close>

record 'k api =
  api_read_config_map :: "string \<Rightarrow> string \<Rightarrow> ('k, (string \<times> string) list option) call"
  api_read_secret :: "string \<Rightarrow> string \<Rightarrow> ('k, (string \<times> string) list option) call"
  api_list_pods :: "string \<Rightarrow> ('k, string list) call"
  api_create_job :: "string \<Rightarrow> string \<Rightarrow> pyval \<Rightarrow> ('k, unit) call"
  api_read_job :: "string \<Rightarrow> string \<Rightarrow> ('k, pyval) call"
  api_delete_job :: "string \<Rightarrow> string \<Rightarrow> ('k, unit) call"
  api_read_lease :: "string \<Rightarrow> string \<Rightarrow> ('k, pyval) call"
  api_replace_lease :: "string \<Rightarrow> string \<Rightarrow> pyval \<Rightarrow> ('k, unit) call"
  api_create_lease :: "string \<Rightarrow> string \<Rightarrow> pyval \<Rightarrow> ('k, pyval) call"

record 'k kube_process =
  kw_stdout :: string
  kw_server :: 'k

record tracked_client =
  tk_namespace :: string
  tk_workload_id :: "string option"

section \<open>Instrumentation\<close>

definition call_event ::
  "tracked_client \<Rightarrow> string \<Rightarrow> string \<Rightarrow> string \<Rightarrow> string option \<Rightarrow> pydict" where
  "call_event t api_group resource verb resource_name =
     [(''kuber_event'', PBool True), (''api_group'', PStr api_group), (''resource'', PStr resource),
      (''verb'', PStr verb), (''namespace'', PStr (tk_namespace t)),
      (''resource_name'', opt_str resource_name)] @
     (if truthy_opt (tk_workload_id t) then [(''workload_id'', opt_str (tk_workload_id t))] else [])"

definition print_json :: "pydict \<Rightarrow> ('k kube_process, unit) call" where
  "print_json d s = (Inr (), s\<lparr>kw_stdout := kw_stdout s @ json_dumps (PDict d) @ newline\<rparr>)"

definition on_server :: "('k, 'a) call \<Rightarrow> ('k kube_process, 'a) call" where
  "on_server m s = (case m (kw_server s) of (r, k) \<Rightarrow> (r, s\<lparr>kw_server := k\<rparr>))"

definition denied_event :: "pydict \<Rightarrow> string option \<Rightarrow> pydict" where
  "denied_event event reason = event @ [(''kuber_denied'', PBool True), (''message'', opt_str reason)]"

fun is_status :: "int \<Rightarrow> api_error \<Rightarrow> bool" where
  "is_status code (ApiException status _) = (status = Some code)"
| "is_status code _ = False"

fun is_api_exception :: "api_error \<Rightarrow> bool" where
  "is_api_exception (ApiException _ _) = True"
| "is_api_exception _ = False"

fun api_reason :: "api_error \<Rightarrow> string option" where
  "api_reason (ApiException _ reason) = reason"
| "api_reason (HttpException _ _) = None"

definition tracked :: "pydict \<Rightarrow> ('k, 'a) call \<Rightarrow> ('k kube_process, 'a) call" where
  "tracked event operation =
     seq (print_json event) (\<lambda>_.
     catching (on_server operation) (\<lambda>exc.
       if is_status 403 exc then
         seq (print_json (denied_event event (api_reason exc))) (\<lambda>_. throw exc)
       else throw exc))"

section \<open>The operations of the client\<close>

definition data_or_empty :: "(string \<times> string) list option \<Rightarrow> (string \<times> string) list" where
  "data_or_empty data = (case data of None \<Rightarrow> [] | Some d \<Rightarrow> d)"

definition read_config_map ::
  "'k api \<Rightarrow> tracked_client \<Rightarrow> string \<Rightarrow> ('k kube_process, (string \<times> string) list) call" where
  "read_config_map a t name =
     seq (tracked (call_event t '''' ''configmaps'' ''get'' (Some name))
            (api_read_config_map a name (tk_namespace t))) (\<lambda>value.
     ret (data_or_empty value))"

definition read_secret ::
  "'k api \<Rightarrow> tracked_client \<Rightarrow> string \<Rightarrow> ('k kube_process, (string \<times> string) list) call" where
  "read_secret a t name =
     seq (tracked (call_event t '''' ''secrets'' ''get'' (Some name))
            (api_read_secret a name (tk_namespace t))) (\<lambda>value.
     ret (data_or_empty value))"

definition list_pod_names :: "'k api \<Rightarrow> tracked_client \<Rightarrow> ('k kube_process, string list) call" where
  "list_pod_names a t =
     tracked (call_event t '''' ''pods'' ''list'' None) (api_list_pods a (tk_namespace t))"

definition job_body :: "string \<Rightarrow> pyval" where
  "job_body name =
     PDict [(''metadata'', PDict [(''name'', PStr name)]),
            (''spec'', PDict
              [(''template'', PDict
                 [(''metadata'', PDict [(''labels'', PDict [(''app'', PStr name)])]),
                  (''spec'', PDict
                    [(''restartPolicy'', PStr ''Never''),
                     (''containers'', PList
                       [PDict [(''name'', PStr ''reconcile''), (''image'', PStr ''busybox:1.36''),
                               (''command'', PList [PStr ''sh'', PStr ''-c'', PStr ''echo reconciled''])]])])]),
               (''backoffLimit'', PInt 0)])]"

definition create_job :: "'k api \<Rightarrow> tracked_client \<Rightarrow> string \<Rightarrow> ('k kube_process, unit) call" where
  "create_job a t name =
     catching (tracked (call_event t ''batch'' ''jobs'' ''create'' (Some name))
                 (api_create_job a name (tk_namespace t) (job_body name))) (\<lambda>exc.
       if is_api_exception exc \<and> is_status 409 exc then ret () else throw exc)"

definition get_job ::
  "'k api \<Rightarrow> tracked_client \<Rightarrow> string \<Rightarrow> ('k kube_process, string option) call" where
  "get_job a t name =
     seq (tracked (call_event t ''batch'' ''jobs'' ''get'' (Some name))
            (api_read_job a name (tk_namespace t))) (\<lambda>job_name.
     ret (case job_name of PStr s \<Rightarrow> Some s | _ \<Rightarrow> None))"

definition delete_job :: "'k api \<Rightarrow> tracked_client \<Rightarrow> string \<Rightarrow> ('k kube_process, unit) call" where
  "delete_job a t name =
     tracked (call_event t ''batch'' ''jobs'' ''delete'' (Some name))
       (api_delete_job a name (tk_namespace t))"

definition lease_event :: "tracked_client \<Rightarrow> string \<Rightarrow> string \<Rightarrow> pydict" where
  "lease_event t verb name = call_event t ''coordination.k8s.io'' ''leases'' verb (Some name)"

definition lease_body :: "string \<Rightarrow> pyval" where
  "lease_body name =
     PDict [(''metadata'', PDict [(''name'', PStr name)]),
            (''spec'', PDict [(''holderIdentity'', PStr ''kuber-reference-workload'')])]"

definition renew_leader_lease ::
  "'k api \<Rightarrow> tracked_client \<Rightarrow> string \<Rightarrow> ('k kube_process, string) call" where
  "renew_leader_lease a t name =
     catching
       (seq (tracked (lease_event t ''get'' name) (api_read_lease a name (tk_namespace t))) (\<lambda>lease.
        seq (tracked (lease_event t ''update'' name)
               (api_replace_lease a name (tk_namespace t) lease)) (\<lambda>_.
        ret ''updated'')))
       (\<lambda>exc.
          if \<not> (is_api_exception exc \<and> is_status 404 exc) then throw exc
          else
            seq (tracked (lease_event t ''create'' name)
                   (api_create_lease a name (tk_namespace t) (lease_body name))) (\<lambda>lease.
            seq (tracked (lease_event t ''update'' name)
                   (api_replace_lease a name (tk_namespace t) lease)) (\<lambda>_.
            ret ''created-and-renewed'')))"

section \<open>The HTTP handlers\<close>

text \<open>\<open>_forbidden\<close>, and the \<open>except ApiException\<close> around each handler. A status of 0 or an empty
  reason is replaced as a missing one.\<close>

fun forbidden :: "api_error \<Rightarrow> api_error" where
  "forbidden (ApiException status reason) =
     HttpException (case status of None \<Rightarrow> 500 | Some code \<Rightarrow> if code = 0 then 500 else code)
       (or_default (or_empty reason) ''Kubernetes API failure'')"
| "forbidden err = err"

definition handler :: "('k kube_process, 'a) call \<Rightarrow> ('k kube_process, 'a) call" where
  "handler m = catching m (\<lambda>exc. throw (forbidden exc))"

definition str_dict :: "(string \<times> string) list \<Rightarrow> pyval" where
  "str_dict d = PDict (map (\<lambda>(k, v). (k, PStr v)) d)"

definition sorted_names :: "(string \<times> string) list \<Rightarrow> pyval" where
  "sorted_names d = PList (map PStr (sort (map fst d)))"

definition health :: "('k kube_process, pyval) call" where
  "health = ret (PDict [(''status'', PStr ''ok'')])"

definition config_route :: "'k api \<Rightarrow> tracked_client \<Rightarrow> ('k kube_process, pyval) call" where
  "config_route a kube =
     handler (seq (read_config_map a kube ''app-config'') (\<lambda>data.
       ret (PDict [(''data'', str_dict data)])))"

definition secret_route :: "'k api \<Rightarrow> tracked_client \<Rightarrow> ('k kube_process, pyval) call" where
  "secret_route a kube =
     handler (seq (read_secret a kube ''payment-secret'') (\<lambda>data.
       ret (PDict [(''keys'', sorted_names data)])))"

definition pods_route :: "'k api \<Rightarrow> tracked_client \<Rightarrow> ('k kube_process, pyval) call" where
  "pods_route a kube =
     handler (seq (list_pod_names a kube) (\<lambda>names. ret (PDict [(''pods'', PList (map PStr names))])))"

definition reconcile :: "'k api \<Rightarrow> tracked_client \<Rightarrow> string \<Rightarrow> ('k kube_process, pyval) call" where
  "reconcile a kube name =
     handler
       (seq (create_job a kube name) (\<lambda>_.
        seq (get_job a kube name) (\<lambda>found.
        seq (delete_job a kube name) (\<lambda>_.
        ret (PDict [(''job'', opt_str found), (''status'', PStr ''reconciled'')])))))"

definition leader_election :: "'k api \<Rightarrow> tracked_client \<Rightarrow> ('k kube_process, pyval) call" where
  "leader_election a kube =
     handler (seq (renew_leader_lease a kube ''kuber-reference-leader'') (\<lambda>status.
       ret (PDict [(''status'', PStr status)])))"

definition config_profile ::
  "'k api \<Rightarrow> tracked_client \<Rightarrow> string \<Rightarrow> ('k kube_process, pydict) call" where
  "config_profile a kube service_id =
     seq (read_config_map a kube ''app-config'') (\<lambda>data.
     ret [(''service'', PStr service_id), (''config'', str_dict data)])"

definition secret_profile ::
  "'k api \<Rightarrow> tracked_client \<Rightarrow> string \<Rightarrow> string \<Rightarrow> ('k kube_process, pydict) call" where
  "secret_profile a kube service_id name =
     seq (config_profile a kube service_id) (\<lambda>d.
     seq (read_secret a kube name) (\<lambda>data.
     ret (d @ [(''secret_keys'', sorted_names data)])))"

definition profile ::
  "'k api \<Rightarrow> tracked_client \<Rightarrow> string \<Rightarrow> ('k kube_process, pyval) call" where
  "profile a kube service_id =
     handler
       (seq
         (if service_id = ''api-gateway'' then config_profile a kube service_id
          else if service_id = ''auth-service'' then secret_profile a kube service_id ''auth-secret''
          else if service_id = ''order-service'' then config_profile a kube service_id
          else if service_id = ''payment-service'' then
            seq (secret_profile a kube service_id ''payment-secret'') (\<lambda>d.
            seq (list_pod_names a kube) (\<lambda>names.
            ret (d @ [(''pods'', PList (map PStr names))])))
          else if service_id = ''worker-service'' then config_profile a kube service_id
          else throw (HttpException 500 (''unknown SERVICE_ID '' @ service_id)))
         (\<lambda>d. ret (PDict d)))"

definition rare_workflow ::
  "'k api \<Rightarrow> tracked_client \<Rightarrow> string \<Rightarrow> ('k kube_process, pyval) call" where
  "rare_workflow a kube service_id =
     (if service_id \<noteq> ''worker-service'' then
        throw (HttpException 404 ''rare workflow belongs to worker-service'')
      else reconcile a kube ''kuber-worker-smoke'')"

text \<open>The routes, and the process's own client: \<open>kube()\<close>.\<close>

definition kube_client :: "string \<Rightarrow> string \<Rightarrow> tracked_client" where
  "kube_client namespace service_id =
     \<lparr>tk_namespace = namespace, tk_workload_id = Some service_id\<rparr>"

datatype route = Health | Config | Secret | Pods | Reconcile string | LeaderElection | Profile | RareWorkflow

fun serve_route ::
  "'k api \<Rightarrow> string \<Rightarrow> string \<Rightarrow> route \<Rightarrow> ('k kube_process, pyval) call" where
  "serve_route a namespace service_id Health = health"
| "serve_route a namespace service_id Config = config_route a (kube_client namespace service_id)"
| "serve_route a namespace service_id Secret = secret_route a (kube_client namespace service_id)"
| "serve_route a namespace service_id Pods = pods_route a (kube_client namespace service_id)"
| "serve_route a namespace service_id (Reconcile name) =
     reconcile a (kube_client namespace service_id) name"
| "serve_route a namespace service_id LeaderElection =
     leader_election a (kube_client namespace service_id)"
| "serve_route a namespace service_id Profile =
     profile a (kube_client namespace service_id) service_id"
| "serve_route a namespace service_id RareWorkflow =
     rare_workflow a (kube_client namespace service_id) service_id"

section \<open>The service catalogue\<close>

text \<open>The functions of \<open>examples/service_catalog\<close> on the operations of the client they are given.\<close>

definition load_gateway_routes ::
  "'k api \<Rightarrow> tracked_client \<Rightarrow> ('k kube_process, (string \<times> string) list) call" where
  "load_gateway_routes a client = read_config_map a client ''app-config''"

definition load_auth_material ::
  "'k api \<Rightarrow> tracked_client \<Rightarrow>
   ('k kube_process, (string \<times> string) list \<times> (string \<times> string) list) call" where
  "load_auth_material a client =
     seq (read_config_map a client ''app-config'') (\<lambda>settings.
     seq (read_secret a client ''auth-secret'') (\<lambda>material.
     ret (settings, material)))"

definition load_order_configuration ::
  "'k api \<Rightarrow> tracked_client \<Rightarrow> ('k kube_process, (string \<times> string) list) call" where
  "load_order_configuration a client = read_config_map a client ''app-config''"

definition load_payment_runtime :: "'k api \<Rightarrow> tracked_client \<Rightarrow> ('k kube_process, pydict) call" where
  "load_payment_runtime a client =
     seq (read_config_map a client ''app-config'') (\<lambda>settings.
     seq (read_secret a client ''payment-secret'') (\<lambda>credentials.
     seq (list_pod_names a client) (\<lambda>names.
     ret [(''config'', str_dict settings), (''credentials'', str_dict credentials),
          (''pods'', PList (map PStr names))])))"

definition reconcile_worker ::
  "'k api \<Rightarrow> tracked_client \<Rightarrow> string \<Rightarrow> ('k kube_process, string option) call" where
  "reconcile_worker a client name =
     seq (read_config_map a client ''app-config'') (\<lambda>_.
     seq (create_job a client name) (\<lambda>_.
     seq (get_job a client name) (\<lambda>result.
     seq (delete_job a client name) (\<lambda>_.
     ret result))))"

end
