(* ===== verification/Json_Objects.thy ===== *)
theory Json_Objects
  imports Py_Value
begin

text \<open>
  Reading back what \<open>json.dumps\<close> writes for flat objects, the shape of the lines the reference
  workload prints: \<open>json_object\<close> is \<open>json.loads\<close> on the texts \<open>json_dumps\<close> produces for objects of
  strings, truth values and \<open>null\<close>. It is the concrete reader on which the properties that take
  \<open>json.loads\<close> as a parameter are instantiated; \<open>reads_objects\<close> is what they assume of it.
\<close>

section \<open>Flat objects\<close>

fun scalar :: "pyval \<Rightarrow> bool" where
  "scalar PNone = True"
| "scalar (PBool b) = True"
| "scalar (PStr s) = True"
| "scalar _ = False"

definition flat :: "pydict \<Rightarrow> bool" where
  "flat d \<longleftrightarrow> list_all (\<lambda>(k, v). scalar v) d \<and> distinct (map fst d)"

definition reads_objects :: "(string \<Rightarrow> pyval result) \<Rightarrow> bool" where
  "reads_objects loads \<longleftrightarrow>
     (\<forall>d. flat d \<longrightarrow> (\<exists>d'. loads (json_dumps (PDict d)) = Inr (PDict d') \<and> map_of d' = map_of d))"

section \<open>The text of a flat object\<close>

definition member_text :: "string \<times> pyval \<Rightarrow> string" where
  "member_text kv = json_string (fst kv) @ '': '' @ json_dumps (snd kv)"

lemma insort_key_map: "insort_key f (g x) (map g xs) = map g (insort_key (\<lambda>y. f (g y)) x xs)"
  by (induction xs) auto

lemma sort_key_map: "sort_key f (map g xs) = map g (sort_key (\<lambda>y. f (g y)) xs)"
  by (induction xs) (simp_all add: insort_key_map)

lemma json_items_map: "json_items item key d = map (\<lambda>(k, v). (k, json_render item key v)) d"
  by (induction d) auto

lemma json_dumps_object:
  "json_dumps (PDict d) = ''{'' @ py_join '', '' (map member_text (sort_key fst d)) @ ''}''"
proof -
  have "sort_key fst (map (\<lambda>(k, v). (k, json_render '', '' '': '' v)) d) =
      map (\<lambda>(k, v). (k, json_render '', '' '': '' v)) (sort_key fst d)"
    by (simp add: sort_key_map case_prod_beta)
  then show ?thesis
    by (simp add: json_dumps_def json_items_map member_text_def [abs_def] case_prod_beta comp_def)
qed

text \<open>Everything \<open>json.dumps\<close> writes is printable ASCII.\<close>

definition ascii :: "string \<Rightarrow> bool" where
  "ascii s \<longleftrightarrow> list_all (\<lambda>c. 32 \<le> (of_char c :: nat) \<and> (of_char c :: nat) \<le> 126) s"

lemma ascii_append [simp]: "ascii (s @ t) \<longleftrightarrow> ascii s \<and> ascii t"
  by (simp add: ascii_def)

lemma ascii_Cons [simp]:
  "ascii (c # s) \<longleftrightarrow> 32 \<le> (of_char c :: nat) \<and> (of_char c :: nat) \<le> 126 \<and> ascii s"
  by (simp add: ascii_def)

lemma ascii_Nil [simp]: "ascii []"
  by (simp add: ascii_def)

lemma char_nibbles: "(of_char c :: nat) div 16 < 16" "(of_char c :: nat) mod 16 < 16"
proof -
  have "(of_char c :: nat) < 256" by simp
  then show "(of_char c :: nat) div 16 < 16" by linarith
qed simp

lemma ascii_concat: "(\<And>s. s \<in> set ss \<Longrightarrow> ascii s) \<Longrightarrow> ascii (concat ss)"
  by (induction ss) (auto simp: ascii_def)

lemma ascii_py_join: "ascii sep \<Longrightarrow> (\<And>s. s \<in> set ss \<Longrightarrow> ascii s) \<Longrightarrow> ascii (py_join sep ss)"
  by (induction sep ss rule: py_join.induct) (auto simp: ascii_def)

lemma of_char_hex_digit:
  "n < 16 \<Longrightarrow> (of_char (hex_digit n) :: nat) = (if n < 10 then 48 + n else 87 + n)"
  by (simp add: hex_digit_def)

lemma ascii_json_char [simp]: "ascii (json_char c)"
  using char_nibbles [of c] by (auto simp: json_char_def Let_def of_char_hex_digit)

lemma ascii_json_string [simp]: "ascii (json_string s)"
  by (auto simp: json_string_def intro!: ascii_concat)

lemma ascii_scalar: "scalar v \<Longrightarrow> ascii (json_dumps v)"
  by (cases v) (auto simp: json_dumps_def)

lemma ascii_object:
  assumes "flat d"
  shows "ascii (json_dumps (PDict d))"
proof -
  have "ascii (member_text kv)" if "kv \<in> set d" for kv
    using that assms
    by (auto simp: member_text_def flat_def list_all_iff intro!: ascii_scalar)
  then show ?thesis by (auto simp: json_dumps_object intro!: ascii_py_join)
qed

section \<open>A reader\<close>

definition hex_value :: "char \<Rightarrow> nat" where
  "hex_value c = (let n = (of_char c :: nat) in if n < 58 then n - 48 else n - 87)"

definition escaped :: "char \<Rightarrow> char" where
  "escaped c =
     (if c = CHR ''n'' then char_of (10 :: nat) else if c = CHR ''r'' then char_of (13 :: nat)
      else if c = CHR ''t'' then char_of (9 :: nat) else if c = CHR ''f'' then char_of (12 :: nat)
      else if c = CHR ''b'' then char_of (8 :: nat) else c)"

fun read_text :: "string \<Rightarrow> (string \<times> string) option" where
  "read_text [] = None"
| "read_text (c # cs) =
     (if (of_char c :: nat) = 34 then Some ([], cs)
      else if (of_char c :: nat) \<noteq> 92 then map_option (\<lambda>(s, rest). (c # s, rest)) (read_text cs)
      else
        (case cs of
           [] \<Rightarrow> None
         | e # ds \<Rightarrow>
             if e \<noteq> CHR ''u'' then map_option (\<lambda>(s, rest). (escaped e # s, rest)) (read_text ds)
             else
               (case ds of
                  z # y # h # l # rest' \<Rightarrow>
                    map_option (\<lambda>(s, rest). (char_of (16 * hex_value h + hex_value l) # s, rest))
                      (read_text rest')
                | _ \<Rightarrow> None)))"

lemma hex_value_digit [simp]: "n < 16 \<Longrightarrow> hex_value (hex_digit n) = n"
  by (simp add: hex_value_def of_char_hex_digit Let_def)

lemma quote_chars: "char_of (34 :: nat) = CHR 0x22" "char_of (92 :: nat) = CHR 0x5C"
  by code_simp+

lemma read_text_char:
  "read_text (json_char c @ cs) = map_option (\<lambda>(s, rest). (c # s, rest)) (read_text cs)"
proof -
  have hex: "16 * ((of_char c :: nat) div 16) + of_char c mod 16 = of_char c"
    "(of_char c :: nat) div 16 < 16" "(of_char c :: nat) mod 16 < 16"
    using char_nibbles [of c] by simp_all
  have same: "c = char_of n" if "(of_char c :: nat) = n" for n
    using that by (metis char_of_char)
  consider "(of_char c :: nat) \<in> {34, 92}" | "(of_char c :: nat) \<in> {8, 9, 10, 12, 13}"
    | "(of_char c :: nat) \<notin> {34, 92, 8, 9, 10, 12, 13}" "32 \<le> (of_char c :: nat)" "(of_char c :: nat) \<le> 126"
    | "(of_char c :: nat) \<notin> {34, 92, 8, 9, 10, 12, 13}" "\<not> (32 \<le> (of_char c :: nat) \<and> (of_char c :: nat) \<le> 126)"
    by blast
  then show ?thesis
  proof cases
    case 1
    then have "c = CHR 0x22 \<or> c = CHR 0x5C" using same [of 34] same [of 92] quote_chars by auto
    then show ?thesis by (auto simp: json_char_def escaped_def)
  next
    case 2
    then show ?thesis
      using same [of 8] same [of 9] same [of 10] same [of 12] same [of 13]
      by (auto simp: json_char_def escaped_def)
  next
    case 3
    then show ?thesis by (simp add: json_char_def)
  next
    case 4
    then have "json_char c = [char_of (92 :: nat), CHR ''u'', CHR ''0'', CHR ''0'',
        hex_digit (of_char c div 16), hex_digit (of_char c mod 16)]"
      by (auto simp: json_char_def Let_def)
    then show ?thesis using hex by simp
  qed
qed

lemma read_text_string: "read_text (concat (map json_char s) @ char_of (34 :: nat) # rest) = Some (s, rest)"
  by (induction s) (simp_all add: read_text_char)

fun read_scalar :: "string \<Rightarrow> (pyval \<times> string) option" where
  "read_scalar [] = None"
| "read_scalar (c # cs) =
     (if (of_char c :: nat) = 34 then map_option (\<lambda>(s, rest). (PStr s, rest)) (read_text cs)
      else if take 4 (c # cs) = ''null'' then Some (PNone, drop 4 (c # cs))
      else if take 4 (c # cs) = ''true'' then Some (PBool True, drop 4 (c # cs))
      else if take 5 (c # cs) = ''false'' then Some (PBool False, drop 5 (c # cs))
      else None)"

definition read_member :: "string \<Rightarrow> ((string \<times> pyval) \<times> string) option" where
  "read_member cs =
     (case cs of
        [] \<Rightarrow> None
      | q # cs1 \<Rightarrow>
          (case read_text cs1 of
             None \<Rightarrow> None
           | Some (key, cs2) \<Rightarrow>
               map_option (\<lambda>(v, rest). ((key, v), rest)) (read_scalar (drop 2 cs2))))"

text \<open>\<open>n\<close> bounds the number of members.\<close>

fun read_members :: "nat \<Rightarrow> string \<Rightarrow> pydict option" where
  "read_members 0 cs = None"
| "read_members (Suc n) cs =
     (case read_member cs of
        None \<Rightarrow> None
      | Some (kv, rest) \<Rightarrow>
          if rest = ''}'' then Some [kv]
          else map_option (\<lambda>d. kv # d) (read_members n (drop 2 rest)))"

definition json_object :: "string \<Rightarrow> pyval result" where
  "json_object text =
     (if text = ''{}'' then Inr (PDict [])
      else
        (case (if take 1 text = ''{'' then read_members (length text) (drop 1 text) else None) of
           None \<Rightarrow> Inl (JsonDecodeError ''not an object'')
         | Some d \<Rightarrow> Inr (PDict d)))"

lemma read_scalar_text:
  "scalar v \<Longrightarrow> read_scalar (json_dumps v @ rest) = Some (v, rest)"
  by (cases v) (auto simp: json_dumps_def json_string_def read_text_string)

lemma read_member_text:
  "scalar v \<Longrightarrow> read_member (member_text (k, v) @ rest) = Some ((k, v), rest)"
  by (simp add: read_member_def member_text_def json_string_def read_text_string read_scalar_text)

lemma read_members_text:
  assumes "list_all (\<lambda>(k, v). scalar v) d" and "d \<noteq> []" and "length d \<le> n"
  shows "read_members n (py_join '', '' (map member_text d) @ ''}'') = Some d"
  using assms
proof (induction d arbitrary: n)
  case Nil
  then show ?case by simp
next
  case (Cons kv d)
  obtain k v where kv: "kv = (k, v)" by (cases kv)
  obtain m where n: "n = Suc m" using Cons.prems(3) by (cases n) auto
  show ?case
  proof (cases d)
    case Nil
    with Cons.prems kv n show ?thesis by (simp add: read_member_text)
  next
    case (Cons kv' d')
    with Cons.prems kv n Cons.IH [of m] show ?thesis
      by (simp add: read_member_text)
  qed
qed

lemma length_py_join: "sep \<noteq> [] \<Longrightarrow> length ss \<le> Suc (length (py_join sep ss))"
proof (induction sep ss rule: py_join.induct)
  case (3 sep x y zs)
  then show ?case by (cases sep) auto
qed auto

lemma json_object_reads: "reads_objects json_object"
proof -
  have "\<exists>d'. json_object (json_dumps (PDict d)) = Inr (PDict d') \<and> map_of d' = map_of d"
    if "flat d" for d
  proof (intro exI conjI)
    have distinct: "distinct (map fst (sort_key fst d))"
      using that by (metis flat_def distinct_map distinct_sort set_sort)
    then show "map_of (sort_key fst d) = map_of d"
      using that by (intro map_of_eqI) (auto simp: flat_def)
    let ?members = "map member_text (sort_key fst d)"
    have "read_members (length (json_dumps (PDict d))) (py_join '', '' ?members @ ''}'') =
        Some (sort_key fst d)" if "d \<noteq> []"
    proof (rule read_members_text)
      show "list_all (\<lambda>(k, v). scalar v) (sort_key fst d)"
        using \<open>flat d\<close> by (simp add: flat_def list_all_iff)
      show "length (sort_key fst d) \<le> length (json_dumps (PDict d))"
        using length_py_join [of "'', ''" ?members] by (simp add: json_dumps_object)
    qed (use that in \<open>metis length_0_conv length_sort\<close>)
    moreover have "py_join '', '' ?members \<noteq> ''''" if "d \<noteq> []"
      using that by (cases "sort_key fst d"; cases "tl (sort_key fst d)")
        (auto simp: member_text_def json_string_def dest: arg_cong [where f = length])
    ultimately
    show "json_object (json_dumps (PDict d)) = Inr (PDict (sort_key fst d))"
      by (cases "d = []") (auto simp: json_object_def json_dumps_object)
  qed
  then show ?thesis by (simp add: reads_objects_def)
qed

end
