(* ===== verification/Reference_Observation.thy ===== *)
theory Reference_Observation
  imports Reference_Workload Json_Objects
begin

text \<open>
  The reference workload behind an API server that enforces a policy. \<open>rbac_api P a\<close> is the server
  \<open>a\<close> with an authorizer in front of every request, as Kubernetes documents it: a request whose
  attributes the policy does not allow is answered with 403, any other is handled by \<open>a\<close>. The
  central notion is \<open>observed\<close>: a run under a policy is the run on the bare server, cut at the first
  call the policy does not allow, and what the run prints says so.
\<close>

section \<open>A server that enforces a policy\<close>

definition attributes :: "string \<Rightarrow> string \<Rightarrow> string \<Rightarrow> string \<Rightarrow> string option \<Rightarrow> kube_event" where
  "attributes ns api_group resource verb name =
     \<lparr>ev_api_group = api_group, ev_resource = resource, ev_verb = verb, ev_namespace = Some ns,
      ev_resource_name = name, ev_workload_id = None\<rparr>"

definition authorized_call :: "policy \<Rightarrow> kube_event \<Rightarrow> ('k, 'a) call \<Rightarrow> ('k, 'a) call" where
  "authorized_call P e m =
     (if is_authorized P e then m else throw (ApiException (Some 403) (Some ''Forbidden'')))"

definition rbac_api :: "policy \<Rightarrow> 'k api \<Rightarrow> 'k api" where
  "rbac_api P a =
     \<lparr>api_read_config_map = \<lambda>n ns. authorized_call P (attributes ns '''' ''configmaps'' ''get'' (Some n))
        (api_read_config_map a n ns),
      api_read_secret = \<lambda>n ns. authorized_call P (attributes ns '''' ''secrets'' ''get'' (Some n))
        (api_read_secret a n ns),
      api_list_pods = \<lambda>ns. authorized_call P (attributes ns '''' ''pods'' ''list'' None) (api_list_pods a ns),
      api_create_job = \<lambda>n ns b. authorized_call P (attributes ns ''batch'' ''jobs'' ''create'' None)
        (api_create_job a n ns b),
      api_read_job = \<lambda>n ns. authorized_call P (attributes ns ''batch'' ''jobs'' ''get'' (Some n))
        (api_read_job a n ns),
      api_delete_job = \<lambda>n ns. authorized_call P (attributes ns ''batch'' ''jobs'' ''delete'' (Some n))
        (api_delete_job a n ns),
      api_read_lease = \<lambda>n ns. authorized_call P
        (attributes ns ''coordination.k8s.io'' ''leases'' ''get'' (Some n)) (api_read_lease a n ns),
      api_replace_lease = \<lambda>n ns b. authorized_call P
        (attributes ns ''coordination.k8s.io'' ''leases'' ''update'' (Some n)) (api_replace_lease a n ns b),
      api_create_lease = \<lambda>n ns b. authorized_call P
        (attributes ns ''coordination.k8s.io'' ''leases'' ''create'' None) (api_create_lease a n ns b)\<rparr>"

text \<open>A bare server that never answers 403 itself.\<close>

definition unforbidding :: "('k, 'a) call \<Rightarrow> bool" where
  "unforbidding m \<longleftrightarrow> (\<forall>k err k'. m k = (Inl err, k') \<longrightarrow> \<not> is_status 403 err)"

definition never_forbids :: "'k api \<Rightarrow> bool" where
  "never_forbids a \<longleftrightarrow>
     (\<forall>n ns. unforbidding (api_read_config_map a n ns) \<and> unforbidding (api_read_secret a n ns) \<and>
        unforbidding (api_list_pods a ns) \<and> unforbidding (api_read_job a n ns) \<and>
        unforbidding (api_delete_job a n ns) \<and> unforbidding (api_read_lease a n ns)) \<and>
     (\<forall>n ns b. unforbidding (api_create_job a n ns b) \<and> unforbidding (api_replace_lease a n ns b) \<and>
        unforbidding (api_create_lease a n ns b))"

section \<open>What is printed\<close>

definition printed :: "pydict list \<Rightarrow> string" where
  "printed ds = concat (map (\<lambda>d. json_dumps (PDict d) @ newline) ds)"

lemma printed_simps [simp]:
  "printed [] = ''''"
  "printed (d # ds) = json_dumps (PDict d) @ newline @ printed ds"
  "printed (ds @ es) = printed ds @ printed es"
  by (simp_all add: printed_def)

definition entry_event :: "pydict \<Rightarrow> kube_event" where
  "entry_event d =
     (case event_from_dict d of Inr e \<Rightarrow> e | Inl _ \<Rightarrow> attributes '''' '''' '''' '''' None)"

text \<open>The line of a call: flat, an event, not yet marked as denied, and of a kind the minimiser can
  grant.\<close>

definition call_entry :: "pydict \<Rightarrow> bool" where
  "call_entry d \<longleftrightarrow> flat d \<and> dget d ''kuber_event'' = PBool True \<and>
     map_of d ''kuber_denied'' = None \<and> map_of d ''message'' = None \<and>
     event_from_dict d = Inr (entry_event d) \<and> grantable (entry_event d)"

abbreviation allowed :: "policy \<Rightarrow> pydict \<Rightarrow> bool" where
  "allowed P d \<equiv> is_authorized P (entry_event d)"

definition refusal :: "api_error \<Rightarrow> bool" where
  "refusal err \<longleftrightarrow> err = ApiException (Some 403) (Some ''Forbidden'') \<or> err = HttpException 403 ''Forbidden''"

definition refused_at ::
  "('k kube_process, 'a) call \<Rightarrow> 'k kube_process \<Rightarrow> pydict list \<Rightarrow> pydict \<Rightarrow> bool" where
  "refused_at m s us d \<longleftrightarrow>
     (\<exists>err s'. m s = (Inl err, s') \<and> refusal err \<and>
        kw_stdout s' = kw_stdout s @ printed (us @ [d, denied_event d (Some ''Forbidden'')]))"

definition cut_at ::
  "policy \<Rightarrow> ('k kube_process, 'a) call \<Rightarrow> 'k kube_process \<Rightarrow> pydict list \<Rightarrow> bool" where
  "cut_at P m s ds \<longleftrightarrow>
     (\<exists>us d vs. ds = us @ d # vs \<and> list_all (allowed P) us \<and> \<not> allowed P d \<and> refused_at m s us d)"

definition observed_run ::
  "'k api \<Rightarrow> ('k api \<Rightarrow> ('k kube_process, 'a) call) \<Rightarrow> 'k kube_process \<Rightarrow>
   api_error + 'a \<Rightarrow> 'k kube_process \<Rightarrow> pydict list \<Rightarrow> bool" where
  "observed_run a m s r s' ds \<longleftrightarrow>
     m a s = (r, s') \<and> kw_stdout s' = kw_stdout s @ printed ds \<and> list_all call_entry ds \<and>
     (\<forall>P. if list_all (allowed P) ds then m (rbac_api P a) s = (r, s')
          else cut_at P (m (rbac_api P a)) s ds)"

definition observed :: "'k api \<Rightarrow> ('k api \<Rightarrow> ('k kube_process, 'a) call) \<Rightarrow> bool" where
  "observed a m \<longleftrightarrow> (\<forall>s. \<exists>r s' ds. observed_run a m s r s' ds)"

section \<open>Composition\<close>

lemma observed_runD:
  assumes "observed_run a m s r s' ds"
  shows "m a s = (r, s')" "kw_stdout s' = kw_stdout s @ printed ds" "list_all call_entry ds"
    and "list_all (allowed P) ds \<Longrightarrow> m (rbac_api P a) s = (r, s')"
    and "\<not> list_all (allowed P) ds \<Longrightarrow> cut_at P (m (rbac_api P a)) s ds"
  using assms by (auto simp: observed_run_def split: if_splits)

lemma observed_ret [simp]: "observed a (\<lambda>_. ret x)"
  by (auto simp: observed_def observed_run_def ret_def intro!: exI [of _ "[]"])

lemma observed_throw [simp]: "observed a (\<lambda>_. throw err)"
  by (auto simp: observed_def observed_run_def throw_def intro!: exI [of _ "[]"])

text \<open>A cut of the first part is a cut of the whole; a cut of the second part comes after all calls
  of the first.\<close>

lemma cut_at_first:
  assumes "cut_at P m s ds" and "\<And>us d. refused_at m s us d \<Longrightarrow> refused_at m' s us d"
  shows "cut_at P m' s (ds @ es)"
  using assms unfolding cut_at_def by (metis append_Cons append_assoc)

lemma cut_at_all:
  assumes "cut_at P m s ds" and "\<And>us d. refused_at m s us d \<Longrightarrow> refused_at m' s us d"
  shows "cut_at P m' s ds"
  using cut_at_first [OF assms, of "[]"] by simp

lemma cut_at_head: "\<not> allowed P d \<Longrightarrow> refused_at m s [] d \<Longrightarrow> cut_at P m s (d # vs)"
  unfolding cut_at_def by (rule exI [of _ "[]"], rule exI [of _ d], rule exI [of _ vs]) simp

lemma cut_at_second:
  assumes "cut_at P m u es" and "list_all (allowed P) ds"
    and "\<And>us d. refused_at m u us d \<Longrightarrow> refused_at m' s (ds @ us) d"
  shows "cut_at P m' s (ds @ es)"
proof -
  from assms(1) obtain us d vs where "es = us @ d # vs" "list_all (allowed P) us" "\<not> allowed P d"
    "refused_at m u us d" by (auto simp: cut_at_def)
  then show ?thesis
    unfolding cut_at_def using assms(2,3)
    by (intro exI [of _ "ds @ us"] exI [of _ d] exI [of _ vs]) simp
qed

lemma refused_at_continues:
  assumes "\<And>err v. m u = (Inl err, v) \<Longrightarrow> m' s = (Inl err, v)"
    and "kw_stdout u = kw_stdout s @ printed ds" and "refused_at m u us d"
  shows "refused_at m' s (ds @ us) d"
  using assms by (auto simp: refused_at_def)

lemma observed_seq:
  assumes m: "observed a m" and f: "\<And>x. observed a (\<lambda>b. f b x)"
  shows "observed a (\<lambda>b. seq (m b) (f b))"
  unfolding observed_def
proof
  fix s
  obtain r u ds where r: "observed_run a m s r u ds" using m unfolding observed_def by blast
  have refused: "refused_at (seq (m b) (f b)) s us d" if "refused_at (m b) s us d" for b us d
    using that by (auto simp: refused_at_def seq_def)
  show "\<exists>r s' ds. observed_run a (\<lambda>b. seq (m b) (f b)) s r s' ds"
  proof (cases r)
    case (Inl err)
    have runs: "seq (m b) (f b) s = (Inl err, u)" if "m b s = (Inl err, u)" for b
      using that by (simp add: seq_def)
    have "observed_run a (\<lambda>b. seq (m b) (f b)) s (Inl err) u ds"
      using observed_runD [OF r] Inl cut_at_all [OF observed_runD(5) [OF r] refused]
      by (simp add: observed_run_def runs)
    then show ?thesis by blast
  next
    case (Inr x)
    obtain q v es where q: "observed_run a (\<lambda>b. f b x) u q v es"
      using f [of x] unfolding observed_def by blast
    have runs: "seq (m b) (f b) s = f b x u" if "m b s = (Inr x, u)" for b
      using that by (simp add: seq_def)
    have cut: "cut_at P (seq (m (rbac_api P a)) (f (rbac_api P a))) s (ds @ es)"
      if "\<not> list_all (allowed P) (ds @ es)" for P
    proof (cases "list_all (allowed P) ds")
      case True
      then have here: "m (rbac_api P a) s = (Inr x, u)" using observed_runD(4) [OF r] Inr by simp
      show ?thesis
        by (rule cut_at_second [OF observed_runD(5) [OF q]])
          (use that True runs [OF here] observed_runD(2) [OF r]
            in \<open>auto intro: refused_at_continues\<close>)
    next
      case False
      then show ?thesis using observed_runD(5) [OF r] refused by (blast intro: cut_at_first)
    qed
    have "observed_run a (\<lambda>b. seq (m b) (f b)) s q v (ds @ es)"
      using observed_runD [OF r] observed_runD [OF q] Inr cut
      by (simp add: observed_run_def runs)
    then show ?thesis by blast
  qed
qed

text \<open>A handler may act on any error of the body, as long as a refusal stays a refusal.\<close>

lemma observed_catching:
  assumes m: "observed a m" and h: "\<And>err. observed a (\<lambda>b. h b err)"
    and rethrows: "\<And>b err. refusal err \<Longrightarrow> \<exists>err'. refusal err' \<and> h b err = throw err'"
  shows "observed a (\<lambda>b. catching (m b) (h b))"
  unfolding observed_def
proof
  fix s
  obtain r u ds where r: "observed_run a m s r u ds" using m unfolding observed_def by blast
  have refused: "refused_at (catching (m b) (h b)) s us d" if "refused_at (m b) s us d" for b us d
  proof -
    from that obtain err s' where "m b s = (Inl err, s')" "refusal err"
      "kw_stdout s' = kw_stdout s @ printed (us @ [d, denied_event d (Some ''Forbidden'')])"
      by (auto simp: refused_at_def)
    then show ?thesis
      using rethrows [of err b] by (auto simp: refused_at_def catching_def throw_def)
  qed
  show "\<exists>r s' ds. observed_run a (\<lambda>b. catching (m b) (h b)) s r s' ds"
  proof (cases r)
    case (Inr x)
    have runs: "catching (m b) (h b) s = (Inr x, u)" if "m b s = (Inr x, u)" for b
      using that by (simp add: catching_def)
    have "observed_run a (\<lambda>b. catching (m b) (h b)) s (Inr x) u ds"
      using observed_runD [OF r] Inr cut_at_all [OF observed_runD(5) [OF r] refused]
      by (simp add: observed_run_def runs)
    then show ?thesis by blast
  next
    case (Inl err)
    obtain q v es where q: "observed_run a (\<lambda>b. h b err) u q v es"
      using h [of err] unfolding observed_def by blast
    have runs: "catching (m b) (h b) s = h b err u" if "m b s = (Inl err, u)" for b
      using that by (simp add: catching_def)
    have cut: "cut_at P (catching (m (rbac_api P a)) (h (rbac_api P a))) s (ds @ es)"
      if "\<not> list_all (allowed P) (ds @ es)" for P
    proof (cases "list_all (allowed P) ds")
      case True
      then have here: "m (rbac_api P a) s = (Inl err, u)" using observed_runD(4) [OF r] Inl by simp
      show ?thesis
        by (rule cut_at_second [OF observed_runD(5) [OF q]])
          (use that True runs [OF here] observed_runD(2) [OF r]
            in \<open>auto intro: refused_at_continues\<close>)
    next
      case False
      then show ?thesis using observed_runD(5) [OF r] refused by (blast intro: cut_at_first)
    qed
    have "observed_run a (\<lambda>b. catching (m b) (h b)) s q v (ds @ es)"
      using observed_runD [OF r] observed_runD [OF q] Inl cut
      by (simp add: observed_run_def runs)
    then show ?thesis by blast
  qed
qed

text \<open>One instrumented call.\<close>

lemma observed_tracked:
  fixes f :: "'k api \<Rightarrow> ('k, 'c) call"
  assumes entry: "call_entry d" and same: "\<And>P. is_authorized P e = allowed P d"
    and guarded: "\<And>P. f (rbac_api P a) = authorized_call P e (f a)" and bare: "unforbidding (f a)"
  shows "observed a (\<lambda>b. tracked d (f b))"
  unfolding observed_def
proof
  fix s :: "'k kube_process"
  obtain r k where run: "f a (kw_server s) = (r, k)" by fastforce
  let ?s = "s\<lparr>kw_stdout := kw_stdout s @ printed [d], kw_server := k\<rparr>"
  have bare_run: "tracked d (f a) s = (r, ?s)"
    using bare run unfolding unforbidding_def
    by (cases r) (auto simp: tracked_def seq_def print_json_def catching_def on_server_def throw_def)
  have "refused_at (tracked d (throw (ApiException (Some 403) (Some ''Forbidden'')) :: ('k, 'c) call)) s [] d"
    by (simp add: refused_at_def tracked_def seq_def print_json_def catching_def on_server_def
        throw_def refusal_def)
  then have "observed_run a (\<lambda>b. tracked d (f b)) s r ?s [d]"
    using bare_run entry
    by (simp add: observed_run_def guarded authorized_call_def same cut_at_head)
  then show "\<exists>r s' ds. observed_run a (\<lambda>b. tracked d (f b)) s r s' ds" by blast
qed

section \<open>The workload is observed\<close>

lemma entry_event_call:
  "event_from_dict (call_event t g r v n) =
     Inr \<lparr>ev_api_group = g, ev_resource = r, ev_verb = v, ev_namespace = Some (tk_namespace t),
          ev_resource_name = n,
          ev_workload_id = (if truthy_opt (tk_workload_id t) then tk_workload_id t else None)\<rparr>"
  using text_or_none_opt_str [of "Some (tk_namespace t)"] text_or_none_opt_str [of None]
  by (auto simp: call_event_def event_from_dict_def req_text_def)

lemma call_entry_call:
  assumes "v \<in> set supported_verbs" and "is_supported_resource g r"
  shows "call_entry (call_event t g r v n)"
proof -
  have "flat (call_event t g r v n)"
    by (cases n; cases "tk_workload_id t") (auto simp: call_event_def flat_def)
  moreover have "map_of (call_event t g r v n) ''kuber_denied'' = None"
    "map_of (call_event t g r v n) ''message'' = None"
    "dget (call_event t g r v n) ''kuber_event'' = PBool True"
    by (auto simp: call_event_def dget_def)
  ultimately show ?thesis
    using assms by (simp add: call_entry_def entry_event_def entry_event_call grantable_def)
qed

text \<open>The line of a call names the attributes the server checks; the name a creation carries in the
  line is not checked by any rule, since no name is part of its request.\<close>

lemma call_attributes:
  assumes "v \<notin> set resource_name_verbs \<or> m = n"
  shows "is_authorized P (attributes (tk_namespace t) g r v m) = allowed P (call_event t g r v n)"
  using assms
  by (auto simp: is_authorized_iff matches_iff entry_event_def entry_event_call attributes_def)

lemma supported_calls [simp]:
  "is_supported_resource '''' ''configmaps''" "is_supported_resource '''' ''secrets''"
  "is_supported_resource '''' ''pods''" "is_supported_resource ''batch'' ''jobs''"
  "is_supported_resource ''coordination.k8s.io'' ''leases''"
  "''get'' \<in> set supported_verbs" "''list'' \<in> set supported_verbs" "''create'' \<in> set supported_verbs"
  "''update'' \<in> set supported_verbs" "''delete'' \<in> set supported_verbs"
  "''get'' \<in> set resource_name_verbs" "''update'' \<in> set resource_name_verbs"
  "''delete'' \<in> set resource_name_verbs" "''list'' \<notin> set resource_name_verbs"
  "''create'' \<notin> set resource_name_verbs"
  by code_simp+

named_theorems observed_intros "the parts of the workload are observed"

lemmas call_rule = observed_tracked [OF call_entry_call call_attributes]

lemma observed_read_config_map [observed_intros]:
  "never_forbids a \<Longrightarrow> observed a (\<lambda>b. read_config_map b t n)"
  unfolding read_config_map_def
  by (intro observed_seq observed_ret call_rule) (simp_all add: never_forbids_def rbac_api_def)

lemma observed_read_secret [observed_intros]:
  "never_forbids a \<Longrightarrow> observed a (\<lambda>b. read_secret b t n)"
  unfolding read_secret_def
  by (intro observed_seq observed_ret call_rule) (simp_all add: never_forbids_def rbac_api_def)

lemma observed_list_pod_names [observed_intros]:
  "never_forbids a \<Longrightarrow> observed a (\<lambda>b. list_pod_names b t)"
  unfolding list_pod_names_def
  by (intro call_rule) (simp_all add: never_forbids_def rbac_api_def)

lemma observed_create_job [observed_intros]:
  "never_forbids a \<Longrightarrow> observed a (\<lambda>b. create_job b t n)"
  unfolding create_job_def
  by (rule observed_catching; (rule call_rule)?)
    (auto simp: never_forbids_def rbac_api_def refusal_def)

lemma observed_get_job [observed_intros]:
  "never_forbids a \<Longrightarrow> observed a (\<lambda>b. get_job b t n)"
  unfolding get_job_def
  by (intro observed_seq observed_ret call_rule) (simp_all add: never_forbids_def rbac_api_def)

lemma observed_delete_job [observed_intros]:
  "never_forbids a \<Longrightarrow> observed a (\<lambda>b. delete_job b t n)"
  unfolding delete_job_def
  by (intro call_rule) (simp_all add: never_forbids_def rbac_api_def)

lemma observed_if: "observed a m \<Longrightarrow> observed a m' \<Longrightarrow> observed a (\<lambda>b. if c then m b else m' b)"
  by (cases c) simp_all

lemma observed_renew_leader_lease [observed_intros]:
  assumes "never_forbids a"
  shows "observed a (\<lambda>b. renew_leader_lease b t n)"
proof -
  have lease: "observed a (\<lambda>b. tracked (lease_event t v n) (f b))"
    if "v \<in> {''get'', ''update'', ''create''}" and "unforbidding (f a)"
      and "\<And>P. f (rbac_api P a) = authorized_call P
            (attributes (tk_namespace t) ''coordination.k8s.io'' ''leases'' v
              (if v = ''create'' then None else Some n)) (f a)"
    for v and f :: "'a api \<Rightarrow> ('a, 'b) call"
    unfolding lease_event_def by (rule call_rule [OF _ _ _ that(3,2)]) (use that(1) in auto)
  show ?thesis
    unfolding renew_leader_lease_def
    by (rule observed_catching)
      (use assms in \<open>auto intro!: observed_seq observed_if lease simp: never_forbids_def rbac_api_def refusal_def\<close>)
qed

lemma observed_handler:
  "observed a m \<Longrightarrow> observed a (\<lambda>b. handler (m b))"
  unfolding handler_def by (rule observed_catching) (auto simp: refusal_def or_default_def)

lemma observed_config_profile [observed_intros]:
  "never_forbids a \<Longrightarrow> observed a (\<lambda>b. config_profile b t i)"
  unfolding config_profile_def by (intro observed_seq observed_ret observed_intros)

lemma observed_secret_profile [observed_intros]:
  "never_forbids a \<Longrightarrow> observed a (\<lambda>b. secret_profile b t i n)"
  unfolding secret_profile_def by (intro observed_seq observed_ret observed_intros)

lemma observed_profile [observed_intros]:
  "never_forbids a \<Longrightarrow> observed a (\<lambda>b. profile b t i)"
  unfolding profile_def
  by (intro observed_handler observed_seq observed_if observed_ret observed_throw observed_intros)

lemma observed_reconcile [observed_intros]:
  "never_forbids a \<Longrightarrow> observed a (\<lambda>b. reconcile b t n)"
  unfolding reconcile_def by (intro observed_handler observed_seq observed_ret observed_intros)

lemma observed_serve_route:
  assumes "never_forbids a"
  shows "observed a (\<lambda>b. serve_route b ns i rt)"
  by (cases rt; simp add: health_def config_route_def secret_route_def pods_route_def
        leader_election_def rare_workflow_def)
    (intro observed_handler observed_if observed_seq observed_ret observed_throw observed_intros assms;
      fail)+

end
