(* ===== verification/Reference_Evidence.thy ===== *)
theory Reference_Evidence
  imports Reference_Observation
begin

text \<open>
  What Kuber's log reader makes of the lines the reference workload prints, and with it the loop of
  observing, reducing and repairing against a server that enforces the policy.
\<close>

section \<open>Lines\<close>

lemma join_crlf_plain: "char_of (13 :: nat) \<notin> set s \<Longrightarrow> join_crlf s = s"
  by (induction s rule: join_crlf.induct) auto

lemma lines_from_line:
  "list_all (\<lambda>c. \<not> line_break c) l \<Longrightarrow>
   lines_from current (l @ newline @ rest) = (current @ l) # lines_from '''' rest"
  by (induction l arbitrary: current) (auto simp: newline_def line_break_def)

lemma ascii_no_break: "ascii l \<Longrightarrow> list_all (\<lambda>c. \<not> line_break c) l"
  by (auto simp: ascii_def line_break_def list_all_iff Let_def)

lemma ascii_no_return: "ascii l \<Longrightarrow> char_of (13 :: nat) \<notin> set l"
  by (auto simp: ascii_def list_all_iff)

lemma split_lines_printed:
  assumes "list_all ascii ls"
  shows "split_lines (concat (map (\<lambda>l. l @ newline) ls)) = ls"
proof -
  have "char_of (13 :: nat) \<notin> set (concat (map (\<lambda>l. l @ newline) ls))"
    using assms ascii_no_return by (auto simp: list_all_iff newline_def dest!: inj_onD [OF inj_of_char, rotated])
  moreover have "lines_from '''' (concat (map (\<lambda>l. l @ newline) ls)) = ls"
    using assms
  proof (induction ls)
    case (Cons l ls)
    then show ?case using lines_from_line [OF ascii_no_break, of l "''''"] by simp
  qed simp
  ultimately show ?thesis by (simp add: split_lines_def join_crlf_plain)
qed

lemma json_part_object: "json_part (json_dumps (PDict d)) = json_dumps (PDict d)"
  by (simp add: json_part_def json_dumps_object)

section \<open>Entries\<close>

lemma event_from_dict_cong: "map_of d = map_of d' \<Longrightarrow> event_from_dict d = event_from_dict d'"
  by (simp add: event_from_dict_def req_text_def dget_def dget_or_def dget_req_def)

lemma dget_denied [simp]:
  "map_of d ''kuber_denied'' = None \<Longrightarrow> dget (denied_event d reason) ''kuber_denied'' = PBool True"
  by (simp add: denied_event_def dget_def map_add_def)

lemma map_of_denied:
  "k \<noteq> ''kuber_denied'' \<Longrightarrow> k \<noteq> ''message'' \<Longrightarrow> map_of (denied_event d reason) k = map_of d k"
  by (simp add: denied_event_def map_add_def split: option.splits)

lemma event_from_denied: "event_from_dict (denied_event d reason) = event_from_dict d"
  by (simp add: event_from_dict_def req_text_def dget_def dget_or_def dget_req_def map_of_denied)

lemma flat_denied: "call_entry d \<Longrightarrow> flat (denied_event d reason)"
  by (cases reason) (auto simp: call_entry_def flat_def denied_event_def map_of_eq_None_iff)

lemma line_event_printed:
  assumes "reads_objects loads" and "flat d" and "dget d ''kuber_event'' = PBool True"
    and "event_from_dict d = Inr e"
  shows "line_event loads den (json_dumps (PDict d)) =
    Inr (if den \<and> dget d ''kuber_denied'' \<noteq> PBool True then None else Some e)"
proof -
  from assms(1,2) obtain d' where d': "loads (json_dumps (PDict d)) = Inr (PDict d')" "map_of d' = map_of d"
    by (auto simp: reads_objects_def)
  have "dget d' k = dget d k" for k using d'(2) by (simp add: dget_def)
  with d'(1) assms(3,4) event_from_dict_cong [OF d'(2)] show ?thesis
    by (simp add: line_event_def json_part_object)
qed

lemma line_event_call:
  assumes "reads_objects loads" and "call_entry d"
  shows "line_event loads den (json_dumps (PDict d)) = Inr (if den then None else Some (entry_event d))"
  using line_event_printed [OF assms(1), of d] assms(2) by (simp add: call_entry_def dget_def)

lemma line_event_denied:
  assumes "reads_objects loads" and "call_entry d"
  shows "line_event loads den (json_dumps (PDict (denied_event d reason))) = Inr (Some (entry_event d))"
proof -
  have "dget (denied_event d reason) ''kuber_event'' = PBool True"
    using assms(2) by (simp add: call_entry_def dget_def map_of_denied)
  then show ?thesis
    using line_event_printed [OF assms(1) flat_denied [OF assms(2)]] assms(2)
    by (simp add: event_from_denied call_entry_def)
qed

section \<open>What is collected\<close>

lemma split_printed:
  "list_all flat ds \<Longrightarrow> split_lines (printed ds) = map (\<lambda>d. json_dumps (PDict d)) ds"
  using split_lines_printed [of "map (\<lambda>d. json_dumps (PDict d)) ds"]
  by (simp add: printed_def list_all_iff ascii_object comp_def)

lemma lines_of_calls:
  assumes "reads_objects loads" and "list_all call_entry ds"
  shows "rmap (line_event loads den) (map (\<lambda>d. json_dumps (PDict d)) ds) =
    Inr (map (\<lambda>d. if den then None else Some (entry_event d)) ds)"
  using assms(2) by (induction ds) (simp_all add: line_event_call [OF assms(1)])

lemma map_filter_Some [simp]: "List.map_filter (\<lambda>e. e) (map (\<lambda>x. Some (g x)) xs) = map g xs"
  by (simp add: List.map_filter_def comp_def)

lemma map_filter_None [simp]: "List.map_filter (\<lambda>e. e) (map (\<lambda>x. None) xs) = []"
  by (simp add: List.map_filter_def)

lemma entries_flat: "list_all call_entry ds \<Longrightarrow> list_all flat ds"
  by (simp add: list_all_iff call_entry_def)

text \<open>The evidence of a run without refusals is the calls it made; nothing is reported as denied.\<close>

lemma collect_calls:
  assumes "reads_objects loads" and "list_all call_entry ds"
  shows "collect_events loads False (printed ds) = Inr (uniq (map entry_event ds))"
    and "collect_events loads True (printed ds) = Inr []"
  using assms by (simp_all add: collect_events_def split_printed entries_flat lines_of_calls)

text \<open>After a refusal the one denied event is the call that was refused.\<close>

lemma collect_refused:
  assumes "reads_objects loads" and "list_all call_entry (us @ [d])"
  shows "collect_events loads True (printed (us @ [d, denied_event d reason])) = Inr [entry_event d]"
proof -
  have "list_all flat (us @ [d, denied_event d reason])"
    using assms(2) entries_flat [of "us @ [d]"] flat_denied by simp
  note split = split_printed [OF this]
  have "rmap (line_event loads True)
      (map (\<lambda>d. json_dumps (PDict d)) (us @ [d, denied_event d reason])) =
      Inr (map (\<lambda>d. None) (us @ [d]) @ [Some (entry_event d)])"
    using lines_of_calls [OF assms, of True] rmap_append_Inr [OF lines_of_calls [OF assms, of True],
        of "[json_dumps (PDict (denied_event d reason))]"] line_event_denied [OF assms(1), of d True] assms(2)
    by simp
  then show ?thesis
    unfolding collect_events_def split by (simp add: List.map_filter_def uniq_def dict_of_def)
qed

section \<open>Sessions\<close>

text \<open>A client that sends requests one after another and stops at the first error, as the smoke
  tests do.\<close>

fun serve_all ::
  "'k api \<Rightarrow> string \<Rightarrow> string \<Rightarrow> route list \<Rightarrow> ('k kube_process, pyval list) call" where
  "serve_all a ns i [] = ret []"
| "serve_all a ns i (rt # rts) =
     seq (serve_route a ns i rt) (\<lambda>v. seq (serve_all a ns i rts) (\<lambda>vs. ret (v # vs)))"

lemma observed_serve_all:
  assumes "never_forbids a"
  shows "observed a (\<lambda>b. serve_all b ns i rts)"
proof (induction rts)
  case Nil
  then show ?case by simp
next
  case (Cons rt rts)
  then show ?case
    using observed_serve_route [OF assms] by (auto intro!: observed_seq)
qed

text \<open>A run that returns under some policy is the run on the bare server, and fixes what every
  other policy makes of it.\<close>

lemma returned_run:
  assumes "never_forbids a" and "serve_all (rbac_api P a) ns i rts s = (Inr vs, s')"
  obtains ds where "kw_stdout s' = kw_stdout s @ printed ds" "list_all call_entry ds"
    "list_all (allowed P) ds"
    "\<And>Q. list_all (allowed Q) ds \<Longrightarrow> serve_all (rbac_api Q a) ns i rts s = (Inr vs, s')"
    "\<And>Q. \<not> list_all (allowed Q) ds \<Longrightarrow> cut_at Q (serve_all (rbac_api Q a) ns i rts) s ds"
proof -
  obtain r u ds where run: "observed_run a (\<lambda>b. serve_all b ns i rts) s r u ds"
    using observed_serve_all [OF assms(1)] unfolding observed_def by blast
  have all: "list_all (allowed P) ds"
    using observed_runD(5) [OF run, of P] assms(2) by (auto simp: cut_at_def refused_at_def)
  then have "r = Inr vs" "u = s'" using observed_runD(4) [OF run] assms(2) by simp_all
  then show thesis using that observed_runD [OF run] all by blast
qed

text \<open>Every error a route answers with is an HTTP error.\<close>

lemma forbidden_http: "\<not> is_api_exception (forbidden err)"
  by (cases err) simp_all

lemma handler_error: "handler m s = (Inl err, s') \<Longrightarrow> \<not> is_api_exception err"
  by (auto simp: handler_def catching_def throw_def forbidden_http split: prod.splits sum.splits)

lemma serve_route_error: "serve_route a ns i rt s = (Inl err, s') \<Longrightarrow> \<not> is_api_exception err"
  by (cases rt) (auto simp: health_def config_route_def secret_route_def pods_route_def reconcile_def
      leader_election_def profile_def rare_workflow_def throw_def ret_def
      dest: handler_error split: if_splits)

lemma serve_all_error: "serve_all a ns i rts s = (Inl err, s') \<Longrightarrow> \<not> is_api_exception err"
  by (induction rts arbitrary: s) (auto simp: op_simps dest: serve_route_error)

end
