(* ===== verification/Reference_Properties.thy ===== *)
theory Reference_Properties
  imports Reference_Evidence Samples
begin

text \<open>
  Properties of the chain from the instrumented workload through the log reader to the minimiser
  and the repair, with their witnesses. \<open>sample_api\<close> is a small API server.
\<close>

section \<open>Runs that are refused\<close>

lemma events_allowed:
  "list_all (allowed P) ds \<longleftrightarrow> (\<forall>e \<in> set (uniq (map entry_event ds)). is_authorized P e)"
  by (simp add: list_all_iff)

lemma entries_grantable: "list_all call_entry ds \<Longrightarrow> e \<in> set (map entry_event ds) \<Longrightarrow> grantable e"
  by (auto simp: list_all_iff call_entry_def)

text \<open>What a refused run leaves, compared with the run that returned.\<close>

lemma refused_run:
  assumes "never_forbids a" and "reads_objects loads" and "kw_stdout s = ''''"
    and good: "serve_all (rbac_api P a) ns i rts s = (Inr vs, s')"
    and bad: "serve_all (rbac_api Q a) ns i rts s = (Inl err, t)"
  shows "\<exists>e. collect_events loads True (kw_stdout t) = Inr [e] \<and> is_authorized P e \<and>
    \<not> is_authorized Q e \<and> grantable e \<and> refusal err \<and>
    (\<exists>events. collect_events loads False (kw_stdout s') = Inr events \<and> e \<in> set events)"
proof -
  obtain ds where out: "kw_stdout s' = kw_stdout s @ printed ds" and entries: "list_all call_entry ds"
    and P: "list_all (allowed P) ds"
    and returns: "\<And>Q. list_all (allowed Q) ds \<Longrightarrow> serve_all (rbac_api Q a) ns i rts s = (Inr vs, s')"
    and cut: "\<And>Q. \<not> list_all (allowed Q) ds \<Longrightarrow> cut_at Q (serve_all (rbac_api Q a) ns i rts) s ds"
    using returned_run [OF assms(1) good] by metis
  have "cut_at Q (serve_all (rbac_api Q a) ns i rts) s ds"
    using cut [of Q] returns [of Q] bad by force
  then obtain us d rest where d: "ds = us @ d # rest" "\<not> allowed Q d"
    and t: "refusal err" "kw_stdout t = printed (us @ [d, denied_event d (Some ''Forbidden'')])"
    using bad assms(3) by (auto simp: cut_at_def refused_at_def)
  have calls: "list_all call_entry (us @ [d])" using entries d(1) by simp
  show ?thesis
  proof (intro exI conjI)
    show "collect_events loads True (kw_stdout t) = Inr [entry_event d]"
      unfolding t(2) by (rule collect_refused [OF assms(2) calls])
    show "collect_events loads False (kw_stdout s') = Inr (uniq (map entry_event ds))"
      using collect_calls(1) [OF assms(2) entries] out assms(3) by simp
    show "grantable (entry_event d)" using entries_grantable [OF calls, of "entry_event d"] by simp
  qed (use d t(1) P in auto)
qed

text \<open>A repair grants what the candidate or the original policy allows, and nothing else.\<close>

lemma repair_bounded:
  assumes "repair_policy Q es P = Inr R" and "is_authorized R f"
  shows "is_authorized Q f \<or> is_authorized P f"
proof -
  from assms(1) obtain ps where ps: "rmap event_permission es = Inr ps" and auth: "\<forall>e \<in> set es. is_authorized P e"
    by (auto simp: repair_Inr_iff)
  from assms(2) repair_authorizes_iff [OF assms(1) ps] consider "is_authorized Q f" | p where "p \<in> set ps" "matches p f"
    by blast
  then show ?thesis
  proof cases
    case 2
    with ps auth show ?thesis by (auto simp: is_authorized_iff [of P] intro: grants.grants_bounded)
  qed simp
qed

section \<open>Properties\<close>

text \<open>C12: The observed-only policy of a successful session suffices for it. If the reference
  workload answers a series of requests without an error while the server enforces a policy, the log
  reader finds exactly the calls it made, the minimiser accepts them, and with the server enforcing
  the minimised policy the same requests get the same answers, print the same log and leave the
  server in the same state.\<close>

theorem observed_policy_suffices:
  assumes "never_forbids a" and "reads_objects loads" and "kw_stdout s = ''''"
    and "serve_all (rbac_api P a) ns i rts s = (Inr vs, s')"
  shows "\<exists>events Q. collect_events loads False (kw_stdout s') = Inr events \<and>
    collect_events loads True (kw_stdout s') = Inr [] \<and>
    observed_only_policy P events = Inr Q \<and>
    serve_all (rbac_api Q a) ns i rts s = (Inr vs, s')"
proof -
  obtain ds where out: "kw_stdout s' = kw_stdout s @ printed ds" and entries: "list_all call_entry ds"
    and P: "list_all (allowed P) ds"
    and returns: "\<And>Q. list_all (allowed Q) ds \<Longrightarrow> serve_all (rbac_api Q a) ns i rts s = (Inr vs, s')"
    using returned_run [OF assms(1,4)] by metis
  let ?events = "uniq (map entry_event ds)"
  have "\<exists>Q. observed_only_policy P ?events = Inr Q"
    using P entries_grantable [OF entries] by (auto simp: observed_only_succeeds_iff list_all_iff)
  then obtain Q where Q: "observed_only_policy P ?events = Inr Q" by blast
  then have "list_all (allowed Q) ds"
    unfolding events_allowed using observed_only_authorizes by blast
  with returns Q collect_calls [OF assms(2) entries] out assms(3) show ?thesis by auto
qed

text \<open>C23: A refused request names the missing grant. If the same requests fail under another policy,
  the failure is a 403, the log reader finds exactly one denied event, and that event is one of the
  calls of the successful session: the first policy allows it, the other does not, so the repair
  succeeds; the repaired policy keeps what the other policy allows, allows the event, and allows
  nothing that neither of the two policies does.\<close>

theorem refusal_names_missing_grant:
  assumes "never_forbids a" and "reads_objects loads" and "kw_stdout s = ''''"
    and "serve_all (rbac_api P a) ns i rts s = (Inr vs, s')"
    and "serve_all (rbac_api Q a) ns i rts s = (Inl err, t)"
  shows "\<exists>e events R. collect_events loads True (kw_stdout t) = Inr [e] \<and>
    collect_events loads False (kw_stdout s') = Inr events \<and> e \<in> set events \<and>
    is_authorized P e \<and> \<not> is_authorized Q e \<and>
    repair_policy Q [e] P = Inr R \<and> is_authorized R e \<and> no_more_than Q R \<and>
    (\<forall>f. is_authorized R f \<longrightarrow> is_authorized Q f \<or> is_authorized P f) \<and>
    err = HttpException 403 ''Forbidden''"
proof -
  obtain e events where e: "collect_events loads True (kw_stdout t) = Inr [e]" "is_authorized P e"
    "\<not> is_authorized Q e" "grantable e" "refusal err"
    "collect_events loads False (kw_stdout s') = Inr events" "e \<in> set events"
    using refused_run [OF assms] by blast
  then obtain R where R: "repair_policy Q [e] P = Inr R"
    using repair_succeeds_iff [of Q "[e]" P] by auto
  have "err = HttpException 403 ''Forbidden''"
    using e(5) serve_all_error [OF assms(5)] by (auto simp: refusal_def)
  with e R repair_authorizes_missing [OF R] repair_keeps_candidate [OF R] repair_bounded [OF R] show ?thesis by auto
qed

section \<open>Witnesses\<close>

definition sample_api :: "nat api" where
  "sample_api =
     \<lparr>api_read_config_map = \<lambda>n ns k. (Inr (Some [(''mode'', ''live'')]), k),
      api_read_secret = \<lambda>n ns k. (Inr (Some [(''token'', ''t'')]), k),
      api_list_pods = \<lambda>ns k. (Inr [''web-1''], k),
      api_create_job = \<lambda>n ns b k. (if 0 < k then Inl (ApiException (Some 409) (Some ''Conflict'')) else Inr (), 1),
      api_read_job = \<lambda>n ns k. (Inr (PStr n), k),
      api_delete_job = \<lambda>n ns k. (Inr (), 0),
      api_read_lease = \<lambda>n ns k. (Inl (ApiException (Some 404) (Some ''Not Found'')), k),
      api_replace_lease = \<lambda>n ns b k. (Inr (), k),
      api_create_lease = \<lambda>n ns b k. (Inr b, k)\<rparr>"

lemma sample_api_never_forbids: "never_forbids sample_api"
  by (auto simp: never_forbids_def unforbidding_def sample_api_def)

abbreviation sample_process :: "nat kube_process" where
  "sample_process \<equiv> \<lparr>kw_stdout = '''', kw_server = 0\<rparr>"

abbreviation sample_session :: "policy \<Rightarrow> (api_error, nat kube_process, pyval list) raising" where
  "sample_session P \<equiv> serve_all (rbac_api P sample_api) ''prod'' ''api'' [Config, Pods]"

lemma sample_session_returns:
  "sample_session sample_policy sample_process =
     (Inr [PDict [(''data'', PDict [(''mode'', PStr ''live'')])], PDict [(''pods'', PList [PStr ''web-1''])]],
      snd (sample_session sample_policy sample_process))"
  by code_simp

lemma sample_session_refused:
  "sample_session narrow_policy sample_process =
     (Inl (HttpException 403 ''Forbidden''), snd (sample_session narrow_policy sample_process))"
  by code_simp

theorem observed_policy_suffices_witness:
  "\<exists>events Q. collect_events json_object False (kw_stdout (snd (sample_session sample_policy sample_process))) = Inr events \<and>
     observed_only_policy sample_policy events = Inr Q \<and>
     fst (sample_session Q sample_process) = fst (sample_session sample_policy sample_process)"
proof -
  obtain events Q where "collect_events json_object False (kw_stdout (snd (sample_session sample_policy sample_process))) = Inr events"
    "observed_only_policy sample_policy events = Inr Q"
    "sample_session Q sample_process =
       (Inr [PDict [(''data'', PDict [(''mode'', PStr ''live'')])], PDict [(''pods'', PList [PStr ''web-1''])]],
        snd (sample_session sample_policy sample_process))"
    using observed_policy_suffices [OF sample_api_never_forbids json_object_reads _ sample_session_returns]
    by auto
  then show ?thesis by (metis fst_conv sample_session_returns)
qed

theorem refusal_names_missing_grant_witness:
  "\<exists>e R. collect_events json_object True (kw_stdout (snd (sample_session narrow_policy sample_process))) = Inr [e] \<and>
     repair_policy narrow_policy [e] sample_policy = Inr R \<and> is_authorized R e"
  using refusal_names_missing_grant [OF sample_api_never_forbids json_object_reads _
      sample_session_returns sample_session_refused]
  by auto

end
