(* ===== verification/Port_Forwards.thy ===== *)
theory Port_Forwards
  imports Complex_Main Environment
begin

text \<open>
  \<open>kubernetes_runtime/runtime.py\<close>: the context manager that owns the \<open>kubectl port-forward\<close>
  processes of a sandbox run. Processes, sockets and the clock are ports over a world \<open>'k\<close>; a
  process is its number. \<open>fp_connect\<close> tells whether a connection was made (\<open>False\<close> for an
  \<open>OSError\<close>), \<open>fp_wait\<close> is \<open>wait(timeout=5)\<close>, \<open>fp_sleep\<close> is \<open>sleep(0.2)\<close>.
\<close>

record 'k forward_ports =
  fp_popen :: "string list \<Rightarrow> ('k, nat) op"
  fp_terminate :: "nat \<Rightarrow> ('k, unit) op"
  fp_wait :: "nat \<Rightarrow> ('k, unit) op"
  fp_kill :: "nat \<Rightarrow> ('k, unit) op"
  fp_poll :: "nat \<Rightarrow> ('k, int option) op"
  fp_stderr :: "nat \<Rightarrow> ('k, string) op"
  fp_connect :: "nat \<Rightarrow> ('k, bool) op"
  fp_sleep :: "('k, unit) op"
  fp_now :: "'k \<Rightarrow> rat"

record 'k forwards =
  fw_processes :: "nat list"
  fw_world :: 'k

definition forward_world :: "('k, 'a) op \<Rightarrow> ('k forwards, 'a) op" where
  "forward_world m s = (case m (fw_world s) of (r, k) \<Rightarrow> (r, s\<lparr>fw_world := k\<rparr>))"

definition forward_command :: "string \<Rightarrow> string \<Rightarrow> string list" where
  "forward_command resource mapping =
     [''kubectl'', ''--context'', ''kind-kuber'', ''-n'', ''kuber-sandbox'', ''port-forward'', resource, mapping]"

definition start_forward :: "'k forward_ports \<Rightarrow> string \<Rightarrow> string \<Rightarrow> ('k forwards, nat) op" where
  "start_forward p resource mapping = forward_world (fp_popen p (forward_command resource mapping))"

text \<open>\<open>any(process.poll() is not None for process in ...)\<close> stops at the first that has ended.\<close>

fun any_ended :: "'k forward_ports \<Rightarrow> nat list \<Rightarrow> ('k, bool) op" where
  "any_ended p [] = ret False"
| "any_ended p (pid # pids) =
     seq (fp_poll p pid) (\<lambda>code. if code \<noteq> None then ret True else any_ended p pids)"

fun read_errors :: "'k forward_ports \<Rightarrow> nat list \<Rightarrow> ('k, string list) op" where
  "read_errors p [] = ret []"
| "read_errors p (pid # pids) =
     seq (fp_stderr p pid) (\<lambda>e. seq (read_errors p pids) (\<lambda>es. ret (e # es)))"

text \<open>A round that does not stop sleeps a fifth of a second, so the 20 seconds are over after 100
  rounds, and the next one ends the loop. Where the clock does not advance the loop never ends;
  running out of rounds is an exception of its own, which the code does not have.\<close>

definition forward_rounds :: nat where
  "forward_rounds = 101"

definition try_port :: "'k forward_ports \<Rightarrow> nat list \<Rightarrow> nat \<Rightarrow> ('k, bool) op" where
  "try_port p pids port =
     seq (fp_connect p port) (\<lambda>connected.
     if connected then ret True
     else
       seq (any_ended p pids) (\<lambda>ended.
       if ended then
         seq (read_errors p pids) (\<lambda>errors.
         throw (RuntimeError (''sandbox port-forward stopped unexpectedly: '' @
           py_strip (py_join newline errors))))
       else seq (fp_sleep p) (\<lambda>_. ret False)))"

fun try_ports :: "'k forward_ports \<Rightarrow> nat list \<Rightarrow> nat \<Rightarrow> rat \<Rightarrow> nat \<Rightarrow> ('k, bool) op" where
  "try_ports p pids port deadline 0 = throw (OtherError ''the clock does not advance'')"
| "try_ports p pids port deadline (Suc n) =
     (\<lambda>k. if fp_now p k < deadline then
            seq (try_port p pids port) (\<lambda>connected.
            if connected then ret True else try_ports p pids port deadline n) k
          else (Inr False, k))"

definition wait_for_port :: "'k forward_ports \<Rightarrow> nat \<Rightarrow> ('k forwards, unit) op" where
  "wait_for_port p port s =
     forward_world (\<lambda>k.
       seq (try_ports p (fw_processes s) port (fp_now p k + 20) forward_rounds) (\<lambda>connected.
       if connected then ret ()
       else throw (TimeoutError (''timed out waiting for sandbox port '' @ nat_str port))) k) s"

definition enter_forwards :: "'k forward_ports \<Rightarrow> ('k forwards, unit) op" where
  "enter_forwards p =
     seq (start_forward p ''service/kafka'' ''19092:29092'') (\<lambda>kafka.
     seq (start_forward p ''service/redis'' ''16379:6379'') (\<lambda>redis.
     seq (\<lambda>s. (Inr (), s\<lparr>fw_processes := [kafka, redis]\<rparr>)) (\<lambda>_.
     seq (wait_for_port p 19092) (\<lambda>_.
     wait_for_port p 16379))))"

fun terminate_all :: "'k forward_ports \<Rightarrow> nat list \<Rightarrow> ('k, unit) op" where
  "terminate_all p [] = ret ()"
| "terminate_all p (pid # pids) = seq (fp_terminate p pid) (\<lambda>_. terminate_all p pids)"

fun is_timeout_expired :: "py_error \<Rightarrow> bool" where
  "is_timeout_expired (TimeoutExpired _) = True"
| "is_timeout_expired _ = False"

definition reap :: "'k forward_ports \<Rightarrow> nat \<Rightarrow> ('k, unit) op" where
  "reap p pid =
     catching (fp_wait p pid) (\<lambda>err. if is_timeout_expired err then fp_kill p pid else throw err)"

fun reap_all :: "'k forward_ports \<Rightarrow> nat list \<Rightarrow> ('k, unit) op" where
  "reap_all p [] = ret ()"
| "reap_all p (pid # pids) = seq (reap p pid) (\<lambda>_. reap_all p pids)"

definition exit_forwards :: "'k forward_ports \<Rightarrow> ('k forwards, unit) op" where
  "exit_forwards p s =
     seq (forward_world (terminate_all p (fw_processes s))) (\<lambda>_.
     seq (forward_world (reap_all p (fw_processes s))) (\<lambda>_ u.
     (Inr (), u\<lparr>fw_processes := []\<rparr>))) s"

text \<open>\<open>with SandboxPortForwards(): body\<close>. The exit runs however the body ends, but only if the entry
  has returned.\<close>

definition with_forwards :: "'k forward_ports \<Rightarrow> ('k, 'a) op \<Rightarrow> ('k, 'a) op" where
  "with_forwards p body k =
     (case seq (enter_forwards p) (\<lambda>_. ensuring (forward_world body) (exit_forwards p))
        \<lparr>fw_processes = [], fw_world = k\<rparr> of
        (r, s) \<Rightarrow> (r, fw_world s))"

section \<open>Which processes are left running\<close>

text \<open>What the operating system promises about the processes \<open>running k\<close> and those of \<open>killed k\<close>, to
  which \<open>SIGKILL\<close> was sent: starting adds a process with a number of its own, to which nothing was
  sent; a \<open>wait\<close> that returns leaves none with that number and one that does not return has timed
  out; killing sends \<open>SIGKILL\<close> and returns at once, whether the process is gone or not; nothing else
  starts a process or sends \<open>SIGKILL\<close>.\<close>

definition tracks ::
  "'k forward_ports \<Rightarrow> ('k \<Rightarrow> nat set) \<Rightarrow> ('k \<Rightarrow> nat set) \<Rightarrow> bool" where
  "tracks p running killed \<longleftrightarrow>
     (\<forall>c k. case fp_popen p c k of
        (Inr pid, k') \<Rightarrow> pid \<notin> running k \<and> running k' = insert pid (running k) \<and> killed k' = killed k - {pid}
      | (Inl _, k') \<Rightarrow> running k' \<subseteq> running k \<and> killed k' = killed k) \<and>
     (\<forall>pid k. case fp_terminate p pid k of
        (r, k') \<Rightarrow> r = Inr () \<and> running k' \<subseteq> running k \<and> killed k' = killed k) \<and>
     (\<forall>pid k. case fp_wait p pid k of
        (Inr _, k') \<Rightarrow> running k' \<subseteq> running k - {pid} \<and> killed k' = killed k
      | (Inl err, k') \<Rightarrow> is_timeout_expired err \<and> running k' \<subseteq> running k \<and> killed k' = killed k) \<and>
     (\<forall>pid k. case fp_kill p pid k of
        (r, k') \<Rightarrow> r = Inr () \<and> running k' \<subseteq> running k \<and> killed k' = insert pid (killed k)) \<and>
     (\<forall>pid k. running (snd (fp_poll p pid k)) \<subseteq> running k) \<and>
     (\<forall>pid k. running (snd (fp_stderr p pid k)) \<subseteq> running k) \<and>
     (\<forall>port k. running (snd (fp_connect p port k)) \<subseteq> running k) \<and>
     (\<forall>k. running (snd (fp_sleep p k)) \<subseteq> running k)"

lemma tracks_popen:
  assumes "tracks p running killed" and "fp_popen p c k = (Inr pid, k')"
  shows "pid \<notin> running k" "running k' = insert pid (running k)"
proof -
  have "case fp_popen p c k of
        (Inr pid, k') \<Rightarrow> pid \<notin> running k \<and> running k' = insert pid (running k) \<and> killed k' = killed k - {pid}
      | (Inl _, k') \<Rightarrow> running k' \<subseteq> running k \<and> killed k' = killed k"
    by (rule assms(1) [unfolded tracks_def, THEN conjunct1, THEN spec, THEN spec])
  with assms(2) show "pid \<notin> running k" "running k' = insert pid (running k)" by simp_all
qed

text \<open>Operations after which no process runs that did not run before.\<close>

definition starts_none :: "('k \<Rightarrow> nat set) \<Rightarrow> ('k, 'a) op \<Rightarrow> bool" where
  "starts_none running m \<longleftrightarrow> (\<forall>k. running (snd (m k)) \<subseteq> running k)"


lemma starts_none_throw [simp]: "starts_none running (throw err)"
  by (simp add: starts_none_def throw_def)









lemma forward_world_eq_iff [op_simps]:
  "forward_world m s = (r, s') \<longleftrightarrow> (\<exists>k. m (fw_world s) = (r, k) \<and> s' = s\<lparr>fw_world := k\<rparr>)"
  by (auto simp: forward_world_def split: prod.splits)






text \<open>The 20 seconds are over after \<open>forward_rounds\<close> rounds if a sleep takes its fifth of a second
  and the clock does not go back.\<close>

lemma try_ports_bounded:
  assumes look: "\<And>k k'. try_port p pids port k = (Inr False, k') \<Longrightarrow> fp_now p k + 1 / 5 \<le> fp_now p k'"
    and "deadline \<le> fp_now p k + of_nat n / 5" and "Suc n \<le> m"
  shows "try_ports p pids port deadline m k = try_ports p pids port deadline (Suc n) k"
  using assms(2,3)
proof (induction n arbitrary: m k)
  case 0
  then show ?case by (cases m) (simp_all add: ret_def)
next
  case (Suc n)
  then obtain i where m: "m = Suc i" "Suc n \<le> i" by (cases m) auto
  have "try_ports p pids port deadline i k' = try_ports p pids port deadline (Suc n) k'"
    if "try_port p pids port k = (Inr False, k')" for k'
    using look [OF that] Suc.prems(1) by (intro Suc.IH m(2)) (simp add: add_divide_distrib)
  then show ?case
    by (auto simp: m seq_def try_ports.simps(2) [of p pids port deadline i]
        try_ports.simps(2) [of p pids port deadline "Suc n"] simp del: try_ports.simps(2)
        split: prod.split sum.split)
qed

text \<open>Without a connection the rounds end at the deadline.\<close>

lemma try_ports_times_out:
  assumes look: "\<And>k. \<exists>k'. try_port p pids port k = (Inr False, k') \<and> running k' = running k \<and>
      fp_now p k + 1 / 5 \<le> fp_now p k'"
    and "deadline \<le> fp_now p k + of_nat n / 5"
  shows "\<exists>k'. try_ports p pids port deadline (Suc n) k = (Inr False, k') \<and> running k' = running k"
  using assms(2)
proof (induction n arbitrary: k)
  case 0
  then show ?case by simp
next
  case (Suc n)
  obtain u where u: "try_port p pids port k = (Inr False, u)" "running u = running k"
    "fp_now p k + 1 / 5 \<le> fp_now p u"
    using look by blast
  with Suc.prems have "deadline \<le> fp_now p u + of_nat n / 5" by (simp add: add_divide_distrib)
  from Suc.IH [OF this] u show ?case
    by (simp add: seq_def try_ports.simps(2) [of p pids port deadline "Suc n"] del: try_ports.simps(2))
qed

section \<open>Properties\<close>


text \<open>C32: A failed entry leaves the forwards running. Python does not call \<open>__exit__\<close> when
  \<open>__enter__\<close> raises: if both processes start and no connection is made, while nothing ends them and
  the clock runs, the 20 seconds pass, the block raises and both are still running.\<close>

theorem failed_entry_leaves_forwards:
  assumes "tracks p running killed" and "keeps running (fp_poll p a)" and "keeps running (fp_poll p b)"
    and "\<And>port. keeps running (fp_connect p port)" and "keeps running (fp_sleep p)"
    and "\<And>port k. fst (fp_connect p port k) = Inr False"
    and "\<And>pid k. fst (fp_poll p pid k) = Inr None" and "\<And>k. fst (fp_sleep p k) = Inr ()"
    and "\<And>port k. fp_now p k \<le> fp_now p (snd (fp_connect p port k))"
    and "\<And>pid k. fp_now p k \<le> fp_now p (snd (fp_poll p pid k))"
    and "\<And>k. fp_now p k + 1 / 5 \<le> fp_now p (snd (fp_sleep p k))"
    and "fp_popen p (forward_command ''service/kafka'' ''19092:29092'') k = (Inr a, k1)"
    and "fp_popen p (forward_command ''service/redis'' ''16379:6379'') k1 = (Inr b, k2)"
  shows "\<exists>k'. with_forwards p body k = (Inl (TimeoutError ''timed out waiting for sandbox port 19092''), k') \<and>
    running k' = running k \<union> {a, b} \<and> a \<notin> running k \<and> b \<notin> running k \<and> a \<noteq> b"
proof -
  have port: "\<exists>k'. try_port p [a, b] port k = (Inr False, k') \<and> running k' = running k \<and>
      fp_now p k + 1 / 5 \<le> fp_now p k'" for port k
  proof -
    obtain k1 where k1: "fp_connect p port k = (Inr False, k1)" "running k1 = running k" "fp_now p k \<le> fp_now p k1"
      using assms(4) [THEN keepsD] assms(6) [of port k] assms(9) [of k port] by (cases "fp_connect p port k") auto
    obtain k2 where k2: "fp_poll p a k1 = (Inr None, k2)" "running k2 = running k1" "fp_now p k1 \<le> fp_now p k2"
      using assms(2) [THEN keepsD] assms(7) [of a k1] assms(10) [of k1 a] by (cases "fp_poll p a k1") auto
    obtain k3 where k3: "fp_poll p b k2 = (Inr None, k3)" "running k3 = running k2" "fp_now p k2 \<le> fp_now p k3"
      using assms(3) [THEN keepsD] assms(7) [of b k2] assms(10) [of k2 b] by (cases "fp_poll p b k2") auto
    obtain k4 where k4: "fp_sleep p k3 = (Inr (), k4)" "running k4 = running k3" "fp_now p k3 + 1 / 5 \<le> fp_now p k4"
      using assms(5) [THEN keepsD] assms(8) [of k3] assms(11) [of k3] by (cases "fp_sleep p k3") auto
    show ?thesis
      using k1 k2 k3 k4 by (simp add: try_port_def seq_def ret_def)
  qed
  obtain k' where "try_ports p [a, b] 19092 (fp_now p k2 + 20) (Suc 100) k2 = (Inr False, k')"
    "running k' = running k2"
    using try_ports_times_out [of p "[a, b]" 19092 running "fp_now p k2 + 20" k2 100, OF port] by auto
  then have k': "try_ports p [a, b] 19092 (fp_now p k2 + 20) forward_rounds k2 = (Inr False, k')"
    "running k' = running k2" by (simp_all add: forward_rounds_def)
  have "with_forwards p body k = (Inl (TimeoutError (''timed out waiting for sandbox port '' @ nat_str 19092)), k')"
    using assms(12,13) k'(1)
    by (simp add: with_forwards_def enter_forwards_def start_forward_def wait_for_port_def
        forward_world_def seq_def throw_def)
  moreover have "nat_str 19092 = ''19092''"
    by (simp add: nat_str.simps digit_char_def) code_simp
  moreover have "a \<notin> running k" "running k1 = insert a (running k)"
    "b \<notin> running k1" "running k2 = insert b (running k1)"
    using tracks_popen [OF assms(1)] assms(12,13) by blast+
  ultimately show ?thesis using k'(2) by auto
qed

section \<open>Witnesses\<close>

text \<open>Processes are numbered in the order they start; \<open>connects\<close> tells whether the ports open. The
  second process does not end when it is told to, and is still there after it was killed.\<close>

record sample_processes =
  os_next :: nat
  os_ended :: "nat set"
  os_killed :: "nat set"
  os_time :: rat

definition sample_forward_ports :: "bool \<Rightarrow> sample_processes forward_ports" where
  "sample_forward_ports connects =
     \<lparr>fp_popen = \<lambda>c k. (Inr (os_next k), k\<lparr>os_next := Suc (os_next k), os_ended := os_ended k - {os_next k},
        os_killed := os_killed k - {os_next k}\<rparr>),
      fp_terminate = \<lambda>pid k. (Inr (), k\<lparr>os_ended := os_ended k \<union> ({pid} - {1})\<rparr>),
      fp_wait = \<lambda>pid k. if pid = 1 then (Inl (TimeoutExpired ''5''), k)
        else (Inr (), k\<lparr>os_ended := insert pid (os_ended k)\<rparr>),
      fp_kill = \<lambda>pid k. (Inr (), k\<lparr>os_killed := insert pid (os_killed k)\<rparr>),
      fp_poll = \<lambda>pid k. (Inr None, k), fp_stderr = \<lambda>pid k. (Inr '''', k),
      fp_connect = \<lambda>port k. (Inr connects, k),
      fp_sleep = \<lambda>k. (Inr (), k\<lparr>os_time := os_time k + 1 / 5\<rparr>), fp_now = os_time\<rparr>"

definition live :: "sample_processes \<Rightarrow> nat set" where
  "live k = {..<os_next k} - os_ended k"

definition no_processes :: sample_processes where
  "no_processes = \<lparr>os_next = 0, os_ended = {}, os_killed = {}, os_time = 0\<rparr>"

lemma sample_tracks: "tracks (sample_forward_ports connects) live os_killed"
  unfolding tracks_def by (intro conjI) (auto simp: sample_forward_ports_def live_def)

lemma sample_keeps:
  "keeps live (fp_poll (sample_forward_ports connects) pid)"
  "keeps live (fp_connect (sample_forward_ports connects) port)"
  "keeps live (fp_sleep (sample_forward_ports connects))"
  by (simp_all add: keeps_def sample_forward_ports_def live_def)


theorem failed_entry_leaves_forwards_witness:
  "\<exists>k'. with_forwards (sample_forward_ports False) (ret (7 :: nat)) no_processes =
      (Inl (TimeoutError ''timed out waiting for sandbox port 19092''), k') \<and>
    live k' = {0, 1}"
proof -
  have start: "fp_popen (sample_forward_ports False) c no_processes = (Inr 0, no_processes\<lparr>os_next := 1\<rparr>)"
    "fp_popen (sample_forward_ports False) c (no_processes\<lparr>os_next := 1\<rparr>) = (Inr 1, no_processes\<lparr>os_next := 2\<rparr>)" for c
    by (simp_all add: sample_forward_ports_def no_processes_def)
  have "\<exists>k'. with_forwards (sample_forward_ports False) (ret (7 :: nat)) no_processes =
      (Inl (TimeoutError ''timed out waiting for sandbox port 19092''), k') \<and>
    live k' = live no_processes \<union> {0, 1} \<and> 0 \<notin> live no_processes \<and> 1 \<notin> live no_processes \<and> (0 :: nat) \<noteq> 1"
    by (rule failed_entry_leaves_forwards [OF sample_tracks _ _ _ _ _ _ _ _ _ _ start])
      (simp_all add: sample_keeps, simp_all add: sample_forward_ports_def)
  moreover have "live no_processes = {}" by (simp add: live_def no_processes_def)
  ultimately show ?thesis by auto
qed

end
