(* ===== verification/Experiments.thy ===== *)
theory Experiments
  imports Complex_Main Context_Index Gemini_Provider
begin

text \<open>
  \<open>kuber_cli/experiments.py\<close>: the context-routing and the worker-scaling experiment. The repository
  is a file tree, the clock a function of the reads made so far; the digest of the contents is
  computed and dropped by the code. \<open>fixed3\<close> and \<open>fixed6\<close> are the formats \<open>.3f\<close> and \<open>.6f\<close>,
  \<open>repr_rat\<close> the \<open>repr\<close> of a float.
\<close>

definition source_suffixes :: "string list" where
  "source_suffixes =
     [''.go'', ''.java'', ''.js'', ''.json'', ''.py'', ''.sh'', ''.toml'', ''.ts'', ''.yaml'', ''.yml'']"

definition source_names :: "string list" where
  "source_names = [''Dockerfile'', ''Makefile'']"

definition experiment_ignored :: "string list" where
  "experiment_ignored =
     [''.git'', ''.mypy_cache'', ''.pytest_cache'', ''.ruff_cache'', ''.venv'', ''__pycache__'',
      ''artifacts'', ''build'', ''dist'']"

record scan_measurement =
  sc_mode :: string
  sc_services_analyzed :: nat
  sc_files_inspected :: nat
  sc_bytes_loaded :: nat
  sc_latency_seconds :: rat
  sc_service_sources_present :: nat
  sc_routing_violations :: nat
  sc_llm_input_tokens :: "int option"

record routing_experiment =
  rx_whole_repository :: scan_measurement
  rx_service_scoped :: scan_measurement
  rx_note :: string

record scaling_trial =
  tr_worker_count :: nat
  tr_wall_clock_seconds :: rat
  tr_workloads_completed :: nat
  tr_workloads_accepted :: nat
  tr_failures :: int
  tr_retries :: nat
  tr_throughput_per_second :: rat
  tr_workers_receiving_tasks :: nat
  tr_system_passed :: bool
  tr_run_id :: string

section \<open>Reading sources\<close>

definition is_source :: "file_tree \<Rightarrow> path \<Rightarrow> path \<Rightarrow> bool" where
  "is_source ft base relative \<longleftrightarrow>
     ft_file ft (base @ relative) \<noteq> None \<and> set relative \<inter> set experiment_ignored = {} \<and>
     (lower_bytes (path_suffix relative) \<in> set source_suffixes \<or> path_name relative \<in> set source_names)"

definition source_files :: "file_tree \<Rightarrow> path \<Rightarrow> path list" where
  "source_files ft base = sort (map (\<lambda>relative. base @ relative) (filter (is_source ft base) (ft_walk ft base)))"

definition file_size :: "file_tree \<Rightarrow> path \<Rightarrow> nat" where
  "file_size ft p = length (or_empty (ft_file ft p))"

text \<open>\<open>elapsed groups\<close> is the time between the two readings of the clock.\<close>

definition read_groups :: "file_tree \<Rightarrow> (path list list \<Rightarrow> rat) \<Rightarrow> path list list \<Rightarrow> nat \<times> nat \<times> rat" where
  "read_groups ft elapsed groups =
     (length (concat groups), sum_list (map (file_size ft) (concat groups)), elapsed groups)"

definition measure_context_routing ::
  "file_tree \<Rightarrow> (path list list \<Rightarrow> rat) \<Rightarrow> (path \<Rightarrow> path list) \<Rightarrow> (path \<Rightarrow> string) \<Rightarrow> string \<Rightarrow>
   routing_experiment result" where
  "measure_context_routing ft elapsed children path_text repository_root =
     (let base = ft_resolve ft repository_root;
          service_root = base @ [''examples'', ''service_catalog''];
          directories = sort (filter (ft_is_dir ft) (children service_root)) in
      if directories = [] then
        Inl (ValueError (''no service repositories found under '' @ path_text service_root))
      else
        (let whole_files = source_files ft base;
             scoped_groups = map (source_files ft) directories in
         if whole_files = [] \<or> list_ex (\<lambda>g. g = []) scoped_groups then
           Inl (ValueError ''experiment requires source files in every service repository'')
         else
           (let service_count = length directories in
            case read_groups ft elapsed (map (\<lambda>_. whole_files) directories) of
              (whole_count, whole_bytes, whole_latency) \<Rightarrow>
            case read_groups ft elapsed scoped_groups of
              (scoped_count, scoped_bytes, scoped_latency) \<Rightarrow>
            Inr \<lparr>rx_whole_repository =
                   \<lparr>sc_mode = ''whole-repository-per-service'', sc_services_analyzed = service_count,
                    sc_files_inspected = whole_count, sc_bytes_loaded = whole_bytes,
                    sc_latency_seconds = whole_latency, sc_service_sources_present = service_count,
                    sc_routing_violations = service_count, sc_llm_input_tokens = None\<rparr>,
                 rx_service_scoped =
                   \<lparr>sc_mode = ''service-scoped'', sc_services_analyzed = service_count,
                    sc_files_inspected = scoped_count, sc_bytes_loaded = scoped_bytes,
                    sc_latency_seconds = scoped_latency, sc_service_sources_present = service_count,
                    sc_routing_violations = 0, sc_llm_input_tokens = None\<rparr>,
                 rx_note = ''LLM input tokens are not measured because context indexing does not invoke an LLM.''\<rparr>)))"

section \<open>Writing evidence\<close>

definition measurement_to_dict :: "(rat \<Rightarrow> string) \<Rightarrow> scan_measurement \<Rightarrow> pydict" where
  "measurement_to_dict repr_rat m =
     [(''mode'', PStr (sc_mode m)), (''services_analyzed'', PInt (int (sc_services_analyzed m))),
      (''files_inspected'', PInt (int (sc_files_inspected m))),
      (''bytes_loaded'', PInt (int (sc_bytes_loaded m))),
      (''latency_seconds'', PFloat (repr_rat (sc_latency_seconds m))),
      (''service_sources_present'', PInt (int (sc_service_sources_present m))),
      (''routing_violations'', PInt (int (sc_routing_violations m))),
      (''llm_input_tokens'', (case sc_llm_input_tokens m of None \<Rightarrow> PNone | Some i \<Rightarrow> PInt i))]"

definition experiment_to_dict :: "(rat \<Rightarrow> string) \<Rightarrow> routing_experiment \<Rightarrow> pydict" where
  "experiment_to_dict repr_rat e =
     [(''whole_repository'', PDict (measurement_to_dict repr_rat (rx_whole_repository e))),
      (''service_scoped'', PDict (measurement_to_dict repr_rat (rx_service_scoped e))),
      (''note'', PStr (rx_note e))]"

definition trial_to_dict :: "(rat \<Rightarrow> string) \<Rightarrow> scaling_trial \<Rightarrow> pydict" where
  "trial_to_dict repr_rat t =
     [(''worker_count'', PInt (int (tr_worker_count t))),
      (''wall_clock_seconds'', PFloat (repr_rat (tr_wall_clock_seconds t))),
      (''workloads_completed'', PInt (int (tr_workloads_completed t))),
      (''workloads_accepted'', PInt (int (tr_workloads_accepted t))),
      (''failures'', PInt (tr_failures t)), (''retries'', PInt (int (tr_retries t))),
      (''throughput_per_second'', PFloat (repr_rat (tr_throughput_per_second t))),
      (''workers_receiving_tasks'', PInt (int (tr_workers_receiving_tasks t))),
      (''system_passed'', PBool (tr_system_passed t)), (''run_id'', PStr (tr_run_id t))]"

text \<open>\<open>json.dumps(v, indent=2)\<close>: items in the order of the dictionary.\<close>

definition line_indent :: "nat \<Rightarrow> string" where
  "line_indent n = newline @ replicate (2 * n) CHR '' ''"

fun json_indented :: "nat \<Rightarrow> pyval \<Rightarrow> string"
  and json_indented_list :: "nat \<Rightarrow> pyval list \<Rightarrow> string list"
  and json_indented_items :: "nat \<Rightarrow> pydict \<Rightarrow> string list" where
  "json_indented n (PDict d) =
     (if d = [] then ''{}''
      else ''{'' @ line_indent (Suc n) @ py_join ('','' @ line_indent (Suc n)) (json_indented_items (Suc n) d) @
        line_indent n @ ''}'')"
| "json_indented n (PList xs) =
     (if xs = [] then ''[]''
      else ''['' @ line_indent (Suc n) @ py_join ('','' @ line_indent (Suc n)) (json_indented_list (Suc n) xs) @
        line_indent n @ '']'')"
| "json_indented n v = json_dumps v"
| "json_indented_list n [] = []"
| "json_indented_list n (x # xs) = json_indented n x # json_indented_list n xs"
| "json_indented_items n [] = []"
| "json_indented_items n ((k, v) # kvs) = (json_string k @ '': '' @ json_indented n v) # json_indented_items n kvs"

definition cells :: "string list \<Rightarrow> string" where
  "cells xs = ''| '' @ py_join '' | '' xs @ '' |''"

definition measurement_row :: "(rat \<Rightarrow> string) \<Rightarrow> string \<Rightarrow> scan_measurement \<Rightarrow> string" where
  "measurement_row fixed6 label m =
     cells [label, nat_str (sc_services_analyzed m), nat_str (sc_files_inspected m),
            nat_str (sc_bytes_loaded m), fixed6 (sc_latency_seconds m),
            nat_str (sc_service_sources_present m), nat_str (sc_routing_violations m), ''not measured'']"

definition context_markdown :: "(rat \<Rightarrow> string) \<Rightarrow> routing_experiment \<Rightarrow> string" where
  "context_markdown fixed6 e =
     ''# Context-routing experiment'' @ newline @ newline @
     ''These are measurements from the current checkout, not embedded benchmark constants.'' @ newline @ newline @
     ''| Mode | Services | Files inspected | Bytes loaded | Latency (s) | '' @
     ''Sources present | Routing violations | LLM tokens |'' @ newline @
     ''|---|---:|---:|---:|---:|---:|---:|---|'' @ newline @
     measurement_row fixed6 ''Whole repository per service'' (rx_whole_repository e) @ newline @
     measurement_row fixed6 ''Service scoped'' (rx_service_scoped e) @ newline @ newline @
     rx_note e @ newline"

definition write_context_experiment ::
  "(rat \<Rightarrow> string) \<Rightarrow> (rat \<Rightarrow> string) \<Rightarrow> routing_experiment \<Rightarrow> string \<Rightarrow> file_system \<Rightarrow>
   (string \<times> string) \<times> file_system" where
  "write_context_experiment repr_rat fixed6 e directory fs =
     (let json_path = directory @ ''/context-routing.json'';
          markdown_path = directory @ ''/context-routing.md'' in
      ((json_path, markdown_path),
       fs(json_path \<mapsto> json_indented 0 (PDict (experiment_to_dict repr_rat e)) @ newline,
          markdown_path \<mapsto> context_markdown fixed6 e)))"

definition trial_row :: "(rat \<Rightarrow> string) \<Rightarrow> scaling_trial \<Rightarrow> string" where
  "trial_row fixed3 t =
     cells [nat_str (tr_worker_count t), fixed3 (tr_wall_clock_seconds t),
            nat_str (tr_workloads_completed t), nat_str (tr_workloads_accepted t), int_str (tr_failures t),
            nat_str (tr_retries t), fixed3 (tr_throughput_per_second t),
            nat_str (tr_workers_receiving_tasks t), (if tr_system_passed t then ''PASS'' else ''FAIL'')]"

definition scaling_markdown :: "(rat \<Rightarrow> string) \<Rightarrow> scaling_trial list \<Rightarrow> string" where
  "scaling_markdown fixed3 trials =
     ''# Kafka worker-scaling experiment'' @ newline @ newline @
     ''Each row is one observed run against the same five-service kind/Kafka sandbox. '' @
     ''The sandbox is reset before every trial. A two-point, single-trial comparison '' @
     ''does not establish linear scaling.'' @ newline @ newline @
     ''| Workers | Wall time (s) | Completed | Accepted | Failures | Retries | '' @
     ''Throughput (workloads/s) | Workers used | System |'' @ newline @
     ''|---:|---:|---:|---:|---:|---:|---:|---:|---|'' @ newline @
     py_join newline (map (trial_row fixed3) trials) @ newline"

definition write_worker_scaling_experiment ::
  "(rat \<Rightarrow> string) \<Rightarrow> (rat \<Rightarrow> string) \<Rightarrow> scaling_trial list \<Rightarrow> string \<Rightarrow> file_system \<Rightarrow>
   (string \<times> string) result \<times> file_system" where
  "write_worker_scaling_experiment repr_rat fixed3 trials directory fs =
     (if trials = [] then (Inl (ValueError ''at least one measured trial is required''), fs)
      else
        (let json_path = directory @ ''/kafka-worker-scaling.json'';
             markdown_path = directory @ ''/kafka-worker-scaling.md'' in
         (Inr (json_path, markdown_path),
          fs(json_path \<mapsto> json_indented 0 (PDict [(''trials'',
                PList (map (\<lambda>t. PDict (trial_to_dict repr_rat t)) trials))]) @ newline,
             markdown_path \<mapsto> scaling_markdown fixed3 trials))))"

section \<open>What is measured\<close>

text \<open>Walking a directory finds what walking the root finds below it.\<close>

definition walks_below :: "file_tree \<Rightarrow> path \<Rightarrow> path \<Rightarrow> bool" where
  "walks_below ft base directory \<longleftrightarrow>
     (\<exists>below. directory = base @ below \<and> set below \<inter> set experiment_ignored = {} \<and>
        distinct (ft_walk ft directory) \<and>
        (\<forall>relative \<in> set (ft_walk ft directory). relative \<noteq> [] \<and> below @ relative \<in> set (ft_walk ft base)))"

lemma path_name_below: "relative \<noteq> [] \<Longrightarrow> path_name (below @ relative) = path_name relative"
  by (simp add: path_name_def)

lemma path_suffix_below: "relative \<noteq> [] \<Longrightarrow> path_suffix (below @ relative) = path_suffix relative"
  by (simp add: path_suffix_def path_name_below)

lemma source_files_below:
  assumes "walks_below ft base directory"
  shows "set (source_files ft directory) \<subseteq> set (source_files ft base)" and "distinct (source_files ft directory)"
proof -
  obtain below where below: "directory = base @ below" "set below \<inter> set experiment_ignored = {}"
    "distinct (ft_walk ft directory)"
    "\<forall>relative \<in> set (ft_walk ft directory). relative \<noteq> [] \<and> below @ relative \<in> set (ft_walk ft base)"
    using assms unfolding walks_below_def by blast
  show "distinct (source_files ft directory)"
    using below(3) by (simp add: source_files_def distinct_map inj_on_def)
  have "is_source ft base (below @ relative)"
    if "is_source ft directory relative" "relative \<in> set (ft_walk ft directory)" for relative
    using that below by (auto simp: is_source_def path_name_below path_suffix_below)
  with below(1,4) show "set (source_files ft directory) \<subseteq> set (source_files ft base)"
    by (fastforce simp: source_files_def)
qed

lemma sum_list_nat_subset:
  fixes f :: "'a \<Rightarrow> nat"
  assumes "distinct xs" and "set xs \<subseteq> set ys"
  shows "sum_list (map f xs) \<le> sum_list (map f ys)"
proof -
  have "sum_list (map f xs) = sum f (set xs)"
    using assms(1) by (simp add: sum_list_distinct_conv_sum_set)
  also have "\<dots> \<le> sum f (set ys)" using assms(2) by (intro sum_mono2) auto
  also have "\<dots> \<le> sum_list (map f ys)"
    by (induction ys) (auto simp: sum.insert_if)
  finally show ?thesis .
qed

lemma groups_bounded:
  fixes f :: "'a \<Rightarrow> nat"
  assumes "list_all (\<lambda>g. distinct g \<and> set g \<subseteq> set whole) (map files_of ds)"
  shows "sum_list (map f (concat (map files_of ds))) \<le> sum_list (map f (concat (map (\<lambda>_. whole) ds)))"
  using assms sum_list_nat_subset [of _ whole f] by (induction ds) (auto intro: add_mono)

text \<open>What the context experiment compares. If walking a service directory finds only what walking
  the repository finds below it, the service-scoped scan never inspects more files or loads more bytes
  than the repeated scan of the whole repository. The counts of sources present and of routing
  violations in the evidence are not measured: they are the number of services and zero, whatever
  the repository holds.\<close>

theorem scoped_scan_bounded:
  assumes "measure_context_routing ft elapsed children path_text r = Inr e"
    and "list_all (walks_below ft (ft_resolve ft r))
      (filter (ft_is_dir ft) (children (ft_resolve ft r @ [''examples'', ''service_catalog''])))"
  shows "sc_files_inspected (rx_service_scoped e) \<le> sc_files_inspected (rx_whole_repository e) \<and>
    sc_bytes_loaded (rx_service_scoped e) \<le> sc_bytes_loaded (rx_whole_repository e) \<and>
    sc_routing_violations (rx_service_scoped e) = 0 \<and>
    sc_routing_violations (rx_whole_repository e) = sc_services_analyzed (rx_whole_repository e) \<and>
    sc_service_sources_present (rx_whole_repository e) = sc_services_analyzed (rx_whole_repository e)"
proof -
  let ?base = "ft_resolve ft r"
  let ?ds = "sort (filter (ft_is_dir ft) (children (?base @ [''examples'', ''service_catalog''])))"
  let ?whole = "source_files ft ?base"
  have groups: "list_all (\<lambda>g. distinct g \<and> set g \<subseteq> set ?whole) (map (source_files ft) ?ds)"
    using assms(2) source_files_below by (auto simp: list_all_iff)
  have files: "length (concat (map (source_files ft) ?ds)) \<le> length (concat (map (\<lambda>_. ?whole) ?ds))"
    using groups_bounded [OF groups, of "\<lambda>_. 1"] by (simp add: sum_list_triv)
  have bytes: "sum_list (map (file_size ft) (concat (map (source_files ft) ?ds))) \<le>
      sum_list (map (file_size ft) (concat (map (\<lambda>_. ?whole) ?ds)))"
    by (rule groups_bounded [OF groups])
  from assms(1) files bytes show ?thesis
    by (auto simp: measure_context_routing_def Let_def read_groups_def split: if_splits)
qed

definition sample_repository :: file_tree where
  "sample_repository =
     \<lparr>ft_resolve = \<lambda>_. [''repo''], ft_join = \<lambda>p t. p @ [t], ft_is_dir = \<lambda>p. length p = 4,
      ft_walk = \<lambda>p. (if p = [''repo''] then [[''main.py''], [''examples'', ''service_catalog'', ''api'', ''a.py'']]
        else if p = [''repo'', ''examples'', ''service_catalog'', ''api''] then [[''a.py'']] else []),
      ft_file = \<lambda>p. if last p \<in> {''a.py'', ''main.py''} then Some ''print(1)'' else None\<rparr>"

abbreviation sample_children :: "path \<Rightarrow> path list" where
  "sample_children p \<equiv> [p @ [''api'']]"

theorem scoped_scan_bounded_witness:
  "\<exists>e. measure_context_routing sample_repository (\<lambda>_. 1) sample_children (py_join ''/'') ''.'' = Inr e \<and>
     sc_files_inspected (rx_service_scoped e) \<le> sc_files_inspected (rx_whole_repository e)"
proof -
  have "list_all (walks_below sample_repository [''repo''])
      (filter (ft_is_dir sample_repository) (sample_children [''repo'', ''examples'', ''service_catalog'']))"
    by (auto simp: walks_below_def sample_repository_def experiment_ignored_def
        intro!: exI [of _ "[''examples'', ''service_catalog'', ''api'']"])
  moreover have sources: "source_files sample_repository [''repo''] \<noteq> []"
    "source_files sample_repository [''repo'', ''examples'', ''service_catalog'', ''api''] \<noteq> []"
    by code_simp+
  then obtain e where "measure_context_routing sample_repository (\<lambda>_. 1) sample_children (py_join ''/'') ''.'' = Inr e"
    by (auto simp: measure_context_routing_def Let_def read_groups_def sample_repository_def)
  ultimately show ?thesis
    using scoped_scan_bounded by (fastforce simp: sample_repository_def)
qed

end
