(* ===== verification/Checkpoint_Store.thy ===== *)
theory Checkpoint_Store
  imports Environment
begin

text \<open>
  \<open>agent_layer/graphs/checkpoints.py\<close>: the store that owns the SQLite connection of LangGraph's
  checkpointer. SQLite, the saver and the file system are ports; a connection is its number.
\<close>

record ('k, 's) checkpoint_ports =
  cp_mkdir :: "string \<Rightarrow> ('k, unit) op"
  cp_connect :: "string \<Rightarrow> ('k, nat) op"
  cp_saver :: "nat \<Rightarrow> ('k, 's) op"
  cp_close :: "nat \<Rightarrow> ('k, unit) op"

record 's checkpoint_store =
  cs_connection :: nat
  cs_saver :: 's

definition new_checkpoint_store ::
  "('k, 's) checkpoint_ports \<Rightarrow> string \<Rightarrow> ('k, 's checkpoint_store) op" where
  "new_checkpoint_store p path =
     seq (cp_mkdir p path) (\<lambda>_.
     seq (cp_connect p path) (\<lambda>connection.
     seq (cp_saver p connection) (\<lambda>saver.
     ret \<lparr>cs_connection = connection, cs_saver = saver\<rparr>)))"

definition close_checkpoints :: "('k, 's) checkpoint_ports \<Rightarrow> 's checkpoint_store \<Rightarrow> ('k, unit) op" where
  "close_checkpoints p store = cp_close p (cs_connection store)"

text \<open>\<open>with SQLiteCheckpointStore(path) as store: body\<close>.\<close>

definition with_checkpoints ::
  "('k, 's) checkpoint_ports \<Rightarrow> string \<Rightarrow> ('s checkpoint_store \<Rightarrow> ('k, 'a) op) \<Rightarrow> ('k, 'a) op" where
  "with_checkpoints p path body =
     seq (new_checkpoint_store p path) (\<lambda>store. ensuring (body store) (close_checkpoints p store))"

text \<open>A store that was opened is closed however the body ends, and the outcome is the body's.\<close>

lemma checkpoints_closed:
  assumes "new_checkpoint_store p path k = (Inr store, k1)" and "body store k1 = (r, k2)"
    and "cp_close p (cs_connection store) k2 = (Inr (), k3)"
  shows "with_checkpoints p path body k = (r, k3)"
  using assms by (simp add: with_checkpoints_def seq_def ensuring_def close_checkpoints_def)

lemma with_checkpoints_Inr:
  assumes "with_checkpoints p path body k = (Inr x, k')"
  obtains store u v where "body store u = (Inr x, v)"
proof -
  from assms obtain store u where "ensuring (body store) (close_checkpoints p store) u = (Inr x, k')"
    by (auto simp: with_checkpoints_def seq_Inr_iff)
  then show thesis
    using that by (auto simp: ensuring_def split: prod.splits sum.splits)
qed

end
