(* ===== verification/Command_Line.thy ===== *)
theory Command_Line
  imports Kubernetes_Environment Experiments Presenters Port_Forwards Checkpoint_Store
begin

text \<open>
  The commands of \<open>kuber_cli/cli.py\<close>. A command works on a terminal (the lines it echoes) and on a
  world \<open>'k\<close> behind ports; \<open>typer\<close>'s exits are errors of their own type. The live system is the
  coordinator of \<open>System_Graph\<close> with its collaborators as ports; opening the stores, the client
  libraries and the scheduling of the workers are operations on the world.
\<close>

datatype cli_error =
    BadParameter string
  | Exit nat
  | Uncaught py_error

record 'k terminal =
  tm_out :: "string list"
  tm_err :: "string list"
  tm_world :: 'k

type_synonym ('k, 'a) command = "(cli_error, 'k terminal, 'a) raising"

definition echo :: "string \<Rightarrow> ('e, 'k terminal, unit) raising" where
  "echo line s = (Inr (), s\<lparr>tm_out := tm_out s @ [line]\<rparr>)"

definition echo_error :: "string \<Rightarrow> ('k, unit) command" where
  "echo_error line s = (Inr (), s\<lparr>tm_err := tm_err s @ [line]\<rparr>)"

text \<open>An operation of the program inside a command: what it raises is not yet caught.\<close>

definition perform :: "('k, 'a) op \<Rightarrow> ('k, 'a) command" where
  "perform m s =
     (case m (tm_world s) of
        (Inl err, k) \<Rightarrow> (Inl (Uncaught err), s\<lparr>tm_world := k\<rparr>)
      | (Inr x, k) \<Rightarrow> (Inr x, s\<lparr>tm_world := k\<rparr>))"

fun echo_all :: "string list \<Rightarrow> ('e, 'k terminal, unit) raising" where
  "echo_all [] = ret ()"
| "echo_all (l # ls) = seq (echo l) (\<lambda>_. echo_all ls)"

section \<open>Inspecting and minimising one account\<close>

text \<open>\<open>cl_write\<close> creates the directory and writes the file, \<open>cl_read\<close> reads a text file.\<close>

record 'k cli_ports =
  cl_kubernetes :: "'k kubernetes_ports"
  cl_read :: "string \<Rightarrow> ('k, string) op"
  cl_write :: "string \<Rightarrow> string \<Rightarrow> ('k, unit) op"

definition effective_policy ::
  "'k cli_ports \<Rightarrow> string \<Rightarrow> string \<Rightarrow> string \<Rightarrow> ('k, policy) op" where
  "effective_policy p manifest service_account namespace =
     seq (read_manifest (cl_kubernetes p) (SourcePath manifest)) (\<lambda>parsed.
     ret (resolve_effective_policy parsed \<lparr>sr_name = service_account, sr_namespace = namespace\<rparr>))"

definition inspection_lines :: "policy \<Rightarrow> string list" where
  "inspection_lines P =
     [''Effective permissions: '' @ nat_str (effective_permission_count P),
      ''Privilege risk score: '' @ int_str (ra_score (score_policy P)) @ ''/100''] @
     map (\<lambda>f. ''+ '' @ rf_reason f @ '': '' @ int_str (rf_points f) @ '' ('' @
            int_str (rf_occurrences f) @ '' occurrence(s))'')
       (ra_findings (score_policy P))"

definition inspect_command :: "'k cli_ports \<Rightarrow> string \<Rightarrow> string \<Rightarrow> string \<Rightarrow> ('k, unit) command" where
  "inspect_command p manifest service_account namespace =
     seq (perform (effective_policy p manifest service_account namespace)) (\<lambda>P.
     echo_all (inspection_lines P))"

definition event_value :: "pyval \<Rightarrow> kube_event result" where
  "event_value v =
     (case v of
        PDict d \<Rightarrow> event_from_dict d
      | _ \<Rightarrow> Inl (TypeError ''event is not an object''))"

definition read_observed :: "'k cli_ports \<Rightarrow> string \<Rightarrow> ('k, kube_event list) op" where
  "read_observed p events =
     seq (cl_read p events) (\<lambda>text.
     seq (lift_result (kp_loads (cl_kubernetes p) text)) (\<lambda>values.
     seq (lift_result (py_iter values)) (\<lambda>items.
     lift_result (rmap event_value items))))"

definition minimized ::
  "'k cli_ports \<Rightarrow> string \<Rightarrow> string \<Rightarrow> string \<Rightarrow> string \<Rightarrow> ('k, policy) op" where
  "minimized p manifest events service_account namespace =
     seq (effective_policy p manifest service_account namespace) (\<lambda>current.
     seq (read_observed p events) (\<lambda>observed.
     lift_result (observed_only_policy current observed)))"

definition minimize_command ::
  "'k cli_ports \<Rightarrow> string \<Rightarrow> string \<Rightarrow> string \<Rightarrow> string \<Rightarrow> string \<Rightarrow> ('k, unit) command" where
  "minimize_command p manifest events service_account namespace output =
     seq (perform (minimized p manifest events service_account namespace)) (\<lambda>candidate.
     seq (perform (cl_write p output (policy_to_yaml (kp_dump (cl_kubernetes p)) candidate))) (\<lambda>_.
     echo (''Unverified candidate written to '' @ output)))"

section \<open>Discovery, trajectories, reports\<close>

text \<open>The registry of the command is opened on its database (whose directory is created first) and
  closed whatever happens; \<open>locate\<close> and \<open>list_deployments\<close> are as in \<open>Context_Index\<close>.\<close>

record 'k registry_ports =
  rg_open :: "string \<Rightarrow> ('k, unit) op"
  rg_put :: "service_context \<Rightarrow> ('k, unit) op"
  rg_close :: "('k, unit) op"

definition service_line :: "service_context \<Rightarrow> string" where
  "service_line s =
     sc_service_id s @ '': Deployment/'' @ sc_deployment_name s @ '', ServiceAccount/'' @
     sc_service_account s @ '', source='' @ rp_local_path (sc_source_repository s)"

definition discover_command ::
  "'k registry_ports \<Rightarrow> (string \<Rightarrow> string) \<Rightarrow> (string \<Rightarrow> deployment list result) \<Rightarrow> string \<Rightarrow> string \<Rightarrow> string \<Rightarrow>
   ('k, unit) command" where
  "discover_command registry locate list_deployments namespace ctx database =
     seq (perform (rg_open registry database)) (\<lambda>_.
     ensuring
       (seq (perform (lift_result (kubernetes_discover locate list_deployments namespace))) (\<lambda>services.
        seq (perform (each (rg_put registry) services)) (\<lambda>_.
        if services = [] then echo ''No Deployments opted in with kuber.dev/source-path.''
        else
          seq (echo_all (map service_line services)) (\<lambda>_.
          echo (''Persisted '' @ nat_str (length services) @ '' services to '' @ database @
            '' (context '' @ ctx @ '').'')))))
       (perform (rg_close registry)))"

text \<open>\<open>jsonl directory\<close> lists the files of \<open>directory.glob("*.jsonl")\<close>.\<close>

definition trajectory_command ::
  "('k \<Rightarrow> string \<Rightarrow> bool) \<Rightarrow> ('k \<Rightarrow> string \<Rightarrow> string list) \<Rightarrow> ('k \<Rightarrow> string \<Rightarrow> bool) \<Rightarrow> string \<Rightarrow> string \<Rightarrow>
   ('k, unit) command" where
  "trajectory_command is_dir jsonl exists run_id base s =
     (let k = tm_world s; scoped = base @ ''/'' @ run_id; legacy = base @ ''/'' @ run_id @ ''.jsonl'';
          paths = (if is_dir k scoped then sort (jsonl k scoped) else []) @
                  (if exists k legacy then [legacy] else []) in
      if paths = [] then (Inl (BadParameter (''trajectory not found for run '' @ run_id)), s)
      else echo_all paths s)"

definition report_command ::
  "'k cli_ports \<Rightarrow> ('k \<Rightarrow> string \<Rightarrow> bool) \<Rightarrow> string \<Rightarrow> ('k, unit) command" where
  "report_command p exists path s =
     (if \<not> exists (tm_world s) path then
        (Inl (BadParameter ''report not found; run `kuber evaluate` first''), s)
      else seq (perform (cl_read p path)) echo s)"

definition experiment_context_command ::
  "file_tree \<Rightarrow> (path list list \<Rightarrow> rat) \<Rightarrow> (path \<Rightarrow> path list) \<Rightarrow> (path \<Rightarrow> string) \<Rightarrow> (rat \<Rightarrow> string) \<Rightarrow>
   (rat \<Rightarrow> string) \<Rightarrow> string \<Rightarrow> string \<Rightarrow> (file_system, unit) command" where
  "experiment_context_command ft elapsed children path_text repr_rat fixed6 repository output =
     seq (perform (lift_result (measure_context_routing ft elapsed children path_text repository))) (\<lambda>e.
     seq (perform (\<lambda>fs. case write_context_experiment repr_rat fixed6 e output fs of
                           (paths, fs') \<Rightarrow> (Inr paths, fs'))) (\<lambda>(json_path, markdown_path).
     let line = \<lambda>label m. label @ nat_str (sc_files_inspected m) @ '' files, '' @
                  nat_str (sc_bytes_loaded m) @ '' bytes, '' @ fixed6 (sc_latency_seconds m) @ ''s'' in
     echo_all
       [''Context-routing experiment'', line ''Whole repository: '' (rx_whole_repository e),
        line ''Service scoped:  '' (rx_service_scoped e),
        ''LLM tokens: not measured (indexing does not call an LLM)'',
        ''Evidence: '' @ json_path @ '' and '' @ markdown_path]))"

section \<open>The live system\<close>

text \<open>\<open>lv_directory\<close> creates the state directory; \<open>lv_open\<close> and \<open>lv_close\<close> open and close a store or
  a client by its name; \<open>lv_system n\<close> is the coordinator
  with \<open>n\<close> workers behind its ports, as \<open>_run_system\<close> wires them, \<open>lv_start\<close> and \<open>lv_cancel\<close> start
  and cancel their tasks; \<open>lv_script\<close> runs a shell script.\<close>

record 'k live_ports =
  lv_directory :: "('k, unit) op"
  lv_open :: "string \<Rightarrow> ('k, unit) op"
  lv_close :: "string \<Rightarrow> ('k, unit) op"
  lv_checkpoints :: "('k, unit) checkpoint_ports"
  lv_start :: "nat \<Rightarrow> ('k, unit) op"
  lv_cancel :: "('k, unit) op"
  lv_system :: "nat \<Rightarrow> 'k system_config"
  lv_prior :: system_state
  lv_uuid :: string
  lv_stats :: "'k \<Rightarrow> worker_stats list"
  lv_clock :: "'k \<Rightarrow> rat"
  lv_script :: "string \<Rightarrow> ('k, completed_process) op"
  lv_exit_text :: "string \<Rightarrow> int \<Rightarrow> string"
  lv_forwards :: "'k forward_ports"
  lv_presenter :: "'k presenter_ports"
  lv_kubernetes :: "'k kubernetes_ports"

record live_observation =
  lo_result :: system_run_result
  lo_worker_stats :: "worker_stats list"
  lo_wall_clock_seconds :: rat

definition verify_end_to_end :: "'k live_ports \<Rightarrow> ('k, bool) op" where
  "verify_end_to_end p =
     seq (lv_script p ''./deploy/kind/scripts/system-smoke.sh'') (\<lambda>completed.
     ret (cp_returncode completed = 0 \<and> contains ''KUBER_SYSTEM_SUMMARY=5/5'' (cp_stdout completed)))"

definition live_system :: "'k live_ports \<Rightarrow> nat \<Rightarrow> 'k system_config" where
  "live_system p n =
     (lv_system p n)\<lparr>sy_ports := (sy_ports (lv_system p n))\<lparr>sp_verifier := Some (verify_end_to_end p)\<rparr>,
       sy_report_directory := Some ''artifacts/runs''\<rparr>"

definition live_body :: "'k live_ports \<Rightarrow> nat \<Rightarrow> ('k, live_observation) op" where
  "live_body p n =
     with_checkpoints (lv_checkpoints p) ''artifacts/state/checkpoints.sqlite'' (\<lambda>checkpoints.
       seq (lv_start p n) (\<lambda>_.
       seq (\<lambda>k. (Inr (lv_clock p k), k)) (\<lambda>started.
       seq (run_system (live_system p n) (lv_prior p) ''kuber-sandbox'' None (lv_uuid p)) (\<lambda>result k.
       (Inr \<lparr>lo_result = result, lo_worker_stats = lv_stats p k,
             lo_wall_clock_seconds = lv_clock p k - started\<rparr>, k)))))"

definition live_cleanup :: "'k live_ports \<Rightarrow> ('k, unit) op" where
  "live_cleanup p =
     seq (lv_cancel p) (\<lambda>_.
     seq (suppressing (lv_close p ''bus'')) (\<lambda>_.
     seq (suppressing (lv_close p ''locks'')) (\<lambda>_.
     seq (suppressing (lv_close p ''deduplication'')) (\<lambda>_.
     seq (lv_close p ''services'') (\<lambda>_.
     lv_close p ''contexts'')))))"

definition live_open :: "'k live_ports \<Rightarrow> ('k, unit) op" where
  "live_open p =
     seq (lv_directory p) (\<lambda>_.
     seq (lv_open p ''services'') (\<lambda>_.
     seq (lv_open p ''contexts'') (\<lambda>_.
     seq (lv_open p ''bus'') (\<lambda>_.
     seq (lv_open p ''locks'') (\<lambda>_.
     lv_open p ''deduplication'')))))"

definition run_live_system :: "'k live_ports \<Rightarrow> nat \<Rightarrow> ('k, live_observation) op" where
  "run_live_system p worker_count =
     (if worker_count < 1 then throw (ValueError ''worker_count must be at least one'')
      else seq (live_open p) (\<lambda>_. ensuring (live_body p worker_count) (live_cleanup p)))"

section \<open>Optimising the sandbox\<close>

definition guard_settings :: kubernetes_settings where
  "guard_settings =
     \<lparr>ks_context = ''kind-kuber'', ks_namespace = ''kuber-sandbox'',
      ks_service_account = ''payment-service-sa'', ks_deployment_name = ''payment-service'',
      ks_workload_id = ''payment-service'',
      ks_smoke_command = [''./deploy/kind/scripts/service-smoke.sh'', ''payment-service''],
      ks_initial_manifest = ''deploy/kind/reference-rbac.yaml'',
      ks_original_binding_name = ''payment-service-overprivileged'', ks_dry_run = None,
      ks_allow_unsafe_context = False, ks_artifact_directory = ''artifacts/policies''\<rparr>"

definition sandbox_guard :: "'k live_ports \<Rightarrow> ('k, unit) op" where
  "sandbox_guard p =
     seq (new_kubernetes (lv_kubernetes p) guard_settings) (\<lambda>guard.
     if kc_dry_run guard then
       throw (SafetyError ''kind-kuber with the sandbox namespace label is required'')
     else ret ())"

text \<open>\<open>subprocess.run(script, check=True, ...)\<close>.\<close>

definition checked_script :: "'k live_ports \<Rightarrow> string \<Rightarrow> ('k, completed_process) op" where
  "checked_script p script =
     seq (lv_script p script) (\<lambda>r.
     if cp_returncode r \<noteq> 0 then
       throw (CalledProcessError (lv_exit_text p script (cp_returncode r)) (cp_stdout r) (cp_stderr r))
     else ret r)"

definition llm_label :: "gemini_provider option \<Rightarrow> string" where
  "llm_label provider =
     (case provider of
        Some g \<Rightarrow> ''Gemini enabled ('' @ gm_model g @ '')''
      | None \<Rightarrow> ''Gemini disabled (no GEMINI_API_KEY); deterministic fallback'')"

text \<open>The two \<open>except\<close> clauses of the commands. \<open>typer.Exit\<close> is a \<open>RuntimeError\<close> whose text is its
  code, so an exit raised inside the \<open>try\<close> is caught as well.\<close>

fun handled :: "py_error \<Rightarrow> bool" where
  "handled (TimeoutError _) = True"
| "handled err = (is_runtime_error err \<or> is_file_not_found err \<or> is_subprocess_error err \<or> is_value_error err)"

definition process_details :: "string \<Rightarrow> string \<Rightarrow> string \<Rightarrow> string" where
  "process_details message out err = py_strip (or_default err (or_default out message))"

definition guarded_command :: "string \<Rightarrow> string \<Rightarrow> ('k, 'a) command \<Rightarrow> ('k, 'a) command" where
  "guarded_command failed unavailable m =
     catching m (\<lambda>err.
       case err of
         Uncaught (CalledProcessError message out errors) \<Rightarrow>
           seq (echo_error (failed @ '': '' @ process_details message out errors)) (\<lambda>_. throw (Exit 1))
       | Uncaught exc \<Rightarrow>
           if handled exc then
             seq (echo_error (unavailable @ '': '' @ error_text exc)) (\<lambda>_. throw (Exit 1))
           else throw err
       | Exit code \<Rightarrow>
           seq (echo_error (unavailable @ '': '' @ nat_str code)) (\<lambda>_. throw (Exit 1))
       | BadParameter _ \<Rightarrow> throw err)"

definition optimize_body ::
  "'k live_ports \<Rightarrow> (string \<times> string) list \<Rightarrow> (string \<times> string) list \<Rightarrow> ('k, system_run_result) op" where
  "optimize_body p environ dotenv =
     seq (sandbox_guard p) (\<lambda>_.
     seq (lift_result (provider_from_environment environ dotenv)) (\<lambda>provider.
     seq (system_start (lv_presenter p) (llm_label provider)) (\<lambda>_.
     seq (checked_script p ''./deploy/kind/scripts/reset.sh'') (\<lambda>reset.
     seq (checked_script p ''./deploy/kind/scripts/warmup-system.sh'') (\<lambda>warmup.
     seq (preparation (lv_presenter p) (cp_stdout reset @ newline @ cp_stdout warmup)) (\<lambda>_.
     seq (with_forwards (lv_forwards p) (run_live_system p 3)) (\<lambda>observation.
     seq (system_finish (lv_presenter p) (lo_result observation)) (\<lambda>_.
     ret (lo_result observation)))))))))"

definition optimize_command ::
  "'k live_ports \<Rightarrow> (string \<times> string) list \<Rightarrow> (string \<times> string) list \<Rightarrow> ('k, unit) command" where
  "optimize_command p environ dotenv =
     seq (guarded_command ''Optimization failed'' ''Optimization unavailable''
            (perform (optimize_body p environ dotenv))) (\<lambda>result.
     if \<not> sr_system_passed result then throw (Exit 1) else ret ())"

section \<open>The worker experiment\<close>

definition accepted_count :: "event_envelope list \<Rightarrow> nat" where
  "accepted_count results = length (filter result_accepted results)"

definition workers_used :: "event_envelope list \<Rightarrow> string list" where
  "workers_used results =
     remdups (map (\<lambda>e. py_str (dget (en_payload e) ''worker_id''))
       (filter (\<lambda>e. map_of (en_payload e) ''worker_id'' \<noteq> None) results))"

definition scaling_trial_of :: "nat \<Rightarrow> live_observation \<Rightarrow> scaling_trial" where
  "scaling_trial_of worker_count observation =
     (let result = lo_result observation; results = sr_results result;
          accepted = accepted_count results; stats = lo_worker_stats observation;
          retries = sum_list (map wt_retried stats); failed_tasks = sum_list (map wt_failed stats);
          rejected = length results - accepted; wall = lo_wall_clock_seconds observation in
      \<lparr>tr_worker_count = worker_count, tr_wall_clock_seconds = wall,
       tr_workloads_completed = length results, tr_workloads_accepted = accepted,
       tr_failures = int (failed_tasks + rejected), tr_retries = retries,
       tr_throughput_per_second = (if wall \<noteq> 0 then of_nat (length results) / wall else 0),
       tr_workers_receiving_tasks = length (workers_used results),
       tr_system_passed = sr_system_passed result, tr_run_id = sr_run_id result\<rparr>)"

definition run_trial :: "'k live_ports \<Rightarrow> (rat \<Rightarrow> string) \<Rightarrow> nat \<Rightarrow> ('k, scaling_trial) command" where
  "run_trial p fixed3 n =
     seq (echo (''Resetting sandbox for '' @ nat_str n @ ''-worker trial...'')) (\<lambda>_.
     seq (perform (checked_script p ''./deploy/kind/scripts/reset.sh'')) (\<lambda>_.
     seq (perform (checked_script p ''./deploy/kind/scripts/warmup-system.sh'')) (\<lambda>_.
     seq (perform (with_forwards (lv_forwards p) (run_live_system p n))) (\<lambda>observation.
     let trial = scaling_trial_of n observation in
     seq (echo (nat_str n @ '' worker(s): '' @ fixed3 (tr_wall_clock_seconds trial) @ ''s, '' @
            nat_str (tr_workloads_completed trial) @ '' completed, '' @ int_str (tr_failures trial) @
            '' failures, '' @ nat_str (tr_retries trial) @ '' retries'')) (\<lambda>_.
     ret trial)))))"

text \<open>\<open>save trials\<close> is \<open>write_worker_scaling_experiment\<close> on the world's files.\<close>

definition experiment_workers_command ::
  "'k live_ports \<Rightarrow> (scaling_trial list \<Rightarrow> ('k, string \<times> string) op) \<Rightarrow> (rat \<Rightarrow> string) \<Rightarrow>
   ('k, unit) command" where
  "experiment_workers_command p save fixed3 =
     guarded_command ''Worker experiment failed'' ''Worker experiment unavailable''
       (seq (perform (sandbox_guard p)) (\<lambda>_.
        seq (run_trial p fixed3 1) (\<lambda>first.
        seq (run_trial p fixed3 3) (\<lambda>second.
        seq (perform (save [first, second])) (\<lambda>(json_path, markdown_path).
        seq (echo ''No linear-scaling claim is inferred from these two observed trials.'') (\<lambda>_.
        seq (echo (''Evidence: '' @ json_path @ '' and '' @ markdown_path)) (\<lambda>_.
        if \<not> (tr_system_passed first \<and> tr_system_passed second) then throw (Exit 1) else ret ())))))))"

end
