(* ===== verification/Command_Properties.thy ===== *)
theory Command_Properties
  imports Command_Line System_Safety Kubernetes_Properties Service_Properties
begin

text \<open>
  What the commands promise: a written candidate means what was observed, the sandbox is only
  changed behind the guard, a successful exit means a verified system, the stores of a run are
  closed, and how a failed trial of the worker experiment is reported.
\<close>

lemma perform_eq_iff [op_simps]:
  "perform m s = (r, s') \<longleftrightarrow>
     (\<exists>k. s' = s\<lparr>tm_world := k\<rparr> \<and>
        ((\<exists>err. m (tm_world s) = (Inl err, k) \<and> r = Inl (Uncaught err)) \<or>
         (\<exists>x. m (tm_world s) = (Inr x, k) \<and> r = Inr x)))"
  by (auto simp: perform_def split: prod.splits sum.splits)

lemma echo_eq_iff [op_simps]:
  "echo line s = (r, s') \<longleftrightarrow> r = Inr () \<and> s' = s\<lparr>tm_out := tm_out s @ [line]\<rparr>"
  by (auto simp: echo_def)

section \<open>Minimising\<close>

lemma read_manifest_eq_iff [op_simps]:
  "read_manifest p source k = (r, k') \<longleftrightarrow>
     r = parse_rbac (kp_exists p k) (kp_read p k) (kp_load_all p) source \<and> k' = k"
  by (auto simp: read_manifest_def)

lemma effective_policy_keeps:
  assumes "effective_policy p manifest sa ns k = (Inr P, k')"
  shows "k' = k \<and> pl_service_account P = sa \<and> pl_service_account_namespace P = ns"
  using assms by (auto simp: effective_policy_def op_simps ret_def resolve_effective_policy_def mk_policy_def)

lemma minimized_Inr:
  assumes "minimized p manifest events sa ns k = (Inr P, k')"
  obtains current observed where "effective_policy p manifest sa ns k = (Inr current, k)"
    and "read_observed p events k = (Inr observed, k')" and "observed_only_policy current observed = Inr P"
  using assms effective_policy_keeps by (fastforce simp: minimized_def seq_Inr_iff lift_result_eq_iff)

text \<open>The candidate of events that name no empty namespace or object can be written as a manifest.\<close>

definition named_events :: "kube_event list \<Rightarrow> bool" where
  "named_events es \<longleftrightarrow>
     (\<forall>e \<in> set es. ev_namespace e \<noteq> Some '''' \<and> ev_resource_name e \<noteq> Some '''')"

lemma observed_only_expressible:
  assumes "observed_only_policy current observed = Inr P" and "named_events observed"
    and "pl_service_account current \<noteq> ''''" and "pl_service_account_namespace current \<noteq> ''''"
  shows "expressible_policy P"
proof -
  have "expressible p" if "p \<in> set (pl_permissions P)" for p
    using observed_only_origin [OF assms(1) that] assms(2)
    by (auto simp: event_permission_Inr_iff expressible_def unambiguous_key_def named_events_def
          split: if_splits)
  moreover have "pl_service_account P = pl_service_account current"
    "pl_service_account_namespace P = pl_service_account_namespace current"
    using assms(1) by (auto simp: observed_only_Inr_iff mk_policy_def)
  ultimately show ?thesis using assms(3,4) by (simp add: expressible_policy_def list_all_iff)
qed

lemma parse_manifest_file:
  assumes "expressible_policy P" and "kp_read p k path = Inr yaml"
    and "kp_load_all p yaml = Inr (policy_to_documents P)"
  shows "parse_rbac (kp_exists p k) (kp_read p k) (kp_load_all p) (SourcePath path) = Inr (generated_rbac P)"
  using assms parse_generated [OF assms(1)]
  by (simp add: parse_rbac_def load_documents_def)

text \<open>
  C17: What \<open>kuber minimize\<close> writes means what was observed. Let the command minimise an account and
  let the file it has written read back as the documents that were dumped. Then the command succeeds,
  and resolving the written file for the same account gives the permissions of the candidate: every
  observed event is authorised, nothing is that the current policy forbids. The account and its
  namespace have names, and no observed event has an empty namespace or an empty resource name: such
  events are not written as what they mean. With an empty namespace the file is refused when it is
  read, and an empty resource name is written as a grant of every name
  (\<open>empty_name_widens_grant\<close>).
\<close>

theorem written_candidate_means_observed:
  assumes "minimized p manifest events sa ns (tm_world s) = (Inr P, k)"
    and "effective_policy p manifest sa ns (tm_world s) = (Inr current, tm_world s)"
    and "read_observed p events (tm_world s) = (Inr observed, k)" and "named_events observed"
    and "sa \<noteq> ''''" and "ns \<noteq> ''''"
    and "cl_write p output yaml k = (Inr (), k')" and "yaml = policy_to_yaml (kp_dump (cl_kubernetes p)) P"
    and "kp_read (cl_kubernetes p) k' output = Inr yaml"
    and "kp_load_all (cl_kubernetes p) yaml = Inr (policy_to_documents P)"
  shows "\<exists>s' Q. minimize_command p manifest events sa ns output s = (Inr (), s') \<and>
    effective_policy p output sa ns (tm_world s') = (Inr Q, tm_world s') \<and>
    map perm_key (pl_permissions Q) = map perm_key (pl_permissions P) \<and>
    (\<forall>e \<in> set observed. is_authorized Q e) \<and> no_more_than Q current"
proof -
  have account: "pl_service_account current = sa" "pl_service_account_namespace current = ns"
    using effective_policy_keeps [OF assms(2)] by auto
  have P: "observed_only_policy current observed = Inr P"
    by (rule minimized_Inr [OF assms(1)]) (use assms(2,3) in auto)
  have ex: "expressible_policy P"
    using observed_only_expressible [OF P assms(4)] account assms(5,6) by simp
  have sa: "account_of P = \<lparr>sr_name = sa, sr_namespace = ns\<rparr>"
    using P account by (auto simp: observed_only_Inr_iff mk_policy_def account_of_def)
  let ?Q = "resolve_effective_policy (generated_rbac P) (account_of P)"
  have keys: "map perm_key (pl_permissions ?Q) = map perm_key (pl_permissions P)"
    by (rule resolve_generated_keys [OF ex observed_only_canonical [OF P]])
  have same: "is_authorized ?Q e \<longleftrightarrow> is_authorized P e" for e
    using matches_keys_cong [of "pl_permissions P" "pl_permissions ?Q" e]
      matches_keys_cong [of "pl_permissions ?Q" "pl_permissions P" e]
      arg_cong [OF keys, of set] by (auto simp: is_authorized_iff)
  have "effective_policy p output sa ns k' = (Inr ?Q, k')"
    using parse_manifest_file [OF ex assms(9,10)] sa
    by (simp add: effective_policy_def read_manifest_def seq_def ret_def)
  moreover have "minimize_command p manifest events sa ns output s =
      (Inr (), s\<lparr>tm_world := k', tm_out := tm_out s @ [''Unverified candidate written to '' @ output]\<rparr>)"
    using assms(1,7,8) by (simp add: minimize_command_def perform_def seq_def echo_def)
  moreover have "\<forall>e \<in> set observed. is_authorized ?Q e"
    using observed_only_authorizes [OF P] same by blast
  moreover have "no_more_than ?Q current"
    using observed_only_no_more [OF P] same by (simp add: no_more_than_def)
  ultimately show ?thesis using keys by auto
qed

section \<open>The guard\<close>

lemma guarded_command_world:
  "tm_world (snd (guarded_command failed off m s)) = tm_world (snd (m s))"
  by (auto simp: guarded_command_def catching_def echo_error_def seq_def throw_def
      split: prod.splits sum.splits cli_error.splits py_error.splits if_splits)

lemma guarded_command_Inr:
  "guarded_command failed off m s = (Inr x, s') \<longleftrightarrow> m s = (Inr x, s')"
  by (auto simp: guarded_command_def catching_def echo_error_def seq_def throw_def
      split: prod.splits sum.splits cli_error.splits py_error.splits if_splits)

lemma guarded_command_fails:
  assumes "m s = (Inl err, s')"
  shows "fst (guarded_command failed off m s) \<noteq> Inr x"
proof
  assume "fst (guarded_command failed off m s) = Inr x"
  then have "m s = (Inr x, snd (guarded_command failed off m s))"
    by (metis guarded_command_Inr prod.collapse)
  with assms show False by simp
qed

lemma sandbox_guard_refuses:
  assumes "\<nexists>cfg k. new_kubernetes (lv_kubernetes p) guard_settings w = (Inr cfg, k) \<and> \<not> kc_dry_run cfg"
  shows "\<exists>err. sandbox_guard p w = (Inl err, snd (new_kubernetes (lv_kubernetes p) guard_settings w))"
  using assms by (auto simp: sandbox_guard_def seq_def throw_def split: prod.splits sum.splits)

text \<open>The construction of the guard asks the cluster two questions.\<close>

lemma new_kubernetes_keeps:
  assumes "keeps view (kp_execute p [''kubectl'', ''config'', ''current-context''] None 10)"
    and "keeps view (kp_execute p [''kubectl'', ''--context'', ks_context st, ''get'', ''namespace'',
      ks_namespace st, ''-o'', sandbox_label] None 10)"
  shows "keeps view (new_kubernetes p st)"
proof -
  have run: "keeps view (run_command p c input check timeout)"
    if "keeps view (kp_execute p c input timeout)" for c input check timeout
    unfolding run_command_def using that by auto
  have "keeps view (is_recognized_sandbox p st)"
  proof -
    have "keeps view (seq (run_command p [''kubectl'', ''config'', ''current-context''] None True 10) (\<lambda>r.
        if py_strip (cp_stdout r) \<noteq> ks_context st \<or> ks_context st \<noteq> ''kind-kuber'' then ret False
        else seq (kubectl p st [''get'', ''namespace'', ks_namespace st, ''-o'', sandbox_label]
               None True 10) (\<lambda>label. ret (py_strip (cp_stdout label) = ''true''))))"
      using assms by (auto simp: kubectl_def intro!: keeps_seq run)
    then show ?thesis
      unfolding keeps_def is_recognized_sandbox_def
      by (auto split: prod.splits sum.splits) (metis snd_conv)+
  qed
  moreover have "keeps view (read_manifest p source)" for source
    by (simp add: keeps_def read_manifest_def)
  ultimately show ?thesis unfolding new_kubernetes_def by (auto intro!: keeps_seq simp: Let_def)
qed

text \<open>
  C16: No command touches an unguarded cluster. If the adapter that the commands build as a guard
  cannot be built or is in dry-run mode, then \<open>kuber optimize\<close> and \<open>kuber experiment-workers\<close> fail
  before any script, store, process or worker is started: all that the two read-only \<open>kubectl\<close>
  questions of the guard leave alone is unchanged.
\<close>

theorem commands_need_the_guard:
  assumes "\<nexists>cfg k. new_kubernetes (lv_kubernetes p) guard_settings (tm_world s) = (Inr cfg, k) \<and>
      \<not> kc_dry_run cfg"
    and "keeps view (kp_execute (lv_kubernetes p) [''kubectl'', ''config'', ''current-context''] None 10)"
    and "keeps view (kp_execute (lv_kubernetes p) [''kubectl'', ''--context'', ''kind-kuber'', ''get'',
      ''namespace'', ''kuber-sandbox'', ''-o'', sandbox_label] None 10)"
  shows "fst (optimize_command p environ dotenv s) \<noteq> Inr () \<and>
    view (tm_world (snd (optimize_command p environ dotenv s))) = view (tm_world s) \<and>
    fst (experiment_workers_command p save fixed3 s) \<noteq> Inr () \<and>
    view (tm_world (snd (experiment_workers_command p save fixed3 s))) = view (tm_world s)"
proof -
  let ?k = "snd (new_kubernetes (lv_kubernetes p) guard_settings (tm_world s))"
  obtain err where guard: "sandbox_guard p (tm_world s) = (Inl err, ?k)"
    using sandbox_guard_refuses [OF assms(1)] by blast
  have kept: "view ?k = view (tm_world s)"
    using new_kubernetes_keeps [of view "lv_kubernetes p" guard_settings] assms(2,3)
    by (simp add: guard_settings_def keeps_def)
  have body: "perform (optimize_body p environ dotenv) s = (Inl (Uncaught err), s\<lparr>tm_world := ?k\<rparr>)"
    by (simp add: perform_def optimize_body_def seq_def guard)
  have optimize: "fst (optimize_command p environ dotenv s) \<noteq> Inr () \<and>
      tm_world (snd (optimize_command p environ dotenv s)) = ?k"
    using guarded_command_world [of "''Optimization failed''" "''Optimization unavailable''"
        "perform (optimize_body p environ dotenv)" s]
      guarded_command_Inr [of "''Optimization failed''" "''Optimization unavailable''"
        "perform (optimize_body p environ dotenv)" s]
    by (auto simp: optimize_command_def seq_def body split: prod.splits sum.splits)
  have first: "seq (perform (sandbox_guard p)) f s = (Inl (Uncaught err), s\<lparr>tm_world := ?k\<rparr>)"
    for f :: "unit \<Rightarrow> ('a, unit) command"
    by (simp add: seq_def perform_def guard)
  have scaling: "fst (experiment_workers_command p save fixed3 s) \<noteq> Inr ()"
    "tm_world (snd (experiment_workers_command p save fixed3 s)) = ?k"
    unfolding experiment_workers_command_def
    by (rule guarded_command_fails, rule first) (simp add: guarded_command_world first)
  from optimize scaling kept show ?thesis by simp
qed

section \<open>The live run\<close>

lemma ensuring_Inr_iff [op_simps]:
  "ensuring m cleanup s = (Inr x, s') \<longleftrightarrow> (\<exists>u. m s = (Inr x, u) \<and> cleanup u = (Inr (), s'))"
  by (auto simp: ensuring_def split: prod.splits sum.splits)

lemma with_forwards_Inr:
  assumes "with_forwards p body k = (Inr x, k')"
  obtains u u' where "body u = (Inr x, u')"
proof -
  from assms obtain s s' where
    "ensuring (forward_world body) (exit_forwards p) s = (Inr x, s')"
    by (auto simp: with_forwards_def seq_Inr_iff split: prod.splits)
  then show thesis
    using that by (auto simp: ensuring_Inr_iff forward_world_def split: prod.splits)
qed

lemma run_live_system_Inr:
  assumes "run_live_system p n k = (Inr observation, k')"
  obtains u u' where "run_system (live_system p n) (lv_prior p) ''kuber-sandbox'' None (lv_uuid p) u =
    (Inr (lo_result observation), u')"
proof -
  from assms obtain u u' where "live_body p n u = (Inr observation, u')"
    by (auto simp: run_live_system_def seq_Inr_iff ensuring_Inr_iff throw_def split: if_splits)
  then show thesis
    using that unfolding live_body_def by (auto elim!: with_checkpoints_Inr simp: seq_Inr_iff)
qed

lemma verify_end_to_end_true:
  assumes "verify_end_to_end p k = (Inr True, k')"
  obtains completed where "lv_script p ''./deploy/kind/scripts/system-smoke.sh'' k = (Inr completed, k')"
    and "cp_returncode completed = 0" and "contains ''KUBER_SYSTEM_SUMMARY=5/5'' (cp_stdout completed)"
  using assms by (auto simp: verify_end_to_end_def seq_Inr_iff ret_eq_iff)

lemma live_verifier [simp]: "sp_verifier (sy_ports (live_system p n)) = Some (verify_end_to_end p)"
  by (simp add: live_system_def)

text \<open>
  C11: What a successful exit of \<open>kuber optimize\<close> means. The command only succeeds if the guard adapter
  was built for a live sandbox and a run of the coordinator passed: there are as many results as
  services, all accepted, and the smoke script of the system ended with code 0 and reported five of
  five services.
\<close>

theorem optimize_success_means_verified:
  assumes "optimize_command p environ dotenv s = (Inr (), s')"
  shows "\<exists>cfg k u r u' v completed v'.
    new_kubernetes (lv_kubernetes p) guard_settings (tm_world s) = (Inr cfg, k) \<and> \<not> kc_dry_run cfg \<and>
    run_system (live_system p 3) (lv_prior p) ''kuber-sandbox'' None (lv_uuid p) u = (Inr r, u') \<and>
    length (sr_results r) = length (sr_services r) \<and> (\<forall>e \<in> set (sr_results r). result_accepted e) \<and>
    lv_script p ''./deploy/kind/scripts/system-smoke.sh'' v = (Inr completed, v') \<and>
    cp_returncode completed = 0 \<and> contains ''KUBER_SYSTEM_SUMMARY=5/5'' (cp_stdout completed)"
proof -
  from assms obtain r k1 where body: "optimize_body p environ dotenv (tm_world s) = (Inr r, k1)"
    and passed: "sr_system_passed r"
    by (auto simp: optimize_command_def seq_Inr_iff guarded_command_Inr perform_eq_iff throw_def split: if_splits)
  from body obtain w k2 k3 observation where guard: "sandbox_guard p (tm_world s) = (Inr (), w)"
    and live: "with_forwards (lv_forwards p) (run_live_system p 3) k2 = (Inr observation, k3)"
    and r: "r = lo_result observation"
    by (auto simp: optimize_body_def seq_Inr_iff ret_eq_iff)
  from guard obtain cfg k where cfg: "new_kubernetes (lv_kubernetes p) guard_settings (tm_world s) = (Inr cfg, k)"
    "\<not> kc_dry_run cfg"
    by (auto simp: sandbox_guard_def seq_Inr_iff throw_def split: if_splits)
  obtain v v' where "run_live_system p 3 v = (Inr observation, v')"
    using with_forwards_Inr [OF live] .
  then obtain u u' where run: "run_system (live_system p 3) (lv_prior p) ''kuber-sandbox'' None (lv_uuid p) u =
      (Inr r, u')"
    unfolding r by (rule run_live_system_Inr)
  from run_system_Inr(3) [OF run] passed obtain a b where
    "length (sr_results r) = length (sr_services r)" "\<forall>e \<in> set (sr_results r). result_accepted e"
    "verify_end_to_end p a = (Inr True, b)"
    by (auto simp: system_verified_def)
  then show ?thesis using cfg run by (auto elim!: verify_end_to_end_true) metis
qed

section \<open>The stores of a run\<close>

text \<open>\<open>opened\<close> names what is open: closing opens nothing, and if it returns, what it closed is closed.\<close>

definition closes :: "'k live_ports \<Rightarrow> ('k \<Rightarrow> string set) \<Rightarrow> bool" where
  "closes p opened \<longleftrightarrow>
     (\<forall>n k r k'. lv_close p n k = (r, k') \<longrightarrow> opened k' \<subseteq> opened k \<and> (r = Inr () \<longrightarrow> n \<notin> opened k'))"

lemma closesD:
  "closes p opened \<Longrightarrow> lv_close p n k = (r, k') \<Longrightarrow> opened k' \<subseteq> opened k \<and> (r = Inr () \<longrightarrow> n \<notin> opened k')"
  by (simp add: closes_def)

lemma returns_unit: "returns m \<Longrightarrow> \<exists>w'. m w = (Inr (), w')"
  by (auto simp: returns_def)

lemma live_cleanup_closes:
  assumes "closes p opened" and "returns (lv_cancel p)"
    and "returns (lv_close p ''services'')" and "returns (lv_close p ''contexts'')"
  shows "\<exists>k'. live_cleanup p k = (Inr (), k') \<and> ''services'' \<notin> opened k' \<and> ''contexts'' \<notin> opened k'"
proof -
  obtain k1 where k1: "lv_cancel p k = (Inr (), k1)" using assms(2) by (meson returns_unit)
  define k2 where "k2 = snd (lv_close p ''deduplication'' (snd (lv_close p ''locks'' (snd (lv_close p ''bus'' k1)))))"
  obtain k3 where k3: "lv_close p ''services'' k2 = (Inr (), k3)" using assms(3) by (meson returns_unit)
  obtain k4 where k4: "lv_close p ''contexts'' k3 = (Inr (), k4)" using assms(4) by (meson returns_unit)
  have "live_cleanup p k = (Inr (), k4)"
    by (simp add: live_cleanup_def seq_def suppressing_def k1 k3 k4 k2_def [symmetric])
  moreover have "''services'' \<notin> opened k4" "''contexts'' \<notin> opened k4"
    using closesD [OF assms(1) k3] closesD [OF assms(1) k4] by auto
  ultimately show ?thesis by blast
qed

text \<open>
  The stores of a live run are closed however it ends. If the stores and clients could be opened,
  the outcome of the run is that of its body, whether it returned, timed out or raised and whatever
  closing the bus, the locks and the deduplication store does, and both SQLite stores are closed.
\<close>

theorem live_run_closes_stores:
  assumes "closes p opened" and "returns (lv_cancel p)"
    and "returns (lv_close p ''services'')" and "returns (lv_close p ''contexts'')"
    and "1 \<le> n" and "live_open p k = (Inr (), k1)" and "run_live_system p n k = (r, k')"
  shows "r = fst (live_body p n k1) \<and> ''services'' \<notin> opened k' \<and> ''contexts'' \<notin> opened k'"
proof -
  obtain r1 k2 where body: "live_body p n k1 = (r1, k2)" by fastforce
  obtain k3 where "live_cleanup p k2 = (Inr (), k3)" "''services'' \<notin> opened k3" "''contexts'' \<notin> opened k3"
    using live_cleanup_closes [OF assms(1-4)] by blast
  then show ?thesis
    using assms(5-7) body by (auto simp: run_live_system_def seq_def ensuring_def)
qed

section \<open>A failed trial\<close>

lemma catching_Inr: "m s = (Inr x, s') \<Longrightarrow> catching m h s = (Inr x, s')"
  by (simp add: catching_def)

text \<open>
  How the worker experiment reports its trials. When both trials ran and the evidence is written,
  the command succeeds if both systems passed; if one did not, the exit that the command raises is
  caught by its own handler, a \<open>RuntimeError\<close> whose text is the exit code, so the failed trial is
  reported as \<open>Worker experiment unavailable: 1\<close>.
\<close>

theorem failed_trial_reported_unavailable:
  assumes "sandbox_guard p (tm_world s) = (Inr (), k)"
    and "run_trial p fixed3 1 (s\<lparr>tm_world := k\<rparr>) = (Inr first, s1)"
    and "run_trial p fixed3 3 s1 = (Inr second, s2)"
    and "save [first, second] (tm_world s2) = (Inr (json_path, markdown_path), k3)"
  shows "\<exists>s3. last (tm_out s3) = ''Evidence: '' @ json_path @ '' and '' @ markdown_path \<and>
    experiment_workers_command p save fixed3 s =
      (if tr_system_passed first \<and> tr_system_passed second then (Inr (), s3)
       else (Inl (Exit 1), s3\<lparr>tm_err := tm_err s3 @ [''Worker experiment unavailable: 1'']\<rparr>))"
proof -
  have one: "nat_str (Suc 0) = ''1''" by code_simp
  let ?s3 = "s2\<lparr>tm_world := k3, tm_out := tm_out s2 @
    [''No linear-scaling claim is inferred from these two observed trials.'',
     ''Evidence: '' @ json_path @ '' and '' @ markdown_path]\<rparr>"
  show ?thesis
    using assms
    by (intro exI [of _ ?s3])
      (auto simp: experiment_workers_command_def guarded_command_def catching_def seq_def perform_def
        echo_def echo_error_def ret_def throw_def one)
qed

section \<open>Witnesses\<close>

text \<open>A quiet machine: processes, stores and scripts of which only the end-to-end script has a result.\<close>

lemmas checkpoint_defs = with_checkpoints_def new_checkpoint_store_def close_checkpoints_def

definition quiet_forwards :: "'k forward_ports" where
  "quiet_forwards =
     \<lparr>fp_popen = \<lambda>c. ret 0, fp_terminate = \<lambda>pid. ret (), fp_wait = \<lambda>pid. ret (), fp_kill = \<lambda>pid. ret (),
      fp_poll = \<lambda>pid. ret None, fp_stderr = \<lambda>pid. ret '''', fp_connect = \<lambda>port. ret True,
      fp_sleep = ret (), fp_now = \<lambda>k. 0\<rparr>"

definition cluster_ports :: "string \<Rightarrow> 'k kubernetes_ports" where
  "cluster_ports label =
     \<lparr>kp_execute = \<lambda>command input timeout. ret \<lparr>cp_returncode = 0,
        cp_stdout = (if length command = 3 then ''kind-kuber'' else label), cp_stderr = ''''\<rparr>,
      kp_write_proposal = \<lambda>path yaml. ret (), kp_sleep = ret (), kp_now = \<lambda>k. 0,
      kp_exists = \<lambda>k path. Inr True, kp_read = \<lambda>k path. Inr '''', kp_load_all = \<lambda>text. Inr [],
      kp_dump = \<lambda>docs. '''', kp_loads = \<lambda>line. Inr (PList []), kp_seconds = \<lambda>r. ''0.1'',
      kp_signal = \<lambda>n. ''signal''\<rparr>"

definition quiet_live :: "string \<Rightarrow> int \<Rightarrow> 'k system_config \<Rightarrow> 'k live_ports" where
  "quiet_live label code cfg =
     \<lparr>lv_directory = ret (), lv_open = \<lambda>n. ret (), lv_close = \<lambda>n. ret (),
      lv_checkpoints = \<lparr>cp_mkdir = \<lambda>d. ret (), cp_connect = \<lambda>d. ret 0, cp_saver = \<lambda>c. ret (), cp_close = \<lambda>c. ret ()\<rparr>,
      lv_start = \<lambda>n. ret (),
      lv_cancel = ret (), lv_system = \<lambda>n. cfg, lv_prior = fresh_system, lv_uuid = ''run-1'',
      lv_stats = \<lambda>k. [], lv_clock = \<lambda>k. 0,
      lv_script = \<lambda>script. ret \<lparr>cp_returncode = (if script = ''./deploy/kind/scripts/system-smoke.sh'' then code else 0),
        cp_stdout = ''KUBER_SYSTEM_SUMMARY=5/5'', cp_stderr = ''''\<rparr>,
      lv_exit_text = \<lambda>script n. script, lv_forwards = quiet_forwards,
      lv_presenter = \<lparr>pp_print = \<lambda>x. ret (), pp_escape = \<lambda>t. t, pp_fixed1 = \<lambda>r. ''0.0'', pp_fixed4 = \<lambda>r. ''0.0''\<rparr>,
      lv_kubernetes = cluster_ports label\<rparr>"

definition full_result :: consumed_event where
  "full_result = (sample_result ''api'')\<lparr>pe_event := (pe_event (sample_result ''api''))\<lparr>en_payload :=
     [(''workload_id'', PStr ''api''), (''worker_id'', PStr ''worker-1''), (''accepted'', PBool True),
      (''original_permissions'', PInt 3), (''final_permissions'', PInt 2), (''original_risk'', PInt 10),
      (''final_risk'', PInt 5), (''tests_passed'', PInt 2), (''tests_total'', PInt 2), (''repairs'', PInt 0)]\<rparr>\<rparr>"

definition terminal_on :: "'k \<Rightarrow> 'k terminal" where
  "terminal_on k = \<lparr>tm_out = [], tm_err = [], tm_world = k\<rparr>"

lemma quiet_forwards_run: "with_forwards quiet_forwards body (k :: 'k) = body k"
proof -
  have tried: "try_ports quiet_forwards pids port 20 forward_rounds w = (Inr True, w)"
    for pids port and w :: 'k
    by (simp add: forward_rounds_def numeral_eq_Suc try_port_def seq_def ret_def quiet_forwards_def)
  have ports: "fp_now quiet_forwards w = 0" "fp_popen quiet_forwards c = ret 0" for w :: 'k and c
    by (simp_all add: quiet_forwards_def)
  have "enter_forwards quiet_forwards \<lparr>fw_processes = [], fw_world = k\<rparr> =
      (Inr (), \<lparr>fw_processes = [0, 0], fw_world = k\<rparr>)"
    by (simp add: enter_forwards_def start_forward_def wait_for_port_def forward_world_def seq_def ret_def
        ports tried)
  then show ?thesis
    by (simp add: with_forwards_def seq_def ensuring_def forward_world_def exit_forwards_def reap_def
        catching_def quiet_forwards_def ret_def split: prod.splits)
qed

lemma quiet_guard:
  "new_kubernetes (cluster_ports label) guard_settings k =
     (Inr (kubernetes_settings.extend guard_settings (kubernetes_config.fields
       (mk_policy [] ''payment-service-sa-effective'' ''payment-service-sa'' ''kuber-sandbox'')
       (py_strip label = ''true'') (py_strip label \<noteq> ''true''))), k)"
proof -
  have strip: "py_strip ''kind-kuber'' = ''kind-kuber''" by code_simp
  show ?thesis
    by (simp add: new_kubernetes_def read_manifest_def is_recognized_sandbox_def run_command_def
        kubectl_def guard_settings_def seq_def ret_def strip cluster_ports_def parse_rbac_def
        load_documents_def parse_documents_def flatten_documents.simps collect_items_def
        resolve_effective_policy_def account_ref_def List.map_filter_def Let_def result_simps)
qed

text \<open>Files: the manifest is there, and what is written is read back.\<close>

definition listed_policy :: policy where
  "listed_policy =
     mk_policy [(sample_permission '''' ''pods'' ''list'' (Some ''prod''))\<lparr>pm_source := Some ''Kuber/verified''\<rparr>]
       ''api-kuber'' ''api'' ''prod''"

definition file_ports :: "string cli_ports" where
  "file_ports =
     \<lparr>cl_kubernetes = (cluster_ports ''true'')\<lparr>
        kp_read := \<lambda>k path. Inr (if path = ''rbac.yaml'' then policy_to_yaml sample_dump sample_policy else k),
        kp_dump := sample_dump,
        kp_load_all := \<lambda>yaml. Inr (policy_to_documents
          (if yaml = policy_to_yaml sample_dump sample_policy then sample_policy else listed_policy)),
        kp_loads := \<lambda>json. Inr (PList [event_to_dict list_pods])\<rparr>,
      cl_read = \<lambda>path. ret ''events'', cl_write = \<lambda>path yaml k. (Inr (), yaml)\<rparr>"

lemma file_ports_sel [simp]:
  "kp_read (cl_kubernetes file_ports) = (\<lambda>k path. Inr (if path = ''rbac.yaml'' then policy_to_yaml sample_dump sample_policy else k))"
  "kp_dump (cl_kubernetes file_ports) = sample_dump"
  "kp_load_all (cl_kubernetes file_ports) = (\<lambda>yaml. Inr (policy_to_documents
          (if yaml = policy_to_yaml sample_dump sample_policy then sample_policy else listed_policy)))"
  "kp_loads (cl_kubernetes file_ports) json = Inr (PList [event_to_dict list_pods])"
  "cl_read file_ports path = ret ''events''" "cl_write file_ports path yaml k = (Inr (), yaml)"
  by (simp_all add: file_ports_def cluster_ports_def)

lemma file_ports_run:
  obtains current where "effective_policy file_ports ''rbac.yaml'' ''api'' ''prod'' k = (Inr current, k)"
    and "read_observed file_ports ''events.json'' k = (Inr [list_pods], k)"
    and "minimized file_ports ''rbac.yaml'' ''events.json'' ''api'' ''prod'' k = (Inr listed_policy, k)"
proof -
  let ?current = "resolve_effective_policy (generated_rbac sample_policy) \<lparr>sr_name = ''api'', sr_namespace = ''prod''\<rparr>"
  have current: "effective_policy file_ports ''rbac.yaml'' ''api'' ''prod'' k = (Inr ?current, k)"
    using parse_manifest_file [OF sample_expressible(1), of "cl_kubernetes file_ports" k "''rbac.yaml''"]
    by (simp add: effective_policy_def read_manifest_def seq_def ret_def)
  have observed: "read_observed file_ports ''events.json'' k = (Inr [list_pods], k)"
    by (simp add: read_observed_def seq_def ret_def lift_result_def py_iter_def event_value_def
        event_to_dict_def event_from_dict_def req_text_def result_simps)
  have "is_authorized ?current list_pods" by code_simp
  moreover have "event_permission list_pods = Inr ((sample_permission '''' ''pods'' ''list'' (Some ''prod''))
      \<lparr>pm_source := Some ''Kuber/verified''\<rparr>)" by code_simp
  ultimately have "observed_only_policy ?current [list_pods] = Inr listed_policy"
    by (simp add: observed_only_policy_def result_simps listed_policy_def)
      (simp add: resolve_effective_policy_def mk_policy_def)
  then have "minimized file_ports ''rbac.yaml'' ''events.json'' ''api'' ''prod'' k = (Inr listed_policy, k)"
    by (simp add: minimized_def current observed seq_def lift_result_def)
  with current observed that show thesis by blast
qed

theorem written_candidate_means_observed_witness:
  "\<exists>s' Q. minimize_command file_ports ''rbac.yaml'' ''events.json'' ''api'' ''prod'' ''out.yaml''
      (terminal_on '''') = (Inr (), s') \<and>
    effective_policy file_ports ''out.yaml'' ''api'' ''prod'' (tm_world s') = (Inr Q, tm_world s') \<and>
    is_authorized Q list_pods"
proof -
  let ?k = "tm_world (terminal_on '''')" and ?yaml = "policy_to_yaml sample_dump listed_policy"
  have distinct: "?yaml \<noteq> policy_to_yaml sample_dump sample_policy"
    by code_simp
  obtain current where effective: "effective_policy file_ports ''rbac.yaml'' ''api'' ''prod'' ?k = (Inr current, ?k)"
    and observed: "read_observed file_ports ''events.json'' ?k = (Inr [list_pods], ?k)"
    and written: "minimized file_ports ''rbac.yaml'' ''events.json'' ''api'' ''prod'' ?k = (Inr listed_policy, ?k)"
    by (rule file_ports_run)
  have "\<exists>s' Q. minimize_command file_ports ''rbac.yaml'' ''events.json'' ''api'' ''prod'' ''out.yaml''
      (terminal_on '''') = (Inr (), s') \<and>
    effective_policy file_ports ''out.yaml'' ''api'' ''prod'' (tm_world s') = (Inr Q, tm_world s') \<and>
    map perm_key (pl_permissions Q) = map perm_key (pl_permissions listed_policy) \<and>
    (\<forall>e \<in> set [list_pods]. is_authorized Q e) \<and> no_more_than Q current"
    by (rule written_candidate_means_observed [where yaml = ?yaml and k' = ?yaml, OF written effective observed])
      (use distinct in \<open>simp_all add: named_events_def list_pods_def sample_call_def\<close>)
  then show ?thesis by auto
qed

theorem commands_need_the_guard_witness:
  "fst (optimize_command (quiet_live ''false'' 0 (canned_system [])) [] [] (terminal_on [])) \<noteq> Inr () \<and>
   fst (experiment_workers_command (quiet_live ''false'' 0 (canned_system [])) (\<lambda>ts. ret (''a'', ''b'')) (\<lambda>r. '''')
     (terminal_on [])) \<noteq> Inr ()"
proof -
  have strip: "py_strip ''false'' = ''false''" by code_simp
  have "\<nexists>cfg k. new_kubernetes (lv_kubernetes (quiet_live ''false'' 0 (canned_system []))) guard_settings
      (tm_world (terminal_on [])) = (Inr cfg, k) \<and> \<not> kc_dry_run cfg"
    by (simp add: quiet_live_def quiet_guard strip kubernetes_settings.defs kubernetes_config.defs)
  moreover have "keeps (\<lambda>k. k) (kp_execute (lv_kubernetes (quiet_live ''false'' 0 (canned_system []))) c i t)"
    for c i t
    by (simp add: keeps_def quiet_live_def cluster_ports_def ret_def)
  ultimately show ?thesis
    using commands_need_the_guard [of "quiet_live ''false'' 0 (canned_system [])" "terminal_on []" "\<lambda>k. k"]
    by blast
qed

theorem live_run_closes_stores_witness:
  "\<exists>k'. run_live_system ((quiet_live ''true'' 0 cfg)\<lparr>lv_open := \<lambda>n k. (Inr (), insert n k),
      lv_close := \<lambda>n k. (Inr (), k - {n}), lv_start := \<lambda>n. throw (RuntimeError ''no event loop'')\<rparr>) 3 {} =
    (Inl (RuntimeError ''no event loop''), k') \<and> ''services'' \<notin> k' \<and> ''contexts'' \<notin> k'"
proof -
  let ?p = "(quiet_live ''true'' 0 cfg)\<lparr>lv_open := \<lambda>n k. (Inr (), insert n k),
      lv_close := \<lambda>n k. (Inr (), k - {n}), lv_start := \<lambda>n. throw (RuntimeError ''no event loop'')\<rparr>"
  let ?k = "{''deduplication'', ''locks'', ''bus'', ''contexts'', ''services''}"
  have "closes ?p (\<lambda>k. k)" by (auto simp: closes_def)
  moreover have "returns (lv_cancel ?p)" "returns (lv_close ?p n)" for n
    by (simp_all add: returns_def quiet_live_def ret_def)
  moreover have "live_open ?p {} = (Inr (), ?k)"
    by (simp add: live_open_def seq_def quiet_live_def ret_def)
  moreover have "fst (live_body ?p 3 ?k) = Inl (RuntimeError ''no event loop'')"
    by (simp add: live_body_def checkpoint_defs quiet_live_def seq_def ensuring_def ret_def throw_def)
  moreover obtain r k' where "run_live_system ?p 3 {} = (r, k')" by fastforce
  ultimately show ?thesis
    using live_run_closes_stores [of ?p "\<lambda>k. k" 3 "{}" ?k r k'] by simp
qed

abbreviation passing_live :: "consumed_event list live_ports" where
  "passing_live \<equiv> quiet_live ''true'' 0 (canned_system [sample_service])"

abbreviation failing_live :: "consumed_event list live_ports" where
  "failing_live \<equiv> quiet_live ''true'' 1 (canned_system [])"

lemma smoke_script:
  "verify_end_to_end (quiet_live label code cfg) k = (Inr (code = 0), k)"
proof -
  have "contains ''KUBER_SYSTEM_SUMMARY=5/5'' ''KUBER_SYSTEM_SUMMARY=5/5''" by code_simp
  then show ?thesis by (simp add: verify_end_to_end_def quiet_live_def seq_def ret_def)
qed

lemma live_canned:
  "live_system (quiet_live label code (canned_system services)) n =
     \<lparr>sy_ports = (canned_ports services)\<lparr>sp_verifier := Some (\<lambda>k. (Inr (code = 0), k))\<rparr>,
      sy_cluster = ''kind-kuber'', sy_report_directory = Some ''artifacts/runs'', sy_message_limit = 5\<rparr>"
proof -
  have "verify_end_to_end (quiet_live label code cfg) = (\<lambda>k. (Inr (code = 0), k))" for cfg :: "consumed_event list system_config"
    by (rule ext) (rule smoke_script)
  then show ?thesis by (simp add: live_system_def quiet_live_def canned_system_def)
qed

lemma passed_run:
  "\<exists>r. run_system (live_system passing_live n) fresh_system ''kuber-sandbox'' None ''run-1'' [full_result] =
      (Inr r, []) \<and> sr_system_passed r \<and> sr_results r = [pe_event full_result]"
  unfolding live_canned
  by (simp add: canned_defs Let_def check_envelope_ok envelope_wf_def fresh_system_def
      full_result_def sample_result_def sample_message_def sample_envelope_def result_accepted_def
      numeral_eq_Suc sample_service_def report_row_def req_text_def result_simps)

lemma failed_run:
  "\<exists>r. run_system (live_system failing_live n) fresh_system ''kuber-sandbox'' None ''run-1'' [] =
      (Inr r, []) \<and> \<not> sr_system_passed r \<and> sr_results r = []"
  unfolding live_canned
  by (simp add: canned_defs Let_def check_envelope_ok envelope_wf_def fresh_system_def
      numeral_eq_Suc)

lemma quiet_live_sel [simp]:
  "lv_open (quiet_live label code cfg) name = ret ()" "lv_close (quiet_live label code cfg) name = ret ()"
  "lv_start (quiet_live label code cfg) n = ret ()" "lv_cancel (quiet_live label code cfg) = ret ()"
  "lv_directory (quiet_live label code cfg) = ret ()" "lv_clock (quiet_live label code cfg) k = 0"
  "lv_stats (quiet_live label code cfg) k = []" "lv_prior (quiet_live label code cfg) = fresh_system"
  "lv_uuid (quiet_live label code cfg) = ''run-1''" "lv_forwards (quiet_live label code cfg) = quiet_forwards"
  "pp_print (lv_presenter (quiet_live label code cfg)) x = ret ()"
  "lv_kubernetes (quiet_live label code cfg) = cluster_ports label"
  by (simp_all add: quiet_live_def)

lemma quiet_live_checkpoints:
  "lv_checkpoints (quiet_live label code cfg) =
     \<lparr>cp_mkdir = \<lambda>d. ret (), cp_connect = \<lambda>d. ret 0, cp_saver = \<lambda>c. ret (), cp_close = \<lambda>c. ret ()\<rparr>"
  by (simp add: quiet_live_def)

lemma quiet_live_run:
  assumes "run_system (live_system (quiet_live label code cfg) n) fresh_system ''kuber-sandbox'' None ''run-1'' k =
      (Inr r, k')" and "1 \<le> n"
  shows "run_live_system (quiet_live label code cfg) n k =
    (Inr \<lparr>lo_result = r, lo_worker_stats = [], lo_wall_clock_seconds = 0\<rparr>, k')"
  using assms
  by (simp add: run_live_system_def live_open_def live_body_def live_cleanup_def ensuring_def suppressing_def
      quiet_live_checkpoints checkpoint_defs seq_def ret_def)

lemma quiet_sandbox: "sandbox_guard (quiet_live ''true'' code cfg) k = (Inr (), k)"
proof -
  have "py_strip ''true'' = ''true''" by code_simp
  then show ?thesis
    by (simp add: sandbox_guard_def seq_def ret_def quiet_guard kubernetes_settings.defs kubernetes_config.defs)
qed

lemma quiet_script:
  "\<exists>r. checked_script (quiet_live label code cfg) ''./deploy/kind/scripts/reset.sh'' k = (Inr r, k)"
  "\<exists>r. checked_script (quiet_live label code cfg) ''./deploy/kind/scripts/warmup-system.sh'' k = (Inr r, k)"
  by (simp_all add: checked_script_def quiet_live_def seq_def ret_def)

lemma silent_print_all: "\<forall>x. pp_print p x = ret () \<Longrightarrow> print_all p xs = ret ()"
  by (induction xs) (simp_all add: seq_def ret_def fun_eq_iff)

lemma silent_presenter:
  assumes "\<forall>x. pp_print p x = ret ()"
  shows "system_start p label w = (Inr (), w)" and "preparation p output w = (Inr (), w)"
    and "result_rows (sr_results r) = Inr rows \<Longrightarrow> system_finish p r w = (Inr (), w)"
  using assms
  by (simp_all add: system_start_def preparation_def system_finish_def silent_print_all seq_def
      lift_result_def ret_def Let_def del: print_all.simps)

lemma passed_optimize:
  obtains s' where "optimize_command passing_live [] [] (terminal_on [full_result]) = (Inr (), s')"
proof -
  obtain r where run: "run_system (live_system passing_live 3) fresh_system ''kuber-sandbox'' None ''run-1''
      [full_result] = (Inr r, [])" and passed: "sr_system_passed r"
    and results: "sr_results r = [pe_event full_result]"
    using passed_run by blast
  have silent: "\<forall>x. pp_print (lv_presenter passing_live) x = ret ()" by simp
  have rows: "\<exists>rows. result_rows (sr_results r) = Inr rows"
    by (simp add: results result_rows_def result_row_def full_result_def text_of_def result_simps)
  have finish: "system_finish (lv_presenter passing_live) r w = (Inr (), w)" for w
    using rows silent_presenter(3) [OF silent] by blast
  have provider: "provider_from_environment [] [] = Inr None" by code_simp
  obtain a b where scripts: "checked_script passing_live ''./deploy/kind/scripts/reset.sh'' [full_result] = (Inr a, [full_result])"
    "checked_script passing_live ''./deploy/kind/scripts/warmup-system.sh'' [full_result] = (Inr b, [full_result])"
    using quiet_script by metis
  have live: "run_live_system passing_live 3 [full_result] =
      (Inr \<lparr>lo_result = r, lo_worker_stats = [], lo_wall_clock_seconds = 0\<rparr>, [])"
    by (rule quiet_live_run [OF run]) simp
  have "optimize_body passing_live [] [] [full_result] = (Inr r, [])"
    by (simp add: optimize_body_def seq_def quiet_sandbox provider lift_result_def silent_presenter [OF silent]
        scripts quiet_forwards_run live finish ret_def)
  then show thesis
    using that passed
    by (simp add: optimize_command_def guarded_command_def catching_def perform_def seq_def ret_def terminal_on_def)
qed

theorem optimize_success_means_verified_witness:
  "\<exists>u r u'. run_system (live_system passing_live 3) fresh_system ''kuber-sandbox'' None ''run-1'' u = (Inr r, u') \<and>
     length (sr_results r) = length (sr_services r) \<and> list_all result_accepted (sr_results r)"
proof -
  obtain s' where "optimize_command passing_live [] [] (terminal_on [full_result]) = (Inr (), s')"
    by (rule passed_optimize)
  from optimize_success_means_verified [OF this] show ?thesis by (auto simp: list_all_iff)
qed

lemma failed_trial:
  "\<exists>trial s'. run_trial failing_live fixed3 n (s\<lparr>tm_world := []\<rparr>) = (Inr trial, s') \<and>
     \<not> tr_system_passed trial \<and> tm_world s' = [] \<and> tm_err s' = tm_err s" if "1 \<le> n"
proof -
  obtain r where run: "run_system (live_system failing_live n) fresh_system ''kuber-sandbox'' None ''run-1'' [] =
      (Inr r, [])" and failed: "\<not> sr_system_passed r"
    using failed_run by blast
  obtain a b where scripts: "checked_script failing_live ''./deploy/kind/scripts/reset.sh'' [] = (Inr a, [])"
    "checked_script failing_live ''./deploy/kind/scripts/warmup-system.sh'' [] = (Inr b, [])"
    using quiet_script by metis
  show ?thesis
    using failed
    by (simp add: run_trial_def seq_def echo_def perform_def scripts quiet_forwards_run
        quiet_live_run [OF run that] Let_def ret_def scaling_trial_of_def)
qed

theorem failed_trial_reported_unavailable_witness:
  "\<exists>s3. experiment_workers_command failing_live (\<lambda>ts. ret (''a.json'', ''b.md'')) (\<lambda>r. '''') (terminal_on []) =
     (Inl (Exit 1), s3) \<and> last (tm_err s3) = ''Worker experiment unavailable: 1''"
proof -
  let ?s = "terminal_on [] :: consumed_event list terminal"
  have s: "?s\<lparr>tm_world := []\<rparr> = ?s" by (simp add: terminal_on_def)
  obtain first s1 where first: "run_trial failing_live (\<lambda>r. '''') 1 (?s\<lparr>tm_world := []\<rparr>) = (Inr first, s1)"
    "\<not> tr_system_passed first" "tm_world s1 = []"
    using failed_trial [of 1 "\<lambda>r. ''''" ?s] by auto
  then have s1: "s1\<lparr>tm_world := []\<rparr> = s1" by simp
  obtain second s2 where second: "run_trial failing_live (\<lambda>r. '''') 3 s1 = (Inr second, s2)" "tm_world s2 = []"
    using failed_trial [of 3 "\<lambda>r. ''''" s1] s1 by auto
  have guard: "sandbox_guard failing_live (tm_world ?s) = (Inr (), [])"
    by (simp add: quiet_sandbox terminal_on_def)
  have save: "ret (''a.json'', ''b.md'') (tm_world s2) = (Inr (''a.json'', ''b.md''), [])"
    by (simp add: second(2) ret_def)
  from failed_trial_reported_unavailable [OF guard first(1) second(1), of "\<lambda>ts. ret (''a.json'', ''b.md'')", OF save]
    first(2) show ?thesis by auto
qed

end
