(* ===== verification/Llm_Diagnostic.thy ===== *)
theory Llm_Diagnostic
  imports Command_Line
begin

text \<open>
  \<open>kuber_cli/llm_diagnostic.py\<close>: one request to Gemini through the provider of Kuber. The command
  prints lines and returns its exit code; what it does not catch ends it with the exception.
  \<open>read_body\<close> is \<open>error.read().decode("utf-8", "replace")\<close>.
\<close>

type_synonym ('k, 'a) diagnostic = "(provider_error, 'k terminal, 'a) raising"

definition default_prompt :: string where
  "default_prompt = ''Reply with exactly: KUBER_GEMINI_OK''"

text \<open>\<open>AttributeError\<close>, \<open>json.JSONDecodeError\<close>, and \<open>OSError\<close> with its subclasses, to which the
  errors of \<open>urllib\<close> belong.\<close>

definition os_errors :: "string list" where
  "os_errors = [''OSError'', ''TimeoutError'', ''ConnectionError'', ''ConnectionResetError'',
     ''ConnectionAbortedError'', ''ConnectionRefusedError'', ''BrokenPipeError'', ''URLError'']"

fun unreadable :: "provider_error \<Rightarrow> bool" where
  "unreadable (ProviderError name _) \<longleftrightarrow> name = ''AttributeError'' \<or> name = ''JSONDecodeError'' \<or> name \<in> set os_errors"
| "unreadable (HttpError _ _) = True"
| "unreadable (UrlError _) = True"

definition on_terminal :: "('k \<Rightarrow> (provider_error + 'a) \<times> 'k) \<Rightarrow> ('k, 'a) diagnostic" where
  "on_terminal m s = (case m (tm_world s) of (r, k) \<Rightarrow> (r, s\<lparr>tm_world := k\<rparr>))"

definition http_error_message ::
  "'k gemini_ports \<Rightarrow> ('k \<Rightarrow> (provider_error + string) \<times> 'k) \<Rightarrow> string \<Rightarrow> ('k, string) diagnostic" where
  "http_error_message p read_body reason =
     catching
       (seq (on_terminal read_body) (\<lambda>body.
        seq (lift_result (gp_loads p body)) (\<lambda>answer.
        seq (lift_result (get_attr answer ''error'' (PDict []))) (\<lambda>details.
        seq (lift_result (get_attr details ''message'' PNone)) (\<lambda>message.
        seq (lift_result (get_attr details ''status'' PNone)) (\<lambda>status.
        ret (case message of
               PStr m \<Rightarrow> if truthy status then py_str status @ '': '' @ m else m
             | _ \<Rightarrow> reason)))))))
       (\<lambda>exc. if unreadable exc then ret reason else throw exc)"

definition timeout_or_value :: "string list" where
  "timeout_or_value = [''TimeoutError'', ''ValueError'', ''JSONDecodeError'', ''UnicodeDecodeError'', ''UnicodeEncodeError'']"

text \<open>The response is printed after the \<open>try\<close>; printing raises nothing here.\<close>

definition diagnose_call ::
  "'k gemini_ports \<Rightarrow> ('k \<Rightarrow> (provider_error + string) \<times> 'k) \<Rightarrow> gemini_provider \<Rightarrow> string \<Rightarrow>
   ('k, nat) diagnostic" where
  "diagnose_call p read_body g prompt =
     catching
       (seq (on_terminal (gemini_complete p g prompt)) (\<lambda>response.
        seq (echo ''Gemini response:'') (\<lambda>_.
        seq (echo response) (\<lambda>_.
        ret 0))))
       (\<lambda>exc. case exc of
          HttpError code reason \<Rightarrow>
            seq (http_error_message p read_body reason) (\<lambda>message.
            seq (echo (''Gemini HTTP '' @ int_str code @ '': '' @ message)) (\<lambda>_. ret 1))
        | UrlError reason \<Rightarrow> seq (echo (''Gemini connection error: '' @ reason)) (\<lambda>_. ret 1)
        | ProviderError name message \<Rightarrow>
            if name \<in> set timeout_or_value then
              seq (echo (''Gemini call failed: '' @ name @ '': '' @ message)) (\<lambda>_. ret 1)
            else throw exc)"

definition diagnostic_main ::
  "'k gemini_ports \<Rightarrow> ('k \<Rightarrow> (provider_error + string) \<times> 'k) \<Rightarrow> (string \<times> string) list \<Rightarrow>
   (string \<times> string) list \<Rightarrow> string option \<Rightarrow> ('k, nat) diagnostic" where
  "diagnostic_main p read_body environ dotenv prompt =
     (case provider_from_environment environ dotenv of
        Inl err \<Rightarrow>
          if is_value_error err then
            seq (echo (''Configuration error: '' @ error_text err)) (\<lambda>_. ret 2)
          else throw (raised err)
      | Inr None \<Rightarrow>
          seq (echo ''Gemini is disabled: set GEMINI_API_KEY in .env.'') (\<lambda>_. ret 2)
      | Inr (Some g) \<Rightarrow>
          seq (echo (''Calling Gemini model: '' @ gm_model g)) (\<lambda>_.
          seq (echo ''API key: loaded (value hidden)'') (\<lambda>_.
          diagnose_call p read_body g (case prompt of None \<Rightarrow> default_prompt | Some t \<Rightarrow> t))))"

section \<open>Exit codes\<close>

lemma gemini_complete_nonempty: "gemini_complete p g prompt w = (Inr response, k) \<Longrightarrow> response \<noteq> ''''"
  by (auto simp: gemini_complete_def dest: decode_answer_nonempty split: prod.splits sum.splits option.splits)

lemma diagnose_call_Inr:
  assumes "diagnose_call p read_body g prompt s = (Inr n, s')"
  shows "(n = 0 \<and> (\<exists>response k. gemini_complete p g prompt (tm_world s) = (Inr response, k) \<and>
      s' = s\<lparr>tm_world := k, tm_out := tm_out s @ [''Gemini response:'', response]\<rparr>)) \<or>
    (n = 1 \<and> (\<exists>exc k. gemini_complete p g prompt (tm_world s) = (Inl exc, k)))"
  using assms
  by (auto simp: diagnose_call_def catching_def seq_def on_terminal_def echo_def ret_def throw_def
      split: prod.splits sum.splits provider_error.splits if_splits)

text \<open>
  What the Gemini check reports. Its exit code is 0 only if a provider is configured and the model
  gave a non-empty response, which is the last line printed; it is 2 only if the configuration is
  missing or invalid, and otherwise it is 1 and the request failed.
\<close>

theorem diagnostic_exit_code:
  assumes "diagnostic_main p read_body environ dotenv prompt s = (Inr n, s')"
  shows "n \<le> 2 \<and>
    (n = 0 \<longrightarrow> (\<exists>g response k. provider_from_environment environ dotenv = Inr (Some g) \<and>
       gemini_complete p g (case prompt of None \<Rightarrow> default_prompt | Some t \<Rightarrow> t) (tm_world s) = (Inr response, k) \<and>
       response \<noteq> '''' \<and> last (tm_out s') = response)) \<and>
    (n = 2 \<longleftrightarrow> (\<nexists>g. provider_from_environment environ dotenv = Inr (Some g))) \<and>
    (n = 2 \<longrightarrow> tm_world s' = tm_world s)"
proof (cases "\<exists>g. provider_from_environment environ dotenv = Inr (Some g)")
  case True
  then obtain g where g: "provider_from_environment environ dotenv = Inr (Some g)" by blast
  let ?prompt = "case prompt of None \<Rightarrow> default_prompt | Some t \<Rightarrow> t"
  have "diagnose_call p read_body g ?prompt
      (s\<lparr>tm_out := tm_out s @ [''Calling Gemini model: '' @ gm_model g, ''API key: loaded (value hidden)'']\<rparr>) =
      (Inr n, s')"
    using assms by (simp add: diagnostic_main_def g seq_def echo_def)
  from diagnose_call_Inr [OF this] g gemini_complete_nonempty show ?thesis by fastforce
next
  case False
  then show ?thesis
    using assms
    by (auto simp: diagnostic_main_def seq_def echo_def ret_def throw_def
        split: sum.splits option.splits if_splits)
qed

text \<open>
  An answer of another shape ends the check with a traceback. If the service answers with JSON
  that is no object, the provider's \<open>AttributeError\<close> is none of the exceptions the check catches.
\<close>

theorem odd_answer_escapes_diagnostic:
  assumes "provider_from_environment environ dotenv = Inr (Some g)"
    and "gp_exchange p (gemini_request g (case prompt of None \<Rightarrow> default_prompt | Some t \<Rightarrow> t)) (tm_world s) =
      (Inr body, k)"
    and "gp_loads p body = Inr v" and "\<forall>d. v \<noteq> PDict d"
  shows "\<exists>message s'. diagnostic_main p read_body environ dotenv prompt s =
    (Inl (ProviderError ''AttributeError'' message), s') \<and>
    last (tm_out s') = ''API key: loaded (value hidden)''"
proof -
  let ?prompt = "case prompt of None \<Rightarrow> default_prompt | Some t \<Rightarrow> t"
  have upt: "[0..<max_request_attempts] = 0 # [1..<max_request_attempts]"
    by (simp add: max_request_attempts_def upt_rec)
  obtain message where "get_attr v ''candidates'' (PList []) = Inl (ProviderError ''AttributeError'' message)"
    using assms(4) by (cases v) (auto simp: get_attr_def)
  then have "gemini_complete p g ?prompt (tm_world s) = (Inl (ProviderError ''AttributeError'' message), k)"
    using assms(2,3) by (simp add: gemini_complete_def upt decode_answer_def)
  then show ?thesis
    using assms(1)
    by (simp add: diagnostic_main_def diagnose_call_def catching_def seq_def echo_def on_terminal_def
        throw_def timeout_or_value_def)
qed

section \<open>Witnesses\<close>

definition answering_ports :: "pyval \<Rightarrow> nat gemini_ports" where
  "answering_ports v = \<lparr>gp_exchange = \<lambda>request n. (Inr ''body'', Suc n), gp_sleep = \<lambda>d n. n, gp_loads = \<lambda>t. Inr v\<rparr>"

definition greeting :: pyval where
  "greeting = PDict [(''candidates'', PList [PDict [(''content'', PDict [(''parts'',
     PList [PDict [(''text'', PStr ''KUBER_GEMINI_OK'')]])])]])]"

abbreviation check_answer :: "pyval \<Rightarrow> (nat, nat) diagnostic" where
  "check_answer v \<equiv> diagnostic_main (answering_ports v) (\<lambda>n. (Inr '''', n)) [(''GEMINI_API_KEY'', ''key'')] [] None"

lemma key_configures:
  "provider_from_environment [(''GEMINI_API_KEY'', ''key'')] [] =
     Inr (Some \<lparr>gm_api_key = ''key'', gm_timeout_seconds = 20, gm_model = default_gemini_model\<rparr>)"
  by code_simp

theorem diagnostic_exit_code_witness:
  "\<exists>s'. check_answer greeting \<lparr>tm_out = [], tm_err = [], tm_world = 0\<rparr> = (Inr 0, s') \<and>
     last (tm_out s') = ''KUBER_GEMINI_OK''"
proof -
  let ?s = "\<lparr>tm_out = [], tm_err = [], tm_world = 0 :: nat\<rparr>"
  let ?g = "\<lparr>gm_api_key = ''key'', gm_timeout_seconds = 20, gm_model = default_gemini_model\<rparr>"
  have upt: "[0..<max_request_attempts] = 0 # [1..<max_request_attempts]"
    by (simp add: max_request_attempts_def upt_rec)
  have "decode_answer (answering_ports greeting) ''body'' = Inr ''KUBER_GEMINI_OK''" by code_simp
  then have answer: "gemini_complete (answering_ports greeting) ?g default_prompt 0 = (Inr ''KUBER_GEMINI_OK'', 1)"
    by (simp add: gemini_complete_def upt) (simp add: answering_ports_def)
  then obtain s' where run: "check_answer greeting ?s = (Inr 0, s')"
    by (simp add: diagnostic_main_def key_configures diagnose_call_def catching_def seq_def echo_def
        on_terminal_def ret_def)
  from diagnostic_exit_code [OF run] run answer show ?thesis by (auto simp: key_configures)
qed

theorem odd_answer_escapes_diagnostic_witness:
  "\<exists>message s'. check_answer (PList []) \<lparr>tm_out = [], tm_err = [], tm_world = 0\<rparr> =
     (Inl (ProviderError ''AttributeError'' message), s')"
proof -
  have "gp_exchange (answering_ports (PList [])) request n = (Inr ''body'', Suc n)"
    "gp_loads (answering_ports (PList [])) t = Inr (PList [])" for request n t
    by (simp_all add: answering_ports_def)
  from odd_answer_escapes_diagnostic [OF key_configures this] show ?thesis by (meson pyval.distinct)
qed

end
